(* ===== verification/Prelude.thy ===== *)
theory Prelude
  imports Complex_Main
begin

text \<open>
  Shared material of the development: the error values and the effect type of a service
  method, money and its rounding, decimal text, tables of rows with a key, and the
  preservation rules that carry an invariant through a method.

  A NestJS service method reads and writes the database and may throw. It is a function
  \<open>'s act = 's \<Rightarrow> (http_error + 'a) \<times> 's\<close>: the thrown exception or the returned value,
  and the state that is left behind in either case (writes made before a throw stay, unless
  the method runs them in a transaction, \<open>txn\<close>, which puts the old state back).
\<close>

named_theorems pres "rules that carry an invariant through an action"
named_theorems act_simps "unfolding rules of the action combinators"
named_theorems guard "steps through the guards of a method that preserves an invariant"
named_theorems reads "actions that leave the state as it is"
named_theorems runs "runs of sequences, first step first"
named_theorems wp "weakest preconditions of the action combinators"

section \<open>Errors and actions\<close>

text \<open>
  The HTTP exceptions the services throw (@nestjs/common), with their message, and Prisma's error
  P2002 for a row that a unique index of the database refuses, with the index. Any other \<open>Error\<close> is a
  \<open>ServerError\<close>: the client sees the status 500.
\<close>

datatype http_error =
    BadRequest string
  | Forbidden string
  | NotFound string
  | Conflict string
  | UniqueViolation string
  | ServerError string

type_synonym ('s, 'a) act = "'s \<Rightarrow> (http_error + 'a) \<times> 's"

definition ret :: "'a \<Rightarrow> ('s, 'a) act" where
  "ret x = (\<lambda>s. (Inr x, s))"

definition throw :: "http_error \<Rightarrow> ('s, 'a) act" where
  "throw e = (\<lambda>s. (Inl e, s))"

definition bnd :: "('s, 'a) act \<Rightarrow> ('a \<Rightarrow> ('s, 'b) act) \<Rightarrow> ('s, 'b) act" where
  "bnd m f = (\<lambda>s. case m s of (Inl e, s') \<Rightarrow> (Inl e, s') | (Inr x, s') \<Rightarrow> f x s')"

definition gets :: "('s \<Rightarrow> 'a) \<Rightarrow> ('s, 'a) act" where
  "gets f = (\<lambda>s. (Inr (f s), s))"

definition modify :: "('s \<Rightarrow> 's) \<Rightarrow> ('s, unit) act" where
  "modify f = (\<lambda>s. (Inr (), f s))"

text \<open>\<open>if (!c) throw e\<close>.\<close>

definition ensure :: "bool \<Rightarrow> http_error \<Rightarrow> ('s, unit) act" where
  "ensure c e = (if c then ret () else throw e)"

text \<open>\<open>const x = ...; if (!x) throw e\<close>.\<close>

definition need :: "'a option \<Rightarrow> http_error \<Rightarrow> ('s, 'a) act" where
  "need x e = (case x of None \<Rightarrow> throw e | Some v \<Rightarrow> ret v)"

text \<open>\<open>prisma.$transaction(async (tx) => ...)\<close>: an exception rolls the writes back.\<close>

definition txn :: "('s, 'a) act \<Rightarrow> ('s, 'a) act" where
  "txn m = (\<lambda>s. case m s of (Inl e, s') \<Rightarrow> (Inl e, s) | (Inr x, s') \<Rightarrow> (Inr x, s'))"

text \<open>\<open>try { m } catch (err) { log }\<close>: the exception is dropped and \<open>d\<close> is the value.\<close>

definition try_log :: "'a \<Rightarrow> ('s, 'a) act \<Rightarrow> ('s, 'a) act" where
  "try_log d m = (\<lambda>s. case m s of (Inl e, s') \<Rightarrow> (Inr d, s') | (Inr x, s') \<Rightarrow> (Inr x, s'))"

text \<open>\<open>for (const x of xs) await f(x)\<close>, and the same collecting the results.\<close>

fun for_each :: "'a list \<Rightarrow> ('a \<Rightarrow> ('s, 'b) act) \<Rightarrow> ('s, 'b list) act" where
  "for_each [] f = ret []"
| "for_each (x # xs) f = bnd (f x) (\<lambda>y. bnd (for_each xs f) (\<lambda>ys. ret (y # ys)))"

definition only_if :: "bool \<Rightarrow> ('s, unit) act \<Rightarrow> ('s, unit) act" where
  "only_if c m = (if c then m else ret ())"

lemmas act_defs = ret_def throw_def bnd_def gets_def modify_def ensure_def need_def
  txn_def try_log_def only_if_def

lemma ret_run [act_simps]: "ret x s = (Inr x, s)"
  by (simp add: ret_def)

lemma throw_run [act_simps]: "throw e s = (Inl e, s)"
  by (simp add: throw_def)

lemma gets_run [act_simps]: "gets f s = (Inr (f s), s)"
  by (simp add: gets_def)

lemma modify_run [act_simps]: "modify f s = (Inr (), f s)"
  by (simp add: modify_def)

lemma bnd_Inr [act_simps]: "m s = (Inr x, s') \<Longrightarrow> bnd m f s = f x s'"
  by (simp add: bnd_def)

lemma bnd_Inl [act_simps]: "m s = (Inl e, s') \<Longrightarrow> bnd m f s = (Inl e, s')"
  by (simp add: bnd_def)

lemma ensure_True [act_simps]: "c \<Longrightarrow> ensure c e s = (Inr (), s)"
  by (simp add: ensure_def ret_def)

lemma ensure_False [act_simps]: "\<not> c \<Longrightarrow> ensure c e s = (Inl e, s)"
  by (simp add: ensure_def throw_def)

lemma need_Some [act_simps]: "need (Some x) e s = (Inr x, s)"
  by (simp add: need_def ret_def)

lemma need_None [act_simps]: "need None e s = (Inl e, s)"
  by (simp add: need_def throw_def)

text \<open>The first step of a sequence, for the steps that only read.\<close>

lemma bnd_gets [runs]: "bnd (gets f) k s = k (f s) s"
  by (simp add: bnd_def gets_def)

lemma bnd_ret [runs]: "bnd (ret x) k s = k x s"
  by (simp add: bnd_def ret_def)

lemma bnd_throw [runs]: "bnd (throw e) k s = (Inl e, s)"
  by (simp add: bnd_def throw_def)

lemma bnd_modify [runs]: "bnd (modify f) k s = k () (f s)"
  by (simp add: bnd_def modify_def)

lemma bnd_need [runs]: "bnd (need x e) k s = (case x of None \<Rightarrow> (Inl e, s) | Some v \<Rightarrow> k v s)"
  by (simp add: bnd_def need_def throw_def ret_def split: option.split)

lemma bnd_ensure [runs]: "bnd (ensure c e) k s = (if c then k () s else (Inl e, s))"
  by (simp add: bnd_def ensure_def throw_def ret_def)

lemma bnd_bnd [runs]: "bnd (bnd m f) k s = bnd m (\<lambda>x. bnd (f x) k) s"
  by (simp add: bnd_def split: prod.split sum.split)

text \<open>A successful run of a sequence is two successful runs.\<close>

lemma bnd_InrE:
  assumes "bnd m f s = (Inr y, t)"
  obtains x s' where "m s = (Inr x, s')" and "f x s' = (Inr y, t)"
  using assms by (auto simp: bnd_def split: prod.splits sum.splits)

lemma ensure_InrE:
  assumes "ensure c e s = (Inr y, t)"
  obtains "c" and "t = s"
  using assms by (auto simp: ensure_def ret_def throw_def split: if_splits)

lemma need_InrE:
  assumes "need x e s = (Inr y, t)"
  obtains "x = Some y" and "t = s"
  using assms by (auto simp: need_def ret_def throw_def split: option.splits)

lemma txn_Inr_iff: "txn m s = (Inr x, t) \<longleftrightarrow> m s = (Inr x, t)"
  by (auto simp: txn_def split: prod.splits sum.splits)

lemma txn_Inl_state: "txn m s = (Inl e, t) \<Longrightarrow> t = s"
  by (auto simp: txn_def split: prod.splits sum.splits)

section \<open>Preservation\<close>

text \<open>
  \<open>preserves I m\<close>: an action started in a state of \<open>I\<close> leaves a state of \<open>I\<close>, whether it
  returns or throws.
\<close>

definition preserves :: "('s \<Rightarrow> bool) \<Rightarrow> ('s, 'a) act \<Rightarrow> bool" where
  "preserves I m \<longleftrightarrow> (\<forall>s. I s \<longrightarrow> I (snd (m s)))"

lemma preservesI: "(\<And>s. I s \<Longrightarrow> I (snd (m s))) \<Longrightarrow> preserves I m"
  by (simp add: preserves_def)

lemma preservesD: "preserves I m \<Longrightarrow> I s \<Longrightarrow> m s = (r, t) \<Longrightarrow> I t"
  by (metis preserves_def snd_conv)

lemma preserves_snd: "preserves I m \<Longrightarrow> I s \<Longrightarrow> I (snd (m s))"
  by (simp add: preserves_def)

lemma preserves_ret [pres]: "preserves I (ret x)"
  by (simp add: preserves_def ret_def)

lemma preserves_throw [pres]: "preserves I (throw e)"
  by (simp add: preserves_def throw_def)

lemma preserves_gets [pres]: "preserves I (gets f)"
  by (simp add: preserves_def gets_def)

lemma preserves_ensure [pres]: "preserves I (ensure c e)"
  by (simp add: preserves_def ensure_def ret_def throw_def)

lemma preserves_need [pres]: "preserves I (need x e)"
  by (simp add: preserves_def need_def ret_def throw_def split: option.split)

lemma preserves_bnd [pres]:
  assumes "preserves I m" and "\<And>x. preserves I (f x)"
  shows "preserves I (bnd m f)"
proof (rule preservesI)
  fix s assume "I s"
  obtain r s' where m: "m s = (r, s')" by (cases "m s")
  with assms(1) \<open>I s\<close> have "I s'" by (rule preservesD)
  with m assms(2) show "I (snd (bnd m f s))"
    by (cases r) (auto simp: bnd_def preserves_def)
qed

lemma preserves_txn [pres]: "preserves I m \<Longrightarrow> preserves I (txn m)"
  unfolding preserves_def txn_def by (auto split: prod.splits sum.splits)

lemma preserves_try_log [pres]: "preserves I m \<Longrightarrow> preserves I (try_log d m)"
  unfolding preserves_def try_log_def by (auto split: prod.splits sum.splits)

lemma preserves_for_each [pres]:
  "(\<And>x. x \<in> set xs \<Longrightarrow> preserves I (f x)) \<Longrightarrow> preserves I (for_each xs f)"
  by (induction xs) (auto intro!: pres)

lemma preserves_only_if [pres]: "(c \<Longrightarrow> preserves I m) \<Longrightarrow> preserves I (only_if c m)"
  by (simp add: only_if_def preserves_ret)

lemma preserves_if [pres]:
  "(c \<Longrightarrow> preserves I m) \<Longrightarrow> (\<not> c \<Longrightarrow> preserves I n) \<Longrightarrow> preserves I (if c then m else n)"
  by simp

lemma preserves_option [pres]:
  "(x = None \<Longrightarrow> preserves I m) \<Longrightarrow> (\<And>v. x = Some v \<Longrightarrow> preserves I (n v)) \<Longrightarrow>
   preserves I (case x of None \<Rightarrow> m | Some v \<Rightarrow> n v)"
  by (cases x) auto

lemma preserves_modify: "(\<And>s. I s \<Longrightarrow> I (f s)) \<Longrightarrow> preserves I (modify f)"
  by (simp add: preserves_def modify_def)

lemma preserves_prod [pres]:
  "(\<And>a b. p = (a, b) \<Longrightarrow> preserves I (f a b)) \<Longrightarrow> preserves I (case p of (a, b) \<Rightarrow> f a b)"
  by (cases p) auto

lemma preserves_sum [pres]:
  "(\<And>a. y = Inl a \<Longrightarrow> preserves I (f a)) \<Longrightarrow> (\<And>b. y = Inr b \<Longrightarrow> preserves I (g b)) \<Longrightarrow>
   preserves I (case y of Inl a \<Rightarrow> f a | Inr b \<Rightarrow> g b)"
  by (cases y) auto

lemma preserves_conj:
  "preserves I m \<Longrightarrow> preserves J m \<Longrightarrow> preserves (\<lambda>s. I s \<and> J s) m"
  by (simp add: preserves_def)

section \<open>Weakest preconditions\<close>

text \<open>
  \<open>wp m Q E s\<close>: run from \<open>s\<close>, the action \<open>m\<close> returns a value and a state that meet \<open>Q\<close> or throws
  and leaves a state that meets \<open>E\<close>. The equations compute it over the combinators.
\<close>

definition wp :: "('s, 'a) act \<Rightarrow> ('a \<Rightarrow> 's \<Rightarrow> bool) \<Rightarrow> ('s \<Rightarrow> bool) \<Rightarrow> 's \<Rightarrow> bool" where
  "wp m Q E s = (case m s of (Inr x, t) \<Rightarrow> Q x t | (Inl e, t) \<Rightarrow> E t)"

lemma wp_ret [wp]: "wp (ret x) Q E = Q x"
  by (simp add: fun_eq_iff wp_def ret_def)

lemma wp_throw [wp]: "wp (throw e) Q E = E"
  by (simp add: fun_eq_iff wp_def throw_def)

lemma wp_gets [wp]: "wp (gets f) Q E = (\<lambda>s. Q (f s) s)"
  by (simp add: fun_eq_iff wp_def gets_def)

lemma wp_modify [wp]: "wp (modify f) Q E = (\<lambda>s. Q () (f s))"
  by (simp add: fun_eq_iff wp_def modify_def)

lemma wp_bnd [wp]: "wp (bnd m f) Q E = wp m (\<lambda>x. wp (f x) Q E) E"
  by (simp add: fun_eq_iff wp_def bnd_def split: prod.split sum.split)

lemma wp_ensure [wp]: "wp (ensure c e) Q E = (if c then Q () else E)"
  by (simp add: fun_eq_iff wp_def ensure_def ret_def throw_def)

lemma wp_need [wp]: "wp (need x e) Q E = (case x of None \<Rightarrow> E | Some v \<Rightarrow> Q v)"
  by (simp add: fun_eq_iff wp_def need_def ret_def throw_def split: option.split)

lemma wp_txn [wp]: "wp (txn m) Q E = (\<lambda>s. wp m Q (\<lambda>_. E s) s)"
  by (simp add: fun_eq_iff wp_def txn_def split: prod.split sum.split)

lemma wp_try_log [wp]: "wp (try_log d m) Q E = wp m Q (Q d)"
  by (simp add: fun_eq_iff wp_def try_log_def split: prod.split sum.split)

lemma wp_only_if [wp]: "wp (only_if c m) Q E = (if c then wp m Q E else Q ())"
  by (simp add: only_if_def wp_ret)

lemma wp_if [wp]: "wp (if c then m else n) Q E = (if c then wp m Q E else wp n Q E)"
  by simp

lemma wp_option [wp]:
  "wp (case x of None \<Rightarrow> m | Some v \<Rightarrow> n v) Q E =
     (case x of None \<Rightarrow> wp m Q E | Some v \<Rightarrow> wp (n v) Q E)"
  by (simp split: option.split)

lemma wp_prod [wp]: "wp (case p of (a, b) \<Rightarrow> m a b) Q E = (case p of (a, b) \<Rightarrow> wp (m a b) Q E)"
  by (simp split: prod.split)

lemma wp_mono:
  "wp m Q E s \<Longrightarrow> (\<And>x t. Q x t \<Longrightarrow> Q' x t) \<Longrightarrow> (\<And>t. E t \<Longrightarrow> E' t) \<Longrightarrow> wp m Q' E' s"
  by (auto simp: wp_def split: prod.splits sum.splits)

lemma wp_run: "wp m Q E s \<Longrightarrow> m s = (Inr x, t) \<Longrightarrow> Q x t"
  by (simp add: wp_def)

lemma preserves_wp: "preserves I m \<longleftrightarrow> (\<forall>s. I s \<longrightarrow> wp m (\<lambda>_. I) I s)"
proof -
  have "wp m (\<lambda>_. I) I s = I (snd (m s))" for s
    by (simp add: wp_def split: prod.split sum.split)
  then show ?thesis by (simp add: preserves_def)
qed

lemma preservesW: "(\<And>s. I s \<Longrightarrow> wp m (\<lambda>_. I) I s) \<Longrightarrow> preserves I m"
  by (simp add: preserves_wp)

lemma wp_preserves:
  "preserves I m \<Longrightarrow> I s \<Longrightarrow> (\<And>x t. I t \<Longrightarrow> Q x t) \<Longrightarrow> (\<And>t. I t \<Longrightarrow> E t) \<Longrightarrow> wp m Q E s"
  unfolding preserves_wp by (blast intro: wp_mono)

text \<open>Inside a transaction only the runs that return count.\<close>

lemma preserves_txnI: "(\<And>s. I s \<Longrightarrow> wp m (\<lambda>_. I) (\<lambda>_. True) s) \<Longrightarrow> preserves I (txn m)"
  unfolding preserves_def txn_def wp_def by (fastforce split: prod.splits sum.splits)

lemma preserves_success: "preserves I m \<Longrightarrow> I s \<Longrightarrow> wp m (\<lambda>_. I) (\<lambda>_. True) s"
  by (rule wp_preserves) simp_all

text \<open>
  A method that checks its guards one after the other and then works in a transaction: each rule
  takes the first action off, and keeps what the guard has established.
\<close>

abbreviation holds :: "('s, 'a) act \<Rightarrow> ('s \<Rightarrow> bool) \<Rightarrow> 's \<Rightarrow> bool" where
  "holds m I s \<equiv> wp m (\<lambda>_. I) I s"

lemma guard_ensure [guard]:
  "I s \<Longrightarrow> (c \<Longrightarrow> holds (k ()) I s) \<Longrightarrow> holds (bnd (ensure c e) k) I s"
  by (simp add: wp)

lemma guard_need [guard]:
  "I s \<Longrightarrow> (\<And>v. x = Some v \<Longrightarrow> holds (k v) I s) \<Longrightarrow> holds (bnd (need x e) k) I s"
  by (simp add: wp split: option.split)

lemma guard_gets [guard]: "holds (k (f s)) I s \<Longrightarrow> holds (bnd (gets f) k) I s"
  by (simp add: wp)

lemma guard_txn [guard]:
  "I s \<Longrightarrow> wp m (\<lambda>_. I) (\<lambda>_. True) s \<Longrightarrow> (\<And>x. preserves I (k x)) \<Longrightarrow> holds (bnd (txn m) k) I s"
  unfolding wp_bnd wp_txn by (erule wp_mono) (auto simp: preserves_wp)

lemma guard_if [guard]:
  "(c \<Longrightarrow> holds m I s) \<Longrightarrow> (\<not> c \<Longrightarrow> holds n I s) \<Longrightarrow> holds (if c then m else n) I s"
  by simp

lemma guard_option [guard]:
  "(x = None \<Longrightarrow> holds m I s) \<Longrightarrow> (\<And>v. x = Some v \<Longrightarrow> holds (n v) I s) \<Longrightarrow>
   holds (case x of None \<Rightarrow> m | Some v \<Rightarrow> n v) I s"
  by (cases x) simp_all

lemma guard_prod [guard]:
  "(\<And>a b. p = (a, b) \<Longrightarrow> holds (m a b) I s) \<Longrightarrow> holds (case p of (a, b) \<Rightarrow> m a b) I s"
  by (cases p) simp

lemma guard_step:
  "preserves I m \<Longrightarrow> I s \<Longrightarrow> (\<And>x t. I t \<Longrightarrow> holds (k x) I t) \<Longrightarrow> holds (bnd m k) I s"
  unfolding wp_bnd by (rule wp_preserves [of I])

lemma guard_done: "preserves I m \<Longrightarrow> I s \<Longrightarrow> holds m I s"
  by (simp add: preserves_wp)

section \<open>Services on the tables of another\<close>

text \<open>
  An action on a part of the state, run by a service that keeps tables of its own beside the part:
  \<open>rd\<close> reads the part and \<open>wr\<close> is its record update.
\<close>

definition on_part :: "('s \<Rightarrow> 'b) \<Rightarrow> (('b \<Rightarrow> 'b) \<Rightarrow> 's \<Rightarrow> 's) \<Rightarrow> ('b, 'a) act \<Rightarrow> ('s, 'a) act" where
  "on_part rd wr m = (\<lambda>s. case m (rd s) of (r, b) \<Rightarrow> (r, wr (\<lambda>_. b) s))"

lemma wp_on_part [wp]:
  "wp (on_part rd wr m) Q E = (\<lambda>s. wp m (\<lambda>x b. Q x (wr (\<lambda>_. b) s)) (\<lambda>b. E (wr (\<lambda>_. b) s)) (rd s))"
  by (simp add: fun_eq_iff wp_def on_part_def split: prod.split sum.split)

lemma on_part_run [act_simps]: "m (rd s) = (r, b) \<Longrightarrow> on_part rd wr m s = (r, wr (\<lambda>_. b) s)"
  by (simp add: on_part_def)

section \<open>Actions that only read\<close>

definition reads_only :: "('s, 'a) act \<Rightarrow> bool" where
  "reads_only m \<longleftrightarrow> (\<forall>s. snd (m s) = s)"

lemma reads_onlyI: "(\<And>s. snd (m s) = s) \<Longrightarrow> reads_only m"
  by (simp add: reads_only_def)

lemma reads_only_run: "reads_only m \<Longrightarrow> m s = (r, t) \<Longrightarrow> t = s"
  by (metis reads_only_def snd_conv)

lemma reads_basic [reads]:
  "reads_only (ret x)" "reads_only (throw err)" "reads_only (gets f)" "reads_only (ensure c err)" "reads_only (need y err)"
  by (simp_all add: reads_only_def act_defs split: option.split)

lemma reads_bnd [reads]: "reads_only m \<Longrightarrow> (\<And>x. reads_only (f x)) \<Longrightarrow> reads_only (bnd m f)"
proof (rule reads_onlyI)
  fix s assume m: "reads_only m" and f: "\<And>x. reads_only (f x)"
  obtain r where "m s = (r, s)" using reads_only_run [OF m] by (cases "m s") auto
  then show "snd (bnd m f s) = s" using f by (auto simp: bnd_def reads_only_def split: sum.split)
qed

lemma reads_if [reads]: "(c \<Longrightarrow> reads_only m) \<Longrightarrow> (\<not> c \<Longrightarrow> reads_only n) \<Longrightarrow> reads_only (if c then m else n)"
  by simp

lemma reads_option [reads]:
  "(x = None \<Longrightarrow> reads_only m) \<Longrightarrow> (\<And>v. x = Some v \<Longrightarrow> reads_only (n v)) \<Longrightarrow>
   reads_only (case x of None \<Rightarrow> m | Some v \<Rightarrow> n v)"
  by (cases x) auto

lemma reads_on_part:
  assumes "\<And>s. wr (\<lambda>_. rd s) s = s" and "reads_only m"
  shows "reads_only (on_part rd wr m)"
proof (rule reads_onlyI)
  fix s
  obtain r where "m (rd s) = (r, rd s)" using reads_only_run [OF assms(2)] by (cases "m (rd s)") auto
  then show "snd (on_part rd wr m s) = s" using assms(1) by (simp add: on_part_def)
qed

lemma reads_preserves: "reads_only m \<Longrightarrow> preserves I m"
  by (simp add: reads_only_def preserves_def)

lemma guard_reads:
  "I s \<Longrightarrow> reads_only m \<Longrightarrow> (\<And>x. holds (k x) I s) \<Longrightarrow> holds (bnd m k) I s"
proof -
  assume inv: "I s" and m: "reads_only m" and k: "\<And>x. holds (k x) I s"
  obtain r where "m s = (r, s)" using reads_only_run [OF m] by (cases "m s") auto
  then show ?thesis using inv k by (simp add: wp_def bnd_def split: sum.split)
qed

text \<open>A successful guard gives what follows the state it found.\<close>

lemma reads_InrE:
  assumes "bnd m f s = (Inr y, t)" and "reads_only m"
  obtains x where "m s = (Inr x, s)" and "f x s = (Inr y, t)"
proof -
  obtain x s' where "m s = (Inr x, s')" "f x s' = (Inr y, t)" using assms(1) by (rule bnd_InrE)
  moreover have "s' = s" using assms(2) calculation(1) by (rule reads_only_run)
  ultimately show thesis using that by simp
qed

section \<open>Tables\<close>

text \<open>
  A Prisma model is a list of rows in insertion order. \<open>findUnique\<close>, \<open>create\<close>, \<open>update\<close> and
  \<open>updateMany\<close> are the functions below; \<open>row_store\<close> is the interface the services rely on.
\<close>

definition find_row :: "('r \<Rightarrow> 'k) \<Rightarrow> 'k \<Rightarrow> 'r list \<Rightarrow> 'r option" where
  "find_row key k t = find (\<lambda>r. key r = k) t"

definition add_row :: "'r \<Rightarrow> 'r list \<Rightarrow> 'r list" where
  "add_row r t = t @ [r]"

definition set_where :: "('r \<Rightarrow> bool) \<Rightarrow> ('r \<Rightarrow> 'r) \<Rightarrow> 'r list \<Rightarrow> 'r list" where
  "set_where p f t = map (\<lambda>r. if p r then f r else r) t"

definition set_row :: "('r \<Rightarrow> 'k) \<Rightarrow> 'k \<Rightarrow> ('r \<Rightarrow> 'r) \<Rightarrow> 'r list \<Rightarrow> 'r list" where
  "set_row key k f t = set_where (\<lambda>r. key r = k) f t"

definition count_where :: "('r \<Rightarrow> bool) \<Rightarrow> 'r list \<Rightarrow> nat" where
  "count_where p t = length (filter p t)"

definition sum_where :: "('r \<Rightarrow> bool) \<Rightarrow> ('r \<Rightarrow> rat) \<Rightarrow> 'r list \<Rightarrow> rat" where
  "sum_where p f t = sum_list (map f (filter p t))"

lemma sum_where_Nil [simp]: "sum_where p f [] = 0"
  by (simp add: sum_where_def)

lemma sum_where_Cons [simp]:
  "sum_where p f (x # xs) = (if p x then f x + sum_where p f xs else sum_where p f xs)"
  by (simp add: sum_where_def)

lemma sum_where_append [simp]: "sum_where p f (xs @ ys) = sum_where p f xs + sum_where p f ys"
  by (simp add: sum_where_def)

lemma sum_where_none: "(\<And>x. x \<in> set xs \<Longrightarrow> \<not> p x) \<Longrightarrow> sum_where p f xs = 0"
  by (induction xs) auto

lemma sum_where_all: "(\<And>x. x \<in> set xs \<Longrightarrow> p x) \<Longrightarrow> sum_where p f xs = sum_list (map f xs)"
  by (induction xs) auto

lemma sum_where_split:
  "sum_where p f xs = sum_where (\<lambda>x. p x \<and> q x) f xs + sum_where (\<lambda>x. p x \<and> \<not> q x) f xs"
  by (induction xs) auto

lemma sum_where_cong:
  "xs = ys \<Longrightarrow> (\<And>x. x \<in> set ys \<Longrightarrow> p x = q x) \<Longrightarrow> (\<And>x. x \<in> set ys \<Longrightarrow> q x \<Longrightarrow> f x = g x) \<Longrightarrow>
   sum_where p f xs = sum_where q g ys"
  by (induction xs arbitrary: ys) auto

lemma sum_where_nonneg: "(\<And>x. x \<in> set xs \<Longrightarrow> p x \<Longrightarrow> 0 \<le> f x) \<Longrightarrow> 0 \<le> sum_where p f xs"
  by (induction xs) (auto intro: add_nonneg_nonneg)

locale row_store =
  fixes look :: "'k \<Rightarrow> 't \<Rightarrow> 'r option"
    and put :: "'r \<Rightarrow> 't \<Rightarrow> 't"
    and alter :: "'k \<Rightarrow> ('r \<Rightarrow> 'r) \<Rightarrow> 't \<Rightarrow> 't"
    and key :: "'r \<Rightarrow> 'k"
  assumes look_put: "look (key r) t = None \<Longrightarrow>
      look k (put r t) = (if k = key r then Some r else look k t)"
    and look_alter: "(\<And>r. key (f r) = key r) \<Longrightarrow>
      look k (alter k' f t) = (if k = k' then map_option f (look k t) else look k t)"
    and look_key: "look k t = Some r \<Longrightarrow> key r = k"
begin

lemma look_put_same: "look (key r) t = None \<Longrightarrow> look (key r) (put r t) = Some r"
  by (simp add: look_put)

lemma look_put_other: "look (key r) t = None \<Longrightarrow> k \<noteq> key r \<Longrightarrow> look k (put r t) = look k t"
  by (simp add: look_put)

lemma look_alter_same:
  "(\<And>r. key (f r) = key r) \<Longrightarrow> look k t = Some r \<Longrightarrow> look k (alter k f t) = Some (f r)"
  by (simp add: look_alter)

lemma look_alter_other:
  "(\<And>r. key (f r) = key r) \<Longrightarrow> k \<noteq> k' \<Longrightarrow> look k (alter k' f t) = look k t"
  by (simp add: look_alter)

lemma look_alter_alter:
  assumes f: "\<And>r. key (f r) = key r" and g: "\<And>r. key (g r) = key r"
  shows "look k (alter k' g (alter k' f t)) = look k (alter k' (g \<circ> f) t)"
  using f g by (simp add: look_alter option.map_comp)

lemma look_alter_None:
  "(\<And>r. key (f r) = key r) \<Longrightarrow> look k' t = None \<Longrightarrow> look k (alter k' f t) = look k t"
  by (simp add: look_alter)

end

lemma find_append:
  "find P (xs @ ys) = (case find P xs of None \<Rightarrow> find P ys | Some x \<Rightarrow> Some x)"
  by (induction xs) auto

lemma find_row_key: "find_row key k t = Some r \<Longrightarrow> key r = k"
  by (simp add: find_row_def find_Some_iff) blast

lemma find_row_mem: "find_row key k t = Some r \<Longrightarrow> r \<in> set t"
  by (auto simp: find_row_def find_Some_iff)

lemma find_row_None: "find_row key k t = None \<longleftrightarrow> k \<notin> key ` set t"
  by (auto simp: find_row_def find_None_iff)

lemma find_row_Nil [simp]: "find_row key k [] = None"
  by (simp add: find_row_def)

lemma find_row_Cons [simp]:
  "find_row key k (r # t) = (if key r = k then Some r else find_row key k t)"
  by (simp add: find_row_def)

lemma find_row_append:
  "find_row key k (t @ u) = (case find_row key k t of None \<Rightarrow> find_row key k u | Some r \<Rightarrow> Some r)"
  by (induction t) auto

lemma find_row_set_row:
  "(\<And>r. key (f r) = key r) \<Longrightarrow>
   find_row key k (set_row key k' f t) =
     (if k = k' then map_option f (find_row key k t) else find_row key k t)"
  by (induction t) (auto simp: set_row_def set_where_def)

lemma find_row_distinct:
  "distinct (map key t) \<Longrightarrow> r \<in> set t \<Longrightarrow> find_row key (key r) t = Some r"
  by (induction t) (auto simp: rev_image_eqI)

lemma row_store_list: "row_store (find_row key) add_row (set_row key) key"
proof (rule row_store.intro)
  fix r k and t :: "'b list"
  show "find_row key (key r) t = None \<Longrightarrow>
      find_row key k (add_row r t) = (if k = key r then Some r else find_row key k t)"
    by (simp add: add_row_def find_row_append split: option.split)
next
  fix f :: "'b \<Rightarrow> 'b" and k k' :: 'a and t :: "'b list"
  assume "\<And>r. key (f r) = key r"
  then show "find_row key k (set_row key k' f t) =
      (if k = k' then map_option f (find_row key k t) else find_row key k t)"
    by (rule find_row_set_row)
next
  fix k and t :: "'b list" and r
  assume "find_row key k t = Some r"
  then show "key r = k" by (rule find_row_key)
qed

lemma map_key_set_where: "(\<And>r. key (f r) = key r) \<Longrightarrow> map key (set_where p f t) = map key t"
  by (induction t) (auto simp: set_where_def)

text \<open>
  A \<open>Map\<close> filled by \<open>m.set(k, (m.get(k) ?? 0) + v)\<close> is an association list in insertion order.
\<close>

fun acc_add :: "'k \<Rightarrow> rat \<Rightarrow> ('k \<times> rat) list \<Rightarrow> ('k \<times> rat) list" where
  "acc_add k v [] = [(k, v)]"
| "acc_add k v ((k', v') # m) = (if k = k' then (k', v' + v) # m else (k', v') # acc_add k v m)"

definition acc_get :: "'k \<Rightarrow> ('k \<times> rat) list \<Rightarrow> rat" where
  "acc_get k m = (case map_of m k of None \<Rightarrow> 0 | Some v \<Rightarrow> v)"

lemma acc_get_add: "acc_get k (acc_add k' v m) = (if k = k' then acc_get k m + v else acc_get k m)"
  by (induction m rule: acc_add.induct [of _ k' v]) (auto simp: acc_get_def)

lemma acc_add_sum: "sum_list (map snd (acc_add k v m)) = sum_list (map snd m) + v"
  by (induction k v m rule: acc_add.induct) auto

lemma acc_add_keys: "fst ` set (acc_add k v m) = insert k (fst ` set m)"
  by (induction k v m rule: acc_add.induct) auto

lemma acc_add_distinct: "distinct (map fst m) \<Longrightarrow> distinct (map fst (acc_add k v m))"
proof (induction k v m rule: acc_add.induct)
  case (2 k v k' v' m)
  have "fst ` set (acc_add k v m) = insert k (fst ` set m)" by (rule acc_add_keys)
  with 2 show ?case by auto
qed simp

lemma acc_add_not_Nil [simp]: "acc_add k v m \<noteq> []"
  by (cases "(k, v, m)" rule: acc_add.cases) auto

end
