(* ===== verification/Money.thy ===== *)
theory Money
  imports Prelude
begin

text \<open>
  Money. The services compute with JavaScript numbers; amounts are exact rationals here, so
  the representation error of binary floating point is left out and every rounding that
  the code writes (\<open>Math.round(x * 100) / 100\<close>) is kept.
\<close>

type_synonym money = rat

text \<open>\<open>Math.round\<close>: to the nearest integer, ties upwards.\<close>

definition js_round :: "rat \<Rightarrow> int" where
  "js_round x = \<lfloor>x + 1 / 2\<rfloor>"

text \<open>\<open>Math.round(n * 100) / 100\<close>.\<close>

definition round2 :: "money \<Rightarrow> money" where
  "round2 x = of_int (js_round (x * 100)) / 100"

text \<open>An amount of whole sen, as a \<open>Decimal(14, 2)\<close> column holds.\<close>

definition whole_sen :: "money \<Rightarrow> bool" where
  "whole_sen x \<longleftrightarrow> round2 x = x"

lemma js_round_of_int [simp]: "js_round (of_int n) = n"
  by (simp add: js_round_def floor_eq_iff)

lemma round2_error: "\<bar>round2 x - x\<bar> \<le> 1 / 200"
proof -
  define n where "n = js_round (x * 100)"
  have "of_int n \<le> x * 100 + 1 / 2" and "x * 100 + 1 / 2 < of_int n + 1"
    unfolding n_def js_round_def by linarith+
  then have "\<bar>of_int n - x * 100\<bar> \<le> 1 / 2" by linarith
  then show ?thesis unfolding round2_def n_def [symmetric] by linarith
qed

lemma whole_sen_iff: "whole_sen x \<longleftrightarrow> (\<exists>n. x = of_int n / 100)"
proof
  assume "whole_sen x"
  then have "x = of_int (js_round (x * 100)) / 100" by (simp add: whole_sen_def round2_def)
  then show "\<exists>n. x = of_int n / 100" by blast
next
  assume "\<exists>n. x = of_int n / 100"
  then obtain n where "x = of_int n / 100" by blast
  then have "x * 100 = of_int n" by simp
  then show "whole_sen x" using \<open>x = of_int n / 100\<close> by (simp add: whole_sen_def round2_def)
qed

lemma whole_senI: "x = of_int n / 100 \<Longrightarrow> whole_sen x"
  unfolding whole_sen_iff by blast

lemma whole_sen_round2 [simp, intro]: "whole_sen (round2 x)"
  by (auto simp: whole_sen_iff round2_def)

lemma round2_whole_sen [simp]: "whole_sen x \<Longrightarrow> round2 x = x"
  by (simp add: whole_sen_def)

lemma round2_idem [simp]: "round2 (round2 x) = round2 x"
  by simp

lemma whole_sen_0 [simp, intro]: "whole_sen 0"
  by (auto simp: whole_sen_iff intro: exI [of _ 0])

lemma whole_sen_add [intro]: "whole_sen x \<Longrightarrow> whole_sen y \<Longrightarrow> whole_sen (x + y)"
proof -
  assume "whole_sen x" and "whole_sen y"
  then obtain m n where "x = of_int m / 100" and "y = of_int n / 100"
    by (auto simp: whole_sen_iff)
  then have "x + y = of_int (m + n) / 100" by (simp add: add_divide_distrib)
  then show ?thesis by (rule whole_senI)
qed

lemma whole_sen_uminus [intro]: "whole_sen x \<Longrightarrow> whole_sen (- x)"
proof -
  assume "whole_sen x"
  then obtain m where "x = of_int m / 100" by (auto simp: whole_sen_iff)
  then have "- x = of_int (- m) / 100" by simp
  then show ?thesis by (rule whole_senI)
qed

lemma whole_sen_diff [intro]: "whole_sen x \<Longrightarrow> whole_sen y \<Longrightarrow> whole_sen (x - y)"
  using whole_sen_add [of x "- y"] whole_sen_uminus [of y] by simp

lemma whole_sen_sum_list [intro]: "(\<And>x. x \<in> set xs \<Longrightarrow> whole_sen x) \<Longrightarrow> whole_sen (sum_list xs)"
  by (induction xs) auto

text \<open>Below half a sen, an amount of whole sen is zero: what the \<open>0.005\<close> guards test.\<close>

lemma whole_sen_small:
  assumes "whole_sen x" and "\<bar>x\<bar> < 1 / 200"
  shows "x = 0"
proof -
  from assms(1) obtain n where x: "x = of_int n / 100" by (auto simp: whole_sen_iff)
  with assms(2) have "\<bar>of_int n :: rat\<bar> < 1" by simp
  then have "\<bar>n\<bar> < 1" by linarith
  with x show ?thesis by simp
qed

lemma round2_mono: "x \<le> y \<Longrightarrow> round2 x \<le> round2 y"
  by (simp add: round2_def js_round_def divide_right_mono floor_mono)

lemma round2_0 [simp]: "round2 0 = 0"
  by simp

lemma round2_nonneg: "0 \<le> x \<Longrightarrow> 0 \<le> round2 x"
  using round2_mono [of 0 x] by simp

end
