(* ===== verification/Text.thy ===== *)
theory Text
  imports Prelude
begin

text \<open>
  Text as the services build and read it: decimal numerals (template literals and
  \<open>toString\<close>), \<open>padStart\<close>, \<open>startsWith\<close>, \<open>includes\<close>, \<open>toUpperCase\<close>. Strings are lists of
  bytes, so text outside ASCII is its UTF-8 encoding, and case mapping covers the ASCII
  letters.
\<close>

definition digit_char :: "nat \<Rightarrow> char" where
  "digit_char d = char_of (48 + d)"

fun show_nat :: "nat \<Rightarrow> string" where
  "show_nat n = (if n < 10 then [digit_char n] else show_nat (n div 10) @ [digit_char (n mod 10)])"

declare show_nat.simps [simp del]

definition show_int :: "int \<Rightarrow> string" where
  "show_int i = (if i < 0 then CHR ''-'' # show_nat (nat (- i)) else show_nat (nat i))"

text \<open>\<open>s.padStart(w, c)\<close>.\<close>

definition pad_start :: "nat \<Rightarrow> char \<Rightarrow> string \<Rightarrow> string" where
  "pad_start w c s = replicate (w - length s) c @ s"

definition digit_val :: "char \<Rightarrow> nat option" where
  "digit_val c = (let n = (of_char c :: nat) in if 48 \<le> n \<and> n \<le> 57 then Some (n - 48) else None)"

text \<open>
  \<open>Number(s)\<close> on text of decimal digits (the empty text is 0); \<open>None\<close> is \<open>NaN\<close>.
\<close>

fun read_nat :: "nat \<Rightarrow> string \<Rightarrow> nat option" where
  "read_nat a [] = Some a"
| "read_nat a (c # cs) = (case digit_val c of None \<Rightarrow> None | Some d \<Rightarrow> read_nat (10 * a + d) cs)"

definition starts_with :: "string \<Rightarrow> string \<Rightarrow> bool" where
  "starts_with p s \<longleftrightarrow> take (length p) s = p"

fun has_infix :: "string \<Rightarrow> string \<Rightarrow> bool" where
  "has_infix p [] = (p = [])"
| "has_infix p (c # s) = (starts_with p (c # s) \<or> has_infix p s)"

definition upper_char :: "char \<Rightarrow> char" where
  "upper_char c = (let n = (of_char c :: nat) in if 97 \<le> n \<and> n \<le> 122 then char_of (n - 32) else c)"

definition to_upper :: "string \<Rightarrow> string" where
  "to_upper s = map upper_char s"

definition lower_char :: "char \<Rightarrow> char" where
  "lower_char c = (let n = (of_char c :: nat) in if 65 \<le> n \<and> n \<le> 90 then char_of (n + 32) else c)"

definition to_lower :: "string \<Rightarrow> string" where
  "to_lower s = map lower_char s"

text \<open>A string that JavaScript counts as true: present and not empty.\<close>

definition truthy :: "string option \<Rightarrow> bool" where
  "truthy s \<longleftrightarrow> s \<noteq> None \<and> s \<noteq> Some []"

text \<open>The em dash of the source's labels, in UTF-8.\<close>

definition em_dash :: string where
  "em_dash = [char_of (226 :: nat), char_of (128 :: nat), char_of (148 :: nat)]"

text \<open>\<open>s.trim()\<close> for the ASCII white space.\<close>

definition is_space :: "char \<Rightarrow> bool" where
  "is_space c = (let n = (of_char c :: nat) in n = 32 \<or> (9 \<le> n \<and> n \<le> 13))"

definition trim :: "string \<Rightarrow> string" where
  "trim s = rev (dropWhile is_space (rev (dropWhile is_space s)))"

text \<open>\<open>t?.trim() || null\<close>.\<close>

definition trimmed :: "string option \<Rightarrow> string option" where
  "trimmed t = (case t of None \<Rightarrow> None | Some x \<Rightarrow> if trim x = [] then None else Some (trim x))"

text \<open>\<open>s.split(d)\<close> for a separator of one character.\<close>

fun split_on :: "char \<Rightarrow> string \<Rightarrow> string list" where
  "split_on d [] = [[]]"
| "split_on d (c # cs) = (if c = d then [] # split_on d cs
     else case split_on d cs of [] \<Rightarrow> [[c]] | p # ps \<Rightarrow> (c # p) # ps)"

lemma digit_val_char: "d < 10 \<Longrightarrow> digit_val (digit_char d) = Some d"
  by (simp add: digit_val_def digit_char_def)

lemma read_nat_append:
  "read_nat a (xs @ ys) = (case read_nat a xs of None \<Rightarrow> None | Some b \<Rightarrow> read_nat b ys)"
  by (induction a xs rule: read_nat.induct) (auto split: option.splits)

text \<open>Reading back what \<open>show_nat\<close> writes.\<close>

lemma read_show_nat: "read_nat 0 (show_nat n) = Some n"
proof (induction n rule: show_nat.induct)
  case (1 n)
  show ?case
  proof (cases "n < 10")
    case True
    then show ?thesis by (simp add: show_nat.simps [of n] digit_val_char)
  next
    case False
    with 1 have "read_nat 0 (show_nat (n div 10)) = Some (n div 10)" by simp
    with False show ?thesis
      by (simp add: show_nat.simps [of n] read_nat_append digit_val_char)
  qed
qed

lemma show_nat_inject [simp]: "show_nat m = show_nat n \<longleftrightarrow> m = n"
  using read_show_nat by (metis option.inject)

lemma read_nat_zeros: "read_nat 0 (replicate k (CHR ''0'') @ s) = read_nat 0 s"
  by (induction k) (simp_all add: digit_val_def)

lemma read_pad_show: "read_nat 0 (pad_start w (CHR ''0'') (show_nat n)) = Some n"
  by (simp add: pad_start_def read_nat_zeros read_show_nat)

lemma show_nat_digits: "c \<in> set (show_nat n) \<Longrightarrow> \<exists>d < 10. c = digit_char d"
proof (induction n rule: show_nat.induct)
  case (1 n)
  show ?case
  proof (cases "n < 10")
    case True
    with "1.prems" show ?thesis by (auto simp: show_nat.simps [of n])
  next
    case False
    with "1.prems" have "c \<in> set (show_nat (n div 10)) \<or> c = digit_char (n mod 10)"
      by (auto simp: show_nat.simps [of n])
    moreover have "n mod 10 < 10" by simp
    ultimately show ?thesis using "1.IH" False by blast
  qed
qed

lemma digit_not_colon: "d < 10 \<Longrightarrow> digit_char d \<noteq> CHR '':''"
proof
  assume "d < 10" and "digit_char d = CHR '':''"
  then have "digit_val (CHR '':'') = Some d" using digit_val_char by metis
  then show False by (simp add: digit_val_def)
qed

lemma colon_not_in_show: "CHR '':'' \<notin> set (show_nat n)"
  using show_nat_digits digit_not_colon by metis

lemma starts_with_append [simp]: "starts_with p (p @ s)"
  by (simp add: starts_with_def)

end
