(* ===== verification/Auth.thy ===== *)
theory Auth
  imports Prelude
begin

text \<open>
  The authenticated user and the role tests that guard the services
  (apps/api/src/common/types/request-context.ts, apps/api/src/common/authz, and the private
  \<open>assert...\<close> methods of the billing and deposit services).

  Every test is \<open>user.roles.some(r => ...)\<close>. The locale \<open>role_gate\<close> is that shape: one test of
  a single role assignment that a super admin passes; its lemmas hold for every gate of the
  system and are used through the interpretations below.
\<close>

datatype role_id =
    SUPER_ADMIN | MANAGEMENT_ADMIN | MANAGEMENT_STAFF | SECURITY_GUARD
  | UNIT_OWNER | TENANT | HOUSEHOLD_MEMBER | CONTRACTOR

record role_assignment =
  role :: role_id
  role_condo :: "string option"
  role_unit :: "string option"

record auth_user =
  user_id :: string
  user_roles :: "role_assignment list"

definition some_role :: "(role_assignment \<Rightarrow> bool) \<Rightarrow> auth_user \<Rightarrow> bool" where
  "some_role p u = list_ex p (user_roles u)"

definition is_super :: "role_assignment \<Rightarrow> bool" where
  "is_super r \<longleftrightarrow> role r = SUPER_ADMIN"

definition is_role_in :: "role_id \<Rightarrow> string \<Rightarrow> role_assignment \<Rightarrow> bool" where
  "is_role_in k condo r \<longleftrightarrow> role r = k \<and> role_condo r = Some condo"

lemma some_role_iff: "some_role p u \<longleftrightarrow> (\<exists>r \<in> set (user_roles u). p r)"
  by (auto simp: some_role_def list_ex_iff)

section \<open>Gates\<close>

locale role_gate =
  fixes grants :: "'c \<Rightarrow> role_assignment \<Rightarrow> bool"
  assumes super_grants: "is_super r \<Longrightarrow> grants c r"
begin

text \<open>The gate is open to a user when one of the user's roles grants it.\<close>

lemma super_admin_allowed:
  "r \<in> set (user_roles u) \<Longrightarrow> is_super r \<Longrightarrow> some_role (grants c) u"
  using super_grants by (auto simp: some_role_iff)

lemma no_roles_denied: "user_roles u = [] \<Longrightarrow> \<not> some_role (grants c) u"
  by (simp add: some_role_iff)

lemma more_roles_allowed:
  "some_role (grants c) u \<Longrightarrow> set (user_roles u) \<subseteq> set (user_roles u') \<Longrightarrow>
   some_role (grants c) u'"
  by (auto simp: some_role_iff)

lemma denied_role: "\<not> some_role (grants c) u \<Longrightarrow> r \<in> set (user_roles u) \<Longrightarrow> \<not> grants c r"
  by (auto simp: some_role_iff)

end

text \<open>\<open>BillingService.assertCondoManagement(user, condoId, adminOnly)\<close>.\<close>

definition grants_condo_management :: "string \<times> bool \<Rightarrow> role_assignment \<Rightarrow> bool" where
  "grants_condo_management = (\<lambda>(condo, admin_only) r.
     is_super r \<or>
     is_role_in MANAGEMENT_ADMIN condo r \<or>
     (\<not> admin_only \<and> is_role_in MANAGEMENT_STAFF condo r))"

definition condo_management :: "auth_user \<Rightarrow> string \<Rightarrow> bool \<Rightarrow> bool" where
  "condo_management u condo admin_only =
     some_role (grants_condo_management (condo, admin_only)) u"

definition assert_condo_management ::
  "auth_user \<Rightarrow> string \<Rightarrow> bool \<Rightarrow> ('s, unit) act" where
  "assert_condo_management u condo admin_only =
     ensure (condo_management u condo admin_only)
       (Forbidden ''You cannot manage billing for this condo'')"

text \<open>\<open>BillingService.canReadUnitMoney\<close>: management of the condo, or any role of the unit.\<close>

definition grants_read_money :: "string \<times> string \<Rightarrow> role_assignment \<Rightarrow> bool" where
  "grants_read_money = (\<lambda>(condo, unit) r.
     is_super r \<or>
     is_role_in MANAGEMENT_ADMIN condo r \<or> is_role_in MANAGEMENT_STAFF condo r \<or>
     role_unit r = Some unit)"

definition can_read_unit_money :: "auth_user \<Rightarrow> string \<Rightarrow> string \<Rightarrow> bool" where
  "can_read_unit_money u condo unit = some_role (grants_read_money (condo, unit)) u"

text \<open>\<open>assertCanPayInvoice\<close> and \<open>assertCanPayUnit\<close>: admin of the condo, or owner of the unit.\<close>

definition grants_pay :: "string \<times> string \<Rightarrow> role_assignment \<Rightarrow> bool" where
  "grants_pay = (\<lambda>(condo, unit) r.
     is_super r \<or>
     is_role_in MANAGEMENT_ADMIN condo r \<or>
     (role r = UNIT_OWNER \<and> role_unit r = Some unit))"

definition can_pay :: "auth_user \<Rightarrow> string \<Rightarrow> string \<Rightarrow> bool" where
  "can_pay u condo unit = some_role (grants_pay (condo, unit)) u"

text \<open>\<open>DepositService.canReadDeposit\<close>: the depositor may read it too.\<close>

definition can_read_deposit ::
  "auth_user \<Rightarrow> string \<Rightarrow> string \<Rightarrow> string option \<Rightarrow> bool" where
  "can_read_deposit u condo unit owner =
     some_role (\<lambda>r. grants_read_money (condo, unit) r \<or>
                    (owner \<noteq> None \<and> owner = Some (user_id u))) u"

text \<open>\<open>assertCondoMember\<close> of common/authz.\<close>

definition grants_member :: "string \<Rightarrow> role_assignment \<Rightarrow> bool" where
  "grants_member condo r \<longleftrightarrow> is_super r \<or> role_condo r = Some condo"

definition assert_condo_member :: "auth_user \<Rightarrow> string \<Rightarrow> ('s, unit) act" where
  "assert_condo_member u condo =
     ensure (some_role (grants_member condo) u)
       (Forbidden ''You do not have access to this condo'')"

interpretation management_gate: role_gate grants_condo_management
  by unfold_locales (auto simp: grants_condo_management_def)

interpretation read_money_gate: role_gate grants_read_money
  by unfold_locales (auto simp: grants_read_money_def)

interpretation pay_gate: role_gate grants_pay
  by unfold_locales (auto simp: grants_pay_def)

interpretation member_gate: role_gate grants_member
  by unfold_locales (auto simp: grants_member_def)

text \<open>Who may pay may also read: the payment gate is inside the read gate.\<close>

lemma can_pay_can_read: "can_pay u condo unit \<Longrightarrow> can_read_unit_money u condo unit"
  by (auto simp: can_pay_def can_read_unit_money_def some_role_iff grants_pay_def
      grants_read_money_def)

lemma management_admin_only: "condo_management u condo True \<Longrightarrow> condo_management u condo False"
  by (auto simp: condo_management_def some_role_iff grants_condo_management_def)

end
