(* ===== verification/Billing_Db.thy ===== *)
theory Billing_Db
  imports Money Text Auth
begin

text \<open>
  The rows and enumerations of the billing part of the database (apps/api/prisma/schema.prisma,
  packages/shared-types/src/billing.ts) and the state \<open>bdb\<close> that the billing, ledger, receipt,
  deposit and accounting services share. A table is the list of its rows; a JSON column is a
  \<open>json\<close> value or, for \<open>metadata\<close> objects, a map from keys. Times are milliseconds since the
  epoch. Row ids come from the supply \<open>uuids\<close> (Prisma's \<open>uuid()\<close> default), read from
  \<open>next_uuid\<close> onwards.
\<close>

section \<open>Enumerations\<close>

datatype invoice_status = DRAFT | ISSUED | PARTIAL | PAID | VOIDED | OVERDUE

datatype payment_status = PENDING | SUCCEEDED | FAILED | REFUNDED_PAYMENT | CANCELLED

datatype payment_provider = STRIPE | FPX | IPAY88 | RAZER | DUITNOW_QR | TNG | MANUAL

datatype ledger_fund = MAINTENANCE | SINKING_FUND | DEPOSIT_FUND | GENERAL

datatype ledger_type =
    CHARGE | PAYMENT | DEPOSIT_ENTRY | REFUND_ENTRY | PREPAYMENT | PREPAYMENT_APPLIED | ADJUSTMENT

datatype deposit_type =
    RENOVATION | RENOVATION_DELIVERY | ACCESS_CARD | KEY_DEPOSIT | MOVE_IN_OUT | OTHER_DEPOSIT

datatype deposit_status = HELD | PARTIALLY_REFUNDED | REFUNDED | FORFEITED

datatype receipt_kind = PAYMENT_RECEIPT | DEPOSIT_RECEIPT | REFUND_RECEIPT

datatype gl_type = ASSET | LIABILITY | EQUITY | INCOME | EXPENSE

datatype gl_source =
    INVOICE_SOURCE | PAYMENT_SOURCE | MANUAL_SOURCE | REVERSAL_SOURCE
  | VENDOR_BILL_SOURCE | VENDOR_PAYMENT_SOURCE

datatype fee_rate_type = PER_SQFT | FLAT | PER_UNIT_TYPE

datatype gateway_mode = TEST | LIVE

datatype audit_action = AUDIT_CREATE | AUDIT_UPDATE | AUDIT_PAYMENT | AUDIT_DELETE

text \<open>\<open>Object.values(LedgerFund)\<close>.\<close>

definition all_funds :: "ledger_fund list" where
  "all_funds = [MAINTENANCE, SINKING_FUND, DEPOSIT_FUND, GENERAL]"

lemma set_all_funds: "set all_funds = UNIV"
  by (auto simp: all_funds_def intro: ledger_fund.exhaust)

text \<open>The enumeration's own text, as template literals print it.\<close>

fun fund_text :: "ledger_fund \<Rightarrow> string" where
  "fund_text MAINTENANCE = ''MAINTENANCE''"
| "fund_text SINKING_FUND = ''SINKING_FUND''"
| "fund_text DEPOSIT_FUND = ''DEPOSIT''"
| "fund_text GENERAL = ''GENERAL''"

fun ledger_type_text :: "ledger_type \<Rightarrow> string" where
  "ledger_type_text CHARGE = ''CHARGE''"
| "ledger_type_text PAYMENT = ''PAYMENT''"
| "ledger_type_text DEPOSIT_ENTRY = ''DEPOSIT''"
| "ledger_type_text REFUND_ENTRY = ''REFUND''"
| "ledger_type_text PREPAYMENT = ''PREPAYMENT''"
| "ledger_type_text PREPAYMENT_APPLIED = ''PREPAYMENT_APPLIED''"
| "ledger_type_text ADJUSTMENT = ''ADJUSTMENT''"

lemma fund_text_inject [simp]: "fund_text f = fund_text g \<longleftrightarrow> f = g"
  by (cases f; cases g) auto

section \<open>JSON columns\<close>

datatype json =
    JNull | JBool bool | JNum rat | JStr string
  | JArr "json list" | JObj "(string \<times> json) list"

type_synonym meta = "string \<rightharpoonup> json"

text \<open>\<open>asObject\<close>: the fields of an object, no fields for anything else.\<close>

definition as_object :: "json \<Rightarrow> (string \<times> json) list" where
  "as_object j = (case j of JObj fs \<Rightarrow> fs | _ \<Rightarrow> [])"

definition json_field :: "string \<Rightarrow> json \<Rightarrow> json" where
  "json_field k j = (case map_of (as_object j) k of None \<Rightarrow> JNull | Some v \<Rightarrow> v)"

section \<open>Rows\<close>

record condo_row =
  co_id :: string
  co_currency :: string
  co_settings :: json

record fee_rate =
  fr_maint_type :: fee_rate_type
  fr_maint :: money
  fr_sink_type :: fee_rate_type
  fr_sink :: money

record unit_type_row =
  ut_id :: string
  ut_condo :: string
  ut_name :: string
  ut_rate :: "fee_rate option"

record unit_row =
  un_id :: string
  un_condo :: string
  un_sqft :: "rat option"
  un_type :: "string option"

record extra_line =
  xl_id :: string
  xl_condo :: string
  xl_code :: string
  xl_desc :: string
  xl_formula :: "string option"
  xl_fund :: ledger_fund
  xl_rate_type :: fee_rate_type
  xl_amount :: money
  xl_type_amounts :: "(string \<times> money) list"
  xl_recurring :: bool
  xl_from :: "int option"
  xl_to :: "int option"
  xl_enabled :: bool
  xl_sort :: int

record invoice_line =
  il_code :: string
  il_desc :: string
  il_formula :: "string option"
  il_qty :: rat
  il_price :: money
  il_amount :: money
  il_sort :: nat

record invoice =
  inv_id :: string
  inv_condo :: string
  inv_unit :: string
  inv_number :: string
  inv_period_start :: int
  inv_period_end :: int
  inv_due :: int
  inv_status :: invoice_status
  inv_subtotal :: money
  inv_total :: money
  inv_paid :: money
  inv_currency :: string
  inv_issued_at :: "int option"
  inv_paid_at :: "int option"
  inv_voided_at :: "int option"
  inv_meta :: meta
  inv_lines :: "invoice_line list"

record payment =
  pay_id :: string
  pay_invoice :: string
  pay_user :: "string option"
  pay_amount :: money
  pay_currency :: string
  pay_status :: payment_status
  pay_provider :: payment_provider
  pay_ref :: "string option"
  pay_paid_at :: "int option"
  pay_meta :: meta
  pay_created :: int

record advance =
  adv_id :: string
  adv_condo :: string
  adv_unit :: string
  adv_user :: "string option"
  adv_amount :: money
  adv_currency :: string
  adv_status :: payment_status
  adv_provider :: payment_provider
  adv_ref :: "string option"
  adv_paid_at :: "int option"
  adv_meta :: meta
  adv_created :: int

record ledger_entry =
  le_id :: string
  le_condo :: string
  le_unit :: "string option"
  le_fund :: ledger_fund
  le_type :: ledger_type
  le_amount :: money
  le_key :: "string option"
  le_source :: string
  le_source_id :: "string option"
  le_memo :: "string option"
  le_at :: int
  le_by :: "string option"

record unit_account =
  ua_unit :: string
  ua_condo :: string
  ua_credit :: money

record receipt_template =
  tp_prefix :: string
  tp_org :: string
  tp_reg_no :: string
  tp_address :: string
  tp_footer :: string
  tp_signatory :: string
  tp_title :: string
  tp_logo :: string

record receipt =
  rc_id :: string
  rc_condo :: string
  rc_number :: string
  rc_kind :: receipt_kind
  rc_amount :: money
  rc_currency :: string
  rc_to :: "string option"
  rc_unit :: "string option"
  rc_payment :: "string option"
  rc_deposit :: "string option"
  rc_desc :: "string option"
  rc_template :: receipt_template

record deposit =
  dep_id :: string
  dep_condo :: string
  dep_unit :: string
  dep_user :: "string option"
  dep_type :: deposit_type
  dep_amount :: money
  dep_currency :: string
  dep_status :: deposit_status
  dep_method :: "string option"
  dep_reference :: "string option"
  dep_refunded :: money
  dep_forfeited :: money
  dep_paid_at :: int
  dep_refunded_at :: "int option"
  dep_notes :: "string option"
  dep_by :: "string option"
  dep_meta :: json

record num_seq =
  ns_condo :: string
  ns_kind :: string
  ns_year :: int
  ns_last :: nat

text \<open>\<open>PaymentGatewayConnection\<close>; \<open>gc_secret\<close> is the encrypted envelope, all of it or nothing.\<close>

record connection =
  gc_id :: string
  gc_condo :: string
  gc_provider :: payment_provider
  gc_mode :: gateway_mode
  gc_enabled :: bool
  gc_name :: "string option"
  gc_public :: meta
  gc_secret :: "string option"
  gc_by :: "string option"

record gl_account =
  ga_id :: string
  ga_condo :: string
  ga_code :: string
  ga_name :: string
  ga_type :: gl_type
  ga_fund :: ledger_fund
  ga_parent :: "string option"
  ga_active :: bool

record journal_line =
  jl_account :: string
  jl_debit :: money
  jl_credit :: money
  jl_fund :: ledger_fund
  jl_memo :: "string option"

record journal =
  je_id :: string
  je_condo :: string
  je_date :: int
  je_desc :: string
  je_source :: gl_source
  je_source_id :: "string option"
  je_by :: "string option"
  je_key :: "string option"
  je_lines :: "journal_line list"

record audit_row =
  au_condo :: string
  au_unit :: "string option"
  au_actor :: "string option"
  au_action :: audit_action
  au_resource :: string
  au_resource_id :: string
  au_meta :: meta

datatype event =
    InvoiceIssued string | InvoicePaid string | InvoiceOverdue string | InvoiceDueSoon string
  | DepositRecorded string string | DepositRefunded string money bool

section \<open>The database\<close>

record bdb =
  uuids :: "nat \<Rightarrow> string"
  next_uuid :: nat
  condos :: "condo_row list"
  units :: "unit_row list"
  unit_types :: "unit_type_row list"
  extra_lines :: "extra_line list"
  invoices :: "invoice list"
  payments :: "payment list"
  advances :: "advance list"
  ledger :: "ledger_entry list"
  accounts :: "unit_account list"
  receipts :: "receipt list"
  connections :: "connection list"
  deposits :: "deposit list"
  sequences :: "num_seq list"
  gl_accounts :: "gl_account list"
  journals :: "journal list"
  audit :: "audit_row list"
  events :: "event list"

text \<open>What a call reads from outside: \<open>new Date()\<close> and \<open>new Date().getFullYear()\<close>.\<close>

record env =
  now :: int
  this_year :: int

type_synonym 'a svc = "(bdb, 'a) act"

definition new_id :: "string svc" where
  "new_id = (\<lambda>s. (Inr (uuids s (next_uuid s)), s\<lparr>next_uuid := Suc (next_uuid s)\<rparr>))"

definition emit :: "event \<Rightarrow> unit svc" where
  "emit e = modify (\<lambda>s. s\<lparr>events := events s @ [e]\<rparr>)"

definition log_audit :: "audit_row \<Rightarrow> unit svc" where
  "log_audit a = modify (\<lambda>s. s\<lparr>audit := audit s @ [a]\<rparr>)"

lemma new_id_run [act_simps]:
  "new_id s = (Inr (uuids s (next_uuid s)), s\<lparr>next_uuid := Suc (next_uuid s)\<rparr>)"
  by (simp add: new_id_def)

lemma wp_new_id_eq:
  "wp new_id Q E = (\<lambda>s. Q (uuids s (next_uuid s)) (s\<lparr>next_uuid := Suc (next_uuid s)\<rparr>))"
  by (simp add: fun_eq_iff wp_def new_id_def)

lemma emit_run [act_simps]: "emit e s = (Inr (), s\<lparr>events := events s @ [e]\<rparr>)"
  by (simp add: emit_def modify_def)

lemma log_audit_run [act_simps]: "log_audit a s = (Inr (), s\<lparr>audit := audit s @ [a]\<rparr>)"
  by (simp add: log_audit_def modify_def)

text \<open>
  A part of the state that an action does not write: \<open>keeps f m\<close>. It is preservation of
  "\<open>f\<close> has this value".
\<close>

definition keeps :: "(bdb \<Rightarrow> 'v) \<Rightarrow> 'a svc \<Rightarrow> bool" where
  "keeps f m \<longleftrightarrow> (\<forall>v. preserves (\<lambda>s. f s = v) m)"

lemma keepsI: "(\<And>s. f (snd (m s)) = f s) \<Longrightarrow> keeps f m"
  by (simp add: keeps_def preserves_def)

lemma keepsD: "keeps f m \<Longrightarrow> f (snd (m s)) = f s"
  by (simp add: keeps_def preserves_def)

lemma keeps_run: "keeps f m \<Longrightarrow> m s = (r, t) \<Longrightarrow> f t = f s"
  by (metis keepsD snd_conv)

named_theorems keep "rules for the parts of the state an action does not write"

lemma keeps_ret [keep]: "keeps f (ret x)"
  by (simp add: keeps_def pres)

lemma keeps_throw [keep]: "keeps f (throw e)"
  by (simp add: keeps_def pres)

lemma keeps_gets [keep]: "keeps f (gets g)"
  by (simp add: keeps_def pres)

lemma keeps_ensure [keep]: "keeps f (ensure c e)"
  by (simp add: keeps_def pres)

lemma keeps_need [keep]: "keeps f (need x e)"
  by (simp add: keeps_def pres)

lemma keeps_bnd [keep]: "keeps f m \<Longrightarrow> (\<And>x. keeps f (g x)) \<Longrightarrow> keeps f (bnd m g)"
  by (simp add: keeps_def pres)

lemma keeps_txn [keep]: "keeps f m \<Longrightarrow> keeps f (txn m)"
  by (simp add: keeps_def pres)

lemma keeps_try_log [keep]: "keeps f m \<Longrightarrow> keeps f (try_log d m)"
  by (simp add: keeps_def pres)

lemma keeps_only_if [keep]: "(c \<Longrightarrow> keeps f m) \<Longrightarrow> keeps f (only_if c m)"
  by (simp add: keeps_def pres)

lemma keeps_for_each [keep]: "(\<And>x. x \<in> set xs \<Longrightarrow> keeps f (g x)) \<Longrightarrow> keeps f (for_each xs g)"
  by (simp add: keeps_def pres)

lemma keeps_if [keep]:
  "(c \<Longrightarrow> keeps f m) \<Longrightarrow> (\<not> c \<Longrightarrow> keeps f n) \<Longrightarrow> keeps f (if c then m else n)"
  by simp

lemma keeps_option [keep]:
  "(x = None \<Longrightarrow> keeps f m) \<Longrightarrow> (\<And>v. x = Some v \<Longrightarrow> keeps f (n v)) \<Longrightarrow>
   keeps f (case x of None \<Rightarrow> m | Some v \<Rightarrow> n v)"
  by (cases x) auto

lemma keeps_prod [keep]:
  "(\<And>a b. p = (a, b) \<Longrightarrow> keeps f (g a b)) \<Longrightarrow> keeps f (case p of (a, b) \<Rightarrow> g a b)"
  by (cases p) auto

lemma keeps_modify: "(\<And>s. f (g s) = f s) \<Longrightarrow> keeps f (modify g)"
  by (rule keepsI) (simp add: modify_def)

lemma keeps_preserves: "keeps f m \<Longrightarrow> preserves (\<lambda>s. P (f s)) m"
  by (simp add: preserves_def keepsD)

lemma keeps_new_id [keep]: "(\<And>s n. f (s\<lparr>next_uuid := n\<rparr>) = f s) \<Longrightarrow> keeps f new_id"
  by (rule keepsI) (simp add: new_id_def)

lemma keeps_emit [keep]: "(\<And>s es. f (s\<lparr>events := es\<rparr>) = f s) \<Longrightarrow> keeps f (emit v)"
  unfolding emit_def by (rule keeps_modify)

lemma keeps_log_audit [keep]: "(\<And>s as. f (s\<lparr>audit := as\<rparr>) = f s) \<Longrightarrow> keeps f (log_audit a)"
  unfolding log_audit_def by (rule keeps_modify)

section \<open>Table interfaces\<close>

interpretation invoice_table: row_store "find_row inv_id" add_row "set_row inv_id" inv_id
  by (rule row_store_list)

interpretation payment_table: row_store "find_row pay_id" add_row "set_row pay_id" pay_id
  by (rule row_store_list)

interpretation advance_table: row_store "find_row adv_id" add_row "set_row adv_id" adv_id
  by (rule row_store_list)

interpretation deposit_table: row_store "find_row dep_id" add_row "set_row dep_id" dep_id
  by (rule row_store_list)

interpretation account_table: row_store "find_row ua_unit" add_row "set_row ua_unit" ua_unit
  by (rule row_store_list)

section \<open>An empty database\<close>

text \<open>The start of concrete runs: no rows, ids 0, 1, 2 and so on, prefixed with \<open>id\<close>.\<close>

definition empty_db :: bdb where
  "empty_db =
     \<lparr>uuids = (\<lambda>n. ''id'' @ show_nat n), next_uuid = 0, condos = [], units = [], unit_types = [],
      extra_lines = [], invoices = [], payments = [], advances = [], ledger = [], accounts = [],
      receipts = [], connections = [], deposits = [], sequences = [], gl_accounts = [], journals = [], audit = [],
      events = []\<rparr>"

lemma empty_db_sel [simp]:
  "uuids empty_db = (\<lambda>n. ''id'' @ show_nat n)" "next_uuid empty_db = 0" "condos empty_db = []"
  "units empty_db = []" "unit_types empty_db = []" "extra_lines empty_db = []"
  "invoices empty_db = []" "payments empty_db = []" "advances empty_db = []"
  "ledger empty_db = []" "accounts empty_db = []" "receipts empty_db = []" "connections empty_db = []"
  "deposits empty_db = []" "sequences empty_db = []" "gl_accounts empty_db = []"
  "journals empty_db = []" "audit empty_db = []" "events empty_db = []"
  by (simp_all add: empty_db_def)

end
