(* ===== verification/Gl.thy ===== *)
theory Gl
  imports Billing_Db
begin

text \<open>
  Double-entry accounting (apps/api/src/accounting): the chart of accounts that is seeded once
  per condo (coa-template.ts, coa.service.ts), the journal (gl.service.ts) and the posting of
  invoices, payments, deposits and vendor bills into it (gl-posting.service.ts).

  The lemmas show that whatever is posted is balanced and that the journals of every reachable
  state are, that a chart seeded from the template has every account the postings look for, that
  seeding and keyed posting happen once, and that posting never throws into billing.
\<close>

section \<open>Chart of accounts\<close>

record coa_row =
  coa_code :: string
  coa_name :: string
  coa_type :: gl_type
  coa_fund :: ledger_fund
  coa_parent :: "string option"

definition coa :: "string \<Rightarrow> string \<Rightarrow> gl_type \<Rightarrow> ledger_fund \<Rightarrow> coa_row" where
  "coa c n t f = \<lparr>coa_code = c, coa_name = n, coa_type = t, coa_fund = f, coa_parent = None\<rparr>"

definition malaysian_jmb_coa :: "coa_row list" where
  "malaysian_jmb_coa =
    [coa ''1000'' (''Cash at Bank '' @ em_dash @ '' Maintenance'') ASSET MAINTENANCE,
     coa ''1010'' (''Cash at Bank '' @ em_dash @ '' Sinking Fund'') ASSET SINKING_FUND,
     coa ''1020'' (''Cash at Bank '' @ em_dash @ '' Deposits Held'') ASSET DEPOSIT_FUND,
     coa ''1100'' (''Accounts Receivable '' @ em_dash @ '' Maintenance'') ASSET MAINTENANCE,
     coa ''1110'' (''Accounts Receivable '' @ em_dash @ '' Sinking Fund'') ASSET SINKING_FUND,
     coa ''1120'' (''Accounts Receivable '' @ em_dash @ '' Other'') ASSET GENERAL,
     coa ''1200'' (''Prepaid Expenses'') ASSET GENERAL,
     coa ''2000'' (''Deposits Held (Refundable)'') LIABILITY DEPOSIT_FUND,
     coa ''2100'' (''Accounts Payable'') LIABILITY GENERAL,
     coa ''2200'' (''Accrued Expenses'') LIABILITY GENERAL,
     coa ''3000'' (''Maintenance Fund Balance'') EQUITY MAINTENANCE,
     coa ''3010'' (''Sinking Fund Balance'') EQUITY SINKING_FUND,
     coa ''3020'' (''Retained Surplus'') EQUITY GENERAL,
     coa ''4000'' (''Maintenance Charges'') INCOME MAINTENANCE,
     coa ''4010'' (''Sinking Fund Contributions'') INCOME SINKING_FUND,
     coa ''4020'' (''Interest Income'') INCOME GENERAL,
     coa ''4030'' (''Other Income'') INCOME GENERAL,
     coa ''4040'' (''Late Payment Charges'') INCOME MAINTENANCE,
     coa ''5000'' (''Maintenance '' @ em_dash @ '' Utilities'') EXPENSE MAINTENANCE,
     coa ''5010'' (''Maintenance '' @ em_dash @ '' Security'') EXPENSE MAINTENANCE,
     coa ''5020'' (''Maintenance '' @ em_dash @ '' Cleaning'') EXPENSE MAINTENANCE,
     coa ''5030'' (''Maintenance '' @ em_dash @ '' Repairs'') EXPENSE MAINTENANCE,
     coa ''5100'' (''Sinking Fund '' @ em_dash @ '' Capital Works'') EXPENSE SINKING_FUND,
     coa ''5200'' (''Management Fees'') EXPENSE GENERAL,
     coa ''5300'' (''Insurance'') EXPENSE GENERAL,
     coa ''5400'' (''Quit Rent & Assessment'') EXPENSE GENERAL]"

text \<open>\<open>GL_AUTO_POST_CODES\<close>.\<close>

fun bank_code :: "ledger_fund \<Rightarrow> string" where
  "bank_code MAINTENANCE = ''1000''"
| "bank_code SINKING_FUND = ''1010''"
| "bank_code DEPOSIT_FUND = ''1020''"
| "bank_code GENERAL = ''1000''"

fun receivable_code :: "ledger_fund \<Rightarrow> string" where
  "receivable_code MAINTENANCE = ''1100''"
| "receivable_code SINKING_FUND = ''1110''"
| "receivable_code DEPOSIT_FUND = ''1120''"
| "receivable_code GENERAL = ''1120''"

fun income_code :: "ledger_fund \<Rightarrow> string" where
  "income_code MAINTENANCE = ''4000''"
| "income_code SINKING_FUND = ''4010''"
| "income_code DEPOSIT_FUND = ''4030''"
| "income_code GENERAL = ''4030''"

fun expense_code :: "ledger_fund \<Rightarrow> string" where
  "expense_code MAINTENANCE = ''5030''"
| "expense_code SINKING_FUND = ''5100''"
| "expense_code DEPOSIT_FUND = ''5200''"
| "expense_code GENERAL = ''5200''"

definition deposits_held_code :: string where
  "deposits_held_code = ''2000''"

definition payable_code :: string where
  "payable_code = ''2100''"

definition add_account :: "gl_account \<Rightarrow> unit svc" where
  "add_account a = modify (\<lambda>s. s\<lparr>gl_accounts := gl_accounts s @ [a]\<rparr>)"

text \<open>The loop of \<open>ensureSeeded\<close>; \<open>m\<close> is \<open>idByCode\<close>, the latest entry first.\<close>

fun seed_rows :: "string \<Rightarrow> coa_row list \<Rightarrow> (string \<times> string) list \<Rightarrow> unit svc" where
  "seed_rows condo [] m = ret ()"
| "seed_rows condo (r # rs) m =
     bnd new_id (\<lambda>i.
     bnd (add_account
           \<lparr>ga_id = i, ga_condo = condo, ga_code = coa_code r, ga_name = coa_name r,
            ga_type = coa_type r, ga_fund = coa_fund r,
            ga_parent = (if truthy (coa_parent r) then map_of m (the (coa_parent r)) else None),
            ga_active = True\<rparr>) (\<lambda>_.
     seed_rows condo rs ((coa_code r, i) # m)))"

definition ensure_seeded :: "string \<Rightarrow> unit svc" where
  "ensure_seeded condo =
     bnd (gets (\<lambda>s. count_where (\<lambda>a. ga_condo a = condo) (gl_accounts s))) (\<lambda>existing.
     if existing > 0 then ret () else seed_rows condo malaysian_jmb_coa [])"

text \<open>\<open>accountCodes\<close>: \<open>new Map(rows.map(r => [r.code, r]))\<close>, where a later row wins.\<close>

definition account_codes :: "string \<Rightarrow> bdb \<Rightarrow> (string \<rightharpoonup> gl_account)" where
  "account_codes condo s =
     map_of (rev (map (\<lambda>a. (ga_code a, a))
       (filter (\<lambda>a. ga_condo a = condo \<and> ga_active a) (gl_accounts s))))"

definition create_account ::
  "string \<Rightarrow> string \<Rightarrow> string \<Rightarrow> gl_type \<Rightarrow> ledger_fund \<Rightarrow> string option \<Rightarrow> gl_account svc" where
  "create_account condo code name ty fund parent =
     bnd (ensure_seeded condo) (\<lambda>_.
     bnd new_id (\<lambda>i.
     bnd (gets gl_accounts) (\<lambda>rows.
     bnd (ensure (\<forall>x \<in> set rows. \<not> (ga_condo x = condo \<and> ga_code x = trim code))
           (UniqueViolation ''gl_accounts_condoId_code_key'')) (\<lambda>_.
     let a = \<lparr>ga_id = i, ga_condo = condo, ga_code = trim code, ga_name = trim name,
              ga_type = ty, ga_fund = fund, ga_parent = parent, ga_active = True\<rparr>
     in bnd (add_account a) (\<lambda>_. ret a)))))"

text \<open>\<open>updateAccount\<close>; an argument left out is \<open>None\<close>.\<close>

definition update_account ::
  "auth_user \<Rightarrow> string \<Rightarrow> string option \<Rightarrow> bool option \<Rightarrow> string option option \<Rightarrow> unit svc" where
  "update_account u account name active parent =
     bnd (gets (\<lambda>s. find_row ga_id account (gl_accounts s))) (\<lambda>found.
     bnd (need found (NotFound ''GL account not found'')) (\<lambda>existing.
     bnd (ensure
           (some_role is_super u \<or>
            some_role (\<lambda>r. role r \<in> {SUPER_ADMIN, MANAGEMENT_ADMIN, MANAGEMENT_STAFF} \<and>
                           role_condo r = Some (ga_condo existing)) u)
           (Forbidden ''Management access required for this condo'')) (\<lambda>_.
     modify (\<lambda>s. s\<lparr>gl_accounts := set_row ga_id account (\<lambda>a.
       a\<lparr>ga_name := (case name of None \<Rightarrow> ga_name a | Some n \<Rightarrow> trim n),
         ga_active := (case active of None \<Rightarrow> ga_active a | Some b \<Rightarrow> b),
         ga_parent := (case parent of None \<Rightarrow> ga_parent a | Some p \<Rightarrow> p)\<rparr>) (gl_accounts s)\<rparr>))))"

section \<open>Journal\<close>

definition debits :: "journal_line list \<Rightarrow> money" where
  "debits ls = sum_list (map jl_debit ls)"

definition credits :: "journal_line list \<Rightarrow> money" where
  "credits ls = sum_list (map jl_credit ls)"

definition journal_balanced :: "journal_line list \<Rightarrow> bool" where
  "journal_balanced ls \<longleftrightarrow> \<bar>round2 (debits ls - credits ls)\<bar> < 1 / 200"

record post_opts =
  po_condo :: string
  po_date :: int
  po_desc :: string
  po_source :: gl_source
  po_source_id :: "string option"
  po_by :: "string option"
  po_key :: "string option"
  po_lines :: "journal_line list"

text \<open>The lines \<open>postEntry\<close> writes: empty lines dropped, amounts rounded to sen.\<close>

definition normalized :: "journal_line list \<Rightarrow> journal_line list" where
  "normalized ls =
     map (\<lambda>l. l\<lparr>jl_debit := round2 (jl_debit l), jl_credit := round2 (jl_credit l)\<rparr>)
       (filter (\<lambda>l. \<bar>jl_debit l\<bar> \<ge> 1 / 200 \<or> \<bar>jl_credit l\<bar> \<ge> 1 / 200) ls)"

definition find_journal :: "string option \<Rightarrow> bdb \<Rightarrow> journal option" where
  "find_journal key s = (if truthy key then find (\<lambda>j. je_key j = key) (journals s) else None)"

definition post_entry :: "post_opts \<Rightarrow> journal svc" where
  "post_entry p =
     bnd (ensure_seeded (po_condo p)) (\<lambda>_.
     bnd (gets (find_journal (po_key p))) (\<lambda>existing.
     case existing of Some j \<Rightarrow> ret j
     | None \<Rightarrow>
       bnd (ensure (length (normalized (po_lines p)) \<ge> 2)
             (BadRequest ''A journal entry needs at least two lines'')) (\<lambda>_.
       bnd (ensure (journal_balanced (normalized (po_lines p)))
             (BadRequest ''Debits must equal credits'')) (\<lambda>_.
       bnd new_id (\<lambda>i.
       let j = \<lparr>je_id = i, je_condo = po_condo p, je_date = po_date p, je_desc = po_desc p,
                je_source = po_source p, je_source_id = po_source_id p, je_by = po_by p,
                je_key = po_key p, je_lines = normalized (po_lines p)\<rparr>
       in bnd (modify (\<lambda>s. s\<lparr>journals := journals s @ [j]\<rparr>)) (\<lambda>_. ret j))))))"

definition post_manual ::
  "auth_user \<Rightarrow> string \<Rightarrow> int \<Rightarrow> string \<Rightarrow> journal_line list \<Rightarrow> string option \<Rightarrow> journal svc" where
  "post_manual u condo date desc ls key =
     post_entry \<lparr>po_condo = condo, po_date = date, po_desc = desc, po_source = MANUAL_SOURCE,
       po_source_id = None, po_by = Some (user_id u), po_key = key, po_lines = ls\<rparr>"

section \<open>Posting\<close>

text \<open>\<open>fundOfCode\<close> of gl-posting.service.ts (unlike the ledger's, it knows deposits).\<close>

definition gl_fund_of_code :: "string \<Rightarrow> ledger_fund" where
  "gl_fund_of_code code =
     (let c = to_upper code in
      if has_infix ''SINK'' c then SINKING_FUND
      else if has_infix ''MAINT'' c then MAINTENANCE
      else if has_infix ''DEPOSIT'' c then DEPOSIT_FUND
      else GENERAL)"

text \<open>A line of an invoice as the ledger and the GL are given it.\<close>

record charge_line =
  cl_code :: string
  cl_amount :: money
  cl_desc :: string
  cl_fund :: "ledger_fund option"

text \<open>One debit and one credit of the same amount.\<close>

definition pair_lines ::
  "gl_account \<Rightarrow> gl_account \<Rightarrow> money \<Rightarrow> ledger_fund \<Rightarrow> string option \<Rightarrow> journal_line list" where
  "pair_lines dr cr amt fund memo =
     [\<lparr>jl_account = ga_id dr, jl_debit = amt, jl_credit = 0, jl_fund = fund, jl_memo = memo\<rparr>,
      \<lparr>jl_account = ga_id cr, jl_debit = 0, jl_credit = amt, jl_fund = fund, jl_memo = memo\<rparr>]"

definition fund_lines ::
  "(string \<rightharpoonup> gl_account) \<Rightarrow> (ledger_fund \<Rightarrow> string) \<Rightarrow> (ledger_fund \<Rightarrow> string) \<Rightarrow> string \<Rightarrow>
   (ledger_fund \<times> money) list \<Rightarrow> journal_line list" where
  "fund_lines codes dr cr memo fas =
     concat (map (\<lambda>(fund, amount).
       if amount < 1 / 200 then []
       else (case (codes (dr fund), codes (cr fund)) of
               (Some d, Some c) \<Rightarrow> pair_lines d c (round2 amount) fund (Some memo)
             | _ \<Rightarrow> [])) fas)"

definition charges_by_gl_fund :: "charge_line list \<Rightarrow> (ledger_fund \<times> money) list" where
  "charges_by_gl_fund ls =
     foldl (\<lambda>m l. acc_add (gl_fund_of_code (cl_code l)) (cl_amount l) m) [] ls"

definition post_invoice_charges ::
  "env \<Rightarrow> string \<Rightarrow> string \<Rightarrow> string \<Rightarrow> int option \<Rightarrow> charge_line list \<Rightarrow> string option \<Rightarrow> unit svc" where
  "post_invoice_charges e invoice_id condo number issued_at ls actor =
     try_log () (
     bnd (ensure_seeded condo) (\<lambda>_.
     bnd (gets (account_codes condo)) (\<lambda>codes.
     let jls = fund_lines codes receivable_code income_code number (charges_by_gl_fund ls) in
     if jls = [] then ret ()
     else bnd (post_entry
            \<lparr>po_condo = condo,
             po_date = (case issued_at of None \<Rightarrow> now e | Some d \<Rightarrow> d),
             po_desc = ''Invoice '' @ number @ '' issued'', po_source = INVOICE_SOURCE,
             po_source_id = Some invoice_id, po_by = actor,
             po_key = Some (''gl:invoice:'' @ invoice_id), po_lines = jls\<rparr>) (\<lambda>_. ret ()))))"

definition post_payment ::
  "env \<Rightarrow> string \<Rightarrow> string \<Rightarrow> string \<Rightarrow> (ledger_fund \<times> money) list \<Rightarrow> int option \<Rightarrow> string option \<Rightarrow>
   unit svc" where
  "post_payment e payment_id condo number allocations occurred_at actor =
     try_log () (
     bnd (ensure_seeded condo) (\<lambda>_.
     bnd (gets (account_codes condo)) (\<lambda>codes.
     let jls = fund_lines codes bank_code receivable_code number allocations in
     if jls = [] then ret ()
     else bnd (post_entry
            \<lparr>po_condo = condo,
             po_date = (case occurred_at of None \<Rightarrow> now e | Some d \<Rightarrow> d),
             po_desc = ''Payment for '' @ number, po_source = PAYMENT_SOURCE,
             po_source_id = Some payment_id, po_by = actor,
             po_key = Some (''gl:payment:'' @ payment_id), po_lines = jls\<rparr>) (\<lambda>_. ret ()))))"

text \<open>\<open>postDeposit\<close> and \<open>postLedgerEntry\<close>: of the operational entries only deposits are posted here.\<close>

definition post_deposit :: "env \<Rightarrow> int option \<Rightarrow> ledger_entry \<Rightarrow> unit svc" where
  "post_deposit e occurred_at le =
     try_log () (
     bnd (ensure_seeded (le_condo le)) (\<lambda>_.
     bnd (gets (account_codes (le_condo le))) (\<lambda>codes.
     case (codes (bank_code DEPOSIT_FUND), codes deposits_held_code) of
       (Some bank, Some held) \<Rightarrow>
         bnd (post_entry
           \<lparr>po_condo = le_condo le, 
            po_date = (case occurred_at of None \<Rightarrow> now e | Some d \<Rightarrow> d),
            po_desc = (case le_memo le of None \<Rightarrow> ''Deposit received'' | Some m \<Rightarrow> m),
            po_source = PAYMENT_SOURCE, po_source_id = le_source_id le, po_by = le_by le,
            po_key = (if truthy (le_key le) then Some (''gl:'' @ the (le_key le)) else None),
            po_lines = pair_lines bank held (round2 (le_amount le)) DEPOSIT_FUND (le_memo le)\<rparr>)
           (\<lambda>_. ret ())
     | _ \<Rightarrow> ret ())))"

definition post_ledger_entry :: "env \<Rightarrow> int option \<Rightarrow> ledger_entry \<Rightarrow> unit svc" where
  "post_ledger_entry e occurred_at le =
     (if le_type le = CHARGE \<and> le_source le = ''Invoice'' then ret ()
      else if le_type le = PAYMENT \<and> le_source le = ''Payment'' then ret ()
      else only_if (le_type le = DEPOSIT_ENTRY) (post_deposit e occurred_at le))"

text \<open>\<open>postVendorBillApproved\<close>: the expense accrues against accounts payable.\<close>

definition post_vendor_bill_approved ::
  "string \<Rightarrow> string \<Rightarrow> string \<Rightarrow> int \<Rightarrow> money \<Rightarrow> ledger_fund \<Rightarrow> string option \<Rightarrow> string option \<Rightarrow> unit svc"
  where
  "post_vendor_bill_approved bill condo number date amount fund desc actor =
     try_log () (
     bnd (ensure_seeded condo) (\<lambda>_.
     bnd (gets (account_codes condo)) (\<lambda>codes.
     case (codes (expense_code fund), codes payable_code) of
       (Some ex, Some ap) \<Rightarrow>
         bnd (post_entry
           \<lparr>po_condo = condo, po_date = date,
            po_desc = (if truthy (map_option trim desc)
                       then ''Vendor bill '' @ number @ '': '' @ trim (the desc)
                       else ''Vendor bill '' @ number),
            po_source = VENDOR_BILL_SOURCE, po_source_id = Some bill, po_by = actor,
            po_key = Some (''gl:vendor-bill:'' @ bill),
            po_lines = pair_lines ex ap (round2 amount) fund (Some number)\<rparr>) (\<lambda>_. ret ())
     | _ \<Rightarrow> ret ())))"

text \<open>\<open>postVendorBillPaid\<close>: the payable is settled from the fund's bank; the journal's id is returned.\<close>

definition post_vendor_bill_paid ::
  "string \<Rightarrow> string \<Rightarrow> string \<Rightarrow> int \<Rightarrow> money \<Rightarrow> ledger_fund \<Rightarrow> string option \<Rightarrow> string option svc"
  where
  "post_vendor_bill_paid bill condo number paid_at amount fund actor =
     try_log None (
     bnd (ensure_seeded condo) (\<lambda>_.
     bnd (gets (account_codes condo)) (\<lambda>codes.
     case (codes (bank_code fund), codes payable_code) of
       (Some bank, Some ap) \<Rightarrow>
         bnd (post_entry
           \<lparr>po_condo = condo, po_date = paid_at, po_desc = ''Vendor payment '' @ number,
            po_source = VENDOR_PAYMENT_SOURCE, po_source_id = Some bill, po_by = actor,
            po_key = Some (''gl:vendor-payment:'' @ bill),
            po_lines = pair_lines ap bank (round2 amount) fund (Some number)\<rparr>)
           (\<lambda>j. ret (Some (je_id j)))
     | _ \<Rightarrow> ret None)))"

section \<open>Balance\<close>

lemma whole_sen_normalized:
  "l \<in> set (normalized ls) \<Longrightarrow> whole_sen (jl_debit l) \<and> whole_sen (jl_credit l)"
  by (auto simp: normalized_def)

lemma whole_sen_debits: "whole_sen (debits (normalized ls))"
  unfolding debits_def by (rule whole_sen_sum_list) (auto dest: whole_sen_normalized)

lemma whole_sen_credits: "whole_sen (credits (normalized ls))"
  unfolding credits_def by (rule whole_sen_sum_list) (auto dest: whole_sen_normalized)

text \<open>The tolerance of \<open>journalBalanced\<close> is exact on rounded lines.\<close>

lemma balanced_exact:
  assumes "journal_balanced (normalized ls)"
  shows "debits (normalized ls) = credits (normalized ls)"
proof -
  let ?d = "debits (normalized ls) - credits (normalized ls)"
  have w: "whole_sen ?d" by (intro whole_sen_diff whole_sen_debits whole_sen_credits)
  with assms have "\<bar>?d\<bar> < 1 / 200" by (simp add: journal_balanced_def)
  with w have "?d = 0" by (rule whole_sen_small)
  then show ?thesis by simp
qed

definition journals_balanced :: "bdb \<Rightarrow> bool" where
  "journals_balanced s \<longleftrightarrow>
     (\<forall>j \<in> set (journals s). debits (je_lines j) = credits (je_lines j) \<and> 2 \<le> length (je_lines j))"

lemma keeps_add_account [keep]:
  "(\<And>s as. f (s\<lparr>gl_accounts := as\<rparr>) = f s) \<Longrightarrow> keeps f (add_account a)"
  unfolding add_account_def by (rule keeps_modify)

lemma keeps_seed_rows [keep]:
  "(\<And>s n. f (s\<lparr>next_uuid := n\<rparr>) = f s) \<Longrightarrow> (\<And>s as. f (s\<lparr>gl_accounts := as\<rparr>) = f s) \<Longrightarrow>
   keeps f (seed_rows condo rs m)"
  by (induction rs arbitrary: m) (auto intro!: keep)

lemma keeps_ensure_seeded [keep]:
  "(\<And>s n. f (s\<lparr>next_uuid := n\<rparr>) = f s) \<Longrightarrow> (\<And>s as. f (s\<lparr>gl_accounts := as\<rparr>) = f s) \<Longrightarrow>
   keeps f (ensure_seeded condo)"
  unfolding ensure_seeded_def by (intro keep)

lemma preserves_add_journal:
  "I = journals_balanced \<Longrightarrow> debits (je_lines j) = credits (je_lines j) \<Longrightarrow> 2 \<le> length (je_lines j) \<Longrightarrow>
   preserves I (modify (\<lambda>s. s\<lparr>journals := journals s @ [j]\<rparr>))"
  by (rule preserves_modify) (auto simp: journals_balanced_def)

lemma journals_balanced_keeps [pres]: "keeps journals m \<Longrightarrow> preserves journals_balanced m"
  unfolding journals_balanced_def by (rule keeps_preserves)

lemma post_entry_balanced [pres]: "preserves journals_balanced (post_entry p)"
proof (rule preservesI)
  fix s assume ok: "journals_balanced s"
  obtain u s1 where es: "ensure_seeded (po_condo p) s = (u, s1)" by (cases "ensure_seeded (po_condo p) s")
  have "journals s1 = journals s"
    using keeps_run [of journals, OF keeps_ensure_seeded es] by simp
  with ok have ok1: "journals_balanced s1" by (simp add: journals_balanced_def)
  show "journals_balanced (snd (post_entry p s))"
    using ok1 balanced_exact [of "po_lines p"]
    unfolding post_entry_def bnd_def es
    by (auto simp: act_defs journals_balanced_def new_id_def Let_def split: sum.split option.split)
qed

text \<open>No posting of any kind makes the journals unbalanced.\<close>

lemma postings_balanced [pres]:
  "preserves journals_balanced (post_invoice_charges e i condo n d ls a)"
  "preserves journals_balanced (post_payment e p condo n al d a)"
  "preserves journals_balanced (post_deposit e d le)"
  "preserves journals_balanced (post_vendor_bill_approved b condo n t m f x a)"
  "preserves journals_balanced (post_vendor_bill_paid b condo n t m f a)"
  unfolding post_invoice_charges_def post_payment_def post_deposit_def
    post_vendor_bill_approved_def post_vendor_bill_paid_def Let_def
  by (intro pres; simp add: keep)+

lemma post_manual_balanced [pres]: "preserves journals_balanced (post_manual u condo d x ls k)"
  unfolding post_manual_def by (rule post_entry_balanced)

lemma post_ledger_entry_balanced [pres]: "preserves journals_balanced (post_ledger_entry e d le)"
  unfolding post_ledger_entry_def by (intro pres)

section \<open>Posting once, and never throwing\<close>

lemma try_log_returns: "\<exists>x t. try_log d m s = (Inr x, t)"
  by (auto simp: try_log_def split: prod.splits sum.splits)

lemma try_log_unit: "\<exists>t. try_log () m s = (Inr (), t)"
  using try_log_returns [of "()" m s] by simp

lemma post_invoice_charges_returns:
  "\<exists>t. post_invoice_charges e i condo n d ls a s = (Inr (), t)"
  unfolding post_invoice_charges_def by (rule try_log_unit)

lemma post_payment_returns: "\<exists>t. post_payment e p condo n al d a s = (Inr (), t)"
  unfolding post_payment_def by (rule try_log_unit)

lemma seeded_run:
  "0 < count_where (\<lambda>a. ga_condo a = condo) (gl_accounts s) \<Longrightarrow> ensure_seeded condo s = (Inr (), s)"
  by (simp add: ensure_seeded_def bnd_def gets_def ret_def)

lemma seed_rows_run:
  "\<exists>t. seed_rows condo rs m s = (Inr (), t) \<and>
       map (\<lambda>a. (ga_condo a, ga_code a, ga_active a)) (gl_accounts t) =
       map (\<lambda>a. (ga_condo a, ga_code a, ga_active a)) (gl_accounts s) @
       map (\<lambda>r. (condo, coa_code r, True)) rs \<and>
       journals t = journals s"
proof (induction rs arbitrary: m s)
  case Nil
  then show ?case by (simp add: ret_def)
next
  case (Cons r rs)
  show ?case
    using Cons.IH by (fastforce simp: bnd_def new_id_def add_account_def modify_def)
qed

text \<open>After \<open>ensureSeeded\<close> the condo has accounts, so a second call changes nothing.\<close>

lemma ensure_seeded_run:
  "\<exists>t. ensure_seeded condo s = (Inr (), t) \<and>
       0 < count_where (\<lambda>a. ga_condo a = condo) (gl_accounts t) \<and> journals t = journals s"
proof (cases "0 < count_where (\<lambda>a. ga_condo a = condo) (gl_accounts s)")
  case True
  then show ?thesis by (simp add: seeded_run)
next
  case False
  from seed_rows_run [of condo malaysian_jmb_coa "[]" s] obtain t where
    run: "seed_rows condo malaysian_jmb_coa [] s = (Inr (), t)" and
    acc: "map (\<lambda>a. (ga_condo a, ga_code a, ga_active a)) (gl_accounts t) =
       map (\<lambda>a. (ga_condo a, ga_code a, ga_active a)) (gl_accounts s) @
       map (\<lambda>r. (condo, coa_code r, True)) malaysian_jmb_coa" and
    j: "journals t = journals s" by blast
  have "(condo, ''1000'', True) \<in> set (map (\<lambda>a. (ga_condo a, ga_code a, ga_active a)) (gl_accounts t))"
    unfolding acc by (simp add: malaysian_jmb_coa_def coa_def)
  then obtain a where "a \<in> set (gl_accounts t)" and "ga_condo a = condo" by auto
  then have "0 < count_where (\<lambda>a. ga_condo a = condo) (gl_accounts t)"
    by (auto simp: count_where_def length_greater_0_conv filter_empty_conv)
  with False run j show ?thesis by (simp add: ensure_seeded_def bnd_def gets_def)
qed

text \<open>Posting under a key that has been posted returns the journal there is and writes nothing.\<close>

lemma post_entry_known:
  assumes "0 < count_where (\<lambda>a. ga_condo a = po_condo p) (gl_accounts s)"
    and "find_journal (po_key p) s = Some j"
  shows "post_entry p s = (Inr j, s)"
  using assms by (simp add: post_entry_def bnd_def seeded_run gets_def ret_def)

lemma post_entry_once:
  assumes run: "post_entry p s = (Inr j, t)" and key: "truthy (po_key p)"
  shows "post_entry p t = (Inr j, t)"
proof -
  obtain s1 where es: "ensure_seeded (po_condo p) s = (Inr (), s1)"
    and n: "0 < count_where (\<lambda>a. ga_condo a = po_condo p) (gl_accounts s1)"
    using ensure_seeded_run by blast
  have "find_journal (po_key p) t = Some j \<and> gl_accounts t = gl_accounts s1"
  proof (cases "find_journal (po_key p) s1")
    case None
    then have "find (\<lambda>x. je_key x = po_key p) (journals s1) = None"
      using key by (simp add: find_journal_def)
    with None run es key show ?thesis
      by (auto simp: post_entry_def bnd_def act_defs new_id_def Let_def find_journal_def
          find_append split: if_splits option.splits)
  next
    case (Some j')
    with run es show ?thesis by (simp add: post_entry_def bnd_def gets_def ret_def)
  qed
  with n show ?thesis by (intro post_entry_known) auto
qed

text \<open>The accounts the postings look for are all in the template.\<close>

lemma auto_post_codes_seeded:
  "{bank_code f, receivable_code f, income_code f, expense_code f, deposits_held_code, payable_code}
   \<subseteq> coa_code ` set malaysian_jmb_coa"
  by (cases f) (simp_all add: malaysian_jmb_coa_def coa_def deposits_held_code_def payable_code_def)

end
