(* ===== verification/Ledger.thy ===== *)
theory Ledger
  imports Gl "HOL-Library.List_Lexorder" "HOL-Library.Char_ord" "HOL-Library.Product_Lexorder"
begin

text \<open>
  The operational ledger (apps/api/src/billing/ledger.service.ts): append-only entries with an
  idempotency key, the charge, reversal and payment postings, the prepayment credit of a unit,
  and the reports read from the entries.
\<close>

section \<open>Entries\<close>

text \<open>\<open>LedgerEntryInput\<close>.\<close>

record entry_input =
  ei_condo :: string
  ei_unit :: "string option"
  ei_fund :: ledger_fund
  ei_type :: ledger_type
  ei_amount :: money
  ei_key :: "string option"
  ei_source :: string
  ei_source_id :: "string option"
  ei_memo :: "string option"
  ei_at :: "int option"
  ei_by :: "string option"

text \<open>
  The environment of the service: the clock, whether \<open>glPosting\<close> was injected, and the text of a
  number in a template literal.
\<close>

record svc_env = env +
  gl_wired :: bool
  num_text :: "rat \<Rightarrow> string"

text \<open>\<open>LedgerService.fundOfCode\<close>.\<close>

definition fund_of_code :: "string \<Rightarrow> ledger_fund" where
  "fund_of_code code =
     (let c = to_upper code in
      if has_infix ''SINK'' c then SINKING_FUND
      else if has_infix ''MAINT'' c then MAINTENANCE
      else GENERAL)"

definition entry_of :: "svc_env \<Rightarrow> entry_input \<Rightarrow> string \<Rightarrow> ledger_entry" where
  "entry_of e x i =
     \<lparr>le_id = i, le_condo = ei_condo x, le_unit = ei_unit x, le_fund = ei_fund x,
      le_type = ei_type x, le_amount = ei_amount x, le_key = ei_key x, le_source = ei_source x,
      le_source_id = ei_source_id x, le_memo = ei_memo x,
      le_at = (case ei_at x of None \<Rightarrow> now e | Some t \<Rightarrow> t), le_by = ei_by x\<rparr>"

definition find_entry :: "string option \<Rightarrow> bdb \<Rightarrow> ledger_entry option" where
  "find_entry key s = (if key = None then None else find (\<lambda>l. le_key l = key) (ledger s))"

definition append_entry :: "svc_env \<Rightarrow> entry_input \<Rightarrow> ledger_entry svc" where
  "append_entry e x =
     bnd new_id (\<lambda>i.
     bnd (modify (\<lambda>s. s\<lparr>ledger := ledger s @ [entry_of e x i]\<rparr>)) (\<lambda>_.
     ret (entry_of e x i)))"

text \<open>\<open>record\<close>: with a key an upsert whose update is empty, without one a plain insert.\<close>

definition record_entry :: "svc_env \<Rightarrow> entry_input \<Rightarrow> ledger_entry svc" where
  "record_entry e x =
     bnd (gets (find_entry (if truthy (ei_key x) then ei_key x else None))) (\<lambda>found.
     case found of Some l \<Rightarrow> ret l | None \<Rightarrow> append_entry e x)"

text \<open>\<open>createMany\<close> with \<open>skipDuplicates\<close>: a row whose key is taken is left out.\<close>

definition create_entries :: "svc_env \<Rightarrow> entry_input list \<Rightarrow> unit svc" where
  "create_entries e xs =
     bnd (for_each xs (\<lambda>x.
       bnd (gets (find_entry (ei_key x))) (\<lambda>found.
       case found of Some l \<Rightarrow> ret () | None \<Rightarrow> bnd (append_entry e x) (\<lambda>_. ret ())))) (\<lambda>_. ret ())"

text \<open>What an operation on an invoice is told about it.\<close>

record invoice_ref =
  ir_id :: string
  ir_condo :: string
  ir_unit :: string
  ir_number :: "string option"
  ir_issued_at :: "int option"

definition charge_inputs ::
  "svc_env \<Rightarrow> invoice_ref \<Rightarrow> charge_line list \<Rightarrow> string option \<Rightarrow> entry_input list" where
  "charge_inputs e iv ls actor =
     map (\<lambda>(i, l).
       \<lparr>ei_condo = ir_condo iv, ei_unit = Some (ir_unit iv),
        ei_fund = (case cl_fund l of None \<Rightarrow> fund_of_code (cl_code l) | Some f \<Rightarrow> f),
        ei_type = CHARGE, ei_amount = cl_amount l,
        ei_key = Some (''invoice:'' @ ir_id iv @ '':charge:'' @ show_nat i),
        ei_source = ''Invoice'', ei_source_id = Some (ir_id iv), ei_memo = Some (cl_desc l),
        ei_at = Some (case ir_issued_at iv of None \<Rightarrow> now e | Some t \<Rightarrow> t), ei_by = actor\<rparr>)
       (zip [0..<length ls] ls)"

definition record_invoice_charges ::
  "svc_env \<Rightarrow> invoice_ref \<Rightarrow> charge_line list \<Rightarrow> string option \<Rightarrow> unit svc" where
  "record_invoice_charges e iv ls actor =
     (if ls = [] then ret ()
      else bnd (create_entries e (charge_inputs e iv ls actor)) (\<lambda>_.
        only_if (gl_wired e)
          (post_invoice_charges (env.truncate e) (ir_id iv) (ir_condo iv)
            (case ir_number iv of None \<Rightarrow> take 8 (ir_id iv) | Some n \<Rightarrow> n)
            (ir_issued_at iv) ls actor)))"

definition charges_of :: "string \<Rightarrow> bdb \<Rightarrow> ledger_entry list" where
  "charges_of invoice_id s =
     sort_key le_at (filter (\<lambda>l. le_source l = ''Invoice'' \<and> le_source_id l = Some invoice_id \<and>
       le_type l = CHARGE) (ledger s))"

definition void_input ::
  "invoice_ref \<Rightarrow> string option \<Rightarrow> string option \<Rightarrow> ledger_entry \<Rightarrow> entry_input" where
  "void_input iv actor reason charge =
     \<lparr>ei_condo = ir_condo iv, ei_unit = Some (ir_unit iv), ei_fund = le_fund charge,
      ei_type = ADJUSTMENT, ei_amount = - le_amount charge,
      ei_key = Some (''invoice:'' @ ir_id iv @ '':void:'' @ le_id charge),
      ei_source = ''Invoice'', ei_source_id = Some (ir_id iv),
      ei_memo = Some (''Void reversal'' @
        (if truthy (ir_number iv) then '' for '' @ the (ir_number iv) else []) @
        (if truthy reason then '' '' @ em_dash @ '' '' @ the reason else [])),
      ei_at = None, ei_by = actor\<rparr>"

definition reverse_invoice_charges ::
  "svc_env \<Rightarrow> invoice_ref \<Rightarrow> string option \<Rightarrow> string option \<Rightarrow> unit svc" where
  "reverse_invoice_charges e iv actor reason =
     bnd (gets (charges_of (ir_id iv))) (\<lambda>charges.
     bnd (for_each charges (\<lambda>c. record_entry e (void_input iv actor reason c))) (\<lambda>_. ret ()))"

section \<open>Payment allocation\<close>

text \<open>The totals per fund and the total of an invoice's lines.\<close>

definition line_funds :: "invoice_line list \<Rightarrow> (ledger_fund \<times> money) list" where
  "line_funds ls = foldl (\<lambda>m l. acc_add (fund_of_code (il_code l)) (il_amount l) m) [] ls"

definition line_total :: "invoice_line list \<Rightarrow> money" where
  "line_total ls = sum_list (map il_amount ls)"

text \<open>
  The loop over \<open>byFund.entries()\<close>: each fund but the last gets its proportional share rounded to
  sen, the last one gets what is left of the amount.
\<close>

fun alloc_shares ::
  "money \<Rightarrow> money \<Rightarrow> money \<Rightarrow> (ledger_fund \<times> money) list \<Rightarrow> (ledger_fund \<times> money) list" where
  "alloc_shares amount tot allocated [] = []"
| "alloc_shares amount tot allocated [(f, t)] =
     [(f, if tot > 0 then amount - allocated else amount)]"
| "alloc_shares amount tot allocated ((f, t) # g # fs) =
     (let share = (if tot > 0 then round2 (amount * t / tot) else amount)
      in (f, share) # alloc_shares amount tot (allocated + share) (g # fs))"

definition payment_shares :: "money \<Rightarrow> invoice_line list \<Rightarrow> (ledger_fund \<times> money) list" where
  "payment_shares amount ls =
     alloc_shares amount (line_total ls) 0
       (if line_total ls \<le> 0 then [(GENERAL, amount)] else line_funds ls)"

text \<open>Shares of less than half a sen are not written.\<close>

definition written_shares :: "money \<Rightarrow> invoice_line list \<Rightarrow> (ledger_fund \<times> money) list" where
  "written_shares amount ls = filter (\<lambda>(f, share). \<bar>share\<bar> \<ge> 1 / 200) (payment_shares amount ls)"

definition allocation_inputs ::
  "svc_env \<Rightarrow> invoice \<Rightarrow> string \<Rightarrow> money \<Rightarrow> int option \<Rightarrow> string option \<Rightarrow> entry_input list" where
  "allocation_inputs e iv payment amount occurred_at actor =
     map (\<lambda>(fund, share).
       \<lparr>ei_condo = inv_condo iv, ei_unit = Some (inv_unit iv), ei_fund = fund,
        ei_type = PAYMENT, ei_amount = share,
        ei_key = Some (''payment:'' @ payment @ '':'' @ fund_text fund),
        ei_source = ''Payment'', ei_source_id = Some payment,
        ei_memo = Some (''Payment for '' @ inv_number iv),
        ei_at = Some (case occurred_at of None \<Rightarrow> now e | Some t \<Rightarrow> t), ei_by = actor\<rparr>)
       (written_shares amount (inv_lines iv))"

definition record_payment_allocation ::
  "svc_env \<Rightarrow> string \<Rightarrow> string \<Rightarrow> money \<Rightarrow> int option \<Rightarrow> string option \<Rightarrow> unit svc" where
  "record_payment_allocation e invoice_id payment amount occurred_at actor =
     bnd (gets (\<lambda>s. find_row inv_id invoice_id (invoices s))) (\<lambda>found.
     case found of None \<Rightarrow> ret ()
     | Some iv \<Rightarrow>
       bnd (create_entries e (allocation_inputs e iv payment amount occurred_at actor)) (\<lambda>_.
       only_if (gl_wired e)
         (post_payment (env.truncate e) payment (inv_condo iv) (inv_number iv)
           (written_shares amount (inv_lines iv))
           (Some (case occurred_at of None \<Rightarrow> now e | Some t \<Rightarrow> t)) actor)))"

section \<open>Prepayment credit\<close>

definition credit_of :: "string \<Rightarrow> bdb \<Rightarrow> money" where
  "credit_of unit s =
     (case find_row ua_unit unit (accounts s) of None \<Rightarrow> 0 | Some a \<Rightarrow> ua_credit a)"

definition get_credit :: "string \<Rightarrow> money svc" where
  "get_credit unit = gets (credit_of unit)"

text \<open>\<open>addCredit\<close>: an upsert that increments the balance.\<close>

definition add_credit :: "string \<Rightarrow> string \<Rightarrow> money \<Rightarrow> unit svc" where
  "add_credit condo unit amount =
     modify (\<lambda>s. case find_row ua_unit unit (accounts s) of
       Some a \<Rightarrow> s\<lparr>accounts := set_row ua_unit unit (\<lambda>a. a\<lparr>ua_credit := ua_credit a + amount\<rparr>) (accounts s)\<rparr>
     | None \<Rightarrow> s\<lparr>accounts := add_row \<lparr>ua_unit = unit, ua_condo = condo, ua_credit = amount\<rparr> (accounts s)\<rparr>)"

text \<open>\<open>consumeCredit\<close>: a conditional decrement; no row changed means not enough credit.\<close>

definition consume_credit :: "string \<Rightarrow> money \<Rightarrow> unit svc" where
  "consume_credit unit amount =
     bnd (gets (\<lambda>s. count_where (\<lambda>a. ua_unit a = unit \<and> ua_credit a \<ge> amount) (accounts s))) (\<lambda>n.
     bnd (modify (\<lambda>s. s\<lparr>accounts := set_where (\<lambda>a. ua_unit a = unit \<and> ua_credit a \<ge> amount)
           (\<lambda>a. a\<lparr>ua_credit := ua_credit a - amount\<rparr>) (accounts s)\<rparr>)) (\<lambda>_.
     ensure (n \<noteq> 0) (BadRequest ''Insufficient unit credit'')))"

section \<open>Shares\<close>

lemma alloc_shares_sum:
  "tot > 0 \<Longrightarrow> fs \<noteq> [] \<Longrightarrow> sum_list (map snd (alloc_shares amount tot a fs)) = amount - a"
  by (induction amount tot a fs rule: alloc_shares.induct) (auto simp: Let_def)

lemma alloc_shares_funds [simp]: "map fst (alloc_shares amount tot a fs) = map fst fs"
  by (induction amount tot a fs rule: alloc_shares.induct) (auto simp: Let_def)

lemma alloc_shares_sen:
  "whole_sen amount \<Longrightarrow> whole_sen a \<Longrightarrow> (f, x) \<in> set (alloc_shares amount tot a fs) \<Longrightarrow> whole_sen x"
  by (induction amount tot a fs rule: alloc_shares.induct) (auto simp: Let_def split: if_splits)

lemma line_funds_acc:
  "distinct (map fst m) \<Longrightarrow>
   distinct (map fst (foldl (\<lambda>m l. acc_add (fund_of_code (il_code l)) (il_amount l) m) m ls)) \<and>
   sum_list (map snd (foldl (\<lambda>m l. acc_add (fund_of_code (il_code l)) (il_amount l) m) m ls)) =
     sum_list (map snd m) + line_total ls"
  by (induction ls arbitrary: m) (auto simp: acc_add_distinct acc_add_sum line_total_def)

lemma line_funds_distinct: "distinct (map fst (line_funds ls))"
  using line_funds_acc [of "[]" ls] by (simp add: line_funds_def)

lemma line_funds_total: "sum_list (map snd (line_funds ls)) = line_total ls"
  using line_funds_acc [of "[]" ls] by (simp add: line_funds_def)

lemma payment_shares_distinct: "distinct (map fst (payment_shares amount ls))"
  by (simp add: payment_shares_def line_funds_distinct)

lemma payment_shares_sum: "sum_list (map snd (payment_shares amount ls)) = amount"
proof (cases "line_total ls \<le> 0")
  case True
  then show ?thesis by (simp add: payment_shares_def)
next
  case False
  then have "line_funds ls \<noteq> []" using line_funds_total [of ls] by auto
  with False show ?thesis by (simp add: payment_shares_def alloc_shares_sum)
qed

lemma sum_where_if: "(\<Sum>x\<leftarrow>xs. if p x then f x else 0) = sum_where p f xs"
  by (induction xs) auto

lemma sum_filter_zero:
  "(\<And>p. p \<in> set ps \<Longrightarrow> \<not> Q p \<Longrightarrow> snd p = 0) \<Longrightarrow>
   sum_list (map snd (filter Q ps)) = sum_list (map (snd :: _ \<Rightarrow> rat) ps)"
  by (induction ps) auto

text \<open>On amounts of whole sen nothing is lost by leaving the small shares out.\<close>

lemma written_shares_sum:
  assumes "whole_sen amount"
  shows "sum_list (map snd (written_shares amount ls)) = amount"
proof -
  have small: "snd p = 0" if "p \<in> set (payment_shares amount ls)" "\<bar>snd p\<bar> < 1 / 200" for p
  proof (rule whole_sen_small [OF _ that(2)])
    have "(fst p, snd p) \<in> set (payment_shares amount ls)" using that(1) by simp
    then show "whole_sen (snd p)"
      unfolding payment_shares_def by (rule alloc_shares_sen [OF assms whole_sen_0])
  qed
  show ?thesis unfolding written_shares_def
    by (subst sum_filter_zero) (use small in \<open>auto simp: payment_shares_sum not_le\<close>)
qed

section \<open>Runs of the ledger operations\<close>

lemma entry_of_id: "(entry_of e x i)\<lparr>le_id := j\<rparr> = entry_of e x j"
  by (simp add: entry_of_def)

lemma append_entry_run [act_simps]:
  "append_entry e x s =
     (Inr (entry_of e x (uuids s (next_uuid s))),
      s\<lparr>next_uuid := Suc (next_uuid s), ledger := ledger s @ [entry_of e x (uuids s (next_uuid s))]\<rparr>)"
  by (simp add: append_entry_def bnd_def new_id_def modify_def ret_def)

lemma record_entry_known [act_simps]:
  "truthy (ei_key x) \<Longrightarrow> find_entry (ei_key x) s = Some l \<Longrightarrow> record_entry e x s = (Inr l, s)"
  by (simp add: record_entry_def bnd_def gets_def ret_def)

lemma record_entry_new [act_simps]:
  "find_entry (ei_key x) s = None \<Longrightarrow> record_entry e x s = append_entry e x s"
  by (auto simp: record_entry_def bnd_def gets_def find_entry_def)

lemma record_entry_returns: "\<exists>l t. record_entry e x s = (Inr l, t)"
  by (simp add: record_entry_def bnd_def gets_def ret_def append_entry_run split: option.split)

lemma find_entry_append:
  "find_entry k (s\<lparr>next_uuid := n, ledger := ledger s @ ls\<rparr>) =
     (case find_entry k s of Some l \<Rightarrow> Some l
      | None \<Rightarrow> if k = None then None else find (\<lambda>l. le_key l = k) ls)"
  by (simp add: find_entry_def find_append split: option.split)

text \<open>
  A measure of the ledger: the sum of a weight over its entries. The weight may not look at the
  entry's id, which the database makes up.
\<close>

definition ledger_sum :: "(ledger_entry \<Rightarrow> rat) \<Rightarrow> bdb \<Rightarrow> rat" where
  "ledger_sum w s = sum_list (map w (ledger s))"

locale ledger_measure =
  fixes weight :: "ledger_entry \<Rightarrow> rat"
  assumes weight_id: "weight (l\<lparr>le_id := i\<rparr>) = weight l"
begin

lemma weight_entry_of: "weight (entry_of e x i) = weight (entry_of e x [])"
  using weight_id [of "[]" "entry_of e x i"] by (simp add: entry_of_id)

lemma append_entry_sum:
  "append_entry e x s = (r, t) \<Longrightarrow> ledger_sum weight t = ledger_sum weight s + weight (entry_of e x [])"
  using weight_entry_of by (auto simp: append_entry_run ledger_sum_def)

lemma record_entry_sum:
  "record_entry e x s = (r, t) \<Longrightarrow> find_entry (ei_key x) s = None \<Longrightarrow>
   ledger_sum weight t = ledger_sum weight s + weight (entry_of e x [])"
  by (rule append_entry_sum) (simp add: record_entry_new)

lemma create_entries_sum:
  assumes "create_entries e xs s = (r, t)"
    and "\<And>x. x \<in> set xs \<Longrightarrow> ei_key x \<noteq> None \<and> find_entry (ei_key x) s = None"
    and "distinct (map ei_key xs)"
  shows "ledger_sum weight t = ledger_sum weight s + sum_list (map (\<lambda>x. weight (entry_of e x [])) xs)"
  using assms
proof (induction xs arbitrary: s)
  case Nil
  then show ?case by (simp add: create_entries_def bnd_def ret_def)
next
  case (Cons x xs)
  let ?s = "snd (append_entry e x s)"
  have step: "ledger_sum weight ?s = ledger_sum weight s + weight (entry_of e x [])"
    using append_entry_sum [of e x s "fst (append_entry e x s)" ?s] by simp
  have "find_entry (ei_key x) s = None" using Cons.prems(2) by simp
  then have run: "create_entries e xs ?s = (r, t)"
    using Cons.prems(1)
    by (auto simp: create_entries_def bnd_def gets_def append_entry_run ret_def
        split: prod.splits sum.splits)
  have new: "ei_key y \<noteq> None \<and> find_entry (ei_key y) ?s = None" if "y \<in> set xs" for y
    using that Cons.prems(2) [of y] Cons.prems(3)
    by (auto simp: append_entry_run find_entry_append entry_of_def rev_image_eqI)
  from Cons.IH [OF run new] Cons.prems(3) step show ?case by simp
qed

lemma for_each_record_sum:
  assumes "for_each xs (\<lambda>x. record_entry e (f x)) s = (r, t)"
    and "\<And>x. x \<in> set xs \<Longrightarrow> ei_key (f x) \<noteq> None \<and> find_entry (ei_key (f x)) s = None"
    and "distinct (map (\<lambda>x. ei_key (f x)) xs)"
  shows "ledger_sum weight t = ledger_sum weight s + sum_list (map (\<lambda>x. weight (entry_of e (f x) [])) xs)"
  using assms
proof (induction xs arbitrary: s r)
  case Nil
  then show ?case by (simp add: ret_def)
next
  case (Cons x xs)
  let ?s = "snd (append_entry e (f x) s)"
  have step: "ledger_sum weight ?s = ledger_sum weight s + weight (entry_of e (f x) [])"
    using append_entry_sum [of e "f x" s "fst (append_entry e (f x) s)" ?s] by simp
  have "find_entry (ei_key (f x)) s = None" using Cons.prems(2) by simp
  then obtain r' where run: "for_each xs (\<lambda>x. record_entry e (f x)) ?s = (r', t)"
    using Cons.prems(1)
    by (auto simp: bnd_def record_entry_new append_entry_run ret_def split: prod.splits sum.splits)
  have new: "ei_key (f y) \<noteq> None \<and> find_entry (ei_key (f y)) ?s = None" if "y \<in> set xs" for y
    using that Cons.prems(2) [of y] Cons.prems(3)
    by (auto simp: append_entry_run find_entry_append entry_of_def rev_image_eqI)
  from Cons.IH [OF run new] Cons.prems(3) step show ?case by simp
qed

end

text \<open>What a unit owes by the ledger (\<open>applyLedgerEntry\<close>), and the cash of a condo's fund.\<close>

definition unit_weight :: "string \<Rightarrow> ledger_entry \<Rightarrow> rat" where
  "unit_weight unit l =
     (if le_unit l = Some unit \<and> le_type l \<noteq> DEPOSIT_ENTRY
      then (if le_type l = CHARGE then le_amount l else - le_amount l) else 0)"

definition cash_weight :: "string \<Rightarrow> ledger_fund \<Rightarrow> ledger_entry \<Rightarrow> rat" where
  "cash_weight condo fund l =
     (if le_condo l = condo \<and> le_fund l = fund \<and> le_type l \<noteq> CHARGE then le_amount l else 0)"

definition unit_balance :: "string \<Rightarrow> bdb \<Rightarrow> money" where
  "unit_balance unit = ledger_sum (unit_weight unit)"

definition fund_cash :: "string \<Rightarrow> ledger_fund \<Rightarrow> bdb \<Rightarrow> money" where
  "fund_cash condo fund = ledger_sum (cash_weight condo fund)"

interpretation unit_measure: ledger_measure "unit_weight unit" for unit
  by unfold_locales (simp add: unit_weight_def)

interpretation cash_measure: ledger_measure "cash_weight condo fund" for condo fund
  by unfold_locales (simp add: cash_weight_def)

section \<open>Effect of the postings\<close>

lemma find_entry_None_iff: "find_entry k s = None \<longleftrightarrow> k = None \<or> (\<forall>l \<in> set (ledger s). le_key l \<noteq> k)"
  by (auto simp: find_entry_def find_None_iff)

lemma charge_keys_distinct: "distinct (map ei_key (charge_inputs e iv ls actor))"
  by (auto simp: charge_inputs_def distinct_conv_nth)

lemma allocation_keys_distinct: "distinct (map ei_key (allocation_inputs e iv p amount d actor))"
proof -
  have "distinct (map fst (written_shares amount (inv_lines iv)))"
    unfolding written_shares_def by (rule distinct_map_filter) (rule payment_shares_distinct)
  then show ?thesis
    by (simp add: allocation_inputs_def o_def split_def distinct_map inj_on_def)
qed

text \<open>
  The state has no trace yet of the entries an operation is about to key: no entry of the ledger
  has a key that starts with \<open>p\<close>.
\<close>

definition no_keys :: "string \<Rightarrow> bdb \<Rightarrow> bool" where
  "no_keys p s = list_all (\<lambda>l. \<not> starts_with p (case le_key l of None \<Rightarrow> [] | Some k \<Rightarrow> k)) (ledger s)"

lemma no_keys_find: "no_keys p s \<Longrightarrow> p \<noteq> [] \<Longrightarrow> find_entry (Some (p @ k)) s = None"
  by (auto simp: no_keys_def find_entry_None_iff list_all_iff)

lemma no_keys_find': "no_keys p s \<Longrightarrow> p \<noteq> [] \<Longrightarrow> k = p @ k' \<Longrightarrow> find_entry (Some k) s = None"
  by (simp add: no_keys_find)

lemma create_entries_gl [keep]:
  "(\<And>s n. f (s\<lparr>next_uuid := n\<rparr>) = f s) \<Longrightarrow> (\<And>s l. f (s\<lparr>ledger := l\<rparr>) = f s) \<Longrightarrow>
   keeps f (create_entries e xs)"
  unfolding create_entries_def append_entry_def by (intro keep keeps_modify)

lemma ledger_kept_by_gl [keep]:
  "keeps ledger (post_invoice_charges e' i condo n d ls a)"
  "keeps ledger (post_payment e' p condo n al d a)"
  unfolding post_invoice_charges_def post_payment_def post_entry_def Let_def
  by (intro keep keeps_modify; simp)+

text \<open>The charges of an invoice: the unit owes their sum more, no fund's cash changes.\<close>

lemma record_invoice_charges_effect:
  assumes run: "record_invoice_charges e iv ls actor s = (r, t)"
    and new: "no_keys (''invoice:'' @ ir_id iv @ '':charge:'') s"
  shows "unit_balance u t = unit_balance u s +
           (if ir_unit iv = u then sum_list (map cl_amount ls) else 0)"
    and "fund_cash condo fund t = fund_cash condo fund s"
proof -
  let ?xs = "charge_inputs e iv ls actor"
  obtain r1 s1 where c: "create_entries e ?xs s = (r1, s1)" by (cases "create_entries e ?xs s")
  have ok: "ei_key x \<noteq> None \<and> find_entry (ei_key x) s = None" if "x \<in> set ?xs" for x
    using that no_keys_find [OF new] by (auto simp: charge_inputs_def)
  have l: "ledger t = ledger s1"
  proof (cases "ls = []")
    case True
    then show ?thesis using run c
      by (simp add: record_invoice_charges_def charge_inputs_def create_entries_def bnd_def ret_def)
  next
    case False
    with run c show ?thesis
      by (cases r1) (auto simp: record_invoice_charges_def bnd_def only_if_def ret_def
          dest: keeps_run [OF ledger_kept_by_gl(1)] split: if_splits)
  qed
  have ms: "map (\<lambda>x. unit_weight u (entry_of e x [])) ?xs =
      map (\<lambda>l. if ir_unit iv = u then cl_amount l else 0) ls"
    by (auto simp: charge_inputs_def entry_of_def unit_weight_def intro: nth_equalityI)
  have mc: "map (\<lambda>x. cash_weight condo fund (entry_of e x [])) ?xs = map (\<lambda>l. 0) ls"
    by (auto simp: charge_inputs_def entry_of_def cash_weight_def intro: nth_equalityI)
  show "unit_balance u t = unit_balance u s +
      (if ir_unit iv = u then sum_list (map cl_amount ls) else 0)"
    using unit_measure.create_entries_sum [OF c ok charge_keys_distinct, of u] l
    by (simp add: unit_balance_def ledger_sum_def ms del: map_map)
  show "fund_cash condo fund t = fund_cash condo fund s"
    using cash_measure.create_entries_sum [OF c ok charge_keys_distinct, of condo fund] l
    by (simp add: fund_cash_def ledger_sum_def mc del: map_map)
qed

text \<open>
  Voiding. The reversal of a charge is an ADJUSTMENT of the negated amount, and a statement
  counts every entry that is not a CHARGE as a payment; so the reversal raises what the unit
  owes by the charge once more, and it lowers the fund's cash, which the charge never raised.
\<close>

lemma reverse_invoice_charges_effect:
  assumes run: "reverse_invoice_charges e iv actor reason s = (r, t)"
    and new: "no_keys (''invoice:'' @ ir_id iv @ '':void:'') s"
    and ids: "distinct (map le_id (ledger s))"
  shows "unit_balance u t = unit_balance u s +
           (if ir_unit iv = u then sum_list (map le_amount (charges_of (ir_id iv) s)) else 0)"
    and "fund_cash (ir_condo iv) fund t = fund_cash (ir_condo iv) fund s -
           sum_where (\<lambda>l. le_fund l = fund) le_amount (charges_of (ir_id iv) s)"
proof -
  let ?cs = "charges_of (ir_id iv) s"
  let ?f = "void_input iv actor reason"
  obtain r1 where c: "for_each ?cs (\<lambda>x. record_entry e (?f x)) s = (r1, t)"
    using run by (auto simp: reverse_invoice_charges_def bnd_def gets_def ret_def
        split: prod.splits sum.splits)
  have ok: "ei_key (?f x) \<noteq> None \<and> find_entry (ei_key (?f x)) s = None" for x
    using no_keys_find [OF new, of "le_id x"] by (simp add: void_input_def)
  have "distinct (map le_id ?cs)"
    unfolding charges_of_def using ids
    by (simp add: distinct_map distinct_map_filter inj_on_def)
  then have dist: "distinct (map (\<lambda>x. ei_key (?f x)) ?cs)"
    by (simp add: void_input_def distinct_map inj_on_def)
  have mu: "(\<Sum>x\<leftarrow>?cs. unit_weight u (entry_of e (?f x) [])) =
      (if ir_unit iv = u then sum_list (map le_amount ?cs) else 0)"
    by (simp add: void_input_def entry_of_def unit_weight_def)
  have mc: "(\<Sum>x\<leftarrow>cs. cash_weight (ir_condo iv) fund (entry_of e (?f x) [])) =
      - sum_where (\<lambda>l. le_fund l = fund) le_amount cs" for cs
    by (induction cs) (auto simp: void_input_def entry_of_def cash_weight_def)
  show "unit_balance u t = unit_balance u s + (if ir_unit iv = u then sum_list (map le_amount ?cs) else 0)"
    using unit_measure.for_each_record_sum [OF c ok dist, of u] mu by (simp add: unit_balance_def)
  show "fund_cash (ir_condo iv) fund t = fund_cash (ir_condo iv) fund s -
      sum_where (\<lambda>l. le_fund l = fund) le_amount ?cs"
    using cash_measure.for_each_record_sum [OF c ok dist, of "ir_condo iv" fund] mc
    by (simp add: fund_cash_def)
qed

text \<open>A payment: the unit owes the amount less, and the funds' cash rises by it in all.\<close>

lemma record_payment_allocation_effect:
  assumes run: "record_payment_allocation e i p amount d actor s = (r, t)"
    and inv: "find_row inv_id i (invoices s) = Some iv"
    and new: "no_keys (''payment:'' @ p @ '':'') s"
    and sen: "whole_sen amount"
  shows "unit_balance u t = unit_balance u s - (if inv_unit iv = u then amount else 0)"
    and "fund_cash (inv_condo iv) fund t = fund_cash (inv_condo iv) fund s +
           sum_where (\<lambda>q. fst q = fund) snd (written_shares amount (inv_lines iv))"
proof -
  let ?xs = "allocation_inputs e iv p amount d actor"
  obtain r1 s1 where c: "create_entries e ?xs s = (r1, s1)" by (cases "create_entries e ?xs s")
  have l: "ledger t = ledger s1"
    using run c inv
    by (cases r1) (auto simp: record_payment_allocation_def bnd_def gets_def only_if_def ret_def
        dest: keeps_run [OF ledger_kept_by_gl(2)] split: if_splits)
  have ok: "ei_key x \<noteq> None \<and> find_entry (ei_key x) s = None" if "x \<in> set ?xs" for x
    using that no_keys_find [OF new] by (auto simp: allocation_inputs_def)
  have mu: "(\<Sum>x\<leftarrow>?xs. unit_weight u (entry_of e x [])) = - (if inv_unit iv = u then amount else 0)"
    using written_shares_sum [OF sen, of "inv_lines iv"]
    by (simp add: allocation_inputs_def entry_of_def unit_weight_def o_def split_def
        uminus_sum_list_map [symmetric, unfolded o_def])
  have mc: "(\<Sum>x\<leftarrow>?xs. cash_weight (inv_condo iv) fund (entry_of e x [])) =
      sum_where (\<lambda>q. fst q = fund) snd (written_shares amount (inv_lines iv))"
    by (simp add: allocation_inputs_def entry_of_def cash_weight_def o_def split_def sum_where_if)
  show "unit_balance u t = unit_balance u s - (if inv_unit iv = u then amount else 0)"
    using unit_measure.create_entries_sum [OF c ok allocation_keys_distinct, of u] l mu
    by (simp add: unit_balance_def ledger_sum_def)
  show "fund_cash (inv_condo iv) fund t = fund_cash (inv_condo iv) fund s +
      sum_where (\<lambda>q. fst q = fund) snd (written_shares amount (inv_lines iv))"
    using cash_measure.create_entries_sum [OF c ok allocation_keys_distinct, of "inv_condo iv" fund]
      l mc
    by (simp add: fund_cash_def ledger_sum_def)
qed

section \<open>Credit\<close>

lemma credit_add:
  "add_credit condo unit amount s = (r, t) \<Longrightarrow>
   credit_of u t = credit_of u s + (if u = unit then amount else 0)"
  by (auto simp: add_credit_def modify_def credit_of_def account_table.look_put
      account_table.look_alter account_table.look_key split: option.splits)

lemma accounts_distinct_set_where:
  "distinct (map ua_unit as) \<Longrightarrow>
   find_row ua_unit u (set_where (\<lambda>a. ua_unit a = unit \<and> ua_credit a \<ge> amount)
     (\<lambda>a. a\<lparr>ua_credit := ua_credit a - amount\<rparr>) as) =
   map_option (\<lambda>a. if u = unit \<and> ua_credit a \<ge> amount then a\<lparr>ua_credit := ua_credit a - amount\<rparr> else a)
     (find_row ua_unit u as)"
  by (induction as) (auto simp: set_where_def)

text \<open>Credit is only consumed where there is enough of it, so it never goes below zero.\<close>

lemma consume_credit_effect:
  assumes run: "consume_credit unit amount s = (Inr x, t)"
    and dist: "distinct (map ua_unit (accounts s))"
  shows "\<exists>a. find_row ua_unit unit (accounts s) = Some a \<and> ua_credit a \<ge> amount"
    and "credit_of u t = credit_of u s - (if u = unit then amount else 0)"
proof -
  from run have "count_where (\<lambda>a. ua_unit a = unit \<and> ua_credit a \<ge> amount) (accounts s) \<noteq> 0"
    and t: "t = s\<lparr>accounts := set_where (\<lambda>a. ua_unit a = unit \<and> ua_credit a \<ge> amount)
           (\<lambda>a. a\<lparr>ua_credit := ua_credit a - amount\<rparr>) (accounts s)\<rparr>"
    by (auto simp: consume_credit_def act_defs split: if_splits)
  then obtain a where "a \<in> set (accounts s)" "ua_unit a = unit" "ua_credit a \<ge> amount"
    by (auto simp: count_where_def filter_empty_conv)
  then have a: "find_row ua_unit unit (accounts s) = Some a"
    using find_row_distinct [OF dist] by auto
  with \<open>ua_credit a \<ge> amount\<close> show "\<exists>a. find_row ua_unit unit (accounts s) = Some a \<and> ua_credit a \<ge> amount"
    by blast
  show "credit_of u t = credit_of u s - (if u = unit then amount else 0)"
    using a \<open>ua_credit a \<ge> amount\<close> dist unfolding t
    by (auto simp: credit_of_def accounts_distinct_set_where split: option.splits)
qed

end
