(* ===== verification/Samples.thy ===== *)
theory Samples
  imports Ledger
begin

text \<open>
  Concrete rows and states of the billing database: the inputs at which the properties' witnesses
  are evaluated.
\<close>

definition sample_entry ::
  "string \<Rightarrow> ledger_type \<Rightarrow> money \<Rightarrow> string \<Rightarrow> int \<Rightarrow> ledger_entry" where
  "sample_entry i ty x key d =
     \<lparr>le_id = i, le_condo = ''c'', le_unit = Some ''u'', le_fund = MAINTENANCE, le_type = ty,
      le_amount = x, le_key = Some key, le_source = ''Invoice'', le_source_id = Some ''i'',
      le_memo = None, le_at = d, le_by = None\<rparr>"

definition sample_ledger :: bdb where
  "sample_ledger = empty_db\<lparr>ledger :=
     [sample_entry ''e1'' CHARGE 100 ''invoice:i:charge:0'' 10,
      sample_entry ''e2'' PAYMENT 40 ''payment:p:MAINTENANCE'' 20,
      sample_entry ''e3'' ADJUSTMENT (- 100) ''invoice:i:void:e1'' 30]\<rparr>"

lemmas sample_defs = sample_ledger_def sample_entry_def

lemma whole_sen_numeral [simp]: "whole_sen (numeral n)" "whole_sen 1" "whole_sen (- numeral n)"
  by (rule whole_senI [of _ "numeral n * 100"] whole_senI [of _ 100] whole_senI [of _ "- numeral n * 100"];
      simp)+

definition sample_invoice :: "string \<Rightarrow> invoice_status \<Rightarrow> money \<Rightarrow> money \<Rightarrow> int \<Rightarrow> invoice" where
  "sample_invoice i st tot paid due =
     \<lparr>inv_id = i, inv_condo = ''c'', inv_unit = ''u'', inv_number = ''INV-2024-00001'',
      inv_period_start = 0, inv_period_end = 0, inv_due = due, inv_status = st,
      inv_subtotal = tot, inv_total = tot, inv_paid = paid, inv_currency = ''MYR'',
      inv_issued_at = Some 0, inv_paid_at = None, inv_voided_at = None, inv_meta = Map.empty,
      inv_lines = [\<lparr>il_code = ''MAINT'', il_desc = ''Maintenance'', il_formula = None, il_qty = 1,
                    il_price = tot, il_amount = tot, il_sort = 0\<rparr>]\<rparr>"

definition sample_ref :: invoice_ref where
  "sample_ref = \<lparr>ir_id = ''i'', ir_condo = ''c'', ir_unit = ''u'', ir_number = None, ir_issued_at = None\<rparr>"

definition sample_env :: svc_env where
  "sample_env = \<lparr>now = 30, this_year = 2024, gl_wired = False, num_text = (\<lambda>x. [])\<rparr>"

end
