(* ===== verification/Ledger_Reports.thy ===== *)
theory Ledger_Reports
  imports Samples "HOL-Library.Multiset"
begin

text \<open>
  The reports of apps/api/src/billing/ledger.service.ts: what is read from the ledger entries,
  the invoices and the unit accounts. A report is a function of the state; the dates that only
  label it are left out. \<open>findMany\<close> without an order returns the table's rows in insertion order.
\<close>

section \<open>Fund reports\<close>

definition contributes_to_fund_cash :: "ledger_type \<Rightarrow> bool" where
  "contributes_to_fund_cash t = (t \<noteq> CHARGE)"

definition fund_balances :: "string \<Rightarrow> bdb \<Rightarrow> (ledger_fund \<times> money) list" where
  "fund_balances condo s =
     map (\<lambda>f. (f, round2 (sum_where (\<lambda>l. le_condo l = condo \<and> le_type l \<noteq> CHARGE \<and> le_fund l = f)
       le_amount (ledger s)))) all_funds"

definition fund_balances_as_of :: "string \<Rightarrow> int \<Rightarrow> bdb \<Rightarrow> (ledger_fund \<times> money) list" where
  "fund_balances_as_of condo as_of s =
     map (\<lambda>f. (f, round2 (sum_where
       (\<lambda>l. (le_condo l = condo \<and> le_type l \<noteq> CHARGE \<and> le_at l \<le> as_of) \<and> le_fund l = f)
       le_amount (ledger s)))) all_funds"

text \<open>The five maps \<open>fundSummary\<close> fills; every fund starts at 0.\<close>

record fund_maps =
  fm_opening :: "ledger_fund \<Rightarrow> money"
  fm_closing :: "ledger_fund \<Rightarrow> money"
  fm_collections :: "ledger_fund \<Rightarrow> money"
  fm_charges :: "ledger_fund \<Rightarrow> money"
  fm_adjustments :: "ledger_fund \<Rightarrow> money"

definition bump :: "ledger_fund \<Rightarrow> money \<Rightarrow> (ledger_fund \<Rightarrow> money) \<Rightarrow> (ledger_fund \<Rightarrow> money)" where
  "bump f x m = m(f := m f + x)"

definition no_funds :: fund_maps where
  "no_funds = \<lparr>fm_opening = (\<lambda>_. 0), fm_closing = (\<lambda>_. 0), fm_collections = (\<lambda>_. 0),
     fm_charges = (\<lambda>_. 0), fm_adjustments = (\<lambda>_. 0)\<rparr>"

text \<open>One round of the loop of \<open>fundSummary\<close>.\<close>

definition summary_step :: "int \<Rightarrow> int \<Rightarrow> fund_maps \<Rightarrow> ledger_entry \<Rightarrow> fund_maps" where
  "summary_step from_d to_d m l =
     (let amount = le_amount l; fund = le_fund l;
          before = le_at l < from_d; in_period = (le_at l \<ge> from_d \<and> le_at l \<le> to_d);
          m1 = (if le_type l = PAYMENT \<and> in_period
                then m\<lparr>fm_collections := bump fund amount (fm_collections m)\<rparr> else m);
          m2 = (if le_type l = CHARGE \<and> in_period
                then m1\<lparr>fm_charges := bump fund amount (fm_charges m1)\<rparr> else m1);
          m3 = (if le_type l = ADJUSTMENT \<and> in_period
                then m2\<lparr>fm_adjustments := bump fund amount (fm_adjustments m2)\<rparr> else m2)
      in if contributes_to_fund_cash (le_type l)
         then let m4 = (if before then m3\<lparr>fm_opening := bump fund amount (fm_opening m3)\<rparr> else m3)
              in if le_at l \<le> to_d then m4\<lparr>fm_closing := bump fund amount (fm_closing m4)\<rparr> else m4
         else m3)"

record fund_row =
  fs_fund :: ledger_fund
  fs_opening :: money
  fs_collections :: money
  fs_charges :: money
  fs_adjustments :: money
  fs_closing :: money

definition summary_maps :: "string \<Rightarrow> int \<Rightarrow> int \<Rightarrow> bdb \<Rightarrow> fund_maps" where
  "summary_maps condo from_d to_d s =
     foldl (summary_step from_d to_d) no_funds
       (sort_key (\<lambda>l. (le_at l, le_id l)) (filter (\<lambda>l. le_condo l = condo) (ledger s)))"

definition fund_summary :: "string \<Rightarrow> int \<Rightarrow> int \<Rightarrow> bdb \<Rightarrow> fund_row list" where
  "fund_summary condo from_d to_d s =
     (let m = summary_maps condo from_d to_d s
      in map (\<lambda>f. \<lparr>fs_fund = f, fs_opening = round2 (fm_opening m f),
           fs_collections = round2 (fm_collections m f), fs_charges = round2 (fm_charges m f),
           fs_adjustments = round2 (fm_adjustments m f), fs_closing = round2 (fm_closing m f)\<rparr>)
         all_funds)"

section \<open>Income and expense\<close>

record category_row =
  ct_code :: string
  ct_desc :: string
  ct_fund :: ledger_fund
  ct_charges :: money
  ct_collections :: money

text \<open>\<open>categoryMap\<close>, in insertion order: a known key's row gets \<open>add\<close>, a new key gets \<open>row\<close>.\<close>

fun cat_put ::
  "string \<Rightarrow> (category_row \<Rightarrow> category_row) \<Rightarrow> category_row \<Rightarrow> (string \<times> category_row) list \<Rightarrow>
   (string \<times> category_row) list" where
  "cat_put k add row [] = [(k, row)]"
| "cat_put k add row ((k', r) # m) =
     (if k = k' then (k', add r) # m else (k', r) # cat_put k add row m)"

definition cat_charge ::
  "(string \<times> category_row) list \<Rightarrow> invoice_line \<Rightarrow> (string \<times> category_row) list" where
  "cat_charge m l =
     (let fund = fund_of_code (il_code l)
      in cat_put (fund_text fund @ '':'' @ il_code l)
           (\<lambda>r. r\<lparr>ct_charges := ct_charges r + il_amount l\<rparr>)
           \<lparr>ct_code = il_code l, ct_desc = il_desc l, ct_fund = fund,
            ct_charges = il_amount l, ct_collections = 0\<rparr> m)"

definition collection_code :: "string option \<Rightarrow> string" where
  "collection_code memo =
     (case memo of None \<Rightarrow> ''PAYMENT''
      | Some t \<Rightarrow>
          if has_infix ''Sinking'' t \<or> has_infix ''sinking'' t then ''SINKING''
          else if has_infix ''Maintenance'' t \<or> has_infix ''maintenance'' t then ''MAINT''
          else ''PAYMENT'')"

definition cat_collection ::
  "(string \<times> category_row) list \<Rightarrow> ledger_entry \<Rightarrow> (string \<times> category_row) list" where
  "cat_collection m l =
     (let code = collection_code (le_memo l)
      in cat_put (fund_text (le_fund l) @ '':'' @ code @ '':pay'')
           (\<lambda>r. r\<lparr>ct_collections := ct_collections r + le_amount l\<rparr>)
           \<lparr>ct_code = code, ct_desc = (case le_memo l of None \<Rightarrow> ''Payment'' | Some t \<Rightarrow> t),
            ct_fund = le_fund l, ct_charges = 0, ct_collections = le_amount l\<rparr> m)"

record income_expense_report =
  ie_by_fund :: "(ledger_fund \<times> money \<times> money) list"
  ie_by_category :: "category_row list"

definition income_entries :: "string \<Rightarrow> int \<Rightarrow> int \<Rightarrow> bdb \<Rightarrow> ledger_entry list" where
  "income_entries condo from_d to_d s =
     filter (\<lambda>l. le_condo l = condo \<and> from_d \<le> le_at l \<and> le_at l \<le> to_d \<and>
       le_type l \<in> {PAYMENT, CHARGE}) (ledger s)"

definition charged_invoices :: "ledger_entry list \<Rightarrow> string option set" where
  "charged_invoices es =
     le_source_id ` set (filter (\<lambda>l. le_type l = CHARGE \<and> le_source l = ''Invoice'' \<and>
       truthy (le_source_id l)) es)"

definition income_expense :: "string \<Rightarrow> int \<Rightarrow> int \<Rightarrow> bdb \<Rightarrow> income_expense_report" where
  "income_expense condo from_d to_d s =
     (let es = income_entries condo from_d to_d s;
          ls = concat (map inv_lines (filter (\<lambda>i. Some (inv_id i) \<in> charged_invoices es) (invoices s)));
          m1 = foldl cat_charge [] ls;
          m2 = foldl cat_collection m1 (filter (\<lambda>l. le_type l = PAYMENT) es);
          rows = map (\<lambda>(k, r). r\<lparr>ct_charges := round2 (ct_charges r),
                        ct_collections := round2 (ct_collections r)\<rparr>) m2
      in \<lparr>ie_by_fund = map (\<lambda>f. (f,
            round2 (sum_where (\<lambda>l. le_fund l = f \<and> le_type l = PAYMENT) le_amount es),
            round2 (sum_where (\<lambda>l. le_fund l = f \<and> le_type l \<noteq> PAYMENT) le_amount es))) all_funds,
          ie_by_category = sort_key (\<lambda>r. - (ct_charges r + ct_collections r)) rows\<rparr>)"

record stmt_item =
  si_label :: string
  si_code :: "string option"
  si_amount :: money

record profit_loss_report =
  pl_income :: "stmt_item list"
  pl_income_total :: money
  pl_expenses :: "stmt_item list"
  pl_expense_total :: money
  pl_net :: money

definition round_item :: "stmt_item \<Rightarrow> stmt_item" where
  "round_item i = i\<lparr>si_amount := round2 (si_amount i)\<rparr>"

definition items_total :: "stmt_item list \<Rightarrow> money" where
  "items_total is = round2 (sum_list (map si_amount is))"

definition profit_loss ::
  "string \<Rightarrow> int \<Rightarrow> int \<Rightarrow> ledger_fund option \<Rightarrow> bdb \<Rightarrow> profit_loss_report" where
  "profit_loss condo from_d to_d fund_filter s =
     (let cats = ie_by_category (income_expense condo from_d to_d s);
          ok = (\<lambda>f. fund_filter = None \<or> Some f = fund_filter);
          adjs = filter (\<lambda>l. le_condo l = condo \<and> from_d \<le> le_at l \<and> le_at l \<le> to_d \<and>
                   le_type l = ADJUSTMENT \<and> ok (le_fund l)) (ledger s);
          other = sum_where (\<lambda>l. le_amount l > 0) le_amount adjs;
          income = sort_key (\<lambda>i. - si_amount i)
            (map (\<lambda>r. \<lparr>si_label = ct_desc r, si_code = Some (ct_code r), si_amount = ct_collections r\<rparr>)
               (filter (\<lambda>r. ok (ct_fund r) \<and> ct_collections r > 0) cats) @
             (if other > 1 / 200
              then [\<lparr>si_label = ''Other income (adjustments)'', si_code = None, si_amount = other\<rparr>]
              else []));
          negative = sum_where (\<lambda>l. le_amount l < 0) (\<lambda>l. \<bar>le_amount l\<bar>) adjs;
          expenses = sort_key (\<lambda>i. - si_amount i)
            (map (\<lambda>r. \<lparr>si_label = ct_desc r, si_code = Some (ct_code r), si_amount = ct_charges r\<rparr>)
               (filter (\<lambda>r. ok (ct_fund r) \<and> ct_charges r > 0) cats) @
             (if negative > 1 / 200
              then [\<lparr>si_label = ''Adjustments (reductions)'', si_code = None, si_amount = negative\<rparr>]
              else []))
      in \<lparr>pl_income = map round_item income, pl_income_total = items_total income,
          pl_expenses = map round_item expenses, pl_expense_total = items_total expenses,
          pl_net = round2 (items_total income - items_total expenses)\<rparr>)"

section \<open>Balance sheet\<close>

definition receivables_as_of :: "string \<Rightarrow> int \<Rightarrow> bdb \<Rightarrow> money" where
  "receivables_as_of condo as_of s =
     (let owed = (\<lambda>i. inv_total i - sum_where
            (\<lambda>p. pay_invoice p = inv_id i \<and> pay_status p = SUCCEEDED \<and>
                 (case pay_paid_at p of None \<Rightarrow> False | Some t \<Rightarrow> t \<le> as_of)) pay_amount (payments s));
          is = filter (\<lambda>i. inv_condo i = condo \<and>
                 (case inv_issued_at i of None \<Rightarrow> False | Some t \<Rightarrow> t \<le> as_of) \<and>
                 inv_status i \<notin> {DRAFT, VOIDED}) (invoices s)
      in round2 (sum_where (\<lambda>x. x > 1 / 200) (\<lambda>x. x) (map owed is)))"

text \<open>\<open>STATEMENT_FUND_LABELS\<close>.\<close>

fun statement_fund_label :: "ledger_fund \<Rightarrow> string" where
  "statement_fund_label MAINTENANCE = ''Maintenance fund''"
| "statement_fund_label SINKING_FUND = ''Sinking fund''"
| "statement_fund_label DEPOSIT_FUND = ''Deposits held''"
| "statement_fund_label GENERAL = ''General fund''"

record balance_sheet_report =
  bs_assets :: "stmt_item list"
  bs_liabilities :: "stmt_item list"
  bs_funds :: "stmt_item list"
  bs_total_assets :: money
  bs_total_liabilities_and_funds :: money

definition balance_of :: "ledger_fund \<Rightarrow> (ledger_fund \<times> money) list \<Rightarrow> money" where
  "balance_of f bs = (case map_of bs f of None \<Rightarrow> 0 | Some x \<Rightarrow> x)"

definition balance_sheet :: "string \<Rightarrow> int \<Rightarrow> bdb \<Rightarrow> balance_sheet_report" where
  "balance_sheet condo as_of s =
     (let bs = fund_balances_as_of condo as_of s;
          receivables = receivables_as_of condo as_of s;
          credit = sum_where (\<lambda>a. ua_condo a = condo) ua_credit (accounts s);
          held = balance_of DEPOSIT_FUND bs;
          assets =
            (if receivables > 1 / 200
             then [\<lparr>si_label = ''Amount due from proprietors (receivables)'', si_code = None,
                    si_amount = receivables\<rparr>] else []) @
            (if held > 1 / 200
             then [\<lparr>si_label = ''Cash '' @ em_dash @ '' '' @ statement_fund_label DEPOSIT_FUND,
                    si_code = None, si_amount = held\<rparr>] else []);
          liabilities =
            (if held > 1 / 200
             then [\<lparr>si_label = statement_fund_label DEPOSIT_FUND, si_code = None,
                    si_amount = held\<rparr>] else []) @
            (if credit > 1 / 200
             then [\<lparr>si_label = ''Unit prepayment credits'', si_code = None,
                    si_amount = credit\<rparr>] else []);
          funds = filter (\<lambda>i. si_amount i \<noteq> 0)
            (map (\<lambda>f. \<lparr>si_label = statement_fund_label f, si_code = None, si_amount = balance_of f bs\<rparr>)
              [MAINTENANCE, SINKING_FUND, GENERAL])
      in \<lparr>bs_assets = map round_item assets, bs_liabilities = map round_item liabilities,
          bs_funds = map round_item funds, bs_total_assets = items_total assets,
          bs_total_liabilities_and_funds = round2 (items_total liabilities + items_total funds)\<rparr>)"

section \<open>Audit trail\<close>

text \<open>\<open>/^invoice:[^:]+:void:(.+)$/\<close>: the id of the charge that a reversal's key names.\<close>

definition voided_charge :: "string \<Rightarrow> string option" where
  "voided_charge key =
     (if starts_with ''invoice:'' key
      then let rest = drop 8 key;
               id = takeWhile (\<lambda>c. c \<noteq> CHR '':'') rest;
               tail = dropWhile (\<lambda>c. c \<noteq> CHR '':'') rest
           in if id \<noteq> [] \<and> starts_with '':void:'' tail \<and> drop 6 tail \<noteq> [] \<and>
                 (\<forall>c \<in> set (drop 6 tail). of_char c \<noteq> (10 :: nat) \<and> of_char c \<noteq> (13 :: nat))
              then Some (drop 6 tail) else None
      else None)"

record audit_trail_row =
  at_id :: string
  at_at :: int
  at_fund :: ledger_fund
  at_type :: ledger_type
  at_amount :: money
  at_memo :: "string option"
  at_source :: string
  at_source_id :: "string option"
  at_key :: "string option"
  at_by :: "string option"
  at_by_name :: "string option"
  at_reversal_of :: "string option"

definition trail_entries :: "string \<Rightarrow> int \<Rightarrow> int \<Rightarrow> bdb \<Rightarrow> ledger_entry list" where
  "trail_entries condo from_d to_d s =
     sort_key (\<lambda>l. (le_at l, le_id l))
       (filter (\<lambda>l. le_condo l = condo \<and> from_d \<le> le_at l \<and> le_at l \<le> to_d) (ledger s))"

definition charge_keys :: "ledger_entry list \<Rightarrow> (string \<rightharpoonup> string)" where
  "charge_keys es =
     map_of (rev (map (\<lambda>l. (le_id l, the (le_key l)))
       (filter (\<lambda>l. le_type l = CHARGE \<and> truthy (le_key l)) es)))"

text \<open>\<open>names\<close> is the table of users, by id.\<close>

definition trail_row :: "(string \<rightharpoonup> string) \<Rightarrow> (string \<rightharpoonup> string) \<Rightarrow> ledger_entry \<Rightarrow> audit_trail_row"
  where
  "trail_row names keys l =
     \<lparr>at_id = le_id l, at_at = le_at l, at_fund = le_fund l, at_type = le_type l,
      at_amount = le_amount l, at_memo = le_memo l, at_source = le_source l,
      at_source_id = le_source_id l, at_key = le_key l, at_by = le_by l,
      at_by_name = (if truthy (le_by l) then names (the (le_by l)) else None),
      at_reversal_of =
        (case voided_charge (case le_key l of None \<Rightarrow> [] | Some k \<Rightarrow> k) of
           None \<Rightarrow> None | Some c \<Rightarrow> keys c)\<rparr>"

definition audit_trail_rows ::
  "(string \<rightharpoonup> string) \<Rightarrow> string \<Rightarrow> int \<Rightarrow> int \<Rightarrow> bdb \<Rightarrow> audit_trail_row list" where
  "audit_trail_rows names condo from_d to_d s =
     (let es = trail_entries condo from_d to_d s in map (trail_row names (charge_keys es)) es)"

section \<open>Collections and arrears\<close>

record collections_report =
  cs_by_fund :: "(ledger_fund \<times> money) list"
  cs_total :: money
  cs_count :: nat

text \<open>\<open>groupBy\<close> returns one group per fund that occurs.\<close>

definition collections_summary :: "string \<Rightarrow> int \<Rightarrow> int \<Rightarrow> bdb \<Rightarrow> collections_report" where
  "collections_summary condo from_d to_d s =
     (let es = filter (\<lambda>l. le_condo l = condo \<and> le_type l = PAYMENT \<and> from_d \<le> le_at l \<and> le_at l \<le> to_d)
                 (ledger s);
          fs = filter (\<lambda>f. \<exists>l \<in> set es. le_fund l = f) all_funds;
          by_fund = map (\<lambda>f. (f, sum_where (\<lambda>l. le_fund l = f) le_amount es)) fs
      in \<lparr>cs_by_fund = by_fund, cs_total = sum_list (map snd by_fund),
          cs_count = sum_list (map (\<lambda>f. count_where (\<lambda>l. le_fund l = f) es) fs)\<rparr>)"

datatype arrears_bucket = UpTo30 | From31 | From61 | Over90

definition all_buckets :: "arrears_bucket list" where
  "all_buckets = [UpTo30, From31, From61, Over90]"

definition bucket_of :: "int \<Rightarrow> arrears_bucket" where
  "bucket_of days =
     (if days \<le> 30 then UpTo30 else if days \<le> 60 then From31 else if days \<le> 90 then From61 else Over90)"

definition days_overdue :: "int \<Rightarrow> int \<Rightarrow> int" where
  "days_overdue now_ms due = (now_ms - due) div 86400000"

definition arrears_statuses :: "invoice_status list" where
  "arrears_statuses = [ISSUED, PARTIAL, OVERDUE]"

record arrears_acc =
  aa_amount :: "arrears_bucket \<Rightarrow> money"
  aa_count :: "arrears_bucket \<Rightarrow> nat"
  aa_total :: money
  aa_invoices :: nat
  aa_units :: "string set"

definition no_arrears :: arrears_acc where
  "no_arrears = \<lparr>aa_amount = (\<lambda>_. 0), aa_count = (\<lambda>_. 0), aa_total = 0, aa_invoices = 0, aa_units = {}\<rparr>"

text \<open>One round of the loop of \<open>arrearsAging\<close>.\<close>

definition arrears_step :: "int \<Rightarrow> arrears_acc \<Rightarrow> invoice \<Rightarrow> arrears_acc" where
  "arrears_step now_ms a i =
     (let outstanding = inv_total i - inv_paid i; key = bucket_of (days_overdue now_ms (inv_due i))
      in if outstanding \<le> 1 / 200 then a
         else a\<lparr>aa_invoices := aa_invoices a + 1, aa_units := insert (inv_unit i) (aa_units a),
                aa_total := aa_total a + outstanding,
                aa_amount := (aa_amount a)(key := aa_amount a key + outstanding),
                aa_count := (aa_count a)(key := aa_count a key + 1)\<rparr>)"

record arrears_report =
  ar_buckets :: "(arrears_bucket \<times> money \<times> nat) list"
  ar_total :: money
  ar_units :: nat
  ar_invoices :: nat

definition arrears_maps :: "int \<Rightarrow> string \<Rightarrow> bdb \<Rightarrow> arrears_acc" where
  "arrears_maps now_ms condo s =
     foldl (arrears_step now_ms) no_arrears
       (filter (\<lambda>i. inv_condo i = condo \<and> inv_status i \<in> set arrears_statuses) (invoices s))"

definition arrears_aging :: "int \<Rightarrow> string \<Rightarrow> bdb \<Rightarrow> arrears_report" where
  "arrears_aging now_ms condo s =
     (let a = arrears_maps now_ms condo s
      in \<lparr>ar_buckets = map (\<lambda>b. (b, round2 (aa_amount a b), aa_count a b)) all_buckets,
          ar_total = round2 (aa_total a), ar_units = card (aa_units a), ar_invoices = aa_invoices a\<rparr>)"

section \<open>Unit statement\<close>

record statement_line =
  sl_at :: int
  sl_type :: ledger_type
  sl_fund :: ledger_fund
  sl_desc :: string
  sl_charge :: money
  sl_payment :: money
  sl_balance :: money

definition apply_ledger_entry :: "money \<Rightarrow> ledger_entry \<Rightarrow> money \<times> statement_line" where
  "apply_ledger_entry balance l =
     (let charge = (if le_type l = CHARGE then le_amount l else 0);
          payment = (if le_type l = CHARGE then 0 else le_amount l);
          new_balance = round2 (balance + charge - payment)
      in (new_balance,
          \<lparr>sl_at = le_at l, sl_type = le_type l, sl_fund = le_fund l,
           sl_desc = (case le_memo l of None \<Rightarrow> ledger_type_text (le_type l) | Some t \<Rightarrow> t),
           sl_charge = charge, sl_payment = payment, sl_balance = new_balance\<rparr>))"

record statement_acc =
  sa_balance :: money
  sa_opening :: money
  sa_lines :: "statement_line list"

definition statement_step :: "int \<Rightarrow> int \<Rightarrow> statement_acc \<Rightarrow> ledger_entry \<Rightarrow> statement_acc" where
  "statement_step from_d to_d a l =
     (let (b, line) = apply_ledger_entry (sa_balance a) l;
          a' = a\<lparr>sa_balance := b\<rparr>
      in if le_at l < from_d then a'\<lparr>sa_opening := b\<rparr>
         else if le_at l \<le> to_d then a'\<lparr>sa_lines := sa_lines a @ [line]\<rparr>
         else a')"

record statement_report =
  us_credit :: money
  us_outstanding :: money
  us_opening :: money
  us_closing :: money
  us_lines :: "statement_line list"

definition statement_entries :: "string \<Rightarrow> bdb \<Rightarrow> ledger_entry list" where
  "statement_entries unit s =
     sort_key le_at (filter (\<lambda>l. le_unit l = Some unit \<and> le_type l \<noteq> DEPOSIT_ENTRY) (ledger s))"

definition unit_statement_in_range :: "string \<Rightarrow> int \<Rightarrow> int \<Rightarrow> bdb \<Rightarrow> statement_report" where
  "unit_statement_in_range unit from_d to_d s =
     (let a = foldl (statement_step from_d to_d) \<lparr>sa_balance = 0, sa_opening = 0, sa_lines = []\<rparr>
                (statement_entries unit s)
      in \<lparr>us_credit = credit_of unit s, us_outstanding = round2 (sa_balance a),
          us_opening = sa_opening a,
          us_closing = (if sa_lines a = [] then sa_opening a else sl_balance (last (sa_lines a))),
          us_lines = sa_lines a\<rparr>)"

text \<open>\<open>unitStatement\<close>: the range from 1970 to the last date JavaScript has.\<close>

definition unit_statement :: "string \<Rightarrow> bdb \<Rightarrow> statement_report" where
  "unit_statement unit s = unit_statement_in_range unit 0 8640000000000000 s"

definition unit_statement_for_user :: "auth_user \<Rightarrow> string \<Rightarrow> statement_report svc" where
  "unit_statement_for_user u unit =
     bnd (gets (\<lambda>s. find_row un_id unit (units s))) (\<lambda>found.
     bnd (need found (NotFound ''Unit not found'')) (\<lambda>un.
     bnd (ensure
           (some_role (\<lambda>r. role r = SUPER_ADMIN \<or>
              ((role r = MANAGEMENT_ADMIN \<or> role r = MANAGEMENT_STAFF) \<and>
               role_condo r = Some (un_condo un))) u \<or>
            some_role (\<lambda>r. role_unit r = Some unit) u)
           (Forbidden ''You cannot view this unit statement'')) (\<lambda>_.
     gets (unit_statement unit))))"


section \<open>Sums over sorted entries\<close>

lemma sum_list_sort_key:
  fixes f :: "'a \<Rightarrow> rat"
  shows "sum_list (map f (sort_key k xs)) = sum_list (map f xs)"
  by (metis mset_map mset_sort sum_mset_sum_list)

lemma sum_where_sort_key: "sum_where p f (sort_key k xs) = sum_where p f xs"
proof -
  have "sum_where p f ys = sum_list (map (\<lambda>x. if p x then f x else 0) ys)" for ys
    by (induction ys) auto
  then show ?thesis by (simp add: sum_list_sort_key)
qed

lemma sum_where_filter: "sum_where p f (filter q xs) = sum_where (\<lambda>x. q x \<and> p x) f xs"
  by (induction xs) auto

lemma sum_where_sen:
  "(\<And>x. x \<in> set xs \<Longrightarrow> p x \<Longrightarrow> whole_sen (f x)) \<Longrightarrow> whole_sen (sum_where p f xs)"
  by (induction xs) auto

lemma sum_where_disjoint:
  "(\<And>x. x \<in> set xs \<Longrightarrow> \<not> (p x \<and> q x)) \<Longrightarrow>
   sum_where p f xs + sum_where q f xs = sum_where (\<lambda>x. p x \<or> q x) f xs"
  by (induction xs) auto

text \<open>Every amount of the ledger is whole sen, as its column holds it.\<close>

definition ledger_in_sen :: "bdb \<Rightarrow> bool" where
  "ledger_in_sen s = list_all (\<lambda>l. whole_sen (le_amount l)) (ledger s)"

lemma ledger_in_senD: "ledger_in_sen s \<Longrightarrow> l \<in> set (ledger s) \<Longrightarrow> whole_sen (le_amount l)"
  by (simp add: ledger_in_sen_def list_all_iff)

section \<open>The fund summary\<close>

lemma summary_fold:
  "fm_opening (foldl (summary_step a b) m es) f =
     fm_opening m f + sum_where (\<lambda>l. le_fund l = f \<and> le_type l \<noteq> CHARGE \<and> le_at l < a) le_amount es"
  "fm_closing (foldl (summary_step a b) m es) f =
     fm_closing m f + sum_where (\<lambda>l. le_fund l = f \<and> le_type l \<noteq> CHARGE \<and> le_at l \<le> b) le_amount es"
  "fm_collections (foldl (summary_step a b) m es) f =
     fm_collections m f +
       sum_where (\<lambda>l. le_fund l = f \<and> le_type l = PAYMENT \<and> a \<le> le_at l \<and> le_at l \<le> b) le_amount es"
  "fm_charges (foldl (summary_step a b) m es) f =
     fm_charges m f +
       sum_where (\<lambda>l. le_fund l = f \<and> le_type l = CHARGE \<and> a \<le> le_at l \<and> le_at l \<le> b) le_amount es"
  "fm_adjustments (foldl (summary_step a b) m es) f =
     fm_adjustments m f +
       sum_where (\<lambda>l. le_fund l = f \<and> le_type l = ADJUSTMENT \<and> a \<le> le_at l \<and> le_at l \<le> b) le_amount es"
  by (induction es arbitrary: m)
     (auto simp: summary_step_def Let_def bump_def contributes_to_fund_cash_def)

definition fund_sum :: "string \<Rightarrow> ledger_fund \<Rightarrow> (ledger_entry \<Rightarrow> bool) \<Rightarrow> bdb \<Rightarrow> money" where
  "fund_sum condo f p s = sum_where (\<lambda>l. le_condo l = condo \<and> le_fund l = f \<and> p l) le_amount (ledger s)"

lemma fund_sum_sen: "ledger_in_sen s \<Longrightarrow> whole_sen (fund_sum condo f p s)"
  unfolding fund_sum_def by (rule sum_where_sen) (rule ledger_in_senD)

lemma fund_summary_rows:
  "fund_summary condo a b s =
     map (\<lambda>f. \<lparr>fs_fund = f,
       fs_opening = round2 (fund_sum condo f (\<lambda>l. le_type l \<noteq> CHARGE \<and> le_at l < a) s),
       fs_collections = round2 (fund_sum condo f (\<lambda>l. le_type l = PAYMENT \<and> a \<le> le_at l \<and> le_at l \<le> b) s),
       fs_charges = round2 (fund_sum condo f (\<lambda>l. le_type l = CHARGE \<and> a \<le> le_at l \<and> le_at l \<le> b) s),
       fs_adjustments = round2 (fund_sum condo f (\<lambda>l. le_type l = ADJUSTMENT \<and> a \<le> le_at l \<and> le_at l \<le> b) s),
       fs_closing = round2 (fund_sum condo f (\<lambda>l. le_type l \<noteq> CHARGE \<and> le_at l \<le> b) s)\<rparr>) all_funds"
  by (simp add: fund_summary_def Let_def summary_maps_def summary_fold no_funds_def
      sum_where_sort_key sum_where_filter fund_sum_def)

lemma fund_sum_cong: "(\<And>l. p l = q l) \<Longrightarrow> fund_sum condo f p s = fund_sum condo f q s"
  by (simp add: fund_sum_def)

lemma fund_sum_disjoint:
  "(\<And>l. \<not> (p l \<and> q l)) \<Longrightarrow>
   fund_sum condo f p s + fund_sum condo f q s = fund_sum condo f (\<lambda>l. p l \<or> q l) s"
  unfolding fund_sum_def by (subst sum_where_disjoint) (auto intro: sum_where_cong)

lemma fund_cash_sum: "fund_cash condo f s = fund_sum condo f (\<lambda>l. le_type l \<noteq> CHARGE) s"
proof -
  have "sum_list (map (cash_weight condo f) ls) =
      sum_where (\<lambda>l. le_condo l = condo \<and> le_fund l = f \<and> le_type l \<noteq> CHARGE) le_amount ls" for ls
    by (induction ls) (auto simp: cash_weight_def)
  then show ?thesis by (simp add: fund_cash_def ledger_sum_def fund_sum_def)
qed

section \<open>The unit statement\<close>

definition statement_weight :: "ledger_entry \<Rightarrow> money" where
  "statement_weight l = (if le_type l = CHARGE then le_amount l else - le_amount l)"

lemma statement_step_simps [simp]:
  "sa_balance (statement_step a b x l) = round2 (sa_balance x + statement_weight l)"
  "sa_opening (statement_step a b x l) =
     (if le_at l < a then round2 (sa_balance x + statement_weight l) else sa_opening x)"
  "sa_lines (statement_step a b x l) =
     (if le_at l < a \<or> b < le_at l then sa_lines x
      else sa_lines x @ [snd (apply_ledger_entry (sa_balance x) l)])"
  by (auto simp: statement_step_def apply_ledger_entry_def Let_def statement_weight_def)

lemma line_balance [simp]:
  "sl_balance (snd (apply_ledger_entry b l)) = round2 (b + statement_weight l)"
  by (simp add: apply_ledger_entry_def Let_def statement_weight_def)

text \<open>The sum of the statement's entries that meet a condition.\<close>

abbreviation stmt_sum :: "(ledger_entry \<Rightarrow> bool) \<Rightarrow> ledger_entry list \<Rightarrow> money" where
  "stmt_sum p es \<equiv> sum_where p statement_weight es"

lemma statement_fold:
  assumes "sorted (map le_at es)" and "\<And>l. l \<in> set es \<Longrightarrow> whole_sen (le_amount l)" and "a \<le> b"
  defines "x \<equiv> foldl (statement_step a b) \<lparr>sa_balance = 0, sa_opening = 0, sa_lines = []\<rparr> es"
  shows "sa_balance x = stmt_sum (\<lambda>_. True) es"
    and "sa_opening x = stmt_sum (\<lambda>l. le_at l < a) es"
    and "sa_lines x = [] \<longleftrightarrow> (\<forall>l \<in> set es. le_at l < a \<or> b < le_at l)"
    and "sa_lines x \<noteq> [] \<Longrightarrow> sl_balance (last (sa_lines x)) = stmt_sum (\<lambda>l. le_at l \<le> b) es"
  using assms(1,2) unfolding x_def
proof (induction es rule: rev_induct)
  case Nil
  { case 1 then show ?case by simp }
  { case 2 then show ?case by simp }
  { case 3 then show ?case by simp }
  { case 4 then show ?case by simp }
next
  case (snoc l es)
  let ?x = "foldl (statement_step a b) \<lparr>sa_balance = 0, sa_opening = 0, sa_lines = []\<rparr> es"
  have sen: "whole_sen (stmt_sum p (es @ [l]))" if "\<And>l'. l' \<in> set (es @ [l]) \<Longrightarrow> whole_sen (le_amount l')" for p
    using that by (intro sum_where_sen) (auto simp: statement_weight_def)
  have all: "stmt_sum (\<lambda>k. le_at k < c) es = stmt_sum (\<lambda>_. True) es"
    if "sorted (map le_at (es @ [l]))" "le_at l < c" for c
    using that by (intro sum_where_cong) (auto simp: sorted_append)
  have all': "stmt_sum (\<lambda>k. le_at k \<le> c) es = stmt_sum (\<lambda>_. True) es"
    if "sorted (map le_at (es @ [l]))" "le_at l \<le> c" for c
    using that by (intro sum_where_cong) (auto simp: sorted_append)
  { case 1
    with snoc.IH(1) have "sa_balance ?x = stmt_sum (\<lambda>_. True) es" by (simp add: sorted_append)
    with sen [of "\<lambda>_. True"] 1 show ?case by simp }
  { case 2
    with snoc.IH(1,2) have "sa_balance ?x = stmt_sum (\<lambda>_. True) es"
      "sa_opening ?x = stmt_sum (\<lambda>l. le_at l < a) es" by (simp_all add: sorted_append)
    with sen [of "\<lambda>_. True"] 2 all [OF 2(1), of a] show ?case by simp }
  { case 3
    with snoc.IH(3) show ?case by (auto simp: sorted_append) }
  { case 4
    with snoc.IH(1,4) have ih: "sa_balance ?x = stmt_sum (\<lambda>_. True) es"
      "sa_lines ?x \<noteq> [] \<Longrightarrow> sl_balance (last (sa_lines ?x)) = stmt_sum (\<lambda>l. le_at l \<le> b) es"
      by (simp_all add: sorted_append)
    have no: "sa_lines ?x = []" if "le_at l < a"
      using snoc.IH(3) 4 that by (force simp: sorted_append)
    from ih sen [of "\<lambda>_. True"] 4 all' [OF 4(2), of b] no assms(3) show ?case
      by auto }
qed

lemma statement_entries_sorted: "sorted (map le_at (statement_entries unit s))"
  by (simp add: statement_entries_def)

lemma statement_entries_sen:
  "ledger_in_sen s \<Longrightarrow> l \<in> set (statement_entries unit s) \<Longrightarrow> whole_sen (le_amount l)"
  by (auto simp: statement_entries_def dest: ledger_in_senD)

lemma stmt_sum_entries:
  "stmt_sum p (statement_entries unit s) =
     sum_where (\<lambda>l. le_unit l = Some unit \<and> le_type l \<noteq> DEPOSIT_ENTRY \<and> p l) statement_weight (ledger s)"
  by (simp add: statement_entries_def sum_where_sort_key sum_where_filter conj_assoc)

lemma unit_balance_stmt_sum:
  "unit_balance unit s =
     sum_where (\<lambda>l. le_unit l = Some unit \<and> le_type l \<noteq> DEPOSIT_ENTRY) statement_weight (ledger s)"
proof -
  have "sum_list (map (unit_weight unit) ls) =
      sum_where (\<lambda>l. le_unit l = Some unit \<and> le_type l \<noteq> DEPOSIT_ENTRY) statement_weight ls" for ls
    by (induction ls) (auto simp: unit_weight_def statement_weight_def)
  then show ?thesis by (simp add: unit_balance_def ledger_sum_def)
qed

lemma unit_statement_figures:
  assumes "ledger_in_sen s" and "a \<le> b"
  shows "us_outstanding (unit_statement_in_range unit a b s) = unit_balance unit s"
    and "us_opening (unit_statement_in_range unit a b s) =
           stmt_sum (\<lambda>l. le_at l < a) (statement_entries unit s)"
    and "us_closing (unit_statement_in_range unit a b s) =
           stmt_sum (\<lambda>l. le_at l \<le> b) (statement_entries unit s)"
proof -
  let ?es = "statement_entries unit s"
  note f = statement_fold [OF statement_entries_sorted statement_entries_sen [OF assms(1)] assms(2)]
  have "whole_sen (stmt_sum (\<lambda>_. True) ?es)"
    using statement_entries_sen [OF assms(1)] by (intro sum_where_sen) (auto simp: statement_weight_def)
  then show "us_outstanding (unit_statement_in_range unit a b s) = unit_balance unit s"
    by (simp add: unit_statement_in_range_def Let_def f(1) unit_balance_stmt_sum stmt_sum_entries)
  show "us_opening (unit_statement_in_range unit a b s) = stmt_sum (\<lambda>l. le_at l < a) ?es"
    by (simp add: unit_statement_in_range_def Let_def f(2))
  have "stmt_sum (\<lambda>l. le_at l < a) ?es = stmt_sum (\<lambda>l. le_at l \<le> b) ?es"
    if "\<forall>l \<in> set ?es. le_at l < a \<or> b < le_at l"
    using that assms(2) by (intro sum_where_cong) force+
  then show "us_closing (unit_statement_in_range unit a b s) = stmt_sum (\<lambda>l. le_at l \<le> b) ?es"
    using f(2,3,4) by (auto simp: unit_statement_in_range_def Let_def)
qed

section \<open>Arrears\<close>

lemma set_all_buckets: "set all_buckets = UNIV"
  by (auto simp: all_buckets_def intro: arrears_bucket.exhaust)

lemma arrears_step_sums:
  "(\<Sum>b\<leftarrow>all_buckets. aa_amount a b) = aa_total a \<Longrightarrow>
   (\<Sum>b\<leftarrow>all_buckets. aa_amount (arrears_step n a i) b) = aa_total (arrears_step n a i)"
  "(\<Sum>b\<leftarrow>all_buckets. aa_count a b) = aa_invoices a \<Longrightarrow>
   (\<Sum>b\<leftarrow>all_buckets. aa_count (arrears_step n a i) b) = aa_invoices (arrears_step n a i)"
  by (cases "bucket_of (days_overdue n (inv_due i))";
      simp add: arrears_step_def Let_def all_buckets_def)+

lemma arrears_fold:
  "(\<Sum>b\<leftarrow>all_buckets. aa_amount a b) = aa_total a \<Longrightarrow>
   (\<Sum>b\<leftarrow>all_buckets. aa_amount (foldl (arrears_step n) a is) b) = aa_total (foldl (arrears_step n) a is)"
  "(\<Sum>b\<leftarrow>all_buckets. aa_count a b) = aa_invoices a \<Longrightarrow>
   (\<Sum>b\<leftarrow>all_buckets. aa_count (foldl (arrears_step n) a is) b) = aa_invoices (foldl (arrears_step n) a is)"
  by (induction "is" arbitrary: a) (simp_all add: arrears_step_sums)

lemma arrears_step_sen:
  "(\<And>b. whole_sen (aa_amount a b)) \<Longrightarrow> whole_sen (inv_total i - inv_paid i) \<Longrightarrow>
   whole_sen (aa_amount (arrears_step n a i) b)"
  by (auto simp: arrears_step_def Let_def)

lemma arrears_fold_amounts:
  "(\<And>b. whole_sen (aa_amount a b)) \<Longrightarrow> (\<And>i. i \<in> set is \<Longrightarrow> whole_sen (inv_total i - inv_paid i)) \<Longrightarrow>
   whole_sen (aa_amount (foldl (arrears_step n) a is) b)"
  by (induction "is" arbitrary: a) (simp_all add: arrears_step_sen)

lemma arrears_fold_total:
  "aa_total (foldl (arrears_step n) a is) =
     aa_total a + sum_where (\<lambda>i. inv_total i - inv_paid i > 1 / 200) (\<lambda>i. inv_total i - inv_paid i) is"
  by (induction "is" arbitrary: a) (auto simp: arrears_step_def Let_def)

section \<open>Access to the statement\<close>

definition grants_statement :: "string \<times> string \<Rightarrow> role_assignment \<Rightarrow> bool" where
  "grants_statement c r \<longleftrightarrow>
     role r = SUPER_ADMIN \<or>
     ((role r = MANAGEMENT_ADMIN \<or> role r = MANAGEMENT_STAFF) \<and> role_condo r = Some (fst c)) \<or>
     role_unit r = Some (snd c)"

interpretation statement_gate: role_gate grants_statement
  by unfold_locales (simp add: grants_statement_def is_super_def)

lemma unit_statement_for_user_run:
  "unit_statement_for_user u unit s =
     (case find_row un_id unit (units s) of
        None \<Rightarrow> (Inl (NotFound ''Unit not found''), s)
      | Some un \<Rightarrow>
          if some_role (grants_statement (un_condo un, unit)) u then (Inr (unit_statement unit s), s)
          else (Inl (Forbidden ''You cannot view this unit statement''), s))"
  by (auto simp: unit_statement_for_user_def act_defs some_role_iff grants_statement_def
      split: option.split)

section \<open>Reversals in the audit trail\<close>

lemma span_colon:
  "CHR '':'' \<notin> set p \<Longrightarrow>
   takeWhile (\<lambda>c. c \<noteq> CHR '':'') (p @ CHR '':'' # r) = p \<and>
   dropWhile (\<lambda>c. c \<noteq> CHR '':'') (p @ CHR '':'' # r) = CHR '':'' # r"
  by (induction p) auto

lemma voided_charge_key:
  assumes "CHR '':'' \<notin> set i" "i \<noteq> []" "c \<noteq> []"
    and "\<forall>x \<in> set c. of_char x \<noteq> (10 :: nat) \<and> of_char x \<noteq> (13 :: nat)"
  shows "voided_charge (''invoice:'' @ i @ '':void:'' @ c) = Some c"
  using assms span_colon [OF assms(1), of "''void:'' @ c"]
  by (simp add: voided_charge_def starts_with_def Let_def)

lemma charge_keys_find:
  assumes "distinct (map le_id es)" "l \<in> set es" "le_type l = CHARGE" "le_key l = Some k" "k \<noteq> []"
  shows "charge_keys es (le_id l) = Some k"
proof -
  let ?xs = "map (\<lambda>l. (le_id l, the (le_key l))) (filter (\<lambda>l. le_type l = CHARGE \<and> truthy (le_key l)) es)"
  have "distinct (map fst ?xs)" using assms(1) by (simp add: o_def distinct_map_filter)
  then have "distinct (map fst (rev ?xs))" by (simp add: rev_map [symmetric])
  moreover have "(le_id l, k) \<in> set (rev ?xs)" using assms by (force simp: truthy_def)
  ultimately show ?thesis unfolding charge_keys_def by (rule map_of_is_SomeI)
qed

section \<open>Properties\<close>

lemma sample_ledger_sen: "ledger_in_sen sample_ledger"
  by (simp add: sample_defs ledger_in_sen_def)

text \<open>
  C12. A unit's statement agrees with the ledger: what it reports as outstanding is the unit's
  charges less its other entries, and its closing balance is its opening balance plus the
  charges less the payments of its period.
\<close>

theorem unit_statement_agrees:
  assumes "ledger_in_sen s" and "a \<le> b"
  shows "let r = unit_statement_in_range unit a b s in
    us_outstanding r = unit_balance unit s \<and>
    us_closing r = us_opening r +
      sum_where (\<lambda>l. a \<le> le_at l \<and> le_at l \<le> b) statement_weight (statement_entries unit s)"
proof -
  have "stmt_sum (\<lambda>l. le_at l < a) es + stmt_sum (\<lambda>l. a \<le> le_at l \<and> le_at l \<le> b) es =
      stmt_sum (\<lambda>l. le_at l < a \<or> a \<le> le_at l \<and> le_at l \<le> b) es" for es
    by (rule sum_where_disjoint) auto
  moreover have "stmt_sum (\<lambda>l. le_at l < a \<or> a \<le> le_at l \<and> le_at l \<le> b) es =
      stmt_sum (\<lambda>l. le_at l \<le> b) es" for es
    using assms(2) by (intro sum_where_cong) auto
  ultimately show ?thesis by (simp add: Let_def unit_statement_figures [OF assms(1,2)])
qed

theorem unit_statement_agrees_witness:
  "us_outstanding (unit_statement_in_range ''u'' 15 25 sample_ledger) = 160 \<and>
   us_opening (unit_statement_in_range ''u'' 15 25 sample_ledger) = 100 \<and>
   us_closing (unit_statement_in_range ''u'' 15 25 sample_ledger) = 60"
proof -
  have "(15 :: int) \<le> 25" by simp
  note p = unit_statement_agrees [OF sample_ledger_sen this, of "''u''"]
  have "unit_balance ''u'' sample_ledger = 160"
    by (simp add: sample_defs unit_balance_def ledger_sum_def unit_weight_def)
  moreover have "us_opening (unit_statement_in_range ''u'' 15 25 sample_ledger) = 100"
    using unit_statement_figures(2) [OF sample_ledger_sen, of 15 25 "''u''"]
    by (simp add: stmt_sum_entries) (simp add: sample_defs statement_weight_def)
  moreover have "sum_where (\<lambda>l. 15 \<le> le_at l \<and> le_at l \<le> 25) statement_weight
      (statement_entries ''u'' sample_ledger) = - 40"
    by (simp add: stmt_sum_entries) (simp add: sample_defs statement_weight_def)
  ultimately show ?thesis using p by (simp add: Let_def)
qed

text \<open>
  C13. Consecutive fund summaries chain: each fund closes a period with the balance it opens the
  next one with, and that is its balance in \<open>fundBalancesAsOf\<close> at the end of the period.
\<close>

theorem fund_summaries_chain:
  "map fs_closing (fund_summary condo a b s) = map fs_opening (fund_summary condo (b + 1) c s) \<and>
   map (\<lambda>r. (fs_fund r, fs_closing r)) (fund_summary condo a b s) = fund_balances_as_of condo b s"
proof -
  have "fund_sum condo f (\<lambda>l. le_type l \<noteq> CHARGE \<and> le_at l < b + 1) s =
      fund_sum condo f (\<lambda>l. le_type l \<noteq> CHARGE \<and> le_at l \<le> b) s" for f
    by (rule fund_sum_cong) auto
  moreover have "sum_where (\<lambda>l. (le_condo l = condo \<and> le_type l \<noteq> CHARGE \<and> le_at l \<le> b) \<and> le_fund l = f)
      le_amount (ledger s) = fund_sum condo f (\<lambda>l. le_type l \<noteq> CHARGE \<and> le_at l \<le> b) s" for f
    unfolding fund_sum_def by (rule sum_where_cong) auto
  ultimately show ?thesis by (simp add: fund_summary_rows fund_balances_as_of_def)
qed

text \<open>
  A fund summary reconciles: over a period a fund's closing balance is its opening balance
  plus collections, adjustments, and the deposits, refunds and prepayments of the period.
\<close>

theorem fund_summary_reconciles:
  assumes "ledger_in_sen s" and "a \<le> b"
  shows "\<forall>r \<in> set (fund_summary condo a b s).
    fs_closing r = fs_opening r + fs_collections r + fs_adjustments r +
      fund_sum condo (fs_fund r) (\<lambda>l. le_type l \<notin> {CHARGE, PAYMENT, ADJUSTMENT} \<and>
        a \<le> le_at l \<and> le_at l \<le> b) s"
proof -
  have split: "fund_sum condo f (\<lambda>l. le_type l \<noteq> CHARGE \<and> le_at l \<le> b) s =
      fund_sum condo f (\<lambda>l. le_type l \<noteq> CHARGE \<and> le_at l < a) s +
      fund_sum condo f (\<lambda>l. le_type l = PAYMENT \<and> a \<le> le_at l \<and> le_at l \<le> b) s +
      fund_sum condo f (\<lambda>l. le_type l = ADJUSTMENT \<and> a \<le> le_at l \<and> le_at l \<le> b) s +
      fund_sum condo f (\<lambda>l. le_type l \<notin> {CHARGE, PAYMENT, ADJUSTMENT} \<and> a \<le> le_at l \<and> le_at l \<le> b) s"
    for f
    using assms(2) by (subst fund_sum_disjoint, fastforce)+ (rule fund_sum_cong, auto)
  show ?thesis by (simp add: fund_summary_rows fund_sum_sen [OF assms(1)] whole_sen_add split)
qed

theorem fund_summary_reconciles_witness:
  "(1 :: int) \<le> 30 \<and> (\<exists>r \<in> set (fund_summary ''c'' 1 30 sample_ledger).
     fs_fund r = MAINTENANCE \<and> fs_collections r = 40 \<and> fs_closing r = - 60)"
proof -
  have "(1 :: int) \<le> 30" by simp
  note p = fund_summary_reconciles [OF sample_ledger_sen this, of "''c''"]
  let ?r = "hd (fund_summary ''c'' 1 30 sample_ledger)"
  have r: "?r \<in> set (fund_summary ''c'' 1 30 sample_ledger)"
    by (simp add: fund_summary_rows all_funds_def)
  have f: "fs_fund ?r = MAINTENANCE" "fs_collections ?r = 40" "fs_opening ?r = 0"
      "fs_adjustments ?r = - 100"
    by (simp_all add: fund_summary_rows all_funds_def fund_sum_def sample_defs)
  have "fund_sum ''c'' MAINTENANCE (\<lambda>l. le_type l \<notin> {CHARGE, PAYMENT, ADJUSTMENT} \<and>
        1 \<le> le_at l \<and> le_at l \<le> 30) sample_ledger = 0"
    by (simp add: fund_sum_def sample_defs)
  with p r f have "fs_closing ?r = - 60" by fastforce
  with r f show ?thesis by auto
qed

text \<open>
  The arrears buckets add up: their amounts sum to the total outstanding and their counts to
  the number of invoices in arrears, so every invoice in arrears is in one bucket.
\<close>

theorem arrears_buckets_add_up:
  assumes "\<forall>i \<in> set (invoices s). whole_sen (inv_total i - inv_paid i)"
  shows "let r = arrears_aging now_ms condo s in
    (\<Sum>(b, x, n) \<leftarrow> ar_buckets r. x) = ar_total r \<and>
    (\<Sum>(b, x, n) \<leftarrow> ar_buckets r. n) = ar_invoices r"
proof -
  let ?is = "filter (\<lambda>i. inv_condo i = condo \<and> inv_status i \<in> set arrears_statuses) (invoices s)"
  let ?a = "arrears_maps now_ms condo s"
  have sen: "whole_sen (aa_amount ?a b)" for b
    unfolding arrears_maps_def using assms(1)
    by (intro arrears_fold_amounts) (auto simp: no_arrears_def)
  have sums: "(\<Sum>b\<leftarrow>all_buckets. aa_amount ?a b) = aa_total ?a"
    "(\<Sum>b\<leftarrow>all_buckets. aa_count ?a b) = aa_invoices ?a"
    unfolding arrears_maps_def
    by (rule arrears_fold; simp add: no_arrears_def all_buckets_def)+
  have "whole_sen (aa_total ?a)" unfolding sums(1) [symmetric] using sen by (intro whole_sen_sum_list) auto
  with sen sums show ?thesis
    by (simp add: arrears_aging_def Let_def o_def)
qed

definition sample_invoices :: bdb where
  "sample_invoices = empty_db\<lparr>
     invoices := [sample_invoice ''i1'' ISSUED 100 0 0, sample_invoice ''i2'' PARTIAL 50 20 8640000000],
     accounts := [\<lparr>ua_unit = ''u'', ua_condo = ''c'', ua_credit = 5\<rparr>],
     ledger := [sample_entry ''e2'' PAYMENT 20 ''payment:p:MAINTENANCE'' 20]\<rparr>"

theorem arrears_buckets_add_up_witness:
  "ar_total (arrears_aging 8640000000 ''c'' sample_invoices) = 130 \<and>
   (\<Sum>(b, x, n) \<leftarrow> ar_buckets (arrears_aging 8640000000 ''c'' sample_invoices). x) = 130"
proof -
  have "\<forall>i \<in> set (invoices sample_invoices). whole_sen (inv_total i - inv_paid i)"
    by (simp add: sample_invoices_def sample_invoice_def)
  note p = arrears_buckets_add_up [OF this, of 8640000000 "''c''"]
  have "ar_total (arrears_aging 8640000000 ''c'' sample_invoices) = 130"
    by (simp add: arrears_aging_def arrears_maps_def arrears_step_def no_arrears_def Let_def
        sample_invoices_def sample_invoice_def arrears_statuses_def)
  with p show ?thesis by (simp add: Let_def)
qed

lemma sen_or_zero:
  assumes "whole_sen x" and "0 \<le> x"
  shows "x > 1 / 200 \<or> x = 0"
proof -
  obtain n where n: "x = of_int n / 100" using assms(1) by (auto simp: whole_sen_iff)
  with assms(2) have "0 \<le> n" by simp
  then have "n = 0 \<or> 1 \<le> n" by linarith
  then show ?thesis
  proof
    assume "1 \<le> n"
    then have "1 \<le> (of_int n :: rat)" by simp
    then have "1 / 200 < (of_int n / 100 :: rat)" by linarith
    then show ?thesis using n by simp
  qed (simp add: n)
qed

text \<open>
  The balance sheet leaves the funds' cash out of the assets: its two sides differ by the
  prepayment credit and the cash of the three funds less the receivables, so it balances only
  when these happen to cancel.
\<close>

theorem balance_sheet_gap:
  assumes "whole_sen (sum_where (\<lambda>a. ua_condo a = condo) ua_credit (accounts s))"
    and "0 \<le> sum_where (\<lambda>a. ua_condo a = condo) ua_credit (accounts s)"
  shows "bs_total_liabilities_and_funds (balance_sheet condo as_of s) -
      bs_total_assets (balance_sheet condo as_of s) =
    sum_where (\<lambda>a. ua_condo a = condo) ua_credit (accounts s) +
    (\<Sum>f \<leftarrow> [MAINTENANCE, SINKING_FUND, GENERAL]. balance_of f (fund_balances_as_of condo as_of s)) -
    receivables_as_of condo as_of s"
proof -
  let ?bs = "fund_balances_as_of condo as_of s"
  let ?R = "receivables_as_of condo as_of s"
  let ?C = "sum_where (\<lambda>a. ua_condo a = condo) ua_credit (accounts s)"
  let ?H = "if balance_of DEPOSIT_FUND ?bs > 1 / 200 then balance_of DEPOSIT_FUND ?bs else 0"
  let ?F = "\<Sum>f \<leftarrow> [MAINTENANCE, SINKING_FUND, GENERAL]. balance_of f ?bs"
  have B [simp]: "whole_sen (balance_of f ?bs)" for f
    by (cases f) (simp_all add: balance_of_def fund_balances_as_of_def all_funds_def)
  have R: "whole_sen ?R" "0 \<le> ?R" by (auto simp: receivables_as_of_def Let_def intro!: round2_nonneg sum_where_nonneg)
  have "bs_total_assets (balance_sheet condo as_of s) = ?R + ?H"
    using sen_or_zero [OF R] R by (auto simp: balance_sheet_def Let_def items_total_def whole_sen_add)
  moreover have "bs_total_liabilities_and_funds (balance_sheet condo as_of s) = ?H + ?C + ?F"
    using sen_or_zero [OF assms] assms
    by (auto simp: balance_sheet_def Let_def items_total_def whole_sen_add)
  ultimately show ?thesis by simp
qed

theorem balance_sheet_gap_witness:
  "bs_total_liabilities_and_funds (balance_sheet ''c'' 50 sample_invoices) -
     bs_total_assets (balance_sheet ''c'' 50 sample_invoices) = - 125"
proof -
  have c: "sum_where (\<lambda>a. ua_condo a = ''c'') ua_credit (accounts sample_invoices) = 5"
    by (simp add: sample_invoices_def)
  have "receivables_as_of ''c'' 50 sample_invoices = 150"
    by (simp add: receivables_as_of_def sample_invoices_def sample_invoice_def)
  then show ?thesis
    using balance_sheet_gap [of "''c''" sample_invoices 50] unfolding c
    by (simp add: balance_of_def fund_balances_as_of_def all_funds_def)
       (simp add: sample_invoices_def sample_entry_def)
qed

text \<open>
  The audit trail names what a reversal reverses: when the charge and the reversal of a
  voided invoice are both in the range, the reversal's row has the charge's key.
\<close>

theorem audit_trail_links_reversal:
  assumes charge: "c \<in> set (trail_entries condo a b s)" "le_type c = CHARGE" "le_key c = Some k" "k \<noteq> []"
    and rev: "entry_of e (void_input iv actor reason c) i \<in> set (trail_entries condo a b s)"
    and ids: "distinct (map le_id (ledger s))" "le_id c \<noteq> []"
      "\<forall>x \<in> set (le_id c). of_char x \<noteq> (10 :: nat) \<and> of_char x \<noteq> (13 :: nat)"
      "ir_id iv \<noteq> []" "CHR '':'' \<notin> set (ir_id iv)"
  shows "\<exists>r \<in> set (audit_trail_rows names condo a b s). at_id r = i \<and> at_reversal_of r = le_key c"
proof -
  let ?l = "entry_of e (void_input iv actor reason c) i"
  have "distinct (map le_id (trail_entries condo a b s))"
    using ids(1) by (simp add: trail_entries_def distinct_map distinct_map_filter inj_on_def)
  then have "charge_keys (trail_entries condo a b s) (le_id c) = Some k"
    using charge by (intro charge_keys_find) auto
  moreover have "voided_charge (the (le_key ?l)) = Some (le_id c)"
    using voided_charge_key [OF ids(5,4,2,3)] by (simp add: entry_of_def void_input_def)
  ultimately have "at_reversal_of (trail_row names (charge_keys (trail_entries condo a b s)) ?l) = le_key c"
    using charge(3) by (simp add: trail_row_def entry_of_def void_input_def)
  with rev show ?thesis
    by (force simp: audit_trail_rows_def Let_def trail_row_def entry_of_def)
qed

theorem audit_trail_links_reversal_witness:
  "\<exists>r \<in> set (audit_trail_rows Map.empty ''c'' 0 50 (sample_ledger\<lparr>ledger := take 2 (ledger sample_ledger) @
      [entry_of sample_env (void_input sample_ref None None (hd (ledger sample_ledger))) ''e3'']\<rparr>)).
     at_id r = ''e3'' \<and> at_reversal_of r = Some ''invoice:i:charge:0''"
proof -
  let ?c = "hd (ledger sample_ledger)"
  let ?s = "sample_ledger\<lparr>ledger := take 2 (ledger sample_ledger) @
      [entry_of sample_env (void_input sample_ref None None (hd (ledger sample_ledger))) ''e3'']\<rparr>"
  have c: "?c = sample_entry ''e1'' CHARGE 100 ''invoice:i:charge:0'' 10" by (simp add: sample_ledger_def)
  have m: "?c \<in> set (trail_entries ''c'' 0 50 ?s)"
    "entry_of sample_env (void_input sample_ref None None ?c) ''e3'' \<in> set (trail_entries ''c'' 0 50 ?s)"
    by (simp_all add: trail_entries_def sample_defs entry_of_def void_input_def sample_env_def sample_ref_def)
  have "distinct (map le_id (ledger ?s))"
    by (simp add: sample_defs entry_of_def)
  then show ?thesis
    using audit_trail_links_reversal [OF m(1) _ _ _ m(2), of "''invoice:i:charge:0''" Map.empty]
    by (simp add: c) (simp add: sample_entry_def sample_ref_def)
qed

end
