(* ===== verification/Receipts.thy ===== *)
theory Receipts
  imports Samples
begin

text \<open>
  Document numbers and receipts: the receipt template of a condo (billing/receipt-template.ts,
  billing-settings.service.ts), the yearly number sequences (\<open>nextInvoiceNumber\<close> of
  billing.service.ts and \<open>nextReceiptNumber\<close> of receipt.service.ts) and \<open>issueInTx\<close>.

  A number's suffix is read with \<open>Number\<close>, which is modelled on decimal digits; any other suffix
  counts as not finite.
\<close>

section \<open>Receipt template\<close>

text \<open>\<open>str(value, fallback)\<close> of a field.\<close>

definition str_field :: "string \<Rightarrow> json \<Rightarrow> string \<Rightarrow> string" where
  "str_field k j fallback = (case json_field k j of JStr t \<Rightarrow> t | _ \<Rightarrow> fallback)"

definition default_template :: receipt_template where
  "default_template =
     \<lparr>tp_prefix = ''RCPT'', tp_org = [], tp_reg_no = [], tp_address = [],
      tp_footer = ''This is a computer-generated receipt.'', tp_signatory = [],
      tp_title = ''Authorised Signatory'', tp_logo = []\<rparr>"

definition receipt_settings :: "json \<Rightarrow> json" where
  "receipt_settings settings = json_field ''receipt'' (json_field ''billing'' settings)"

definition parse_receipt_template :: "json \<Rightarrow> receipt_template" where
  "parse_receipt_template settings =
     (let r = receipt_settings settings; d = default_template;
          p = str_field ''numberPrefix'' r (tp_prefix d)
      in \<lparr>tp_prefix = (if p = [] then ''RCPT'' else p),
          tp_org = str_field ''organizationName'' r (tp_org d),
          tp_reg_no = str_field ''registrationNo'' r (tp_reg_no d),
          tp_address = str_field ''addressLines'' r (tp_address d),
          tp_footer = str_field ''footerNote'' r (tp_footer d),
          tp_signatory = str_field ''signatoryName'' r (tp_signatory d),
          tp_title = str_field ''signatoryTitle'' r (tp_title d),
          tp_logo = str_field ''logoUrl'' r (tp_logo d)\<rparr>)"

text \<open>\<open>{ ...obj, k: v }\<close>: a key that is there keeps its place.\<close>

fun set_field :: "string \<Rightarrow> json \<Rightarrow> (string \<times> json) list \<Rightarrow> (string \<times> json) list" where
  "set_field k v [] = [(k, v)]"
| "set_field k v ((k', v') # fs) = (if k = k' then (k, v) # fs else (k', v') # set_field k v fs)"

text \<open>A patch of the template: the fields that are given.\<close>

record template_patch =
  pt_prefix :: "string option"
  pt_org :: "string option"
  pt_reg_no :: "string option"
  pt_address :: "string option"
  pt_footer :: "string option"
  pt_signatory :: "string option"
  pt_title :: "string option"
  pt_logo :: "string option"

definition patch_field :: "string option \<Rightarrow> string \<Rightarrow> json" where
  "patch_field p current = JStr (case p of None \<Rightarrow> current | Some t \<Rightarrow> t)"

definition patched_receipt :: "receipt_template \<Rightarrow> template_patch \<Rightarrow> json" where
  "patched_receipt c p = JObj
     [(''numberPrefix'', patch_field (pt_prefix p) (tp_prefix c)),
      (''organizationName'', patch_field (pt_org p) (tp_org c)),
      (''registrationNo'', patch_field (pt_reg_no p) (tp_reg_no c)),
      (''addressLines'', patch_field (pt_address p) (tp_address c)),
      (''footerNote'', patch_field (pt_footer p) (tp_footer c)),
      (''signatoryName'', patch_field (pt_signatory p) (tp_signatory c)),
      (''signatoryTitle'', patch_field (pt_title p) (tp_title c)),
      (''logoUrl'', patch_field (pt_logo p) (tp_logo c))]"

definition merge_receipt_template :: "json \<Rightarrow> template_patch \<Rightarrow> json" where
  "merge_receipt_template settings p =
     JObj (set_field ''billing''
       (JObj (set_field ''receipt'' (patched_receipt (parse_receipt_template settings) p)
         (as_object (json_field ''billing'' settings))))
       (as_object settings))"

definition get_receipt_template :: "string \<Rightarrow> receipt_template svc" where
  "get_receipt_template condo =
     bnd (gets (\<lambda>s. find_row co_id condo (condos s))) (\<lambda>found.
     bnd (need found (NotFound ''Condo not found'')) (\<lambda>c.
     ret (parse_receipt_template (co_settings c))))"

definition update_receipt_template :: "string \<Rightarrow> template_patch \<Rightarrow> receipt_template svc" where
  "update_receipt_template condo p =
     bnd (gets (\<lambda>s. find_row co_id condo (condos s))) (\<lambda>found.
     bnd (need found (NotFound ''Condo not found'')) (\<lambda>c.
     let settings = merge_receipt_template (co_settings c) p in
     bnd (modify (\<lambda>s. s\<lparr>condos := set_row co_id condo (\<lambda>c. c\<lparr>co_settings := settings\<rparr>) (condos s)\<rparr>)) (\<lambda>_.
     ret (parse_receipt_template settings))))"

section \<open>Number sequences\<close>

text \<open>\<open>maxExistingNumberSuffix\<close>, on the numbers of the condo's rows.\<close>

definition max_suffix :: "string \<Rightarrow> string list \<Rightarrow> nat" where
  "max_suffix prefix numbers =
     foldl (\<lambda>m n. case read_nat 0 (drop (length prefix) n) of None \<Rightarrow> m | Some k \<Rightarrow> max m k) 0
       (filter (starts_with prefix) numbers)"

definition is_seq :: "string \<Rightarrow> string \<Rightarrow> int \<Rightarrow> num_seq \<Rightarrow> bool" where
  "is_seq condo kind year q \<longleftrightarrow> ns_condo q = condo \<and> ns_kind q = kind \<and> ns_year q = year"

text \<open>The upsert of the sequence and the repair when it has fallen behind; the number it stands at.\<close>

definition bump_sequence :: "string \<Rightarrow> string \<Rightarrow> int \<Rightarrow> nat \<Rightarrow> nat svc" where
  "bump_sequence condo kind year existing_max =
     bnd (gets (\<lambda>s. find (is_seq condo kind year) (sequences s))) (\<lambda>found.
     bnd (case found of
            None \<Rightarrow> modify (\<lambda>s. s\<lparr>sequences := sequences s @
              [\<lparr>ns_condo = condo, ns_kind = kind, ns_year = year, ns_last = existing_max + 1\<rparr>]\<rparr>)
          | Some q \<Rightarrow> modify (\<lambda>s. s\<lparr>sequences := set_where (is_seq condo kind year)
              (\<lambda>q. q\<lparr>ns_last := ns_last q + 1\<rparr>) (sequences s)\<rparr>)) (\<lambda>_.
     let last_number = (case found of None \<Rightarrow> existing_max + 1 | Some q \<Rightarrow> ns_last q + 1) in
     if last_number \<le> existing_max
     then bnd (modify (\<lambda>s. s\<lparr>sequences := set_where (is_seq condo kind year)
              (\<lambda>q. q\<lparr>ns_last := existing_max + 1\<rparr>) (sequences s)\<rparr>)) (\<lambda>_. ret (existing_max + 1))
     else ret last_number))"

definition numbered :: "string \<Rightarrow> nat \<Rightarrow> string" where
  "numbered prefix n = prefix @ pad_start 6 (CHR ''0'') (show_nat n)"

definition invoice_numbers :: "string \<Rightarrow> bdb \<Rightarrow> string list" where
  "invoice_numbers condo s = map inv_number (filter (\<lambda>i. inv_condo i = condo) (invoices s))"

definition receipt_numbers :: "string \<Rightarrow> bdb \<Rightarrow> string list" where
  "receipt_numbers condo s = map rc_number (filter (\<lambda>r. rc_condo r = condo) (receipts s))"

definition next_invoice_number :: "svc_env \<Rightarrow> string \<Rightarrow> string svc" where
  "next_invoice_number e condo =
     (let prefix = ''INV-'' @ show_int (this_year e) @ ''-'' in
     bnd (gets (\<lambda>s. max_suffix prefix (invoice_numbers condo s))) (\<lambda>existing_max.
     bnd (bump_sequence condo ''INVOICE'' (this_year e) existing_max) (\<lambda>n.
     ret (numbered prefix n))))"

definition next_receipt_number :: "svc_env \<Rightarrow> string \<Rightarrow> string \<Rightarrow> string svc" where
  "next_receipt_number e condo number_prefix =
     (let prefix = number_prefix @ ''-'' @ show_int (this_year e) @ ''-'' in
     bnd (gets (\<lambda>s. max_suffix prefix (receipt_numbers condo s))) (\<lambda>existing_max.
     bnd (bump_sequence condo ''RECEIPT'' (this_year e) existing_max) (\<lambda>n.
     ret (numbered prefix n))))"

section \<open>Issuing\<close>

record receipt_input =
  ri_condo :: string
  ri_kind :: receipt_kind
  ri_amount :: money
  ri_currency :: "string option"
  ri_to :: "string option"
  ri_unit :: "string option"
  ri_payment :: "string option"
  ri_deposit :: "string option"
  ri_desc :: "string option"

text \<open>
  \<open>receipt.create\<close>, refused by the unique indexes on the number within the condo, on the payment
  and on the deposit.
\<close>

definition create_receipt :: "receipt \<Rightarrow> receipt svc" where
  "create_receipt r =
     bnd (gets receipts) (\<lambda>rs.
     bnd (ensure (\<forall>x \<in> set rs. \<not> (rc_condo x = rc_condo r \<and> rc_number x = rc_number r))
           (UniqueViolation ''receipts_condoId_number_key'')) (\<lambda>_.
     bnd (ensure (rc_payment r = None \<or> (\<forall>x \<in> set rs. rc_payment x \<noteq> rc_payment r))
           (UniqueViolation ''receipts_paymentId_key'')) (\<lambda>_.
     bnd (ensure (rc_deposit r = None \<or> (\<forall>x \<in> set rs. rc_deposit x \<noteq> rc_deposit r))
           (UniqueViolation ''receipts_depositId_key'')) (\<lambda>_.
     bnd (modify (\<lambda>s. s\<lparr>receipts := receipts s @ [r]\<rparr>)) (\<lambda>_. ret r)))))"

definition issue_receipt :: "svc_env \<Rightarrow> receipt_input \<Rightarrow> receipt svc" where
  "issue_receipt e x =
     bnd (gets (\<lambda>s. find_row co_id (ri_condo x) (condos s))) (\<lambda>found.
     bnd (need found (NotFound ''Condo not found'')) (\<lambda>c.
     let template = parse_receipt_template (co_settings c) in
     bnd (next_receipt_number e (ri_condo x) (tp_prefix template)) (\<lambda>number.
     bnd new_id (\<lambda>i.
     create_receipt
       \<lparr>rc_id = i, rc_condo = ri_condo x, rc_number = number, rc_kind = ri_kind x,
        rc_amount = ri_amount x,
        rc_currency = (case ri_currency x of None \<Rightarrow> co_currency c | Some y \<Rightarrow> y),
        rc_to = ri_to x, rc_unit = ri_unit x, rc_payment = ri_payment x, rc_deposit = ri_deposit x,
        rc_desc = ri_desc x, rc_template = template\<rparr>))))"

text \<open>\<open>assertCanRead\<close> of receipt.service.ts.\<close>

definition can_read_receipt :: "auth_user \<Rightarrow> receipt \<Rightarrow> bool" where
  "can_read_receipt u r \<longleftrightarrow>
     some_role (\<lambda>a. role a = SUPER_ADMIN \<or>
       ((role a = MANAGEMENT_ADMIN \<or> role a = MANAGEMENT_STAFF) \<and> role_condo a = Some (rc_condo r))) u \<or>
     (truthy (rc_to r) \<and> rc_to r = Some (user_id u)) \<or>
     (truthy (rc_unit r) \<and> some_role (\<lambda>a. role_unit a = rc_unit r) u)"

definition get_receipt :: "auth_user \<Rightarrow> string \<Rightarrow> receipt svc" where
  "get_receipt u i =
     bnd (gets (\<lambda>s. find_row rc_id i (receipts s))) (\<lambda>found.
     bnd (need found (NotFound ''Receipt not found'')) (\<lambda>r.
     bnd (ensure (can_read_receipt u r) (Forbidden ''You cannot access this receipt'')) (\<lambda>_.
     ret r)))"

section \<open>Freshness of the numbers\<close>

lemma starts_with_iff: "starts_with p s \<longleftrightarrow> (\<exists>r. s = p @ r)"
  by (metis append_eq_conv_conj starts_with_def starts_with_append append_take_drop_id)

lemma max_suffix_fold:
  fixes p :: string
  defines "f \<equiv> \<lambda>m n. case read_nat 0 (drop (length p) n) of None \<Rightarrow> m | Some k \<Rightarrow> max m k"
  shows "m \<le> foldl f m ns \<and>
    (\<forall>n \<in> set ns. \<forall>k. read_nat 0 (drop (length p) n) = Some k \<longrightarrow> k \<le> foldl f m ns)"
proof (induction ns arbitrary: m)
  case (Cons n ns)
  from Cons.IH [of "f m n"] show ?case by (force simp: f_def split: option.splits)
qed simp

lemma max_suffix_ge: "p @ r \<in> set ns \<Longrightarrow> read_nat 0 r = Some k \<Longrightarrow> k \<le> max_suffix p ns"
  using max_suffix_fold [of 0 p "filter (starts_with p) ns"] by (force simp: max_suffix_def)

lemma numbered_fresh: "max_suffix p ns < n \<Longrightarrow> numbered p n \<notin> set ns"
  using max_suffix_ge [of p "pad_start 6 (CHR ''0'') (show_nat n)" ns n]
  by (auto simp: numbered_def read_pad_show)

lemma bump_sequence_run:
  "\<exists>n t. bump_sequence condo kind year m s = (Inr n, t) \<and> m < n \<and>
     (\<exists>q. t = s\<lparr>sequences := q\<rparr>)"
proof (cases "find (is_seq condo kind year) (sequences s)")
  case None
  then show ?thesis by (auto simp: bump_sequence_def bnd_def gets_def modify_def ret_def Let_def)
next
  case (Some q)
  then show ?thesis
    by (cases "ns_last q + 1 \<le> m")
       (auto simp: bump_sequence_def bnd_def gets_def modify_def ret_def Let_def)
qed

lemma next_invoice_number_run:
  "\<exists>n q. next_invoice_number e condo s = (Inr n, s\<lparr>sequences := q\<rparr>) \<and> n \<notin> set (invoice_numbers condo s)"
proof -
  let ?p = "''INV-'' @ show_int (this_year e) @ ''-''"
  let ?m = "max_suffix ?p (invoice_numbers condo s)"
  obtain n q where run: "bump_sequence condo ''INVOICE'' (this_year e) ?m s = (Inr n, s\<lparr>sequences := q\<rparr>)"
      and n: "?m < n"
    using bump_sequence_run by blast
  have "next_invoice_number e condo s = (Inr (numbered ?p n), s\<lparr>sequences := q\<rparr>)"
    using run by (simp add: next_invoice_number_def bnd_def gets_def ret_def Let_def)
  with numbered_fresh [OF n] show ?thesis by blast
qed

lemma next_receipt_number_run:
  "\<exists>n q. next_receipt_number e condo pre s = (Inr n, s\<lparr>sequences := q\<rparr>) \<and>
     n \<notin> set (receipt_numbers condo s)"
proof -
  let ?p = "pre @ ''-'' @ show_int (this_year e) @ ''-''"
  let ?m = "max_suffix ?p (receipt_numbers condo s)"
  obtain n q where run: "bump_sequence condo ''RECEIPT'' (this_year e) ?m s = (Inr n, s\<lparr>sequences := q\<rparr>)"
      and n: "?m < n"
    using bump_sequence_run by blast
  have "next_receipt_number e condo pre s = (Inr (numbered ?p n), s\<lparr>sequences := q\<rparr>)"
    using run by (simp add: next_receipt_number_def bnd_def gets_def ret_def Let_def)
  with numbered_fresh [OF n] show ?thesis by blast
qed

section \<open>Issuing, run\<close>

text \<open>
  A receipt for a payment and a deposit that have none is always issued, when the condo exists:
  the number never collides.
\<close>

lemma issue_receipt_run:
  assumes "find_row co_id (ri_condo x) (condos s) = Some c"
    and "ri_payment x = None \<or> (\<forall>r \<in> set (receipts s). rc_payment r \<noteq> ri_payment x)"
    and "ri_deposit x = None \<or> (\<forall>r \<in> set (receipts s). rc_deposit r \<noteq> ri_deposit x)"
  shows "\<exists>r q. issue_receipt e x s =
      (Inr r, s\<lparr>sequences := q, next_uuid := Suc (next_uuid s), receipts := receipts s @ [r]\<rparr>) \<and>
    rc_payment r = ri_payment x \<and> rc_deposit r = ri_deposit x \<and> rc_amount r = ri_amount x \<and>
    rc_kind r = ri_kind x \<and> rc_condo r = ri_condo x \<and>
    rc_number r \<notin> set (receipt_numbers (ri_condo x) s)"
proof -
  let ?t = "parse_receipt_template (co_settings c)"
  obtain n q where run: "next_receipt_number e (ri_condo x) (tp_prefix ?t) s = (Inr n, s\<lparr>sequences := q\<rparr>)"
      and n: "n \<notin> set (receipt_numbers (ri_condo x) s)"
    using next_receipt_number_run by blast
  have "\<forall>r \<in> set (receipts s). \<not> (rc_condo r = ri_condo x \<and> rc_number r = n)"
    using n by (auto simp: receipt_numbers_def)
  then show ?thesis using assms run n
    by (auto simp: issue_receipt_def create_receipt_def bnd_def gets_def need_def ret_def ensure_def
        modify_def new_id_def Let_def)
qed

lemma issue_receipt_cases:
  assumes "issue_receipt e x s = (r, t)"
  obtains (ok) y where "r = Inr y" and "receipts t = receipts s @ [y]" and "rc_amount y = ri_amount x"
      and "rc_payment y = ri_payment x" and "rc_deposit y = ri_deposit x"
  | (error) m where "r = Inl m" and "receipts t = receipts s"
proof -
  obtain n q where run: "next_receipt_number e (ri_condo x) p s = (Inr n, s\<lparr>sequences := q\<rparr>)" if "p = tp_prefix (parse_receipt_template (co_settings (the (find_row co_id (ri_condo x) (condos s)))))" for p
    using next_receipt_number_run by blast
  from assms run [OF refl] show thesis
    by (cases "find_row co_id (ri_condo x) (condos s)")
       (auto simp: issue_receipt_def create_receipt_def bnd_def gets_def need_def ret_def ensure_def
        throw_def modify_def new_id_def Let_def split: if_splits intro: ok error)
qed

lemma keeps_bump_sequence [keep]:
  "(\<And>s q. f (s\<lparr>sequences := q\<rparr>) = f s) \<Longrightarrow> keeps f (bump_sequence condo kind year m)"
  unfolding bump_sequence_def Let_def by (intro keep keeps_modify; simp)

lemma keeps_next_invoice_number [keep]:
  "(\<And>s q. f (s\<lparr>sequences := q\<rparr>) = f s) \<Longrightarrow> keeps f (next_invoice_number e condo)"
  unfolding next_invoice_number_def Let_def by (intro keep; simp)

lemma keeps_next_receipt_number [keep]:
  "(\<And>s q. f (s\<lparr>sequences := q\<rparr>) = f s) \<Longrightarrow> keeps f (next_receipt_number e condo p)"
  unfolding next_receipt_number_def Let_def by (intro keep; simp)

lemma keeps_issue_receipt [keep]:
  "(\<And>s q. f (s\<lparr>sequences := q\<rparr>) = f s) \<Longrightarrow> (\<And>s n. f (s\<lparr>next_uuid := n\<rparr>) = f s) \<Longrightarrow>
   (\<And>s r. f (s\<lparr>receipts := r\<rparr>) = f s) \<Longrightarrow> keeps f (issue_receipt e x)"
  unfolding issue_receipt_def create_receipt_def Let_def by (intro keep keeps_modify; simp)

section \<open>The template\<close>

lemma map_of_set_field: "map_of (set_field k v fs) = (map_of fs)(k \<mapsto> v)"
  by (induction k v fs rule: set_field.induct) (auto simp: fun_eq_iff)

lemma json_field_set: "json_field k' (JObj (set_field k v fs)) = (if k' = k then v else json_field k' (JObj fs))"
  by (simp add: json_field_def as_object_def map_of_set_field)

lemma json_field_as_object: "json_field k (JObj (as_object j)) = json_field k j"
  by (simp add: json_field_def as_object_def)

definition or_else :: "string option \<Rightarrow> string \<Rightarrow> string" where
  "or_else p c = (case p of None \<Rightarrow> c | Some t \<Rightarrow> t)"

lemma receipt_settings_merge:
  "receipt_settings (merge_receipt_template j p) = patched_receipt (parse_receipt_template j) p"
  by (simp add: receipt_settings_def merge_receipt_template_def json_field_set)

end
