(* ===== verification/Access_Restriction.thy ===== *)
theory Access_Restriction
  imports Ledger_Reports Receipts
begin

text \<open>
  Restricting the self-service of units in arrears: access-restriction/access-restriction-settings.ts
  and access-restriction.service.ts. The service keeps its rows beside the billing database, whose
  invoices say what a unit owes.

  The URL parser of the runtime is a parameter: it gives the protocol and the normal form of a URL,
  or nothing. Webhooks are recorded in the order they are posted; their answers are only logged.
  The unit's and block's names that the views add to a row are not modelled.
\<close>

section \<open>Settings\<close>

datatype zone = CAR_PARK | AMENITIES | COMMON_FACILITIES

fun zone_text :: "zone \<Rightarrow> string" where
  "zone_text CAR_PARK = ''CAR_PARK''"
| "zone_text AMENITIES = ''AMENITIES''"
| "zone_text COMMON_FACILITIES = ''COMMON_FACILITIES''"

definition zone_of :: "json \<Rightarrow> zone option" where
  "zone_of j = (case j of JStr t \<Rightarrow> find (\<lambda>z. zone_text z = t) [CAR_PARK, AMENITIES, COMMON_FACILITIES] | _ \<Rightarrow> None)"

type_synonym url_parser = "string \<Rightarrow> (string \<times> string) option"

record restriction_settings =
  rs_enabled :: bool
  rs_grace_days :: rat
  rs_min_outstanding :: money
  rs_block_facility :: bool
  rs_block_visitors :: bool
  rs_block_deliveries :: bool
  rs_block_recurring :: bool
  rs_zones :: "zone list"
  rs_webhook_url :: "string option"
  rs_webhook_secret :: "string option"
  rs_auto_sync :: bool

definition default_restriction_settings :: restriction_settings where
  "default_restriction_settings =
     \<lparr>rs_enabled = False, rs_grace_days = 14, rs_min_outstanding = 1 / 100, rs_block_facility = True,
      rs_block_visitors = True, rs_block_deliveries = True, rs_block_recurring = True,
      rs_zones = [CAR_PARK, AMENITIES], rs_webhook_url = None, rs_webhook_secret = None,
      rs_auto_sync = False\<rparr>"

definition parse_boolean :: "json \<Rightarrow> bool \<Rightarrow> bool" where
  "parse_boolean j fallback = (case j of JBool b \<Rightarrow> b | _ \<Rightarrow> fallback)"

definition parse_non_neg :: "json \<Rightarrow> rat \<Rightarrow> rat" where
  "parse_non_neg j fallback = (case j of JNum x \<Rightarrow> if 0 \<le> x then x else fallback | _ \<Rightarrow> fallback)"

definition parse_grace_days :: "json \<Rightarrow> rat \<Rightarrow> rat" where
  "parse_grace_days j fallback =
     (case j of JNum x \<Rightarrow> if of_int \<lfloor>x\<rfloor> = x \<and> 0 \<le> x \<and> x \<le> 365 then x else fallback | _ \<Rightarrow> fallback)"

definition parse_zones :: "json \<Rightarrow> zone list \<Rightarrow> zone list" where
  "parse_zones j fallback =
     (case j of JArr js \<Rightarrow> (let zs = List.map_filter zone_of js in if zs = [] then fallback else zs)
      | _ \<Rightarrow> fallback)"

definition parse_url :: "url_parser \<Rightarrow> json \<Rightarrow> string option" where
  "parse_url up j =
     (case j of JStr t \<Rightarrow>
        if trim t = [] then None
        else (case up (trim t) of None \<Rightarrow> None
              | Some (protocol, href) \<Rightarrow> if protocol = ''http:'' \<or> protocol = ''https:'' then Some href else None)
      | _ \<Rightarrow> None)"

definition parse_secret :: "json \<Rightarrow> string option" where
  "parse_secret j =
     (case j of JStr t \<Rightarrow> if trim t = [] then None else Some (take 256 (trim t)) | _ \<Rightarrow> None)"

definition parse_restriction_settings :: "url_parser \<Rightarrow> json \<Rightarrow> restriction_settings" where
  "parse_restriction_settings up raw =
     (let f = (\<lambda>k. json_field k (json_field ''accessRestriction'' raw)); d = default_restriction_settings
      in \<lparr>rs_enabled = parse_boolean (f ''enabled'') (rs_enabled d),
          rs_grace_days = parse_grace_days (f ''graceDays'') (rs_grace_days d),
          rs_min_outstanding = parse_non_neg (f ''minOutstanding'') (rs_min_outstanding d),
          rs_block_facility = parse_boolean (f ''softBlockFacility'') (rs_block_facility d),
          rs_block_visitors = parse_boolean (f ''softBlockVisitors'') (rs_block_visitors d),
          rs_block_deliveries = parse_boolean (f ''softBlockDeliveryPasses'') (rs_block_deliveries d),
          rs_block_recurring = parse_boolean (f ''softBlockRecurringPasses'') (rs_block_recurring d),
          rs_zones = parse_zones (f ''zones'') (rs_zones d),
          rs_webhook_url = parse_url up (f ''webhookUrl''),
          rs_webhook_secret = parse_secret (f ''webhookSecret''),
          rs_auto_sync = parse_boolean (f ''autoSyncEnabled'') (rs_auto_sync d)\<rparr>)"

definition opt_text :: "string option \<Rightarrow> json" where
  "opt_text t = (case t of None \<Rightarrow> JNull | Some t \<Rightarrow> JStr t)"

definition merge_restriction_settings :: "json \<Rightarrow> restriction_settings \<Rightarrow> json" where
  "merge_restriction_settings raw x =
     JObj (set_field ''accessRestriction''
       (JObj [(''enabled'', JBool (rs_enabled x)),
              (''graceDays'', JNum (rs_grace_days x)),
              (''minOutstanding'', JNum (rs_min_outstanding x)),
              (''softBlockFacility'', JBool (rs_block_facility x)),
              (''softBlockVisitors'', JBool (rs_block_visitors x)),
              (''softBlockDeliveryPasses'', JBool (rs_block_deliveries x)),
              (''softBlockRecurringPasses'', JBool (rs_block_recurring x)),
              (''zones'', JArr (map (\<lambda>z. JStr (zone_text z)) (rs_zones x))),
              (''webhookUrl'', opt_text (rs_webhook_url x)),
              (''webhookSecret'', opt_text (rs_webhook_secret x)),
              (''autoSyncEnabled'', JBool (rs_auto_sync x))])
       (as_object raw))"

text \<open>What the API shows of the settings: that there is a secret, not the secret.\<close>

definition public_restriction_settings :: "restriction_settings \<Rightarrow> restriction_settings \<times> bool" where
  "public_restriction_settings x = (x\<lparr>rs_webhook_secret := None\<rparr>, truthy (rs_webhook_secret x))"

section \<open>State\<close>

datatype restriction_source = BY_POLICY | BY_MANAGEMENT

datatype capability = CAP_FACILITY | CAP_VISITORS | CAP_DELIVERIES | CAP_RECURRING

record restriction =
  ar_id :: string
  ar_condo :: string
  ar_unit :: string
  ar_active :: bool
  ar_source :: restriction_source
  ar_exempt :: bool
  ar_zones :: "zone list"
  ar_reason :: "string option"
  ar_outstanding :: money
  ar_oldest :: "int option"
  ar_activated :: "int option"
  ar_cleared :: "int option"
  ar_by :: "string option"

record webhook =
  wh_url :: string
  wh_event :: string
  wh_condo :: string
  wh_row :: restriction
  wh_secret :: "string option"

text \<open>
  \<open>ad_residents\<close> are the users and units of active ownerships and tenancies, \<open>ad_deleted\<close> the condos
  with a \<open>deletedAt\<close>.
\<close>

record access_db =
  ad_base :: bdb
  ad_restrictions :: "restriction list"
  ad_residents :: "(string \<times> string) list"
  ad_deleted :: "string list"
  ad_webhooks :: "webhook list"

type_synonym 'a asvc = "(access_db, 'a) act"

abbreviation on_base :: "'a svc \<Rightarrow> 'a asvc" where
  "on_base \<equiv> on_part ad_base ad_base_update"

section \<open>Arrears\<close>

record arrears_snap =
  as_unit :: string
  as_outstanding :: money
  as_oldest :: "int option"
  as_days :: int

definition nothing_owed :: "string \<Rightarrow> arrears_snap" where
  "nothing_owed u = \<lparr>as_unit = u, as_outstanding = 0, as_oldest = None, as_days = 0\<rparr>"

definition days_past_due :: "int \<Rightarrow> invoice \<Rightarrow> int" where
  "days_past_due n i = (n - inv_due i) div 86400000"

definition is_older :: "invoice \<Rightarrow> arrears_snap \<Rightarrow> bool" where
  "is_older i x \<longleftrightarrow> (case as_oldest x of None \<Rightarrow> True | Some d \<Rightarrow> inv_due i < d)"

text \<open>An invoice with something left to pay, taken into the arrears of its unit.\<close>

definition add_arrears :: "int \<Rightarrow> invoice \<Rightarrow> arrears_snap \<Rightarrow> arrears_snap" where
  "add_arrears n i x =
     x\<lparr>as_outstanding := as_outstanding x + (inv_total i - inv_paid i),
       as_oldest := (if is_older i x then Some (inv_due i) else as_oldest x),
       as_days := (if is_older i x then days_past_due n i else max (as_days x) (days_past_due n i))\<rparr>"

definition condo_arrears_step :: "int \<Rightarrow> arrears_snap list \<Rightarrow> invoice \<Rightarrow> arrears_snap list" where
  "condo_arrears_step n xs i =
     (let outstanding = inv_total i - inv_paid i in
      if outstanding \<le> 1 / 200 then xs
      else case find_row as_unit (inv_unit i) xs of
        None \<Rightarrow> xs @ [\<lparr>as_unit = inv_unit i, as_outstanding = outstanding, as_oldest = Some (inv_due i),
                      as_days = days_past_due n i\<rparr>]
      | Some _ \<Rightarrow> set_row as_unit (inv_unit i) (add_arrears n i) xs)"

definition compute_condo_arrears :: "int \<Rightarrow> string \<Rightarrow> bdb \<Rightarrow> arrears_snap list" where
  "compute_condo_arrears n condo s =
     foldl (condo_arrears_step n) []
       (filter (\<lambda>i. inv_condo i = condo \<and> inv_status i \<in> set arrears_statuses) (invoices s))"

definition unit_arrears_step :: "int \<Rightarrow> arrears_snap \<Rightarrow> invoice \<Rightarrow> arrears_snap" where
  "unit_arrears_step n x i =
     (let amt = inv_total i - inv_paid i in if amt \<le> 1 / 200 then x else add_arrears n i x)"

definition compute_unit_arrears :: "int \<Rightarrow> string \<Rightarrow> bdb \<Rightarrow> arrears_snap" where
  "compute_unit_arrears n unit s =
     foldl (unit_arrears_step n) (nothing_owed unit)
       (filter (\<lambda>i. inv_unit i = unit \<and> inv_status i \<in> set arrears_statuses) (invoices s))"

definition qualifies :: "restriction_settings \<Rightarrow> arrears_snap \<Rightarrow> bool" where
  "qualifies x a \<longleftrightarrow> rs_min_outstanding x \<le> as_outstanding a \<and> rs_grace_days x < of_int (as_days a)"

section \<open>Guards and lookups\<close>

text \<open>\<open>assertCondoManagement\<close> of common/authz.\<close>

definition assert_management :: "auth_user \<Rightarrow> string \<Rightarrow> ('s, unit) act" where
  "assert_management u condo =
     ensure (condo_management u condo False) (Forbidden ''Management access required for this condo'')"

definition require_condo :: "string \<Rightarrow> condo_row asvc" where
  "require_condo condo =
     bnd (gets (\<lambda>s. if condo \<in> set (ad_deleted s) then None else find_row co_id condo (condos (ad_base s)))) (\<lambda>found.
     need found (NotFound ''Condo not found''))"

definition require_unit :: "string \<Rightarrow> string \<Rightarrow> unit asvc" where
  "require_unit condo unit =
     bnd (gets (\<lambda>s. find (\<lambda>x. un_id x = unit \<and> un_condo x = condo) (units (ad_base s)))) (\<lambda>found.
     bnd (need found (NotFound ''Unit not found'')) (\<lambda>_. ret ()))"

definition is_ops :: "role_assignment \<Rightarrow> bool" where
  "is_ops r \<longleftrightarrow> role r \<in> {SUPER_ADMIN, MANAGEMENT_ADMIN, MANAGEMENT_STAFF, SECURITY_GUARD}"

definition is_ops_bypass :: "auth_user \<Rightarrow> bool" where
  "is_ops_bypass u = some_role is_ops u"

definition restriction_of :: "string \<Rightarrow> access_db \<Rightarrow> restriction option" where
  "restriction_of unit s = find_row ar_unit unit (ad_restrictions s)"

definition update_restriction :: "string \<Rightarrow> (restriction \<Rightarrow> restriction) \<Rightarrow> unit asvc" where
  "update_restriction unit f =
     modify (\<lambda>s. s\<lparr>ad_restrictions := set_row ar_unit unit f (ad_restrictions s)\<rparr>)"

text \<open>\<open>unitAccessRestriction.upsert\<close>: the row as it is stored. A new row starts from \<open>blank_restriction\<close>.\<close>

definition blank_restriction :: "string \<Rightarrow> string \<Rightarrow> string \<Rightarrow> zone list \<Rightarrow> restriction" where
  "blank_restriction i condo unit zs =
     \<lparr>ar_id = i, ar_condo = condo, ar_unit = unit, ar_active = False, ar_source = BY_POLICY,
      ar_exempt = False, ar_zones = zs, ar_reason = None, ar_outstanding = 0, ar_oldest = None,
      ar_activated = None, ar_cleared = None, ar_by = None\<rparr>"

definition upsert_restriction ::
  "string \<Rightarrow> string \<Rightarrow> zone list \<Rightarrow> (restriction \<Rightarrow> restriction) \<Rightarrow> restriction asvc" where
  "upsert_restriction condo unit zs f =
     bnd (gets (restriction_of unit)) (\<lambda>found.
     case found of
       Some r \<Rightarrow> bnd (update_restriction unit f) (\<lambda>_. ret (f r))
     | None \<Rightarrow> bnd (on_base new_id) (\<lambda>i.
         let r = f (blank_restriction i condo unit zs) in
         bnd (modify (\<lambda>s. s\<lparr>ad_restrictions := ad_restrictions s @ [r]\<rparr>)) (\<lambda>_. ret r)))"

definition audit_restriction :: "auth_user \<Rightarrow> string \<Rightarrow> string option \<Rightarrow> string \<Rightarrow> meta \<Rightarrow> unit asvc" where
  "audit_restriction u condo unit i m =
     on_base (log_audit \<lparr>au_condo = condo, au_unit = unit, au_actor = Some (user_id u), au_action = AUDIT_UPDATE,
       au_resource = ''AccessRestriction'', au_resource_id = i, au_meta = m\<rparr>)"

definition dispatch_webhook :: "url_parser \<Rightarrow> string \<Rightarrow> string \<Rightarrow> restriction \<Rightarrow> unit asvc" where
  "dispatch_webhook up condo ev r =
     bnd (gets (\<lambda>s. find_row co_id condo (condos (ad_base s)))) (\<lambda>found.
     case found of None \<Rightarrow> ret ()
     | Some c \<Rightarrow>
       let x = parse_restriction_settings up (co_settings c) in
       case rs_webhook_url x of None \<Rightarrow> ret ()
       | Some url \<Rightarrow>
         if \<not> rs_auto_sync x \<or> url = [] then ret ()
         else modify (\<lambda>s. s\<lparr>ad_webhooks := ad_webhooks s @
           [\<lparr>wh_url = url, wh_event = ev, wh_condo = condo, wh_row = r,
             wh_secret = (if truthy (rs_webhook_secret x) then rs_webhook_secret x else None)\<rparr>]\<rparr>))"

text \<open>The signature of a posted body, for a keyed hash \<open>hmac\<close> in hexadecimal, and its check.\<close>

definition sign_body :: "(string \<Rightarrow> string \<Rightarrow> string) \<Rightarrow> string \<Rightarrow> string \<Rightarrow> string" where
  "sign_body hmac secret body = ''sha256='' @ hmac secret body"

definition verify_signature :: "(string \<Rightarrow> string \<Rightarrow> string) \<Rightarrow> string \<Rightarrow> string \<Rightarrow> string option \<Rightarrow> bool" where
  "verify_signature hmac body secret header =
     (case header of None \<Rightarrow> False
      | Some h \<Rightarrow> starts_with ''sha256='' h \<and> hmac secret body = drop (length ''sha256='') h)"

section \<open>Recomputing a condo\<close>

text \<open>\<open>new Set([...])\<close> in the order of insertion.\<close>

fun uniq :: "'a list \<Rightarrow> 'a list" where
  "uniq [] = []"
| "uniq (x # xs) = x # filter (\<lambda>y. y \<noteq> x) (uniq xs)"

definition snap_figures :: "arrears_snap \<Rightarrow> restriction \<Rightarrow> restriction" where
  "snap_figures a r = r\<lparr>ar_outstanding := as_outstanding a, ar_oldest := as_oldest a\<rparr>"

definition auto_reason :: "arrears_snap \<Rightarrow> string option" where
  "auto_reason a = Some (''Auto: '' @ show_int (as_days a) @ '' days past due'')"

definition lifted :: "int \<Rightarrow> string option \<Rightarrow> arrears_snap \<Rightarrow> restriction \<Rightarrow> restriction \<Rightarrow> restriction" where
  "lifted n actor a row r =
     (snap_figures a r)\<lparr>ar_active := False, ar_exempt := False,
       ar_cleared := (if ar_active row then Some n else ar_cleared row),
       ar_by := (case actor of None \<Rightarrow> ar_by row | Some x \<Rightarrow> Some x),
       ar_reason := (if ar_active row then Some ''Arrears cleared'' else ar_reason row)\<rparr>"

definition imposed :: "int \<Rightarrow> string option \<Rightarrow> restriction_settings \<Rightarrow> arrears_snap \<Rightarrow> restriction \<Rightarrow> restriction" where
  "imposed n actor x a r =
     (snap_figures a r)\<lparr>ar_active := True, ar_source := BY_POLICY, ar_exempt := False, ar_zones := rs_zones x,
       ar_reason := auto_reason a, ar_activated := Some n, ar_cleared := None, ar_by := actor\<rparr>"

datatype sync_outcome = SYNC_ACTIVATED | SYNC_CLEARED | SYNC_SKIPPED | SYNC_QUIET

text \<open>The body of the loop for one unit: \<open>row\<close> is the row as it was read before the loop.\<close>

definition sync_unit ::
  "env \<Rightarrow> url_parser \<Rightarrow> string \<Rightarrow> string option \<Rightarrow> restriction_settings \<Rightarrow> arrears_snap \<Rightarrow> restriction option \<Rightarrow> sync_outcome asvc" where
  "sync_unit e up condo actor x a row =
     (let unit = as_unit a in
      if \<not> qualifies x a then
        (case row of None \<Rightarrow> ret SYNC_QUIET
         | Some r \<Rightarrow>
           if ar_active r \<or> ar_exempt r then
             bnd (update_restriction unit (lifted (now e) actor a r)) (\<lambda>_.
             if ar_active r then
               bnd (dispatch_webhook up condo ''unit.cleared'' (lifted (now e) actor a r r)) (\<lambda>_. ret SYNC_CLEARED)
             else ret SYNC_QUIET)
           else bnd (update_restriction unit (snap_figures a)) (\<lambda>_. ret SYNC_QUIET))
      else case row of
        Some r \<Rightarrow>
          if ar_exempt r then bnd (update_restriction unit (snap_figures a)) (\<lambda>_. ret SYNC_SKIPPED)
          else if ar_active r \<and> ar_source r = BY_MANAGEMENT then
            bnd (update_restriction unit (\<lambda>r. (snap_figures a r)\<lparr>ar_zones := rs_zones x\<rparr>)) (\<lambda>_. ret SYNC_SKIPPED)
          else if ar_active r then
            bnd (update_restriction unit (\<lambda>r. (snap_figures a r)\<lparr>ar_zones := rs_zones x, ar_reason := auto_reason a\<rparr>)) (\<lambda>_.
            ret SYNC_QUIET)
          else
            bnd (upsert_restriction condo unit (rs_zones x) (imposed (now e) actor x a)) (\<lambda>r'.
            bnd (dispatch_webhook up condo ''unit.restricted'' r') (\<lambda>_. ret SYNC_ACTIVATED))
      | None \<Rightarrow>
          bnd (upsert_restriction condo unit (rs_zones x) (imposed (now e) actor x a)) (\<lambda>r'.
          bnd (dispatch_webhook up condo ''unit.restricted'' r') (\<lambda>_. ret SYNC_ACTIVATED)))"

record sync_counts =
  sc_activated :: nat
  sc_cleared :: nat
  sc_skipped :: nat

definition count_outcomes :: "sync_outcome list \<Rightarrow> sync_counts" where
  "count_outcomes os = \<lparr>sc_activated = count_where (\<lambda>x. x = SYNC_ACTIVATED) os,
     sc_cleared = count_where (\<lambda>x. x = SYNC_CLEARED) os, sc_skipped = count_where (\<lambda>x. x = SYNC_SKIPPED) os\<rparr>"

definition snap_of :: "arrears_snap list \<Rightarrow> string \<Rightarrow> arrears_snap" where
  "snap_of xs unit = (case find_row as_unit unit xs of None \<Rightarrow> nothing_owed unit | Some a \<Rightarrow> a)"

definition recompute_condo :: "env \<Rightarrow> url_parser \<Rightarrow> string \<Rightarrow> string option \<Rightarrow> sync_counts asvc" where
  "recompute_condo e up condo actor =
     bnd (require_condo condo) (\<lambda>c.
     let x = parse_restriction_settings up (co_settings c) in
     if \<not> rs_enabled x then ret (count_outcomes [])
     else
       bnd (gets (\<lambda>s. compute_condo_arrears (now e) condo (ad_base s))) (\<lambda>snaps.
       bnd (gets (\<lambda>s. filter (\<lambda>r. ar_condo r = condo) (ad_restrictions s))) (\<lambda>existing.
       bnd (for_each (uniq (map as_unit snaps @ map ar_unit existing))
             (\<lambda>unit. sync_unit e up condo actor x (snap_of snaps unit) (find_row ar_unit unit existing))) (\<lambda>os.
       ret (count_outcomes os)))))"

definition recompute_for_user :: "env \<Rightarrow> url_parser \<Rightarrow> auth_user \<Rightarrow> string \<Rightarrow> sync_counts asvc" where
  "recompute_for_user e up u condo =
     bnd (assert_management u condo) (\<lambda>_. recompute_condo e up condo (Some (user_id u)))"

text \<open>The handler of \<open>invoice.paid\<close>: an exception is logged.\<close>

definition on_invoice_paid :: "env \<Rightarrow> url_parser \<Rightarrow> string \<Rightarrow> unit asvc" where
  "on_invoice_paid e up i =
     bnd (gets (\<lambda>s. find_row inv_id i (invoices (ad_base s)))) (\<lambda>found.
     case found of None \<Rightarrow> ret ()
     | Some iv \<Rightarrow> bnd (try_log (count_outcomes []) (recompute_condo e up (inv_condo iv) None)) (\<lambda>_. ret ()))"

section \<open>What management does\<close>

definition get_restriction_settings :: "url_parser \<Rightarrow> auth_user \<Rightarrow> string \<Rightarrow> (restriction_settings \<times> bool) asvc" where
  "get_restriction_settings up u condo =
     bnd (assert_management u condo) (\<lambda>_.
     bnd (require_condo condo) (\<lambda>c.
     ret (public_restriction_settings (parse_restriction_settings up (co_settings c)))))"

text \<open>
  The update: a field that is not given stays. \<open>ru_url\<close> is \<open>Some None\<close> for null; an empty secret
  clears it.
\<close>

record settings_update =
  ru_enabled :: "bool option"
  ru_grace_days :: "rat option"
  ru_min_outstanding :: "money option"
  ru_block_facility :: "bool option"
  ru_block_visitors :: "bool option"
  ru_block_deliveries :: "bool option"
  ru_block_recurring :: "bool option"
  ru_zones :: "zone list option"
  ru_url :: "string option option"
  ru_secret :: "string option"
  ru_auto_sync :: "bool option"

definition given_or :: "'a option \<Rightarrow> 'a \<Rightarrow> 'a" where
  "given_or x y = (case x of None \<Rightarrow> y | Some v \<Rightarrow> v)"

definition updated_settings :: "restriction_settings \<Rightarrow> settings_update \<Rightarrow> restriction_settings" where
  "updated_settings c d =
     \<lparr>rs_enabled = given_or (ru_enabled d) (rs_enabled c),
      rs_grace_days = given_or (ru_grace_days d) (rs_grace_days c),
      rs_min_outstanding = given_or (ru_min_outstanding d) (rs_min_outstanding c),
      rs_block_facility = given_or (ru_block_facility d) (rs_block_facility c),
      rs_block_visitors = given_or (ru_block_visitors d) (rs_block_visitors c),
      rs_block_deliveries = given_or (ru_block_deliveries d) (rs_block_deliveries c),
      rs_block_recurring = given_or (ru_block_recurring d) (rs_block_recurring c),
      rs_zones = given_or (ru_zones d) (rs_zones c),
      rs_webhook_url = (case ru_url d of None \<Rightarrow> rs_webhook_url c
        | Some None \<Rightarrow> None | Some (Some t) \<Rightarrow> if t = [] then None else Some t),
      rs_webhook_secret = (case ru_secret d of None \<Rightarrow> rs_webhook_secret c
        | Some t \<Rightarrow> if trim t = [] then None else Some (take 256 (trim t))),
      rs_auto_sync = given_or (ru_auto_sync d) (rs_auto_sync c)\<rparr>"

definition update_restriction_settings ::
  "env \<Rightarrow> url_parser \<Rightarrow> auth_user \<Rightarrow> string \<Rightarrow> settings_update \<Rightarrow> (restriction_settings \<times> bool) asvc" where
  "update_restriction_settings e up u condo d =
     bnd (assert_management u condo) (\<lambda>_.
     bnd (require_condo condo) (\<lambda>c.
     let next = updated_settings (parse_restriction_settings up (co_settings c)) d in
     bnd (on_base (modify (\<lambda>s. s\<lparr>condos := set_row co_id condo
       (\<lambda>r. r\<lparr>co_settings := merge_restriction_settings (co_settings c) next\<rparr>) (condos s)\<rparr>))) (\<lambda>_.
     bnd (audit_restriction u condo None condo
       [''kind'' \<mapsto> JStr ''settings'', ''enabled'' \<mapsto> JBool (rs_enabled next),
        ''graceDays'' \<mapsto> JNum (rs_grace_days next)]) (\<lambda>_.
     bnd (if rs_enabled next then bnd (recompute_condo e up condo (Some (user_id u))) (\<lambda>_. ret ()) else ret ()) (\<lambda>_.
     ret (public_restriction_settings next))))))"

text \<open>The rows of a condo, active ones first, then by amount, and how many units qualify.\<close>

definition list_restricted_units :: "env \<Rightarrow> url_parser \<Rightarrow> auth_user \<Rightarrow> string \<Rightarrow> (restriction list \<times> nat \<times> nat) asvc" where
  "list_restricted_units e up u condo =
     bnd (assert_management u condo) (\<lambda>_.
     bnd (require_condo condo) (\<lambda>c.
     let x = parse_restriction_settings up (co_settings c) in
     gets (\<lambda>s. let rows = filter (\<lambda>r. ar_condo r = condo) (ad_restrictions s) in
       (sort_key (\<lambda>r. if ar_active r then 0 else (1 :: nat)) (sort_key (\<lambda>r. - ar_outstanding r) rows),
        length rows, count_where (qualifies x) (compute_condo_arrears (now e) condo (ad_base s))))))"

definition forced :: "env \<Rightarrow> auth_user \<Rightarrow> string option \<Rightarrow> restriction_settings \<Rightarrow> arrears_snap \<Rightarrow> restriction \<Rightarrow> restriction" where
  "forced e u reason x a r =
     (snap_figures a r)\<lparr>ar_active := True, ar_source := BY_MANAGEMENT, ar_exempt := False, ar_zones := rs_zones x,
       ar_reason := (case reason of
           Some t \<Rightarrow> if trim t = [] then Some ''Manual restriction by management'' else Some (trim t)
         | None \<Rightarrow> Some ''Manual restriction by management''),
       ar_activated := Some (now e), ar_cleared := None, ar_by := Some (user_id u)\<rparr>"

definition force_restrict ::
  "env \<Rightarrow> url_parser \<Rightarrow> auth_user \<Rightarrow> string \<Rightarrow> string \<Rightarrow> string option \<Rightarrow> restriction asvc" where
  "force_restrict e up u condo unit reason =
     bnd (assert_management u condo) (\<lambda>_.
     bnd (require_unit condo unit) (\<lambda>_.
     bnd (require_condo condo) (\<lambda>c.
     let x = parse_restriction_settings up (co_settings c) in
     bnd (gets (\<lambda>s. compute_unit_arrears (now e) unit (ad_base s))) (\<lambda>a.
     bnd (upsert_restriction condo unit (rs_zones x) (forced e u reason x a)) (\<lambda>r.
     bnd (audit_restriction u condo (Some unit) unit
       [''kind'' \<mapsto> JStr ''restrict'', ''reason'' \<mapsto> opt_text (ar_reason r)]) (\<lambda>_.
     bnd (dispatch_webhook up condo ''unit.restricted'' r) (\<lambda>_.
     ret r)))))))"

definition force_cleared :: "env \<Rightarrow> auth_user \<Rightarrow> arrears_snap \<Rightarrow> restriction \<Rightarrow> restriction" where
  "force_cleared e u a r =
     (snap_figures a r)\<lparr>ar_active := False, ar_source := BY_MANAGEMENT, ar_exempt := True,
       ar_reason := Some ''Cleared by management'', ar_cleared := Some (now e), ar_by := Some (user_id u)\<rparr>"

definition force_clear :: "env \<Rightarrow> url_parser \<Rightarrow> auth_user \<Rightarrow> string \<Rightarrow> string \<Rightarrow> restriction asvc" where
  "force_clear e up u condo unit =
     bnd (assert_management u condo) (\<lambda>_.
     bnd (require_unit condo unit) (\<lambda>_.
     bnd (gets (restriction_of unit)) (\<lambda>existing.
     bnd (require_condo condo) (\<lambda>c.
     let x = parse_restriction_settings up (co_settings c) in
     bnd (gets (\<lambda>s. compute_unit_arrears (now e) unit (ad_base s))) (\<lambda>a.
     bnd (upsert_restriction condo unit (rs_zones x) (force_cleared e u a)) (\<lambda>r.
     bnd (audit_restriction u condo (Some unit) unit
       [''kind'' \<mapsto> JStr ''clear'',
        ''wasActive'' \<mapsto> JBool (case existing of None \<Rightarrow> False | Some r \<Rightarrow> ar_active r)]) (\<lambda>_.
     bnd (dispatch_webhook up condo ''unit.cleared'' r) (\<lambda>_.
     ret r))))))))"

text \<open>The active rows of a condo for an integrator, by the time of activation.\<close>

definition export_restrictions :: "url_parser \<Rightarrow> auth_user \<Rightarrow> string \<Rightarrow> (zone list \<times> restriction list) asvc" where
  "export_restrictions up u condo =
     bnd (assert_management u condo) (\<lambda>_.
     bnd (require_condo condo) (\<lambda>c.
     let x = parse_restriction_settings up (co_settings c) in
     gets (\<lambda>s. (rs_zones x, sort_key (\<lambda>r. case ar_activated r of None \<Rightarrow> (1 :: nat) | Some _ \<Rightarrow> 0)
       (sort_key (\<lambda>r. case ar_activated r of None \<Rightarrow> 0 | Some t \<Rightarrow> t)
         (filter (\<lambda>r. ar_condo r = condo \<and> ar_active r) (ad_restrictions s)))))))"

section \<open>What residents meet\<close>

definition is_member :: "auth_user \<Rightarrow> string \<Rightarrow> access_db \<Rightarrow> bool" where
  "is_member u unit s \<longleftrightarrow> (user_id u, unit) \<in> set (ad_residents s)"

definition assert_resident_or_management :: "auth_user \<Rightarrow> string \<Rightarrow> string \<Rightarrow> unit asvc" where
  "assert_resident_or_management u unit condo =
     (if is_ops_bypass u \<and> some_role (\<lambda>r. role_condo r = Some condo \<or> role r = SUPER_ADMIN) u then ret ()
      else if some_role (\<lambda>r. role_unit r = Some unit) u then ret ()
      else bnd (gets (is_member u unit)) (\<lambda>m. ensure m (Forbidden ''You are not a resident of this unit'')))"

record unit_access_status =
  st_unit :: string
  st_condo :: string
  st_restricted :: bool
  st_outstanding :: money
  st_reason :: "string option"
  st_zones :: "zone list"
  st_blocked :: "capability list"

definition capability_enabled :: "restriction_settings \<Rightarrow> capability \<Rightarrow> bool" where
  "capability_enabled x k =
     (case k of CAP_FACILITY \<Rightarrow> rs_block_facility x | CAP_VISITORS \<Rightarrow> rs_block_visitors x
      | CAP_DELIVERIES \<Rightarrow> rs_block_deliveries x | CAP_RECURRING \<Rightarrow> rs_block_recurring x)"

definition unit_status :: "url_parser \<Rightarrow> unit_row \<Rightarrow> access_db \<Rightarrow> unit_access_status" where
  "unit_status up un s =
     (let x = parse_restriction_settings up
            (case find_row co_id (un_condo un) (condos (ad_base s)) of None \<Rightarrow> JNull | Some c \<Rightarrow> co_settings c);
          row = restriction_of (un_id un) s;
          restricted = (rs_enabled x \<and> (case row of None \<Rightarrow> False | Some r \<Rightarrow> ar_active r))
      in \<lparr>st_unit = un_id un, st_condo = un_condo un, st_restricted = restricted,
          st_outstanding = (case row of None \<Rightarrow> 0 | Some r \<Rightarrow> ar_outstanding r),
          st_reason = (if restricted then (case row of None \<Rightarrow> None | Some r \<Rightarrow> ar_reason r) else None),
          st_zones = (if restricted then (case row of None \<Rightarrow> [CAR_PARK, AMENITIES] | Some r \<Rightarrow> ar_zones r) else []),
          st_blocked = (if restricted then
             filter (capability_enabled x) [CAP_FACILITY, CAP_VISITORS, CAP_DELIVERIES, CAP_RECURRING] else [])\<rparr>)"

definition resident_unit_status :: "url_parser \<Rightarrow> auth_user \<Rightarrow> string \<Rightarrow> unit_access_status asvc" where
  "resident_unit_status up u unit =
     bnd (gets (\<lambda>s. find_row un_id unit (units (ad_base s)))) (\<lambda>found.
     bnd (need found (NotFound ''Unit not found'')) (\<lambda>un.
     bnd (assert_resident_or_management u (un_id un) (un_condo un)) (\<lambda>_.
     gets (unit_status up un))))"

definition arrears_error :: http_error where
  "arrears_error = Forbidden (''ACCESS_RESTRICTED_ARREARS: This unit cannot use this service while maintenance '' @
     ''charges are unpaid. Please settle outstanding invoices or contact management.'')"

definition assert_not_restricted :: "url_parser \<Rightarrow> auth_user \<Rightarrow> string \<Rightarrow> capability \<Rightarrow> unit asvc" where
  "assert_not_restricted up u unit k =
     (if is_ops_bypass u then ret () else
      bnd (gets (\<lambda>s. find_row un_id unit (units (ad_base s)))) (\<lambda>found.
      case found of None \<Rightarrow> ret ()
      | Some un \<Rightarrow>
        bnd (gets (\<lambda>s. find_row co_id (un_condo un) (condos (ad_base s)))) (\<lambda>condo.
        case condo of None \<Rightarrow> ret ()
        | Some c \<Rightarrow>
          let x = parse_restriction_settings up (co_settings c) in
          if \<not> rs_enabled x then ret ()
          else if \<not> capability_enabled x k then ret ()
          else bnd (gets (restriction_of unit)) (\<lambda>row.
            ensure (case row of None \<Rightarrow> True | Some r \<Rightarrow> \<not> ar_active r) arrears_error))))"

end
