(* ===== verification/Deposits.thy ===== *)
theory Deposits
  imports Receipts
begin

text \<open>
  The deposit service (apps/api/src/billing/deposit.service.ts): deposits that management holds for
  a unit, their receipts and their ledger entries in the DEPOSIT fund, refunds and forfeits.
\<close>

section \<open>Labels, amounts and rights\<close>

fun deposit_label :: "deposit_type \<Rightarrow> string" where
  "deposit_label RENOVATION = ''Renovation deposit''"
| "deposit_label RENOVATION_DELIVERY = ''Delivery deposit''"
| "deposit_label ACCESS_CARD = ''Access card deposit''"
| "deposit_label KEY_DEPOSIT = ''Key deposit''"
| "deposit_label MOVE_IN_OUT = ''Move in/out deposit''"
| "deposit_label OTHER_DEPOSIT = ''Other deposit''"

fun deposit_type_text :: "deposit_type \<Rightarrow> string" where
  "deposit_type_text RENOVATION = ''RENOVATION''"
| "deposit_type_text RENOVATION_DELIVERY = ''RENOVATION_DELIVERY''"
| "deposit_type_text ACCESS_CARD = ''ACCESS_CARD''"
| "deposit_type_text KEY_DEPOSIT = ''KEY''"
| "deposit_type_text MOVE_IN_OUT = ''MOVE_IN_OUT''"
| "deposit_type_text OTHER_DEPOSIT = ''OTHER''"

definition refund_memo :: "deposit_type \<Rightarrow> string" where
  "refund_memo ty = ''Refund '' @ em_dash @ '' '' @ deposit_label ty"

text \<open>\<open>depositHeldAmount\<close>.\<close>

definition deposit_held :: "deposit \<Rightarrow> money" where
  "deposit_held d = max 0 (dep_amount d - dep_refunded d - dep_forfeited d)"

definition grants_deposit_management :: "string \<Rightarrow> role_assignment \<Rightarrow> bool" where
  "grants_deposit_management condo r \<longleftrightarrow> is_super r \<or> is_role_in MANAGEMENT_ADMIN condo r"

interpretation deposit_gate: role_gate grants_deposit_management
  by unfold_locales (simp add: grants_deposit_management_def)

definition assert_deposit_management :: "auth_user \<Rightarrow> string \<Rightarrow> unit svc" where
  "assert_deposit_management u condo =
     ensure (some_role (grants_deposit_management condo) u)
       (Forbidden ''Only management can manage deposits for this condo'')"

definition grants_deposit_list :: "string \<Rightarrow> role_assignment \<Rightarrow> bool" where
  "grants_deposit_list condo r \<longleftrightarrow>
     is_super r \<or> is_role_in MANAGEMENT_ADMIN condo r \<or> is_role_in MANAGEMENT_STAFF condo r"

interpretation deposit_list_gate: role_gate grants_deposit_list
  by unfold_locales (simp add: grants_deposit_list_def)

section \<open>Reading\<close>

definition find_deposit :: "string \<Rightarrow> bdb \<Rightarrow> deposit option" where
  "find_deposit i s = find_row dep_id i (deposits s)"

definition get_deposit :: "auth_user \<Rightarrow> string \<Rightarrow> deposit svc" where
  "get_deposit u i =
     bnd (gets (find_deposit i)) (\<lambda>found.
     bnd (need found (NotFound ''Deposit not found'')) (\<lambda>d.
     bnd (ensure (can_read_deposit u (dep_condo d) (dep_unit d) (dep_user d))
           (Forbidden ''You cannot access this deposit'')) (\<lambda>_.
     ret d)))"

text \<open>The page \<open>[offset, offset + limit)\<close> of the rows, latest payment first, and their number.\<close>

definition deposit_page ::
  "(deposit \<Rightarrow> bool) \<Rightarrow> nat \<Rightarrow> nat \<Rightarrow> bdb \<Rightarrow> deposit list \<times> nat" where
  "deposit_page p limit offset s =
     (take limit (drop offset (sort_key (\<lambda>d. - dep_paid_at d) (filter p (deposits s)))),
      count_where p (deposits s))"

definition list_deposits_for_condo ::
  "auth_user \<Rightarrow> string \<Rightarrow> deposit_status option \<Rightarrow> string option \<Rightarrow> nat \<Rightarrow> nat \<Rightarrow> (deposit list \<times> nat) svc" where
  "list_deposits_for_condo u condo st unit limit offset =
     bnd (ensure (some_role (grants_deposit_list condo) u)
           (Forbidden ''You cannot access deposits for this condo'')) (\<lambda>_.
     gets (deposit_page (\<lambda>d. dep_condo d = condo \<and> (st = None \<or> Some (dep_status d) = st) \<and>
       (\<not> truthy unit \<or> Some (dep_unit d) = unit)) limit offset))"

definition list_deposits_for_unit ::
  "auth_user \<Rightarrow> string \<Rightarrow> nat \<Rightarrow> nat \<Rightarrow> (deposit list \<times> nat) svc" where
  "list_deposits_for_unit u unit limit offset =
     bnd (gets (\<lambda>s. find_row un_id unit (units s))) (\<lambda>found.
     bnd (need found (NotFound ''Unit not found'')) (\<lambda>un.
     bnd (ensure (can_read_deposit u (un_condo un) unit None)
           (Forbidden ''You cannot access deposits for this unit'')) (\<lambda>_.
     gets (deposit_page (\<lambda>d. dep_unit d = unit) limit offset))))"

section \<open>Recording\<close>

definition deposit_entry ::
  "svc_env \<Rightarrow> deposit \<Rightarrow> ledger_fund \<Rightarrow> ledger_type \<Rightarrow> money \<Rightarrow> string \<Rightarrow> string \<Rightarrow> string option \<Rightarrow> entry_input" where
  "deposit_entry e d fund ty x key memo actor =
     \<lparr>ei_condo = dep_condo d, ei_unit = Some (dep_unit d), ei_fund = fund, ei_type = ty, ei_amount = x,
      ei_key = Some (''deposit:'' @ dep_id d @ '':'' @ key), ei_source = ''Deposit'',
      ei_source_id = Some (dep_id d), ei_memo = Some memo, ei_at = None, ei_by = actor\<rparr>"

definition deposit_receipt :: "deposit \<Rightarrow> receipt_kind \<Rightarrow> money \<Rightarrow> string option \<Rightarrow> string \<Rightarrow> receipt_input" where
  "deposit_receipt d kind x deposit_id desc =
     \<lparr>ri_condo = dep_condo d, ri_kind = kind, ri_amount = x, ri_currency = Some (dep_currency d),
      ri_to = dep_user d, ri_unit = Some (dep_unit d), ri_payment = None, ri_deposit = deposit_id,
      ri_desc = Some desc\<rparr>"

definition insert_deposit :: "deposit \<Rightarrow> unit svc" where
  "insert_deposit d = modify (\<lambda>s. s\<lparr>deposits := deposits s @ [d]\<rparr>)"

definition update_deposit :: "string \<Rightarrow> (deposit \<Rightarrow> deposit) \<Rightarrow> unit svc" where
  "update_deposit i f = modify (\<lambda>s. s\<lparr>deposits := set_row dep_id i f (deposits s)\<rparr>)"

definition log_deposit :: "deposit \<Rightarrow> string \<Rightarrow> audit_action \<Rightarrow> meta \<Rightarrow> unit svc" where
  "log_deposit d actor action m =
     log_audit \<lparr>au_condo = dep_condo d, au_unit = Some (dep_unit d), au_actor = Some actor,
       au_action = action, au_resource = ''Deposit'', au_resource_id = dep_id d, au_meta = m\<rparr>"

text \<open>\<open>RecordDepositDto\<close>; \<open>DepositService.recordInTx\<close> is told the same and a description of its own.\<close>

record deposit_input =
  di_unit :: string
  di_user :: "string option"
  di_type :: deposit_type
  di_amount :: money
  di_method :: "string option"
  di_reference :: "string option"
  di_paid_at :: "int option"
  di_notes :: "string option"

definition new_deposit ::
  "svc_env \<Rightarrow> string \<Rightarrow> string \<Rightarrow> deposit_input \<Rightarrow> string option \<Rightarrow> json \<Rightarrow> deposit" where
  "new_deposit e i condo x actor m =
     \<lparr>dep_id = i, dep_condo = condo, dep_unit = di_unit x, dep_user = di_user x, dep_type = di_type x,
      dep_amount = di_amount x, dep_currency = ''MYR'', dep_status = HELD, dep_method = di_method x,
      dep_reference = di_reference x, dep_refunded = 0, dep_forfeited = 0,
      dep_paid_at = (case di_paid_at x of None \<Rightarrow> now e | Some t \<Rightarrow> t), dep_refunded_at = None,
      dep_notes = di_notes x, dep_by = actor, dep_meta = m\<rparr>"

text \<open>What both ways of recording do: the row, its receipt and its ledger entry.\<close>

definition hold_deposit :: "svc_env \<Rightarrow> string \<Rightarrow> deposit_input \<Rightarrow> string option \<Rightarrow> json \<Rightarrow> string \<Rightarrow>
   (deposit \<times> receipt) svc" where
  "hold_deposit e condo x actor m desc =
     bnd new_id (\<lambda>i.
     let d = new_deposit e i condo x actor m in
     bnd (insert_deposit d) (\<lambda>_.
     bnd (issue_receipt e (deposit_receipt d DEPOSIT_RECEIPT (di_amount x) (Some i) desc)) (\<lambda>r.
     bnd (record_entry e (deposit_entry e d DEPOSIT_FUND DEPOSIT_ENTRY (di_amount x) ''held'' desc actor)) (\<lambda>_.
     ret (d, r)))))"

definition record_deposit_in_tx ::
  "svc_env \<Rightarrow> string \<Rightarrow> deposit_input \<Rightarrow> string option \<Rightarrow> string option \<Rightarrow> json \<Rightarrow> (deposit \<times> receipt) svc" where
  "record_deposit_in_tx e condo x desc actor m =
     hold_deposit e condo (x\<lparr>di_method := None, di_reference := None, di_paid_at := None\<rparr>) actor m
       (case desc of None \<Rightarrow> deposit_label (di_type x) | Some t \<Rightarrow> t)"

definition record_deposit_tx ::
  "svc_env \<Rightarrow> auth_user \<Rightarrow> string \<Rightarrow> deposit_input \<Rightarrow> (deposit \<times> receipt) svc" where
  "record_deposit_tx e u condo x =
     bnd (hold_deposit e condo x (Some (user_id u)) (JObj []) (deposit_label (di_type x))) (\<lambda>(d, r).
     bnd (log_deposit d (user_id u) AUDIT_CREATE
           [''type'' \<mapsto> JStr (deposit_type_text (di_type x)), ''amount'' \<mapsto> JNum (di_amount x),
            ''receiptId'' \<mapsto> JStr (rc_id r)]) (\<lambda>_.
     ret (d, r)))"

definition record_deposit :: "svc_env \<Rightarrow> auth_user \<Rightarrow> deposit_input \<Rightarrow> deposit svc" where
  "record_deposit e u x =
     bnd (gets (\<lambda>s. find_row un_id (di_unit x) (units s))) (\<lambda>found.
     bnd (need found (NotFound ''Unit not found'')) (\<lambda>un.
     bnd (assert_deposit_management u (un_condo un)) (\<lambda>_.
     bnd (ensure (\<not> di_amount x \<le> 0) (BadRequest ''Deposit amount must be greater than zero'')) (\<lambda>_.
     bnd (txn (record_deposit_tx e u (un_condo un) x)) (\<lambda>(d, r).
     bnd (emit (DepositRecorded (dep_id d) (rc_id r))) (\<lambda>_.
     get_deposit u (dep_id d)))))))"

section \<open>Refunds and forfeits\<close>

text \<open>The receipt and the ledger entry of a refund of \<open>x\<close> that brings the refunded amount to \<open>total_refunded\<close>.\<close>

definition pay_out :: "svc_env \<Rightarrow> deposit \<Rightarrow> money \<Rightarrow> money \<Rightarrow> string option \<Rightarrow> unit svc" where
  "pay_out e d x total_refunded actor =
     bnd (issue_receipt e (deposit_receipt d REFUND_RECEIPT x None (refund_memo (dep_type d)))) (\<lambda>_.
     bnd (record_entry e (deposit_entry e d DEPOSIT_FUND REFUND_ENTRY (- x)
            (''refund:'' @ num_text e total_refunded) (refund_memo (dep_type d)) actor)) (\<lambda>_.
     ret ()))"

definition refund_held_in_tx :: "svc_env \<Rightarrow> string \<Rightarrow> string option \<Rightarrow> money svc" where
  "refund_held_in_tx e i actor =
     bnd (gets (find_deposit i)) (\<lambda>found.
     case found of None \<Rightarrow> ret 0
     | Some d \<Rightarrow>
       if deposit_held d \<le> 1 / 200 then ret 0 else
       bnd (update_deposit i (\<lambda>x. x\<lparr>dep_refunded := dep_refunded d + deposit_held d, dep_status := REFUNDED,
             dep_refunded_at := Some (now e)\<rparr>)) (\<lambda>_.
       bnd (pay_out e d (deposit_held d) (dep_refunded d + deposit_held d) actor) (\<lambda>_.
       ret (deposit_held d))))"

record refund_input =
  rf_amount :: "money option"
  rf_forfeit :: bool
  rf_note :: "string option"

text \<open>The amounts and the status after taking \<open>x\<close> out of the deposit \<open>d\<close>.\<close>

definition released :: "svc_env \<Rightarrow> deposit \<Rightarrow> bool \<Rightarrow> money \<Rightarrow> deposit \<Rightarrow> deposit" where
  "released e d forfeit x row =
     (let refunded = dep_refunded d + (if forfeit then 0 else x);
          forfeited = dep_forfeited d + (if forfeit then x else 0);
          remaining = dep_amount d - refunded - forfeited
      in row\<lparr>dep_refunded := refunded, dep_forfeited := forfeited,
             dep_status := (if remaining \<le> 1 / 200
               then (if forfeited > 0 \<and> refunded \<le> 1 / 200 then FORFEITED else REFUNDED)
               else PARTIALLY_REFUNDED),
             dep_refunded_at := (if remaining \<le> 1 / 200 then Some (now e) else dep_refunded_at d)\<rparr>)"

definition forfeit_entries :: "svc_env \<Rightarrow> deposit \<Rightarrow> money \<Rightarrow> string \<Rightarrow> unit svc" where
  "forfeit_entries e d x actor =
     bnd (record_entry e (deposit_entry e d DEPOSIT_FUND ADJUSTMENT (- x)
            (''forfeit:liability:'' @ num_text e (dep_forfeited d + x))
            (''Forfeited '' @ em_dash @ '' '' @ deposit_label (dep_type d)) (Some actor))) (\<lambda>_.
     bnd (record_entry e (deposit_entry e d GENERAL ADJUSTMENT x
            (''forfeit:income:'' @ num_text e (dep_forfeited d + x))
            (''Forfeited deposit income '' @ em_dash @ '' '' @ deposit_label (dep_type d)) (Some actor))) (\<lambda>_.
     ret ()))"

definition refund_tx :: "svc_env \<Rightarrow> auth_user \<Rightarrow> deposit \<Rightarrow> money \<Rightarrow> refund_input \<Rightarrow> unit svc" where
  "refund_tx e u d x y =
     bnd (update_deposit (dep_id d) (released e d (rf_forfeit y) x)) (\<lambda>_.
     bnd (if rf_forfeit y then forfeit_entries e d x (user_id u)
          else pay_out e d x (dep_refunded d + x) (Some (user_id u))) (\<lambda>_.
     log_deposit d (user_id u) AUDIT_UPDATE
       [''refund'' \<mapsto> JBool (\<not> rf_forfeit y), ''forfeit'' \<mapsto> JBool (rf_forfeit y), ''amount'' \<mapsto> JNum x,
        ''note'' \<mapsto> (case rf_note y of None \<Rightarrow> JNull | Some t \<Rightarrow> JStr t)]))"

text \<open>The deposit is read before the transaction begins.\<close>

definition refund_deposit :: "svc_env \<Rightarrow> auth_user \<Rightarrow> string \<Rightarrow> refund_input \<Rightarrow> deposit svc" where
  "refund_deposit e u i y =
     bnd (gets (find_deposit i)) (\<lambda>found.
     bnd (need found (NotFound ''Deposit not found'')) (\<lambda>d.
     bnd (assert_deposit_management u (dep_condo d)) (\<lambda>_.
     bnd (ensure (\<not> deposit_held d \<le> 0) (BadRequest ''Nothing left to refund on this deposit'')) (\<lambda>_.
     let x = (case rf_amount y of None \<Rightarrow> deposit_held d | Some a \<Rightarrow> a) in
     bnd (ensure (\<not> x \<le> 0) (BadRequest ''Refund amount must be greater than zero'')) (\<lambda>_.
     bnd (ensure (\<not> x > deposit_held d + 1 / 200) (BadRequest ''Refund exceeds the held balance'')) (\<lambda>_.
     bnd (txn (refund_tx e u d x y)) (\<lambda>_.
     bnd (emit (DepositRefunded i x (rf_forfeit y))) (\<lambda>_.
     get_deposit u i))))))))"

end
