(* ===== verification/Gateways.thy ===== *)
theory Gateways
  imports Receipts
begin

text \<open>
  The payment gateways a condo has connected (billing/gateway-connection.service.ts) and the way
  a payment is found again from what a gateway reports (\<open>findPaymentByProviderRef\<close> of
  billing.service.ts). Encryption is Node's crypto: an encrypted secret is a text that is there
  or not, and the caller passes the encryption of new credentials.
\<close>

fun provider_text :: "payment_provider \<Rightarrow> string" where
  "provider_text STRIPE = ''STRIPE''"
| "provider_text FPX = ''FPX''"
| "provider_text IPAY88 = ''IPAY88''"
| "provider_text RAZER = ''RAZER''"
| "provider_text DUITNOW_QR = ''DUITNOW_QR''"
| "provider_text TNG = ''TNG''"
| "provider_text MANUAL = ''MANUAL''"

definition connectable :: "payment_provider list" where
  "connectable = [STRIPE, RAZER, IPAY88, DUITNOW_QR, TNG]"

fun gateway_label :: "payment_provider \<Rightarrow> string" where
  "gateway_label STRIPE = ''Stripe (card)''"
| "gateway_label RAZER = ''Fiuu (FPX / e-wallet / card)''"
| "gateway_label IPAY88 = ''iPay88 (FPX / e-wallet / card)''"
| "gateway_label DUITNOW_QR = ''DuitNow QR''"
| "gateway_label TNG = ''Touch '' @ [char_of (39 :: nat)] @ ''n Go eWallet''"
| "gateway_label FPX = ''FPX''"
| "gateway_label MANUAL = ''Manual / offline''"

section \<open>Connections\<close>

record gateway_input =
  gi_provider :: payment_provider
  gi_mode :: gateway_mode
  gi_enabled :: "bool option"
  gi_name :: "string option"
  gi_public :: "meta option"
  gi_secret :: "string option"

definition is_conn :: "string \<Rightarrow> payment_provider \<Rightarrow> gateway_mode \<Rightarrow> connection \<Rightarrow> bool" where
  "is_conn condo p m c \<longleftrightarrow> gc_condo c = condo \<and> gc_provider c = p \<and> gc_mode c = m"

definition apply_input :: "gateway_input \<Rightarrow> connection \<Rightarrow> connection" where
  "apply_input x c =
     c\<lparr>gc_enabled := (case gi_enabled x of None \<Rightarrow> gc_enabled c | Some b \<Rightarrow> b),
       gc_name := (case gi_name x of Some n \<Rightarrow> Some n
                   | None \<Rightarrow> (case gc_name c of Some n \<Rightarrow> Some n
                             | None \<Rightarrow> Some (gateway_label (gi_provider x)))),
       gc_public := (case gi_public x of None \<Rightarrow> gc_public c | Some m \<Rightarrow> m),
       gc_secret := (case gi_secret x of None \<Rightarrow> gc_secret c | Some t \<Rightarrow> Some t)\<rparr>"

definition upsert_connection :: "string \<Rightarrow> gateway_input \<Rightarrow> string \<Rightarrow> unit svc" where
  "upsert_connection condo x actor =
     bnd (ensure (gi_provider x \<in> set connectable)
           (BadRequest (''Provider '' @ provider_text (gi_provider x) @ '' cannot be self-connected''))) (\<lambda>_.
     bnd (gets (\<lambda>s. find (is_conn condo (gi_provider x) (gi_mode x)) (connections s))) (\<lambda>found.
     case found of
       Some c \<Rightarrow> modify (\<lambda>s. s\<lparr>connections :=
         set_where (is_conn condo (gi_provider x) (gi_mode x))
           (\<lambda>c. (apply_input x c)\<lparr>gc_by := (case gc_by c of None \<Rightarrow> Some actor | Some u \<Rightarrow> Some u)\<rparr>)
           (connections s)\<rparr>)
     | None \<Rightarrow> bnd new_id (\<lambda>i. modify (\<lambda>s. s\<lparr>connections := connections s @
         [apply_input x \<lparr>gc_id = i, gc_condo = condo, gc_provider = gi_provider x,
            gc_mode = gi_mode x, gc_enabled = False, gc_name = None, gc_public = Map.empty,
            gc_secret = None, gc_by = Some actor\<rparr>]\<rparr>))))"

definition set_enabled :: "string \<Rightarrow> string \<Rightarrow> bool \<Rightarrow> unit svc" where
  "set_enabled condo i enabled =
     bnd (gets (\<lambda>s. find (\<lambda>c. gc_id c = i \<and> gc_condo c = condo) (connections s))) (\<lambda>found.
     bnd (need found (NotFound ''Gateway connection not found'')) (\<lambda>c.
     bnd (ensure (\<not> (enabled \<and> gc_secret c = None))
           (BadRequest ''Add credentials before enabling this gateway'')) (\<lambda>_.
     bnd (only_if enabled (modify (\<lambda>s. s\<lparr>connections :=
           set_where (\<lambda>d. gc_condo d = condo \<and> gc_provider d = gc_provider c \<and> gc_id d \<noteq> i)
             (\<lambda>d. d\<lparr>gc_enabled := False\<rparr>) (connections s)\<rparr>))) (\<lambda>_.
     modify (\<lambda>s. s\<lparr>connections := set_row gc_id i (\<lambda>d. d\<lparr>gc_enabled := enabled\<rparr>) (connections s)\<rparr>)))))"

definition remove_connection :: "string \<Rightarrow> string \<Rightarrow> unit svc" where
  "remove_connection condo i =
     bnd (gets (\<lambda>s. find (\<lambda>c. gc_id c = i \<and> gc_condo c = condo) (connections s))) (\<lambda>found.
     bnd (need found (NotFound ''Gateway connection not found'')) (\<lambda>_.
     modify (\<lambda>s. s\<lparr>connections := filter (\<lambda>c. gc_id c \<noteq> i) (connections s)\<rparr>)))"

definition usable :: "string \<Rightarrow> connection \<Rightarrow> bool" where
  "usable condo c \<longleftrightarrow> gc_condo c = condo \<and> gc_enabled c \<and> gc_secret c \<noteq> None"

definition payable_methods ::
  "string \<Rightarrow> bdb \<Rightarrow> (payment_provider \<times> gateway_mode \<times> string) list" where
  "payable_methods condo s =
     map (\<lambda>c. (gc_provider c, gc_mode c,
           case gc_name c of None \<Rightarrow> gateway_label (gc_provider c) | Some n \<Rightarrow> n))
       (filter (usable condo) (connections s))"

text \<open>\<open>orderBy: { mode: 'asc' }\<close>: the order in which the enumeration declares its values.\<close>

fun mode_rank :: "gateway_mode \<Rightarrow> nat" where
  "mode_rank TEST = 0"
| "mode_rank LIVE = 1"

definition resolve_credentials :: "string \<Rightarrow> payment_provider \<Rightarrow> bdb \<Rightarrow> connection option" where
  "resolve_credentials condo p s =
     (case sort_key (\<lambda>c. mode_rank (gc_mode c))
             (filter (\<lambda>c. usable condo c \<and> gc_provider c = p) (connections s)) of
        [] \<Rightarrow> None | c # _ \<Rightarrow> Some c)"

section \<open>Finding a payment again\<close>

definition hex_digit :: "char \<Rightarrow> bool" where
  "hex_digit c = (let n = (of_char c :: nat) in
     (48 \<le> n \<and> n \<le> 57) \<or> (65 \<le> n \<and> n \<le> 70) \<or> (97 \<le> n \<and> n \<le> 102))"

text \<open>\<open>/^[a-f0-9]{n}$/i\<close>.\<close>

definition hex_of_length :: "nat \<Rightarrow> string \<Rightarrow> bool" where
  "hex_of_length n t \<longleftrightarrow> length t = n \<and> list_all hex_digit t"

text \<open>\<open>duitnowBillRef\<close>.\<close>

definition bill_ref :: "string \<Rightarrow> string" where
  "bill_ref payment_id = take 30 (filter (\<lambda>c. c \<noteq> CHR ''-'') payment_id)"

definition uuid_of_hex :: "string \<Rightarrow> string" where
  "uuid_of_hex r =
     take 8 r @ ''-'' @ take 4 (drop 8 r) @ ''-'' @ take 4 (drop 12 r) @ ''-'' @
     take 4 (drop 16 r) @ ''-'' @ drop 20 r"

text \<open>
  The search of both kinds of payment: by reference, by bill reference among the thirty latest
  pending DuitNow rows, and by the id that the hexadecimal reference spells.
\<close>

definition find_by_ref ::
  "('p \<Rightarrow> string) \<Rightarrow> ('p \<Rightarrow> string option) \<Rightarrow> ('p \<Rightarrow> payment_provider) \<Rightarrow> ('p \<Rightarrow> payment_status) \<Rightarrow>
   ('p \<Rightarrow> int) \<Rightarrow> string \<Rightarrow> 'p list \<Rightarrow> 'p option" where
  "find_by_ref pid pref prov st created r ps =
     (case find (\<lambda>p. pref p = Some r) ps of Some p \<Rightarrow> Some p
      | None \<Rightarrow>
        (case (if hex_of_length 30 r
               then find (\<lambda>p. bill_ref (pid p) = r)
                 (take 30 (sort_key (\<lambda>p. - created p)
                   (filter (\<lambda>p. prov p = DUITNOW_QR \<and> st p = PENDING) ps)))
               else None) of
           Some p \<Rightarrow> Some p
         | None \<Rightarrow>
           if hex_of_length 32 r
           then find (\<lambda>p. pref p = Some (uuid_of_hex r) \<or> pid p = uuid_of_hex r) ps
           else None))"

definition find_payment_by_ref :: "string \<Rightarrow> bdb \<Rightarrow> payment option" where
  "find_payment_by_ref r s =
     find_by_ref pay_id pay_ref pay_provider pay_status pay_created r (payments s)"

definition find_advance_by_ref :: "string \<Rightarrow> bdb \<Rightarrow> advance option" where
  "find_advance_by_ref r s =
     find_by_ref adv_id adv_ref adv_provider adv_status adv_created r (advances s)"

lemma find_Some_mem: "find P xs = Some x \<Longrightarrow> x \<in> set xs"
  by (auto simp: find_Some_iff)

lemma find_by_ref_mem: "find_by_ref pid pref prov st cr r ps = Some p \<Longrightarrow> p \<in> set ps"
  unfolding find_by_ref_def
  by (auto split: option.splits if_splits dest!: find_Some_mem in_set_takeD)

lemma find_payment_mem: "find_payment_by_ref r s = Some p \<Longrightarrow> p \<in> set (payments s)"
  unfolding find_payment_by_ref_def by (rule find_by_ref_mem)

lemma find_advance_mem: "find_advance_by_ref r s = Some p \<Longrightarrow> p \<in> set (advances s)"
  unfolding find_advance_by_ref_def by (rule find_by_ref_mem)

section \<open>One enabled connection\<close>

text \<open>The connections of a condo's provider that are enabled.\<close>

definition enabled_ids :: "string \<Rightarrow> payment_provider \<Rightarrow> bdb \<Rightarrow> string set" where
  "enabled_ids condo p s =
     gc_id ` set (filter (\<lambda>c. gc_condo c = condo \<and> gc_provider c = p \<and> gc_enabled c) (connections s))"

definition after_enable :: "string \<Rightarrow> payment_provider \<Rightarrow> string \<Rightarrow> connection \<Rightarrow> connection" where
  "after_enable condo p i d =
     (let d' = (if gc_condo d = condo \<and> gc_provider d = p \<and> gc_id d \<noteq> i
                then d\<lparr>gc_enabled := False\<rparr> else d)
      in if gc_id d' = i then d'\<lparr>gc_enabled := True\<rparr> else d')"

lemma after_enable_simps [simp]:
  "gc_id (after_enable condo p i d) = gc_id d"
  "gc_condo (after_enable condo p i d) = gc_condo d"
  "gc_provider (after_enable condo p i d) = gc_provider d"
  "gc_condo d = condo \<Longrightarrow> gc_provider d = p \<Longrightarrow>
     gc_enabled (after_enable condo p i d) = (gc_id d = i)"
  by (simp_all add: after_enable_def Let_def)

lemma set_enabled_connections:
  assumes "set_enabled condo i True s = (Inr u, t)"
  shows "\<exists>c. find (\<lambda>c. gc_id c = i \<and> gc_condo c = condo) (connections s) = Some c \<and>
    gc_secret c \<noteq> None \<and> connections t = map (after_enable condo (gc_provider c) i) (connections s)"
proof (cases "find (\<lambda>c. gc_id c = i \<and> gc_condo c = condo) (connections s)")
  case None
  with assms show ?thesis by (simp add: set_enabled_def bnd_def gets_def need_def throw_def)
next
  case (Some c)
  with assms have "gc_secret c \<noteq> None"
    by (cases "gc_secret c") (simp_all add: set_enabled_def bnd_def gets_def need_def ret_def ensure_def throw_def)
  with assms Some show ?thesis
    by (auto simp: set_enabled_def bnd_def gets_def need_def ret_def ensure_def only_if_def modify_def
        set_row_def set_where_def after_enable_def)
qed

lemma set_enabled_run:
  assumes run: "set_enabled condo i True s = (Inr u, t)" and dist: "distinct (map gc_id (connections s))"
  shows "\<exists>c \<in> set (connections s). gc_id c = i \<and> gc_condo c = condo \<and> gc_secret c \<noteq> None \<and>
    enabled_ids condo (gc_provider c) t = {i}"
proof -
  from set_enabled_connections [OF run] obtain c
    where f: "find (\<lambda>c. gc_id c = i \<and> gc_condo c = condo) (connections s) = Some c"
      and sec: "gc_secret c \<noteq> None"
      and t: "connections t = map (after_enable condo (gc_provider c) i) (connections s)"
    by blast
  from f have c: "c \<in> set (connections s)" "gc_id c = i" "gc_condo c = condo"
    by (auto simp: find_Some_iff)
  have "enabled_ids condo (gc_provider c) t = {i}"
  proof
    show "enabled_ids condo (gc_provider c) t \<subseteq> {i}" by (auto simp: enabled_ids_def t)
    have "after_enable condo (gc_provider c) i c \<in> set (connections t)" using c by (simp add: t)
    then show "{i} \<subseteq> enabled_ids condo (gc_provider c) t"
      using c by (auto simp: enabled_ids_def intro!: image_eqI [of _ _ "after_enable condo (gc_provider c) i c"])
  qed
  with c sec show ?thesis by blast
qed

end
