(* ===== verification/Fee_Schedule.thy ===== *)
theory Fee_Schedule
  imports Ledger
begin

text \<open>
  Fee schedules (apps/api/src/billing/fee-schedule.service.ts and \<open>computeFeeAmount\<close>,
  \<open>resolveFeeScheduleExtraLineFund\<close> of packages/shared-types/src/billing.ts): the monthly lines
  of a unit from its unit type's rates, and the condo's extra lines of a billing period.
\<close>

section \<open>Amounts\<close>

text \<open>\<open>computeFeeAmount\<close>; a missing area counts as 0.\<close>

definition compute_fee_amount :: "fee_rate_type \<Rightarrow> money \<Rightarrow> rat option \<Rightarrow> money" where
  "compute_fee_amount ty amount sqft =
     round2 (if ty = PER_SQFT then amount * (case sqft of None \<Rightarrow> 0 | Some q \<Rightarrow> q) else amount)"

record fee_line =
  fl_code :: string
  fl_desc :: string
  fl_formula :: "string option"
  fl_price :: money
  fl_qty :: rat
  fl_fund :: "ledger_fund option"

text \<open>The multiplication sign of the formula text, in UTF-8.\<close>

definition times_sign :: string where
  "times_sign = [char_of (195 :: nat), char_of (151 :: nat)]"

definition sqft_formula :: "svc_env \<Rightarrow> money \<Rightarrow> rat \<Rightarrow> string" where
  "sqft_formula e amount sqft =
     num_text e amount @ ''/sqft '' @ times_sign @ '' '' @ num_text e sqft @ '' sqft''"

definition unit_sqft :: "unit_row \<Rightarrow> rat" where
  "unit_sqft u = (case un_sqft u of None \<Rightarrow> 0 | Some q \<Rightarrow> q)"

text \<open>\<open>unit.unitType\<close>.\<close>

definition type_of_unit :: "bdb \<Rightarrow> unit_row \<Rightarrow> unit_type_row option" where
  "type_of_unit s u = (case un_type u of None \<Rightarrow> None | Some i \<Rightarrow> find_row ut_id i (unit_types s))"

text \<open>\<open>computeLinesForUnit\<close>.\<close>

definition compute_lines_for_unit :: "svc_env \<Rightarrow> bdb \<Rightarrow> unit_row \<Rightarrow> fee_line list" where
  "compute_lines_for_unit e s u =
     (case Option.bind (type_of_unit s u) ut_rate of
        None \<Rightarrow> []
      | Some rate \<Rightarrow>
        let sqft = unit_sqft u;
            maint = compute_fee_amount (fr_maint_type rate) (fr_maint rate) (Some sqft);
            sinking = compute_fee_amount (fr_sink_type rate) (fr_sink rate) (Some sqft)
        in (if maint > 0 then
              [\<lparr>fl_code = ''MAINT'', fl_desc = ''Monthly maintenance fee'',
                fl_formula = (if fr_maint_type rate = PER_SQFT
                              then Some (sqft_formula e (fr_maint rate) sqft) else None),
                fl_price = maint, fl_qty = 1, fl_fund = Some MAINTENANCE\<rparr>] else []) @
           (if sinking > 0 then
              [\<lparr>fl_code = ''SINKING'', fl_desc = ''Sinking fund contribution'',
                fl_formula = (if fr_sink_type rate = PER_SQFT
                              then Some (sqft_formula e (fr_sink rate) sqft) else None),
                fl_price = sinking, fl_qty = 1, fl_fund = Some SINKING_FUND\<rparr>] else []))"

text \<open>\<open>computeExtraAmount\<close>.\<close>

definition compute_extra_amount :: "extra_line \<Rightarrow> rat \<Rightarrow> string option \<Rightarrow> money" where
  "compute_extra_amount x sqft type_id =
     (if xl_rate_type x = PER_UNIT_TYPE then
        (case type_id of
           None \<Rightarrow> 0
         | Some i \<Rightarrow> round2 (case map_of (xl_type_amounts x) i of None \<Rightarrow> 0 | Some a \<Rightarrow> a))
      else compute_fee_amount (xl_rate_type x) (xl_amount x) (Some sqft))"

text \<open>\<open>extraFormula\<close>.\<close>

definition extra_formula :: "svc_env \<Rightarrow> extra_line \<Rightarrow> rat \<Rightarrow> string option \<Rightarrow> string option" where
  "extra_formula e x sqft type_name =
     (if truthy (map_option trim (xl_formula x)) then map_option trim (xl_formula x)
      else if xl_rate_type x = PER_SQFT then Some (sqft_formula e (xl_amount x) sqft)
      else if xl_rate_type x = PER_UNIT_TYPE then
        Some (if truthy type_name then ''Configured rate for '' @ the type_name
              else ''Configured unit type rate'')
      else None)"

text \<open>\<open>computeExtraLinesForUnit\<close>.\<close>

definition compute_extra_lines_for_unit ::
  "svc_env \<Rightarrow> bdb \<Rightarrow> unit_row \<Rightarrow> extra_line list \<Rightarrow> fee_line list" where
  "compute_extra_lines_for_unit e s u xs =
     (let sqft = unit_sqft u in
      map (\<lambda>x. \<lparr>fl_code = xl_code x, fl_desc = xl_desc x,
                fl_formula = extra_formula e x sqft (map_option ut_name (type_of_unit s u)),
                fl_price = compute_extra_amount x sqft (un_type u), fl_qty = 1,
                fl_fund = Some (xl_fund x)\<rparr>)
        (filter (\<lambda>x. \<not> compute_extra_amount x sqft (un_type u) \<le> 0) xs))"

text \<open>\<open>listActiveExtraLinesForPeriod\<close>: enabled lines whose window meets the period.\<close>

definition active_in_period :: "int \<Rightarrow> int \<Rightarrow> extra_line \<Rightarrow> bool" where
  "active_in_period p_start p_end x \<longleftrightarrow>
     xl_enabled x \<and>
     ((xl_recurring x \<and>
       (case xl_from x of None \<Rightarrow> True | Some t \<Rightarrow> t \<le> p_end) \<and>
       (case xl_to x of None \<Rightarrow> True | Some t \<Rightarrow> t \<ge> p_start)) \<or>
      (\<not> xl_recurring x \<and>
       (case xl_from x of None \<Rightarrow> False | Some t \<Rightarrow> t \<le> p_end) \<and>
       (case xl_to x of None \<Rightarrow> False | Some t \<Rightarrow> t \<ge> p_start)))"

definition list_active_extra_lines :: "string \<Rightarrow> int \<Rightarrow> int \<Rightarrow> bdb \<Rightarrow> extra_line list" where
  "list_active_extra_lines condo p_start p_end s =
     sort_key xl_sort (filter (\<lambda>x. xl_condo x = condo \<and> active_in_period p_start p_end x)
       (extra_lines s))"

section \<open>Rates and funds\<close>

text \<open>\<open>upsert\<close> and \<open>remove\<close> of a unit type's rate.\<close>

definition upsert_rate :: "string \<Rightarrow> string \<Rightarrow> fee_rate \<Rightarrow> unit svc" where
  "upsert_rate condo type_id rate =
     bnd (gets (\<lambda>s. find (\<lambda>t. ut_id t = type_id \<and> ut_condo t = condo) (unit_types s))) (\<lambda>found.
     bnd (need found (NotFound ''Unit type not found in this condo'')) (\<lambda>_.
     modify (\<lambda>s. s\<lparr>unit_types := set_row ut_id type_id (\<lambda>t. t\<lparr>ut_rate := Some rate\<rparr>) (unit_types s)\<rparr>)))"

definition remove_rate :: "string \<Rightarrow> string \<Rightarrow> unit svc" where
  "remove_rate condo type_id =
     bnd (gets (\<lambda>s. find (\<lambda>t. ut_id t = type_id \<and> ut_condo t = condo \<and> ut_rate t \<noteq> None)
       (unit_types s))) (\<lambda>found.
     bnd (need found (NotFound ''Fee rate not found'')) (\<lambda>_.
     modify (\<lambda>s. s\<lparr>unit_types := set_row ut_id type_id (\<lambda>t. t\<lparr>ut_rate := None\<rparr>) (unit_types s)\<rparr>)))"

definition category_fund :: "string \<rightharpoonup> ledger_fund" where
  "category_fund = map_of
    [(''FIRE_INSURANCE'', SINKING_FUND), (''QUIT_RENT'', MAINTENANCE), (''ASSESSMENT'', MAINTENANCE),
     (''SPECIAL_LEVY'', SINKING_FUND), (''SECURITY'', MAINTENANCE), (''FACILITY_CHARGE'', MAINTENANCE),
     (''LATE_PENALTY'', MAINTENANCE), (''OTHER'', MAINTENANCE)]"

text \<open>\<open>resolveFeeScheduleExtraLineFund\<close>; its \<open>Error\<close> messages are the left values.\<close>

definition resolve_extra_line_fund ::
  "string option \<Rightarrow> string option \<Rightarrow> string + ledger_fund" where
  "resolve_extra_line_fund fund category =
     (if truthy fund then
        (if the fund = ''GENERAL'' then
           Inl ''General fund is not allowed for fee schedule extra lines.''
         else case map_of [(''MAINTENANCE'', MAINTENANCE), (''SINKING_FUND'', SINKING_FUND),
                           (''DEPOSIT'', DEPOSIT_FUND)] (the fund) of
             None \<Rightarrow> Inl ''Select a fund for this fee line.''
           | Some f \<Rightarrow> Inr f)
      else
        let c = map_option (\<lambda>c. to_upper (trim c)) category in
        if truthy c then
          (case category_fund (the c) of
             None \<Rightarrow> Inl ''Select a fund for this fee line.''
           | Some f \<Rightarrow> Inr f)
        else Inl ''Select a fund for this fee line.'')"

section \<open>Properties of the lines\<close>

lemma compute_fee_sen [simp]: "whole_sen (compute_fee_amount ty a q)"
  by (simp add: compute_fee_amount_def)

lemma fee_lines_ok:
  "l \<in> set (compute_lines_for_unit e s u) \<Longrightarrow>
   fl_price l > 0 \<and> whole_sen (fl_price l) \<and> fl_qty l = 1 \<and> fl_fund l = Some (fund_of_code (fl_code l))"
  by (auto simp: compute_lines_for_unit_def Let_def fund_of_code_def to_upper_def upper_char_def
      starts_with_def split: option.splits if_splits)

lemma compute_extra_sen [simp]: "whole_sen (compute_extra_amount x q i)"
  by (simp add: compute_extra_amount_def split: option.split)

lemma extra_lines_ok:
  "l \<in> set (compute_extra_lines_for_unit e s u xs) \<Longrightarrow>
   fl_price l > 0 \<and> whole_sen (fl_price l) \<and> fl_qty l = 1"
  by (auto simp: compute_extra_lines_for_unit_def Let_def not_le)

lemma resolved_fund_not_general:
  "resolve_extra_line_fund f c = Inr fund \<Longrightarrow> fund \<noteq> GENERAL"
  by (auto simp: resolve_extra_line_fund_def Let_def category_fund_def
      split: if_splits option.splits)

end
