(* ===== verification/Billing.thy ===== *)
theory Billing
  imports Gateways Fee_Schedule
begin

text \<open>
  The billing service (apps/api/src/billing/billing.service.ts): issuing and voiding invoices,
  payments through gateways and by hand, settlement, prepayment credit, recurring invoices and
  the due sweep. Each method is one definition; the bodies that it runs in a transaction are
  definitions of their own with the suffix \<open>_tx\<close>.

  The gateway adapters (providers/*.adapter.ts) call the gateways over the network and check
  signatures with Node's crypto; \<open>gateway\<close> holds what they answer. All calls of \<open>new Date()\<close> in a
  method give the same time.
\<close>

record gateway =
  gw_intent :: "payment_provider \<Rightarrow> connection \<Rightarrow> string \<Rightarrow> money \<Rightarrow> http_error + string"
  gw_verify :: "payment_provider \<Rightarrow> connection option \<Rightarrow> json \<Rightarrow> (string \<times> bool \<times> json) option"
  gw_poll :: "connection option \<Rightarrow> string \<Rightarrow> (bool \<times> bool \<times> bool) option"
  json_text :: "json \<Rightarrow> string"
  json_number :: "json \<Rightarrow> rat option"
  iso_text :: "int \<Rightarrow> string"
  unsigned_sandbox :: bool

text \<open>Every provider but MANUAL has an adapter.\<close>

definition has_adapter :: "payment_provider \<Rightarrow> bool" where
  "has_adapter p = (p \<noteq> MANUAL)"

text \<open>\<open>try { m } catch (err) { h(err) }\<close>.\<close>

definition catch_err :: "('s, 'a) act \<Rightarrow> (http_error \<Rightarrow> ('s, 'a) act) \<Rightarrow> ('s, 'a) act" where
  "catch_err m h = (\<lambda>s. case m s of (Inl e, s') \<Rightarrow> h e s' | (Inr x, s') \<Rightarrow> (Inr x, s'))"

section \<open>Table writes\<close>

text \<open>
  \<open>invoice.create\<close>, refused by the unique indexes: a number once per condo, and one invoice that is
  not void per unit and period start.
\<close>

definition insert_invoice :: "invoice \<Rightarrow> unit svc" where
  "insert_invoice i =
     bnd (gets invoices) (\<lambda>is.
     bnd (ensure (\<forall>x \<in> set is. \<not> (inv_condo x = inv_condo i \<and> inv_number x = inv_number i))
           (UniqueViolation ''invoices_condoId_number_key'')) (\<lambda>_.
     bnd (ensure (\<forall>x \<in> set is. \<not> (inv_unit x = inv_unit i \<and>
             inv_period_start x = inv_period_start i \<and> inv_status x \<noteq> VOIDED \<and> inv_status i \<noteq> VOIDED))
           (UniqueViolation ''invoices_unitId_periodStart_active_key'')) (\<lambda>_.
     modify (\<lambda>s. s\<lparr>invoices := invoices s @ [i]\<rparr>))))"

text \<open>\<open>invoice.update\<close>, which the index on active periods can refuse too.\<close>

definition same_period :: "invoice \<Rightarrow> invoice \<Rightarrow> bool" where
  "same_period x y \<longleftrightarrow> inv_unit x = inv_unit y \<and> inv_period_start x = inv_period_start y"

definition update_invoice :: "string \<Rightarrow> (invoice \<Rightarrow> invoice) \<Rightarrow> unit svc" where
  "update_invoice i f =
     bnd (gets invoices) (\<lambda>is.
     bnd (ensure (\<forall>x \<in> set is. \<forall>y \<in> set is.
             \<not> (inv_id x = i \<and> inv_id y \<noteq> i \<and> inv_status (f x) \<noteq> VOIDED \<and> inv_status y \<noteq> VOIDED \<and>
                same_period x y))
           (UniqueViolation ''invoices_unitId_periodStart_active_key'')) (\<lambda>_.
     modify (\<lambda>s. s\<lparr>invoices := set_row inv_id i f (invoices s)\<rparr>)))"

definition insert_payment :: "payment \<Rightarrow> unit svc" where
  "insert_payment p = modify (\<lambda>s. s\<lparr>payments := payments s @ [p]\<rparr>)"

text \<open>\<open>payment.updateMany\<close>: the number of rows it changed.\<close>

definition update_payments :: "(payment \<Rightarrow> bool) \<Rightarrow> (payment \<Rightarrow> payment) \<Rightarrow> nat svc" where
  "update_payments c f =
     bnd (gets (\<lambda>s. count_where c (payments s))) (\<lambda>n.
     bnd (modify (\<lambda>s. s\<lparr>payments := set_where c f (payments s)\<rparr>)) (\<lambda>_. ret n))"

definition update_advances :: "(advance \<Rightarrow> bool) \<Rightarrow> (advance \<Rightarrow> advance) \<Rightarrow> nat svc" where
  "update_advances c f =
     bnd (gets (\<lambda>s. count_where c (advances s))) (\<lambda>n.
     bnd (modify (\<lambda>s. s\<lparr>advances := set_where c f (advances s)\<rparr>)) (\<lambda>_. ret n))"

section \<open>Reading\<close>

definition find_invoice :: "string \<Rightarrow> bdb \<Rightarrow> invoice option" where
  "find_invoice i s = find_row inv_id i (invoices s)"

definition find_payment :: "string \<Rightarrow> bdb \<Rightarrow> payment option" where
  "find_payment i s = find_row pay_id i (payments s)"

definition get_invoice :: "string \<Rightarrow> auth_user option \<Rightarrow> invoice svc" where
  "get_invoice i actor =
     bnd (gets (find_invoice i)) (\<lambda>found.
     bnd (need found (NotFound ''Invoice not found'')) (\<lambda>iv.
     bnd (case actor of None \<Rightarrow> ret ()
          | Some u \<Rightarrow> ensure (can_read_unit_money u (inv_condo iv) (inv_unit iv))
              (Forbidden ''You cannot access this invoice'')) (\<lambda>_.
     ret iv)))"

definition outstanding :: "invoice \<Rightarrow> money" where
  "outstanding iv = inv_total iv - inv_paid iv"

section \<open>Settlement\<close>

definition settle_status :: "money \<Rightarrow> invoice \<Rightarrow> invoice_status" where
  "settle_status paid iv =
     (if paid \<ge> inv_total iv then PAID else if paid > 0 then PARTIAL else inv_status iv)"

definition settled :: "svc_env \<Rightarrow> money \<Rightarrow> invoice \<Rightarrow> invoice" where
  "settled e paid iv =
     iv\<lparr>inv_paid := paid, inv_status := settle_status paid iv,
        inv_paid_at := (if paid \<ge> inv_total iv then Some (now e) else None)\<rparr>"

definition paid_sum :: "string \<Rightarrow> payment list \<Rightarrow> money" where
  "paid_sum i ps = sum_where (\<lambda>p. pay_invoice p = i \<and> pay_status p = SUCCEEDED) pay_amount ps"

definition pay_audit ::
  "string \<Rightarrow> string option \<Rightarrow> string option \<Rightarrow> string \<Rightarrow> string \<Rightarrow> meta \<Rightarrow> audit_row" where
  "pay_audit condo unit actor resource i m =
     \<lparr>au_condo = condo, au_unit = unit, au_actor = actor, au_action = AUDIT_PAYMENT,
      au_resource = resource, au_resource_id = i, au_meta = m\<rparr>"

text \<open>What settling records: the audit row, the payment's ledger entries and its receipt.\<close>

definition record_settlement ::
  "svc_env \<Rightarrow> invoice \<Rightarrow> string option \<Rightarrow> string \<Rightarrow> string \<Rightarrow> unit svc" where
  "record_settlement e iv actor payment_id provider_ref =
     bnd (log_audit (pay_audit (inv_condo iv) (Some (inv_unit iv)) actor ''Payment'' payment_id
           [''providerRef'' \<mapsto> JStr provider_ref])) (\<lambda>_.
     bnd (gets (find_payment payment_id)) (\<lambda>p.
     case p of None \<Rightarrow> ret ()
     | Some p \<Rightarrow>
       bnd (record_payment_allocation e (inv_id iv) payment_id (pay_amount p)
             (Some (case pay_paid_at p of None \<Rightarrow> now e | Some d \<Rightarrow> d)) actor) (\<lambda>_.
       only_if (pay_meta p ''method'' \<noteq> Some (JStr ''PREPAYMENT_APPLIED''))
         (bnd (issue_receipt e
            \<lparr>ri_condo = inv_condo iv, ri_kind = PAYMENT_RECEIPT, ri_amount = pay_amount p,
             ri_currency = Some (inv_currency iv), ri_to = pay_user p,
             ri_unit = Some (inv_unit iv), ri_payment = Some (pay_id p), ri_deposit = None,
             ri_desc = Some (''Payment for invoice '' @ inv_number iv)\<rparr>) (\<lambda>_. ret ())))))"

definition settle_invoice ::
  "svc_env \<Rightarrow> string \<Rightarrow> string option \<Rightarrow> string \<Rightarrow> string \<Rightarrow> bool option svc" where
  "settle_invoice e invoice_id actor payment_id provider_ref =
     bnd (gets (\<lambda>s. paid_sum invoice_id (payments s))) (\<lambda>paid.
     bnd (gets (find_invoice invoice_id)) (\<lambda>found.
     case found of None \<Rightarrow> ret None
     | Some iv \<Rightarrow>
       bnd (update_invoice invoice_id (settled e paid)) (\<lambda>_.
       bnd (record_settlement e iv actor payment_id provider_ref) (\<lambda>_.
       ret (Some (paid \<ge> inv_total iv))))))"

definition emit_paid :: "string \<Rightarrow> bool option \<Rightarrow> unit svc" where
  "emit_paid i settlement = only_if (settlement = Some True) (emit (InvoicePaid i))"

section \<open>Prepayment credit\<close>

text \<open>The transaction of \<open>applyCreditToInvoice\<close>.\<close>

definition apply_credit_tx :: "svc_env \<Rightarrow> string \<Rightarrow> string \<Rightarrow> string \<Rightarrow> bool option svc" where
  "apply_credit_tx e invoice_id unit condo =
     bnd (gets (credit_of unit)) (\<lambda>credit.
     if credit \<le> 1 / 200 then ret None else
     bnd (gets (find_invoice invoice_id)) (\<lambda>found.
     case found of None \<Rightarrow> ret None
     | Some iv \<Rightarrow>
       if inv_status iv = VOIDED \<or> inv_status iv = PAID then ret None else
       (let apply = min credit (outstanding iv) in
       if apply \<le> 1 / 200 then ret None else
       bnd new_id (\<lambda>i.
       bnd (insert_payment
             \<lparr>pay_id = i, pay_invoice = invoice_id, pay_user = None, pay_amount = apply,
              pay_currency = inv_currency iv, pay_status = SUCCEEDED, pay_provider = MANUAL,
              pay_ref = None, pay_paid_at = Some (now e),
              pay_meta = [''method'' \<mapsto> JStr ''PREPAYMENT_APPLIED''], pay_created = now e\<rparr>) (\<lambda>_.
       bnd (settle_invoice e invoice_id None i (''prepay_'' @ i)) (\<lambda>result.
       bnd (consume_credit unit apply) (\<lambda>_.
       bnd (record_entry e
             \<lparr>ei_condo = condo, ei_unit = Some unit, ei_fund = GENERAL, ei_type = PREPAYMENT_APPLIED,
              ei_amount = - apply, ei_key = Some (''invoice:'' @ invoice_id @ '':prepayment:'' @ i),
              ei_source = ''Invoice'', ei_source_id = Some invoice_id,
              ei_memo = Some ''Prepayment applied'', ei_at = None, ei_by = None\<rparr>) (\<lambda>_.
       ret result))))))))"

definition apply_credit_to_invoice :: "svc_env \<Rightarrow> string \<Rightarrow> string \<Rightarrow> string \<Rightarrow> unit svc" where
  "apply_credit_to_invoice e invoice_id unit condo =
     bnd (get_credit unit) (\<lambda>credit.
     if credit \<le> 1 / 200 then ret () else
     bnd (txn (apply_credit_tx e invoice_id unit condo)) (\<lambda>settlement.
     emit_paid invoice_id settlement))"

text \<open>The loop of \<open>applyCreditToOutstanding\<close>, which stops when the credit is used up.\<close>

fun apply_credit_loop :: "svc_env \<Rightarrow> string \<Rightarrow> string \<Rightarrow> string list \<Rightarrow> unit svc" where
  "apply_credit_loop e unit condo [] = ret ()"
| "apply_credit_loop e unit condo (i # is) =
     bnd (get_credit unit) (\<lambda>credit.
     if credit \<le> 1 / 200 then ret () else
     bnd (apply_credit_to_invoice e i unit condo) (\<lambda>_. apply_credit_loop e unit condo is))"

definition apply_credit_to_outstanding :: "svc_env \<Rightarrow> string \<Rightarrow> string \<Rightarrow> unit svc" where
  "apply_credit_to_outstanding e unit condo =
     bnd (gets (\<lambda>s. map inv_id (sort_key inv_due (filter (\<lambda>i. inv_unit i = unit \<and>
           inv_status i \<in> {ISSUED, PARTIAL, OVERDUE}) (invoices s))))) (\<lambda>is.
     apply_credit_loop e unit condo is)"

definition prepayment_entry ::
  "string \<Rightarrow> string \<Rightarrow> money \<Rightarrow> string \<Rightarrow> string \<Rightarrow> string \<Rightarrow> int option \<Rightarrow> string option \<Rightarrow> entry_input" where
  "prepayment_entry condo unit amount key source source_id at' by' =
     \<lparr>ei_condo = condo, ei_unit = Some unit, ei_fund = GENERAL, ei_type = PREPAYMENT,
      ei_amount = amount, ei_key = Some key, ei_source = source, ei_source_id = Some source_id,
      ei_memo = Some ''Advance maintenance payment'', ei_at = at', ei_by = by'\<rparr>"

definition opt_str :: "string option \<Rightarrow> json" where
  "opt_str x = (case x of None \<Rightarrow> JNull | Some t \<Rightarrow> JStr t)"

definition record_prepayment_tx ::
  "svc_env \<Rightarrow> auth_user \<Rightarrow> unit_row \<Rightarrow> money \<Rightarrow> string option \<Rightarrow> string option \<Rightarrow> receipt svc" where
  "record_prepayment_tx e u un amount payer method' =
     bnd (issue_receipt e
           \<lparr>ri_condo = un_condo un, ri_kind = PAYMENT_RECEIPT, ri_amount = amount, ri_currency = None,
            ri_to = payer, ri_unit = Some (un_id un), ri_payment = None, ri_deposit = None,
            ri_desc = Some ''Advance maintenance payment''\<rparr>) (\<lambda>r.
     bnd (record_entry e (prepayment_entry (un_condo un) (un_id un) amount (''prepayment:'' @ rc_id r)
            ''Prepayment'' (rc_id r) None (Some (user_id u)))) (\<lambda>_.
     bnd (add_credit (un_condo un) (un_id un) amount) (\<lambda>_.
     bnd (log_audit (pay_audit (un_condo un) (Some (un_id un)) (Some (user_id u)) ''Prepayment'' (rc_id r)
            [''amount'' \<mapsto> JNum amount, ''method'' \<mapsto> opt_str method'])) (\<lambda>_.
     ret r))))"

definition record_prepayment ::
  "svc_env \<Rightarrow> auth_user \<Rightarrow> string \<Rightarrow> money \<Rightarrow> string option \<Rightarrow> string option \<Rightarrow> (money \<times> string) svc" where
  "record_prepayment e u unit amount payer method' =
     bnd (gets (\<lambda>s. find_row un_id unit (units s))) (\<lambda>found.
     bnd (need found (NotFound ''Unit not found'')) (\<lambda>un.
     bnd (assert_condo_management u (un_condo un) True) (\<lambda>_.
     bnd (ensure (\<not> amount \<le> 0) (BadRequest ''Amount must be greater than zero'')) (\<lambda>_.
     bnd (txn (record_prepayment_tx e u un amount payer method')) (\<lambda>r.
     bnd (apply_credit_to_outstanding e (un_id un) (un_condo un)) (\<lambda>_.
     bnd (get_credit (un_id un)) (\<lambda>credit.
     ret (credit, rc_id r))))))))"

section \<open>Issuing invoices\<close>

definition lines_total :: "fee_line list \<Rightarrow> money" where
  "lines_total ls = sum_list (map (\<lambda>l. fl_price l * fl_qty l) ls)"

definition invoice_lines :: "fee_line list \<Rightarrow> invoice_line list" where
  "invoice_lines ls =
     map (\<lambda>(i, l). \<lparr>il_code = fl_code l, il_desc = fl_desc l, il_formula = fl_formula l,
          il_qty = fl_qty l, il_price = fl_price l, il_amount = fl_price l * fl_qty l, il_sort = i\<rparr>)
       (zip [0..<length ls] ls)"

definition new_invoice ::
  "svc_env \<Rightarrow> string \<Rightarrow> string \<Rightarrow> string \<Rightarrow> string \<Rightarrow> int \<Rightarrow> int \<Rightarrow> int \<Rightarrow> fee_line list \<Rightarrow> meta \<Rightarrow> invoice" where
  "new_invoice e i condo unit number start end_d due ls m =
     \<lparr>inv_id = i, inv_condo = condo, inv_unit = unit, inv_number = number, inv_period_start = start,
      inv_period_end = end_d, inv_due = due, inv_status = ISSUED, inv_subtotal = lines_total ls,
      inv_total = lines_total ls, inv_paid = 0, inv_currency = ''MYR'', inv_issued_at = Some (now e),
      inv_paid_at = None, inv_voided_at = None, inv_meta = m, inv_lines = invoice_lines ls\<rparr>"

definition ref_of :: "invoice \<Rightarrow> invoice_ref" where
  "ref_of iv =
     \<lparr>ir_id = inv_id iv, ir_condo = inv_condo iv, ir_unit = inv_unit iv,
      ir_number = Some (inv_number iv), ir_issued_at = inv_issued_at iv\<rparr>"

text \<open>The lines as the ledger is told of them; \<open>create\<close> and \<open>createInvoiceInTx\<close> leave the fund out.\<close>

definition charge_of :: "fee_line \<Rightarrow> charge_line" where
  "charge_of l =
     \<lparr>cl_code = fl_code l, cl_amount = fl_price l * fl_qty l, cl_desc = fl_desc l, cl_fund = fl_fund l\<rparr>"

definition without_fund :: "charge_line \<Rightarrow> charge_line" where
  "without_fund c = c\<lparr>cl_fund := None\<rparr>"

text \<open>Number, row and charges: what every way of issuing does in its transaction.\<close>

definition issue_tx ::
  "svc_env \<Rightarrow> string \<Rightarrow> string \<Rightarrow> int \<Rightarrow> int \<Rightarrow> int \<Rightarrow> fee_line list \<Rightarrow> charge_line list \<Rightarrow> meta \<Rightarrow>
   string option \<Rightarrow> invoice svc" where
  "issue_tx e condo unit start end_d due ls cls m actor =
     bnd (next_invoice_number e condo) (\<lambda>number.
     bnd new_id (\<lambda>i.
     let iv = new_invoice e i condo unit number start end_d due ls m in
     bnd (insert_invoice iv) (\<lambda>_.
     bnd (record_invoice_charges e (ref_of iv) cls actor) (\<lambda>_.
     ret iv))))"

definition create_invoice ::
  "svc_env \<Rightarrow> auth_user \<Rightarrow> string \<Rightarrow> int \<Rightarrow> int \<Rightarrow> int \<Rightarrow> fee_line list \<Rightarrow> invoice svc" where
  "create_invoice e u unit start end_d due ls =
     bnd (gets (\<lambda>s. find_row un_id unit (units s))) (\<lambda>found.
     bnd (need found (NotFound ''Unit not found'')) (\<lambda>un.
     bnd (assert_condo_management u (un_condo un) True) (\<lambda>_.
     bnd (txn (issue_tx e (un_condo un) (un_id un) start end_d due ls
           (map (without_fund \<circ> charge_of) ls) [''issuedByUserId'' \<mapsto> JStr (user_id u)]
           (Some (user_id u)))) (\<lambda>iv.
     bnd (apply_credit_to_invoice e (inv_id iv) (inv_unit iv) (inv_condo iv)) (\<lambda>_.
     bnd (emit (InvoiceIssued (inv_id iv))) (\<lambda>_.
     ret iv))))))"

definition create_invoice_in_tx ::
  "svc_env \<Rightarrow> string \<Rightarrow> string \<Rightarrow> int \<Rightarrow> int option \<Rightarrow> int option \<Rightarrow> fee_line list \<Rightarrow> string option \<Rightarrow> meta \<Rightarrow>
   invoice svc" where
  "create_invoice_in_tx e condo unit due start end_d ls actor m =
     issue_tx e condo unit (case start of None \<Rightarrow> now e | Some d \<Rightarrow> d)
       (case end_d of None \<Rightarrow> due | Some d \<Rightarrow> d) due
       (map (\<lambda>l. l\<lparr>fl_formula := None\<rparr>) ls) (map (without_fund \<circ> charge_of) ls)
       (m(''issuedByUserId'' \<mapsto> opt_str actor)) actor"

section \<open>Voiding\<close>

definition voided_row :: "svc_env \<Rightarrow> invoice \<Rightarrow> invoice" where
  "voided_row e iv = iv\<lparr>inv_status := VOIDED, inv_voided_at := Some (now e)\<rparr>"

definition void_ref :: "invoice \<Rightarrow> invoice_ref" where
  "void_ref iv = (ref_of iv)\<lparr>ir_issued_at := None\<rparr>"

definition void_unpaid_invoice_in_tx ::
  "svc_env \<Rightarrow> string \<Rightarrow> string option \<Rightarrow> string option \<Rightarrow> bool svc" where
  "void_unpaid_invoice_in_tx e invoice_id actor reason =
     bnd (gets (find_invoice invoice_id)) (\<lambda>found.
     case found of None \<Rightarrow> ret False
     | Some iv \<Rightarrow>
       if inv_status iv = VOIDED then ret True
       else if inv_paid iv > 1 / 200 \<or> inv_status iv = PAID then ret False
       else
         bnd (reverse_invoice_charges e (void_ref iv) actor reason) (\<lambda>_.
         bnd (update_invoice invoice_id (voided_row e)) (\<lambda>_.
         ret True)))"

definition void_invoice_tx ::
  "svc_env \<Rightarrow> auth_user \<Rightarrow> string \<Rightarrow> invoice \<Rightarrow> string option \<Rightarrow> unit svc" where
  "void_invoice_tx e u invoice_id iv reason =
     bnd (update_payments (\<lambda>p. pay_invoice p = invoice_id \<and> pay_status p = PENDING)
           (\<lambda>p. p\<lparr>pay_status := CANCELLED\<rparr>)) (\<lambda>_.
     bnd (reverse_invoice_charges e (void_ref iv) (Some (user_id u)) reason) (\<lambda>_.
     bnd (update_invoice invoice_id (\<lambda>x. (voided_row e x)\<lparr>inv_meta :=
           (inv_meta iv)(''voidedByUserId'' \<mapsto> JStr (user_id u), ''voidReason'' \<mapsto> opt_str reason)\<rparr>)) (\<lambda>_.
     log_audit
       \<lparr>au_condo = inv_condo iv, au_unit = Some (inv_unit iv), au_actor = Some (user_id u),
        au_action = AUDIT_UPDATE, au_resource = ''Invoice'', au_resource_id = invoice_id,
        au_meta = [''voided'' \<mapsto> JBool True, ''reason'' \<mapsto> opt_str reason]\<rparr>)))"

definition void_invoice :: "svc_env \<Rightarrow> auth_user \<Rightarrow> string \<Rightarrow> string option \<Rightarrow> invoice svc" where
  "void_invoice e u invoice_id reason =
     bnd (get_invoice invoice_id (Some u)) (\<lambda>iv.
     bnd (assert_condo_management u (inv_condo iv) True) (\<lambda>_.
     bnd (ensure (inv_status iv \<noteq> PAID) (BadRequest ''Cannot void a fully paid invoice'')) (\<lambda>_.
     bnd (ensure (\<not> inv_paid iv > 1 / 200)
           (BadRequest ''Cannot void an invoice with payments; issue a refund or adjustment first'')) (\<lambda>_.
     if inv_status iv = VOIDED then ret iv else
     bnd (txn (void_invoice_tx e u invoice_id iv reason)) (\<lambda>_.
     get_invoice invoice_id None)))))"

end
