(* ===== verification/Calendar.thy ===== *)
theory Calendar
  imports Text "HOL-Library.List_Lexorder" "HOL-Library.Char_ord"
begin

text \<open>
  Dates as ECMAScript has them: days of the proleptic Gregorian calendar counted from 1 January
  1970 (\<open>MakeDay\<close>, \<open>YearFromTime\<close>, \<open>MonthFromTime\<close>, \<open>DateFromTime\<close>), months from 0, and the text of a
  day that \<open>toISOString().slice(0, 10)\<close> gives.
\<close>

section \<open>Days\<close>

abbreviation day_ms :: int where
  "day_ms \<equiv> 86400000"

definition day_from_year :: "int \<Rightarrow> int" where
  "day_from_year y = 365 * (y - 1970) + (y - 1969) div 4 - (y - 1901) div 100 + (y - 1601) div 400"

definition is_leap :: "int \<Rightarrow> bool" where
  "is_leap y \<longleftrightarrow> y mod 4 = 0 \<and> (y mod 100 \<noteq> 0 \<or> y mod 400 = 0)"

definition days_before_month :: "bool \<Rightarrow> int \<Rightarrow> int" where
  "days_before_month leap m =
     ([0, 31, 59, 90, 120, 151, 181, 212, 243, 273, 304, 334] ! nat m) + (if leap \<and> m \<ge> 2 then 1 else 0)"

definition make_day :: "int \<Rightarrow> int \<Rightarrow> int \<Rightarrow> int" where
  "make_day y m d =
     (let ym = y + m div 12; mn = m mod 12 in day_from_year ym + days_before_month (is_leap ym) mn + d - 1)"

text \<open>The year argument of \<open>new Date\<close> and \<open>Date.UTC\<close>: below 100 it is one of the twentieth century.\<close>

definition full_year :: "int \<Rightarrow> int" where
  "full_year y = (if 0 \<le> y \<and> y \<le> 99 then 1900 + y else y)"

definition year_of_day :: "int \<Rightarrow> int" where
  "year_of_day d =
     (let y = 400 * d div 146097 + 1970
      in if day_from_year (y + 1) \<le> d then y + 1 else if d < day_from_year y then y - 1 else y)"

definition month_of_day :: "bool \<Rightarrow> int \<Rightarrow> int" where
  "month_of_day leap n = int (length (filter (\<lambda>m. days_before_month leap m \<le> n) [1, 2, 3, 4, 5, 6, 7, 8, 9, 10, 11]))"

definition civil_of_day :: "int \<Rightarrow> int \<times> int \<times> int" where
  "civil_of_day d =
     (let y = year_of_day d; n = d - day_from_year y; m = month_of_day (is_leap y) n
      in (y, m, n - days_before_month (is_leap y) m + 1))"

definition days_in_month :: "int \<Rightarrow> int \<Rightarrow> int" where
  "days_in_month y m = [31, if is_leap y then 29 else 28, 31, 30, 31, 30, 31, 31, 30, 31, 30, 31] ! nat m"

section \<open>Text\<close>

definition digits_at :: "nat \<Rightarrow> nat \<Rightarrow> string \<Rightarrow> int option" where
  "digits_at i n t = (if length t < i + n then None else map_option int (read_nat 0 (take n (drop i t))))"

definition iso_year :: "int \<Rightarrow> string" where
  "iso_year y =
     (if 0 \<le> y \<and> y \<le> 9999 then pad_start 4 (CHR ''0'') (show_nat (nat y))
      else (if y < 0 then CHR ''-'' else CHR ''+'') # pad_start 6 (CHR ''0'') (show_nat (nat \<bar>y\<bar>)))"

definition iso_two :: "int \<Rightarrow> string" where
  "iso_two n = pad_start 2 (CHR ''0'') (show_nat (nat n))"

text \<open>The text of the day that a time falls in, in UTC.\<close>

definition iso_day :: "int \<Rightarrow> string" where
  "iso_day t =
     (let (y, m, d) = civil_of_day (t div day_ms)
      in take 10 (iso_year y @ ''-'' @ iso_two (m + 1) @ ''-'' @ iso_two d @ ''T''))"

section \<open>The calendar\<close>

lemma div_step:
  fixes x k :: int
  assumes "0 < k"
  shows "(x + 1) div k = x div k + (if (x + 1) mod k = 0 then 1 else 0)"
proof -
  obtain q r where x: "x = k * q + r" and r: "0 \<le> r" "r < k"
    using assms mult_div_mod_eq [of k x] by (metis pos_mod_bound pos_mod_sign)
  have q: "x div k = q" using x r by simp
  show ?thesis
  proof (cases "r = k - 1")
    case True
    then have "x + 1 = k * (q + 1)" using x by (simp add: distrib_left)
    then show ?thesis using assms q by simp
  next
    case False
    then have "0 \<le> r + 1" "r + 1 < k" using r by simp_all
    moreover have "x + 1 = k * q + (r + 1)" using x by simp
    ultimately have "(x + 1) div k = q" "(x + 1) mod k = r + 1" using int_div_pos_eq [of "x + 1" k q "r + 1"] int_mod_pos_eq [of "x + 1" k q "r + 1"] by blast+
    then show ?thesis using r(1) q by simp
  qed
qed

lemma mod_shift: "k dvd c \<Longrightarrow> (y - c) mod k = 0 \<longleftrightarrow> y mod k = 0" for y c k :: int
  using dvd_add_left_iff [of k "- c" y] by (simp add: mod_eq_0_iff_dvd)

lemma leap_days:
  fixes y a b c :: int
  assumes "a' = a + (if p then 1 else 0)" and "b' = b + (if q then 1 else 0)" and "c' = c + (if r then 1 else 0)"
    and "r \<Longrightarrow> q" and "q \<Longrightarrow> p"
  shows "365 * (y + 1 - 1970) + a' - b' + c' =
    365 * (y - 1970) + a - b + c + (if p \<and> (\<not> q \<or> r) then 366 else 365)"
  using assms by (cases p; cases q; cases r) simp_all

lemma day_from_year_step: "day_from_year (y + 1) = day_from_year y + (if is_leap y then 366 else 365)"
proof -
  have "(y + 1 - 1969) div 4 = (y - 1969) div 4 + (if y mod 4 = 0 then 1 else 0)"
    using div_step [of 4 "y - 1969"] mod_shift [of 4 1968 y] by (simp add: diff_add_eq)
  moreover have "(y + 1 - 1901) div 100 = (y - 1901) div 100 + (if y mod 100 = 0 then 1 else 0)"
    using div_step [of 100 "y - 1901"] mod_shift [of 100 1900 y] by (simp add: diff_add_eq)
  moreover have "(y + 1 - 1601) div 400 = (y - 1601) div 400 + (if y mod 400 = 0 then 1 else 0)"
    using div_step [of 400 "y - 1601"] mod_shift [of 400 1600 y] by (simp add: diff_add_eq)
  moreover have "y mod 100 = 0" if "y mod 400 = 0"
    using dvd_trans [of 100 400 y] that by (simp add: mod_eq_0_iff_dvd)
  moreover have "y mod 4 = 0" if "y mod 100 = 0"
    using dvd_trans [of 4 100 y] that by (simp add: mod_eq_0_iff_dvd)
  ultimately show ?thesis
    unfolding day_from_year_def is_leap_def by (rule leap_days)
qed

text \<open>The estimate of the year is off by one at most.\<close>

lemma year_estimate:
  fixes d y :: int
  assumes "146097 * (e - 1970) \<le> 400 * d" "400 * d < 146097 * (e - 1970) + 146097"
    and "4 * a \<le> y - 1969" "y - 1969 < 4 * a + 4" "100 * b \<le> y - 1901" "y - 1901 < 100 * b + 100"
    and "400 * c \<le> y - 1601" "y - 1601 < 400 * c + 400"
    and "365 * (y - 1970) + a - b + c \<le> d" "d < 365 * (y - 1970) + a - b + c + 366"
  shows "e = y - 1 \<or> e = y \<or> e = y + 1"
proof -
  have a: "100 * y - 197200 \<le> 400 * a" "400 * a \<le> 100 * y - 196900" using assms(3, 4) by linarith+
  have b: "4 * y - 8004 < 400 * b" "400 * b \<le> 4 * y - 7604" using assms(5, 6) by linarith+
  have c: "y - 2001 < 400 * c" "400 * c \<le> y - 1601" using assms(7, 8) by linarith+
  have "146097 * y - 287811700 < 400 * d" using assms(9) a(1) b(2) c(1) by (simp add: algebra_simps)
  moreover have "400 * d < 146097 * y - 287664096" using assms(10) a(2) b(1) c(2) by (simp add: algebra_simps)
  ultimately have "146097 * (y - e) < 146097 * 2" "146097 * (e - y) < 146097 * 2"
    using assms(1, 2) by (simp_all add: algebra_simps)
  then have "y - e < 2" "e - y < 2" by simp_all
  then show ?thesis by presburger
qed

lemma year_of_day:
  assumes "day_from_year y \<le> d" and "d < day_from_year (y + 1)"
  shows "year_of_day d = y"
proof -
  have step: "day_from_year a < day_from_year (a + 1)" for a by (simp add: day_from_year_step)
  let ?e = "400 * d div 146097 + 1970"
  have e: "146097 * (?e - 1970) \<le> 400 * d" "400 * d < 146097 * (?e - 1970) + 146097" by simp_all
  have lo: "4 * ((y - 1969) div 4) \<le> y - 1969" "y - 1969 < 4 * ((y - 1969) div 4) + 4"
    "100 * ((y - 1901) div 100) \<le> y - 1901" "y - 1901 < 100 * ((y - 1901) div 100) + 100"
    "400 * ((y - 1601) div 400) \<le> y - 1601" "y - 1601 < 400 * ((y - 1601) div 400) + 400" by simp_all
  have d: "day_from_year y \<le> d" "d < day_from_year y + 366"
    using assms day_from_year_step [of y] by (simp_all split: if_splits)
  have "?e = y - 1 \<or> ?e = y \<or> ?e = y + 1"
    by (rule year_estimate [OF e lo]) (use d in \<open>simp_all only: day_from_year_def\<close>)
  then show ?thesis
  proof (elim disjE)
    assume e: "?e = y - 1"
    show ?thesis unfolding year_of_day_def Let_def e using assms(1) by simp
  next
    assume e: "?e = y"
    show ?thesis unfolding year_of_day_def Let_def e using assms by simp
  next
    assume e: "?e = y + 1"
    show ?thesis unfolding year_of_day_def Let_def e
      using assms(2) step [of "y + 1"] by simp
  qed
qed

lemma month_cases:
  fixes m :: int
  assumes "0 \<le> m" and "m < 12"
  obtains "m = 0" | "m = 1" | "m = 2" | "m = 3" | "m = 4" | "m = 5" | "m = 6" | "m = 7" | "m = 8" | "m = 9" | "m = 10" | "m = 11"
proof -
  have "m = 0 \<or> m = 1 \<or> m = 2 \<or> m = 3 \<or> m = 4 \<or> m = 5 \<or> m = 6 \<or> m = 7 \<or> m = 8 \<or> m = 9 \<or> m = 10 \<or> m = 11"
    using assms by presburger
  with that show thesis by blast
qed

lemma month_of_day:
  assumes "0 \<le> m" and "m < 12" and "1 \<le> d" and "d \<le> days_in_month y m" and "l = is_leap y"
  shows "month_of_day l (days_before_month l m + d - 1) = m"
    and "days_before_month l m + d - 1 < (if l then 366 else 365)" and "0 \<le> days_before_month l m"
proof -
  have "month_of_day l (days_before_month l m + d - 1) = m \<and>
    days_before_month l m + d - 1 < (if l then 366 else 365) \<and> 0 \<le> days_before_month l m"
    by (rule month_cases [OF assms(1, 2)]; cases l; insert assms(3-5))
       (simp_all add: month_of_day_def days_before_month_def days_in_month_def)
  then show "month_of_day l (days_before_month l m + d - 1) = m"
    and "days_before_month l m + d - 1 < (if l then 366 else 365)" and "0 \<le> days_before_month l m"
    by blast+
qed

lemma civil_of_make_day:
  assumes "0 \<le> m" and "m < 12" and "1 \<le> d" and "d \<le> days_in_month y m"
  shows "civil_of_day (make_day y m d) = (y, m, d)"
proof -
  let ?n = "days_before_month (is_leap y) m + d - 1"
  have md: "make_day y m d = day_from_year y + ?n" using assms(1, 2) by (simp add: make_day_def)
  note n = month_of_day [OF assms refl]
  have "year_of_day (make_day y m d) = y"
    by (rule year_of_day) (use n assms(3) day_from_year_step [of y] md in simp_all)
  with md n(1) show ?thesis by (simp add: civil_of_day_def)
qed

section \<open>The way back\<close>

lemma day_from_year_less: "a < b \<Longrightarrow> day_from_year a < day_from_year b"
  by (induction b rule: int_gr_induct) (auto simp: day_from_year_step split: if_splits)

lemma year_exists: "\<exists>y. day_from_year y \<le> d \<and> d < day_from_year (y + 1)"
proof (induction d rule: int_induct [where k = 0])
  case base
  have "day_from_year 1970 = 0" "day_from_year 1971 = 365" by (simp_all add: day_from_year_def)
  then show ?case by (intro exI [of _ 1970]) simp
next
  case (step1 d)
  then obtain y where y: "day_from_year y \<le> d" "d < day_from_year (y + 1)" by blast
  show ?case
  proof (cases "d + 1 < day_from_year (y + 1)")
    case False
    then show ?thesis using y day_from_year_less [of "y + 1" "y + 1 + 1"] by (intro exI [of _ "y + 1"]) simp
  next
    case True
    then show ?thesis using y by (intro exI [of _ y]) simp
  qed
next
  case (step2 d)
  then obtain y where y: "day_from_year y \<le> d" "d < day_from_year (y + 1)" by blast
  show ?case
  proof (cases "day_from_year y \<le> d - 1")
    case False
    then show ?thesis using y day_from_year_less [of "y - 1" y] by (intro exI [of _ "y - 1"]) simp
  next
    case True
    then show ?thesis using y by (intro exI [of _ y]) simp
  qed
qed

lemma year_of_day_bounds: "day_from_year (year_of_day d) \<le> d" "d < day_from_year (year_of_day d + 1)"
  using year_exists [of d] year_of_day by metis+

lemma month_exists:
  assumes "0 \<le> n" and "n < (if is_leap y then 366 else 365)"
  obtains m where "0 \<le> m" and "m < 12" and "days_before_month (is_leap y) m \<le> n"
    and "n < days_before_month (is_leap y) m + days_in_month y m"
proof -
  let ?ok = "\<lambda>m. days_before_month (is_leap y) m \<le> n \<and> n < days_before_month (is_leap y) m + days_in_month y m"
  have "?ok 0 \<or> ?ok 1 \<or> ?ok 2 \<or> ?ok 3 \<or> ?ok 4 \<or> ?ok 5 \<or> ?ok 6 \<or> ?ok 7 \<or> ?ok 8 \<or> ?ok 9 \<or> ?ok 10 \<or> ?ok 11"
    using assms by (cases "is_leap y") (simp_all add: days_before_month_def days_in_month_def, presburger+)
  then have "\<exists>m. ?ok m \<and> 0 \<le> m \<and> m < 12"
    by (elim disjE) (rule exI, rule conjI, assumption, simp)+
  with that show thesis by blast
qed

lemma civil_of_day:
  obtains y m d where "civil_of_day n = (y, m, d)" and "y = year_of_day n" and "0 \<le> m" and "m < 12"
    and "1 \<le> d" and "d \<le> days_in_month y m" and "make_day y m d = n"
proof -
  let ?y = "year_of_day n"
  have "0 \<le> n - day_from_year ?y" "n - day_from_year ?y < (if is_leap ?y then 366 else 365)"
    using year_of_day_bounds [of n] day_from_year_step [of ?y] by simp_all
  from month_exists [OF this] obtain m where m: "0 \<le> m" "m < 12" "days_before_month (is_leap ?y) m \<le> n - day_from_year ?y"
    "n - day_from_year ?y < days_before_month (is_leap ?y) m + days_in_month ?y m" by blast
  let ?d = "n - day_from_year ?y - days_before_month (is_leap ?y) m + 1"
  have d: "1 \<le> ?d" "?d \<le> days_in_month ?y m" using m by simp_all
  have n: "make_day ?y m ?d = n" using m(1, 2) by (simp add: make_day_def)
  show thesis using that [of ?y m ?d] civil_of_make_day [OF m(1, 2) d] n m d by simp
qed

lemma make_day_less:
  assumes "0 \<le> m" "m < 12" "1 \<le> d" "d \<le> days_in_month y m" "0 \<le> m'" "m' < 12" "1 \<le> d'" "d' \<le> days_in_month y' m'"
    and "y < y' \<or> y = y' \<and> (m < m' \<or> m = m' \<and> d < d')"
  shows "make_day y m d < make_day y' m' d'"
proof -
  have md: "make_day y m d = day_from_year y + (days_before_month (is_leap y) m + d - 1)"
    "make_day y' m' d' = day_from_year y' + (days_before_month (is_leap y') m' + d' - 1)"
    using assms(1, 2, 5, 6) by (simp_all add: make_day_def)
  note n = month_of_day [OF assms(1-4) refl] and n' = month_of_day [OF assms(5-8) refl]
  show ?thesis
  proof (cases "y < y'")
    case True
    then have "day_from_year (y + 1) \<le> day_from_year y'"
      using day_from_year_less [of "y + 1" y'] by (cases "y + 1 = y'") auto
    then show ?thesis using md n n' assms(7) day_from_year_step [of y] by (simp split: if_splits)
  next
    case False
    then have y: "y = y'" using assms(9) by simp
    show ?thesis
    proof (cases "m < m'")
      case True
      have "days_before_month l m + days_in_month y m \<le> days_before_month l m'" if "l = is_leap y" for l
        by (rule month_cases [OF assms(1, 2)]; rule month_cases [OF assms(5, 6)]; insert True that; cases l;
            simp add: days_before_month_def days_in_month_def)
      then show ?thesis using md y assms(4, 7) by simp
    qed (use False assms(9) md y in auto)
  qed
qed

end
