(* ===== verification/Facility.thy ===== *)
theory Facility
  imports Access_Restriction Deposits Billing Calendar
begin

text \<open>
  Facilities and their bookings: facility/facility.service.ts, facility/booking.service.ts and
  shared-types/src/facility.ts. A booking may cost a fee, invoiced by the billing service, and a
  deposit, held by the deposit service; both run on the billing database inside the booking's
  transaction.

  Times are milliseconds; the host's time zone is a fixed offset, a parameter. \<open>NaN\<close> is \<open>None\<close>:
  every comparison with it is false. The serializable transaction that checks for conflicts is
  atomic. The rendering of a date for people is a parameter too.
\<close>

section \<open>Data\<close>

datatype booking_status = BK_PENDING | BK_CONFIRMED | BK_REJECTED | BK_CANCELLED | BK_COMPLETED

fun booking_status_text :: "booking_status \<Rightarrow> string" where
  "booking_status_text BK_PENDING = ''PENDING''"
| "booking_status_text BK_CONFIRMED = ''CONFIRMED''"
| "booking_status_text BK_REJECTED = ''REJECTED''"
| "booking_status_text BK_CANCELLED = ''CANCELLED''"
| "booking_status_text BK_COMPLETED = ''COMPLETED''"

record facility =
  fa_id :: string
  fa_condo :: string
  fa_name :: string
  fa_description :: "string option"
  fa_capacity :: "int option"
  fa_approval :: bool
  fa_fee :: "money option"
  fa_deposit :: "money option"
  fa_open :: string
  fa_close :: string
  fa_slot :: int
  fa_max :: nat
  fa_active :: bool
  fa_position :: int

record booking =
  bk_id :: string
  bk_facility :: string
  bk_condo :: string
  bk_unit :: "string option"
  bk_user :: string
  bk_start :: int
  bk_end :: int
  bk_status :: booking_status
  bk_fee :: money
  bk_held :: money
  bk_invoice :: "string option"
  bk_deposit :: "string option"
  bk_notes :: "string option"
  bk_reviewer :: "string option"
  bk_reviewed_at :: "int option"
  bk_cancelled_at :: "int option"

datatype booking_event =
    BookingCreated string string string booking_status
  | BookingConfirmed string string
  | BookingRejected string string
  | BookingCancelled string string bool string
  | FeeInvoiceIssued string

record facility_db =
  fd_access :: access_db
  fd_facilities :: "facility list"
  fd_bookings :: "booking list"
  fd_events :: "booking_event list"

type_synonym 'a fsvc = "(facility_db, 'a) act"

abbreviation on_access :: "'a asvc \<Rightarrow> 'a fsvc" where
  "on_access \<equiv> on_part fd_access fd_access_update"

abbreviation on_billing :: "'a svc \<Rightarrow> 'a fsvc" where
  "on_billing m \<equiv> on_access (on_base m)"

record booking_env =
  be_svc :: svc_env
  be_url :: url_parser
  be_zone :: int
  be_locale :: "int \<Rightarrow> string"

abbreviation be_now :: "booking_env \<Rightarrow> int" where
  "be_now e \<equiv> now (be_svc e)"

section \<open>Time\<close>

text \<open>\<open>hhmm.split(':')\<close>, and \<open>Number(part ?? 0)\<close> on decimal digits.\<close>

definition part_number :: "string list \<Rightarrow> nat \<Rightarrow> int option" where
  "part_number ps i = (if i < length ps then map_option int (read_nat 0 (ps ! i)) else Some 0)"

definition hhmm_to_minutes :: "string \<Rightarrow> int option" where
  "hhmm_to_minutes t =
     (let ps = split_on CHR '':'' t in
      case (part_number ps 0, part_number ps 1) of (Some h, Some m) \<Rightarrow> Some (h * 60 + m) | _ \<Rightarrow> None)"

definition num_less :: "int option \<Rightarrow> int option \<Rightarrow> bool" where
  "num_less x y = (case (x, y) of (Some a, Some b) \<Rightarrow> a < b | _ \<Rightarrow> False)"

definition num_le :: "int option \<Rightarrow> int option \<Rightarrow> bool" where
  "num_le x y = (case (x, y) of (Some a, Some b) \<Rightarrow> a \<le> b | _ \<Rightarrow> False)"

text \<open>\<open>d.getHours() * 60 + d.getMinutes()\<close>.\<close>

definition minute_of_day :: "booking_env \<Rightarrow> int \<Rightarrow> int" where
  "minute_of_day e t = (t + be_zone e) div 60000 mod 1440"

text \<open>\<open>bookingsOverlap\<close>: half-open intervals.\<close>

definition bookings_overlap :: "int \<times> int \<Rightarrow> int \<times> int \<Rightarrow> bool" where
  "bookings_overlap a b \<longleftrightarrow> fst a < snd b \<and> snd a > fst b"

section \<open>Facilities\<close>

definition find_facility :: "string \<Rightarrow> facility_db \<Rightarrow> facility option" where
  "find_facility i s = find_row fa_id i (fd_facilities s)"

definition assert_condo_access :: "auth_user \<Rightarrow> string \<Rightarrow> unit fsvc" where
  "assert_condo_access u condo = ensure (some_role (grants_member condo) u) (Forbidden ''No access to this condo'')"

definition assert_facility_management :: "auth_user \<Rightarrow> string \<Rightarrow> unit fsvc" where
  "assert_facility_management u condo = ensure (condo_management u condo True)
     (Forbidden ''Only management can manage facilities for this condo'')"

definition validate_window :: "string \<Rightarrow> string \<Rightarrow> unit fsvc" where
  "validate_window open_at close_at =
     ensure (\<not> num_le (hhmm_to_minutes close_at) (hhmm_to_minutes open_at))
       (BadRequest ''closeTime must be after openTime'')"

definition list_facilities ::
  "auth_user \<Rightarrow> string \<Rightarrow> bool \<Rightarrow> nat \<Rightarrow> nat \<Rightarrow> (facility list \<times> nat) fsvc" where
  "list_facilities u condo inactive limit offset =
     bnd (assert_condo_access u condo) (\<lambda>_.
     gets (\<lambda>s. let p = (\<lambda>f. fa_condo f = condo \<and> ((condo_management u condo True \<and> inactive) \<or> fa_active f)) in
       (take limit (drop offset (sort_key fa_position (filter p (fd_facilities s)))),
        count_where p (fd_facilities s))))"

definition get_facility :: "auth_user \<Rightarrow> string \<Rightarrow> facility fsvc" where
  "get_facility u i =
     bnd (gets (find_facility i)) (\<lambda>found.
     bnd (need found (NotFound ''Facility not found'')) (\<lambda>f.
     bnd (assert_condo_access u (fa_condo f)) (\<lambda>_. ret f)))"

record facility_input =
  fi_condo :: string
  fi_name :: string
  fi_description :: "string option"
  fi_capacity :: "int option"
  fi_approval :: "bool option"
  fi_fee :: "money option"
  fi_deposit :: "money option"
  fi_open :: "string option"
  fi_close :: "string option"
  fi_slot :: "int option"
  fi_max :: "nat option"
  fi_active :: "bool option"
  fi_position :: "int option"

definition new_facility :: "string \<Rightarrow> facility_input \<Rightarrow> facility" where
  "new_facility i d =
     \<lparr>fa_id = i, fa_condo = fi_condo d, fa_name = trim (fi_name d), fa_description = trimmed (fi_description d),
      fa_capacity = fi_capacity d, fa_approval = given_or (fi_approval d) False, fa_fee = fi_fee d,
      fa_deposit = fi_deposit d, fa_open = given_or (fi_open d) ''08:00'', fa_close = given_or (fi_close d) ''22:00'',
      fa_slot = given_or (fi_slot d) 60, fa_max = given_or (fi_max d) 1, fa_active = given_or (fi_active d) True,
      fa_position = given_or (fi_position d) 0\<rparr>"

definition create_facility :: "auth_user \<Rightarrow> facility_input \<Rightarrow> facility fsvc" where
  "create_facility u d =
     bnd (assert_facility_management u (fi_condo d)) (\<lambda>_.
     bnd (validate_window (given_or (fi_open d) ''08:00'') (given_or (fi_close d) ''22:00'')) (\<lambda>_.
     bnd (on_billing new_id) (\<lambda>i.
     let f = new_facility i d in
     bnd (modify (\<lambda>s. s\<lparr>fd_facilities := fd_facilities s @ [f]\<rparr>)) (\<lambda>_. ret f))))"

text \<open>An update: a field that is not given stays; \<open>Some None\<close> is null.\<close>

record facility_patch =
  fp_name :: "string option"
  fp_description :: "string option option"
  fp_capacity :: "int option option"
  fp_approval :: "bool option"
  fp_fee :: "money option option"
  fp_deposit :: "money option option"
  fp_open :: "string option"
  fp_close :: "string option"
  fp_slot :: "int option"
  fp_max :: "nat option"
  fp_active :: "bool option"
  fp_position :: "int option"

definition patched_facility :: "facility_patch \<Rightarrow> facility \<Rightarrow> facility" where
  "patched_facility d f = f\<lparr>
     fa_name := (case fp_name d of None \<Rightarrow> fa_name f | Some t \<Rightarrow> trim t),
     fa_description := (case fp_description d of None \<Rightarrow> fa_description f | Some t \<Rightarrow> trimmed t),
     fa_capacity := given_or (fp_capacity d) (fa_capacity f),
     fa_approval := given_or (fp_approval d) (fa_approval f),
     fa_fee := given_or (fp_fee d) (fa_fee f),
     fa_deposit := given_or (fp_deposit d) (fa_deposit f),
     fa_open := given_or (fp_open d) (fa_open f),
     fa_close := given_or (fp_close d) (fa_close f),
     fa_slot := given_or (fp_slot d) (fa_slot f),
     fa_max := given_or (fp_max d) (fa_max f),
     fa_active := given_or (fp_active d) (fa_active f),
     fa_position := given_or (fp_position d) (fa_position f)\<rparr>"

definition set_facility :: "string \<Rightarrow> (facility \<Rightarrow> facility) \<Rightarrow> unit fsvc" where
  "set_facility i g = modify (\<lambda>s. s\<lparr>fd_facilities := set_row fa_id i g (fd_facilities s)\<rparr>)"

definition update_facility :: "auth_user \<Rightarrow> string \<Rightarrow> facility_patch \<Rightarrow> facility fsvc" where
  "update_facility u i d =
     bnd (gets (find_facility i)) (\<lambda>found.
     bnd (need found (NotFound ''Facility not found'')) (\<lambda>f.
     bnd (assert_facility_management u (fa_condo f)) (\<lambda>_.
     bnd (validate_window (given_or (fp_open d) (fa_open f)) (given_or (fp_close d) (fa_close f))) (\<lambda>_.
     bnd (set_facility i (patched_facility d)) (\<lambda>_. ret (patched_facility d f))))))"

definition is_live :: "booking \<Rightarrow> bool" where
  "is_live b \<longleftrightarrow> bk_status b = BK_PENDING \<or> bk_status b = BK_CONFIRMED"

text \<open>A facility with live bookings to come is only switched off; else it goes, with its bookings.\<close>

definition remove_facility :: "booking_env \<Rightarrow> auth_user \<Rightarrow> string \<Rightarrow> unit fsvc" where
  "remove_facility e u i =
     bnd (gets (find_facility i)) (\<lambda>found.
     bnd (need found (NotFound ''Facility not found'')) (\<lambda>f.
     bnd (assert_facility_management u (fa_condo f)) (\<lambda>_.
     bnd (gets (\<lambda>s. count_where (\<lambda>b. bk_facility b = i \<and> is_live b \<and> bk_end b \<ge> be_now e) (fd_bookings s))) (\<lambda>n.
     if n > 0 then set_facility i (\<lambda>f. f\<lparr>fa_active := False\<rparr>)
     else modify (\<lambda>s. s\<lparr>fd_facilities := filter (\<lambda>f. fa_id f \<noteq> i) (fd_facilities s),
            fd_bookings := filter (\<lambda>b. bk_facility b \<noteq> i) (fd_bookings s)\<rparr>)))))"

section \<open>Availability\<close>

text \<open>\<open>new Date(y, m, d)\<close>, in local time.\<close>

definition local_date :: "booking_env \<Rightarrow> int \<Rightarrow> int \<Rightarrow> int \<Rightarrow> int" where
  "local_date e y m d = make_day (full_year y) m d * day_ms - be_zone e"

definition parse_date :: "booking_env \<Rightarrow> string \<Rightarrow> int fsvc" where
  "parse_date e t =
     (case (digits_at 0 4 t, digits_at 5 2 t, digits_at 8 2 t) of
        (Some y, Some m, Some d) \<Rightarrow>
          if t ! 4 = CHR ''-'' \<and> t ! 7 = CHR ''-'' then ret (local_date e y (m - 1) d)
          else throw (BadRequest ''date must be YYYY-MM-DD'')
      | _ \<Rightarrow> throw (BadRequest ''date must be YYYY-MM-DD''))"

text \<open>\<open>new Date(day).setHours(minutes / 60, minutes % 60, 0, 0)\<close> for a \<open>day\<close> at local midnight.\<close>

definition at_minute :: "int \<Rightarrow> int \<Rightarrow> int" where
  "at_minute day minutes = day + (minutes div 60) * 3600000 + (minutes mod 60) * 60000"

record slot =
  sl_start :: int
  sl_end :: int
  sl_booked :: nat
  sl_remaining :: nat
  sl_available :: bool

definition slot_at :: "int \<Rightarrow> facility \<Rightarrow> booking list \<Rightarrow> int \<Rightarrow> slot" where
  "slot_at n f bs t =
     (let ms = fa_slot f * 60000;
          booked = count_where (\<lambda>b. bookings_overlap (bk_start b, bk_end b) (t, t + ms)) bs;
          remaining = fa_max f - booked
      in \<lparr>sl_start = t, sl_end = t + ms, sl_booked = booked, sl_remaining = remaining,
          sl_available = (remaining > 0 \<and> t \<ge> n - ms)\<rparr>)"

text \<open>
  \<open>for (let t = start; t + slot <= end + 1; t += slot)\<close>. The loop ends for a slot of positive length,
  and the input check \<open>@Min(15)\<close> lets no other be stored; for the others, where it may not end, the
  definition gives no slots.
\<close>

function slot_starts :: "int \<Rightarrow> int \<Rightarrow> int \<Rightarrow> int list" where
  "slot_starts ms day_end t =
     (if ms \<le> 0 then [] else if t + ms \<le> day_end + 1 then t # slot_starts ms day_end (t + ms) else [])"
  by pat_completeness auto
termination by (relation "measure (\<lambda>(ms, day_end, t). nat (day_end + 2 - t))") auto

declare slot_starts.simps [simp del]

definition availability :: "booking_env \<Rightarrow> auth_user \<Rightarrow> string \<Rightarrow> string \<Rightarrow> slot list fsvc" where
  "availability e u i date =
     bnd (get_facility u i) (\<lambda>f.
     bnd (parse_date e date) (\<lambda>day.
     case (hhmm_to_minutes (fa_open f), hhmm_to_minutes (fa_close f)) of
       (Some op, Some cl) \<Rightarrow>
         let a = at_minute day op; z = at_minute day cl in
         gets (\<lambda>s.
           let bs = filter (\<lambda>b. bk_facility b = i \<and> is_live b \<and> bookings_overlap (bk_start b, bk_end b) (a, z))
                      (fd_bookings s)
           in map (slot_at (be_now e) f bs) (slot_starts (fa_slot f * 60000) z a))
     | _ \<Rightarrow> ret []))"

end
