(* ===== verification/Booking.thy ===== *)
theory Booking
  imports Facility
begin

text \<open>
  The booking service, facility/booking.service.ts: requests, approvals, rejections and
  cancellations, with their fee invoices and deposits.
\<close>

section \<open>Guards\<close>

definition find_booking :: "string \<Rightarrow> facility_db \<Rightarrow> booking option" where
  "find_booking i s = find_row bk_id i (fd_bookings s)"

definition is_booking_management :: "auth_user \<Rightarrow> string \<Rightarrow> bool" where
  "is_booking_management u condo = condo_management u condo False"

definition en_dash :: string where
  "en_dash = [char_of (226 :: nat), char_of (128 :: nat), char_of (147 :: nat)]"

definition validate_interval :: "booking_env \<Rightarrow> facility \<Rightarrow> int \<Rightarrow> int \<Rightarrow> unit fsvc" where
  "validate_interval e f a z =
     bnd (ensure (\<not> z \<le> a) (BadRequest ''End time must be after start time'')) (\<lambda>_.
     bnd (ensure (\<not> a < be_now e - 60000) (BadRequest ''Cannot book a slot in the past'')) (\<lambda>_.
     bnd (ensure (\<not> z - a < fa_slot f * 60000)
       (BadRequest (''Minimum booking length is '' @ show_int (fa_slot f) @ '' minutes''))) (\<lambda>_.
     ensure (\<not> (num_less (Some (minute_of_day e a)) (hhmm_to_minutes (fa_open f)) \<or>
               num_less (hhmm_to_minutes (fa_close f)) (Some (minute_of_day e z))))
       (BadRequest (''Bookings must fall within '' @ fa_open f @ en_dash @ fa_close f)))))"

definition assert_acts_for_unit :: "auth_user \<Rightarrow> string \<Rightarrow> string \<Rightarrow> unit fsvc" where
  "assert_acts_for_unit u unit condo =
     (if is_booking_management u condo then ret ()
      else if some_role (\<lambda>r. role_unit r = Some unit) u then ret ()
      else bnd (gets (\<lambda>s. is_member u unit (fd_access s))) (\<lambda>m.
        ensure m (Forbidden ''You are not a resident of the selected unit'')))"

text \<open>The live bookings of a facility that overlap an interval, leaving out the booking \<open>skip\<close>.\<close>

definition overlapping :: "string \<Rightarrow> int \<Rightarrow> int \<Rightarrow> string option \<Rightarrow> booking list \<Rightarrow> nat" where
  "overlapping fac a z skip bs =
     count_where (\<lambda>b. bk_facility b = fac \<and> is_live b \<and> bookings_overlap (bk_start b, bk_end b) (a, z) \<and>
       Some (bk_id b) \<noteq> skip) bs"

definition assert_no_conflict :: "facility \<Rightarrow> int \<Rightarrow> int \<Rightarrow> string option \<Rightarrow> unit fsvc" where
  "assert_no_conflict f a z skip =
     bnd (gets (\<lambda>s. overlapping (fa_id f) a z skip (fd_bookings s))) (\<lambda>n.
     ensure (\<not> n \<ge> fa_max f)
       (Conflict ''That time slot is already fully booked. Please pick another slot.''))"

section \<open>Rows\<close>

definition set_booking :: "string \<Rightarrow> (booking \<Rightarrow> booking) \<Rightarrow> unit fsvc" where
  "set_booking i g = modify (\<lambda>s. s\<lparr>fd_bookings := set_row bk_id i g (fd_bookings s)\<rparr>)"

definition emit_booking :: "booking_event \<Rightarrow> unit fsvc" where
  "emit_booking v = modify (\<lambda>s. s\<lparr>fd_events := fd_events s @ [v]\<rparr>)"

definition log_booking :: "booking \<Rightarrow> auth_user \<Rightarrow> audit_action \<Rightarrow> meta \<Rightarrow> unit fsvc" where
  "log_booking b u action m =
     on_billing (log_audit \<lparr>au_condo = bk_condo b, au_unit = bk_unit b, au_actor = Some (user_id u),
       au_action = action, au_resource = ''Booking'', au_resource_id = bk_id b, au_meta = m\<rparr>)"

definition get_booking :: "auth_user \<Rightarrow> string \<Rightarrow> booking fsvc" where
  "get_booking u i =
     bnd (gets (find_booking i)) (\<lambda>found.
     bnd (need found (NotFound ''Booking not found'')) (\<lambda>b.
     bnd (ensure (bk_user b = user_id u \<or> is_booking_management u (bk_condo b))
       (Forbidden ''You cannot view this booking'')) (\<lambda>_. ret b)))"

section \<open>Fees and deposits\<close>

definition booking_meta :: "booking \<Rightarrow> facility \<Rightarrow> (string \<times> json) list" where
  "booking_meta b f = [(''bookingId'', JStr (bk_id b)), (''facilityId'', JStr (fa_id f))]"

definition fee_invoice :: "booking_env \<Rightarrow> booking \<Rightarrow> facility \<Rightarrow> auth_user \<Rightarrow> string \<Rightarrow> money \<Rightarrow> invoice fsvc" where
  "fee_invoice e b f u unit fee =
     on_billing (create_invoice_in_tx (be_svc e) (fa_condo f) unit (bk_start b) (Some (bk_start b)) (Some (bk_end b))
       [\<lparr>fl_code = ''FACILITY'', fl_desc = fa_name f @ '' booking '' @ em_dash @ '' '' @ be_locale e (bk_start b),
         fl_formula = None, fl_price = fee, fl_qty = 1, fl_fund = None\<rparr>]
       (Some (user_id u)) (map_of (booking_meta b f)))"

definition booking_deposit :: "booking_env \<Rightarrow> booking \<Rightarrow> facility \<Rightarrow> auth_user \<Rightarrow> string \<Rightarrow> money \<Rightarrow> (deposit \<times> receipt) fsvc" where
  "booking_deposit e b f u unit amount =
     on_billing (record_deposit_in_tx (be_svc e) (fa_condo f)
       \<lparr>di_unit = unit, di_user = Some (bk_user b), di_type = OTHER_DEPOSIT, di_amount = amount, di_method = None,
        di_reference = None, di_paid_at = None, di_notes = Some (''Facility booking '' @ bk_id b)\<rparr>
       (Some (fa_name f @ '' booking deposit'')) (Some (user_id u)) (JObj (booking_meta b f)))"

definition settle_money :: "booking_env \<Rightarrow> booking \<Rightarrow> facility \<Rightarrow> auth_user \<Rightarrow> booking fsvc" where
  "settle_money e b f u =
     (let fee = given_or (fa_fee f) 0; amount = given_or (fa_deposit f) 0 in
      if fee \<le> 0 \<and> amount \<le> 0 then ret b
      else
        bnd (ensure (truthy (bk_unit b))
          (BadRequest (''This facility requires a fee/deposit '' @ em_dash @ '' please book on behalf of your unit.''))) (\<lambda>_.
        let unit = given_or (bk_unit b) [] in
        bnd (if fee > 0 then bnd (fee_invoice e b f u unit fee) (\<lambda>iv. ret (Some (inv_id iv))) else ret None) (\<lambda>iv.
        bnd (if amount > 0 then bnd (booking_deposit e b f u unit amount) (\<lambda>(d, r). ret (Some (dep_id d)))
             else ret None) (\<lambda>dep.
        let g = (\<lambda>x. x\<lparr>bk_invoice := (if fee > 0 then iv else bk_invoice x), bk_fee := (if fee > 0 then fee else bk_fee x),
                      bk_deposit := (if amount > 0 then dep else bk_deposit x),
                      bk_held := (if amount > 0 then amount else bk_held x)\<rparr>) in
        bnd (set_booking (bk_id b) g) (\<lambda>_. ret (g b))))))"

definition emit_confirmed :: "booking \<Rightarrow> unit fsvc" where
  "emit_confirmed b =
     bnd (emit_booking (BookingConfirmed (bk_id b) (bk_user b))) (\<lambda>_.
     case bk_invoice b of None \<Rightarrow> ret () | Some i \<Rightarrow> only_if (i \<noteq> []) (emit_booking (FeeInvoiceIssued i)))"

section \<open>Requests\<close>

record booking_input =
  bi_facility :: string
  bi_unit :: "string option"
  bi_start :: int
  bi_end :: int
  bi_notes :: "string option"

definition new_booking :: "string \<Rightarrow> facility \<Rightarrow> auth_user \<Rightarrow> booking_input \<Rightarrow> booking" where
  "new_booking i f u d =
     \<lparr>bk_id = i, bk_facility = fa_id f, bk_condo = fa_condo f, bk_unit = bi_unit d, bk_user = user_id u,
      bk_start = bi_start d, bk_end = bi_end d, bk_status = (if fa_approval f then BK_PENDING else BK_CONFIRMED),
      bk_fee = 0, bk_held = 0, bk_invoice = None, bk_deposit = None, bk_notes = trimmed (bi_notes d),
      bk_reviewer = None, bk_reviewed_at = None, bk_cancelled_at = None\<rparr>"

definition create_booking_tx :: "booking_env \<Rightarrow> auth_user \<Rightarrow> facility \<Rightarrow> booking_input \<Rightarrow> booking fsvc" where
  "create_booking_tx e u f d =
     bnd (assert_no_conflict f (bi_start d) (bi_end d) None) (\<lambda>_.
     bnd (on_billing new_id) (\<lambda>i.
     let b = new_booking i f u d in
     bnd (modify (\<lambda>s. s\<lparr>fd_bookings := fd_bookings s @ [b]\<rparr>)) (\<lambda>_.
     bnd (if fa_approval f then ret b else settle_money e b f u) (\<lambda>b.
     bnd (log_booking b u AUDIT_CREATE
       [''facilityId'' \<mapsto> JStr (fa_id f), ''status'' \<mapsto> JStr (booking_status_text (bk_status b)),
        ''fee'' \<mapsto> JNum (if fa_approval f then 0 else given_or (fa_fee f) 0),
        ''depositHeld'' \<mapsto> JNum (if fa_approval f then 0 else given_or (fa_deposit f) 0)]) (\<lambda>_.
     ret b)))))"

definition create_booking :: "booking_env \<Rightarrow> auth_user \<Rightarrow> booking_input \<Rightarrow> booking fsvc" where
  "create_booking e u d =
     bnd (gets (find_facility (bi_facility d))) (\<lambda>found.
     bnd (need found (NotFound ''Facility not found'')) (\<lambda>f.
     bnd (ensure (fa_active f) (BadRequest ''This facility is not accepting bookings'')) (\<lambda>_.
     bnd (assert_condo_access u (fa_condo f)) (\<lambda>_.
     bnd (validate_interval e f (bi_start d) (bi_end d)) (\<lambda>_.
     bnd (if truthy (bi_unit d) then
            bnd (assert_acts_for_unit u (given_or (bi_unit d) []) (fa_condo f)) (\<lambda>_.
            on_access (assert_not_restricted (be_url e) u (given_or (bi_unit d) []) CAP_FACILITY))
          else ret ()) (\<lambda>_.
     bnd (txn (create_booking_tx e u f d)) (\<lambda>b.
     bnd (emit_booking (BookingCreated (bk_id b) (fa_id f) (bk_user b) (bk_status b))) (\<lambda>_.
     bnd (only_if (bk_status b = BK_CONFIRMED) (emit_confirmed b)) (\<lambda>_.
     get_booking u (bk_id b))))))))))"

section \<open>Lists\<close>

definition list_condo_bookings ::
  "booking_env \<Rightarrow> auth_user \<Rightarrow> string \<Rightarrow> booking_status option \<Rightarrow> string option \<Rightarrow> bool \<Rightarrow> nat \<Rightarrow> nat \<Rightarrow> (booking list \<times> nat) fsvc" where
  "list_condo_bookings e u condo st fac upcoming limit offset =
     bnd (assert_management u condo) (\<lambda>_.
     gets (\<lambda>s. let p = (\<lambda>b. bk_condo b = condo \<and> (st = None \<or> st = Some (bk_status b)) \<and>
         (\<not> truthy fac \<or> fac = Some (bk_facility b)) \<and> (\<not> upcoming \<or> bk_end b \<ge> be_now e)) in
       (take limit (drop offset (sort_key (\<lambda>b. if upcoming then bk_start b else - bk_start b) (filter p (fd_bookings s)))),
        count_where p (fd_bookings s))))"

definition list_my_bookings :: "auth_user \<Rightarrow> nat \<Rightarrow> nat \<Rightarrow> (booking list \<times> nat) fsvc" where
  "list_my_bookings u limit offset =
     gets (\<lambda>s. let p = (\<lambda>b. bk_user b = user_id u) in
       (take limit (drop offset (sort_key (\<lambda>b. - bk_start b) (filter p (fd_bookings s)))),
        count_where p (fd_bookings s)))"

section \<open>Reviews\<close>

definition approve_booking_tx :: "booking_env \<Rightarrow> auth_user \<Rightarrow> booking \<Rightarrow> facility \<Rightarrow> booking fsvc" where
  "approve_booking_tx e u b f =
     bnd (assert_no_conflict f (bk_start b) (bk_end b) (Some (bk_id b))) (\<lambda>_.
     let g = (\<lambda>x. x\<lparr>bk_status := BK_CONFIRMED, bk_reviewer := Some (user_id u), bk_reviewed_at := Some (be_now e)\<rparr>) in
     bnd (set_booking (bk_id b) g) (\<lambda>_.
     bnd (settle_money e (g b) f u) (\<lambda>b'.
     bnd (log_booking b u AUDIT_UPDATE [''status'' \<mapsto> JStr ''CONFIRMED'']) (\<lambda>_.
     ret b'))))"

definition approve_booking :: "booking_env \<Rightarrow> auth_user \<Rightarrow> string \<Rightarrow> booking fsvc" where
  "approve_booking e u i =
     bnd (gets (find_booking i)) (\<lambda>found.
     bnd (need found (NotFound ''Booking not found'')) (\<lambda>b.
     bnd (assert_management u (bk_condo b)) (\<lambda>_.
     bnd (ensure (bk_status b = BK_PENDING) (BadRequest ''Only pending bookings can be approved'')) (\<lambda>_.
     bnd (gets (find_facility (bk_facility b))) (\<lambda>fac.
     bnd (need fac (NotFound ''No Facility found'')) (\<lambda>f.
     bnd (txn (approve_booking_tx e u b f)) (\<lambda>b'.
     bnd (emit_confirmed b') (\<lambda>_.
     get_booking u i))))))))"

definition with_note :: "string \<Rightarrow> string option \<Rightarrow> string option \<Rightarrow> string option" where
  "with_note what reason notes =
     (if truthy reason then
        Some ((if truthy notes then given_or notes [] @ ''\<newline>'' else []) @ what @ '': '' @ given_or reason [])
      else notes)"

definition reject_booking :: "booking_env \<Rightarrow> auth_user \<Rightarrow> string \<Rightarrow> string option \<Rightarrow> booking fsvc" where
  "reject_booking e u i reason =
     bnd (gets (find_booking i)) (\<lambda>found.
     bnd (need found (NotFound ''Booking not found'')) (\<lambda>b.
     bnd (assert_management u (bk_condo b)) (\<lambda>_.
     bnd (ensure (bk_status b = BK_PENDING) (BadRequest ''Only pending bookings can be rejected'')) (\<lambda>_.
     bnd (txn (
       bnd (set_booking i (\<lambda>x. x\<lparr>bk_status := BK_REJECTED, bk_reviewer := Some (user_id u),
              bk_reviewed_at := Some (be_now e), bk_notes := with_note ''Rejected'' reason (bk_notes b)\<rparr>)) (\<lambda>_.
       log_booking b u AUDIT_UPDATE [''status'' \<mapsto> JStr ''REJECTED'', ''reason'' \<mapsto> opt_text reason]))) (\<lambda>_.
     bnd (emit_booking (BookingRejected i (bk_user b))) (\<lambda>_.
     get_booking u i))))))"

section \<open>Cancellations\<close>

definition cancel_booking_tx :: "booking_env \<Rightarrow> auth_user \<Rightarrow> booking \<Rightarrow> string option \<Rightarrow> unit fsvc" where
  "cancel_booking_tx e u b reason =
     bnd (set_booking (bk_id b) (\<lambda>x. x\<lparr>bk_status := BK_CANCELLED, bk_cancelled_at := Some (be_now e),
            bk_notes := with_note ''Cancelled'' reason (bk_notes b)\<rparr>)) (\<lambda>_.
     bnd (if truthy (bk_deposit b) then
            bnd (on_billing (refund_held_in_tx (be_svc e) (given_or (bk_deposit b) []) (Some (user_id u)))) (\<lambda>_. ret ())
          else ret ()) (\<lambda>_.
     bnd (if truthy (bk_invoice b) then
            bnd (on_billing (void_unpaid_invoice_in_tx (be_svc e) (given_or (bk_invoice b) []) (Some (user_id u))
              (Some ''Booking cancelled''))) (\<lambda>_. ret ())
          else ret ()) (\<lambda>_.
     log_booking b u AUDIT_UPDATE
       [''status'' \<mapsto> JStr ''CANCELLED'', ''reason'' \<mapsto> opt_text reason,
        ''byManagement'' \<mapsto> JBool (bk_user b \<noteq> user_id u)])))"

definition cancel_booking :: "booking_env \<Rightarrow> auth_user \<Rightarrow> string \<Rightarrow> string option \<Rightarrow> booking fsvc" where
  "cancel_booking e u i reason =
     bnd (gets (find_booking i)) (\<lambda>found.
     bnd (need found (NotFound ''Booking not found'')) (\<lambda>b.
     bnd (ensure (bk_user b = user_id u \<or> is_booking_management u (bk_condo b))
       (Forbidden ''You cannot cancel this booking'')) (\<lambda>_.
     bnd (ensure (bk_status b \<notin> {BK_CANCELLED, BK_REJECTED, BK_COMPLETED})
       (BadRequest ''This booking can no longer be cancelled'')) (\<lambda>_.
     bnd (txn (cancel_booking_tx e u b reason)) (\<lambda>_.
     bnd (emit_booking (BookingCancelled i (bk_user b) (bk_user b \<noteq> user_id u) (user_id u))) (\<lambda>_.
     get_booking u i))))))"

end
