(* ===== verification/Payments.thy ===== *)
theory Payments
  imports Billing
begin

text \<open>
  The payments of billing.service.ts: starting a payment through a gateway, the gateways'
  callbacks, success and failure, the review of mismatched amounts, manual payments, recurring
  invoices and the due sweep.
\<close>

section \<open>Outcomes of a gateway payment\<close>

definition is_pending :: "string \<Rightarrow> payment \<Rightarrow> bool" where
  "is_pending i p \<longleftrightarrow> pay_id p = i \<and> pay_status p = PENDING"

definition is_pending_advance :: "string \<Rightarrow> advance \<Rightarrow> bool" where
  "is_pending_advance i p \<longleftrightarrow> adv_id p = i \<and> adv_status p = PENDING"

text \<open>
  The transaction of \<open>markPaymentSucceeded\<close>. \<open>p\<close> is the row as it was read before the transaction
  began; the conditional update tests the row as it is now.
\<close>

definition settle_success :: "svc_env \<Rightarrow> payment \<Rightarrow> string \<Rightarrow> (payment option \<times> bool option) svc" where
  "settle_success e p r =
     bnd (update_payments (\<lambda>x. pay_invoice x = pay_invoice p \<and> pay_status x = PENDING \<and> pay_id x \<noteq> pay_id p)
           (\<lambda>x. x\<lparr>pay_status := CANCELLED\<rparr>)) (\<lambda>_.
     bnd (gets (find_payment (pay_id p))) (\<lambda>updated.
     bnd (settle_invoice e (pay_invoice p) (pay_user p) (pay_id p) r) (\<lambda>settlement.
     ret (updated, settlement))))"

definition succeed_tx :: "svc_env \<Rightarrow> payment \<Rightarrow> string \<Rightarrow> (payment option \<times> bool option) svc" where
  "succeed_tx e p r =
     bnd (update_payments (is_pending (pay_id p))
           (\<lambda>x. x\<lparr>pay_status := SUCCEEDED, pay_paid_at := Some (now e)\<rparr>)) (\<lambda>n.
     if n = 0 then ret (None, None) else settle_success e p r)"

definition mark_payment_succeeded :: "svc_env \<Rightarrow> string \<Rightarrow> payment option svc" where
  "mark_payment_succeeded e r =
     bnd (gets (find_payment_by_ref r)) (\<lambda>found.
     case found of None \<Rightarrow> ret None
     | Some p \<Rightarrow>
       if pay_status p = SUCCEEDED then ret (Some p) else
       bnd (txn (succeed_tx e p r)) (\<lambda>(updated, settlement).
       bnd (emit_paid (pay_invoice p) settlement) (\<lambda>_.
       ret updated)))"

definition failed_meta :: "gateway \<Rightarrow> svc_env \<Rightarrow> string \<Rightarrow> meta \<Rightarrow> meta" where
  "failed_meta g e status m =
     (let m' = m(''failedAt'' \<mapsto> JStr (iso_text g (now e)))
      in if status = [] then m' else m'(''gatewayStatus'' \<mapsto> JStr status))"

definition mark_payment_failed :: "gateway \<Rightarrow> svc_env \<Rightarrow> string \<Rightarrow> string \<Rightarrow> payment option svc" where
  "mark_payment_failed g e r status =
     bnd (gets (find_payment_by_ref r)) (\<lambda>found.
     case found of None \<Rightarrow> ret None
     | Some p \<Rightarrow>
       if pay_status p \<noteq> PENDING then ret None else
       bnd (update_payments (is_pending (pay_id p))
             (\<lambda>x. x\<lparr>pay_status := FAILED, pay_meta := failed_meta g e status (pay_meta p)\<rparr>)) (\<lambda>n.
       if n = 0 then ret None else gets (find_payment (pay_id p))))"

definition mark_advance_failed :: "gateway \<Rightarrow> svc_env \<Rightarrow> string \<Rightarrow> string \<Rightarrow> advance option svc" where
  "mark_advance_failed g e r status =
     bnd (gets (find_advance_by_ref r)) (\<lambda>found.
     case found of None \<Rightarrow> ret None
     | Some p \<Rightarrow>
       if adv_status p \<noteq> PENDING then ret None else
       bnd (update_advances (is_pending_advance (adv_id p))
             (\<lambda>x. x\<lparr>adv_status := FAILED, adv_meta := failed_meta g e status (adv_meta p)\<rparr>)) (\<lambda>n.
       if n = 0 then ret None else gets (\<lambda>s. find_row adv_id (adv_id p) (advances s))))"

text \<open>The transaction of \<open>markAdvancePaymentSucceeded\<close>.\<close>

definition succeed_advance_tx :: "svc_env \<Rightarrow> advance \<Rightarrow> string \<Rightarrow> advance option svc" where
  "succeed_advance_tx e p r =
     bnd (update_advances (is_pending_advance (adv_id p))
           (\<lambda>x. x\<lparr>adv_status := SUCCEEDED, adv_paid_at := Some (now e)\<rparr>)) (\<lambda>n.
     if n = 0 then ret None else
     bnd (gets (\<lambda>s. find_row adv_id (adv_id p) (advances s))) (\<lambda>found.
     case found of None \<Rightarrow> ret None
     | Some u \<Rightarrow>
       bnd (issue_receipt e
             \<lparr>ri_condo = adv_condo u, ri_kind = PAYMENT_RECEIPT, ri_amount = adv_amount u,
              ri_currency = Some (adv_currency u), ri_to = adv_user u, ri_unit = Some (adv_unit u),
              ri_payment = None, ri_deposit = None,
              ri_desc = Some ''Advance maintenance payment''\<rparr>) (\<lambda>rc.
       bnd (record_entry e (prepayment_entry (adv_condo u) (adv_unit u) (adv_amount u)
             (''advance-payment:'' @ adv_id u @ '':credit'') ''AdvancePayment'' (adv_id u)
             (Some (case adv_paid_at u of None \<Rightarrow> now e | Some d \<Rightarrow> d)) (adv_user u))) (\<lambda>_.
       bnd (add_credit (adv_condo u) (adv_unit u) (adv_amount u)) (\<lambda>_.
       bnd (log_audit (pay_audit (adv_condo u) (Some (adv_unit u)) (adv_user u) ''AdvancePayment'' (adv_id u)
             [''amount'' \<mapsto> JNum (adv_amount u), ''providerRef'' \<mapsto> JStr r,
              ''receiptId'' \<mapsto> JStr (rc_id rc)])) (\<lambda>_.
       ret (Some u)))))))"

definition mark_advance_succeeded :: "svc_env \<Rightarrow> string \<Rightarrow> advance option svc" where
  "mark_advance_succeeded e r =
     bnd (gets (find_advance_by_ref r)) (\<lambda>found.
     case found of None \<Rightarrow> ret None
     | Some p \<Rightarrow>
       if adv_status p = SUCCEEDED then ret (Some p) else
       bnd (txn (succeed_advance_tx e p r)) (\<lambda>result.
       bnd (case result of None \<Rightarrow> ret ()
            | Some u \<Rightarrow> apply_credit_to_outstanding e (adv_unit u) (adv_condo u)) (\<lambda>_.
       ret result)))"

definition review_meta :: "gateway \<Rightarrow> svc_env \<Rightarrow> money \<Rightarrow> money \<Rightarrow> meta \<Rightarrow> meta" where
  "review_meta g e reported expected m =
     m(''reviewReason'' \<mapsto> JStr ''AMOUNT_MISMATCH'', ''reportedAmount'' \<mapsto> JNum reported,
       ''expectedAmount'' \<mapsto> JNum expected, ''flaggedAt'' \<mapsto> JStr (iso_text g (now e)))"

definition flag_payment_for_review :: "gateway \<Rightarrow> svc_env \<Rightarrow> string \<Rightarrow> money \<Rightarrow> money \<Rightarrow> unit svc" where
  "flag_payment_for_review g e r reported expected =
     bnd (gets (find_payment_by_ref r)) (\<lambda>found.
     case found of None \<Rightarrow> ret ()
     | Some p \<Rightarrow> only_if (pay_status p = PENDING)
         (bnd (update_payments (\<lambda>x. pay_id x = pay_id p)
               (\<lambda>x. x\<lparr>pay_meta := review_meta g e reported expected (pay_meta p)\<rparr>)) (\<lambda>_. ret ())))"

definition flag_advance_for_review :: "gateway \<Rightarrow> svc_env \<Rightarrow> string \<Rightarrow> money \<Rightarrow> money \<Rightarrow> unit svc" where
  "flag_advance_for_review g e r reported expected =
     bnd (gets (find_advance_by_ref r)) (\<lambda>found.
     case found of None \<Rightarrow> ret ()
     | Some p \<Rightarrow> only_if (adv_status p = PENDING)
         (bnd (update_advances (\<lambda>x. adv_id x = adv_id p)
               (\<lambda>x. x\<lparr>adv_meta := review_meta g e reported expected (adv_meta p)\<rparr>)) (\<lambda>_. ret ())))"

section \<open>Starting a payment\<close>

definition new_payment ::
  "svc_env \<Rightarrow> string \<Rightarrow> invoice \<Rightarrow> string option \<Rightarrow> money \<Rightarrow> payment_status \<Rightarrow> payment_provider \<Rightarrow>
   int option \<Rightarrow> meta \<Rightarrow> payment" where
  "new_payment e i iv user amount st prov paid_at m =
     \<lparr>pay_id = i, pay_invoice = inv_id iv, pay_user = user, pay_amount = amount,
      pay_currency = inv_currency iv, pay_status = st, pay_provider = prov, pay_ref = None,
      pay_paid_at = paid_at, pay_meta = m, pay_created = now e\<rparr>"

definition set_payment_ref :: "string \<Rightarrow> payment_provider \<Rightarrow> string \<Rightarrow> unit svc" where
  "set_payment_ref i prov r =
     bnd (gets payments) (\<lambda>ps.
     bnd (ensure (\<forall>x \<in> set ps. \<not> (pay_provider x = prov \<and> pay_ref x = Some r \<and> pay_id x \<noteq> i))
           (UniqueViolation ''payments_provider_providerRef_key'')) (\<lambda>_.
     bnd (update_payments (\<lambda>x. pay_id x = i) (\<lambda>x. x\<lparr>pay_ref := Some r\<rparr>)) (\<lambda>_. ret ())))"

definition cancel_stale_pending_payments :: "string \<Rightarrow> unit svc" where
  "cancel_stale_pending_payments invoice_id =
     bnd (update_payments (\<lambda>p. pay_invoice p = invoice_id \<and> pay_status p = PENDING)
           (\<lambda>p. p\<lparr>pay_status := CANCELLED\<rparr>)) (\<lambda>_. ret ())"

definition not_enabled :: http_error where
  "not_enabled = BadRequest
     ''This payment method is not enabled for your condo. Please contact management.''"

definition create_payment ::
  "gateway \<Rightarrow> svc_env \<Rightarrow> auth_user \<Rightarrow> string \<Rightarrow> payment_provider \<Rightarrow> (string \<times> string) svc" where
  "create_payment g e u invoice_id prov =
     bnd (get_invoice invoice_id (Some u)) (\<lambda>iv.
     bnd (ensure (can_pay u (inv_condo iv) (inv_unit iv)) (Forbidden ''You cannot pay this invoice'')) (\<lambda>_.
     bnd (ensure (inv_status iv \<noteq> VOIDED) (BadRequest ''Cannot pay a voided invoice'')) (\<lambda>_.
     bnd (ensure (inv_status iv \<noteq> PAID) (BadRequest ''Invoice already paid'')) (\<lambda>_.
     bnd (ensure (has_adapter prov) (BadRequest (''Unsupported provider: '' @ provider_text prov))) (\<lambda>_.
     bnd (gets (resolve_credentials (inv_condo iv) prov)) (\<lambda>resolved.
     bnd (need resolved not_enabled) (\<lambda>conn.
     bnd (ensure (\<not> outstanding iv \<le> 1 / 200) (BadRequest ''Nothing left to pay on this invoice'')) (\<lambda>_.
     bnd (cancel_stale_pending_payments (inv_id iv)) (\<lambda>_.
     bnd new_id (\<lambda>i.
     bnd (insert_payment (new_payment e i iv (Some (user_id u)) (outstanding iv) PENDING prov None Map.empty)) (\<lambda>_.
     case gw_intent g prov conn i (outstanding iv) of
       Inl err \<Rightarrow> throw err
     | Inr r \<Rightarrow> bnd (set_payment_ref i prov r) (\<lambda>_. ret (i, r)))))))))))))"

definition set_advance_ref :: "string \<Rightarrow> payment_provider \<Rightarrow> string \<Rightarrow> unit svc" where
  "set_advance_ref i prov r =
     bnd (gets advances) (\<lambda>xs.
     bnd (ensure (\<forall>x \<in> set xs. \<not> (adv_provider x = prov \<and> adv_ref x = Some r \<and> adv_id x \<noteq> i))
           (UniqueViolation ''advance_payments_provider_providerRef_key'')) (\<lambda>_.
     bnd (update_advances (\<lambda>x. adv_id x = i) (\<lambda>x. x\<lparr>adv_ref := Some r\<rparr>)) (\<lambda>_. ret ())))"

definition create_advance_payment ::
  "gateway \<Rightarrow> svc_env \<Rightarrow> auth_user \<Rightarrow> string \<Rightarrow> money \<Rightarrow> payment_provider \<Rightarrow> (string \<times> string) svc" where
  "create_advance_payment g e u unit amount prov =
     bnd (gets (\<lambda>s. find_row un_id unit (units s))) (\<lambda>found.
     bnd (need found (NotFound ''Unit not found'')) (\<lambda>un.
     bnd (gets (\<lambda>s. find_row co_id (un_condo un) (condos s))) (\<lambda>condo.
     bnd (ensure (can_pay u (un_condo un) (un_id un))
           (Forbidden ''You cannot make an advance payment for this unit'')) (\<lambda>_.
     bnd (ensure (\<not> amount \<le> 0) (BadRequest ''Amount must be greater than zero'')) (\<lambda>_.
     bnd (ensure (has_adapter prov) (BadRequest (''Unsupported provider: '' @ provider_text prov))) (\<lambda>_.
     bnd (gets (resolve_credentials (un_condo un) prov)) (\<lambda>resolved.
     bnd (need resolved not_enabled) (\<lambda>conn.
     bnd (update_advances (\<lambda>a. adv_unit a = un_id un \<and> adv_user a = Some (user_id u) \<and> adv_status a = PENDING)
           (\<lambda>a. a\<lparr>adv_status := CANCELLED\<rparr>)) (\<lambda>_.
     bnd new_id (\<lambda>i.
     bnd (modify (\<lambda>s. s\<lparr>advances := advances s @
           [\<lparr>adv_id = i, adv_condo = un_condo un, adv_unit = un_id un, adv_user = Some (user_id u),
             adv_amount = amount,
             adv_currency = (case condo of None \<Rightarrow> ''MYR'' | Some c \<Rightarrow> co_currency c),
             adv_status = PENDING, adv_provider = prov, adv_ref = None, adv_paid_at = None,
             adv_meta = [''purpose'' \<mapsto> JStr ''ADVANCE_MAINTENANCE''], adv_created = now e\<rparr>]\<rparr>)) (\<lambda>_.
     case gw_intent g prov conn i amount of
       Inl err \<Rightarrow> throw err
     | Inr r \<Rightarrow> bnd (set_advance_ref i prov r) (\<lambda>_. ret (i, r)))))))))))))"

section \<open>Callbacks\<close>

text \<open>\<open>body.a ?? body.b ?? ...\<close>: the first field that is neither missing nor null.\<close>

fun first_field :: "string list \<Rightarrow> json \<Rightarrow> json" where
  "first_field [] j = JNull"
| "first_field (k # ks) j = (if json_field k j \<noteq> JNull then json_field k j else first_field ks j)"

definition callback_ref :: "gateway \<Rightarrow> json \<Rightarrow> string" where
  "callback_ref g body =
     (case first_field [''orderid'', ''RefNo'', ''refNo'', ''billRef'', ''endToEndId''] body of
        JNull \<Rightarrow> [] | j \<Rightarrow> json_text g j)"

definition body_status :: "gateway \<Rightarrow> json \<Rightarrow> string" where
  "body_status g body = (case json_field ''status'' body of JNull \<Rightarrow> [] | j \<Rightarrow> json_text g j)"

text \<open>The reported amount; \<open>None\<close> is a number that is not finite.\<close>

definition reported_amount :: "gateway \<Rightarrow> json \<Rightarrow> money \<Rightarrow> money option" where
  "reported_amount g body expected =
     (case (case first_field [''amount'', ''Amount''] body of JNull \<Rightarrow> None | j \<Rightarrow> json_number g j) of
        Some x \<Rightarrow> Some x
      | None \<Rightarrow> if json_field ''sandbox'' body = JBool True \<and> unsigned_sandbox g
                then Some expected else None)"

text \<open>What a verified callback does to the payment or advance payment it was matched with.\<close>

definition settle_callback ::
  "gateway \<Rightarrow> svc_env \<Rightarrow> bool \<Rightarrow> string \<Rightarrow> money option \<Rightarrow> money \<Rightarrow> unit svc" where
  "settle_callback g e is_payment r reported expected =
     (case reported of None \<Rightarrow> ret ()
      | Some x \<Rightarrow>
        if \<bar>x - expected\<bar> > 1 / 100
        then (if is_payment then flag_payment_for_review g e r x expected
              else flag_advance_for_review g e r x expected)
        else if is_payment then bnd (mark_payment_succeeded e r) (\<lambda>_. ret ())
        else bnd (mark_advance_succeeded e r) (\<lambda>_. ret ()))"

definition fail_callback :: "gateway \<Rightarrow> svc_env \<Rightarrow> bool \<Rightarrow> string \<Rightarrow> string \<Rightarrow> unit svc" where
  "fail_callback g e is_payment r status =
     (if is_payment then bnd (mark_payment_failed g e r status) (\<lambda>_. ret ())
      else bnd (mark_advance_failed g e r status) (\<lambda>_. ret ()))"

text \<open>The row a reference names: provider, condo and amount; payments come before advances.\<close>

definition callback_target :: "string \<Rightarrow> bdb \<Rightarrow> (bool \<times> payment_provider \<times> string \<times> money) option" where
  "callback_target r s =
     (case find_payment_by_ref r s of
        Some p \<Rightarrow> Some (True, pay_provider p,
          (case find_invoice (pay_invoice p) s of None \<Rightarrow> [] | Some iv \<Rightarrow> inv_condo iv), pay_amount p)
      | None \<Rightarrow> (case find_advance_by_ref r s of
          Some a \<Rightarrow> Some (False, adv_provider a, adv_condo a, adv_amount a)
        | None \<Rightarrow> None))"

definition handle_gateway_callback :: "gateway \<Rightarrow> svc_env \<Rightarrow> payment_provider \<Rightarrow> json \<Rightarrow> unit svc" where
  "handle_gateway_callback g e prov body =
     (let r = callback_ref g body in
      if r = [] then ret () else
      bnd (gets (callback_target r)) (\<lambda>target.
      case target of None \<Rightarrow> ret ()
      | Some (is_payment, row_prov, condo, expected) \<Rightarrow>
        if row_prov \<noteq> prov \<or> \<not> has_adapter prov \<or> condo = [] then ret () else
        bnd (gets (resolve_credentials condo prov)) (\<lambda>resolved.
        case gw_verify g prov resolved body of None \<Rightarrow> ret ()
        | Some (vr, ok, raw) \<Rightarrow>
          if \<not> ok then fail_callback g e is_payment vr (body_status g body)
          else settle_callback g e is_payment vr (reported_amount g body expected) expected)))"

text \<open>\<open>extractStripeProviderRef\<close> on the parsed payload; \<open>None\<close> is a payload that is not JSON.\<close>

definition stripe_ref :: "json option \<Rightarrow> string option" where
  "stripe_ref payload =
     (case payload of None \<Rightarrow> None
      | Some j \<Rightarrow> (case json_field ''id'' (json_field ''object'' (json_field ''data'' j)) of
          JStr t \<Rightarrow> Some t | _ \<Rightarrow> None))"

definition stripe_amount :: "json \<Rightarrow> money option" where
  "stripe_amount raw =
     (let obj = json_field ''object'' (json_field ''data'' raw) in
      case json_field ''amount_received'' obj of
        JNum c \<Rightarrow> Some (round2 (c / 100))
      | _ \<Rightarrow> (case json_field ''amount'' obj of JNum c \<Rightarrow> Some (round2 (c / 100)) | _ \<Rightarrow> None))"

text \<open>
  Stripe's webhook. A payload whose signature does not fit is \<open>None\<close> of \<open>gw_verify\<close>, which ends the call without a
  write; the code answers it with an error, since \<open>constructEvent\<close> throws.
\<close>

definition handle_stripe_callback :: "gateway \<Rightarrow> svc_env \<Rightarrow> json option \<Rightarrow> unit svc" where
  "handle_stripe_callback g e payload =
     (case stripe_ref payload of None \<Rightarrow> ret ()
      | Some r \<Rightarrow>
        if r = [] then ret () else
        bnd (gets (callback_target r)) (\<lambda>target.
        case target of None \<Rightarrow> ret ()
        | Some (is_payment, row_prov, condo, expected) \<Rightarrow>
          if row_prov \<noteq> STRIPE then ret () else
          bnd (gets (resolve_credentials condo STRIPE)) (\<lambda>resolved.
          case gw_verify g STRIPE resolved (the payload) of None \<Rightarrow> ret ()
          | Some (vr, ok, raw) \<Rightarrow>
            if \<not> ok then fail_callback g e is_payment vr ''payment_failed''
            else settle_callback g e is_payment vr (stripe_amount raw) expected)))"

section \<open>Polling DuitNow\<close>

record poll_result =
  pr_status :: payment_status
  pr_settled :: bool
  pr_pending :: "bool option"

definition poll_outcome ::
  "gateway \<Rightarrow> svc_env \<Rightarrow> bool \<Rightarrow> string \<Rightarrow> (bool \<times> bool \<times> bool) option \<Rightarrow> unit svc" where
  "poll_outcome g e is_payment r poll =
     (case poll of None \<Rightarrow> ret ()
      | Some (succeeded, failed, pending) \<Rightarrow>
        if succeeded then
          (if is_payment then bnd (mark_payment_succeeded e r) (\<lambda>_. ret ())
           else bnd (mark_advance_succeeded e r) (\<lambda>_. ret ()))
        else only_if failed (fail_callback g e is_payment r ''failed''))"

definition poll_view ::
  "payment_status \<Rightarrow> payment_status option \<Rightarrow> (bool \<times> bool \<times> bool) option \<Rightarrow> poll_result" where
  "poll_view before refreshed poll =
     \<lparr>pr_status = (case refreshed of None \<Rightarrow> before | Some st \<Rightarrow> st),
      pr_settled = (refreshed = Some SUCCEEDED),
      pr_pending = Some (case poll of Some (a, b, pending) \<Rightarrow> pending
                         | None \<Rightarrow> refreshed = Some PENDING)\<rparr>"

definition poll_duitnow_invoice :: "gateway \<Rightarrow> svc_env \<Rightarrow> auth_user \<Rightarrow> string \<Rightarrow> poll_result svc" where
  "poll_duitnow_invoice g e u i =
     bnd (gets (\<lambda>s. case find_payment i s of None \<Rightarrow> None
            | Some p \<Rightarrow> map_option (Pair p) (find_invoice (pay_invoice p) s))) (\<lambda>found.
     bnd (need found (NotFound ''Payment not found'')) (\<lambda>(p, iv).
     bnd (ensure (can_pay u (inv_condo iv) (inv_unit iv)) (Forbidden ''You cannot pay this invoice'')) (\<lambda>_.
     bnd (ensure (pay_provider p = DUITNOW_QR) (BadRequest ''Not a DuitNow QR payment'')) (\<lambda>_.
     if pay_status p \<noteq> PENDING
     then ret \<lparr>pr_status = pay_status p, pr_settled = (pay_status p = SUCCEEDED), pr_pending = None\<rparr>
     else
       bnd (gets (resolve_credentials (inv_condo iv) DUITNOW_QR)) (\<lambda>resolved.
       let r = (case pay_ref p of None \<Rightarrow> i | Some r \<Rightarrow> r); poll = gw_poll g resolved r in
       bnd (poll_outcome g e True r poll) (\<lambda>_.
       bnd (gets (\<lambda>s. map_option pay_status (find_payment i s))) (\<lambda>refreshed.
       ret (poll_view (pay_status p) refreshed poll))))))))"

definition poll_duitnow_advance :: "gateway \<Rightarrow> svc_env \<Rightarrow> auth_user \<Rightarrow> string \<Rightarrow> poll_result svc" where
  "poll_duitnow_advance g e u i =
     bnd (gets (\<lambda>s. find_row adv_id i (advances s))) (\<lambda>found.
     bnd (need found (NotFound ''Advance payment not found'')) (\<lambda>p.
     bnd (ensure (can_pay u (adv_condo p) (adv_unit p))
           (Forbidden ''You cannot make an advance payment for this unit'')) (\<lambda>_.
     bnd (ensure (adv_provider p = DUITNOW_QR) (BadRequest ''Not a DuitNow QR payment'')) (\<lambda>_.
     if adv_status p \<noteq> PENDING
     then ret \<lparr>pr_status = adv_status p, pr_settled = (adv_status p = SUCCEEDED), pr_pending = None\<rparr>
     else
       bnd (gets (resolve_credentials (adv_condo p) DUITNOW_QR)) (\<lambda>resolved.
       let r = (case adv_ref p of None \<Rightarrow> i | Some r \<Rightarrow> r); poll = gw_poll g resolved r in
       bnd (poll_outcome g e False r poll) (\<lambda>_.
       bnd (gets (\<lambda>s. map_option adv_status (find_row adv_id i (advances s)))) (\<lambda>refreshed.
       ret (poll_view (adv_status p) refreshed poll))))))))"

section \<open>Payments by hand and their review\<close>

record manual_input =
  mi_amount :: "money option"
  mi_method :: "string option"
  mi_reference :: "string option"
  mi_note :: "string option"

definition manual_payment_tx ::
  "svc_env \<Rightarrow> auth_user \<Rightarrow> invoice \<Rightarrow> money \<Rightarrow> manual_input \<Rightarrow> bool option svc" where
  "manual_payment_tx e u iv amount x =
     bnd new_id (\<lambda>i.
     bnd (insert_payment (new_payment e i iv (Some (user_id u)) amount SUCCEEDED MANUAL (Some (now e))
           [''method'' \<mapsto> JStr (case mi_method x of None \<Rightarrow> ''CASH'' | Some m \<Rightarrow> m),
            ''reference'' \<mapsto> opt_str (mi_reference x), ''note'' \<mapsto> opt_str (mi_note x),
            ''recordedByUserId'' \<mapsto> JStr (user_id u)])) (\<lambda>_.
     settle_invoice e (inv_id iv) (Some (user_id u)) i
       (case mi_reference x of None \<Rightarrow> ''manual_'' @ i | Some r \<Rightarrow> r)))"

definition record_manual_payment ::
  "svc_env \<Rightarrow> auth_user \<Rightarrow> string \<Rightarrow> manual_input \<Rightarrow> invoice svc" where
  "record_manual_payment e u invoice_id x =
     bnd (get_invoice invoice_id (Some u)) (\<lambda>iv.
     bnd (assert_condo_management u (inv_condo iv) True) (\<lambda>_.
     bnd (ensure (inv_status iv \<noteq> VOIDED)
           (BadRequest ''Cannot record a payment on a voided invoice'')) (\<lambda>_.
     bnd (ensure (inv_status iv \<noteq> PAID) (BadRequest ''Invoice is already fully paid'')) (\<lambda>_.
     let amount = (case mi_amount x of None \<Rightarrow> outstanding iv | Some a \<Rightarrow> a) in
     bnd (ensure (\<not> amount \<le> 0) (BadRequest ''Payment amount must be greater than zero'')) (\<lambda>_.
     bnd (ensure (\<not> amount > outstanding iv + 1 / 200)
           (BadRequest ''Payment exceeds the outstanding balance'')) (\<lambda>_.
     bnd (txn (manual_payment_tx e u iv amount x)) (\<lambda>settlement.
     bnd (emit_paid (inv_id iv) settlement) (\<lambda>_.
     get_invoice (inv_id iv) None))))))))"

definition json_truthy :: "json option \<Rightarrow> bool" where
  "json_truthy j =
     (case j of None \<Rightarrow> False | Some JNull \<Rightarrow> False | Some (JBool b) \<Rightarrow> b | Some (JNum x) \<Rightarrow> x \<noteq> 0
      | Some (JStr t) \<Rightarrow> t \<noteq> [] | Some _ \<Rightarrow> True)"

definition condo_of_payment :: "payment \<Rightarrow> bdb \<Rightarrow> string option" where
  "condo_of_payment p s = map_option inv_condo (find_invoice (pay_invoice p) s)"

text \<open>The rows of \<open>listPaymentIssues\<close>: the hundred latest failed or pending ones, then the filter.\<close>

definition list_payment_issues :: "auth_user \<Rightarrow> string \<Rightarrow> payment list svc" where
  "list_payment_issues u condo =
     bnd (assert_condo_management u condo False) (\<lambda>_.
     gets (\<lambda>s. filter (\<lambda>p. pay_status p = FAILED \<or> json_truthy (pay_meta p ''reviewReason''))
       (take 100 (sort_key (\<lambda>p. - pay_created p)
         (filter (\<lambda>p. condo_of_payment p s = Some condo \<and> pay_status p \<in> {FAILED, PENDING})
           (payments s))))))"

definition find_payment_and_condo :: "string \<Rightarrow> bdb \<Rightarrow> (payment \<times> string) option" where
  "find_payment_and_condo i s =
     (case find_payment i s of None \<Rightarrow> None
      | Some p \<Rightarrow> map_option (Pair p) (condo_of_payment p s))"

definition dismiss_payment :: "gateway \<Rightarrow> svc_env \<Rightarrow> auth_user \<Rightarrow> string \<Rightarrow> unit svc" where
  "dismiss_payment g e u i =
     bnd (gets (find_payment_and_condo i)) (\<lambda>found.
     bnd (need found (NotFound ''Payment not found'')) (\<lambda>(p, condo).
     bnd (assert_condo_management u condo True) (\<lambda>_.
     bnd (ensure (pay_status p = PENDING \<or> pay_status p = FAILED)
           (BadRequest ''Only pending or failed payments can be dismissed'')) (\<lambda>_.
     bnd (update_payments (\<lambda>x. pay_id x = i) (\<lambda>x. x\<lparr>pay_status := CANCELLED,
           pay_meta := (pay_meta p)(''dismissedByUserId'' \<mapsto> JStr (user_id u),
             ''dismissedAt'' \<mapsto> JStr (iso_text g (now e)))\<rparr>)) (\<lambda>_. ret ())))))"

definition approve_reviewed_payment ::
  "gateway \<Rightarrow> svc_env \<Rightarrow> auth_user \<Rightarrow> string \<Rightarrow> payment option svc" where
  "approve_reviewed_payment g e u i =
     bnd (gets (find_payment_and_condo i)) (\<lambda>found.
     bnd (need found (NotFound ''Payment not found'')) (\<lambda>(p, condo).
     bnd (assert_condo_management u condo True) (\<lambda>_.
     bnd (ensure (pay_status p = PENDING) (BadRequest ''Only pending payments can be approved'')) (\<lambda>_.
     bnd (ensure (json_truthy (pay_meta p ''reviewReason''))
           (BadRequest ''Payment is not flagged for review'')) (\<lambda>_.
     bnd (ensure (truthy (pay_ref p)) (BadRequest ''Payment has no gateway reference'')) (\<lambda>_.
     bnd (update_payments (\<lambda>x. pay_id x = i) (\<lambda>x. x\<lparr>pay_meta :=
           (pay_meta p)(''approvedByUserId'' \<mapsto> JStr (user_id u),
             ''approvedAt'' \<mapsto> JStr (iso_text g (now e)))\<rparr>)) (\<lambda>_.
     mark_payment_succeeded e (the (pay_ref p)))))))))"

section \<open>The due sweep\<close>

definition due_soon_window_days :: int where
  "due_soon_window_days = 5"

definition notify_due_soon :: "gateway \<Rightarrow> svc_env \<Rightarrow> invoice \<Rightarrow> nat svc" where
  "notify_due_soon g e iv =
     (if json_truthy (inv_meta iv ''dueSoonNotifiedAt'') then ret 0
      else bnd (update_invoice (inv_id iv) (\<lambda>x. x\<lparr>inv_meta :=
             (inv_meta iv)(''dueSoonNotifiedAt'' \<mapsto> JStr (iso_text g (now e)))\<rparr>)) (\<lambda>_.
           bnd (emit (InvoiceDueSoon (inv_id iv))) (\<lambda>_. ret 1)))"

text \<open>The result: how many invoices became overdue and how many reminders went out.\<close>

definition run_due_sweep :: "gateway \<Rightarrow> svc_env \<Rightarrow> auth_user \<Rightarrow> string \<Rightarrow> (nat \<times> nat) svc" where
  "run_due_sweep g e u condo =
     bnd (assert_condo_management u condo True) (\<lambda>_.
     bnd (gets (\<lambda>s. map inv_id (filter (\<lambda>i. inv_condo i = condo \<and> inv_status i \<in> {ISSUED, PARTIAL} \<and>
           inv_due i < now e) (invoices s)))) (\<lambda>overdue.
     bnd (only_if (overdue \<noteq> [])
           (bnd (modify (\<lambda>s. s\<lparr>invoices := set_where (\<lambda>i. inv_id i \<in> set overdue)
                   (\<lambda>i. i\<lparr>inv_status := OVERDUE\<rparr>) (invoices s)\<rparr>)) (\<lambda>_.
            bnd (for_each overdue (\<lambda>i. emit (InvoiceOverdue i))) (\<lambda>_. ret ())))) (\<lambda>_.
     bnd (gets (\<lambda>s. filter (\<lambda>i. inv_condo i = condo \<and> inv_status i = ISSUED \<and> now e \<le> inv_due i \<and>
           inv_due i \<le> now e + due_soon_window_days * 86400000) (invoices s))) (\<lambda>due_soon.
     bnd (for_each due_soon (notify_due_soon g e)) (\<lambda>ns.
     ret (length overdue, sum_list ns))))))"

section \<open>Recurring invoices\<close>

record recurring_input =
  gr_start :: int
  gr_end :: int
  gr_due :: int
  gr_units :: "string list"
  gr_lines :: "fee_line list"

record recurring_options =
  go_skip_auth :: bool
  go_meta :: meta
  go_triggered_by :: "string option"

record recurring_result =
  gn_created :: nat
  gn_skipped :: nat
  gn_no_rate :: nat
  gn_units :: nat

text \<open>The lines of one unit: the explicit ones, or those of the fee schedule.\<close>

definition recurring_lines ::
  "svc_env \<Rightarrow> bdb \<Rightarrow> fee_line list \<Rightarrow> extra_line list \<Rightarrow> unit_row \<Rightarrow> fee_line list" where
  "recurring_lines e s explicit extra un =
     (if explicit = []
      then compute_lines_for_unit e s un @ compute_extra_lines_for_unit e s un extra
      else explicit)"

text \<open>\<open>slice(chunkStart, chunkStart + CHUNK_SIZE)\<close>, for all chunks.\<close>

fun chunks_of :: "nat \<Rightarrow> 'a list \<Rightarrow> 'a list list" where
  "chunks_of n [] = []"
| "chunks_of n (x # xs) = (x # take (n - 1) xs) # chunks_of n (drop (n - 1) xs)"

definition recurring_meta ::
  "recurring_options \<Rightarrow> string option \<Rightarrow> string option \<Rightarrow> bool \<Rightarrow> nat \<Rightarrow> meta" where
  "recurring_meta opts issuer triggered from_schedule extra_count =
     [''recurring'' \<mapsto> JBool True, ''fromFeeSchedule'' \<mapsto> JBool from_schedule,
      ''extraScheduleLineCount'' \<mapsto> JNum (of_nat extra_count),
      ''issuedByUserId'' \<mapsto> opt_str issuer, ''triggeredByUserId'' \<mapsto> opt_str triggered] ++ go_meta opts"

text \<open>The transaction of one chunk, and the credit that is applied after it.\<close>

definition issue_chunk ::
  "svc_env \<Rightarrow> string \<Rightarrow> recurring_input \<Rightarrow> meta \<Rightarrow> string option \<Rightarrow> (unit_row \<times> fee_line list) list \<Rightarrow>
   (string \<times> string) list svc" where
  "issue_chunk e condo x m actor pending =
     bnd (txn (for_each pending (\<lambda>(un, ls).
           bnd (issue_tx e condo (un_id un) (gr_start x) (gr_end x) (gr_due x) ls (map charge_of ls) m actor)
             (\<lambda>iv. ret (inv_id iv, un_id un))))) (\<lambda>rows.
     bnd (for_each rows (\<lambda>(i, unit). apply_credit_to_invoice e i unit condo)) (\<lambda>_.
     ret rows))"

definition period_duplicate :: "http_error \<Rightarrow> bool" where
  "period_duplicate err \<longleftrightarrow> err = UniqueViolation ''invoices_unitId_periodStart_active_key''"

text \<open>One round of the loop over the chunks: the ids created, the units skipped and those without lines.\<close>

definition run_chunk ::
  "svc_env \<Rightarrow> string \<Rightarrow> recurring_input \<Rightarrow> meta \<Rightarrow> string option \<Rightarrow> string set \<Rightarrow>
   (unit_row \<times> fee_line list) list \<Rightarrow> (string list \<times> nat \<times> nat) svc" where
  "run_chunk e condo x m actor existing chunk =
     (let billable = filter (\<lambda>(un, ls). ls \<noteq> []) chunk;
          pending = filter (\<lambda>(un, ls). un_id un \<notin> existing) billable;
          no_rate = length chunk - length billable;
          skipped = length billable - length pending
      in if pending = [] then ret ([], skipped, no_rate)
         else bnd (catch_err
                (bnd (issue_chunk e condo x m actor pending) (\<lambda>rows. ret (map fst rows, skipped)))
                (\<lambda>err. if period_duplicate err then ret ([], skipped + length pending) else throw err))
              (\<lambda>(ids, sk). ret (ids, sk, no_rate)))"

definition generate_recurring ::
  "svc_env \<Rightarrow> auth_user option \<Rightarrow> string \<Rightarrow> recurring_input \<Rightarrow> recurring_options \<Rightarrow> recurring_result svc" where
  "generate_recurring e actor condo x opts =
     bnd (gets (\<lambda>s. find_row co_id condo (condos s))) (\<lambda>found.
     bnd (need found (NotFound ''Condo not found'')) (\<lambda>_.
     bnd (only_if (\<not> go_skip_auth opts)
           (case actor of
              None \<Rightarrow> throw (Forbidden ''You cannot manage billing for this condo'')
            | Some u \<Rightarrow> assert_condo_management u condo True)) (\<lambda>_.
     let explicit = filter (\<lambda>l. fl_price l > 0) (map (\<lambda>l. l\<lparr>fl_fund := None\<rparr>) (gr_lines x));
         by_user = (case go_triggered_by opts of Some t \<Rightarrow> Some t | None \<Rightarrow> map_option user_id actor)
     in
     bnd (gets (\<lambda>s. if explicit = [] then list_active_extra_lines condo (gr_start x) (gr_end x) s else [])) (\<lambda>extra.
     bnd (gets (\<lambda>s. filter (\<lambda>un. un_condo un = condo \<and>
           (gr_units x = [] \<or> un_id un \<in> set (gr_units x))) (units s))) (\<lambda>us.
     bnd (gets (\<lambda>s. set (map inv_unit (filter (\<lambda>i. inv_period_start i = gr_start x \<and>
           inv_status i \<noteq> VOIDED) (invoices s))))) (\<lambda>existing.
     bnd (gets (\<lambda>s. map (\<lambda>un. (un, recurring_lines e s explicit extra un)) us)) (\<lambda>rows.
     let m = recurring_meta opts (map_option user_id actor) by_user (explicit = []) (length extra) in
     bnd (for_each (chunks_of 75 rows) (run_chunk e condo x m by_user existing)) (\<lambda>rs.
     let ids = concat (map fst rs) in
     bnd (for_each ids (\<lambda>i. emit (InvoiceIssued i))) (\<lambda>_.
     ret \<lparr>gn_created = length ids, gn_skipped = sum_list (map (fst \<circ> snd) rs),
          gn_no_rate = sum_list (map (snd \<circ> snd) rs), gn_units = length us\<rparr>)))))))))"

end
