(* ===== verification/Billing_Invariants.thy ===== *)
theory Billing_Invariants
  imports Payments
begin

text \<open>
  The invariant of the billing tables and its preservation by every operation of the billing
  service: ids are unique, an invoice's paid amount is the sum of its successful payments, a PAID
  invoice is covered, a unit has one live invoice per period, invoice numbers are unique in a
  condo, an invoice has at most one pending payment, and payments only move along the legal status changes.
\<close>

section \<open>Status changes\<close>

locale status_machine =
  fixes move :: "'a \<Rightarrow> 'a \<Rightarrow> bool" and final :: "'a \<Rightarrow> bool"
  assumes final_stuck: "final x \<Longrightarrow> \<not> move x y"
begin

lemma final_stays: "move\<^sup>*\<^sup>* x y \<Longrightarrow> final x \<Longrightarrow> y = x"
  by (induction rule: converse_rtranclp_induct) (auto dest: final_stuck)

lemma not_final_before: "move\<^sup>*\<^sup>* x y \<Longrightarrow> x \<noteq> y \<Longrightarrow> \<not> final x"
  using final_stays by blast

end

inductive pay_move :: "payment_status \<Rightarrow> payment_status \<Rightarrow> bool" where
  succeed: "pay_move PENDING SUCCEEDED"
| fail: "pay_move PENDING FAILED"
| cancel: "pay_move PENDING CANCELLED"
| dismiss: "pay_move FAILED CANCELLED"

inductive_simps pay_move_simps:
  "pay_move x SUCCEEDED" "pay_move SUCCEEDED y" "pay_move CANCELLED y" "pay_move REFUNDED_PAYMENT y"
  "pay_move x y"

definition pay_final :: "payment_status \<Rightarrow> bool" where
  "pay_final st \<longleftrightarrow> st \<in> {SUCCEEDED, CANCELLED, REFUNDED_PAYMENT}"

interpretation pay_machine: status_machine pay_move pay_final
  by unfold_locales (auto simp: pay_final_def pay_move_simps)

lemma moves_to_pending: "pay_move\<^sup>*\<^sup>* x y \<Longrightarrow> y = PENDING \<Longrightarrow> x = PENDING"
  by (induction rule: rtranclp_induct) (auto simp: pay_move_simps)

text \<open>Every payment of before is still there, the same but for its status, which moved legally.\<close>

definition same_payment :: "payment \<Rightarrow> payment \<Rightarrow> bool" where
  "same_payment p q \<longleftrightarrow> pay_id q = pay_id p \<and> pay_invoice q = pay_invoice p \<and>
     pay_amount q = pay_amount p \<and> pay_move\<^sup>*\<^sup>* (pay_status p) (pay_status q)"

definition evolves :: "payment list \<Rightarrow> payment list \<Rightarrow> bool" where
  "evolves ps qs \<longleftrightarrow> (\<forall>p \<in> set ps. \<exists>q \<in> set qs. same_payment p q)"

lemma same_payment_refl [simp]: "same_payment p p"
  by (simp add: same_payment_def)

lemma same_payment_trans: "same_payment p q \<Longrightarrow> same_payment q r \<Longrightarrow> same_payment p r"
  by (auto simp: same_payment_def)

lemma evolves_refl [simp]: "evolves ps ps"
  by (auto simp: evolves_def intro: same_payment_refl)

lemma evolves_append: "evolves ps qs \<Longrightarrow> evolves ps (qs @ rs)"
  by (fastforce simp: evolves_def)

lemma evolves_map:
  "evolves ps qs \<Longrightarrow> (\<And>q. q \<in> set qs \<Longrightarrow> same_payment q (f q)) \<Longrightarrow> evolves ps (map f qs)"
  unfolding evolves_def by (metis image_eqI list.set_map same_payment_trans)

section \<open>The invariant\<close>

definition used :: "bdb \<Rightarrow> string set" where
  "used s = uuids s ` {..<next_uuid s}"

definition ids_ok :: "bdb \<Rightarrow> bool" where
  "ids_ok s \<longleftrightarrow> inj (uuids s) \<and>
     distinct (map inv_id (invoices s)) \<and> inv_id ` set (invoices s) \<subseteq> used s \<and>
     distinct (map pay_id (payments s)) \<and> pay_id ` set (payments s) \<subseteq> used s \<and>
     pay_invoice ` set (payments s) \<subseteq> inv_id ` set (invoices s) \<and>
     (\<forall>p \<in> set (payments s). 0 \<le> pay_amount p)"

text \<open>Paid amounts; the invoices of \<open>X\<close> are about to be settled and may lag behind.\<close>

definition paid_ok :: "string set \<Rightarrow> bdb \<Rightarrow> bool" where
  "paid_ok X s \<longleftrightarrow> (\<forall>iv \<in> set (invoices s).
     (if inv_id iv \<in> X then inv_paid iv \<le> paid_sum (inv_id iv) (payments s)
      else inv_paid iv = paid_sum (inv_id iv) (payments s)) \<and>
     (inv_status iv = PAID \<longrightarrow> inv_total iv \<le> inv_paid iv))"

definition periods_ok :: "bdb \<Rightarrow> bool" where
  "periods_ok s \<longleftrightarrow> (\<forall>x \<in> set (invoices s). \<forall>y \<in> set (invoices s).
     inv_id x \<noteq> inv_id y \<and> inv_status x \<noteq> VOIDED \<and> inv_status y \<noteq> VOIDED \<longrightarrow> \<not> same_period x y)"

definition numbers_ok :: "bdb \<Rightarrow> bool" where
  "numbers_ok s \<longleftrightarrow> distinct (map (\<lambda>i. (inv_condo i, inv_number i)) (invoices s))"

definition pending_ok :: "bdb \<Rightarrow> bool" where
  "pending_ok s \<longleftrightarrow> (\<forall>p \<in> set (payments s). \<forall>q \<in> set (payments s).
     pay_status p = PENDING \<and> pay_status q = PENDING \<and> pay_invoice p = pay_invoice q \<longrightarrow>
     pay_id p = pay_id q)"

lemma pending_ok_cong: "payments t = payments s \<Longrightarrow> pending_ok t = pending_ok s"
  by (simp only: pending_ok_def)

definition billing_inv :: "payment list \<Rightarrow> string set \<Rightarrow> bdb \<Rightarrow> bool" where
  "billing_inv ps X s \<longleftrightarrow>
     ids_ok s \<and> paid_ok X s \<and> periods_ok s \<and> numbers_ok s \<and> pending_ok s \<and> evolves ps (payments s)"

abbreviation billing_ok :: "payment list \<Rightarrow> bdb \<Rightarrow> bool" where
  "billing_ok ps \<equiv> billing_inv ps {}"

section \<open>Actions that leave invoices and payments alone\<close>

definition grows :: "bdb \<Rightarrow> bdb \<Rightarrow> bool" where
  "grows s t \<longleftrightarrow> uuids t = uuids s \<and> invoices t = invoices s \<and> payments t = payments s \<and>
     next_uuid s \<le> next_uuid t"

lemma grows_refl [simp]: "grows s s"
  by (simp add: grows_def)

lemma grows_inv:
  assumes g: "grows s t" and inv: "billing_inv ps X s"
  shows "billing_inv ps X t"
proof -
  have eq: "uuids t = uuids s" "invoices t = invoices s" "payments t = payments s" and "used s \<subseteq> used t"
    using g by (auto simp: grows_def used_def)
  with inv have "ids_ok t" unfolding billing_inv_def ids_ok_def by (simp add: subset_trans [of _ "used s"])
  with inv eq show ?thesis
    by (simp add: billing_inv_def paid_ok_def periods_ok_def numbers_ok_def pending_ok_cong [of t s])
qed

lemma grows_preserves: "(\<And>s. preserves (grows s) m) \<Longrightarrow> preserves (billing_inv ps X) m"
proof (rule preservesI)
  fix s assume "\<And>s. preserves (grows s) m" and "billing_inv ps X s"
  then show "billing_inv ps X (snd (m s))"
    using preserves_snd [of "grows s" m s] grows_inv by auto
qed

lemma grows_new_id [pres]: "preserves (grows s) new_id"
  by (rule preservesI) (auto simp: new_id_def grows_def)

lemma grows_emit [pres]: "preserves (grows s) (emit v)"
  unfolding emit_def by (rule preserves_modify) (simp add: grows_def)

lemma grows_log_audit [pres]: "preserves (grows s) (log_audit a)"
  unfolding log_audit_def by (rule preserves_modify) (simp add: grows_def)

lemma grows_add_account [pres]: "preserves (grows s) (add_account a)"
  unfolding add_account_def by (rule preserves_modify) (simp add: grows_def)

lemma grows_seed_rows [pres]: "preserves (grows s) (seed_rows condo rs m)"
  by (induction rs arbitrary: m) (auto intro!: pres)

lemma grows_ensure_seeded [pres]: "preserves (grows s) (ensure_seeded condo)"
  unfolding ensure_seeded_def by (intro pres)

lemma grows_post_entry [pres]: "preserves (grows s) (post_entry p)"
  unfolding post_entry_def Let_def
  by (intro pres preserves_modify) (simp add: grows_def)

lemma grows_postings [pres]:
  "preserves (grows s) (post_invoice_charges e i condo n d ls a)"
  "preserves (grows s) (post_payment e p condo n al d a)"
  unfolding post_invoice_charges_def post_payment_def Let_def by (intro pres)+

lemma grows_append_entry [pres]: "preserves (grows s) (append_entry e x)"
  unfolding append_entry_def by (intro pres preserves_modify) (simp add: grows_def)

lemma grows_record_entry [pres]: "preserves (grows s) (record_entry e x)"
  unfolding record_entry_def by (intro pres)

lemma grows_create_entries [pres]: "preserves (grows s) (create_entries e xs)"
  unfolding create_entries_def by (intro pres)

lemma grows_ledger_ops [pres]:
  "preserves (grows s) (record_invoice_charges e iv ls a)"
  "preserves (grows s) (reverse_invoice_charges e iv a r)"
  "preserves (grows s) (record_payment_allocation e i p x d a)"
  unfolding record_invoice_charges_def reverse_invoice_charges_def record_payment_allocation_def
  by (intro pres)+

lemma grows_add_credit [pres]: "preserves (grows s) (add_credit condo unit x)"
  unfolding add_credit_def
  by (rule preserves_modify) (simp add: grows_def split: option.split)

lemma grows_consume_credit [pres]: "preserves (grows s) (consume_credit unit x)"
  unfolding consume_credit_def by (intro pres preserves_modify) (simp add: grows_def)

lemma grows_get_credit [pres]: "preserves (grows s) (get_credit unit)"
  unfolding get_credit_def by (rule pres)

lemma grows_bump_sequence [pres]: "preserves (grows s) (bump_sequence condo kind y m)"
  unfolding bump_sequence_def Let_def by (intro pres preserves_modify) (simp_all add: grows_def)

lemma grows_numbers [pres]:
  "preserves (grows s) (next_invoice_number e condo)"
  "preserves (grows s) (next_receipt_number e condo p)"
  unfolding next_invoice_number_def next_receipt_number_def Let_def by (intro pres)+

lemma grows_issue_receipt [pres]: "preserves (grows s) (issue_receipt e x)"
  unfolding issue_receipt_def create_receipt_def Let_def
  by (intro pres preserves_modify) (simp add: grows_def)

lemma grows_update_advances [pres]: "preserves (grows s) (update_advances c f)"
  unfolding update_advances_def by (intro pres preserves_modify) (simp add: grows_def)

lemma grows_emit_paid [pres]: "preserves (grows s) (emit_paid i st)"
  unfolding emit_paid_def by (intro pres)

text \<open>In a run, such an action keeps the invariant and all it does not write.\<close>

lemma wp_grows:
  "preserves (grows s) m \<Longrightarrow> (\<And>x t. grows s t \<Longrightarrow> Q x t) \<Longrightarrow> (\<And>t. grows s t \<Longrightarrow> E t) \<Longrightarrow> wp m Q E s"
  by (rule wp_preserves [of "grows s"]) auto

section \<open>Writes to invoices and payments\<close>

lemma paid_sum_append [simp]: "paid_sum i (ps @ qs) = paid_sum i ps + paid_sum i qs"
  by (simp add: paid_sum_def)

lemma paid_sum_foreign: "i \<notin> pay_invoice ` set ps \<Longrightarrow> paid_sum i ps = 0"
  unfolding paid_sum_def by (rule sum_where_none) auto

lemma paid_sum_mono:
  "list_all2 (\<lambda>p q. pay_invoice q = pay_invoice p \<and> pay_amount q = pay_amount p \<and> 0 \<le> pay_amount p \<and>
     (pay_status p = SUCCEEDED \<longrightarrow> pay_status q = SUCCEEDED)) ps qs \<Longrightarrow> paid_sum i ps \<le> paid_sum i qs"
  unfolding paid_sum_def by (induction rule: list_all2_induct) auto

lemma paid_sum_cong:
  "list_all2 (\<lambda>p q. pay_invoice q = pay_invoice p \<and> pay_amount q = pay_amount p \<and>
     (pay_invoice p = i \<longrightarrow> (pay_status q = SUCCEEDED) = (pay_status p = SUCCEEDED))) ps qs \<Longrightarrow>
   paid_sum i qs = paid_sum i ps"
  unfolding paid_sum_def by (induction rule: list_all2_induct) auto

definition same_invoice :: "invoice \<Rightarrow> invoice \<Rightarrow> bool" where
  "same_invoice x y \<longleftrightarrow> inv_id y = inv_id x \<and> inv_condo y = inv_condo x \<and> inv_unit y = inv_unit x \<and>
     inv_number y = inv_number x \<and> inv_period_start y = inv_period_start x"

definition figures_ok :: "string set \<Rightarrow> payment list \<Rightarrow> invoice \<Rightarrow> bool" where
  "figures_ok X ps iv \<longleftrightarrow>
     (if inv_id iv \<in> X then inv_paid iv \<le> paid_sum (inv_id iv) ps
      else inv_paid iv = paid_sum (inv_id iv) ps) \<and>
     (inv_status iv = PAID \<longrightarrow> inv_total iv \<le> inv_paid iv)"

lemma paid_ok_figures: "paid_ok X s \<longleftrightarrow> (\<forall>iv \<in> set (invoices s). figures_ok X (payments s) iv)"
  by (simp add: paid_ok_def figures_ok_def)

text \<open>A fresh id is one that no row has.\<close>

lemma wp_new_id:
  assumes "billing_inv ps X s"
    and "\<And>t i. billing_inv ps X t \<Longrightarrow> grows s t \<Longrightarrow> i \<in> used t \<Longrightarrow> i \<notin> used s \<Longrightarrow> Q i t"
  shows "wp new_id Q E s"
proof -
  let ?t = "s\<lparr>next_uuid := Suc (next_uuid s)\<rparr>" and ?i = "uuids s (next_uuid s)"
  have g: "grows s ?t" by (simp add: grows_def)
  have "inj (uuids s)" using assms(1) by (simp add: billing_inv_def ids_ok_def)
  then have "?i \<notin> used s" by (auto simp: used_def inj_def)
  moreover have "?i \<in> used ?t" by (simp add: used_def)
  ultimately have "Q ?i ?t" using assms(2) grows_inv [OF g assms(1)] g by blast
  then show ?thesis by (simp add: wp_def new_id_def)
qed

lemma used_ids:
  assumes "billing_inv ps X s" and "i \<notin> used s"
  shows "i \<notin> inv_id ` set (invoices s)" and "i \<notin> pay_id ` set (payments s)"
    and "i \<notin> pay_invoice ` set (payments s)"
  using assms unfolding billing_inv_def ids_ok_def by blast+

text \<open>A new invoice: fresh, unpaid.\<close>

lemma wp_insert_invoice:
  assumes iv: "billing_inv ps X s" "inv_id iv \<in> used s" "inv_id iv \<notin> inv_id ` set (invoices s)"
      "inv_paid iv = 0" "inv_status iv \<noteq> PAID"
    and q: "\<And>t. billing_inv ps X t \<Longrightarrow> iv \<in> set (invoices t) \<Longrightarrow> Q () t" and e: "E s"
  shows "wp (insert_invoice iv) Q E s"
proof -
  let ?t = "s\<lparr>invoices := invoices s @ [iv]\<rparr>"
  have "paid_sum (inv_id iv) (payments s) = 0"
    using iv(1,3) by (intro paid_sum_foreign) (auto simp: billing_inv_def ids_ok_def)
  then have fig: "paid_ok X ?t"
    using iv unfolding billing_inv_def paid_ok_def by simp
  have "ids_ok ?t" using iv unfolding billing_inv_def ids_ok_def by (auto simp: used_def)
  moreover have "pending_ok ?t" using iv(1) pending_ok_cong [of ?t s] by (simp add: billing_inv_def)
  moreover have "evolves ps (payments ?t)" using iv(1) by (simp add: billing_inv_def)
  ultimately have "billing_inv ps X ?t"
    if "\<forall>x \<in> set (invoices s). \<not> (inv_condo x = inv_condo iv \<and> inv_number x = inv_number iv)"
      "\<forall>x \<in> set (invoices s). \<not> (inv_unit x = inv_unit iv \<and>
             inv_period_start x = inv_period_start iv \<and> inv_status x \<noteq> VOIDED \<and> inv_status iv \<noteq> VOIDED)"
    using fig iv(1) that unfolding billing_inv_def periods_ok_def numbers_ok_def same_period_def by auto
  then show ?thesis using q [of ?t] e by (simp add: insert_invoice_def wp)
qed

text \<open>A new payment of an invoice there is.\<close>

lemma insert_payment_inv:
  assumes "billing_inv ps X s" "pay_id p \<in> used s" "pay_id p \<notin> pay_id ` set (payments s)"
    "pay_invoice p \<in> inv_id ` set (invoices s)" "0 \<le> pay_amount p"
    "pay_status p = PENDING \<Longrightarrow>
       \<forall>q \<in> set (payments s). pay_invoice q = pay_invoice p \<longrightarrow> pay_status q \<noteq> PENDING"
  defines "t \<equiv> s\<lparr>payments := payments s @ [p]\<rparr>"
  shows "billing_inv ps (insert (pay_invoice p) X) t"
    and "pay_status p \<noteq> SUCCEEDED \<Longrightarrow> billing_inv ps X t"
proof -
  have e: "evolves ps (payments t)" using assms(1) by (simp add: t_def billing_inv_def evolves_append)
  have i: "ids_ok t" using assms(1-5) by (auto simp: t_def billing_inv_def ids_ok_def used_def)
  have o: "periods_ok t" "numbers_ok t"
    using assms(1) by (simp_all add: t_def billing_inv_def periods_ok_def numbers_ok_def)
  have n: "pending_ok t"
  proof -
    have "pending_ok s" using assms(1) by (simp add: billing_inv_def)
    moreover have "set (payments t) = insert p (set (payments s))" by (simp add: t_def)
    ultimately show ?thesis using assms(6) unfolding pending_ok_def by (metis insert_iff)
  qed
  have x: "paid_sum i [p] = (if pay_invoice p = i \<and> pay_status p = SUCCEEDED then pay_amount p else 0)" for i
    by (simp add: paid_sum_def)
  have f: "figures_ok X (payments s) iv" if "iv \<in> set (invoices s)" for iv
    using assms(1) that by (simp add: billing_inv_def paid_ok_figures)
  have le: "inv_paid iv \<le> paid_sum (inv_id iv) (payments s)" if "iv \<in> set (invoices s)" for iv
    using f [OF that] by (simp add: figures_ok_def split: if_splits)
  have "figures_ok (insert (pay_invoice p) X) (payments t) iv" if "iv \<in> set (invoices s)" for iv
    using f [OF that] le [OF that] assms(5) by (auto simp: figures_ok_def t_def x)
  then have "paid_ok (insert (pay_invoice p) X) t" by (simp add: paid_ok_figures) (simp add: t_def)
  with e i o n show "billing_inv ps (insert (pay_invoice p) X) t" by (simp add: billing_inv_def)
  assume "pay_status p \<noteq> SUCCEEDED"
  then have "paid_ok X t" using assms(1) unfolding billing_inv_def paid_ok_def t_def by (auto simp: x)
  with e i o n show "billing_inv ps X t" by (simp add: billing_inv_def)
qed

lemma wp_insert_payment:
  assumes "billing_inv ps X s" "pay_id p \<in> used s" "pay_id p \<notin> pay_id ` set (payments s)"
    "pay_invoice p \<in> inv_id ` set (invoices s)" "0 \<le> pay_amount p"
    "pay_status p = PENDING \<Longrightarrow>
       \<forall>q \<in> set (payments s). pay_invoice q = pay_invoice p \<longrightarrow> pay_status q \<noteq> PENDING"
    and "\<And>t. billing_inv ps (insert (pay_invoice p) X) t \<Longrightarrow> invoices t = invoices s \<Longrightarrow>
      (pay_status p \<noteq> SUCCEEDED \<Longrightarrow> billing_inv ps X t) \<Longrightarrow> Q () t"
  shows "wp (insert_payment p) Q E s"
  unfolding insert_payment_def wp
  using insert_payment_inv [OF assms(1-6)] by (intro assms(7)) simp_all

text \<open>Changing the rows that meet \<open>c\<close>: same payment, legal status; \<open>Y\<close> has those that now succeed.\<close>

lemma update_payments_inv:
  assumes inv: "billing_inv ps X s"
    and legal: "\<And>p. p \<in> set (payments s) \<Longrightarrow> c p \<Longrightarrow> same_payment p (f p)"
    and new: "\<And>p. p \<in> set (payments s) \<Longrightarrow> c p \<Longrightarrow> pay_status (f p) = SUCCEEDED \<Longrightarrow>
      pay_status p = SUCCEEDED \<or> pay_invoice p \<in> Y"
    and Y: "X \<subseteq> Y"
  shows "billing_inv ps Y (s\<lparr>payments := set_where c f (payments s)\<rparr>)"
proof -
  let ?g = "\<lambda>p. if c p then f p else p" and ?t = "s\<lparr>payments := set_where c f (payments s)\<rparr>"
  have g: "same_payment p (?g p)" if "p \<in> set (payments s)" for p using legal that by auto
  have ids: "map pay_id (payments ?t) = map pay_id (payments s)"
    "map pay_invoice (payments ?t) = map pay_invoice (payments s)"
    "map pay_amount (payments ?t) = map pay_amount (payments s)"
    using g by (auto simp: set_where_def same_payment_def)
  have I: "ids_ok s" "paid_ok X s" "periods_ok s" "numbers_ok s" "evolves ps (payments s)" "pending_ok s"
    using inv by (auto simp: billing_inv_def)
  have pend: "pay_status p = PENDING" if "p \<in> set (payments s)" "pay_status (?g p) = PENDING" for p
    using g [OF that(1)] that(2) by (auto simp: same_payment_def dest: moves_to_pending)
  have pend_t: "pending_ok ?t"
    unfolding pending_ok_def
  proof (intro ballI impI)
    fix p' q' assume mem: "p' \<in> set (payments ?t)" "q' \<in> set (payments ?t)"
      and st: "pay_status p' = PENDING \<and> pay_status q' = PENDING \<and> pay_invoice p' = pay_invoice q'"
    have im: "set (payments ?t) = ?g ` set (payments s)" by (simp add: set_where_def)
    from mem obtain p q where pq: "p' = ?g p" "q' = ?g q" "p \<in> set (payments s)" "q \<in> set (payments s)"
      unfolding im by blast
    have gp: "pay_id (?g p) = pay_id p" "pay_invoice (?g p) = pay_invoice p"
      "pay_id (?g q) = pay_id q" "pay_invoice (?g q) = pay_invoice q"
      using g [OF pq(3)] g [OF pq(4)] by (simp_all add: same_payment_def)
    have "pay_status p = PENDING" "pay_status q = PENDING" using st pq pend by auto
    moreover have "pay_invoice p = pay_invoice q" using st pq gp by metis
    ultimately have "pay_id p = pay_id q" using I(6) pq(3,4) unfolding pending_ok_def by blast
    then show "pay_id p' = pay_id q'" using pq gp by metis
  qed
  have img: "pay_id ` set (payments ?t) = pay_id ` set (payments s)"
    "pay_invoice ` set (payments ?t) = pay_invoice ` set (payments s)"
    "pay_amount ` set (payments ?t) = pay_amount ` set (payments s)"
    using ids by (metis list.set_map)+
  then have "\<forall>p \<in> set (payments ?t). 0 \<le> pay_amount p"
    using I(1) by (metis (no_types, lifting) ids_ok_def image_iff)
  moreover have "distinct (map pay_id (payments ?t))" using I(1) unfolding ids(1) by (simp add: ids_ok_def)
  ultimately have "ids_ok ?t"
    using I(1) img by (simp add: ids_ok_def used_def)
  moreover have "evolves ps (payments ?t)"
    using I(5) g by (simp add: set_where_def evolves_map)
  moreover have "paid_ok Y ?t"
  proof -
    have keep: "pay_status (?g p) = SUCCEEDED" if "p \<in> set (payments s)" "pay_status p = SUCCEEDED" for p
      using g [OF that(1)] that(2) pay_machine.final_stays [of "pay_status p" "pay_status (?g p)"]
      by (auto simp: same_payment_def pay_final_def)
    have g': "pay_invoice (?g p) = pay_invoice p" "pay_amount (?g p) = pay_amount p"
      if "p \<in> set (payments s)" for p
      using g [OF that] by (simp_all add: same_payment_def)
    have nn: "0 \<le> pay_amount p" if "p \<in> set (payments s)" for p
      using I(1) that by (simp add: ids_ok_def)
    have le: "paid_sum i (payments s) \<le> paid_sum i (payments ?t)" for i
    proof (rule paid_sum_mono)
      show "list_all2 (\<lambda>p q. pay_invoice q = pay_invoice p \<and> pay_amount q = pay_amount p \<and>
          0 \<le> pay_amount p \<and> (pay_status p = SUCCEEDED \<longrightarrow> pay_status q = SUCCEEDED)) (payments s) (payments ?t)"
        using g' nn keep by (simp add: set_where_def list_all2_map2 list.rel_refl_strong)
    qed
    have new': "pay_status (?g p) = SUCCEEDED \<longleftrightarrow> pay_status p = SUCCEEDED"
      if "p \<in> set (payments s)" "pay_invoice p \<notin> Y" for p
      using keep [OF that(1)] new [OF that(1)] that(2) by auto
    have eq: "paid_sum i (payments ?t) = paid_sum i (payments s)" if "i \<notin> Y" for i
    proof (rule paid_sum_cong)
      show "list_all2 (\<lambda>p q. pay_invoice q = pay_invoice p \<and> pay_amount q = pay_amount p \<and>
          (pay_invoice p = i \<longrightarrow> (pay_status q = SUCCEEDED) = (pay_status p = SUCCEEDED)))
          (payments s) (payments ?t)"
        using g' new' that by (simp add: set_where_def list_all2_map2 list.rel_refl_strong)
    qed
    have "figures_ok Y (payments ?t) iv" if "iv \<in> set (invoices s)" for iv
    proof -
      have "figures_ok X (payments s) iv" using I(2) that by (simp add: paid_ok_figures)
      moreover have "inv_id iv \<in> X \<Longrightarrow> inv_id iv \<in> Y" using Y by blast
      ultimately show ?thesis
        using le [of "inv_id iv"] eq [of "inv_id iv"]
        by (cases "inv_id iv \<in> Y"; cases "inv_id iv \<in> X") (simp_all add: figures_ok_def)
    qed
    then show ?thesis by (simp add: paid_ok_figures)
  qed
  ultimately show ?thesis using I(3,4) pend_t by (simp add: billing_inv_def periods_ok_def numbers_ok_def)
qed

lemma wp_update_payments:
  assumes "billing_inv ps X s"
    and "\<And>p. p \<in> set (payments s) \<Longrightarrow> c p \<Longrightarrow> same_payment p (f p)"
    and "\<And>p. p \<in> set (payments s) \<Longrightarrow> c p \<Longrightarrow> pay_status (f p) = SUCCEEDED \<Longrightarrow>
      pay_status p = SUCCEEDED \<or> pay_invoice p \<in> Y"
    and "X \<subseteq> Y"
    and "\<And>n t. billing_inv ps Y t \<Longrightarrow> n = count_where c (payments s) \<Longrightarrow>
      t = s\<lparr>payments := set_where c f (payments s)\<rparr> \<Longrightarrow> Q n t"
  shows "wp (update_payments c f) Q E s"
  unfolding update_payments_def wp
  by (rule assms(5) [OF update_payments_inv [OF assms(1-4)] refl refl])

text \<open>Changing an invoice: its identity stays, and its figures fit \<open>Y\<close>.\<close>

lemma update_rows_inv:
  assumes inv: "billing_inv ps X s"
    and same: "\<And>x. x \<in> set (invoices s) \<Longrightarrow> same_invoice x (g x)"
    and fig: "\<And>x. x \<in> set (invoices s) \<Longrightarrow> figures_ok X (payments s) x \<Longrightarrow> figures_ok Y (payments s) (g x)"
    and per: "\<And>x y. x \<in> set (invoices s) \<Longrightarrow> y \<in> set (invoices s) \<Longrightarrow> inv_id x \<noteq> inv_id y \<Longrightarrow>
      inv_status (g x) \<noteq> VOIDED \<Longrightarrow> inv_status (g y) \<noteq> VOIDED \<Longrightarrow> \<not> same_period x y"
  shows "billing_inv ps Y (s\<lparr>invoices := map g (invoices s)\<rparr>)"
proof -
  let ?t = "s\<lparr>invoices := map g (invoices s)\<rparr>"
  have I: "ids_ok s" "paid_ok X s" "numbers_ok s" "evolves ps (payments s)"
    using inv by (simp_all add: billing_inv_def)
  have I5: "pending_ok ?t" using inv pending_ok_cong [of ?t s] by (simp add: billing_inv_def)
  have m: "map inv_id (invoices ?t) = map inv_id (invoices s)"
    "map (\<lambda>i. (inv_condo i, inv_number i)) (invoices ?t) = map (\<lambda>i. (inv_condo i, inv_number i)) (invoices s)"
    using same by (auto simp: same_invoice_def)
  then have im: "inv_id ` set (invoices ?t) = inv_id ` set (invoices s)" by (metis list.set_map)
  have "distinct (map inv_id (invoices ?t))" unfolding m(1) using I(1) by (simp add: ids_ok_def)
  then have "ids_ok ?t" using I(1) im by (simp add: ids_ok_def used_def)
  moreover have "numbers_ok ?t" unfolding numbers_ok_def m(2) using I(3) by (simp add: numbers_ok_def)
  moreover have "paid_ok Y ?t" using I(2) fig by (simp add: paid_ok_figures)
  moreover have "periods_ok ?t"
    using per same by (auto simp: periods_ok_def same_invoice_def same_period_def)
  ultimately show ?thesis using I(4) I5 by (simp add: billing_inv_def)
qed

lemma wp_update_invoice:
  assumes inv: "billing_inv ps X s"
    and same: "\<And>x. x \<in> set (invoices s) \<Longrightarrow> inv_id x = i \<Longrightarrow> same_invoice x (f x)"
    and fig: "\<And>x. x \<in> set (invoices s) \<Longrightarrow> inv_id x = i \<Longrightarrow> figures_ok X (payments s) x \<Longrightarrow>
      figures_ok Y (payments s) (f x)"
    and Y: "Y - {i} = X - {i}"
    and q: "\<And>t. billing_inv ps Y t \<Longrightarrow> t = s\<lparr>invoices := set_row inv_id i f (invoices s)\<rparr> \<Longrightarrow> Q () t"
    and e: "E s"
  shows "wp (update_invoice i f) Q E s"
proof -
  let ?c = "\<forall>x \<in> set (invoices s). \<forall>y \<in> set (invoices s).
    \<not> (inv_id x = i \<and> inv_id y \<noteq> i \<and> inv_status (f x) \<noteq> VOIDED \<and> inv_status y \<noteq> VOIDED \<and> same_period x y)"
  let ?g = "\<lambda>x. if inv_id x = i then f x else x"
  have "Q () (s\<lparr>invoices := set_row inv_id i f (invoices s)\<rparr>)" if c: ?c
  proof -
    have "billing_inv ps Y (s\<lparr>invoices := map ?g (invoices s)\<rparr>)"
    proof (rule update_rows_inv [OF inv])
      show "same_invoice x (?g x)" if "x \<in> set (invoices s)" for x
        using same that by (simp add: same_invoice_def)
      show "figures_ok Y (payments s) (?g x)"
        if "x \<in> set (invoices s)" "figures_ok X (payments s) x" for x
      proof (cases "inv_id x = i")
        case False
        then have "inv_id x \<in> Y \<longleftrightarrow> inv_id x \<in> X" using Y by blast
        with False that(2) show ?thesis by (simp add: figures_ok_def)
      qed (use fig that in simp)
      show "\<not> same_period x y"
        if "x \<in> set (invoices s)" "y \<in> set (invoices s)" "inv_id x \<noteq> inv_id y"
          "inv_status (?g x) \<noteq> VOIDED" "inv_status (?g y) \<noteq> VOIDED" for x y
      proof -
        have old: "inv_status x \<noteq> VOIDED \<Longrightarrow> inv_status y \<noteq> VOIDED \<Longrightarrow> \<not> same_period x y"
          using inv that(1-3) by (simp add: billing_inv_def periods_ok_def)
        show ?thesis
          using c [rule_format, OF that(1,2)] c [rule_format, OF that(2,1)] old that(3-5)
          by (cases "inv_id x = i"; cases "inv_id y = i") (auto simp: same_period_def)
      qed
    qed
    then show ?thesis by (intro q) (simp_all add: set_row_def set_where_def)
  qed
  with e show ?thesis by (simp add: update_invoice_def wp)
qed

section \<open>The operations\<close>

lemmas quiet_actions [pres] =
  grows_preserves [OF grows_new_id] grows_preserves [OF grows_emit] grows_preserves [OF grows_log_audit]
  grows_preserves [OF grows_record_entry] grows_preserves [OF grows_create_entries]
  grows_preserves [OF grows_ledger_ops(1)] grows_preserves [OF grows_ledger_ops(2)]
  grows_preserves [OF grows_ledger_ops(3)] grows_preserves [OF grows_add_credit]
  grows_preserves [OF grows_consume_credit] grows_preserves [OF grows_get_credit]
  grows_preserves [OF grows_numbers(1)] grows_preserves [OF grows_numbers(2)]
  grows_preserves [OF grows_issue_receipt] grows_preserves [OF grows_update_advances]
  grows_preserves [OF grows_emit_paid]

lemma grows_record_settlement [pres]: "preserves (grows s) (record_settlement e iv a p r)"
  unfolding record_settlement_def by (intro pres)

lemma find_invoice_None: "find_invoice i s = None \<longleftrightarrow> i \<notin> inv_id ` set (invoices s)"
  by (simp add: find_invoice_def find_row_None)

lemma find_invoice_Some: "find_invoice i s = Some iv \<Longrightarrow> iv \<in> set (invoices s) \<and> inv_id iv = i"
  by (auto simp: find_invoice_def dest: find_row_key find_row_mem)

lemma find_payment_Some: "find_payment i s = Some p \<Longrightarrow> p \<in> set (payments s) \<and> pay_id p = i"
  by (auto simp: find_payment_def dest: find_row_key find_row_mem)

text \<open>Settling brings an invoice that lags behind up to date.\<close>

lemma settled_figures:
  assumes "figures_ok X ps iv"
  shows "figures_ok (X - {inv_id iv}) ps (settled e (paid_sum (inv_id iv) ps) iv)"
proof -
  have "inv_paid iv \<le> paid_sum (inv_id iv) ps" "inv_status iv = PAID \<Longrightarrow> inv_total iv \<le> inv_paid iv"
    using assms by (auto simp: figures_ok_def split: if_splits)
  then show ?thesis by (auto simp: figures_ok_def settled_def settle_status_def split: if_splits)
qed

lemma wp_settle_invoice:
  assumes inv: "billing_inv ps X s" and q: "\<And>x t. billing_inv ps (X - {i}) t \<Longrightarrow> Q x t"
  shows "wp (settle_invoice e i a p r) Q (\<lambda>_. True) s"
proof (cases "find_invoice i s")
  case None
  then have "billing_inv ps (X - {i}) s"
    using inv by (auto simp: find_invoice_None billing_inv_def paid_ok_def image_iff)
  with None q show ?thesis by (simp add: settle_invoice_def wp)
next
  case (Some iv)
  let ?Y = "X - {i}"
  have rest: "preserves (billing_inv ps ?Y) (record_settlement e iv a p r)"
    by (rule grows_preserves) (rule pres)
  have "wp (update_invoice i (settled e (paid_sum i (payments s))))
      (\<lambda>_. wp (record_settlement e iv a p r) (\<lambda>_. Q (Some (paid_sum i (payments s) \<ge> inv_total iv))) (\<lambda>_. True))
      (\<lambda>_. True) s"
  proof (rule wp_update_invoice [OF inv, where Y = ?Y])
    show "same_invoice x (settled e (paid_sum i (payments s)) x)" for x
      by (simp add: same_invoice_def settled_def)
    show "figures_ok ?Y (payments s) (settled e (paid_sum i (payments s)) x)"
      if "inv_id x = i" "figures_ok X (payments s) x" for x
      using settled_figures [OF that(2), of e] that(1) by simp
    show "wp (record_settlement e iv a p r) (\<lambda>_. Q (Some (paid_sum i (payments s) \<ge> inv_total iv))) (\<lambda>_. True) t"
      if "billing_inv ps ?Y t" for t
      by (rule wp_preserves [OF rest that]) (simp_all add: q)
  qed auto
  with Some show ?thesis by (simp add: settle_invoice_def wp)
qed

text \<open>Changes that settle nothing.\<close>

lemma preserves_update_payments:
  assumes "\<And>p. c p \<Longrightarrow> same_payment p (f p) \<and> (pay_status (f p) = SUCCEEDED \<longrightarrow> pay_status p = SUCCEEDED)"
  shows "preserves (billing_inv ps X) (update_payments c f)"
  by (rule preservesW, rule wp_update_payments [where Y = X]) (use assms in auto)

lemma same_payment_status:
  "pay_move (pay_status p) (pay_status q) \<Longrightarrow> pay_id q = pay_id p \<Longrightarrow> pay_invoice q = pay_invoice p \<Longrightarrow>
   pay_amount q = pay_amount p \<Longrightarrow> same_payment p q"
  by (simp add: same_payment_def)

lemma cancel_stale_ok [pres]: "preserves (billing_inv ps X) (cancel_stale_pending_payments i)"
  unfolding cancel_stale_pending_payments_def
  by (intro pres preserves_update_payments) (auto intro!: same_payment_status cancel)

lemma set_payment_ref_ok [pres]: "preserves (billing_inv ps X) (set_payment_ref i prov r)"
  unfolding set_payment_ref_def
  by (intro pres preserves_update_payments) (simp add: same_payment_def)

lemma mark_payment_failed_ok [pres]: "preserves (billing_inv ps X) (mark_payment_failed g e r st)"
  unfolding mark_payment_failed_def
  by (intro pres preserves_update_payments)
     (auto simp: is_pending_def intro!: same_payment_status fail)

lemma flag_payment_ok [pres]: "preserves (billing_inv ps X) (flag_payment_for_review g e r x y)"
  unfolding flag_payment_for_review_def
  by (intro pres preserves_update_payments) (simp add: same_payment_def)

lemma flag_advance_ok [pres]: "preserves (billing_inv ps X) (flag_advance_for_review g e r x y)"
  unfolding flag_advance_for_review_def by (intro pres)

lemma mark_advance_failed_ok [pres]: "preserves (billing_inv ps X) (mark_advance_failed g e r st)"
  unfolding mark_advance_failed_def by (intro pres)

text \<open>A success: the payment's invoice lags behind until it is settled in the same transaction.\<close>

lemma settle_success_ok:
  assumes "billing_inv ps {pay_invoice p} s"
  shows "wp (settle_success e p r) (\<lambda>_. billing_ok ps) (\<lambda>_. True) s"
  unfolding settle_success_def wp
  by (rule wp_update_payments [OF assms, where Y = "{pay_invoice p}"])
     (auto intro!: same_payment_status cancel wp_settle_invoice [of ps "{pay_invoice p}"])

lemma set_where_none: "count_where c t = 0 \<Longrightarrow> set_where c f t = t"
  by (simp add: count_where_def set_where_def filter_empty_conv map_idI)

lemma same_id_same_payment:
  "ids_ok s \<Longrightarrow> p \<in> set (payments s) \<Longrightarrow> q \<in> set (payments s) \<Longrightarrow> pay_id q = pay_id p \<Longrightarrow> q = p"
  by (metis distinct_map ids_ok_def inj_on_eq_iff)

lemma succeed_tx_ok:
  assumes inv: "billing_ok ps s" and p: "p \<in> set (payments s)"
  shows "wp (succeed_tx e p r) (\<lambda>_. billing_ok ps) (\<lambda>_. True) s"
  unfolding succeed_tx_def wp
proof (rule wp_update_payments [OF inv, where Y = "{pay_invoice p}"])
  let ?f = "\<lambda>x. x\<lparr>pay_status := SUCCEEDED, pay_paid_at := Some (now e)\<rparr>"
  fix n t assume t: "billing_inv ps {pay_invoice p} t" and n: "n = count_where (is_pending (pay_id p)) (payments s)"
    and upd: "t = s\<lparr>payments := set_where (is_pending (pay_id p)) ?f (payments s)\<rparr>"
  have "billing_ok ps t" if "n = 0" using that n upd inv by (simp add: set_where_none)
  with settle_success_ok [OF t] show "(if n = 0 then billing_ok ps
      else wp (settle_success e p r) (\<lambda>_. billing_ok ps) (\<lambda>_. True)) t"
    by simp
qed (use inv p same_id_same_payment in
  \<open>auto simp: is_pending_def billing_inv_def intro!: same_payment_status succeed\<close>)

lemma mark_payment_succeeded_ok [pres]: "preserves (billing_ok ps) (mark_payment_succeeded e r)"
  unfolding mark_payment_succeeded_def
  by (rule preservesW) (intro guard; auto intro!: pres succeed_tx_ok guard_done dest: find_payment_mem)

text \<open>A payment that is created as a success, and settled.\<close>

lemma wp_new_success:
  assumes ok: "billing_ok ps s" and iv: "i \<in> inv_id ` set (invoices s)"
    and p: "pay_id p \<in> used s" "pay_id p \<notin> pay_id ` set (payments s)" "pay_invoice p = i" "0 \<le> pay_amount p"
      "pay_status p \<noteq> PENDING"
    and q: "\<And>x t. billing_ok ps t \<Longrightarrow> Q x t"
  shows "wp (insert_payment p) (\<lambda>_. wp (settle_invoice e i a k r) Q (\<lambda>_. True)) (\<lambda>_. True) s"
  using ok iv p q
  by (intro wp_insert_payment [OF ok]) (auto intro: wp_settle_invoice [of ps "{i}"])

lemma wp_success_tx:
  assumes ok: "billing_ok ps s" and iv: "i \<in> inv_id ` set (invoices s)"
    and p: "\<And>k. pay_id (p k) = k \<and> pay_invoice (p k) = i \<and> 0 \<le> pay_amount (p k) \<and>
      pay_status (p k) \<noteq> PENDING"
    and q: "\<And>k x t. billing_ok ps t \<Longrightarrow> Q k x t"
  shows "wp new_id (\<lambda>k. wp (insert_payment (p k)) (\<lambda>_. wp (settle_invoice e i a k (r k)) (Q k) (\<lambda>_. True))
    (\<lambda>_. True)) (\<lambda>_. True) s"
proof (rule wp_new_id [OF ok])
  fix t k assume t: "billing_ok ps t" "grows s t" "k \<in> used t" "k \<notin> used s"
  then have fresh: "k \<notin> pay_id ` set (payments t)"
    using used_ids(2) [OF ok] by (simp add: grows_def)
  show "wp (insert_payment (p k)) (\<lambda>_. wp (settle_invoice e i a k (r k)) (Q k) (\<lambda>_. True)) (\<lambda>_. True) t"
    by (rule wp_new_success [OF t(1)]) (use iv p t fresh q in \<open>auto simp: grows_def\<close>)
qed

lemma manual_payment_tx_ok:
  assumes "billing_ok ps s" "iv \<in> set (invoices s)" "0 \<le> amount"
  shows "wp (manual_payment_tx e u iv amount x) (\<lambda>_. billing_ok ps) (\<lambda>_. True) s"
  unfolding manual_payment_tx_def wp
  by (rule wp_success_tx [OF assms(1)]) (use assms in \<open>auto simp: new_payment_def\<close>)

lemma get_invoice_ok [pres]: "preserves I (get_invoice i u)"
  unfolding get_invoice_def by (intro pres)

lemma assert_management_ok [pres]: "preserves I (assert_condo_management u c b)"
  unfolding assert_condo_management_def by (rule pres)

lemma guard_get_invoice [guard]:
  "I s \<Longrightarrow> (\<And>iv. find_invoice i s = Some iv \<Longrightarrow> holds (k iv) I s) \<Longrightarrow> holds (bnd (get_invoice i u) k) I s"
  by (auto simp: get_invoice_def wp split: option.split)

lemma guard_management [guard]:
  "I s \<Longrightarrow> (condo_management u c b \<Longrightarrow> holds (k ()) I s) \<Longrightarrow>
   holds (bnd (assert_condo_management u c b) k) I s"
  by (simp add: assert_condo_management_def wp)

lemma record_manual_payment_ok [pres]: "preserves (billing_ok ps) (record_manual_payment e u i x)"
  unfolding record_manual_payment_def Let_def
  by (rule preservesW) (intro guard; auto intro!: pres manual_payment_tx_ok dest: find_invoice_Some)

text \<open>Credit.\<close>

lemma wp_grows_inv:
  assumes "preserves (grows s) m" and "billing_inv ps X s"
    and "\<And>x t. billing_inv ps X t \<Longrightarrow> grows s t \<Longrightarrow> Q x t" and "\<And>t. billing_inv ps X t \<Longrightarrow> E t"
  shows "wp m Q E s"
  by (rule wp_grows [OF assms(1)]) (auto intro: assms(3,4) grows_inv [OF _ assms(2)])

lemma apply_credit_tx_ok:
  assumes ok: "billing_ok ps s"
  shows "wp (apply_credit_tx e i unit condo) (\<lambda>_. billing_ok ps) (\<lambda>_. True) s"
proof -
  let ?p = "\<lambda>iv k. \<lparr>pay_id = k, pay_invoice = i, pay_user = None, pay_amount = min (credit_of unit s) (outstanding iv),
      pay_currency = inv_currency iv, pay_status = SUCCEEDED, pay_provider = MANUAL,
      pay_ref = None, pay_paid_at = Some (now e),
      pay_meta = [''method'' \<mapsto> JStr ''PREPAYMENT_APPLIED''], pay_created = now e\<rparr>"
  have rest: "wp (bnd (consume_credit unit x) (\<lambda>_. bnd (record_entry e y) (\<lambda>_. ret z))) (\<lambda>_. billing_ok ps) (\<lambda>_. True) t"
    if "billing_ok ps t" for x y z t
    by (rule preserves_success [of "billing_ok ps"]) (use that in \<open>auto intro!: pres\<close>)
  have "wp new_id (\<lambda>k. wp (insert_payment (?p iv k)) (\<lambda>_. wp (settle_invoice e i None k (''prepay_'' @ k))
      (\<lambda>z. wp (bnd (consume_credit unit (min (credit_of unit s) (outstanding iv))) (\<lambda>_. bnd (record_entry e (y k)) (\<lambda>_. ret z)))
        (\<lambda>_. billing_ok ps) (\<lambda>_. True)) (\<lambda>_. True)) (\<lambda>_. True)) (\<lambda>_. True) s"
    if "find_invoice i s = Some iv" "\<not> min (credit_of unit s) (outstanding iv) \<le> 1 / 200" for iv y
    by (rule wp_success_tx [OF ok])
       (use that find_invoice_Some [OF that(1)] rest in auto)
  then show ?thesis
    using ok unfolding apply_credit_tx_def Let_def wp
    by (auto split: option.split simp: wp)
qed

lemma apply_credit_to_invoice_ok [pres]: "preserves (billing_ok ps) (apply_credit_to_invoice e i unit condo)"
  unfolding apply_credit_to_invoice_def get_credit_def
  by (rule preservesW) (intro guard; auto intro!: pres apply_credit_tx_ok guard_done)

lemma apply_credit_loop_ok [pres]: "preserves (billing_ok ps) (apply_credit_loop e unit condo is)"
  by (induction "is") (auto intro!: pres)

lemma apply_credit_to_outstanding_ok [pres]: "preserves (billing_ok ps) (apply_credit_to_outstanding e unit condo)"
  unfolding apply_credit_to_outstanding_def by (intro pres)

lemma record_prepayment_ok [pres]: "preserves (billing_ok ps) (record_prepayment e u unit x payer m)"
  unfolding record_prepayment_def record_prepayment_tx_def by (intro pres)

lemma mark_advance_succeeded_ok [pres]: "preserves (billing_ok ps) (mark_advance_succeeded e r)"
  unfolding mark_advance_succeeded_def succeed_advance_tx_def by (intro pres)

text \<open>Issuing.\<close>

lemma issue_tx_ok:
  assumes ok: "billing_ok ps s"
  shows "wp (issue_tx e condo unit a b d ls cls m actor)
    (\<lambda>iv t. billing_ok ps t \<and> inv_unit iv = unit \<and> inv_period_start iv = a) (\<lambda>_. True) s"
proof -
  let ?Q = "\<lambda>iv t. billing_ok ps t \<and> inv_unit iv = unit \<and> inv_period_start iv = a"
  have ins: "wp (insert_invoice (new_invoice e i condo unit n a b d ls m))
      (\<lambda>_. wp (record_invoice_charges e (ref_of (new_invoice e i condo unit n a b d ls m)) cls actor)
        (\<lambda>_. ?Q (new_invoice e i condo unit n a b d ls m)) (\<lambda>_. True)) (\<lambda>_. True) t"
    if "billing_ok ps t" "i \<in> used t" "i \<notin> inv_id ` set (invoices t)" for i n t
    by (rule wp_insert_invoice [OF that(1)])
       (use that in \<open>auto simp: new_invoice_def intro!: wp_grows_inv [of _ _ ps "{}"] pres\<close>)
  have num: "wp new_id (\<lambda>i. wp (insert_invoice (new_invoice e i condo unit n a b d ls m))
      (\<lambda>_. wp (record_invoice_charges e (ref_of (new_invoice e i condo unit n a b d ls m)) cls actor)
        (\<lambda>_. ?Q (new_invoice e i condo unit n a b d ls m)) (\<lambda>_. True)) (\<lambda>_. True)) (\<lambda>_. True) t"
    if "billing_ok ps t" for n t
    by (rule wp_new_id [OF that], rule ins) (use used_ids(1) [OF that] in \<open>auto simp: grows_def\<close>)
  have "preserves (grows s) (next_invoice_number e condo)" by (rule pres)
  then show ?thesis
    unfolding issue_tx_def Let_def wp by (rule wp_grows_inv [OF _ ok]) (simp_all add: num)
qed

lemma issue_tx_ok': "billing_ok ps s \<Longrightarrow>
    wp (issue_tx e condo unit a b d ls cls m actor) (\<lambda>_. billing_ok ps) (\<lambda>_. True) s"
  by (rule wp_mono [OF issue_tx_ok]) auto

lemma create_invoice_ok [pres]: "preserves (billing_ok ps) (create_invoice e u unit a b d ls)"
  unfolding create_invoice_def
  by (rule preservesW) (intro guard; auto intro!: pres issue_tx_ok')

lemma create_invoice_in_tx_ok [pres]:
  "preserves (billing_ok ps) (txn (create_invoice_in_tx e condo unit d a b ls actor m))"
  unfolding create_invoice_in_tx_def by (intro preserves_txnI issue_tx_ok')

text \<open>Voiding.\<close>

lemma wp_void_row:
  assumes ok: "billing_ok ps s" and f: "\<And>x. same_invoice x (f x) \<and> inv_status (f x) = VOIDED \<and> inv_paid (f x) = inv_paid x"
    and q: "\<And>t. billing_ok ps t \<Longrightarrow> Q () t" and e: "E s"
  shows "wp (update_invoice i f) Q E s"
proof (rule wp_update_invoice [OF ok, where Y = "{}"])
  show "figures_ok {} (payments s) (f x)" if "figures_ok {} (payments s) x" for x
    using that f [of x] by (simp add: figures_ok_def same_invoice_def)
qed (use f q e in auto)

lemma void_invoice_tx_ok:
  assumes ok: "billing_ok ps s"
  shows "wp (void_invoice_tx e u i iv reason) (\<lambda>_. billing_ok ps) (\<lambda>_. True) s"
proof -
  have upd: "wp (update_invoice i (\<lambda>x. (voided_row e x)\<lparr>inv_meta := m\<rparr>)) (\<lambda>_. wp (log_audit a) (\<lambda>_. billing_ok ps) (\<lambda>_. True)) (\<lambda>_. True) t"
    if "billing_ok ps t" for m a t
    by (rule wp_void_row [OF that])
       (auto simp: voided_row_def same_invoice_def intro!: wp_grows_inv [of _ _ ps "{}"] pres)
  have rev: "wp (reverse_invoice_charges e iv' a r) (\<lambda>_. wp (update_invoice i (\<lambda>x. (voided_row e x)\<lparr>inv_meta := m\<rparr>))
      (\<lambda>_. wp (log_audit au) (\<lambda>_. billing_ok ps) (\<lambda>_. True)) (\<lambda>_. True)) (\<lambda>_. True) t"
    if "billing_ok ps t" for iv' a r m au t
    by (rule wp_grows_inv [OF _ that]) (simp_all add: pres upd)
  show ?thesis
    unfolding void_invoice_tx_def wp
    by (rule wp_update_payments [OF ok, where Y = "{}"])
       (auto intro!: same_payment_status cancel rev)
qed

lemma void_invoice_ok [pres]: "preserves (billing_ok ps) (void_invoice e u i r)"
  unfolding void_invoice_def
  by (rule preservesW) (intro guard; auto intro!: pres void_invoice_tx_ok guard_done)

lemma void_unpaid_ok [pres]: "preserves (billing_ok ps) (txn (void_unpaid_invoice_in_tx e i a r))"
proof (rule preserves_txnI)
  fix s assume ok: "billing_ok ps s"
  have "wp (update_invoice i (voided_row e)) (\<lambda>_. billing_ok ps) (\<lambda>_. True) t" if "billing_ok ps t" for t
    by (rule wp_void_row [OF that]) (auto simp: voided_row_def same_invoice_def)
  then have "wp (reverse_invoice_charges e iv a r) (\<lambda>_. wp (update_invoice i (voided_row e)) (\<lambda>_. billing_ok ps) (\<lambda>_. True)) (\<lambda>_. True) s"
    for iv by (intro wp_grows_inv [OF _ ok] pres) auto
  with ok show "wp (void_unpaid_invoice_in_tx e i a r) (\<lambda>_. billing_ok ps) (\<lambda>_. True) s"
    unfolding void_unpaid_invoice_in_tx_def wp by (auto simp: wp split: option.split)
qed

text \<open>Starting payments.\<close>

lemma wp_insert_pending:
  assumes ok: "billing_ok ps s" and iv: "i \<in> inv_id ` set (invoices s)"
    and none: "\<forall>q \<in> set (payments s). pay_invoice q = i \<longrightarrow> pay_status q \<noteq> PENDING"
    and p: "\<And>k. pay_id (p k) = k \<and> pay_invoice (p k) = i \<and> 0 \<le> pay_amount (p k) \<and> pay_status (p k) \<noteq> SUCCEEDED"
    and k: "\<And>k. preserves (billing_ok ps) (m k)"
  shows "holds (bnd new_id (\<lambda>k. bnd (insert_payment (p k)) (\<lambda>_. m k))) (billing_ok ps) s"
  unfolding wp_bnd
proof (rule wp_new_id [OF ok])
  fix t j assume t: "billing_ok ps t" "grows s t" "j \<in> used t" "j \<notin> used s"
  have "j \<notin> pay_id ` set (payments t)" using used_ids(2) [OF ok t(4)] t(2) by (simp add: grows_def)
  then show "wp (insert_payment (p j)) (\<lambda>_. wp (m j) (\<lambda>_. billing_ok ps) (billing_ok ps)) (billing_ok ps) t"
    using t(2,3) iv none p k
    by (intro wp_insert_payment [OF t(1)]) (auto simp: grows_def preserves_wp)
qed

lemma cancelled_none:
  "\<forall>q \<in> set (set_where (\<lambda>p. pay_invoice p = i \<and> pay_status p = PENDING) (\<lambda>p. p\<lparr>pay_status := CANCELLED\<rparr>) ps).
     pay_invoice q = i \<longrightarrow> pay_status q \<noteq> PENDING"
proof (intro ballI impI notI)
  fix q
  assume mem: "q \<in> set (set_where (\<lambda>p. pay_invoice p = i \<and> pay_status p = PENDING) (\<lambda>p. p\<lparr>pay_status := CANCELLED\<rparr>) ps)"
    and q: "pay_invoice q = i" "pay_status q = PENDING"
  from mem obtain r where r: "q = (if pay_invoice r = i \<and> pay_status r = PENDING then r\<lparr>pay_status := CANCELLED\<rparr> else r)"
    unfolding set_where_def list.set_map by (rule imageE)
  show False using q unfolding r by (cases "pay_invoice r = i \<and> pay_status r = PENDING") simp_all
qed

lemma wp_cancel_stale:
  assumes ok: "billing_ok ps s"
    and k: "\<And>t. billing_ok ps t \<Longrightarrow> invoices t = invoices s \<Longrightarrow>
      \<forall>q \<in> set (payments t). pay_invoice q = i \<longrightarrow> pay_status q \<noteq> PENDING \<Longrightarrow> holds (k ()) (billing_ok ps) t"
  shows "holds (bnd (cancel_stale_pending_payments i) k) (billing_ok ps) s"
  unfolding cancel_stale_pending_payments_def wp
proof (rule wp_update_payments [OF ok, where Y = "{}"])
  show "holds (k ()) (billing_ok ps) t" if "billing_ok ps t"
      "t = s\<lparr>payments := set_where (\<lambda>p. pay_invoice p = i \<and> pay_status p = PENDING)
         (\<lambda>p. p\<lparr>pay_status := CANCELLED\<rparr>) (payments s)\<rparr>" for t
    using that cancelled_none [of i "payments s"] by (intro k) simp_all
qed (simp_all add: same_payment_status cancel)

lemma create_payment_ok [pres]: "preserves (billing_ok ps) (create_payment g e u i prov)"
  unfolding create_payment_def
proof (rule preservesW, (intro guard; assumption?), goal_cases)
  case (1 s iv v)
  then have iv: "iv \<in> set (invoices s)" "inv_id iv = i" using find_invoice_Some by auto
  have rest: "preserves (billing_ok ps) (case gw_intent g prov v k (outstanding iv) of
       Inl err \<Rightarrow> throw err | Inr r \<Rightarrow> bnd (set_payment_ref k prov r) (\<lambda>_. ret (k, r)))" for k
    by (cases "gw_intent g prov v k (outstanding iv)") (auto intro!: pres)
  show ?case
    by (rule wp_cancel_stale [OF 1(1)], rule wp_insert_pending)
       (use 1 iv rest in \<open>auto simp: new_payment_def\<close>)
qed

lemma add_advance_ok: "preserves (billing_inv ps X) (modify (\<lambda>s. s\<lparr>advances := advances s @ as\<rparr>))"
  by (rule grows_preserves, rule preserves_modify) (simp add: grows_def)

lemma set_advance_ref_ok [pres]: "preserves (billing_inv ps X) (set_advance_ref i prov r)"
  unfolding set_advance_ref_def by (intro pres)

lemma create_advance_ok [pres]: "preserves (billing_ok ps) (create_advance_payment g e u unit x prov)"
  unfolding create_advance_payment_def by (intro pres add_advance_ok)

text \<open>Callbacks and polling.\<close>

lemma fail_callback_ok [pres]: "preserves (billing_ok ps) (fail_callback g e b r st)"
  unfolding fail_callback_def by (intro pres)

lemma settle_callback_ok [pres]: "preserves (billing_ok ps) (settle_callback g e b r x y)"
  unfolding settle_callback_def by (intro pres)

lemma handle_gateway_callback_ok [pres]: "preserves (billing_ok ps) (handle_gateway_callback g e prov body)"
  unfolding handle_gateway_callback_def Let_def by (intro pres)

lemma handle_stripe_callback_ok [pres]: "preserves (billing_ok ps) (handle_stripe_callback g e payload)"
  unfolding handle_stripe_callback_def by (intro pres)

lemma poll_outcome_ok [pres]: "preserves (billing_ok ps) (poll_outcome g e b r poll)"
  unfolding poll_outcome_def by (intro pres)

lemma poll_duitnow_ok [pres]:
  "preserves (billing_ok ps) (poll_duitnow_invoice g e u i)"
  "preserves (billing_ok ps) (poll_duitnow_advance g e u i)"
  unfolding poll_duitnow_invoice_def poll_duitnow_advance_def Let_def by (intro pres)+

text \<open>Review.\<close>

lemma update_one_payment:
  assumes ok: "billing_ok ps s" and p: "find_payment i s = Some p"
    and f: "same_payment p (f p)" "pay_status (f p) = SUCCEEDED \<longrightarrow> pay_status p = SUCCEEDED"
    and q: "\<And>n t. billing_ok ps t \<Longrightarrow> Q n t"
  shows "wp (update_payments (\<lambda>x. pay_id x = i) f) Q E s"
proof (rule wp_update_payments [OF ok, where Y = "{}"])
  have "x = p" if "x \<in> set (payments s)" "pay_id x = i" for x
    using ok that find_payment_Some [OF p] same_id_same_payment by (auto simp: billing_inv_def)
  with f show "same_payment x (f x)" "pay_status (f x) = SUCCEEDED \<Longrightarrow> pay_status x = SUCCEEDED \<or> pay_invoice x \<in> {}"
    if "x \<in> set (payments s)" "pay_id x = i" for x using that by auto
qed (use q in auto)

lemma find_payment_and_condo_Some: "find_payment_and_condo i s = Some (p, c) \<Longrightarrow> find_payment i s = Some p"
  by (auto simp: find_payment_and_condo_def split: option.splits)

lemma dismiss_payment_ok [pres]: "preserves (billing_ok ps) (dismiss_payment g e u i)"
  unfolding dismiss_payment_def
proof (rule preservesW, (intro guard; assumption?), goal_cases)
  case (1 s _ p c)
  then have p: "find_payment i s = Some p" by (auto dest: find_payment_and_condo_Some)
  show ?case unfolding wp
    by (rule update_one_payment [OF 1(1) p])
       (use 1(5) in \<open>auto intro!: same_payment_status intro: pay_move.intros\<close>)
qed

lemma approve_reviewed_ok [pres]: "preserves (billing_ok ps) (approve_reviewed_payment g e u i)"
  unfolding approve_reviewed_payment_def
proof (rule preservesW, (intro guard; assumption?), goal_cases)
  case (1 s _ p c)
  then have p: "find_payment i s = Some p" by (auto dest: find_payment_and_condo_Some)
  show ?case unfolding wp
    by (rule update_one_payment [OF 1(1) p])
       (auto simp: same_payment_def intro: guard_done mark_payment_succeeded_ok)
qed

text \<open>The due sweep and the recurring invoices.\<close>

lemma sweep_rows_ok:
  assumes ok: "billing_ok ps s"
    and c: "\<And>x. x \<in> set (invoices s) \<Longrightarrow> inv_id x \<in> X \<Longrightarrow> inv_status x \<in> {ISSUED, PARTIAL}"
  shows "billing_ok ps (s\<lparr>invoices := set_where (\<lambda>i. inv_id i \<in> X) (\<lambda>i. i\<lparr>inv_status := OVERDUE\<rparr>) (invoices s)\<rparr>)"
  unfolding set_where_def
proof (rule update_rows_inv [OF ok])
  let ?g = "\<lambda>x. if inv_id x \<in> X then x\<lparr>inv_status := OVERDUE\<rparr> else x"
  show "\<not> same_period x y" if "x \<in> set (invoices s)" "y \<in> set (invoices s)" "inv_id x \<noteq> inv_id y"
      "inv_status (?g x) \<noteq> VOIDED" "inv_status (?g y) \<noteq> VOIDED" for x y
    using ok that c [OF that(1)] c [OF that(2)] by (auto simp: billing_inv_def periods_ok_def split: if_splits)
qed (auto simp: same_invoice_def figures_ok_def)

lemma update_meta_ok:
  "preserves (billing_ok ps) (update_invoice i (\<lambda>x. x\<lparr>inv_meta := m\<rparr>))"
proof (rule preservesW)
  fix s assume ok: "billing_ok ps s"
  show "holds (update_invoice i (\<lambda>x. x\<lparr>inv_meta := m\<rparr>)) (billing_ok ps) s"
    by (rule wp_update_invoice [OF ok, where Y = "{}"]) (auto simp: same_invoice_def figures_ok_def ok)
qed

lemma notify_due_soon_ok [pres]: "preserves (billing_ok ps) (notify_due_soon g e iv)"
  unfolding notify_due_soon_def by (intro pres update_meta_ok)

lemma run_due_sweep_ok [pres]: "preserves (billing_ok ps) (run_due_sweep g e u condo)"
  unfolding run_due_sweep_def
proof (rule preservesW, (intro guard; assumption?), goal_cases)
  case (1 s)
  let ?X = "map inv_id (filter (\<lambda>i. inv_condo i = condo \<and> inv_status i \<in> {ISSUED, PARTIAL} \<and> inv_due i < now e) (invoices s))"
  have st: "inv_status x \<in> {ISSUED, PARTIAL}" if "x \<in> set (invoices s)" "inv_id x \<in> set ?X" for x
  proof -
    have "y = x" if "y \<in> set (invoices s)" "inv_id y = inv_id x" for y
      using 1 \<open>x \<in> set (invoices s)\<close> that by (metis billing_inv_def distinct_map ids_ok_def inj_on_eq_iff)
    with that(2) show ?thesis by auto
  qed
  have emits: "preserves (billing_ok ps) (bnd (for_each is (\<lambda>i. emit (InvoiceOverdue i))) (\<lambda>_. ret ()))" for "is"
    by (intro pres)
  have rest: "preserves (billing_ok ps) (bnd (gets h) (\<lambda>ds. bnd (for_each ds (notify_due_soon g e)) (\<lambda>ns. ret (n, sum_list ns))))"
    for n h by (intro pres)
  have mid: "holds (bnd (modify (\<lambda>s. s\<lparr>invoices := set_where (\<lambda>i. inv_id i \<in> set ?X)
      (\<lambda>i. i\<lparr>inv_status := OVERDUE\<rparr>) (invoices s)\<rparr>)) (\<lambda>_. bnd (for_each ?X (\<lambda>i. emit (InvoiceOverdue i))) (\<lambda>_. ret ())))
      (billing_ok ps) s"
    unfolding wp_bnd wp_modify
    using guard_done [OF emits sweep_rows_ok [OF 1(1) st]] by (simp add: wp)
  show ?case
    unfolding wp_bnd [of "only_if _ _"] wp_only_if
    using mid guard_done [OF rest 1(1)] by (auto intro: wp_mono guard_done [OF rest])
qed

lemma catch_err_ok [pres]:
  "preserves I m \<Longrightarrow> (\<And>x. preserves I (h x)) \<Longrightarrow> preserves I (catch_err m h)"
  unfolding preserves_def catch_err_def by (auto split: prod.splits sum.splits)

lemma issue_chunk_ok [pres]: "preserves (billing_ok ps) (issue_chunk e condo x m actor pending)"
proof -
  have "preserves (billing_ok ps) (txn (for_each pending (\<lambda>(un, ls).
           bnd (issue_tx e condo (un_id un) (gr_start x) (gr_end x) (gr_due x) ls (map charge_of ls) m actor)
             (\<lambda>iv. ret (inv_id iv, un_id un)))))"
  proof (rule preserves_txnI)
    fix s :: bdb assume "billing_ok ps s"
    then show "wp (for_each pending (\<lambda>(un, ls).
           bnd (issue_tx e condo (un_id un) (gr_start x) (gr_end x) (gr_due x) ls (map charge_of ls) m actor)
             (\<lambda>iv. ret (inv_id iv, un_id un)))) (\<lambda>_. billing_ok ps) (\<lambda>_. True) s"
    proof (induction pending arbitrary: s)
      case (Cons r pending)
      obtain un ls where r: "r = (un, ls)" by (cases r)
      show ?case unfolding r for_each.simps prod.case wp
        by (rule wp_mono [OF issue_tx_ok' [OF Cons.prems]])
           (auto intro: Cons.IH)
    qed (simp add: wp)
  qed
  then show ?thesis unfolding issue_chunk_def by (rule preserves_bnd) (intro pres)
qed

lemma run_chunk_ok [pres]: "preserves (billing_ok ps) (run_chunk e condo x m actor ex chunk)"
  unfolding run_chunk_def Let_def by (intro pres)

lemma generate_recurring_ok [pres]: "preserves (billing_ok ps) (generate_recurring e actor condo x opts)"
  unfolding generate_recurring_def Let_def by (intro pres)

end
