(* ===== verification/Billing_Steps.thy ===== *)
theory Billing_Steps
  imports Billing_Invariants
begin

text \<open>
  The billing service as a step relation: each step is one call of one of its methods (or of a body
  that another service runs in its own transaction), with any caller, arguments, clock and answers
  of the gateways. What holds of the invoices and payments of every state the calls can reach.
\<close>

section \<open>Steps\<close>

inductive billing_step :: "bdb \<Rightarrow> bdb \<Rightarrow> bool" where
  step_create: "create_invoice e u unit a b d ls s = (r, t) \<Longrightarrow> billing_step s t"
| step_create_tx:
    "txn (create_invoice_in_tx e condo unit due st en ls actor m) s = (r, t) \<Longrightarrow> billing_step s t"
| step_recurring: "generate_recurring e actor condo x opts s = (rr, t) \<Longrightarrow> billing_step s t"
| step_void: "void_invoice e u i reason s = (r, t) \<Longrightarrow> billing_step s t"
| step_void_tx: "txn (void_unpaid_invoice_in_tx e i actor reason) s = (rv, t) \<Longrightarrow> billing_step s t"
| step_pay: "create_payment g e u i prov s = (rp, t) \<Longrightarrow> billing_step s t"
| step_advance: "create_advance_payment g e u unit x' prov s = (rp, t) \<Longrightarrow> billing_step s t"
| step_callback: "handle_gateway_callback g e prov body s = (ru, t) \<Longrightarrow> billing_step s t"
| step_stripe: "handle_stripe_callback g e payload s = (ru, t) \<Longrightarrow> billing_step s t"
| step_poll: "poll_duitnow_invoice g e u i s = (rl, t) \<Longrightarrow> billing_step s t"
| step_poll_advance: "poll_duitnow_advance g e u i s = (rl, t) \<Longrightarrow> billing_step s t"
| step_manual: "record_manual_payment e u i mi s = (r, t) \<Longrightarrow> billing_step s t"
| step_prepay: "record_prepayment e u unit amount payer m' s = (rq, t) \<Longrightarrow> billing_step s t"
| step_dismiss: "dismiss_payment g e u i s = (ru, t) \<Longrightarrow> billing_step s t"
| step_approve: "approve_reviewed_payment g e u i s = (ra, t) \<Longrightarrow> billing_step s t"
| step_sweep: "run_due_sweep g e u condo s = (rs, t) \<Longrightarrow> billing_step s t"

definition reachable :: "bdb \<Rightarrow> bdb \<Rightarrow> bool" where
  "reachable = billing_step\<^sup>*\<^sup>*"

text \<open>A database without invoices and payments whose supply of ids does not repeat.\<close>

definition billing_start :: "bdb \<Rightarrow> bool" where
  "billing_start s \<longleftrightarrow> inj (uuids s) \<and> invoices s = [] \<and> payments s = []"

lemma billing_step_ok:
  assumes "billing_step s t" and "billing_ok ps s"
  shows "billing_ok ps t"
  using assms by (induction rule: billing_step.induct) (rule preservesD; (rule pres | assumption))+

text \<open>What one call keeps, any sequence of calls keeps.\<close>

locale billing_invariant =
  fixes I :: "bdb \<Rightarrow> bool"
  assumes step_keeps: "billing_step s t \<Longrightarrow> I s \<Longrightarrow> I t"
begin

lemma reachable_keeps: "reachable s t \<Longrightarrow> I s \<Longrightarrow> I t"
  unfolding reachable_def by (induction rule: rtranclp_induct) (auto intro: step_keeps)

end

interpretation tables: billing_invariant "billing_ok ps" for ps
  by unfold_locales (rule billing_step_ok)

lemmas reachable_ok = tables.reachable_keeps

lemma reachable_trans: "reachable s t \<Longrightarrow> reachable t w \<Longrightarrow> reachable s w"
  unfolding reachable_def by (rule rtranclp_trans)

lemma start_ok: "billing_start s \<Longrightarrow> billing_ok [] s"
  by (simp add: billing_start_def billing_inv_def ids_ok_def paid_ok_def periods_ok_def numbers_ok_def
      pending_ok_def evolves_def)

lemma ok_here: "billing_ok ps s \<Longrightarrow> billing_ok (payments s) s"
  by (simp add: billing_inv_def)

text \<open>The invariants of a reachable state, from the invariant's own definition.\<close>

lemma reachable_start:
  assumes "billing_start s" and "reachable s t"
  shows "billing_ok (payments t) t"
  using ok_here [OF reachable_ok [OF assms(2) start_ok [OF assms(1)]]] .

section \<open>A concrete run\<close>

definition sample_admin :: auth_user where
  "sample_admin = \<lparr>user_id = ''admin'', user_roles =
     [\<lparr>role = MANAGEMENT_ADMIN, role_condo = Some ''c'', role_unit = None\<rparr>]\<rparr>"

definition sample_start :: bdb where
  "sample_start = empty_db\<lparr>
     condos := [\<lparr>co_id = ''c'', co_currency = ''MYR'', co_settings = JNull\<rparr>],
     units := [\<lparr>un_id = ''u'', un_condo = ''c'', un_sqft = None, un_type = None\<rparr>],
     connections := [\<lparr>gc_id = ''g'', gc_condo = ''c'', gc_provider = STRIPE, gc_mode = LIVE, gc_enabled = True,
       gc_name = None, gc_public = Map.empty, gc_secret = Some ''secret'', gc_by = None\<rparr>]\<rparr>"

definition sample_line :: fee_line where
  "sample_line = \<lparr>fl_code = ''MAINT'', fl_desc = ''Maintenance'', fl_formula = None, fl_price = 100,
     fl_qty = 1, fl_fund = None\<rparr>"

lemma sample_start_ok: "billing_start sample_start"
proof -
  have "inj (\<lambda>n. ''id'' @ show_nat n)" by (rule injI) simp
  then show ?thesis by (simp add: billing_start_def sample_start_def)
qed

text \<open>Issuing an invoice to the unit of \<open>sample_start\<close> works.\<close>

lemma sample_issue:
  "\<exists>iv t. create_invoice sample_env sample_admin ''u'' 0 30 30 [sample_line] sample_start = (Inr iv, t) \<and>
     invoices t = [iv] \<and> inv_total iv = 100 \<and> inv_paid iv = 0 \<and> inv_status iv = ISSUED \<and>
     inv_condo iv = ''c'' \<and> inv_unit iv = ''u'' \<and> payments t = [] \<and> receipts t = [] \<and> accounts t = [] \<and>
     condos t = condos sample_start \<and> connections t = connections sample_start \<and> uuids t = uuids sample_start"
proof -
  obtain n q where num: "next_invoice_number sample_env ''c'' sample_start =
      (Inr n, sample_start\<lparr>sequences := q\<rparr>)"
    using next_invoice_number_run by blast
  have man: "condo_management sample_admin ''c'' True"
    by (simp add: sample_admin_def condo_management_def grants_condo_management_def some_role_def is_role_in_def)
  have found: "find_row un_id ''u'' (units sample_start) = Some \<lparr>un_id = ''u'', un_condo = ''c'', un_sqft = None, un_type = None\<rparr>"
    by (simp add: sample_start_def)
  have empty: "invoices sample_start = []" "ledger sample_start = []" "accounts sample_start = []"
    "payments sample_start = []" "receipts sample_start = []"
    by (simp_all add: sample_start_def)
  show ?thesis
    using num man found empty
    by (simp add: create_invoice_def issue_tx_def insert_invoice_def act_defs Let_def new_id_def
        new_invoice_def record_invoice_charges_def create_entries_def charge_inputs_def find_entry_def
        append_entry_def assert_condo_management_def apply_credit_to_invoice_def get_credit_def credit_of_def
        emit_def sample_env_def sample_line_def lines_total_def)
qed

text \<open>The state after that call.\<close>

definition sample_issued :: bdb where
  "sample_issued = snd (create_invoice sample_env sample_admin ''u'' 0 30 30 [sample_line] sample_start)"

lemma sample_issued_reachable: "reachable sample_start sample_issued"
  unfolding reachable_def sample_issued_def
  by (rule r_into_rtranclp, rule step_create, rule prod.collapse [symmetric])

lemma sample_issued_invoices:
  "\<exists>iv. invoices sample_issued = [iv] \<and> inv_total iv = 100 \<and> inv_paid iv = 0 \<and> inv_status iv = ISSUED \<and>
     inv_condo iv = ''c'' \<and> inv_unit iv = ''u'' \<and> payments sample_issued = [] \<and> receipts sample_issued = [] \<and>
     accounts sample_issued = [] \<and> condos sample_issued = condos sample_start \<and>
     connections sample_issued = connections sample_start \<and> uuids sample_issued = uuids sample_start"
  using sample_issue by (auto simp: sample_issued_def)

text \<open>Its owner starts to pay it with a card.\<close>

definition sample_gateway :: gateway where
  "sample_gateway =
     \<lparr>gw_intent = (\<lambda>prov c i x. Inr ''ref''), gw_verify = (\<lambda>prov c body. Some (''ref'', True, body)),
      gw_poll = (\<lambda>c r. None), json_text = (\<lambda>j. []), json_number = (\<lambda>j. None), iso_text = (\<lambda>d. []),
      unsigned_sandbox = False\<rparr>"

definition sample_paying :: bdb where
  "sample_paying =
     snd (create_payment sample_gateway sample_env sample_admin (inv_id (hd (invoices sample_issued))) STRIPE sample_issued)"

lemma sample_paying_reachable: "reachable sample_issued sample_paying"
  unfolding reachable_def sample_paying_def
  by (rule r_into_rtranclp, rule step_pay, rule prod.collapse [symmetric])

lemma sample_paying_run:
  "\<exists>iv p. invoices sample_paying = [iv] \<and> inv_total iv = 100 \<and> inv_paid iv = 0 \<and> inv_status iv = ISSUED \<and>
     inv_condo iv = ''c'' \<and> inv_unit iv = ''u'' \<and> payments sample_paying = [p] \<and> pay_status p = PENDING \<and>
     pay_provider p = STRIPE \<and> pay_ref p = Some ''ref'' \<and> pay_invoice p = inv_id iv \<and> pay_amount p = 100 \<and>
     receipts sample_paying = [] \<and> condos sample_paying = condos sample_start \<and> uuids sample_paying = uuids sample_start"
proof -
  obtain iv where iv: "invoices sample_issued = [iv]" "inv_total iv = 100" "inv_paid iv = 0" "inv_status iv = ISSUED"
      "inv_condo iv = ''c''" "inv_unit iv = ''u''" "payments sample_issued = []" "receipts sample_issued = []"
      "condos sample_issued = condos sample_start" "connections sample_issued = connections sample_start"
      "uuids sample_issued = uuids sample_start"
    using sample_issued_invoices by auto
  have can: "can_read_unit_money sample_admin ''c'' ''u''" "can_pay sample_admin ''c'' ''u''"
    by (simp_all add: sample_admin_def can_read_unit_money_def can_pay_def some_role_def grants_read_money_def
        grants_pay_def is_role_in_def)
  have conn: "\<exists>c. resolve_credentials ''c'' STRIPE sample_issued = Some c"
    using iv(10) by (simp add: resolve_credentials_def sample_start_def usable_def)
  show ?thesis
    using iv can conn
    by (auto simp: sample_paying_def create_payment_def get_invoice_def find_invoice_def act_defs has_adapter_def
        outstanding_def cancel_stale_pending_payments_def update_payments_def set_where_def new_id_def insert_payment_def
        new_payment_def sample_gateway_def set_payment_ref_def)
qed

section \<open>Properties of reachable states\<close>

text \<open>
  C1. Whatever calls the billing service has served, in whatever order and with whatever answers
  of the gateways: the paid amount of every invoice is the sum of its successful payments, and an
  invoice that is marked PAID is covered by them.
\<close>

theorem paid_amounts_reconcile:
  assumes "billing_start s" and "reachable s t" and "iv \<in> set (invoices t)"
  shows "inv_paid iv = paid_sum (inv_id iv) (payments t) \<and>
    (inv_status iv = PAID \<longrightarrow> inv_total iv \<le> paid_sum (inv_id iv) (payments t))"
proof -
  have "paid_ok {} t" using reachable_start [OF assms(1,2)] by (simp add: billing_inv_def)
  then have "inv_paid iv = paid_sum (inv_id iv) (payments t) \<and> (inv_status iv = PAID \<longrightarrow> inv_total iv \<le> inv_paid iv)"
    using assms(3) unfolding paid_ok_def by (metis empty_iff)
  then show ?thesis by metis
qed

theorem paid_amounts_reconcile_witness:
  "\<exists>iv \<in> set (invoices sample_issued). inv_total iv = 100 \<and>
     inv_paid iv = paid_sum (inv_id iv) (payments sample_issued)"
proof -
  obtain iv where iv: "iv \<in> set (invoices sample_issued)" "inv_total iv = 100"
    using sample_issued_invoices by auto
  from paid_amounts_reconcile [OF sample_start_ok sample_issued_reachable iv(1)] iv show ?thesis by blast
qed

text \<open>
  C4. In every reachable state a unit has at most one invoice that is not void per period start,
  invoice numbers do not repeat within a condo, and an invoice has at most one payment in progress.
\<close>

theorem no_double_billing:
  assumes "billing_start s" and "reachable s t"
  shows "(\<forall>x \<in> set (invoices t). \<forall>y \<in> set (invoices t).
      inv_status x \<noteq> VOIDED \<and> inv_status y \<noteq> VOIDED \<and> inv_unit x = inv_unit y \<and>
      inv_period_start x = inv_period_start y \<longrightarrow> inv_id x = inv_id y) \<and>
    distinct (map (\<lambda>i. (inv_condo i, inv_number i)) (invoices t)) \<and>
    (\<forall>p \<in> set (payments t). \<forall>q \<in> set (payments t).
      pay_status p = PENDING \<and> pay_status q = PENDING \<and> pay_invoice p = pay_invoice q \<longrightarrow> pay_id p = pay_id q)"
proof -
  have ok: "periods_ok t" "numbers_ok t" "pending_ok t"
    using reachable_start [OF assms] by (simp_all add: billing_inv_def)
  show ?thesis
    using ok(1) [unfolded periods_ok_def same_period_def] ok(2) [unfolded numbers_ok_def]
      ok(3) [unfolded pending_ok_def] by blast
qed

theorem no_double_billing_witness:
  "distinct (map (\<lambda>i. (inv_condo i, inv_number i)) (invoices sample_issued))"
  using no_double_billing [OF sample_start_ok sample_issued_reachable] by blast

text \<open>
  C5. A payment that has succeeded or was cancelled keeps its status for ever, and no call changes
  the amount of a payment, moves it to another invoice or deletes it: from one reachable state to a later one every
  payment is still there, and its status is the old one or a legal successor of it.
\<close>

theorem payments_are_permanent:
  assumes "billing_start s" and "reachable s t" and "reachable t w" and "p \<in> set (payments t)"
  shows "\<exists>q \<in> set (payments w). pay_id q = pay_id p \<and> pay_invoice q = pay_invoice p \<and>
    pay_amount q = pay_amount p \<and> pay_move\<^sup>*\<^sup>* (pay_status p) (pay_status q) \<and>
    (pay_status p \<in> {SUCCEEDED, CANCELLED} \<longrightarrow> pay_status q = pay_status p)"
proof -
  have "billing_ok (payments t) w"
    by (rule reachable_ok [OF assms(3) reachable_start [OF assms(1,2)]])
  with assms(4) obtain q where q: "q \<in> set (payments w)" "same_payment p q"
    unfolding billing_inv_def evolves_def by blast
  moreover have "pay_status q = pay_status p" if "pay_status p \<in> {SUCCEEDED, CANCELLED}"
    using q(2) that pay_machine.final_stays [of "pay_status p" "pay_status q"]
    by (auto simp: same_payment_def pay_final_def)
  ultimately show ?thesis by (auto simp: same_payment_def)
qed

text \<open>Dismissed by the management, the payment in progress becomes a cancelled one.\<close>

theorem payments_are_permanent_witness:
  "\<exists>p q w. p \<in> set (payments sample_paying) \<and> q \<in> set (payments w) \<and> pay_id q = pay_id p \<and> pay_amount q = 100 \<and>
     reachable sample_paying w"
proof -
  obtain p where p: "p \<in> set (payments sample_paying)" "pay_amount p = 100" using sample_paying_run by auto
  let ?w = "snd (dismiss_payment sample_gateway sample_env sample_admin (pay_id p) sample_paying)"
  have w: "reachable sample_paying ?w"
    unfolding reachable_def by (rule r_into_rtranclp, rule step_dismiss, rule prod.collapse [symmetric])
  from payments_are_permanent [OF sample_start_ok
      reachable_trans [OF sample_issued_reachable sample_paying_reachable] w p(1)] p w
  show ?thesis by metis
qed

end
