(* ===== verification/Deposit_Invariants.thy ===== *)
theory Deposit_Invariants
  imports Deposits Samples
begin

text \<open>
  Deposits stay consistent: what a row says is held is what its amounts leave, its status is the
  one its amounts call for, and the cash of a condo's DEPOSIT fund is the sum of what its deposits
  still hold.
\<close>

section \<open>The invariant\<close>

definition remaining :: "deposit \<Rightarrow> money" where
  "remaining d = dep_amount d - dep_refunded d - dep_forfeited d"

definition deposit_good :: "deposit \<Rightarrow> bool" where
  "deposit_good d \<longleftrightarrow> 0 \<le> dep_refunded d \<and> 0 \<le> dep_forfeited d \<and> - 1 / 200 \<le> remaining d \<and>
     (case dep_status d of
        HELD \<Rightarrow> dep_refunded d = 0 \<and> dep_forfeited d = 0
      | PARTIALLY_REFUNDED \<Rightarrow> 0 < dep_refunded d + dep_forfeited d \<and> 1 / 200 < remaining d
      | REFUNDED \<Rightarrow> remaining d \<le> 1 / 200 \<and> (0 < dep_forfeited d \<longrightarrow> 1 / 200 < dep_refunded d)
      | FORFEITED \<Rightarrow> remaining d \<le> 1 / 200 \<and> 0 < dep_forfeited d \<and> dep_refunded d \<le> 1 / 200)"

definition dkey :: "string \<Rightarrow> string \<Rightarrow> string" where
  "dkey i k = ''deposit:'' @ i @ '':'' @ k"

definition has_key :: "string \<Rightarrow> ledger_entry list \<Rightarrow> bool" where
  "has_key k ls \<longleftrightarrow> list_ex (\<lambda>l. le_key l = Some k) ls"

text \<open>No entry has a key yet that a later refund or forfeit of the deposit will use.\<close>

definition keys_free :: "(rat \<Rightarrow> string) \<Rightarrow> ledger_entry list \<Rightarrow> deposit \<Rightarrow> bool" where
  "keys_free pr ls d \<longleftrightarrow>
     (\<forall>x. dep_refunded d < x \<longrightarrow> \<not> has_key (dkey (dep_id d) (''refund:'' @ pr x)) ls) \<and>
     (\<forall>x. dep_forfeited d < x \<longrightarrow> \<not> has_key (dkey (dep_id d) (''forfeit:liability:'' @ pr x)) ls \<and>
        \<not> has_key (dkey (dep_id d) (''forfeit:income:'' @ pr x)) ls)"

definition deposit_ids_ok :: "bdb \<Rightarrow> bool" where
  "deposit_ids_ok s \<longleftrightarrow> inj (uuids s) \<and> (\<forall>n. CHR '':'' \<notin> set (uuids s n)) \<and> distinct (map dep_id (deposits s)) \<and>
     dep_id ` set (deposits s) \<subseteq> uuids s ` {..<next_uuid s} \<and>
     (\<forall>n k. next_uuid s \<le> n \<longrightarrow> \<not> has_key (dkey (uuids s n) k) (ledger s))"

definition held_total :: "string \<Rightarrow> deposit list \<Rightarrow> money" where
  "held_total condo ds = sum_where (\<lambda>d. dep_condo d = condo) remaining ds"

definition deposits_inv :: "(rat \<Rightarrow> string) \<Rightarrow> bdb \<Rightarrow> bool" where
  "deposits_inv pr s \<longleftrightarrow> deposit_ids_ok s \<and>
     (\<forall>d \<in> set (deposits s). deposit_good d \<and> keys_free pr (ledger s) d) \<and>
     (\<forall>condo. fund_cash condo DEPOSIT_FUND s = held_total condo (deposits s))"

section \<open>Keys\<close>

lemma has_key_append [simp]: "has_key k (ls @ [l]) \<longleftrightarrow> has_key k ls \<or> le_key l = Some k"
  by (simp add: has_key_def)

lemma has_key_single [simp]: "has_key k [l] \<longleftrightarrow> le_key l = Some k"
  by (simp add: has_key_def)

lemma has_key_find: "find_entry (Some k) s = None \<longleftrightarrow> \<not> has_key k (ledger s)"
  by (auto simp: has_key_def find_entry_None_iff list_ex_iff)

lemma dkey_inject:
  assumes "CHR '':'' \<notin> set i" and "CHR '':'' \<notin> set j"
  shows "dkey i k = dkey j l \<longleftrightarrow> i = j \<and> k = l"
proof
  assume "dkey i k = dkey j l"
  then have eq: "i @ CHR '':'' # k = j @ CHR '':'' # l" by (simp add: dkey_def)
  from assms eq show "i = j \<and> k = l"
  proof (induction i arbitrary: j)
    case Nil
    then show ?case by (cases j) auto
  next
    case (Cons c i)
    then show ?case by (cases j) auto
  qed
qed simp

lemma deposit_entry_key: "ei_key (deposit_entry e d f ty x k memo a) = Some (dkey (dep_id d) k)"
  by (simp add: deposit_entry_def dkey_def)

section \<open>Quiet actions\<close>

text \<open>What neither deposits nor entries notice.\<close>

definition dquiet :: "bdb \<Rightarrow> bdb \<Rightarrow> bool" where
  "dquiet s t \<longleftrightarrow> deposits t = deposits s \<and> ledger t = ledger s \<and> uuids t = uuids s \<and> next_uuid s \<le> next_uuid t"

lemma dquiet_inv: "dquiet s t \<Longrightarrow> deposits_inv pr s \<Longrightarrow> deposits_inv pr t"
proof -
  assume q: "dquiet s t" and inv: "deposits_inv pr s"
  then have "uuids s ` {..<next_uuid s} \<subseteq> uuids s ` {..<next_uuid t}" by (auto simp: dquiet_def)
  with q inv show "deposits_inv pr t"
    by (auto simp: dquiet_def deposits_inv_def deposit_ids_ok_def fund_cash_def ledger_sum_def)
qed

lemma quiet_receipt: "preserves (dquiet s) (issue_receipt e x)"
proof (rule preservesI)
  fix t assume q: "dquiet s t"
  have k: "keeps (\<lambda>s. (deposits s, ledger s, uuids s)) (issue_receipt e x)"
    by (rule keeps_issue_receipt) simp_all
  have "preserves (\<lambda>t. n \<le> next_uuid t) (issue_receipt e x)" for n
    unfolding issue_receipt_def create_receipt_def next_receipt_number_def bump_sequence_def new_id_def Let_def
    by (intro pres preserves_modify) (auto simp: preserves_def)
  then have "next_uuid t \<le> next_uuid (snd (issue_receipt e x t))" by (auto intro: preserves_snd)
  with q keepsD [OF k, of t] show "dquiet s (snd (issue_receipt e x t))" by (auto simp: dquiet_def)
qed

lemma wp_receipt_quiet:
  "(\<And>r t. dquiet s t \<Longrightarrow> Q r t) \<Longrightarrow> wp (issue_receipt e x) Q (\<lambda>_. True) s"
  by (rule wp_preserves [OF quiet_receipt]) (auto simp: dquiet_def)

lemma wp_record_new:
  assumes "find_entry (ei_key x) s = None"
    and "\<And>i t. t = s\<lparr>next_uuid := Suc (next_uuid s), ledger := ledger s @ [entry_of e x i]\<rparr> \<Longrightarrow> Q (entry_of e x i) t"
  shows "wp (record_entry e x) Q E s"
  using assms by (simp add: wp_def record_entry_new append_entry_run)

lemma fund_cash_add:
  "fund_cash condo f (s\<lparr>next_uuid := n, ledger := ledger s @ [l]\<rparr>) = fund_cash condo f s + cash_weight condo f l"
  by (simp add: fund_cash_def ledger_sum_def)

section \<open>Changing the rows\<close>

lemma has_key_append_list [simp]: "has_key k (ls @ ms) \<longleftrightarrow> has_key k ls \<or> has_key k ms"
  by (simp add: has_key_def)

text \<open>A new deposit, with an entry that brings its amount into the fund.\<close>

lemma inv_add:
  assumes inv: "deposits_inv pr s" and n: "n = next_uuid s"
    and d: "dep_id d = uuids s n" "dep_refunded d = 0" "dep_forfeited d = 0" "dep_status d = HELD" "0 \<le> dep_amount d"
    and t: "deposits t = deposits s @ [d]" "ledger t = ledger s @ [l]" "uuids t = uuids s" "Suc n \<le> next_uuid t"
    and l: "le_key l = Some (dkey (dep_id d) ''held'')"
      "\<And>condo. cash_weight condo DEPOSIT_FUND l = (if dep_condo d = condo then dep_amount d else 0)"
  shows "deposits_inv pr t"
proof -
  have I: "deposit_ids_ok s" "\<And>d. d \<in> set (deposits s) \<Longrightarrow> deposit_good d \<and> keys_free pr (ledger s) d"
    "\<And>condo. fund_cash condo DEPOSIT_FUND s = held_total condo (deposits s)"
    using inv by (auto simp: deposits_inv_def)
  have J: "inj (uuids s)" "\<And>n. CHR '':'' \<notin> set (uuids s n)" "dep_id ` set (deposits s) \<subseteq> uuids s ` {..<n}"
    "distinct (map dep_id (deposits s))" "\<And>m k. n \<le> m \<Longrightarrow> \<not> has_key (dkey (uuids s m) k) (ledger s)"
    using I(1) n by (simp_all add: deposit_ids_ok_def)
  have "uuids s n \<notin> uuids s ` {..<n}" using J(1) by (auto simp: inj_def)
  then have new: "dep_id d \<notin> dep_id ` set (deposits s)" using J(3) unfolding d(1) by blast
  have other: "\<not> has_key (dkey j k) [l]" if "j = uuids s m" "m \<noteq> n" for j k m
    using that l(1) d(1) J(1,2) dkey_inject [of j "uuids s n" k "''held''"]
    by (auto simp: has_key_def inj_eq)
  have colon: "CHR '':'' \<notin> set (dep_id c)" if "c \<in> set (deposits t)" for c
    using that t(1) d(1) J(2,3) by (auto simp: subset_iff)
  have ids: "deposit_ids_ok t"
    unfolding deposit_ids_ok_def
  proof (intro conjI allI impI)
    show "\<not> has_key (dkey (uuids t m) k) (ledger t)" if "next_uuid t \<le> m" for m k
    proof -
      have "m \<noteq> n" and "n \<le> m" using that t(4) by simp_all
      then have "\<not> has_key (dkey (uuids s m) k) [l]" and "\<not> has_key (dkey (uuids s m) k) (ledger s)"
        using other [OF refl] J(5) by blast+
      then show ?thesis unfolding t(2,3) has_key_append_list by blast
    qed
    have "uuids s ` {..<n} \<subseteq> uuids s ` {..<next_uuid t}" and "uuids s n \<in> uuids s ` {..<next_uuid t}"
      using t(4) by auto
    then show "dep_id ` set (deposits t) \<subseteq> uuids t ` {..<next_uuid t}"
      unfolding t(1,3) using J(3) d(1) by (simp add: subset_trans)
  qed (use J new t in auto)
  moreover have "deposit_good c \<and> keys_free pr (ledger t) c" if c: "c \<in> set (deposits t)" for c
  proof (cases "c = d")
    case True
    have good: "deposit_good d" using d by (simp add: deposit_good_def remaining_def)
    have "\<not> has_key (dkey (dep_id d) k) (ledger t)" if "k \<noteq> ''held''" for k
    proof -
      have "dkey (dep_id d) k \<noteq> dkey (dep_id d) ''held''" using that by (simp add: dkey_def)
      then have "le_key l \<noteq> Some (dkey (dep_id d) k)" unfolding l(1) option.inject by (rule not_sym)
      then show ?thesis using t(2) J(5) [of n k] d(1) by simp
    qed
    then have "keys_free pr (ledger t) d" by (simp add: keys_free_def)
    with True good show ?thesis by simp
  next
    case False
    then have mem: "c \<in> set (deposits s)" using c t(1) by simp
    then have "dep_id c \<in> uuids s ` {..<n}" using J(3) by blast
    then obtain m where m: "dep_id c = uuids s m" "m \<noteq> n" by blast
    have "keys_free pr (ledger s) c" using I(2) [OF mem] by simp
    then have "keys_free pr (ledger t) c"
      using other [OF m] t(2) by (simp add: keys_free_def)
    with I(2) [OF mem] show ?thesis by simp
  qed
  moreover have "fund_cash condo DEPOSIT_FUND t = held_total condo (deposits t)" for condo
    using I(3) [of condo] l(2) [of condo] d(2,3) t(1,2)
    by (simp add: fund_cash_def ledger_sum_def held_total_def remaining_def)
  ultimately show ?thesis by (simp add: deposits_inv_def)
qed

lemma held_total_set_row:
  assumes "distinct (map dep_id ds)" and "d \<in> set ds" and "dep_condo (f d) = dep_condo d"
  shows "held_total condo (set_row dep_id (dep_id d) f ds) =
    held_total condo ds + (if dep_condo d = condo then remaining (f d) - remaining d else 0)"
  using assms
proof (induction ds)
  case (Cons c ds)
  show ?case
  proof (cases "dep_id c = dep_id d")
    case True
    then have c: "c = d" using Cons.prems(1,2) by (auto simp: rev_image_eqI)
    have "set_row dep_id (dep_id d) f ds = ds"
      using Cons.prems(1) True by (auto simp: set_row_def set_where_def rev_image_eqI intro!: map_idI)
    then show ?thesis using c Cons.prems(3) by (simp add: held_total_def set_row_def set_where_def)
  next
    case False
    then show ?thesis using Cons by (auto simp: held_total_def set_row_def set_where_def)
  qed
qed simp

text \<open>Taking money out of a deposit, with entries of its own keys that take as much out of the fund.\<close>

lemma inv_change:
  assumes inv: "deposits_inv pr s" and d: "d \<in> set (deposits s)"
    and f: "dep_id (f d) = dep_id d" "dep_condo (f d) = dep_condo d" "deposit_good (f d)"
      "dep_refunded d \<le> dep_refunded (f d)" "dep_forfeited d \<le> dep_forfeited (f d)"
    and t: "deposits t = set_row dep_id (dep_id d) f (deposits s)" "ledger t = ledger s @ ls"
      "uuids t = uuids s" "next_uuid s \<le> next_uuid t"
    and ls: "\<And>l. l \<in> set ls \<Longrightarrow> \<exists>k. le_key l = Some (dkey (dep_id d) k)" "keys_free pr ls (f d)"
      "\<And>condo. sum_list (map (cash_weight condo DEPOSIT_FUND) ls) =
         (if dep_condo d = condo then remaining (f d) - remaining d else 0)"
  shows "deposits_inv pr t"
proof -
  have I: "deposit_ids_ok s" "\<And>d. d \<in> set (deposits s) \<Longrightarrow> deposit_good d \<and> keys_free pr (ledger s) d"
    "\<And>condo. fund_cash condo DEPOSIT_FUND s = held_total condo (deposits s)"
    using inv by (auto simp: deposits_inv_def)
  have J: "inj (uuids s)" "\<And>n. CHR '':'' \<notin> set (uuids s n)" "dep_id ` set (deposits s) \<subseteq> uuids s ` {..<next_uuid s}"
    "distinct (map dep_id (deposits s))" "\<And>m k. next_uuid s \<le> m \<Longrightarrow> \<not> has_key (dkey (uuids s m) k) (ledger s)"
    using I(1) by (simp_all add: deposit_ids_ok_def)
  have same: "x = d" if "x \<in> set (deposits s)" "dep_id x = dep_id d" for x
    using J(4) d that by (metis distinct_map inj_onD)
  have rows: "set (deposits t) \<subseteq> insert (f d) {c \<in> set (deposits s). dep_id c \<noteq> dep_id d}"
  proof
    fix c assume "c \<in> set (deposits t)"
    then obtain x where x: "x \<in> set (deposits s)" "c = (if dep_id x = dep_id d then f x else x)"
      unfolding t(1) set_row_def set_where_def set_map by blast
    then show "c \<in> insert (f d) {c \<in> set (deposits s). dep_id c \<noteq> dep_id d}"
      using same [OF x(1)] by (cases "dep_id x = dep_id d") auto
  qed
  have keys: "map dep_id (deposits t) = map dep_id (deposits s)"
    unfolding t(1) set_row_def set_where_def map_map
  proof (rule map_cong [OF refl])
    fix x assume x: "x \<in> set (deposits s)"
    show "(dep_id \<circ> (\<lambda>y. if dep_id y = dep_id d then f y else y)) x = dep_id x"
    proof (cases "dep_id x = dep_id d")
      case True
      then have "x = d" by (rule same [OF x])
      then show ?thesis using f(1) by simp
    qed simp
  qed
  have img: "dep_id ` set (deposits t) = dep_id ` set (deposits s)"
    unfolding list.set_map [symmetric] keys ..
  have "dep_id d \<in> uuids s ` {..<next_uuid s}" using J(3) d by blast
  then obtain m where m: "m < next_uuid s" "dep_id d = uuids s m" by blast
  have colon: "CHR '':'' \<notin> set (dep_id c)" if "c \<in> set (deposits s)" for c
  proof -
    have "dep_id c \<in> uuids s ` {..<next_uuid s}" using J(3) that by blast
    then obtain k where "dep_id c = uuids s k" by blast
    then show ?thesis using J(2) [of k] by simp
  qed
  have other: "\<not> has_key (dkey j k) ls" if "CHR '':'' \<notin> set j" "j \<noteq> dep_id d" for j k
  proof
    assume "has_key (dkey j k) ls"
    then obtain l where l: "l \<in> set ls" "le_key l = Some (dkey j k)" by (auto simp: has_key_def list_ex_iff)
    obtain k' where "le_key l = Some (dkey (dep_id d) k')" using ls(1) [OF l(1)] by blast
    then have "dkey j k = dkey (dep_id d) k'" unfolding l(2) by blast
    with that colon [OF d] show False by (simp add: dkey_inject)
  qed
  have "deposit_ids_ok t"
    unfolding deposit_ids_ok_def
  proof (intro conjI allI impI)
    show "\<not> has_key (dkey (uuids t n) k) (ledger t)" if "next_uuid t \<le> n" for n k
    proof -
      have "uuids s n \<noteq> dep_id d" using m that t(4) J(1) by (auto simp: inj_eq)
      with other [OF J(2)] J(5) [of n k] that t show ?thesis by simp
    qed
    have "uuids s ` {..<next_uuid s} \<subseteq> uuids s ` {..<next_uuid t}" using t(4) by auto
    with J(3) show "dep_id ` set (deposits t) \<subseteq> uuids t ` {..<next_uuid t}"
      unfolding img t(3) by (rule subset_trans)
    show "distinct (map dep_id (deposits t))" using J(4) keys by simp
  qed (use J t in auto)
  moreover have "deposit_good c \<and> keys_free pr (ledger t) c" if c: "c \<in> set (deposits t)" for c
  proof (cases "c = f d")
    case True
    have "keys_free pr (ledger s) (f d)"
      using I(2) [OF d] f(1,4,5) by (simp add: keys_free_def)
    with True f(3) ls(2) t(2) show ?thesis by (auto simp: keys_free_def)
  next
    case False
    then have mem: "c \<in> set (deposits s)" "dep_id c \<noteq> dep_id d" using c rows by auto
    with I(2) [OF mem(1)] other [OF colon [OF mem(1)] mem(2)] t(2) show ?thesis
      by (simp add: keys_free_def)
  qed
  moreover have "fund_cash condo DEPOSIT_FUND t = held_total condo (deposits t)" for condo
  proof -
    have "fund_cash condo DEPOSIT_FUND t =
        fund_cash condo DEPOSIT_FUND s + sum_list (map (cash_weight condo DEPOSIT_FUND) ls)"
      by (simp add: fund_cash_def ledger_sum_def t(2))
    also have "\<dots> = held_total condo (deposits s) + (if dep_condo d = condo then remaining (f d) - remaining d else 0)"
      using I(3) [of condo] ls(3) [of condo] by simp
    also have "\<dots> = held_total condo (deposits t)"
      using held_total_set_row [of "deposits s" d f condo] J(4) d f(2) t(1) by simp
    finally show ?thesis .
  qed
  ultimately show ?thesis by (simp add: deposits_inv_def)
qed

section \<open>The operations\<close>

lemma hold_deposit_inv:
  assumes inv: "deposits_inv pr s" and x: "0 \<le> di_amount x"
  shows "wp (hold_deposit e condo x actor m desc) (\<lambda>_. deposits_inv pr) (\<lambda>_. True) s"
proof -
  let ?i = "uuids s (next_uuid s)"
  let ?d = "new_deposit e ?i condo x actor m"
  let ?s = "s\<lparr>next_uuid := Suc (next_uuid s), deposits := deposits s @ [?d]\<rparr>"
  let ?x = "deposit_entry e ?d DEPOSIT_FUND DEPOSIT_ENTRY (di_amount x) ''held'' desc actor"
  have free: "\<not> has_key (dkey ?i k) (ledger s)" for k
    using inv by (simp add: deposits_inv_def deposit_ids_ok_def)
  have rest: "wp (record_entry e ?x) (\<lambda>_. deposits_inv pr) (\<lambda>_. True) t" if q: "dquiet ?s t" for t
  proof (rule wp_record_new)
    show "find_entry (ei_key ?x) t = None"
      using q free by (simp add: deposit_entry_key has_key_find dquiet_def new_deposit_def)
    fix j w assume w: "w = t\<lparr>next_uuid := Suc (next_uuid t), ledger := ledger t @ [entry_of e ?x j]\<rparr>"
    show "deposits_inv pr w"
    proof (rule inv_add [OF inv refl, where d = ?d and l = "entry_of e ?x j"])
      show "le_key (entry_of e ?x j) = Some (dkey (dep_id ?d) ''held'')"
        by (simp add: entry_of_def deposit_entry_def dkey_def)
      show "cash_weight condo' DEPOSIT_FUND (entry_of e ?x j) = (if dep_condo ?d = condo' then dep_amount ?d else 0)"
        for condo' by (simp add: entry_of_def deposit_entry_def cash_weight_def new_deposit_def)
    qed (use q w x in \<open>auto simp: dquiet_def new_deposit_def\<close>)
  qed
  show ?thesis
    unfolding hold_deposit_def Let_def insert_deposit_def
    by (simp add: wp wp_new_id_eq) (rule wp_receipt_quiet, rule rest)
qed

text \<open>The state between the change of the row and the entries that follow it.\<close>

definition row_changed :: "bdb \<Rightarrow> deposit \<Rightarrow> (deposit \<Rightarrow> deposit) \<Rightarrow> bdb" where
  "row_changed s d f = s\<lparr>deposits := set_row dep_id (dep_id d) f (deposits s)\<rparr>"

lemma free_entry:
  "dquiet (row_changed s d f) t \<Longrightarrow> \<not> has_key (dkey (dep_id d) k) (ledger s) \<Longrightarrow>
   find_entry (ei_key (deposit_entry e d fund ty x k memo a)) t = None"
  by (simp add: deposit_entry_key has_key_find dquiet_def row_changed_def)

lemma entry_of_deposit:
  "le_key (entry_of e (deposit_entry e d fund ty x k memo a) i) = Some (dkey (dep_id d) k)"
  "cash_weight condo DEPOSIT_FUND (entry_of e (deposit_entry e d fund ty x k memo a) i) =
     (if dep_condo d = condo \<and> fund = DEPOSIT_FUND \<and> ty \<noteq> CHARGE then x else 0)"
  by (auto simp: entry_of_def deposit_entry_def dkey_def cash_weight_def)

lemma keys_of:
  assumes "deposits_inv pr s" and "d \<in> set (deposits s)"
  shows "keys_free pr (ledger s) d" and "deposit_good d"
  using assms by (auto simp: deposits_inv_def)

lemma pay_out_inv:
  assumes inv: "deposits_inv pr s" and d: "d \<in> set (deposits s)"
    and f: "dep_id (f d) = dep_id d" "dep_condo (f d) = dep_condo d" "deposit_good (f d)"
      "dep_refunded (f d) = dep_refunded d + x" "dep_forfeited (f d) = dep_forfeited d" "0 < x"
      "dep_amount (f d) = dep_amount d"
    and e: "num_text e = pr" "inj pr" and t: "dquiet (row_changed s d f) t"
  shows "wp (pay_out e d x (dep_refunded d + x) actor) (\<lambda>_. deposits_inv pr) (\<lambda>_. True) t"
proof -
  let ?k = "''refund:'' @ num_text e (dep_refunded d + x)"
  let ?e = "deposit_entry e d DEPOSIT_FUND REFUND_ENTRY (- x) ?k (refund_memo (dep_type d)) actor"
  have free: "\<not> has_key (dkey (dep_id d) ?k) (ledger s)"
    using keys_of(1) [OF inv d] f(6) e(1) by (simp add: keys_free_def)
  have rest: "wp (record_entry e ?e) (\<lambda>_. deposits_inv pr) (\<lambda>_. True) w" if w: "dquiet (row_changed s d f) w" for w
  proof (rule wp_record_new)
    show "find_entry (ei_key ?e) w = None" by (rule free_entry [OF w free])
    fix i z assume z: "z = w\<lparr>next_uuid := Suc (next_uuid w), ledger := ledger w @ [entry_of e ?e i]\<rparr>"
    show "deposits_inv pr z"
    proof (rule inv_change [where f = f, OF inv d f(1-3), where ls = "[entry_of e ?e i]"])
      show "keys_free pr [entry_of e ?e i] (f d)"
        using f(1,4) e by (simp add: keys_free_def entry_of_deposit dkey_def inj_eq)
      show "sum_list (map (cash_weight condo DEPOSIT_FUND) [entry_of e ?e i]) =
          (if dep_condo d = condo then remaining (f d) - remaining d else 0)" for condo
        using f(4,5,7) by (simp add: entry_of_deposit remaining_def)
    qed (use f z w in \<open>auto simp: dquiet_def row_changed_def entry_of_deposit\<close>)
  qed
  show ?thesis
    unfolding pay_out_def wp
    by (rule wp_receipt_quiet, rule rest) (use t in \<open>auto simp: dquiet_def\<close>)
qed

lemma held_remaining: "0 < deposit_held d \<Longrightarrow> deposit_held d = remaining d"
  by (simp add: deposit_held_def remaining_def)

lemma find_deposit_Some: "find_deposit i s = Some d \<Longrightarrow> d \<in> set (deposits s) \<and> dep_id d = i"
  by (auto simp: find_deposit_def find_row_def find_Some_iff)

lemma refund_held_inv:
  assumes inv: "deposits_inv pr s" and e: "num_text e = pr" "inj pr"
  shows "wp (refund_held_in_tx e i actor) (\<lambda>_. deposits_inv pr) (\<lambda>_. True) s"
proof (cases "find_deposit i s")
  case None
  then show ?thesis using inv by (simp add: refund_held_in_tx_def wp)
next
  case (Some d)
  let ?f = "\<lambda>x. x\<lparr>dep_refunded := dep_refunded d + deposit_held d, dep_status := REFUNDED, dep_refunded_at := Some (now e)\<rparr>"
  have d: "d \<in> set (deposits s)" "dep_id d = i" using find_deposit_Some [OF Some] by auto
  have "wp (pay_out e d (deposit_held d) (dep_refunded d + deposit_held d) actor) (\<lambda>_. deposits_inv pr) (\<lambda>_. True)
      (row_changed s d ?f)" if h: "1 / 200 < deposit_held d"
  proof (rule pay_out_inv [OF inv d(1) _ _ _ _ _ _ _ e, where f = ?f])
    have "remaining d = deposit_held d" using held_remaining [of d] h by simp
    then show "deposit_good (?f d)"
      using keys_of(2) [OF inv d(1)] h by (simp add: deposit_good_def remaining_def)
  qed (use h in \<open>simp_all add: dquiet_def\<close>)
  then show ?thesis
    using inv Some d(2) by (simp add: refund_held_in_tx_def update_deposit_def wp row_changed_def)
qed

lemma released_fields:
  "dep_id (released e d fr x row) = dep_id row" "dep_condo (released e d fr x row) = dep_condo row"
  "dep_amount (released e d fr x row) = dep_amount row"
  "dep_refunded (released e d fr x row) = dep_refunded d + (if fr then 0 else x)"
  "dep_forfeited (released e d fr x row) = dep_forfeited d + (if fr then x else 0)"
  by (simp_all add: released_def Let_def)

lemma released_good:
  assumes "deposit_good d" and "0 < x" and "0 < deposit_held d" and "x \<le> deposit_held d + 1 / 200"
  shows "deposit_good (released e d fr x d)"
  using assms held_remaining [of d]
  by (auto simp: deposit_good_def released_def Let_def remaining_def)

lemma forfeit_inv:
  assumes inv: "deposits_inv pr s" and d: "d \<in> set (deposits s)"
    and f: "dep_id (f d) = dep_id d" "dep_condo (f d) = dep_condo d" "deposit_good (f d)"
      "dep_refunded (f d) = dep_refunded d" "dep_forfeited (f d) = dep_forfeited d + x" "0 < x"
      "dep_amount (f d) = dep_amount d"
    and e: "num_text e = pr" "inj pr" and t: "dquiet (row_changed s d f) t"
  shows "wp (forfeit_entries e d x actor) (\<lambda>_. deposits_inv pr) (\<lambda>_. True) t"
proof -
  let ?k = "''forfeit:liability:'' @ num_text e (dep_forfeited d + x)"
  let ?l = "''forfeit:income:'' @ num_text e (dep_forfeited d + x)"
  let ?a = "deposit_entry e d DEPOSIT_FUND ADJUSTMENT (- x) ?k (''Forfeited '' @ em_dash @ '' '' @ deposit_label (dep_type d)) (Some actor)"
  let ?b = "deposit_entry e d GENERAL ADJUSTMENT x ?l (''Forfeited deposit income '' @ em_dash @ '' '' @ deposit_label (dep_type d)) (Some actor)"
  have free: "\<not> has_key (dkey (dep_id d) ?k) (ledger s)" "\<not> has_key (dkey (dep_id d) ?l) (ledger s)"
    using keys_of(1) [OF inv d] f(6) e(1) by (simp_all add: keys_free_def)
  show ?thesis
    unfolding forfeit_entries_def wp
  proof (rule wp_record_new)
    show "find_entry (ei_key ?a) t = None" by (rule free_entry [OF t free(1)])
    fix i w assume w: "w = t\<lparr>next_uuid := Suc (next_uuid t), ledger := ledger t @ [entry_of e ?a i]\<rparr>"
    show "wp (record_entry e ?b) (\<lambda>_. deposits_inv pr) (\<lambda>_. True) w"
    proof (rule wp_record_new)
      have "ledger w = ledger s @ [entry_of e ?a i]" using w t by (simp add: dquiet_def row_changed_def)
      then show "find_entry (ei_key ?b) w = None"
        using free(2) by (simp add: deposit_entry_key has_key_find entry_of_deposit dkey_def)
      fix j z assume z: "z = w\<lparr>next_uuid := Suc (next_uuid w), ledger := ledger w @ [entry_of e ?b j]\<rparr>"
      show "deposits_inv pr z"
      proof (rule inv_change [where f = f, OF inv d f(1-3), where ls = "[entry_of e ?a i, entry_of e ?b j]"])
        show "keys_free pr [entry_of e ?a i, entry_of e ?b j] (f d)"
          using f(1,5) e by (simp add: keys_free_def has_key_def entry_of_deposit dkey_def inj_eq)
        show "sum_list (map (cash_weight condo DEPOSIT_FUND) [entry_of e ?a i, entry_of e ?b j]) =
            (if dep_condo d = condo then remaining (f d) - remaining d else 0)" for condo
          using f(4,5,7) by (simp add: entry_of_deposit remaining_def)
      qed (use f z w t in \<open>auto simp: dquiet_def row_changed_def entry_of_deposit\<close>)
    qed
  qed
qed

lemma quiet_log: "preserves (dquiet s) (log_deposit d actor action m)"
  unfolding log_deposit_def log_audit_def by (rule preserves_modify) (simp add: dquiet_def)

lemma preserves_dquiet: "(\<And>s. preserves (dquiet s) m) \<Longrightarrow> preserves (deposits_inv pr) m"
  unfolding preserves_def using dquiet_inv [of _ _ pr] by (metis dquiet_def order_refl)

lemmas log_inv [pres] = preserves_dquiet [OF quiet_log]

lemma emit_inv [pres]: "preserves (deposits_inv pr) (emit v)"
  by (rule preserves_dquiet) (simp add: emit_def preserves_def modify_def dquiet_def)

lemma refund_tx_inv:
  assumes inv: "deposits_inv pr s" and d: "d \<in> set (deposits s)" and e: "num_text e = pr" "inj pr"
    and x: "0 < x" "0 < deposit_held d" "x \<le> deposit_held d + 1 / 200"
  shows "wp (refund_tx e u d x y) (\<lambda>_. deposits_inv pr) (\<lambda>_. True) s"
proof -
  let ?f = "released e d (rf_forfeit y) x"
  have good: "deposit_good (?f d)" by (rule released_good [OF keys_of(2) [OF inv d] x])
  have log: "wp (log_deposit d (user_id u) a m) (\<lambda>_. deposits_inv pr) (\<lambda>_. True) w"
    if "deposits_inv pr w" for w a m
    by (rule preserves_success [OF log_inv that])
  have q: "dquiet (row_changed s d ?f) (row_changed s d ?f)" by (simp add: dquiet_def)
  have "wp (if rf_forfeit y then forfeit_entries e d x (user_id u)
        else pay_out e d x (dep_refunded d + x) (Some (user_id u))) (\<lambda>_. deposits_inv pr) (\<lambda>_. True) (row_changed s d ?f)"
  proof (cases "rf_forfeit y")
    case True
    with forfeit_inv [OF inv d _ _ good _ _ x(1) _ e q] show ?thesis by (simp add: released_fields)
  next
    case False
    with pay_out_inv [OF inv d _ _ good _ _ x(1) _ e q] show ?thesis by (simp add: released_fields)
  qed
  then show ?thesis
    unfolding refund_tx_def update_deposit_def wp_bnd wp_modify row_changed_def by (rule wp_mono) (auto intro: log)
qed

lemma get_deposit_inv [pres]: "preserves (deposits_inv pr) (get_deposit u i)"
  unfolding get_deposit_def by (intro pres)

lemma refund_deposit_inv:
  assumes e: "num_text e = pr" "inj pr"
  shows "preserves (deposits_inv pr) (refund_deposit e u i y)"
proof (rule preservesW)
  fix s assume inv: "deposits_inv pr s"
  show "holds (refund_deposit e u i y) (deposits_inv pr) s"
    unfolding refund_deposit_def assert_deposit_management_def Let_def
    by (rule guard inv refund_tx_inv e pres | simp | (drule find_deposit_Some, simp))+
qed

lemma record_inv:
  assumes "0 \<le> di_amount x"
  shows "preserves (deposits_inv pr) (txn (record_deposit_in_tx e condo x desc actor m))"
  unfolding record_deposit_in_tx_def
  by (rule preserves_txnI, rule hold_deposit_inv) (use assms in auto)

lemma record_deposit_inv: "preserves (deposits_inv pr) (record_deposit e u x)"
proof (rule preservesW)
  fix s assume inv: "deposits_inv pr s"
  have tx: "wp (record_deposit_tx e u condo x) (\<lambda>_. deposits_inv pr) (\<lambda>_. True) s" if "\<not> di_amount x \<le> 0" for condo
    unfolding record_deposit_tx_def wp
    by (rule wp_mono [OF hold_deposit_inv [OF inv]])
       (use that in \<open>auto simp: wp intro: preserves_success [OF log_inv]\<close>)
  show "holds (record_deposit e u x) (deposits_inv pr) s"
    unfolding record_deposit_def assert_deposit_management_def
    by (rule guard inv tx pres | simp)+
qed

section \<open>Steps\<close>

text \<open>
  The calls that change deposits; \<open>recordInTx\<close> and \<open>refundHeldInTx\<close> run in a transaction of their
  callers, which record deposits of a positive amount only.
\<close>

inductive deposit_step :: "(rat \<Rightarrow> string) \<Rightarrow> bdb \<Rightarrow> bdb \<Rightarrow> bool" for pr where
  step_record: "num_text e = pr \<Longrightarrow> record_deposit e u x s = (r, t) \<Longrightarrow> deposit_step pr s t"
| step_record_tx:
    "num_text e = pr \<Longrightarrow> 0 < di_amount x \<Longrightarrow> txn (record_deposit_in_tx e condo x desc actor m) s = (q, t) \<Longrightarrow>
     deposit_step pr s t"
| step_refund: "num_text e = pr \<Longrightarrow> refund_deposit e u i y s = (r, t) \<Longrightarrow> deposit_step pr s t"
| step_refund_tx: "num_text e = pr \<Longrightarrow> txn (refund_held_in_tx e i actor) s = (w, t) \<Longrightarrow> deposit_step pr s t"

lemma deposit_step_inv:
  assumes "deposit_step pr s t" and "inj pr" and "deposits_inv pr s"
  shows "deposits_inv pr t"
  using assms
proof (induction rule: deposit_step.induct)
  case (step_record e u x s r t)
  from preservesD [OF record_deposit_inv step_record(4) step_record(2)] show ?case .
next
  case (step_record_tx e x condo desc actor m s q t)
  from preservesD [OF record_inv [OF less_imp_le [OF step_record_tx(2)]] step_record_tx(5) step_record_tx(3)]
  show ?case .
next
  case (step_refund e u i y s r t)
  from preservesD [OF refund_deposit_inv [OF step_refund(1,3)] step_refund(4) step_refund(2)] show ?case .
next
  case (step_refund_tx e i actor s w t)
  have "preserves (deposits_inv pr) (txn (refund_held_in_tx e i actor))"
    by (rule preserves_txnI, rule refund_held_inv) (use step_refund_tx in auto)
  from preservesD [OF this step_refund_tx(4) step_refund_tx(2)] show ?case .
qed

definition deposit_start :: "bdb \<Rightarrow> bool" where
  "deposit_start s \<longleftrightarrow> inj (uuids s) \<and> (\<forall>n. CHR '':'' \<notin> set (uuids s n)) \<and> deposits s = [] \<and> ledger s = []"

lemma deposit_start_inv: "deposit_start s \<Longrightarrow> deposits_inv pr s"
  by (simp add: deposit_start_def deposits_inv_def deposit_ids_ok_def has_key_def fund_cash_def
      ledger_sum_def held_total_def)

lemma deposit_steps_inv:
  "(deposit_step pr)\<^sup>*\<^sup>* s t \<Longrightarrow> inj pr \<Longrightarrow> deposits_inv pr s \<Longrightarrow> deposits_inv pr t"
  by (induction rule: rtranclp_induct) (auto intro: deposit_step_inv)

end
