(* ===== verification/Deposit_Properties.thy ===== *)
theory Deposit_Properties
  imports Deposit_Invariants Billing_Steps Ledger_Reports
begin

text \<open>
  Properties of the deposit service: its fund is what its deposits still hold, a refund is charged
  to the unit's statement, and two refunds of the same reading of a deposit are receipted twice.
\<close>

section \<open>What a refund does\<close>

lemma refund_receipt_run:
  assumes "find_row co_id (dep_condo d) (condos s) = Some c"
  shows "\<exists>r q. issue_receipt e (deposit_receipt d REFUND_RECEIPT x None m) s =
      (Inr r, s\<lparr>sequences := q, next_uuid := Suc (next_uuid s), receipts := receipts s @ [r]\<rparr>) \<and>
    rc_kind r = REFUND_RECEIPT \<and> rc_amount r = x"
  using issue_receipt_run [of "deposit_receipt d REFUND_RECEIPT x None m" s c e] assms
  by (auto simp: deposit_receipt_def)

lemma pay_out_run:
  assumes co: "find_row co_id (dep_condo d) (condos s) = Some c"
    and key: "find_entry (Some (dkey (dep_id d) (''refund:'' @ num_text e y))) s = None"
  shows "\<exists>r q l. pay_out e d x y actor s =
      (Inr (), s\<lparr>sequences := q, next_uuid := Suc (Suc (next_uuid s)), receipts := receipts s @ [r],
         ledger := ledger s @ [l]\<rparr>) \<and>
    rc_kind r = REFUND_RECEIPT \<and> rc_amount r = x \<and> le_type l = REFUND_ENTRY \<and> le_amount l = - x \<and>
    le_unit l = Some (dep_unit d) \<and> le_condo l = dep_condo d \<and> le_fund l = DEPOSIT_FUND \<and>
    le_key l = Some (dkey (dep_id d) (''refund:'' @ num_text e y))"
proof -
  let ?e = "deposit_entry e d DEPOSIT_FUND REFUND_ENTRY (- x) (''refund:'' @ num_text e y) (refund_memo (dep_type d)) actor"
  obtain r q where r: "issue_receipt e (deposit_receipt d REFUND_RECEIPT x None (refund_memo (dep_type d))) s =
      (Inr r, s\<lparr>sequences := q, next_uuid := Suc (next_uuid s), receipts := receipts s @ [r]\<rparr>)"
      "rc_kind r = REFUND_RECEIPT" "rc_amount r = x"
    using refund_receipt_run [OF co] by blast
  let ?s = "s\<lparr>sequences := q, next_uuid := Suc (next_uuid s), receipts := receipts s @ [r]\<rparr>"
  have "find_entry (ei_key ?e) ?s = None" using key by (simp add: deposit_entry_key find_entry_def)
  then have "record_entry e ?e ?s = append_entry e ?e ?s" by (rule record_entry_new)
  then have "record_entry e ?e ?s = (Inr (entry_of e ?e (uuids s (Suc (next_uuid s)))),
      ?s\<lparr>next_uuid := Suc (Suc (next_uuid s)), ledger := ledger s @ [entry_of e ?e (uuids s (Suc (next_uuid s)))]\<rparr>)"
    by (simp add: append_entry_run)
  with r have "pay_out e d x y actor s = (Inr (), s\<lparr>sequences := q, next_uuid := Suc (Suc (next_uuid s)),
      receipts := receipts s @ [r], ledger := ledger s @ [entry_of e ?e (uuids s (Suc (next_uuid s)))]\<rparr>)"
    by (simp add: pay_out_def act_simps)
  with r(2,3) show ?thesis by (force simp: entry_of_def deposit_entry_def dkey_def)
qed

lemma hold_deposit_run:
  fixes s :: bdb and e condo x actor m
  defines "i \<equiv> uuids s (next_uuid s)"
  defines "d \<equiv> new_deposit e i condo x actor m"
  assumes co: "find_row co_id condo (condos s) = Some c"
    and rc: "\<forall>r \<in> set (receipts s). rc_deposit r \<noteq> Some i"
    and key: "find_entry (Some (dkey i ''held'')) s = None"
  shows "\<exists>r q n l. hold_deposit e condo x actor m desc s =
      (Inr (d, r), s\<lparr>deposits := deposits s @ [d], sequences := q, receipts := receipts s @ [r], next_uuid := n,
         ledger := ledger s @ [l]\<rparr>)"
proof -
  let ?x = "deposit_receipt d DEPOSIT_RECEIPT (di_amount x) (Some i) desc"
  let ?e = "deposit_entry e d DEPOSIT_FUND DEPOSIT_ENTRY (di_amount x) ''held'' desc actor"
  let ?s = "s\<lparr>next_uuid := Suc (next_uuid s), deposits := deposits s @ [d]\<rparr>"
  have "find_row co_id (ri_condo ?x) (condos ?s) = Some c" "ri_payment ?x = None"
    "\<forall>r \<in> set (receipts ?s). rc_deposit r \<noteq> ri_deposit ?x"
    using co rc by (simp_all add: deposit_receipt_def d_def new_deposit_def)
  then obtain r q where r: "issue_receipt e ?x ?s =
      (Inr r, ?s\<lparr>sequences := q, next_uuid := Suc (next_uuid ?s), receipts := receipts ?s @ [r]\<rparr>)"
    using issue_receipt_run [of ?x ?s c e] by blast
  let ?t = "?s\<lparr>sequences := q, next_uuid := Suc (next_uuid ?s), receipts := receipts ?s @ [r]\<rparr>"
  have "dep_id d = i" by (simp add: d_def new_deposit_def)
  then have "find_entry (ei_key ?e) ?t = None" using key by (simp add: deposit_entry_key find_entry_def)
  then have "record_entry e ?e ?t = append_entry e ?e ?t" by (rule record_entry_new)
  with r show ?thesis
    by (simp add: hold_deposit_def insert_deposit_def new_id_def bnd_def modify_def ret_def Let_def
        append_entry_run i_def [symmetric] d_def [symmetric])
       (intro exI, rule refl)
qed

lemma pay_out_again:
  assumes co: "find_row co_id (dep_condo d) (condos s) = Some c"
    and key: "find_entry (Some (dkey (dep_id d) (''refund:'' @ num_text e y))) s = Some l"
  shows "\<exists>r q. pay_out e d x y actor s =
      (Inr (), s\<lparr>sequences := q, next_uuid := Suc (next_uuid s), receipts := receipts s @ [r]\<rparr>) \<and>
    rc_kind r = REFUND_RECEIPT \<and> rc_amount r = x"
proof -
  let ?e = "deposit_entry e d DEPOSIT_FUND REFUND_ENTRY (- x) (''refund:'' @ num_text e y) (refund_memo (dep_type d)) actor"
  obtain r q where r: "issue_receipt e (deposit_receipt d REFUND_RECEIPT x None (refund_memo (dep_type d))) s =
      (Inr r, s\<lparr>sequences := q, next_uuid := Suc (next_uuid s), receipts := receipts s @ [r]\<rparr>)"
      "rc_kind r = REFUND_RECEIPT" "rc_amount r = x"
    using refund_receipt_run [OF co] by blast
  let ?s = "s\<lparr>sequences := q, next_uuid := Suc (next_uuid s), receipts := receipts s @ [r]\<rparr>"
  have "find_entry (ei_key ?e) ?s = Some l" using key by (simp add: deposit_entry_key find_entry_def)
  moreover have "truthy (ei_key ?e)" by (simp add: deposit_entry_key dkey_def truthy_def)
  ultimately have "record_entry e ?e ?s = (Inr l, ?s)" by (intro record_entry_known)
  with r show ?thesis by (auto simp: pay_out_def act_simps)
qed

lemma released_again: "released e d f x (released e d f x row) = released e d f x row"
  by (simp add: released_def Let_def)

lemma set_row_again:
  assumes "\<And>r. key (f r) = key r" and "\<And>r. f (f r) = f r"
  shows "set_row key k f (set_row key k f t) = set_row key k f t"
  using assms by (simp add: set_row_def set_where_def)

section \<open>A concrete run\<close>

text \<open>An injective rendering of the numbers in the entries' keys.\<close>

definition sample_print :: "rat \<Rightarrow> string" where
  "sample_print r = (case quotient_of r of (a, b) \<Rightarrow>
     replicate (nat a) CHR ''p'' @ replicate (nat (- a)) CHR ''m'' @ replicate (nat b) CHR ''q'')"

lemma inj_sample_print: "inj sample_print"
proof (rule injI)
  fix r s assume eq: "sample_print r = sample_print s"
  obtain a b c d where r: "quotient_of r = (a, b)" and s: "quotient_of s = (c, d)"
    by (cases "quotient_of r"; cases "quotient_of s")
  have "length (filter (\<lambda>z. z = x) (sample_print r)) = length (filter (\<lambda>z. z = x) (sample_print s))" for x
    using eq by simp
  from this [of "CHR ''p''"] this [of "CHR ''m''"] this [of "CHR ''q''"]
  have "nat a = nat c" "nat (- a) = nat (- c)" "nat b = nat d"
    by (simp_all add: sample_print_def r s filter_replicate split: if_splits)
  moreover have "0 < b" "0 < d" using quotient_of_denom_pos r s by auto
  ultimately have "a = c" "b = d" by linarith+
  with r s show "r = s" by (metis quotient_of_inject)
qed

definition sample_print_env :: svc_env where
  "sample_print_env = sample_env\<lparr>num_text := sample_print\<rparr>"

definition sample_deposit :: deposit_input where
  "sample_deposit = \<lparr>di_unit = ''u'', di_user = None, di_type = RENOVATION, di_amount = 100,
     di_method = None, di_reference = None, di_paid_at = None, di_notes = None\<rparr>"

lemma sample_deposit_start: "deposit_start sample_start"
proof -
  have "inj (\<lambda>n. ''id'' @ show_nat n)" by (rule injI) simp
  then show ?thesis by (simp add: deposit_start_def sample_start_def colon_not_in_show)
qed

lemma sample_held:
  "\<exists>d r t. txn (record_deposit_in_tx sample_print_env ''c'' sample_deposit None None JNull) sample_start =
     (Inr (d, r), t) \<and> deposits t = [d] \<and> dep_condo d = ''c'' \<and> dep_unit d = ''u'' \<and> dep_amount d = 100 \<and>
     dep_refunded d = 0 \<and> dep_forfeited d = 0 \<and> condos t = condos sample_start"
proof -
  obtain c where c: "find_row co_id ''c'' (condos sample_start) = Some c"
    by (simp add: sample_start_def find_row_def)
  have "receipts sample_start = []" "deposits sample_start = []" "find_entry (Some k) sample_start = None" for k :: string
    by (simp_all add: sample_start_def find_entry_def)
  then show ?thesis
    using hold_deposit_run [OF c, of sample_print_env "sample_deposit\<lparr>di_method := None, di_reference := None, di_paid_at := None\<rparr>"
        None JNull "deposit_label RENOVATION"]
    by (auto simp: record_deposit_in_tx_def txn_def sample_deposit_def new_deposit_def)
qed

section \<open>Properties\<close>

lemma deposits_known:
  assumes "deposit_start s" and "inj pr" and "(deposit_step pr)\<^sup>*\<^sup>* s t" and "d \<in> set (deposits t)"
  shows "deposit_good d" and "keys_free pr (ledger t) d"
  using keys_of [OF deposit_steps_inv [OF assms(3,2) deposit_start_inv [OF assms(1)]] assms(4)] by simp_all

lemma good_facts:
  assumes "deposit_good d"
  shows "0 \<le> dep_refunded d \<and> 0 \<le> dep_forfeited d \<and>
    dep_refunded d + dep_forfeited d \<le> dep_amount d + 1 / 200 \<and>
    (dep_status d = HELD \<longrightarrow> dep_refunded d = 0 \<and> dep_forfeited d = 0) \<and>
    (dep_status d = PARTIALLY_REFUNDED \<longrightarrow> 0 < dep_refunded d + dep_forfeited d \<and> 1 / 200 < deposit_held d) \<and>
    (dep_status d \<in> {REFUNDED, FORFEITED} \<longrightarrow> deposit_held d \<le> 1 / 200) \<and>
    (dep_status d = FORFEITED \<longrightarrow> 0 < dep_forfeited d \<and> dep_refunded d \<le> 1 / 200)"
  using assms by (cases "dep_status d") (auto simp: deposit_good_def deposit_held_def remaining_def max_def)



text \<open>
  Giving a held deposit back raises what the unit is shown to owe by the amount given back,
  though recording the deposit never lowered it: the statements leave DEPOSIT entries out and keep
  REFUND entries.
\<close>

theorem deposit_refund_charged_to_unit:
  assumes "deposit_start s" and "inj (num_text e)" and "(deposit_step (num_text e))\<^sup>*\<^sup>* s t"
    and "find_deposit i t = Some d" and "find_row co_id (dep_condo d) (condos t) = Some c"
    and "1 / 200 < deposit_held d"
  shows "\<exists>w. refund_held_in_tx e i actor t = (Inr (deposit_held d), w) \<and>
      unit_balance (dep_unit d) w = unit_balance (dep_unit d) t + deposit_held d \<and>
      fund_cash (dep_condo d) DEPOSIT_FUND w = fund_cash (dep_condo d) DEPOSIT_FUND t - deposit_held d"
proof -
  let ?y = "dep_refunded d + deposit_held d"
  let ?f = "\<lambda>x. x\<lparr>dep_refunded := ?y, dep_status := REFUNDED, dep_refunded_at := Some (now e)\<rparr>"
  let ?t = "t\<lparr>deposits := set_row dep_id i ?f (deposits t)\<rparr>"
  have d: "d \<in> set (deposits t)" "dep_id d = i" using find_deposit_Some [OF assms(4)] by auto
  have "\<not> has_key (dkey (dep_id d) (''refund:'' @ num_text e ?y)) (ledger t)"
    using deposits_known(2) [OF assms(1-3) d(1)] assms(6) by (simp add: keys_free_def)
  then have "find_entry (Some (dkey (dep_id d) (''refund:'' @ num_text e ?y))) ?t = None"
    by (simp add: has_key_find)
  moreover have "find_row co_id (dep_condo d) (condos ?t) = Some c" using assms(5) by simp
  ultimately obtain r q l where run: "pay_out e d (deposit_held d) ?y actor ?t =
      (Inr (), ?t\<lparr>sequences := q, next_uuid := Suc (Suc (next_uuid ?t)), receipts := receipts ?t @ [r],
         ledger := ledger ?t @ [l]\<rparr>)" (is "_ = (_, ?w)")
      and l: "le_type l = REFUND_ENTRY" "le_amount l = - deposit_held d" "le_unit l = Some (dep_unit d)"
        "le_condo l = dep_condo d" "le_fund l = DEPOSIT_FUND"
    using pay_out_run [of d ?t c] by blast
  have "refund_held_in_tx e i actor t = (Inr (deposit_held d), ?w)"
    using run assms(4,6) by (simp add: refund_held_in_tx_def act_simps update_deposit_def)
  then show ?thesis
    using l by (auto simp: unit_balance_def fund_cash_def ledger_sum_def unit_weight_def cash_weight_def)
qed

theorem deposit_refund_charged_to_unit_witness:
  "\<exists>t d w. deposits t = [d] \<and> refund_held_in_tx sample_print_env (dep_id d) None t = (Inr 100, w) \<and>
     unit_balance ''u'' w = unit_balance ''u'' t + 100"
proof -
  obtain d r t where run: "txn (record_deposit_in_tx sample_print_env ''c'' sample_deposit None None JNull) sample_start =
      (Inr (d, r), t)" "deposits t = [d]" "dep_condo d = ''c''" "dep_unit d = ''u''" "dep_amount d = 100"
      "dep_refunded d = 0" "dep_forfeited d = 0" "condos t = condos sample_start"
    using sample_held by blast
  have pr: "num_text sample_print_env = sample_print" by (simp add: sample_print_env_def)
  have "deposit_step sample_print sample_start t"
    by (rule step_record_tx [OF pr _ run(1)]) (simp add: sample_deposit_def)
  then have steps: "(deposit_step (num_text sample_print_env))\<^sup>*\<^sup>* sample_start t" unfolding pr by (rule r_into_rtranclp)
  have held: "deposit_held d = 100" using run(5-7) by (simp add: deposit_held_def)
  obtain c where "find_row co_id (dep_condo d) (condos t) = Some c"
    using run(3,8) by (simp add: sample_start_def find_row_def)
  with deposit_refund_charged_to_unit [OF sample_deposit_start _ steps, of "dep_id d" d c None]
  obtain w where "refund_held_in_tx sample_print_env (dep_id d) None t = (Inr 100, w)"
    "unit_balance ''u'' w = unit_balance ''u'' t + 100"
    using inj_sample_print run(2,4) held by (auto simp: pr find_deposit_def find_row_def)
  with run(2) show ?thesis by blast
qed

lemma refund_tx_paid:
  assumes "\<not> rf_forfeit y"
    and "pay_out e d x (dep_refunded d + x) (Some (user_id u)) (row_changed s d (released e d False x)) = (Inr (), w)"
  shows "\<exists>a. refund_tx e u d x y s = (Inr (), w\<lparr>audit := audit w @ [a]\<rparr>)"
  using assms by (simp add: refund_tx_def update_deposit_def log_deposit_def act_simps row_changed_def) blast

lemma pay_out_any:
  assumes "find_row co_id (dep_condo d) (condos s) = Some c"
  shows "\<exists>r w. pay_out e d x y actor s = (Inr (), w) \<and> deposits w = deposits s \<and> condos w = condos s \<and>
    receipts w = receipts s @ [r] \<and> rc_kind r = REFUND_RECEIPT \<and> rc_amount r = x \<and>
    (\<exists>l. find_entry (Some (dkey (dep_id d) (''refund:'' @ num_text e y))) w = Some l)"
proof (cases "find_entry (Some (dkey (dep_id d) (''refund:'' @ num_text e y))) s")
  case None
  then obtain r q l where run: "pay_out e d x y actor s =
      (Inr (), s\<lparr>sequences := q, next_uuid := Suc (Suc (next_uuid s)), receipts := receipts s @ [r],
         ledger := ledger s @ [l]\<rparr>)" (is "_ = (_, ?w)") "rc_kind r = REFUND_RECEIPT" "rc_amount r = x"
      "le_key l = Some (dkey (dep_id d) (''refund:'' @ num_text e y))"
    using pay_out_run [OF assms] by blast
  have "find_entry (Some (dkey (dep_id d) (''refund:'' @ num_text e y))) ?w \<noteq> None"
    using run(4) by (simp add: has_key_find del: not_None_eq)
  with run show ?thesis by auto
next
  case (Some l)
  then obtain r q where run: "pay_out e d x y actor s =
      (Inr (), s\<lparr>sequences := q, next_uuid := Suc (next_uuid s), receipts := receipts s @ [r]\<rparr>)"
      "rc_kind r = REFUND_RECEIPT" "rc_amount r = x"
    using pay_out_again [OF assms] by blast
  with Some show ?thesis by (auto simp: find_entry_def)
qed

text \<open>
  Two refunds of the same reading of a deposit, one transaction after the other: the second
  issues a second receipt for the same money, while the deposit and the ledger stay as the first
  left them.
\<close>

theorem stale_refund_receipted_twice:
  assumes "find_row co_id (dep_condo d) (condos s) = Some c" and "\<not> rf_forfeit y"
  shows "\<exists>t w r r'. refund_tx e u d x y s = (Inr (), t) \<and> refund_tx e u d x y t = (Inr (), w) \<and>
     deposits w = deposits t \<and> ledger w = ledger t \<and> receipts w = receipts s @ [r, r'] \<and>
     rc_kind r = REFUND_RECEIPT \<and> rc_amount r = x \<and> rc_kind r' = REFUND_RECEIPT \<and> rc_amount r' = x"
proof -
  let ?y = "dep_refunded d + x" and ?f = "released e d False x" and ?u = "Some (user_id u)"
  have "find_row co_id (dep_condo d) (condos (row_changed s d ?f)) = Some c"
    using assms(1) by (simp add: row_changed_def)
  from pay_out_any [OF this, of e x ?y ?u] obtain r v l where
    v: "pay_out e d x ?y ?u (row_changed s d ?f) = (Inr (), v)" "deposits v = deposits (row_changed s d ?f)"
      "condos v = condos s" "receipts v = receipts s @ [r]" "rc_kind r = REFUND_RECEIPT" "rc_amount r = x"
      "find_entry (Some (dkey (dep_id d) (''refund:'' @ num_text e ?y))) v = Some l"
    by (auto simp: row_changed_def)
  from refund_tx_paid [OF assms(2) v(1)] obtain a where
    first: "refund_tx e u d x y s = (Inr (), v\<lparr>audit := audit v @ [a]\<rparr>)" (is "_ = (_, ?t)") by blast
  have same: "deposits (row_changed ?t d ?f) = deposits v"
    using v(2) by (simp add: row_changed_def set_row_again released_again released_fields)
  have "find_row co_id (dep_condo d) (condos (row_changed ?t d ?f)) = Some c"
    "find_entry (Some (dkey (dep_id d) (''refund:'' @ num_text e ?y))) (row_changed ?t d ?f) = Some l"
    using assms(1) v(3,7) by (simp_all add: row_changed_def find_entry_def)
  from pay_out_again [OF this, of x ?u] obtain r' q where
    second: "pay_out e d x ?y ?u (row_changed ?t d ?f) = (Inr (), (row_changed ?t d ?f)\<lparr>sequences := q,
        next_uuid := Suc (next_uuid (row_changed ?t d ?f)), receipts := receipts (row_changed ?t d ?f) @ [r']\<rparr>)"
      "rc_kind r' = REFUND_RECEIPT" "rc_amount r' = x" by blast
  from refund_tx_paid [OF assms(2) second(1)] obtain b w where
    w: "refund_tx e u d x y ?t = (Inr (), w)" "deposits w = deposits (row_changed ?t d ?f)" "ledger w = ledger v"
      "receipts w = receipts v @ [r']"
    by (auto simp: row_changed_def)
  with first v second(2,3) same show ?thesis by auto
qed

theorem stale_refund_receipted_twice_witness:
  "\<exists>t w r r'. receipts sample_start = [] \<and>
     refund_tx sample_env sample_admin (new_deposit sample_env ''d'' ''c'' sample_deposit None JNull) 100
       \<lparr>rf_amount = None, rf_forfeit = False, rf_note = None\<rparr> sample_start = (Inr (), t) \<and>
     refund_tx sample_env sample_admin (new_deposit sample_env ''d'' ''c'' sample_deposit None JNull) 100
       \<lparr>rf_amount = None, rf_forfeit = False, rf_note = None\<rparr> t = (Inr (), w) \<and>
     ledger w = ledger t \<and> receipts w = [r, r']"
proof -
  let ?d = "new_deposit sample_env ''d'' ''c'' sample_deposit None JNull"
  obtain c where "find_row co_id (dep_condo ?d) (condos sample_start) = Some c"
    by (simp add: sample_start_def find_row_def new_deposit_def)
  from stale_refund_receipted_twice [OF this, of "\<lparr>rf_amount = None, rf_forfeit = False, rf_note = None\<rparr>" sample_env sample_admin 100]
  show ?thesis by (auto simp: sample_start_def)
qed

end
