(* ===== verification/Access_Properties.thy ===== *)
theory Access_Properties
  imports Access_Restriction Billing_Steps
begin

text \<open>
  Properties of the access restriction: the stored settings read back, the arrears of the condo's
  scan are those of each unit, and a recompute leaves restricted exactly the units the policy names.
\<close>

section \<open>Settings\<close>

definition valid_settings :: "url_parser \<Rightarrow> restriction_settings \<Rightarrow> bool" where
  "valid_settings up x \<longleftrightarrow>
     of_int \<lfloor>rs_grace_days x\<rfloor> = rs_grace_days x \<and> 0 \<le> rs_grace_days x \<and> rs_grace_days x \<le> 365 \<and>
     0 \<le> rs_min_outstanding x \<and> rs_zones x \<noteq> [] \<and>
     (case rs_webhook_url x of None \<Rightarrow> True
      | Some t \<Rightarrow> trim t \<noteq> [] \<and> (up (trim t) = Some (''http:'', t) \<or> up (trim t) = Some (''https:'', t))) \<and>
     (case rs_webhook_secret x of None \<Rightarrow> True | Some t \<Rightarrow> t \<noteq> [] \<and> trim t = t \<and> length t \<le> 256)"

lemma zone_of_text [simp]: "zone_of (JStr (zone_text z)) = Some z"
  by (cases z) (simp_all add: zone_of_def)

lemma parse_zones_text: "zs \<noteq> [] \<Longrightarrow> parse_zones (JArr (map (\<lambda>z. JStr (zone_text z)) zs)) d = zs"
proof -
  have "List.map_filter zone_of (map (\<lambda>z. JStr (zone_text z)) zs) = zs"
    by (induction zs) (simp_all add: List.map_filter_simps)
  then show "zs \<noteq> [] \<Longrightarrow> ?thesis" by (simp add: parse_zones_def)
qed

lemma merged_field:
  "json_field k (merge_restriction_settings raw x) =
     (if k = ''accessRestriction'' then json_field k (merge_restriction_settings JNull x) else json_field k raw)"
  unfolding merge_restriction_settings_def json_field_set json_field_as_object
  by (cases "k = ''accessRestriction''") simp_all

lemma settings_read_back:
  assumes "valid_settings up x"
  shows "parse_restriction_settings up (merge_restriction_settings raw x) = x"
proof -
  have f: "json_field ''accessRestriction'' (merge_restriction_settings raw x) =
      JObj [(''enabled'', JBool (rs_enabled x)), (''graceDays'', JNum (rs_grace_days x)),
        (''minOutstanding'', JNum (rs_min_outstanding x)), (''softBlockFacility'', JBool (rs_block_facility x)),
        (''softBlockVisitors'', JBool (rs_block_visitors x)),
        (''softBlockDeliveryPasses'', JBool (rs_block_deliveries x)),
        (''softBlockRecurringPasses'', JBool (rs_block_recurring x)),
        (''zones'', JArr (map (\<lambda>z. JStr (zone_text z)) (rs_zones x))), (''webhookUrl'', opt_text (rs_webhook_url x)),
        (''webhookSecret'', opt_text (rs_webhook_secret x)), (''autoSyncEnabled'', JBool (rs_auto_sync x))]"
    by (simp add: merge_restriction_settings_def json_field_set)
  have url: "parse_url up (opt_text (rs_webhook_url x)) = rs_webhook_url x"
    using assms by (auto simp: valid_settings_def parse_url_def opt_text_def split: option.splits)
  have secret: "parse_secret (opt_text (rs_webhook_secret x)) = rs_webhook_secret x"
    using assms by (auto simp: valid_settings_def parse_secret_def opt_text_def split: option.splits)
  have grace: "parse_grace_days (JNum (rs_grace_days x)) d = rs_grace_days x" for d
    using assms by (simp add: valid_settings_def parse_grace_days_def)
  have least: "parse_non_neg (JNum (rs_min_outstanding x)) d = rs_min_outstanding x" for d
    using assms by (simp add: valid_settings_def parse_non_neg_def)
  have zones: "parse_zones (JArr (map (\<lambda>z. JStr (zone_text z)) (rs_zones x))) d = rs_zones x" for d
    using assms by (intro parse_zones_text) (simp add: valid_settings_def)
  show "parse_restriction_settings up (merge_restriction_settings raw x) = x"
    unfolding parse_restriction_settings_def Let_def f
    by (simp add: json_field_def as_object_def url secret grace least zones parse_boolean_def)
qed

text \<open>
  What the settings rely on of the WHATWG URL parser \<open>up\<close>, which answers the protocol and the
  serialised URL: a serialised http or https URL has no blank at its ends, and it parses to itself.
\<close>

definition url_law :: "url_parser \<Rightarrow> bool" where
  "url_law up \<longleftrightarrow> (\<forall>t protocol href. up t = Some (protocol, href) \<and> (protocol = ''http:'' \<or> protocol = ''https:'') \<longrightarrow>
     up href = Some (protocol, href) \<and> trim href = href \<and> href \<noteq> [])"

lemma trim_starts: "trim t \<noteq> [] \<Longrightarrow> \<not> is_space (hd (trim t))"
proof -
  assume a: "trim t \<noteq> []"
  let ?d = "dropWhile is_space t"
  have d: "?d = trim t @ rev (takeWhile is_space (rev ?d))"
    unfolding trim_def by (metis rev_append rev_rev_ident takeWhile_dropWhile_id)
  then have "hd ?d = hd (trim t)" "?d \<noteq> []" using a hd_append2 [of "trim t"] by (metis, metis append_is_Nil_conv)
  with hd_dropWhile [of is_space t] show ?thesis by simp
qed

lemma trim_kept:
  assumes "t \<noteq> []" and "\<not> is_space (hd t)"
  shows "trim t = rev (dropWhile is_space (rev t))" "trim t \<noteq> []"
proof -
  show t: "trim t = rev (dropWhile is_space (rev t))" using assms by (cases t) (simp_all add: trim_def)
  have "hd t \<in> set (rev t)" using assms(1) by simp
  with assms(2) show "trim t \<noteq> []" unfolding t by (auto simp: dropWhile_eq_Nil_conv)
qed

lemma trim_trim [simp]: "trim (trim t) = trim t"
proof (cases "trim t = []")
  case True
  have "trim [] = []" by (simp add: trim_def)
  with True show ?thesis by simp
next
  case False
  have "trim t = rev (dropWhile is_space (rev (dropWhile is_space t)))" by (simp add: trim_def)
  then have "rev (dropWhile is_space (rev (trim t))) = trim t"
    by (metis dropWhile_idem rev_rev_ident)
  with trim_kept(1) [OF False trim_starts [OF False]] show ?thesis by simp
qed

lemma trim_ends: "t \<noteq> [] \<Longrightarrow> \<not> is_space (hd t) \<Longrightarrow> trim t = t \<longleftrightarrow> \<not> is_space (last t)"
proof -
  assume t: "t \<noteq> []" "\<not> is_space (hd t)"
  obtain u z where "t = u @ [z]" using t(1) by (metis rev_exhaust)
  moreover have "trim (u @ [z]) = (if is_space z then rev (dropWhile is_space (rev u)) else u @ [z])"
    using trim_kept(1) [OF t] calculation by simp
  moreover have "length (dropWhile is_space (rev u)) < length (u @ [z])"
    using length_dropWhile_le [of is_space "rev u"] by simp
  ultimately show ?thesis by (metis last_snoc length_rev nat_less_le)
qed

lemma length_trim: "length (trim t) \<le> length t"
  unfolding trim_def by (metis length_dropWhile_le length_rev order_trans)

lemma parsed_secret:
  assumes "parse_secret j = Some t"
  shows "t \<noteq> []" "\<not> is_space (hd t)" "length t \<le> 256"
proof -
  obtain s where s: "trim s \<noteq> []" "t = take 256 (trim s)"
    using assms by (auto simp: parse_secret_def split: json.splits if_splits)
  then show "t \<noteq> []" "length t \<le> 256" by simp_all
  have "hd t = hd (trim s)" using s by (simp add: hd_take)
  with trim_starts [OF s(1)] show "\<not> is_space (hd t)" by simp
qed

lemma parsed_url:
  assumes "url_law up" and "parse_url up j = Some t"
  shows "trim t \<noteq> [] \<and> (up (trim t) = Some (''http:'', t) \<or> up (trim t) = Some (''https:'', t))"
proof -
  obtain s p where "up (trim s) = Some (p, t)" "p = ''http:'' \<or> p = ''https:''"
    using assms(2) by (auto simp: parse_url_def split: json.splits if_splits option.splits)
  with assms(1) show ?thesis unfolding url_law_def by metis
qed

lemma parsed_grace: "parse_grace_days j 14 = d \<Longrightarrow> of_int \<lfloor>d\<rfloor> = d \<and> 0 \<le> d \<and> d \<le> 365"
  by (auto simp: parse_grace_days_def split: json.splits if_splits)

lemma parsed_settings:
  assumes "url_law up"
  shows "valid_settings up ((parse_restriction_settings up raw)\<lparr>rs_webhook_secret := map_option trim
    (rs_webhook_secret (parse_restriction_settings up raw))\<rparr>)"
proof -
  let ?f = "\<lambda>k. json_field k (json_field ''accessRestriction'' raw)"
  have url: "case parse_url up (?f ''webhookUrl'') of None \<Rightarrow> True
      | Some t \<Rightarrow> trim t \<noteq> [] \<and> (up (trim t) = Some (''http:'', t) \<or> up (trim t) = Some (''https:'', t))"
    using parsed_url [OF assms] by (simp split: option.split)
  have secret: "case map_option trim (parse_secret (?f ''webhookSecret'')) of None \<Rightarrow> True
      | Some t \<Rightarrow> t \<noteq> [] \<and> trim t = t \<and> length t \<le> 256"
    using parsed_secret trim_kept(2) order_trans [OF length_trim] by (auto split: option.split)
  have "0 \<le> parse_non_neg (?f ''minOutstanding'') (1 / 100)"
    by (simp add: parse_non_neg_def split: json.split)
  moreover have "parse_zones (?f ''zones'') [CAR_PARK, AMENITIES] \<noteq> []"
    by (simp add: parse_zones_def Let_def split: json.split)
  ultimately show ?thesis
    using url secret parsed_grace [OF refl, of "?f ''graceDays''"]
    by (simp add: valid_settings_def parse_restriction_settings_def Let_def default_restriction_settings_def)
qed

text \<open>Merging does not depend on the condo's settings before, and loses of a parsed secret only what trimming does.\<close>

lemma settings_trimmed:
  assumes x: "x = parse_restriction_settings up raw0" and "url_law up"
  shows "parse_restriction_settings up (merge_restriction_settings raw x) =
    x\<lparr>rs_webhook_secret := map_option trim (rs_webhook_secret x)\<rparr>"
proof -
  let ?y = "x\<lparr>rs_webhook_secret := map_option trim (rs_webhook_secret x)\<rparr>"
  have y: "parse_restriction_settings up (merge_restriction_settings raw ?y) = ?y"
    using parsed_settings [OF assms(2), of raw0] unfolding x by (rule settings_read_back)
  have "parse_secret (opt_text (rs_webhook_secret x)) = map_option trim (rs_webhook_secret x)"
  proof (cases "rs_webhook_secret x")
    case None
    then show ?thesis by (simp add: parse_secret_def opt_text_def)
  next
    case (Some t)
    then have "parse_secret (json_field ''webhookSecret'' (json_field ''accessRestriction'' raw0)) = Some t"
      by (simp add: x parse_restriction_settings_def Let_def)
    note t = parsed_secret [OF this]
    show ?thesis using Some trim_kept(2) [OF t(1,2)] order_trans [OF length_trim t(3)]
      by (simp add: parse_secret_def opt_text_def)
  qed
  moreover have "rs_webhook_secret (parse_restriction_settings up (merge_restriction_settings raw x)) =
      parse_secret (opt_text (rs_webhook_secret x))"
    by (simp add: parse_restriction_settings_def Let_def merge_restriction_settings_def json_field_set)
       (simp add: json_field_def as_object_def)
  moreover have "(parse_restriction_settings up (merge_restriction_settings raw x))\<lparr>rs_webhook_secret := None\<rparr> =
      (parse_restriction_settings up (merge_restriction_settings raw ?y))\<lparr>rs_webhook_secret := None\<rparr>"
    by (simp add: parse_restriction_settings_def Let_def merge_restriction_settings_def json_field_set)
       (simp add: json_field_def as_object_def)
  ultimately show ?thesis unfolding y
    by (cases "parse_restriction_settings up (merge_restriction_settings raw x)") (cases x, simp)
qed

text \<open>
  C16. Whatever is stored, the settings that are parsed from it and merged into a condo's settings
  read back as they were parsed, except that the webhook secret is trimmed once more: a secret
  that was cut at 256 characters just after a blank loses the blank, any other is kept. What is read back
  is stable: merged again it reads back the same. The condo's other settings stay as they are.
\<close>

theorem restriction_settings_round_trip:
  assumes "url_law up"
    and "x = parse_restriction_settings up stored"
    and "y = parse_restriction_settings up (merge_restriction_settings raw x)"
  shows "y = x\<lparr>rs_webhook_secret := map_option trim (rs_webhook_secret x)\<rparr> \<and>
    (y = x \<longleftrightarrow> (case rs_webhook_secret x of None \<Rightarrow> True | Some t \<Rightarrow> \<not> is_space (last t))) \<and>
    parse_restriction_settings up (merge_restriction_settings raw' y) = y \<and>
    (\<forall>k. k \<noteq> ''accessRestriction'' \<longrightarrow> json_field k (merge_restriction_settings raw x) = json_field k raw)"
proof (intro conjI)
  have secret: "rs_webhook_secret x = parse_secret (json_field ''webhookSecret'' (json_field ''accessRestriction'' stored))"
    by (simp add: assms(2) parse_restriction_settings_def Let_def)
  show y: "y = x\<lparr>rs_webhook_secret := map_option trim (rs_webhook_secret x)\<rparr>"
    unfolding assms(3) by (rule settings_trimmed [OF assms(2,1)])
  have "y = x \<longleftrightarrow> map_option trim (rs_webhook_secret x) = rs_webhook_secret x"
    unfolding y by (cases x) auto
  also have "\<dots> \<longleftrightarrow> (case rs_webhook_secret x of None \<Rightarrow> True | Some t \<Rightarrow> \<not> is_space (last t))"
  proof (cases "rs_webhook_secret x")
    case (Some t)
    with secret have "parse_secret (json_field ''webhookSecret'' (json_field ''accessRestriction'' stored)) = Some t" by simp
    with Some trim_ends [OF parsed_secret(1,2)] show ?thesis by simp
  qed simp
  finally show "y = x \<longleftrightarrow> (case rs_webhook_secret x of None \<Rightarrow> True | Some t \<Rightarrow> \<not> is_space (last t))" .
  show "parse_restriction_settings up (merge_restriction_settings raw' y) = y"
    using parsed_settings [OF assms(1), of stored] unfolding y assms(2) by (rule settings_read_back)
  show "\<forall>k. k \<noteq> ''accessRestriction'' \<longrightarrow> json_field k (merge_restriction_settings raw x) = json_field k raw"
    using merged_field by auto
qed

text \<open>A stored URL with blanks around it, and a secret with a blank as its 256th character.\<close>

definition sample_url_parser :: url_parser where
  "sample_url_parser t = (if trim t = t \<and> t \<noteq> [] then Some (''https:'', t) else None)"

definition sample_stored_settings :: json where
  "sample_stored_settings = JObj [(''accessRestriction'', JObj [(''enabled'', JBool True),
     (''webhookUrl'', JStr '' https://gate.example/hook ''),
     (''webhookSecret'', JStr (replicate 255 (CHR ''s'') @ '' et''))]), (''tz'', JStr ''UTC'')]"

theorem restriction_settings_round_trip_witness:
  "\<exists>x y. x = parse_restriction_settings sample_url_parser sample_stored_settings \<and>
     y = parse_restriction_settings sample_url_parser (merge_restriction_settings sample_stored_settings x) \<and>
     rs_enabled y \<and> rs_webhook_url y = Some ''https://gate.example/hook'' \<and>
     rs_webhook_secret x = Some (replicate 255 (CHR ''s'') @ '' '') \<and> rs_webhook_secret y = Some (replicate 255 (CHR ''s'')) \<and>
     parse_restriction_settings sample_url_parser (merge_restriction_settings JNull y) = y \<and>
     json_field ''tz'' (merge_restriction_settings sample_stored_settings x) = JStr ''UTC''"
proof -
  have law: "url_law sample_url_parser"
    by (auto simp: url_law_def sample_url_parser_def split: if_splits)
  let ?x = "parse_restriction_settings sample_url_parser sample_stored_settings"
  have x: "rs_enabled ?x" "rs_webhook_url ?x = Some ''https://gate.example/hook''"
    "rs_webhook_secret ?x = Some (replicate 255 (CHR ''s'') @ '' '')"
    "json_field ''tz'' sample_stored_settings = JStr ''UTC''"
    by code_simp+
  have cut: "trim (replicate 255 (CHR ''s'') @ '' '') = replicate 255 (CHR ''s'')" by code_simp
  let ?y = "parse_restriction_settings sample_url_parser (merge_restriction_settings sample_stored_settings ?x)"
  note rt = restriction_settings_round_trip [OF law refl refl, of sample_stored_settings sample_stored_settings JNull]
  note y = conjunct1 [OF rt] conjunct1 [OF conjunct2 [OF conjunct2 [OF rt]]] conjunct2 [OF conjunct2 [OF conjunct2 [OF rt]]]
  have "rs_enabled ?y" "rs_webhook_url ?y = Some ''https://gate.example/hook''"
    "rs_webhook_secret ?y = Some (replicate 255 (CHR ''s''))"
    using x(1-3) cut unfolding y(1) by simp_all
  moreover have "json_field ''tz'' (merge_restriction_settings sample_stored_settings ?x) = JStr ''UTC''"
    using y(3) x(4) by simp
  ultimately show ?thesis using x(3) y(2) by simp
qed

section \<open>Arrears\<close>

lemma find_row_snoc: "find_row key k (xs @ [x]) = (case find_row key k xs of None \<Rightarrow> if key x = k then Some x else None | r \<Rightarrow> r)"
  by (induction xs) (simp_all add: find_row_def)

lemma find_row_changed:
  assumes "\<And>r. key (f r) = key r"
  shows "find_row key k (set_row key j f t) =
    (if j = k then map_option f (find_row key k t) else find_row key k t)"
  by (induction t) (auto simp: find_row_def set_row_def set_where_def assms)

lemma add_arrears_unit [simp]: "as_unit (add_arrears n i x) = as_unit x"
  by (simp add: add_arrears_def)

lemma snap_of_unit [simp]: "as_unit (snap_of xs u) = u"
  by (auto simp: snap_of_def nothing_owed_def find_row_def find_Some_iff split: option.split)

lemma snap_of_step:
  "snap_of (condo_arrears_step n xs i) u =
     (if inv_unit i = u then unit_arrears_step n (snap_of xs u) i else snap_of xs u)"
proof (cases "inv_total i - inv_paid i \<le> 1 / 200")
  case True
  then show ?thesis by (simp add: condo_arrears_step_def unit_arrears_step_def)
next
  case False
  show ?thesis
  proof (cases "find_row as_unit (inv_unit i) xs")
    case None
    with False show ?thesis
      by (auto simp: condo_arrears_step_def unit_arrears_step_def snap_of_def find_row_snoc add_arrears_def
          is_older_def nothing_owed_def split: option.split)
  next
    case (Some a)
    with False show ?thesis
      by (cases "inv_unit i = u")
         (simp_all add: condo_arrears_step_def unit_arrears_step_def snap_of_def find_row_changed)
  qed
qed

lemma snap_of_fold:
  "snap_of (foldl (condo_arrears_step n) xs is) u =
     foldl (unit_arrears_step n) (snap_of xs u) (filter (\<lambda>i. inv_unit i = u) is)"
  by (induction "is" arbitrary: xs) (simp_all add: snap_of_step)

text \<open>What a unit owes, in terms of its open invoices.\<close>

definition owed :: "string \<Rightarrow> bdb \<Rightarrow> invoice list" where
  "owed unit s = filter (\<lambda>i. inv_unit i = unit \<and> inv_status i \<in> set arrears_statuses \<and>
     1 / 200 < inv_total i - inv_paid i) (invoices s)"

definition snap_ok :: "int \<Rightarrow> invoice list \<Rightarrow> arrears_snap \<Rightarrow> bool" where
  "snap_ok n is x \<longleftrightarrow> as_outstanding x = (\<Sum>i\<leftarrow>is. inv_total i - inv_paid i) \<and>
     as_oldest x = (if is = [] then None else Some (Min (inv_due ` set is))) \<and>
     as_days x = (if is = [] then 0 else (n - Min (inv_due ` set is)) div 86400000)"

lemma snap_ok_add: "snap_ok n is x \<Longrightarrow> snap_ok n (is @ [i]) (add_arrears n i x)"
proof (cases "is = []")
  case True
  then show "snap_ok n is x \<Longrightarrow> ?thesis"
    by (auto simp: snap_ok_def add_arrears_def is_older_def days_past_due_def)
next
  case False
  assume ok: "snap_ok n is x"
  define m where "m = Min (inv_due ` set is)"
  have min: "Min (inv_due ` set (is @ [i])) = min (inv_due i) m" using False by (simp add: m_def Min_insert)
  have x: "as_oldest x = Some m" "as_days x = (n - m) div 86400000"
      "as_outstanding x = (\<Sum>i\<leftarrow>is. inv_total i - inv_paid i)"
    using ok False by (simp_all add: snap_ok_def m_def)
  show ?thesis
  proof (cases "inv_due i < m")
    case True
    then show ?thesis
      using x by (simp add: snap_ok_def min del: set_append) (simp add: add_arrears_def is_older_def days_past_due_def)
  next
    case False
    then have "(n - inv_due i) div 86400000 \<le> (n - m) div 86400000" by (intro zdiv_mono1) auto
    with False show ?thesis
      using x by (simp add: snap_ok_def min min_def del: set_append)
         (simp add: add_arrears_def is_older_def days_past_due_def max_def)
  qed
qed

lemma unit_arrears_fold:
  "snap_ok n js x \<Longrightarrow>
   snap_ok n (js @ filter (\<lambda>i. 1 / 200 < inv_total i - inv_paid i) is) (foldl (unit_arrears_step n) x is)"
proof (induction "is" arbitrary: js x)
  case (Cons i "is")
  show ?case
  proof (cases "1 / 200 < inv_total i - inv_paid i")
    case True
    with Cons.IH [OF snap_ok_add [OF Cons.prems, of i]] show ?thesis by (simp add: unit_arrears_step_def)
  next
    case False
    with Cons.IH [OF Cons.prems] show ?thesis by (simp add: unit_arrears_step_def)
  qed
qed simp

lemma unit_arrears_ok: "snap_ok n (owed unit s) (compute_unit_arrears n unit s)"
proof -
  have "snap_ok n [] (nothing_owed unit)" by (simp add: snap_ok_def nothing_owed_def)
  from unit_arrears_fold [OF this, of "filter (\<lambda>i. inv_unit i = unit \<and> inv_status i \<in> set arrears_statuses) (invoices s)"]
  show ?thesis by (simp only: compute_unit_arrears_def owed_def filter_filter append_Nil conj_assoc)
qed

lemma condo_snap_of:
  assumes "\<And>i. i \<in> set (invoices s) \<Longrightarrow> inv_unit i = unit \<Longrightarrow> inv_condo i = condo"
  shows "snap_of (compute_condo_arrears n condo s) unit = compute_unit_arrears n unit s"
proof -
  have "filter (\<lambda>i. inv_unit i = unit) (filter (\<lambda>i. inv_condo i = condo \<and> inv_status i \<in> set arrears_statuses) (invoices s)) =
      filter (\<lambda>i. inv_unit i = unit \<and> inv_status i \<in> set arrears_statuses) (invoices s)"
    using assms by (auto intro!: filter_cong)
  then show ?thesis
    by (simp add: compute_condo_arrears_def compute_unit_arrears_def snap_of_fold)
       (simp add: snap_of_def find_row_def)
qed

text \<open>
  C17. The scan of a condo's open invoices gives each unit the arrears that the unit's own scan
  gives it: what its invoices leave to pay, the earliest due date and the days since then; and it
  lists no unit that owes nothing.
\<close>

theorem condo_arrears_by_unit:
  assumes "\<And>i. i \<in> set (invoices s) \<Longrightarrow> inv_unit i = unit \<Longrightarrow> inv_condo i = condo"
  shows "snap_of (compute_condo_arrears n condo s) unit = compute_unit_arrears n unit s \<and>
    as_outstanding (compute_unit_arrears n unit s) = (\<Sum>i\<leftarrow>owed unit s. inv_total i - inv_paid i) \<and>
    (owed unit s = [] \<longrightarrow> as_oldest (compute_unit_arrears n unit s) = None \<and> as_days (compute_unit_arrears n unit s) = 0) \<and>
    (owed unit s \<noteq> [] \<longrightarrow> (let d = Min (inv_due ` set (owed unit s)) in
       as_oldest (compute_unit_arrears n unit s) = Some d \<and>
       as_days (compute_unit_arrears n unit s) = (n - d) div 86400000))"
  using condo_snap_of [OF assms] unit_arrears_ok [of n unit s] by (simp add: snap_ok_def Let_def)

theorem condo_arrears_by_unit_witness:
  "as_outstanding (snap_of (compute_condo_arrears (10 * 86400000) ''c''
      (empty_db\<lparr>invoices := [sample_invoice ''i'' OVERDUE 100 40 0, sample_invoice ''j'' ISSUED 50 0 86400000]\<rparr>)) ''u'') = 110 \<and>
   as_days (snap_of (compute_condo_arrears (10 * 86400000) ''c''
      (empty_db\<lparr>invoices := [sample_invoice ''i'' OVERDUE 100 40 0, sample_invoice ''j'' ISSUED 50 0 86400000]\<rparr>)) ''u'') = 10"
proof -
  let ?s = "empty_db\<lparr>invoices := [sample_invoice ''i'' OVERDUE 100 40 0, sample_invoice ''j'' ISSUED 50 0 86400000]\<rparr>"
  have "i \<in> set (invoices ?s) \<Longrightarrow> inv_unit i = ''u'' \<Longrightarrow> inv_condo i = ''c''" for i
    by (auto simp: sample_invoice_def)
  note f = condo_arrears_by_unit [where n = "10 * 86400000" and s = ?s and unit = "''u''" and condo = "''c''", OF this]
  have o: "owed ''u'' ?s = [sample_invoice ''i'' OVERDUE 100 40 0, sample_invoice ''j'' ISSUED 50 0 86400000]"
    by (simp add: owed_def sample_invoice_def arrears_statuses_def)
  from f show ?thesis unfolding o by (simp add: Let_def sample_invoice_def)
qed

section \<open>Recomputing\<close>

lemma dispatch_run: "\<exists>ws. dispatch_webhook up condo ev r s = (Inr (), s\<lparr>ad_webhooks := ws\<rparr>)"
proof -
  have "\<exists>ws. s = s\<lparr>ad_webhooks := ws\<rparr>" by (rule exI [of _ "ad_webhooks s"]) simp
  then show ?thesis
    by (auto simp: dispatch_webhook_def act_defs Let_def split: option.split)
qed

lemma restriction_of_webhooks [simp]:
  "restriction_of u (s\<lparr>ad_webhooks := ws\<rparr>) = restriction_of u s"
  "restriction_of u (s\<lparr>ad_base := b\<rparr>) = restriction_of u s"
  by (simp_all add: restriction_of_def)

lemma restriction_of_unit: "restriction_of u s = Some r \<Longrightarrow> ar_unit r = u"
  by (auto simp: restriction_of_def find_row_def find_Some_iff)

definition same_unit :: "(restriction \<Rightarrow> restriction) \<Rightarrow> bool" where
  "same_unit f \<longleftrightarrow> (\<forall>r. ar_unit (f r) = ar_unit r)"

text \<open>What the parts of a state that a recompute leaves alone are.\<close>

definition acc_frame :: "access_db \<Rightarrow> access_db \<Rightarrow> bool" where
  "acc_frame s t \<longleftrightarrow> invoices (ad_base t) = invoices (ad_base s) \<and> condos (ad_base t) = condos (ad_base s) \<and>
     ad_deleted t = ad_deleted s"

text \<open>An action that succeeds, keeps that, and makes of the unit's row \<open>g row\<close>.\<close>

definition sets_row :: "string \<Rightarrow> access_db \<Rightarrow> restriction option \<Rightarrow> 'a asvc \<Rightarrow> 'a \<Rightarrow> bool" where
  "sets_row unit s row' m y \<longleftrightarrow> (\<exists>t. m s = (Inr y, t) \<and> acc_frame s t \<and>
     (\<forall>v. restriction_of v t = (if v = unit then row' else restriction_of v s)))"

lemma sets_row_ret: "restriction_of unit s = row' \<Longrightarrow> sets_row unit s row' (ret y) y"
  by (simp add: sets_row_def ret_def acc_frame_def)

lemma update_row:
  assumes "same_unit f" and "restriction_of unit s = Some r"
  shows "sets_row unit s (Some (f r)) (bnd (update_restriction unit f) (\<lambda>_. ret y)) y"
  using assms by (simp add: sets_row_def act_simps update_restriction_def restriction_of_def acc_frame_def
      same_unit_def find_row_changed bnd_def ret_def)

lemma update_row_webhook:
  assumes "same_unit f" and "restriction_of unit s = Some r"
  shows "sets_row unit s (Some (f r))
    (bnd (update_restriction unit f) (\<lambda>_. bnd (dispatch_webhook up condo ev r') (\<lambda>_. ret y))) y"
proof -
  let ?s = "s\<lparr>ad_restrictions := set_row ar_unit unit f (ad_restrictions s)\<rparr>"
  obtain ws where "dispatch_webhook up condo ev r' ?s = (Inr (), ?s\<lparr>ad_webhooks := ws\<rparr>)"
    using dispatch_run by blast
  with assms show ?thesis
    by (simp add: sets_row_def act_simps update_restriction_def restriction_of_def acc_frame_def
        same_unit_def find_row_changed bnd_def ret_def)
qed

lemma upsert_row_webhook:
  assumes "same_unit f"
  shows "\<exists>r. (restriction_of unit s = None \<longrightarrow> (\<exists>i. r = f (blank_restriction i condo unit zs))) \<and>
    (\<forall>r0. restriction_of unit s = Some r0 \<longrightarrow> r = f r0) \<and>
    sets_row unit s (Some r) (bnd (upsert_restriction condo unit zs f) (\<lambda>r. bnd (dispatch_webhook up condo ev r) (\<lambda>_. ret y))) y"
proof (cases "restriction_of unit s")
  case None
  let ?i = "uuids (ad_base s) (next_uuid (ad_base s))"
  let ?r = "f (blank_restriction ?i condo unit zs)"
  let ?s = "s\<lparr>ad_base := (ad_base s)\<lparr>next_uuid := Suc (next_uuid (ad_base s))\<rparr>, ad_restrictions := ad_restrictions s @ [?r]\<rparr>"
  obtain ws where ws: "dispatch_webhook up condo ev ?r ?s = (Inr (), ?s\<lparr>ad_webhooks := ws\<rparr>)"
    using dispatch_run by blast
  have "ar_unit ?r = unit" using assms by (simp add: same_unit_def blank_restriction_def)
  with None ws have "sets_row unit s (Some ?r) (bnd (upsert_restriction condo unit zs f)
      (\<lambda>r. bnd (dispatch_webhook up condo ev r) (\<lambda>_. ret y))) y"
    by (simp add: sets_row_def upsert_restriction_def act_defs on_part_def new_id_def Let_def acc_frame_def
        restriction_of_def find_row_snoc)
       (auto split: option.split)
  with None show ?thesis by auto
next
  case (Some r0)
  have "bnd (upsert_restriction condo unit zs f) (\<lambda>r. bnd (dispatch_webhook up condo ev r) (\<lambda>_. ret y)) s =
      bnd (update_restriction unit f) (\<lambda>_. bnd (dispatch_webhook up condo ev (f r0)) (\<lambda>_. ret y)) s"
    using Some by (simp add: upsert_restriction_def act_defs update_restriction_def)
  with update_row_webhook [OF assms Some, of up condo ev "f r0" y] Some
  show ?thesis by (auto simp: sets_row_def)
qed

lemma same_units:
  "same_unit (snap_figures a)" "same_unit (lifted n actor a row)" "same_unit (imposed n actor x a)"
  "same_unit (\<lambda>r. (snap_figures a r)\<lparr>ar_zones := z\<rparr>)"
  "same_unit (\<lambda>r. (snap_figures a r)\<lparr>ar_zones := z, ar_reason := q\<rparr>)"
  by (simp_all add: same_unit_def snap_figures_def lifted_def imposed_def)

text \<open>Whether a row restricts its unit, and whether it exempts it.\<close>

definition is_on :: "restriction option \<Rightarrow> bool" where
  "is_on row \<longleftrightarrow> (case row of None \<Rightarrow> False | Some r \<Rightarrow> ar_active r)"

definition is_exempt :: "restriction option \<Rightarrow> bool" where
  "is_exempt row \<longleftrightarrow> (case row of None \<Rightarrow> False | Some r \<Rightarrow> ar_exempt r)"

definition row_ok :: "string \<Rightarrow> restriction option \<Rightarrow> bool" where
  "row_ok condo row \<longleftrightarrow> (case row of None \<Rightarrow> True | Some r \<Rightarrow> ar_condo r = condo \<and> (ar_exempt r \<longrightarrow> \<not> ar_active r))"

text \<open>What a step makes of the flags of a row.\<close>

definition synced :: "bool \<Rightarrow> string \<Rightarrow> restriction option \<Rightarrow> restriction option \<Rightarrow> sync_outcome \<Rightarrow> bool" where
  "synced q condo row row' out \<longleftrightarrow> row_ok condo row' \<and>
    is_on row' = (q \<and> \<not> is_exempt row) \<and> is_exempt row' = (q \<and> is_exempt row) \<and>
    (out = SYNC_ACTIVATED \<longleftrightarrow> \<not> is_on row \<and> is_on row') \<and> (out = SYNC_CLEARED \<longleftrightarrow> is_on row \<and> \<not> is_on row')"

lemma sync_unit_run:
  assumes row: "restriction_of (as_unit a) s = row" and ok: "row_ok condo row"
  shows "\<exists>out row'. sets_row (as_unit a) s row' (sync_unit e up condo actor x a row) out \<and>
    synced (qualifies x a) condo row row' out"
proof -
  let ?u = "as_unit a"
  define new where "new = bnd (upsert_restriction condo ?u (rs_zones x) (imposed (now e) actor x a))
      (\<lambda>r'. bnd (dispatch_webhook up condo ''unit.restricted'' r') (\<lambda>_. ret SYNC_ACTIVATED))"
  note up = upsert_row_webhook [where f = "imposed (now e) actor x a" and unit = ?u and s = s and condo = condo
      and zs = "rs_zones x" and up = up and ev = "''unit.restricted''" and y = SYNC_ACTIVATED, OF same_units(3), folded new_def]
  have imp: "sets_row ?u s (Some r) new SYNC_ACTIVATED \<Longrightarrow> ?thesis" if "\<not> is_on row" "\<not> is_exempt row" "qualifies x a"
      "sync_unit e up condo actor x a row = new" "ar_condo r = condo" "ar_active r" "\<not> ar_exempt r" for r
    using that by (intro exI [of _ SYNC_ACTIVATED] exI [of _ "Some r"])
      (simp add: synced_def row_ok_def is_on_def is_exempt_def)
  show ?thesis
  proof (cases row)
    case None
    show ?thesis
    proof (cases "qualifies x a")
      case True
      obtain r i where r: "r = imposed (now e) actor x a (blank_restriction i condo ?u (rs_zones x))"
          "sets_row ?u s (Some r) new SYNC_ACTIVATED"
        using up row None by metis
      show ?thesis
        by (rule imp [OF _ _ True _ _ _ _ r(2)])
           (use None True r(1) in \<open>simp_all add: is_on_def is_exempt_def sync_unit_def Let_def new_def imposed_def
              snap_figures_def blank_restriction_def\<close>)
    next
      case False
      with None row sets_row_ret [of ?u s None SYNC_QUIET] show ?thesis
        by (intro exI [of _ SYNC_QUIET] exI [of _ None])
           (simp add: sync_unit_def Let_def synced_def row_ok_def is_on_def is_exempt_def)
    qed
  next
    case (Some r)
    have here: "restriction_of ?u s = Some r" using row Some by simp
    have r: "ar_condo r = condo" "ar_exempt r \<longrightarrow> \<not> ar_active r" using ok Some by (simp_all add: row_ok_def)
    have upd: ?thesis if "sync_unit e up condo actor x a row = bnd (update_restriction ?u f) (\<lambda>_. ret out)"
        "same_unit f" "synced (qualifies x a) condo row (Some (f r)) out" for f out
      using that update_row [OF that(2) here, of out] by (intro exI) auto
    show ?thesis
    proof (cases "qualifies x a")
      case True
      consider "ar_exempt r" | "\<not> ar_exempt r" "ar_active r" "ar_source r = BY_MANAGEMENT"
        | "\<not> ar_exempt r" "ar_active r" "ar_source r \<noteq> BY_MANAGEMENT" | "\<not> ar_exempt r" "\<not> ar_active r" by blast
      then show ?thesis
      proof cases
        case 1
        show ?thesis
          by (rule upd [OF _ same_units(1)])
             (use 1 True Some r in \<open>auto simp: sync_unit_def Let_def synced_def row_ok_def is_on_def is_exempt_def snap_figures_def\<close>)
      next
        case 2
        show ?thesis
          by (rule upd [OF _ same_units(4)])
             (use 2 True Some r in \<open>auto simp: sync_unit_def Let_def synced_def row_ok_def is_on_def is_exempt_def snap_figures_def\<close>)
      next
        case 3
        show ?thesis
          by (rule upd [OF _ same_units(5)])
             (use 3 True Some r in \<open>auto simp: sync_unit_def Let_def synced_def row_ok_def is_on_def is_exempt_def snap_figures_def\<close>)
      next
        case 4
        have q: "sets_row ?u s (Some (imposed (now e) actor x a r)) new SYNC_ACTIVATED"
          using up here by metis
        show ?thesis
          by (rule imp [OF _ _ True _ _ _ _ q])
             (use 4 Some r True in \<open>simp_all add: is_on_def is_exempt_def sync_unit_def Let_def new_def imposed_def snap_figures_def\<close>)
      qed
    next
      case False
      let ?f = "lifted (now e) actor a r"
      consider "ar_active r" | "\<not> ar_active r" "ar_exempt r" | "\<not> ar_active r" "\<not> ar_exempt r" by blast
      then show ?thesis
      proof cases
        case 1
        with False Some update_row_webhook [where f = ?f and up = up and condo = condo and ev = "''unit.cleared''" and r' = "?f r" and y = SYNC_CLEARED, OF same_units(2) here] r
        show ?thesis
          by (intro exI [of _ SYNC_CLEARED] exI [of _ "Some (?f r)"])
             (simp add: sync_unit_def Let_def synced_def row_ok_def is_on_def is_exempt_def lifted_def snap_figures_def)
      next
        case 2
        show ?thesis
          by (rule upd [OF _ same_units(2)])
             (use 2 False Some r in \<open>auto simp: sync_unit_def Let_def synced_def row_ok_def is_on_def is_exempt_def
                lifted_def snap_figures_def\<close>)
      next
        case 3
        show ?thesis
          by (rule upd [OF _ same_units(1)])
             (use 3 False Some r in \<open>auto simp: sync_unit_def Let_def synced_def row_ok_def is_on_def is_exempt_def snap_figures_def\<close>)
      qed
    qed
  qed
qed

lemma acc_frame_trans: "acc_frame s t \<Longrightarrow> acc_frame t w \<Longrightarrow> acc_frame s w"
  by (simp add: acc_frame_def)

lemma sync_all:
  assumes "distinct us" and "\<And>v. v \<in> set us \<Longrightarrow> restriction_of v s = rd v \<and> row_ok condo (rd v)"
    and "\<And>v. as_unit (f v) = v"
  shows "\<exists>outs t. for_each us (\<lambda>u. sync_unit e up condo actor x (f u) (rd u)) s = (Inr outs, t) \<and> acc_frame s t \<and>
    (\<forall>v. v \<notin> set us \<longrightarrow> restriction_of v t = restriction_of v s) \<and>
    list_all2 (\<lambda>v out. synced (qualifies x (f v)) condo (rd v) (restriction_of v t) out) us outs"
  using assms(1,2)
proof (induction us arbitrary: s)
  case Nil
  then show ?case by (simp add: ret_def acc_frame_def)
next
  case (Cons u us)
  have "restriction_of (as_unit (f u)) s = rd u" "row_ok condo (rd u)"
    using Cons.prems(2) assms(3) by simp_all
  from sync_unit_run [OF this, of e up actor x] obtain out row' where
    step: "sets_row u s row' (sync_unit e up condo actor x (f u) (rd u)) out"
      "synced (qualifies x (f u)) condo (rd u) row' out"
    using assms(3) by auto
  then obtain t where t: "sync_unit e up condo actor x (f u) (rd u) s = (Inr out, t)" "acc_frame s t"
      "\<And>v. restriction_of v t = (if v = u then row' else restriction_of v s)"
    by (auto simp: sets_row_def)
  have "distinct us" and "\<And>v. v \<in> set us \<Longrightarrow> restriction_of v t = rd v \<and> row_ok condo (rd v)"
    using Cons.prems t(3) by auto
  from Cons.IH [OF this] obtain outs w where
    w: "for_each us (\<lambda>u. sync_unit e up condo actor x (f u) (rd u)) t = (Inr outs, w)" "acc_frame t w"
      "\<And>v. v \<notin> set us \<Longrightarrow> restriction_of v w = restriction_of v t"
      "list_all2 (\<lambda>v out. synced (qualifies x (f v)) condo (rd v) (restriction_of v w) out) us outs" by blast
  have run: "for_each (u # us) (\<lambda>u. sync_unit e up condo actor x (f u) (rd u)) s = (Inr (out # outs), w)"
    using t(1) w(1) by (simp add: bnd_def ret_def)
  have "restriction_of u w = row'" using w(3) [of u] t(3) Cons.prems(1) by simp
  then show ?case
    using run acc_frame_trans [OF t(2) w(2)] w(3,4) t(3) step(2) by auto
qed

lemma set_uniq [simp]: "set (uniq xs) = set xs"
  by (induction xs) auto

lemma distinct_uniq [simp]: "distinct (uniq xs)"
  by (induction xs) auto

text \<open>Every invoice and every restriction of a unit is of the unit's condo; exempt units are not restricted.\<close>

definition homes :: "(string \<Rightarrow> string) \<Rightarrow> access_db \<Rightarrow> bool" where
  "homes h s \<longleftrightarrow> (\<forall>i \<in> set (invoices (ad_base s)). inv_condo i = h (inv_unit i)) \<and>
     (\<forall>v. row_ok (h v) (restriction_of v s)) \<and>
     (\<forall>r \<in> set (ad_restrictions s). ar_condo r = h (ar_unit r))"

lemma find_row_filter_condo:
  assumes "\<And>r. r \<in> set rs \<Longrightarrow> ar_condo r = h (ar_unit r)"
  shows "find_row ar_unit u (filter (\<lambda>r. ar_condo r = h u) rs) = find_row ar_unit u rs"
  using assms by (induction rs) (auto simp: find_row_def)

lemma find_row_none: "find_row key k xs = None \<longleftrightarrow> (\<forall>x \<in> set xs. key x \<noteq> k)"
  by (auto simp: find_row_def find_None_iff)

lemma for_each_cong:
  "xs = ys \<Longrightarrow> (\<And>x. x \<in> set ys \<Longrightarrow> f x = g x) \<Longrightarrow> for_each xs f = for_each ys g"
  by (induction ys arbitrary: xs) (auto simp: bnd_def)

lemma scan_step_units: "as_unit ` set (condo_arrears_step n xs i) \<subseteq> insert (inv_unit i) (as_unit ` set xs)"
  by (auto simp: condo_arrears_step_def Let_def set_row_def set_where_def split: option.split)

lemma scan_units: "as_unit ` set (foldl (condo_arrears_step n) xs is) \<subseteq> as_unit ` set xs \<union> inv_unit ` set is"
proof (induction "is" arbitrary: xs)
  case (Cons i "is")
  from Cons.IH [of "condo_arrears_step n xs i"] scan_step_units [of n xs i] show ?case by auto
qed simp

lemma recompute_run:
  assumes hs: "homes h s" and condo: "condo \<notin> set (ad_deleted s)" "find_row co_id condo (condos (ad_base s)) = Some c"
    and x: "x = parse_restriction_settings up (co_settings c)" "rs_enabled x"
  shows "\<exists>outs us t. recompute_condo e up condo actor s = (Inr (count_outcomes outs), t) \<and> acc_frame s t \<and>
    distinct us \<and> (\<forall>v. v \<notin> set us \<longrightarrow> restriction_of v t = restriction_of v s) \<and>
    (\<forall>v \<in> set us. h v = condo) \<and>
    (\<forall>v. h v = condo \<and> v \<notin> set us \<longrightarrow> restriction_of v s = None \<and>
       \<not> qualifies x (compute_unit_arrears (now e) v (ad_base s))) \<and>
    list_all2 (\<lambda>v out. synced (qualifies x (compute_unit_arrears (now e) v (ad_base s))) condo
      (restriction_of v s) (restriction_of v t) out) us outs"
proof -
  let ?snaps = "compute_condo_arrears (now e) condo (ad_base s)"
  let ?rows = "filter (\<lambda>r. ar_condo r = condo) (ad_restrictions s)"
  let ?us = "uniq (map as_unit ?snaps @ map ar_unit ?rows)"
  have row: "find_row ar_unit v ?rows = restriction_of v s" if "h v = condo" for v
    using find_row_filter_condo [of "ad_restrictions s" h v] hs that by (simp add: homes_def restriction_of_def)
  have snap: "snap_of ?snaps v = compute_unit_arrears (now e) v (ad_base s)" if "h v = condo" for v
    using hs that by (intro condo_snap_of) (auto simp: homes_def)
  have unit: "h v = condo" if "v \<in> set (map as_unit ?snaps)" for v
  proof -
    let ?is = "filter (\<lambda>i. inv_condo i = condo \<and> inv_status i \<in> set arrears_statuses) (invoices (ad_base s))"
    have "as_unit ` set ?snaps \<subseteq> inv_unit ` set ?is"
      unfolding compute_condo_arrears_def using scan_units [of "now e" "[]" ?is] by simp
    then have "v \<in> inv_unit ` set ?is" using that unfolding list.set_map by (rule subsetD)
    then obtain i where i: "i \<in> set (invoices (ad_base s))" "inv_condo i = condo" "v = inv_unit i" by auto
    with hs have "inv_condo i = h (inv_unit i)" unfolding homes_def by blast
    then show ?thesis unfolding i(2,3) by (rule sym)
  qed
  have home: "h v = condo" if "v \<in> set ?us" for v
  proof -
    have "v \<in> set (map as_unit ?snaps) \<or> v \<in> ar_unit ` set ?rows"
      using that unfolding set_uniq set_append list.set_map by (rule UnE) (blast+)
    then show ?thesis
    proof
      assume "v \<in> ar_unit ` set ?rows"
      then obtain r where r: "r \<in> set ?rows" "v = ar_unit r" by blast
      then have "r \<in> set (ad_restrictions s)" "ar_condo r = condo" by simp_all
      with hs have "condo = h (ar_unit r)" unfolding homes_def by blast
      then show ?thesis unfolding r(2) by (rule sym)
    qed (rule unit)
  qed
  have "\<And>v. v \<in> set ?us \<Longrightarrow> restriction_of v s = restriction_of v s \<and> row_ok condo (restriction_of v s)"
    using hs home by (metis homes_def)
  from sync_all [where us = ?us and rd = "\<lambda>v. restriction_of v s" and condo = condo and f = "snap_of ?snaps", OF distinct_uniq this, of e up actor x]
  obtain outs t where t: "for_each ?us (\<lambda>u. sync_unit e up condo actor x (snap_of ?snaps u) (restriction_of u s)) s = (Inr outs, t)"
      "acc_frame s t" "\<forall>v. v \<notin> set ?us \<longrightarrow> restriction_of v t = restriction_of v s"
      "list_all2 (\<lambda>v out. synced (qualifies x (snap_of ?snaps v)) condo (restriction_of v s) (restriction_of v t) out) ?us outs"
    by auto
  have "for_each ?us (\<lambda>u. sync_unit e up condo actor x (snap_of ?snaps u) (find_row ar_unit u ?rows)) =
      for_each ?us (\<lambda>u. sync_unit e up condo actor x (snap_of ?snaps u) (restriction_of u s))"
    by (rule for_each_cong [OF refl]) (simp only: row [OF home])
  with t(1) have "for_each ?us (\<lambda>u. sync_unit e up condo actor x (snap_of ?snaps u) (find_row ar_unit u ?rows)) s = (Inr outs, t)"
    by (simp only:)
  then have run: "recompute_condo e up condo actor s = (Inr (count_outcomes outs), t)"
    using condo x by (simp add: recompute_condo_def require_condo_def act_simps Let_def)
  have "list_all2 (\<lambda>v out. synced (qualifies x (compute_unit_arrears (now e) v (ad_base s))) condo
      (restriction_of v s) (restriction_of v t) out) ?us outs"
    using t(4) by (rule list.rel_mono_strong) (use home snap in auto)
  moreover have "restriction_of v s = None \<and> \<not> qualifies x (compute_unit_arrears (now e) v (ad_base s))"
    if v: "h v = condo" "v \<notin> set ?us" for v
  proof
    have "find_row ar_unit v ?rows = None" and none: "find_row as_unit v ?snaps = None"
      using v(2) by (auto simp: find_row_none)
    with row [OF v(1)] show "restriction_of v s = None" by simp
    have "0 \<le> rs_grace_days x"
      by (auto simp: x(1) parse_restriction_settings_def Let_def parse_grace_days_def default_restriction_settings_def
          split: json.split)
    then show "\<not> qualifies x (compute_unit_arrears (now e) v (ad_base s))"
      unfolding snap [OF v(1), symmetric] snap_of_def none by (simp add: nothing_owed_def qualifies_def)
  qed
  ultimately show ?thesis using run t(2,3) home distinct_uniq by blast
qed

text \<open>Whether the policy restricts a unit, and whether the unit is restricted.\<close>

definition policy_restricts :: "env \<Rightarrow> restriction_settings \<Rightarrow> string \<Rightarrow> access_db \<Rightarrow> bool" where
  "policy_restricts e x unit s \<longleftrightarrow> qualifies x (compute_unit_arrears (now e) unit (ad_base s)) \<and>
     \<not> is_exempt (restriction_of unit s)"

definition is_restricted :: "string \<Rightarrow> access_db \<Rightarrow> bool" where
  "is_restricted unit s = is_on (restriction_of unit s)"

lemma count_list_all2:
  "list_all2 (\<lambda>v out. P v \<longleftrightarrow> out = o1) us outs \<Longrightarrow> count_where (\<lambda>y. y = o1) outs = length (filter P us)"
  by (induction rule: list_all2_induct) (simp_all add: count_where_def)

lemma length_filter_card:
  "distinct us \<Longrightarrow> (\<And>u. Q u \<longleftrightarrow> u \<in> set us \<and> P u) \<Longrightarrow> length (filter P us) = card {u. Q u}"
proof -
  assume "distinct us" and q: "\<And>u. Q u \<longleftrightarrow> u \<in> set us \<and> P u"
  then have "length (filter P us) = card (set (filter P us))" using distinct_card [of "filter P us"] by simp
  also have "set (filter P us) = {u. Q u}" using q by auto
  finally show ?thesis .
qed

text \<open>
  C18. A recompute of a condo whose policy is enabled leaves restricted exactly the units that the
  policy restricts: those with enough to pay for long enough that management has not exempted. It
  counts the units whose restriction it began and ended, and no other condo's unit is touched.
\<close>

theorem recompute_enforces_policy:
  assumes "homes h s" and "condo \<notin> set (ad_deleted s)" and "find_row co_id condo (condos (ad_base s)) = Some c"
    and "x = parse_restriction_settings up (co_settings c)" and "rs_enabled x"
  shows "\<exists>k t. recompute_condo e up condo actor s = (Inr k, t) \<and>
    (\<forall>unit. h unit = condo \<longrightarrow> is_restricted unit t = policy_restricts e x unit s) \<and>
    (\<forall>unit. h unit \<noteq> condo \<longrightarrow> restriction_of unit t = restriction_of unit s) \<and>
    invoices (ad_base t) = invoices (ad_base s) \<and>
    sc_activated k = card {u. \<not> is_restricted u s \<and> is_restricted u t} \<and>
    sc_cleared k = card {u. is_restricted u s \<and> \<not> is_restricted u t}"
proof -
  let ?q = "\<lambda>v. qualifies x (compute_unit_arrears (now e) v (ad_base s))"
  from recompute_run [OF assms, of e actor] obtain outs us t where
    run: "recompute_condo e up condo actor s = (Inr (count_outcomes outs), t)" "acc_frame s t" "distinct us"
      "\<And>v. v \<notin> set us \<Longrightarrow> restriction_of v t = restriction_of v s" "\<And>v. v \<in> set us \<Longrightarrow> h v = condo"
      "\<And>v. h v = condo \<Longrightarrow> v \<notin> set us \<Longrightarrow> restriction_of v s = None \<and> \<not> ?q v"
      "list_all2 (\<lambda>v out. synced (?q v) condo (restriction_of v s) (restriction_of v t) out) us outs" by blast
  have row: "\<exists>out. synced (?q v) condo (restriction_of v s) (restriction_of v t) out" if "v \<in> set us" for v
    using run(7) that by (auto simp: list_all2_conv_all_nth in_set_conv_nth)
  have "is_restricted v t = policy_restricts e x v s" if "h v = condo" for v
  proof (cases "v \<in> set us")
    case True
    from row [OF this] show ?thesis by (auto simp: is_restricted_def policy_restricts_def synced_def)
  next
    case False
    from run(4) [OF False] run(6) [OF that False] show ?thesis
      by (simp add: is_restricted_def policy_restricts_def is_on_def)
  qed
  moreover have "restriction_of v t = restriction_of v s" if "h v \<noteq> condo" for v
    using run(4,5) that by blast
  moreover have changed: "u \<in> set us" if "is_restricted u s \<noteq> is_restricted u t" for u
    using run(4) [of u] that by (cases "u \<in> set us") (simp_all add: is_restricted_def)
  moreover have "sc_activated (count_outcomes outs) = card {u. \<not> is_restricted u s \<and> is_restricted u t}"
  proof -
    have "list_all2 (\<lambda>v out. (\<not> is_restricted v s \<and> is_restricted v t) \<longleftrightarrow> out = SYNC_ACTIVATED) us outs"
      using run(7) by (rule list.rel_mono_strong) (auto simp: synced_def is_restricted_def)
    moreover have "length (filter (\<lambda>u. \<not> is_restricted u s \<and> is_restricted u t) us) = card {u. \<not> is_restricted u s \<and> is_restricted u t}"
      by (rule length_filter_card [OF run(3)]) (use changed in blast)
    ultimately show ?thesis by (simp add: count_outcomes_def count_list_all2)
  qed
  moreover have "sc_cleared (count_outcomes outs) = card {u. is_restricted u s \<and> \<not> is_restricted u t}"
  proof -
    have "list_all2 (\<lambda>v out. (is_restricted v s \<and> \<not> is_restricted v t) \<longleftrightarrow> out = SYNC_CLEARED) us outs"
      using run(7) by (rule list.rel_mono_strong) (auto simp: synced_def is_restricted_def)
    moreover have "length (filter (\<lambda>u. is_restricted u s \<and> \<not> is_restricted u t) us) = card {u. is_restricted u s \<and> \<not> is_restricted u t}"
      by (rule length_filter_card [OF run(3)]) (use changed in blast)
    ultimately show ?thesis by (simp add: count_outcomes_def count_list_all2)
  qed
  ultimately show ?thesis using run(1,2) unfolding acc_frame_def by blast
qed

text \<open>A condo whose policy is on, with a unit long in arrears and another that management has restricted.\<close>

definition sample_access :: access_db where
  "sample_access = \<lparr>ad_base = empty_db\<lparr>
       condos := [\<lparr>co_id = ''c'', co_currency = ''MYR'', co_settings =
         merge_restriction_settings JNull (default_restriction_settings\<lparr>rs_enabled := True\<rparr>)\<rparr>],
       units := [\<lparr>un_id = ''u'', un_condo = ''c'', un_sqft = None, un_type = None\<rparr>,
                 \<lparr>un_id = ''w'', un_condo = ''c'', un_sqft = None, un_type = None\<rparr>],
       invoices := [sample_invoice ''i'' OVERDUE 100 40 0]\<rparr>,
     ad_restrictions = [(blank_restriction ''r'' ''c'' ''w'' [CAR_PARK])\<lparr>ar_active := True, ar_source := BY_MANAGEMENT\<rparr>],
     ad_residents = [], ad_deleted = [], ad_webhooks = []\<rparr>"

lemma sample_access_homes: "homes (\<lambda>_. ''c'') sample_access"
  by (simp add: homes_def sample_access_def sample_invoice_def restriction_of_def find_row_def row_ok_def
      blank_restriction_def)

lemma sample_access_settings:
  "parse_restriction_settings up (merge_restriction_settings JNull (default_restriction_settings\<lparr>rs_enabled := True\<rparr>)) =
     default_restriction_settings\<lparr>rs_enabled := True\<rparr>"
  by (rule settings_read_back) (simp add: valid_settings_def default_restriction_settings_def)

theorem recompute_enforces_policy_witness:
  "\<exists>k t. recompute_condo \<lparr>now = 30 * 86400000, this_year = 2024\<rparr> (\<lambda>_. None) ''c'' None sample_access = (Inr k, t) \<and>
     is_restricted ''u'' t \<and> \<not> is_restricted ''w'' t"
proof -
  let ?e = "\<lparr>now = 30 * 86400000, this_year = 2024\<rparr> :: env"
  let ?x = "default_restriction_settings\<lparr>rs_enabled := True\<rparr>"
  have c: "find_row co_id ''c'' (condos (ad_base sample_access)) =
      Some \<lparr>co_id = ''c'', co_currency = ''MYR'', co_settings = merge_restriction_settings JNull ?x\<rparr>"
      "?x = parse_restriction_settings (\<lambda>_. None) (co_settings \<lparr>co_id = ''c'', co_currency = ''MYR'',
        co_settings = merge_restriction_settings JNull ?x\<rparr>)"
    by (simp_all add: sample_access_def find_row_def sample_access_settings)
  have u: "policy_restricts ?e ?x ''u'' sample_access" "\<not> policy_restricts ?e ?x ''w'' sample_access"
    by (simp_all add: policy_restricts_def sample_access_def compute_unit_arrears_def unit_arrears_step_def
        sample_invoice_def arrears_statuses_def add_arrears_def nothing_owed_def is_older_def days_past_due_def
        qualifies_def default_restriction_settings_def restriction_of_def find_row_def is_exempt_def
        blank_restriction_def Let_def)
  have "''c'' \<notin> set (ad_deleted sample_access)" "rs_enabled ?x" by (simp_all add: sample_access_def)
  from recompute_enforces_policy [OF sample_access_homes this(1) c this(2), of ?e None] u show ?thesis by auto
qed

end
