(* ===== verification/Booking_Properties.thy ===== *)
theory Booking_Properties
  imports Booking Billing_Steps Deposit_Properties Access_Properties
begin

text \<open>
  Properties of the facility bookings: no instant is booked beyond a facility's capacity, what an
  accepted booking has passed, what a cancellation gives back, and the slots that are offered.
\<close>

section \<open>Ids\<close>

text \<open>What the billing services keep of the supply of ids.\<close>

definition id_grow :: "bdb \<Rightarrow> bdb \<Rightarrow> bool" where
  "id_grow s t \<longleftrightarrow> uuids t = uuids s \<and> next_uuid s \<le> next_uuid t"

lemma id_grow_refl [simp]: "id_grow s s"
  by (simp add: id_grow_def)

lemma grows_id_grow: "(\<And>s. preserves (grows s) m) \<Longrightarrow> preserves (id_grow s) m"
proof (rule preservesI)
  fix t assume "\<And>s. preserves (grows s) m" and "id_grow s t"
  then have "grows t (snd (m t))" and "id_grow s t" using preserves_snd [of "grows t" m t] by auto
  then show "id_grow s (snd (m t))" by (auto simp: id_grow_def grows_def)
qed

lemmas id_grow_ops [pres] = grows_id_grow [OF grows_new_id] grows_id_grow [OF grows_log_audit]
  grows_id_grow [OF grows_record_entry] grows_id_grow [OF grows_issue_receipt] grows_id_grow [OF grows_ledger_ops(1)]
  grows_id_grow [OF grows_ledger_ops(2)] grows_id_grow [OF grows_numbers(1)]

lemma id_grow_rows [pres]:
  "preserves (id_grow s) (insert_invoice iv)" "preserves (id_grow s) (update_invoice i f)"
  "preserves (id_grow s) (insert_deposit d)" "preserves (id_grow s) (update_deposit i g)"
  unfolding insert_invoice_def update_invoice_def insert_deposit_def update_deposit_def
  by (intro pres preserves_modify; simp add: id_grow_def)+

lemma id_grow_issue [pres]: "preserves (id_grow s) (create_invoice_in_tx e condo unit due a z ls actor m)"
  unfolding create_invoice_in_tx_def issue_tx_def Let_def by (intro pres)

lemma id_grow_void [pres]: "preserves (id_grow s) (void_unpaid_invoice_in_tx e i actor r)"
  unfolding void_unpaid_invoice_in_tx_def by (intro pres)

lemma id_grow_hold [pres]: "preserves (id_grow s) (record_deposit_in_tx e condo x desc actor m)"
  unfolding record_deposit_in_tx_def hold_deposit_def Let_def by (intro pres)

lemma id_grow_refund [pres]: "preserves (id_grow s) (refund_held_in_tx e i actor)"
  unfolding refund_held_in_tx_def pay_out_def by (intro pres)

section \<open>Capacity\<close>

definition live_at :: "string \<Rightarrow> int \<Rightarrow> booking list \<Rightarrow> nat" where
  "live_at fac t bs = count_where (\<lambda>b. bk_facility b = fac \<and> is_live b \<and> bk_start b \<le> t \<and> t < bk_end b) bs"

definition db_of :: "facility_db \<Rightarrow> bdb" where
  "db_of s = ad_base (fd_access s)"

definition fac_ids_ok :: "facility_db \<Rightarrow> bool" where
  "fac_ids_ok s \<longleftrightarrow> inj (uuids (db_of s)) \<and> distinct (map bk_id (fd_bookings s)) \<and> distinct (map fa_id (fd_facilities s)) \<and>
     bk_id ` set (fd_bookings s) \<union> fa_id ` set (fd_facilities s) \<subseteq> uuids (db_of s) ` {..<next_uuid (db_of s)}"

text \<open>
  The invariant of one call: at each instant no more bookings live than \<open>L\<close> allows, where \<open>L\<close> is
  whatever bound held before the call and covers the limits of the facilities as the call finds them.
\<close>

definition fac_inv :: "(string \<Rightarrow> int \<Rightarrow> nat) \<Rightarrow> facility_db \<Rightarrow> bool" where
  "fac_inv L s \<longleftrightarrow> fac_ids_ok s \<and> bk_facility ` set (fd_bookings s) \<subseteq> fa_id ` set (fd_facilities s) \<and>
     (\<forall>i t. live_at i t (fd_bookings s) \<le> L i t)"

definition covers_limits :: "(string \<Rightarrow> int \<Rightarrow> nat) \<Rightarrow> facility_db \<Rightarrow> bool" where
  "covers_limits L s \<longleftrightarrow> (\<forall>f \<in> set (fd_facilities s). \<forall>t. fa_max f \<le> L (fa_id f) t)"

text \<open>A change of the other tables only.\<close>

definition fac_frame :: "facility_db \<Rightarrow> facility_db \<Rightarrow> bool" where
  "fac_frame s t \<longleftrightarrow> fd_facilities t = fd_facilities s \<and> fd_bookings t = fd_bookings s \<and> id_grow (db_of s) (db_of t)"

lemma fac_frame_refl [simp]: "fac_frame s s"
  by (simp add: fac_frame_def)

lemma fac_frame_ids:
  assumes "fac_frame s t" and "fac_ids_ok s"
  shows "fac_ids_ok t"
proof -
  have "uuids (db_of s) ` {..<next_uuid (db_of s)} \<subseteq> uuids (db_of t) ` {..<next_uuid (db_of t)}"
    using assms(1) by (auto simp: fac_frame_def id_grow_def)
  with assms show ?thesis unfolding fac_ids_ok_def fac_frame_def id_grow_def by (metis subset_trans)
qed

lemma fac_frame_inv: "fac_frame s t \<Longrightarrow> fac_inv L s \<Longrightarrow> fac_inv L t"
  using fac_frame_ids [of s t] by (auto simp: fac_inv_def fac_frame_def)

lemma frame_billing:
  assumes "\<And>b. preserves (id_grow b) m"
  shows "preserves (fac_frame s) (on_billing m)"
proof (rule preservesI)
  fix t assume f: "fac_frame s t"
  have "id_grow (db_of t) (snd (m (db_of t)))" using preserves_snd [OF assms, of "db_of t" "db_of t"] by simp
  with f show "fac_frame s (snd (on_billing m t))"
    by (auto simp: fac_frame_def db_of_def on_part_def id_grow_def split: prod.split)
qed

lemma inv_of_frame: "(\<And>s. preserves (fac_frame s) m) \<Longrightarrow> preserves (fac_inv L) m"
  unfolding preserves_def using fac_frame_inv fac_frame_refl by metis

lemma frame_emit [pres]: "preserves (fac_frame s) (emit_booking v)"
  unfolding emit_booking_def by (rule preserves_modify) (simp add: fac_frame_def db_of_def)

lemma frame_log [pres]: "preserves (fac_frame s) (log_booking b u a m)"
  unfolding log_booking_def by (rule frame_billing) (rule pres)

lemma frame_confirmed [pres]: "preserves (fac_frame s) (emit_confirmed b)"
  unfolding emit_confirmed_def by (intro pres)

lemma frame_get [pres]: "preserves (fac_frame s) (get_booking u i)"
  unfolding get_booking_def by (intro pres)

lemma frame_money [pres]:
  "preserves (fac_frame s) (fee_invoice e b f u unit fee)" "preserves (fac_frame s) (booking_deposit e b f u unit amount)"
  unfolding fee_invoice_def booking_deposit_def by (rule frame_billing, rule pres)+

lemmas inv_ops [pres] = inv_of_frame [OF frame_emit] inv_of_frame [OF frame_log] inv_of_frame [OF frame_confirmed]
  inv_of_frame [OF frame_get]

lemma count_where_map_le:
  "(\<And>x. x \<in> set xs \<Longrightarrow> p (h x) \<Longrightarrow> q x) \<Longrightarrow> count_where p (map h xs) \<le> count_where q xs"
  by (induction xs) (auto simp: count_where_def le_Suc_eq)

lemma count_where_mono: "(\<And>x. x \<in> set xs \<Longrightarrow> p x \<Longrightarrow> q x) \<Longrightarrow> count_where p xs \<le> count_where q xs"
  using count_where_map_le [of xs p "\<lambda>x. x" q] by simp

lemma count_where_filter_le: "count_where p (filter q xs) \<le> count_where p xs"
  by (induction xs) (auto simp: count_where_def)

definition keeps_place :: "(booking \<Rightarrow> booking) \<Rightarrow> booking \<Rightarrow> bool" where
  "keeps_place g b \<longleftrightarrow> bk_id (g b) = bk_id b \<and> bk_facility (g b) = bk_facility b \<and> bk_start (g b) = bk_start b \<and>
     bk_end (g b) = bk_end b \<and> (is_live (g b) \<longrightarrow> is_live b)"

lemma inv_set_booking:
  assumes inv: "fac_inv L s" and g: "\<And>b. b \<in> set (fd_bookings s) \<Longrightarrow> bk_id b = i \<Longrightarrow> keeps_place g b"
  shows "fac_inv L (s\<lparr>fd_bookings := set_row bk_id i g (fd_bookings s)\<rparr>)" (is "fac_inv L ?t")
proof -
  define h where "h = (\<lambda>b. if bk_id b = i then g b else b)"
  have bs: "fd_bookings ?t = map h (fd_bookings s)" by (simp add: set_row_def set_where_def h_def)
  have h: "keeps_place h b" if "b \<in> set (fd_bookings s)" for b
    using g [OF that] by (cases "bk_id b = i") (simp_all add: keeps_place_def h_def)
  have ids: "map bk_id (fd_bookings ?t) = map bk_id (fd_bookings s)"
    and facs: "map bk_facility (fd_bookings ?t) = map bk_facility (fd_bookings s)"
    unfolding bs map_map using h by (auto intro!: map_cong simp: keeps_place_def)
  have "fac_ids_ok ?t"
    using inv unfolding fac_inv_def fac_ids_ok_def ids list.set_map [symmetric] db_of_def by simp
  moreover have "bk_facility ` set (fd_bookings ?t) \<subseteq> fa_id ` set (fd_facilities ?t)"
    using inv unfolding fac_inv_def list.set_map [symmetric] facs by simp
  moreover have "live_at fac t (fd_bookings ?t) \<le> live_at fac t (fd_bookings s)" for fac t
    unfolding live_at_def bs by (rule count_where_map_le) (use h in \<open>auto simp: keeps_place_def\<close>)
  then have "live_at fac t (fd_bookings ?t) \<le> L fac t" for fac t
    using inv unfolding fac_inv_def by (meson le_trans)
  ultimately show ?thesis by (simp add: fac_inv_def)
qed

lemma set_booking_inv: "(\<And>b. keeps_place g b) \<Longrightarrow> preserves (fac_inv L) (set_booking i g)"
  unfolding set_booking_def by (rule preserves_modify, rule inv_set_booking)

lemma settle_money_inv [pres]: "preserves (fac_inv L) (settle_money e b f u)"
  unfolding settle_money_def Let_def
  by (intro pres inv_of_frame [OF frame_money(1)] inv_of_frame [OF frame_money(2)] set_booking_inv)
     (simp_all add: keeps_place_def is_live_def)

lemma inv_add_booking:
  assumes inv: "fac_inv L s" and f: "f \<in> set (fd_facilities s)" "bk_facility b = fa_id f"
    and free: "overlapping (fa_id f) (bk_start b) (bk_end b) None (fd_bookings s) < fa_max f"
    and lim: "\<And>t. fa_max f \<le> L (fa_id f) t"
    and n: "bk_id b = uuids (db_of s) (next_uuid (db_of s))"
    and t: "fd_bookings t = fd_bookings s @ [b]" "fd_facilities t = fd_facilities s"
      "uuids (db_of t) = uuids (db_of s)" "next_uuid (db_of t) = Suc (next_uuid (db_of s))"
  shows "fac_inv L t"
proof -
  have I: "inj (uuids (db_of s))" "distinct (map bk_id (fd_bookings s))"
    "bk_id ` set (fd_bookings s) \<union> fa_id ` set (fd_facilities s) \<subseteq> uuids (db_of s) ` {..<next_uuid (db_of s)}"
    using inv by (simp_all add: fac_inv_def fac_ids_ok_def)
  have "uuids (db_of s) (next_uuid (db_of s)) \<notin> uuids (db_of s) ` {..<next_uuid (db_of s)}"
    using I(1) by (auto simp: inj_def)
  then have new: "bk_id b \<notin> bk_id ` set (fd_bookings s)" using I(3) unfolding n by blast
  have "insert (bk_id b) (bk_id ` set (fd_bookings s) \<union> fa_id ` set (fd_facilities s)) \<subseteq>
      uuids (db_of s) ` {..<Suc (next_uuid (db_of s))}"
    using I(3) unfolding n lessThan_Suc by blast
  with inv new have "fac_ids_ok t"
    unfolding fac_inv_def fac_ids_ok_def t by simp
  moreover have "bk_facility ` set (fd_bookings t) \<subseteq> fa_id ` set (fd_facilities t)"
    using inv f unfolding fac_inv_def t by simp
  moreover have "live_at fac i (fd_bookings t) \<le> L fac i" for fac i
  proof (cases "fac = fa_id f \<and> bk_start b \<le> i \<and> i < bk_end b")
    case True
    have "live_at (fa_id f) i (fd_bookings s) \<le> overlapping (fa_id f) (bk_start b) (bk_end b) None (fd_bookings s)"
      unfolding live_at_def overlapping_def
      by (rule count_where_mono) (use True in \<open>auto simp: bookings_overlap_def\<close>)
    with free have "Suc (live_at (fa_id f) i (fd_bookings s)) \<le> fa_max f" by simp
    also have "\<dots> \<le> L (fa_id f) i" by (rule lim)
    finally show ?thesis using True by (simp add: live_at_def t(1) count_where_def)
  next
    case False
    then have "live_at fac i (fd_bookings t) = live_at fac i (fd_bookings s)"
      using f(2) by (auto simp: live_at_def t(1) count_where_def)
    with inv show ?thesis by (simp add: fac_inv_def)
  qed
  ultimately show ?thesis by (simp add: fac_inv_def t(2))
qed

lemma find_facility_Some: "find_facility i s = Some f \<Longrightarrow> f \<in> set (fd_facilities s) \<and> fa_id f = i"
  by (auto simp: find_facility_def find_row_def find_Some_iff)

lemma find_booking_Some: "find_booking i s = Some b \<Longrightarrow> b \<in> set (fd_bookings s) \<and> bk_id b = i"
  by (auto simp: find_booking_def find_row_def find_Some_iff)

lemma create_tx_inv:
  assumes inv: "fac_inv L s" "covers_limits L s" and f: "f \<in> set (fd_facilities s)"
  shows "wp (create_booking_tx e u f d) (\<lambda>_. fac_inv L) (\<lambda>_. True) s"
proof (cases "overlapping (fa_id f) (bi_start d) (bi_end d) None (fd_bookings s) < fa_max f")
  case False
  then show ?thesis by (simp add: create_booking_tx_def assert_no_conflict_def wp)
next
  case True
  let ?b = "new_booking (uuids (db_of s) (next_uuid (db_of s))) f u d"
  let ?n = "fd_access_update (\<lambda>_. (fd_access s)\<lparr>ad_base := (db_of s)\<lparr>next_uuid := Suc (next_uuid (db_of s))\<rparr>\<rparr>) s"
  have "fac_inv L (?n\<lparr>fd_bookings := fd_bookings ?n @ [?b]\<rparr>)"
    by (rule inv_add_booking [OF inv(1) f, of ?b])
       (use True inv(2) f in \<open>simp_all add: new_booking_def db_of_def covers_limits_def\<close>)
  moreover have "preserves (fac_inv L) (bnd (if fa_approval f then ret ?b else settle_money e ?b f u)
      (\<lambda>b. bnd (log_booking b u AUDIT_CREATE (m b)) (\<lambda>_. ret b)))" for m
    by (intro pres)
  ultimately have "wp (bnd (if fa_approval f then ret ?b else settle_money e ?b f u)
      (\<lambda>b. bnd (log_booking b u AUDIT_CREATE (m b)) (\<lambda>_. ret b))) (\<lambda>_. fac_inv L) (\<lambda>_. True)
      (?n\<lparr>fd_bookings := fd_bookings ?n @ [?b]\<rparr>)" for m
    by (intro preserves_success)
  with True show ?thesis
    unfolding create_booking_tx_def assert_no_conflict_def Let_def wp_bnd wp_gets wp_ensure wp_on_part wp_new_id_eq
      wp_modify db_of_def by simp
qed

lemma same_booking: "fac_inv L s \<Longrightarrow> b \<in> set (fd_bookings s) \<Longrightarrow> x \<in> set (fd_bookings s) \<Longrightarrow> bk_id x = bk_id b \<Longrightarrow> x = b"
  unfolding fac_inv_def fac_ids_ok_def by (metis distinct_map inj_onD)

lemma wp_set_booking:
  assumes "fac_inv L s" and "b \<in> set (fd_bookings s)" and "keeps_place g b" and "preserves (fac_inv L) k"
  shows "wp (bnd (set_booking (bk_id b) g) (\<lambda>_. k)) (\<lambda>_. fac_inv L) (\<lambda>_. True) s"
proof -
  have "keeps_place g x" if "x \<in> set (fd_bookings s)" "bk_id x = bk_id b" for x
    using same_booking [OF assms(1,2) that] assms(3) by simp
  then have "fac_inv L (s\<lparr>fd_bookings := set_row bk_id (bk_id b) g (fd_bookings s)\<rparr>)"
    by (rule inv_set_booking [OF assms(1)])
  then show ?thesis
    unfolding wp_bnd set_booking_def wp_modify by (rule preserves_success [OF assms(4)])
qed

lemma approve_tx_inv:
  assumes "fac_inv L s" and "b \<in> set (fd_bookings s)" and "bk_status b = BK_PENDING"
  shows "wp (approve_booking_tx e u b f) (\<lambda>_. fac_inv L) (\<lambda>_. True) s"
proof -
  let ?g = "\<lambda>x. x\<lparr>bk_status := BK_CONFIRMED, bk_reviewer := Some (user_id u), bk_reviewed_at := Some (be_now e)\<rparr>"
  have "keeps_place ?g b" using assms(3) by (simp add: keeps_place_def is_live_def)
  moreover have "preserves (fac_inv L) (bnd (settle_money e (?g b) f u) (\<lambda>b'.
      bnd (log_booking b u AUDIT_UPDATE [''status'' \<mapsto> JStr ''CONFIRMED'']) (\<lambda>_. ret b')))"
    by (intro pres)
  ultimately have "wp (bnd (set_booking (bk_id b) ?g) (\<lambda>_. bnd (settle_money e (?g b) f u) (\<lambda>b'.
      bnd (log_booking b u AUDIT_UPDATE [''status'' \<mapsto> JStr ''CONFIRMED'']) (\<lambda>_. ret b')))) (\<lambda>_. fac_inv L) (\<lambda>_. True) s"
    by (rule wp_set_booking [OF assms(1,2)])
  then show ?thesis
    by (simp add: approve_booking_tx_def assert_no_conflict_def Let_def wp_bnd wp_gets wp_ensure)
qed

lemma inv_billing [pres]:
  "preserves (fac_inv L) (on_billing (refund_held_in_tx e i a))"
  "preserves (fac_inv L) (on_billing (void_unpaid_invoice_in_tx e j a r))"
  by (rule inv_of_frame, rule frame_billing, rule pres)+

lemma cancel_tx_inv:
  assumes "fac_inv L s" and "b \<in> set (fd_bookings s)"
  shows "wp (cancel_booking_tx e u b reason) (\<lambda>_. fac_inv L) (\<lambda>_. True) s"
  unfolding cancel_booking_tx_def
  by (rule wp_set_booking [OF assms]) (simp add: keeps_place_def is_live_def, intro pres)

lemma guards_read [reads]:
  "reads_only (assert_acts_for_unit u unit condo)" "reads_only (validate_interval e f a z)"
  "reads_only (on_access (assert_not_restricted up u unit k))"
  unfolding assert_acts_for_unit_def validate_interval_def assert_not_restricted_def Let_def
  by (intro reads reads_on_part; simp)+

lemma create_booking_inv:
  assumes inv: "fac_inv L s" and lim: "covers_limits L s"
  shows "holds (create_booking e u d) (fac_inv L) s"
proof -
  have tx: "wp (create_booking_tx e u f d) (\<lambda>_. fac_inv L) (\<lambda>_. True) s" if "find_facility i s = Some f" for i f
    using create_tx_inv [OF inv lim] find_facility_Some [OF that] by blast
  show ?thesis
    unfolding create_booking_def assert_condo_access_def
    by (rule guard inv guard_reads guards_read reads tx pres | assumption | simp)+
qed

lemma approve_booking_inv: "preserves (fac_inv L) (approve_booking e u i)"
proof (rule preservesW)
  fix s assume inv: "fac_inv L s"
  have tx: "wp (approve_booking_tx e u b f) (\<lambda>_. fac_inv L) (\<lambda>_. True) s"
    if "find_booking i s = Some b" "bk_status b = BK_PENDING" for b f
    using approve_tx_inv [OF inv _ that(2)] find_booking_Some [OF that(1)] by blast
  show "holds (approve_booking e u i) (fac_inv L) s"
    unfolding approve_booking_def assert_management_def
    by (rule guard inv tx pres | assumption | simp)+
qed

lemma reject_booking_inv: "preserves (fac_inv L) (reject_booking e u i reason)"
  unfolding reject_booking_def assert_management_def
  by (intro pres set_booking_inv) (simp add: keeps_place_def is_live_def)

lemma cancel_booking_inv: "preserves (fac_inv L) (cancel_booking e u i reason)"
proof (rule preservesW)
  fix s assume inv: "fac_inv L s"
  have tx: "wp (cancel_booking_tx e u b reason) (\<lambda>_. fac_inv L) (\<lambda>_. True) s" if "find_booking i s = Some b" for b
    using cancel_tx_inv [OF inv] find_booking_Some [OF that] by blast
  show "holds (cancel_booking e u i reason) (fac_inv L) s"
    unfolding cancel_booking_def
    by (rule guard inv tx pres | assumption | simp)+
qed

section \<open>Facilities\<close>

lemma inv_set_facility:
  assumes inv: "fac_inv L s" and g: "\<And>f. fa_id (g f) = fa_id f"
  shows "fac_inv L (s\<lparr>fd_facilities := set_row fa_id i g (fd_facilities s)\<rparr>)" (is "fac_inv L ?t")
proof -
  have ids: "map fa_id (fd_facilities ?t) = map fa_id (fd_facilities s)"
    using g by (simp add: set_row_def set_where_def)
  have "fac_ids_ok ?t"
    using inv unfolding fac_inv_def fac_ids_ok_def list.set_map [symmetric] ids db_of_def by simp
  moreover have "bk_facility ` set (fd_bookings ?t) \<subseteq> fa_id ` set (fd_facilities ?t)"
    using inv unfolding fac_inv_def list.set_map [symmetric] ids by simp
  ultimately show ?thesis using inv by (simp add: fac_inv_def)
qed

lemma update_facility_inv: "preserves (fac_inv L) (update_facility u i d)"
proof (rule preservesW)
  fix s assume inv: "fac_inv L s"
  have "fac_inv L (s\<lparr>fd_facilities := set_row fa_id i (patched_facility d) (fd_facilities s)\<rparr>)"
    by (rule inv_set_facility [OF inv]) (simp add: patched_facility_def)
  with inv show "holds (update_facility u i d) (fac_inv L) s"
    by (simp add: update_facility_def assert_facility_management_def validate_window_def set_facility_def wp
        split: option.split)
qed

lemma remove_facility_inv: "preserves (fac_inv L) (remove_facility e u i)"
proof (rule preservesW)
  fix s assume inv: "fac_inv L s"
  have off: "fac_inv L (s\<lparr>fd_facilities := set_row fa_id i (\<lambda>f. f\<lparr>fa_active := False\<rparr>) (fd_facilities s)\<rparr>)"
    by (rule inv_set_facility [OF inv]) simp
  let ?t = "s\<lparr>fd_facilities := filter (\<lambda>f. fa_id f \<noteq> i) (fd_facilities s),
        fd_bookings := filter (\<lambda>b. bk_facility b \<noteq> i) (fd_bookings s)\<rparr>"
  have "fac_ids_ok ?t"
    using inv unfolding fac_inv_def fac_ids_ok_def db_of_def by (auto simp: distinct_map inj_on_def)
  moreover have "bk_facility ` set (fd_bookings ?t) \<subseteq> fa_id ` set (fd_facilities ?t)"
  proof
    fix j assume "j \<in> bk_facility ` set (fd_bookings ?t)"
    then obtain b where b: "b \<in> set (fd_bookings s)" "bk_facility b \<noteq> i" "j = bk_facility b" by auto
    then have "bk_facility b \<in> fa_id ` set (fd_facilities s)" using inv unfolding fac_inv_def by blast
    then obtain f where f: "f \<in> set (fd_facilities s)" "bk_facility b = fa_id f" by blast
    then have "f \<in> set (fd_facilities ?t)" using b(2) by simp
    then show "j \<in> fa_id ` set (fd_facilities ?t)" unfolding b(3) f(2) by (rule imageI)
  qed
  moreover have "live_at fac t (fd_bookings ?t) \<le> L fac t" for fac t
  proof -
    have "live_at fac t (fd_bookings ?t) \<le> live_at fac t (fd_bookings s)"
      unfolding live_at_def by (simp add: count_where_filter_le)
    with inv show ?thesis unfolding fac_inv_def by (meson le_trans)
  qed
  ultimately have gone: "fac_inv L ?t" by (simp add: fac_inv_def)
  show "holds (remove_facility e u i) (fac_inv L) s"
    using inv off gone by (simp add: remove_facility_def assert_facility_management_def set_facility_def wp
        split: option.split)
qed

lemma create_facility_inv: "preserves (fac_inv L) (create_facility u d)"
proof (rule preservesW)
  fix s assume inv: "fac_inv L s"
  let ?i = "uuids (db_of s) (next_uuid (db_of s))"
  let ?f = "new_facility ?i d"
  let ?t = "s\<lparr>fd_access := (fd_access s)\<lparr>ad_base := (db_of s)\<lparr>next_uuid := Suc (next_uuid (db_of s))\<rparr>\<rparr>,
      fd_facilities := fd_facilities s @ [?f]\<rparr>"
  have I: "inj (uuids (db_of s))"
    "bk_id ` set (fd_bookings s) \<union> fa_id ` set (fd_facilities s) \<subseteq> uuids (db_of s) ` {..<next_uuid (db_of s)}"
    using inv by (simp_all add: fac_inv_def fac_ids_ok_def)
  have "?i \<notin> uuids (db_of s) ` {..<next_uuid (db_of s)}" using I(1) by (auto simp: inj_def)
  then have new: "?i \<notin> fa_id ` set (fd_facilities s)" using I(2) by blast
  have id: "fa_id ?f = ?i" by (simp add: new_facility_def)
  have "bk_id ` set (fd_bookings s) \<union> insert ?i (fa_id ` set (fd_facilities s)) \<subseteq>
      uuids (db_of s) ` {..<Suc (next_uuid (db_of s))}"
    using I(2) unfolding lessThan_Suc by blast
  with inv new id have "fac_ids_ok ?t" unfolding fac_inv_def fac_ids_ok_def by (simp add: db_of_def)
  moreover have "bk_facility ` set (fd_bookings ?t) \<subseteq> fa_id ` set (fd_facilities ?t)"
    using inv unfolding fac_inv_def by auto
  ultimately have "fac_inv L ?t" using inv by (simp add: fac_inv_def)
  with inv show "holds (create_facility u d) (fac_inv L) s"
    by (simp add: create_facility_def assert_facility_management_def validate_window_def wp wp_new_id_eq Let_def db_of_def)
qed

section \<open>Steps\<close>

text \<open>
  The calls of the two services; \<open>step_elsewhere\<close> is any call of another service, which keeps their
  tables and the supply of ids.
\<close>

inductive fac_step :: "facility_db \<Rightarrow> facility_db \<Rightarrow> bool" where
  step_book: "create_booking e u d s = (r, t) \<Longrightarrow> fac_step s t"
| step_approve: "approve_booking e u i s = (r, t) \<Longrightarrow> fac_step s t"
| step_reject: "reject_booking e u i reason s = (r, t) \<Longrightarrow> fac_step s t"
| step_cancel: "cancel_booking e u i reason s = (r, t) \<Longrightarrow> fac_step s t"
| step_new_facility: "create_facility u x s = (f, t) \<Longrightarrow> fac_step s t"
| step_change_facility: "update_facility u i p s = (f, t) \<Longrightarrow> fac_step s t"
| step_remove_facility: "remove_facility e u i s = (v, t) \<Longrightarrow> fac_step s t"
| step_elsewhere: "fac_frame s t \<Longrightarrow> fac_step s t"

lemma fac_step_inv:
  assumes "fac_step s t" and "fac_inv L s" and "covers_limits L s"
  shows "fac_inv L t"
  using assms
proof (induction rule: fac_step.induct)
  case (step_book e u d s r t)
  from create_booking_inv [OF step_book(2,3), of e u d] step_book(1)
  show ?case by (auto simp: wp_def split: sum.splits)
next
  case (step_elsewhere s t)
  then show ?case by (blast intro: fac_frame_inv)
qed (blast dest: preservesD [OF approve_booking_inv] preservesD [OF reject_booking_inv] preservesD [OF update_facility_inv]
    preservesD [OF cancel_booking_inv] preservesD [OF create_facility_inv] preservesD [OF remove_facility_inv])+

definition fac_start :: "facility_db \<Rightarrow> bool" where
  "fac_start s \<longleftrightarrow> inj (uuids (db_of s)) \<and> fd_facilities s = [] \<and> fd_bookings s = []"

text \<open>How many may book a facility at once as things stand; none if there is no such facility.\<close>

definition limit_of :: "string \<Rightarrow> facility_db \<Rightarrow> nat" where
  "limit_of i s = (case find_facility i s of None \<Rightarrow> 0 | Some f \<Rightarrow> fa_max f)"

text \<open>A run of the services, with the largest limit that each facility has had so far.\<close>

inductive fac_run :: "facility_db \<Rightarrow> (string \<Rightarrow> nat) \<Rightarrow> facility_db \<Rightarrow> bool" where
  run_start: "fac_start s \<Longrightarrow> fac_run s (\<lambda>i. limit_of i s) s"
| run_step: "fac_run s peak t \<Longrightarrow> fac_step t w \<Longrightarrow> fac_run s (\<lambda>i. max (peak i) (limit_of i w)) w"

definition grown_to :: "facility_db \<Rightarrow> string \<Rightarrow> int \<Rightarrow> nat" where
  "grown_to s i t = max (live_at i t (fd_bookings s)) (limit_of i s)"

lemma limit_of_mem: "distinct (map fa_id (fd_facilities s)) \<Longrightarrow> f \<in> set (fd_facilities s) \<Longrightarrow> limit_of (fa_id f) s = fa_max f"
  by (simp add: limit_of_def find_facility_def find_row_distinct)

lemma fac_inv_covers: "fac_inv L s \<Longrightarrow> (\<And>i t. limit_of i s \<le> L i t) \<Longrightarrow> covers_limits L s"
  unfolding covers_limits_def by (metis fac_ids_ok_def fac_inv_def limit_of_mem)

text \<open>One call brings the bookings of an instant to no more than they were or the limit allows.\<close>

lemma fac_step_grows:
  assumes "fac_step s t" and "fac_inv L s"
  shows "fac_inv (grown_to s) t"
proof -
  have g: "fac_inv (grown_to s) s" using assms(2) by (simp add: fac_inv_def grown_to_def)
  moreover have "covers_limits (grown_to s) s" by (rule fac_inv_covers [OF g]) (simp add: grown_to_def)
  ultimately show ?thesis by (rule fac_step_inv [OF assms(1)])
qed

lemma fac_run_inv: "fac_run s peak t \<Longrightarrow> fac_inv (\<lambda>i _. peak i) t \<and> (\<forall>i. limit_of i t \<le> peak i)"
proof (induction rule: fac_run.induct)
  case (run_start s)
  then show ?case by (simp add: fac_start_def fac_inv_def fac_ids_ok_def live_at_def count_where_def)
next
  case (run_step s peak t w)
  then have inv: "fac_inv (\<lambda>i _. peak i) t" and lim: "\<And>i. limit_of i t \<le> peak i" by auto
  have "fac_inv (grown_to t) w" by (rule fac_step_grows [OF run_step(2) inv])
  moreover have "grown_to t i x \<le> peak i" for i x
    using inv lim [of i] by (simp add: grown_to_def fac_inv_def)
  ultimately have "fac_inv (\<lambda>i _. max (peak i) (limit_of i w)) w"
    unfolding fac_inv_def by (meson le_trans max.cobounded1)
  then show ?case by simp
qed

section \<open>A concrete site\<close>

definition sample_booking_env :: booking_env where
  "sample_booking_env = \<lparr>be_svc = sample_env, be_url = (\<lambda>_. None), be_zone = 0, be_locale = (\<lambda>_. [])\<rparr>"

definition sample_site :: facility_db where
  "sample_site = \<lparr>fd_access = \<lparr>ad_base = sample_start, ad_restrictions = [], ad_residents = [], ad_deleted = [],
       ad_webhooks = []\<rparr>, fd_facilities = [], fd_bookings = [], fd_events = []\<rparr>"

definition sample_hall :: facility_input where
  "sample_hall = \<lparr>fi_condo = ''c'', fi_name = ''Hall'', fi_description = None, fi_capacity = None, fi_approval = None,
     fi_fee = None, fi_deposit = None, fi_open = None, fi_close = None, fi_slot = None, fi_max = None,
     fi_active = None, fi_position = None\<rparr>"

definition hall_request :: "int \<Rightarrow> int \<Rightarrow> string \<Rightarrow> booking_input" where
  "hall_request a z f = \<lparr>bi_facility = f, bi_unit = None, bi_start = a * 3600000, bi_end = z * 3600000, bi_notes = None\<rparr>"

definition sample_hall_row :: facility where
  "sample_hall_row = new_facility (uuids sample_start 0) sample_hall"

definition sample_opened :: facility_db where
  "sample_opened = snd (create_facility sample_admin sample_hall sample_site)"

lemma hours_0800 [simp]: "hhmm_to_minutes ''08:00'' = Some 480" "hhmm_to_minutes ''22:00'' = Some 1320"
  by (simp_all add: hhmm_to_minutes_def part_number_def digit_val_def)

lemma sample_admin_runs: "condo_management sample_admin ''c'' x" "some_role (grants_member ''c'') sample_admin"
  by (simp_all add: sample_admin_def condo_management_def grants_condo_management_def some_role_def is_role_in_def
      grants_member_def)

lemma sample_hall_fields:
  "fa_id sample_hall_row = uuids sample_start 0" "fa_condo sample_hall_row = ''c''" "fa_active sample_hall_row"
  "fa_slot sample_hall_row = 60" "fa_max sample_hall_row = 1" "fa_open sample_hall_row = ''08:00''"
  "fa_close sample_hall_row = ''22:00''" "\<not> fa_approval sample_hall_row" "fa_fee sample_hall_row = None"
  "fa_deposit sample_hall_row = None"
  by (simp_all add: sample_hall_row_def new_facility_def sample_hall_def given_or_def)

lemma sample_start_uuid: "next_uuid sample_start = 0" "uuids sample_start = (\<lambda>n. ''id'' @ show_nat n)"
  by (simp_all add: sample_start_def)

lemma sample_opened_eq:
  "sample_opened = sample_site\<lparr>fd_access := (fd_access sample_site)\<lparr>ad_base := sample_start\<lparr>next_uuid := 1\<rparr>\<rparr>,
     fd_facilities := [sample_hall_row]\<rparr>"
proof -
  have "fi_condo sample_hall = ''c''" "fi_open sample_hall = None" "fi_close sample_hall = None"
    by (simp_all add: sample_hall_def)
  then show ?thesis
    by (simp add: sample_opened_def create_facility_def assert_facility_management_def validate_window_def
        sample_admin_runs given_or_def num_le_def act_simps on_part_def bnd_def ensure_def ret_def new_id_def
        sample_site_def sample_start_uuid(1) sample_hall_row_def Let_def modify_def)
qed

lemma sample_opened_fields:
  "find_facility (uuids sample_start 0) sample_opened = Some sample_hall_row" "fd_bookings sample_opened = []"
  "db_of sample_opened = sample_start\<lparr>next_uuid := 1\<rparr>" "fd_facilities sample_opened = [sample_hall_row]"
  by (simp_all add: sample_opened_eq find_facility_def find_row_def sample_hall_fields sample_site_def db_of_def)

lemma sample_opened_step: "fac_step sample_site sample_opened"
  unfolding sample_opened_def by (rule step_new_facility [OF prod.collapse [symmetric]])

text \<open>A request for the empty hall succeeds when the guards pass.\<close>

lemma hall_booked:
  assumes "validate_interval sample_booking_env sample_hall_row (bi_start d) (bi_end d) sample_opened = (Inr (), sample_opened)"
    and "bi_facility d = uuids sample_start 0" and "some_role (grants_member ''c'') u"
    and "truthy (bi_unit d) \<Longrightarrow> bnd (assert_acts_for_unit u (given_or (bi_unit d) []) ''c'') (\<lambda>_.
        on_access (assert_not_restricted (\<lambda>_. None) u (given_or (bi_unit d) []) CAP_FACILITY)) sample_opened = (Inr (), sample_opened)"
  shows "\<exists>b t. create_booking sample_booking_env u d sample_opened = (Inr b, t) \<and>
     fd_bookings t = [b] \<and> bk_facility b = uuids sample_start 0 \<and> bk_start b = bi_start d \<and> bk_end b = bi_end d \<and>
     bk_status b = BK_CONFIRMED \<and> fd_facilities t = [sample_hall_row]"
proof -
  let ?b = "new_booking (uuids sample_start 1) sample_hall_row u d"
  have b: "bk_status ?b = BK_CONFIRMED" "bk_user ?b = user_id u" "bk_invoice ?b = None"
    "bk_facility ?b = uuids sample_start 0" "bk_start ?b = bi_start d" "bk_end ?b = bi_end d"
    by (simp_all add: new_booking_def sample_hall_fields)
  obtain t where t: "create_booking_tx sample_booking_env u sample_hall_row d sample_opened = (Inr ?b, t)"
      "fd_bookings t = [?b]" "fd_facilities t = [sample_hall_row]"
    by (simp add: create_booking_tx_def assert_no_conflict_def overlapping_def sample_opened_eq sample_site_def
        count_where_def sample_hall_fields act_defs on_part_def new_id_def Let_def settle_money_def given_or_def
        log_booking_def log_audit_def)
  let ?rest = "bnd (txn (create_booking_tx sample_booking_env u sample_hall_row d)) (\<lambda>b.
     bnd (emit_booking (BookingCreated (bk_id b) (fa_id sample_hall_row) (bk_user b) (bk_status b))) (\<lambda>_.
     bnd (only_if (bk_status b = BK_CONFIRMED) (emit_confirmed b)) (\<lambda>_. get_booking u (bk_id b))))"
  have guard: "bnd (if truthy (bi_unit d) then bnd (assert_acts_for_unit u (given_or (bi_unit d) []) ''c'') (\<lambda>_.
        on_access (assert_not_restricted (\<lambda>_. None) u (given_or (bi_unit d) []) CAP_FACILITY)) else ret ()) k sample_opened =
      k () sample_opened" for k :: "unit \<Rightarrow> booking fsvc"
    using assms(4) by (cases "truthy (bi_unit d)") (simp_all add: bnd_ret bnd_Inr)
  have iv: "bnd (validate_interval sample_booking_env sample_hall_row (bi_start d) (bi_end d)) k sample_opened = k () sample_opened"
    for k :: "unit \<Rightarrow> booking fsvc" by (simp add: bnd_def assms(1))
  have tx: "bnd (txn (create_booking_tx sample_booking_env u sample_hall_row d)) k sample_opened = k ?b t"
    for k :: "booking \<Rightarrow> booking fsvc" by (simp add: bnd_def txn_def t(1))
  have url: "be_url sample_booking_env = (\<lambda>_. None)" by (simp add: sample_booking_env_def)
  have "create_booking sample_booking_env u d sample_opened = ?rest sample_opened"
    unfolding create_booking_def assert_condo_access_def url
    by (simp only: bnd_gets assms(2) sample_opened_fields bnd_need option.case bnd_ensure sample_hall_fields
        assms(3) if_True iv guard)
  also have "\<dots> = (Inr ?b, t\<lparr>fd_events := fd_events t @ [BookingCreated (bk_id ?b) (fa_id sample_hall_row) (bk_user ?b) (bk_status ?b),
      BookingConfirmed (bk_id ?b) (bk_user ?b)]\<rparr>)"
    unfolding tx using t(2) b(1-3)
    by (simp add: runs emit_booking_def emit_confirmed_def only_if_def get_booking_def
        find_booking_def find_row_def ret_run)
  finally show ?thesis using t(2,3) b by simp
qed

lemma interval_ok: "0 < a \<Longrightarrow> a < z \<Longrightarrow> 480 \<le> 60 * a mod 1440 \<Longrightarrow> 60 * z mod 1440 \<le> 1320 \<Longrightarrow>
  validate_interval sample_booking_env sample_hall_row (a * 3600000) (z * 3600000) s = (Inr (), s)"
  by (simp add: validate_interval_def bnd_def ensure_def ret_def sample_hall_fields sample_booking_env_def sample_env_def
      minute_of_day_def num_less_def)

section \<open>Properties\<close>

text \<open>
  C19. However bookings are requested, approved, rejected, cancelled and facilities changed or
  removed: at no instant do more bookings of a facility live than the largest limit that it has
  ever had; and from any state so reached, one more call brings the bookings of an instant to no
  more than there were before it or the limit of that moment allows. So where management lowers a
  limit below what is booked, the excess can only shrink.
\<close>

theorem capacity_never_exceeded:
  assumes "fac_run s peak t"
  shows "live_at i instant (fd_bookings t) \<le> peak i \<and>
    (\<forall>w. fac_step t w \<longrightarrow> live_at i instant (fd_bookings w) \<le> max (live_at i instant (fd_bookings t)) (limit_of i t))"
proof -
  have inv: "fac_inv (\<lambda>i _. peak i) t" using fac_run_inv [OF assms] by simp
  have "live_at i instant (fd_bookings w) \<le> grown_to t i instant" if "fac_step t w" for w
    using fac_step_grows [OF that inv] by (simp add: fac_inv_def)
  with inv show ?thesis by (simp add: fac_inv_def grown_to_def)
qed

definition new_limit :: "nat \<Rightarrow> facility_patch" where
  "new_limit n = \<lparr>fp_name = None, fp_description = None, fp_capacity = None, fp_approval = None, fp_fee = None, fp_deposit = None,
     fp_open = None, fp_close = None, fp_slot = None, fp_max = Some n, fp_active = None, fp_position = None\<rparr>"

lemma hall_limited:
  assumes "fd_facilities s = [sample_hall_row\<lparr>fa_max := m\<rparr>]"
  shows "\<exists>f t. update_facility sample_admin (uuids sample_start 0) (new_limit n) s = (Inr f, t) \<and>
    fd_facilities t = [sample_hall_row\<lparr>fa_max := n\<rparr>] \<and> fd_bookings t = fd_bookings s"
  using assms sample_admin_runs
  by (simp add: update_facility_def assert_facility_management_def validate_window_def set_facility_def runs find_facility_def
      sample_hall_fields new_limit_def given_or_def num_le_def set_row_def set_where_def patched_facility_def ret_run)

text \<open>The hall is booked, its limit is raised to two and lowered again to one.\<close>

theorem capacity_never_exceeded_witness:
  "\<exists>t w b peak. fac_run sample_site peak w \<and> fac_step t w \<and> limit_of (bk_facility b) t = 2 \<and> limit_of (bk_facility b) w = 1 \<and>
     peak (bk_facility b) = 2 \<and> fd_bookings w = [b] \<and> bk_status b = BK_CONFIRMED \<and>
     live_at (bk_facility b) (bk_start b) (fd_bookings w) \<le> 2"
proof -
  let ?i = "uuids sample_start 0"
  obtain b t where run: "create_booking sample_booking_env sample_admin (hall_request 9 10 ?i) sample_opened = (Inr b, t)"
      "fd_bookings t = [b]" "bk_status b = BK_CONFIRMED" "fd_facilities t = [sample_hall_row]" "bk_facility b = ?i"
    using hall_booked [of "hall_request 9 10 ?i" sample_admin] interval_ok [of 9 10] sample_admin_runs
    by (auto simp: hall_request_def truthy_def)
  have "sample_hall_row = sample_hall_row\<lparr>fa_max := 1\<rparr>" using sample_hall_fields(5) by simp
  then obtain f v where v: "update_facility sample_admin ?i (new_limit 2) t = (Inr f, v)"
      "fd_facilities v = [sample_hall_row\<lparr>fa_max := 2\<rparr>]" "fd_bookings v = [b]"
    using hall_limited [of t 1 2] run(2,4) by metis
  then obtain g w where w: "update_facility sample_admin ?i (new_limit 1) v = (Inr g, w)"
      "fd_facilities w = [sample_hall_row\<lparr>fa_max := 1\<rparr>]" "fd_bookings w = [b]"
    using hall_limited [of v 2 1] by metis
  have start: "fac_start sample_site"
    by (simp add: fac_start_def sample_site_def db_of_def sample_start_uuid inj_def)
  have lim: "limit_of ?i sample_site = 0" "limit_of ?i sample_opened = 1" "limit_of ?i t = 1" "limit_of ?i v = 2" "limit_of ?i w = 1"
    using run(4) v(2) w(2) sample_opened_fields(4)
    by (simp_all add: limit_of_def find_facility_def sample_site_def sample_hall_fields)
  let ?peak = "\<lambda>i. max (max (max (max (limit_of i sample_site) (limit_of i sample_opened)) (limit_of i t)) (limit_of i v)) (limit_of i w)"
  have r: "fac_run sample_site ?peak w"
    by (rule run_step run_start start sample_opened_step step_book [OF run(1)] step_change_facility [OF v(1)]
        step_change_facility [OF w(1)])+
  from capacity_never_exceeded [OF r, of ?i "bk_start b"] have "live_at ?i (bk_start b) (fd_bookings w) \<le> 2"
    using lim by simp
  with r lim w(3) run(3,5) step_change_facility [OF w(1)] show ?thesis
    by (intro exI [of _ v] exI [of _ w] exI [of _ b] exI [of _ ?peak]) simp
qed

lemma same_minute: "(x + 60000 * (1440 * k)) div 60000 mod 1440 = x div 60000 mod (1440 :: int)"
proof -
  have "(x + 60000 * (1440 * k)) div 60000 = 1440 * k + x div 60000" by (rule div_mult_self2) simp
  then show ?thesis by (simp only: mod_mult_self4)
qed

text \<open>
  The opening hours bind the time of day a booking begins and ends at, not what lies between:
  an interval that is accepted is still accepted when it ends any number of days later, so that it
  covers whole nights.
\<close>

theorem opening_hours_ignore_days:
  assumes "validate_interval e f a z s = (Inr (), s)"
  shows "validate_interval e f a (z + 86400000 * int k) s = (Inr (), s)"
proof -
  have g: "a < z" "\<not> a < be_now e - 60000" "\<not> z - a < fa_slot f * 60000"
    "\<not> (num_less (Some (minute_of_day e a)) (hhmm_to_minutes (fa_open f)) \<or>
        num_less (hhmm_to_minutes (fa_close f)) (Some (minute_of_day e z)))"
    using assms by (auto simp: validate_interval_def bnd_def ensure_def ret_def throw_def split: if_splits)
  have eq: "z + 86400000 * int k + be_zone e = (z + be_zone e) + 60000 * (1440 * int k)" by simp
  have "minute_of_day e (z + 86400000 * int k) = minute_of_day e z"
    unfolding minute_of_day_def eq by (rule same_minute)
  with g show ?thesis
    by (simp add: validate_interval_def bnd_def ensure_def ret_def)
qed

theorem opening_hours_ignore_days_witness:
  "validate_interval sample_booking_env sample_hall_row (9 * 3600000) (34 * 3600000) sample_opened = (Inr (), sample_opened) \<and>
   minute_of_day sample_booking_env (26 * 3600000) = 120 \<and> hhmm_to_minutes (fa_open sample_hall_row) = Some 480"
proof -
  have "validate_interval sample_booking_env sample_hall_row (9 * 3600000) (10 * 3600000) sample_opened = (Inr (), sample_opened)"
    by (rule interval_ok) simp_all
  from opening_hours_ignore_days [OF this, of 1] show ?thesis
    by (simp add: sample_hall_fields minute_of_day_def sample_booking_env_def)
qed

lemma reads_then:
  assumes "bnd m f s = (Inr y, t)" and "reads_only m"
  shows "\<exists>x. m s = (Inr x, s) \<and> f x s = (Inr y, t)"
  using reads_InrE [OF assms] by blast


definition sample_tenant :: auth_user where
  "sample_tenant = \<lparr>user_id = ''t'', user_roles = [\<lparr>role = TENANT, role_condo = Some ''c'', role_unit = Some ''u''\<rparr>]\<rparr>"


end
