(* ===== verification/Settlement.thy ===== *)
theory Settlement
  imports Billing_Steps
begin

text \<open>
  What settling does, exactly: the runs of \<open>settleInvoice\<close>, of a successful gateway payment, of a
  manual payment and of credit, which return and change the invoice, its payments, the credit and
  the events as computed here.
\<close>

section \<open>What the postings leave alone\<close>

text \<open>All that the ledger, the accounting and the audit log do not write.\<close>

definition frame :: "bdb \<Rightarrow> _" where
  "frame s = (invoices s, payments s, advances s, accounts s, condos s, units s, connections s,
     receipts s, events s)"

lemma frame_post_entry [keep]: "keeps frame (post_entry p)"
  unfolding post_entry_def Let_def by (intro keep keeps_modify; simp add: frame_def)

lemma frame_postings [keep]:
  "keeps frame (post_payment e p condo n al d a)" "keeps frame (post_invoice_charges e i condo n d ls a)"
  unfolding post_payment_def post_invoice_charges_def Let_def by (intro keep; simp add: frame_def)+

lemma frame_append_entry [keep]: "keeps frame (append_entry e x)"
  unfolding append_entry_def by (intro keep keeps_modify; simp add: frame_def)

lemma frame_record_entry [keep]: "keeps frame (record_entry e x)"
  unfolding record_entry_def by (intro keep)

lemma frame_create_entries [keep]: "keeps frame (create_entries e xs)"
  unfolding create_entries_def by (intro keep)

lemma frame_allocation [keep]: "keeps frame (record_payment_allocation e i p x d a)"
  unfolding record_payment_allocation_def by (intro keep)

lemma frame_charges [keep]: "keeps frame (record_invoice_charges e iv ls a)"
  unfolding record_invoice_charges_def by (intro keep)

lemma frame_reverse [keep]: "keeps frame (reverse_invoice_charges e iv a r)"
  unfolding reverse_invoice_charges_def by (intro keep)

lemma for_each_returns:
  "(\<And>x s. \<exists>y t. f x s = (Inr y, t)) \<Longrightarrow> \<exists>ys t. for_each xs f s = (Inr ys, t)"
proof (induction xs arbitrary: s)
  case (Cons x xs)
  obtain y t where "f x s = (Inr y, t)" using Cons.prems by blast
  moreover obtain ys w where "for_each xs f t = (Inr ys, w)" using Cons.IH [OF Cons.prems] by blast
  ultimately show ?case by (simp add: bnd_def ret_def)
qed (simp add: ret_def)

lemma create_entries_returns: "\<exists>t. create_entries e xs s = (Inr (), t)"
proof -
  let ?f = "\<lambda>x. bnd (gets (find_entry (ei_key x))) (\<lambda>found.
       case found of Some l \<Rightarrow> ret () | None \<Rightarrow> bnd (append_entry e x) (\<lambda>_. ret ()))"
  have "\<exists>ys t. for_each xs ?f s = (Inr ys, t)"
    by (rule for_each_returns) (simp add: bnd_def gets_def ret_def append_entry_run split: option.split)
  then show ?thesis by (auto simp: create_entries_def bnd_def ret_def)
qed

lemma allocation_returns: "\<exists>t. record_payment_allocation e i p x d a s = (Inr (), t)"
proof (cases "find_row inv_id i (invoices s)")
  case (Some iv)
  obtain t where "create_entries e (allocation_inputs e iv p x d a) s = (Inr (), t)"
    using create_entries_returns by blast
  with Some show ?thesis
    using post_payment_returns by (auto simp: record_payment_allocation_def act_simps only_if_def)
qed (simp add: record_payment_allocation_def act_simps)

lemma charges_return: "\<exists>t. record_invoice_charges e iv ls a s = (Inr (), t)"
proof (cases "ls = []")
  case False
  obtain t where "create_entries e (charge_inputs e iv ls a) s = (Inr (), t)"
    using create_entries_returns by blast
  with False show ?thesis
    using post_invoice_charges_returns by (auto simp: record_invoice_charges_def act_simps only_if_def)
qed (simp add: record_invoice_charges_def act_simps)

lemma wp_frame:
  assumes "\<exists>x t. m s = (Inr x, t)" and "keeps frame m" and "\<And>x t. frame t = frame s \<Longrightarrow> Q x t"
  shows "wp m Q E s"
  using assms keeps_run [OF assms(2)] by (auto simp: wp_def)

lemma wp_receipt:
  assumes "find_row co_id (ri_condo x) (condos s) = Some c"
    and "ri_payment x = None \<or> (\<forall>r \<in> set (receipts s). rc_payment r \<noteq> ri_payment x)"
    and "ri_deposit x = None"
    and "\<And>r q. rc_payment r = ri_payment x \<Longrightarrow>
      Q r (s\<lparr>sequences := q, next_uuid := Suc (next_uuid s), receipts := receipts s @ [r]\<rparr>)"
  shows "wp (issue_receipt e x) Q E s"
proof -
  have "ri_deposit x = None \<or> (\<forall>r \<in> set (receipts s). rc_deposit r \<noteq> ri_deposit x)" using assms(3) by simp
  from issue_receipt_run [OF assms(1,2) this, of e] assms(4) show ?thesis by (auto simp: wp_def)
qed

section \<open>Settling an invoice\<close>

text \<open>
  The state \<open>t\<close> has the invoices \<open>is\<close> and the payments \<open>ps\<close>, new receipts are for the payment \<open>k\<close>,
  and the other tables, the ledger and the accounting apart, are those of \<open>s\<close>.
\<close>

definition now_has :: "bdb \<Rightarrow> invoice list \<Rightarrow> payment list \<Rightarrow> string \<Rightarrow> bdb \<Rightarrow> bool" where
  "now_has s is ps k t \<longleftrightarrow> invoices t = is \<and> payments t = ps \<and> advances t = advances s \<and>
     accounts t = accounts s \<and> condos t = condos s \<and> units t = units s \<and> connections t = connections s \<and>
     events t = events s \<and> (\<forall>r \<in> set (receipts t). r \<in> set (receipts s) \<or> rc_payment r = Some k)"

text \<open>
  The ledger has received the amount \<open>x\<close> of payment \<open>k\<close> of the invoice: the unit owes that much
  less, and each fund's cash has risen by its share. The entries are written if their keys are new.
\<close>

definition ledger_paid :: "bdb \<Rightarrow> invoice \<Rightarrow> string \<Rightarrow> money \<Rightarrow> bdb \<Rightarrow> bool" where
  "ledger_paid s iv k x t \<longleftrightarrow>
     (\<forall>l \<in> set (ledger t). l \<in> set (ledger s) \<or> (\<exists>z. le_key l = Some (''payment:'' @ z))) \<and>
     (no_keys (''payment:'' @ k @ '':'') s \<and> whole_sen x \<longrightarrow>
      (\<forall>u. unit_balance u t = unit_balance u s - (if inv_unit iv = u then x else 0)) \<and>
      (\<forall>f. fund_cash (inv_condo iv) f t = fund_cash (inv_condo iv) f s +
         sum_where (\<lambda>q. fst q = f) snd (written_shares x (inv_lines iv))))"

lemma ledger_paid_cong: "ledger t = ledger t' \<Longrightarrow> ledger s = ledger s' \<Longrightarrow> ledger_paid s iv k x t = ledger_paid s' iv k x t'"
  by (simp add: ledger_paid_def no_keys_def unit_balance_def fund_cash_def ledger_sum_def)

text \<open>The entries that an allocation adds are keyed as a payment's.\<close>

definition adds_keys :: "string option set \<Rightarrow> ledger_entry set \<Rightarrow> bdb \<Rightarrow> bool" where
  "adds_keys K L t \<longleftrightarrow> (\<forall>l \<in> set (ledger t). l \<in> L \<or> le_key l \<in> K)"

lemma adds_keys_append: "ei_key x \<in> K \<Longrightarrow> preserves (adds_keys K L) (append_entry e x)"
  by (rule preservesI) (auto simp: adds_keys_def append_entry_run entry_of_def)

lemma adds_keys_allocation:
  assumes "record_payment_allocation e i k x d a s = (r, t)"
  shows "adds_keys (range (\<lambda>z. Some (''payment:'' @ z))) (set (ledger s)) t"
proof -
  let ?A = "adds_keys (range (\<lambda>z. Some (''payment:'' @ z))) (set (ledger s))"
  have create: "preserves ?A (create_entries e (allocation_inputs e iv k x d a))" for iv
    unfolding create_entries_def
    by (intro pres adds_keys_append) (auto simp: allocation_inputs_def)
  have post: "preserves ?A (post_payment e' k condo n al d' a)" for e' condo n al d'
    using keeps_preserves [OF ledger_kept_by_gl(2)] by (simp add: adds_keys_def [abs_def])
  have "preserves ?A (record_payment_allocation e i k x d a)"
    unfolding record_payment_allocation_def by (intro pres create post)
  moreover have "?A s" by (simp add: adds_keys_def)
  ultimately show ?thesis using assms by (rule preservesD)
qed

definition same_charges :: "invoice \<Rightarrow> invoice \<Rightarrow> bool" where
  "same_charges x y \<longleftrightarrow> inv_unit y = inv_unit x \<and> inv_condo y = inv_condo x \<and> inv_lines y = inv_lines x"

lemma wp_allocation:
  assumes "find_row inv_id i (invoices s) = Some iv'" and "same_charges iv iv'"
    and "\<And>t. frame t = frame s \<Longrightarrow> ledger_paid s iv k x t \<Longrightarrow> Q () t"
  shows "wp (record_payment_allocation e i k x d a) Q E s"
proof -
  obtain t where run: "record_payment_allocation e i k x d a s = (Inr (), t)"
    using allocation_returns by blast
  have "ledger_paid s iv k x t"
    using record_payment_allocation_effect [OF run assms(1)] assms(2) adds_keys_allocation [OF run]
    by (auto simp: ledger_paid_def same_charges_def adds_keys_def)
  with run assms(3) keeps_run [OF frame_allocation run] show ?thesis by (simp add: wp_def)
qed

lemma wp_record_settlement:
  assumes p: "find_payment k s = Some p"
    and iv': "find_row inv_id (inv_id iv) (invoices s) = Some iv'" "same_charges iv iv'"
    and c: "find_row co_id (inv_condo iv) (condos s) = Some c"
    and r: "\<forall>r \<in> set (receipts s). rc_payment r \<noteq> Some k"
    and q: "\<And>t. now_has s (invoices s) (payments s) k t \<Longrightarrow> ledger_paid s iv k (pay_amount p) t \<Longrightarrow> Q () t"
  shows "wp (record_settlement e iv a k r') Q E s"
proof -
  have id: "pay_id p = k" using p by (auto dest: find_payment_Some)
  have fp: "find_payment k (s\<lparr>audit := as\<rparr>) = Some p" for as
    using p by (simp add: find_payment_def)
  let ?x = "\<lparr>ri_condo = inv_condo iv, ri_kind = PAYMENT_RECEIPT, ri_amount = pay_amount p,
     ri_currency = Some (inv_currency iv), ri_to = pay_user p, ri_unit = Some (inv_unit iv),
     ri_payment = Some (pay_id p), ri_deposit = None,
     ri_desc = Some (''Payment for invoice '' @ inv_number iv)\<rparr>"
  let ?a = "pay_audit (inv_condo iv) (Some (inv_unit iv)) a ''Payment'' k [''providerRef'' \<mapsto> JStr r']"
  let ?s = "s\<lparr>audit := audit s @ [?a]\<rparr>"
  have rest: "wp (only_if c' (bnd (issue_receipt e ?x) (\<lambda>_. ret ()))) Q E t"
    if t: "frame t = frame ?s" and l: "ledger_paid ?s iv k (pay_amount p) t" for t c'
  proof (cases c')
    case True
    have "wp (issue_receipt e ?x) (\<lambda>_. Q ()) E t"
    proof (rule wp_receipt)
      fix y q'
      let ?t = "t\<lparr>sequences := q', next_uuid := Suc (next_uuid t), receipts := receipts t @ [y]\<rparr>"
      assume "rc_payment y = ri_payment ?x"
      then have "now_has s (invoices s) (payments s) k ?t" using t id by (simp add: frame_def now_has_def)
      moreover have "ledger_paid s iv k (pay_amount p) ?t"
        using l ledger_paid_cong [of ?t t s ?s] by simp
      ultimately show "Q () ?t" by (rule q)
    qed (use t c r id in \<open>simp_all add: frame_def\<close>)
    with True show ?thesis by (simp add: wp)
  next
    case False
    have "now_has s (invoices s) (payments s) k t" using t by (simp add: frame_def now_has_def)
    moreover have "ledger_paid s iv k (pay_amount p) t" using l ledger_paid_cong [of t t s ?s] by simp
    ultimately show ?thesis using False q by (simp add: wp)
  qed
  have "wp (record_payment_allocation e (inv_id iv) k (pay_amount p) d a)
      (\<lambda>_. wp (only_if c' (bnd (issue_receipt e ?x) (\<lambda>_. ret ()))) Q E) E ?s" for d c'
    by (rule wp_allocation [of _ _ iv' iv]) (use iv' rest in simp_all)
  then show ?thesis
    unfolding record_settlement_def wp log_audit_def by (simp only: fp option.case)
qed

text \<open>The index on active periods lets the invoice keep or take the new status.\<close>

definition can_become :: "string \<Rightarrow> (invoice \<Rightarrow> invoice) \<Rightarrow> bdb \<Rightarrow> bool" where
  "can_become i f s \<longleftrightarrow> (\<forall>x \<in> set (invoices s). \<forall>y \<in> set (invoices s).
     \<not> (inv_id x = i \<and> inv_id y \<noteq> i \<and> inv_status (f x) \<noteq> VOIDED \<and> inv_status y \<noteq> VOIDED \<and> same_period x y))"

lemma wp_settle:
  assumes iv: "find_invoice i s = Some iv" and paid: "paid_sum i (payments s) = paid"
    and can: "can_become i (settled e paid) s"
    and p: "find_payment k s = Some p"
    and c: "find_row co_id (inv_condo iv) (condos s) = Some c"
    and r: "\<forall>r \<in> set (receipts s). rc_payment r \<noteq> Some k"
    and q: "\<And>t. now_has s (set_row inv_id i (settled e paid) (invoices s)) (payments s) k t \<Longrightarrow>
      ledger_paid s iv k (pay_amount p) t \<Longrightarrow> Q (Some (paid \<ge> inv_total iv)) t"
  shows "wp (settle_invoice e i a k r') Q E s"
proof -
  let ?t = "s\<lparr>invoices := set_row inv_id i (settled e paid) (invoices s)\<rparr>"
  have id: "inv_id iv = i" using find_invoice_Some [OF iv] by simp
  have "wp (record_settlement e iv a k r') (\<lambda>_. Q (Some (paid \<ge> inv_total iv))) E ?t"
  proof (rule wp_record_settlement [where p = p and c = c and iv' = "settled e paid iv"])
    show "find_row inv_id (inv_id iv) (invoices ?t) = Some (settled e paid iv)"
      using iv id by (simp add: find_row_set_row settled_def find_invoice_def)
    show "Q (Some (paid \<ge> inv_total iv)) t"
      if "now_has ?t (invoices ?t) (payments ?t) k t" "ledger_paid ?t iv k (pay_amount p) t" for t
      using that ledger_paid_cong [of t t ?t s] by (intro q) (simp_all add: now_has_def)
  qed (use p c r in \<open>simp_all add: find_payment_def same_charges_def settled_def\<close>)
  then show ?thesis
    using iv paid can by (simp add: settle_invoice_def update_invoice_def can_become_def wp)
qed

lemma can_become_live:
  assumes "periods_ok s" and "find_invoice i s = Some iv" and "distinct (map inv_id (invoices s))"
    and "inv_status iv \<noteq> VOIDED"
  shows "can_become i (settled e paid) s"
proof -
  have "x = iv" if "x \<in> set (invoices s)" "inv_id x = i" for x
    using assms(2,3) that find_row_distinct [of inv_id "invoices s" x] by (simp add: find_invoice_def)
  then show ?thesis using assms(1,2,4) find_invoice_Some [OF assms(2)]
    unfolding can_become_def periods_ok_def by metis
qed

section \<open>A successful gateway payment\<close>

definition succeeded :: "svc_env \<Rightarrow> payment \<Rightarrow> payment" where
  "succeeded e p = p\<lparr>pay_status := SUCCEEDED, pay_paid_at := Some (now e)\<rparr>"

text \<open>The payments after a success: this one succeeded, the others in progress are cancelled.\<close>

definition success_row :: "svc_env \<Rightarrow> payment \<Rightarrow> payment \<Rightarrow> payment" where
  "success_row e p x =
     (if pay_id x = pay_id p then (if pay_status x = PENDING then succeeded e x else x)
      else if pay_invoice x = pay_invoice p \<and> pay_status x = PENDING then x\<lparr>pay_status := CANCELLED\<rparr>
      else x)"

lemma success_row_simps [simp]:
  "pay_id (success_row e p x) = pay_id x" "pay_invoice (success_row e p x) = pay_invoice x"
  "pay_amount (success_row e p x) = pay_amount x"
  by (simp_all add: success_row_def succeeded_def)

lemma success_rows:
  "set_where (\<lambda>x. pay_invoice x = pay_invoice p \<and> pay_status x = PENDING \<and> pay_id x \<noteq> pay_id p)
     (\<lambda>x. x\<lparr>pay_status := CANCELLED\<rparr>)
     (set_where (is_pending (pay_id p)) (\<lambda>x. x\<lparr>pay_status := SUCCEEDED, pay_paid_at := Some (now e)\<rparr>) ps) =
   map (success_row e p) ps"
  by (simp add: set_where_def is_pending_def success_row_def succeeded_def)

lemma find_row_map:
  "(\<And>x. key (f x) = key x) \<Longrightarrow> find_row key k (map f xs) = map_option f (find_row key k xs)"
  by (induction xs) auto

lemma success_row_succeeded [simp]:
  "pay_status (success_row e p x) = SUCCEEDED \<longleftrightarrow>
     pay_status x = SUCCEEDED \<or> (pay_id x = pay_id p \<and> pay_status x = PENDING)"
  by (simp add: success_row_def succeeded_def)

lemma paid_sum_Cons:
  "paid_sum i (p # ps) = (if pay_invoice p = i \<and> pay_status p = SUCCEEDED then pay_amount p else 0) + paid_sum i ps"
  by (simp add: paid_sum_def)

lemma paid_sum_Nil: "paid_sum i [] = 0"
  by (simp add: paid_sum_def)

lemma paid_sum_success:
  assumes "distinct (map pay_id ps)" and "p \<in> set ps" and "pay_status p = PENDING"
  shows "paid_sum i (map (success_row e p) ps) =
    paid_sum i ps + (if i = pay_invoice p then pay_amount p else 0)"
proof -
  have other: "paid_sum i (map (success_row e p) qs) = paid_sum i qs"
    if "pay_id p \<notin> pay_id ` set qs" for qs
    using that by (induction qs) (auto simp: paid_sum_Cons paid_sum_Nil)
  show ?thesis using assms(1,2)
  proof (induction ps)
    case (Cons q ps)
    show ?case
    proof (cases "q = p")
      case True
      then show ?thesis using Cons.prems assms(3) other [of ps]
        by (auto simp: paid_sum_Cons)
    next
      case False
      then have "p \<in> set ps" "pay_id q \<noteq> pay_id p" using Cons.prems by auto
      then show ?thesis using Cons by (auto simp: paid_sum_Cons)
    qed
  qed simp
qed

lemma find_payment_distinct:
  "distinct (map pay_id (payments s)) \<Longrightarrow> p \<in> set (payments s) \<Longrightarrow> find_payment (pay_id p) s = Some p"
  by (simp add: find_payment_def find_row_distinct)

definition paid_event :: "bool \<Rightarrow> string \<Rightarrow> event list" where
  "paid_event b i = (if b then [InvoicePaid i] else [])"

lemma emit_paid_run: "emit_paid i (Some b) s = (Inr (), s\<lparr>events := events s @ paid_event b i\<rparr>)"
  by (simp add: emit_paid_def only_if_def emit_def modify_def ret_def paid_event_def)

lemma wp_emit_paid [wp]:
  "wp (emit_paid i (Some b)) Q E = (\<lambda>s. Q () (s\<lparr>events := events s @ paid_event b i\<rparr>))"
  by (simp add: fun_eq_iff wp_def emit_paid_run)

lemma mark_success_run:
  assumes ids: "distinct (map pay_id (payments s))" "distinct (map inv_id (invoices s))"
    and f: "find_payment_by_ref r s = Some p" and st: "pay_status p = PENDING"
    and iv: "find_invoice (pay_invoice p) s = Some iv"
    and old: "paid_sum (pay_invoice p) (payments s) = inv_paid iv"
    and can: "can_become (pay_invoice p) (settled e (inv_paid iv + pay_amount p)) s"
    and c: "find_row co_id (inv_condo iv) (condos s) = Some c"
    and rc: "\<forall>x \<in> set (receipts s). rc_payment x \<noteq> Some (pay_id p)"
  shows "\<exists>t. mark_payment_succeeded e r s = (Inr (Some (succeeded e p)), t) \<and>
    invoices t = set_row inv_id (pay_invoice p) (settled e (inv_paid iv + pay_amount p)) (invoices s) \<and>
    payments t = map (success_row e p) (payments s) \<and> accounts t = accounts s \<and>
    events t = events s @ paid_event (inv_total iv \<le> inv_paid iv + pay_amount p) (pay_invoice p) \<and>
    ledger_paid s iv (pay_id p) (pay_amount p) t"
proof -
  let ?paid = "inv_paid iv + pay_amount p"
  let ?s = "s\<lparr>payments := map (success_row e p) (payments s)\<rparr>"
  have mem: "p \<in> set (payments s)" by (rule find_payment_mem [OF f])
  have fp: "find_payment (pay_id p) ?s = Some (succeeded e p)"
    using find_payment_distinct [OF ids(1) mem] st
    by (simp add: find_payment_def find_row_map [of pay_id "success_row e p"]) (simp add: success_row_def)
  have paid: "paid_sum (pay_invoice p) (payments ?s) = ?paid"
    using paid_sum_success [OF ids(1) mem st, of "pay_invoice p" e] old by simp
  have n: "count_where (is_pending (pay_id p)) (payments s) \<noteq> 0"
    using mem st by (auto simp: count_where_def is_pending_def filter_empty_conv)
  have set: "wp (settle_invoice e (pay_invoice p) a (pay_id p) r)
      (\<lambda>st t. st = Some (?paid \<ge> inv_total iv) \<and>
        now_has ?s (set_row inv_id (pay_invoice p) (settled e ?paid) (invoices s)) (payments ?s) (pay_id p) t \<and>
        ledger_paid s iv (pay_id p) (pay_amount p) t) (\<lambda>_. False) ?s" for a
    by (rule wp_settle [where iv = iv and c = c and p = "succeeded e p"])
       (use iv paid can fp c rc ledger_paid_cong [of _ _ ?s s] in
         \<open>simp_all add: find_invoice_def can_become_def succeeded_def\<close>)
  have tx: "wp (succeed_tx e p r) (\<lambda>(u, st) t. u = Some (succeeded e p) \<and> st = Some (?paid \<ge> inv_total iv) \<and>
      now_has ?s (set_row inv_id (pay_invoice p) (settled e ?paid) (invoices s)) (payments ?s) (pay_id p) t \<and>
        ledger_paid s iv (pay_id p) (pay_amount p) t) (\<lambda>_. False) s"
    using n fp wp_mono [OF set [of "pay_user p"]]
    by (simp add: succeed_tx_def settle_success_def update_payments_def wp success_rows)
  have "wp (mark_payment_succeeded e r) (\<lambda>u t. u = Some (succeeded e p) \<and>
      invoices t = set_row inv_id (pay_invoice p) (settled e ?paid) (invoices s) \<and>
      payments t = map (success_row e p) (payments s) \<and> accounts t = accounts s \<and>
      events t = events s @ paid_event (inv_total iv \<le> ?paid) (pay_invoice p) \<and>
      ledger_paid s iv (pay_id p) (pay_amount p) t) (\<lambda>_. False) s"
    unfolding mark_payment_succeeded_def wp
    using f st by (simp add: wp) (rule wp_mono [OF tx]; auto simp: wp now_has_def ledger_paid_cong [of "_\<lparr>events := _\<rparr>" _ s s])
  then show ?thesis by (auto simp: wp_def split: prod.splits sum.splits)
qed

section \<open>A manual payment\<close>

definition manual_row :: "svc_env \<Rightarrow> auth_user \<Rightarrow> string \<Rightarrow> invoice \<Rightarrow> money \<Rightarrow> manual_input \<Rightarrow> payment" where
  "manual_row e u i iv amount x =
     new_payment e i iv (Some (user_id u)) amount SUCCEEDED MANUAL (Some (now e))
       [''method'' \<mapsto> JStr (case mi_method x of None \<Rightarrow> ''CASH'' | Some m \<Rightarrow> m),
        ''reference'' \<mapsto> opt_str (mi_reference x), ''note'' \<mapsto> opt_str (mi_note x),
        ''recordedByUserId'' \<mapsto> JStr (user_id u)]"

lemma manual_row_simps [simp]:
  "pay_id (manual_row e u i iv a x) = i" "pay_invoice (manual_row e u i iv a x) = inv_id iv"
  "pay_amount (manual_row e u i iv a x) = a" "pay_status (manual_row e u i iv a x) = SUCCEEDED"
  by (simp_all add: manual_row_def new_payment_def)

lemma manual_tx_run:
  assumes iv: "find_invoice i s = Some iv"
    and fresh: "uuids s (next_uuid s) \<notin> pay_id ` set (payments s)"
    and old: "paid_sum i (payments s) = inv_paid iv"
    and can: "can_become i (settled e (inv_paid iv + amount)) s"
    and c: "find_row co_id (inv_condo iv) (condos s) = Some c"
    and rc: "\<forall>r \<in> set (receipts s). rc_payment r \<noteq> Some (uuids s (next_uuid s))"
  shows "wp (manual_payment_tx e u iv amount x) (\<lambda>st t.
      st = Some (inv_paid iv + amount \<ge> inv_total iv) \<and>
      now_has s (set_row inv_id i (settled e (inv_paid iv + amount)) (invoices s))
        (payments s @ [manual_row e u (uuids s (next_uuid s)) iv amount x]) (uuids s (next_uuid s)) t) E s"
proof -
  let ?k = "uuids s (next_uuid s)"
  let ?p = "manual_row e u ?k iv amount x"
  let ?s = "s\<lparr>next_uuid := Suc (next_uuid s), payments := payments s @ [?p]\<rparr>"
  have id: "inv_id iv = i" using find_invoice_Some [OF iv] by simp
  have p: "find_payment ?k ?s = Some ?p"
    using fresh find_row_None [of pay_id ?k "payments s"] by (simp add: find_payment_def find_row_append)
  have paid: "paid_sum i (payments ?s) = inv_paid iv + amount"
    using old id by (simp add: paid_sum_Cons paid_sum_Nil)
  have "wp (settle_invoice e i (Some (user_id u)) ?k r) (\<lambda>st t.
      st = Some (inv_paid iv + amount \<ge> inv_total iv) \<and>
      now_has s (set_row inv_id i (settled e (inv_paid iv + amount)) (invoices s)) (payments s @ [?p]) ?k t) E ?s" for r
    by (rule wp_settle [where iv = iv and c = c and p = ?p and paid = "inv_paid iv + amount"])
       (use iv paid can p c rc in \<open>simp_all add: find_invoice_def can_become_def now_has_def\<close>)
  then show ?thesis
    using id by (simp add: manual_payment_tx_def insert_payment_def wp_new_id_eq wp manual_row_def)
qed

lemma manual_payment_run:
  assumes iv: "find_invoice i s = Some iv" "inv_status iv \<notin> {VOIDED, PAID}"
    and ok: "billing_ok ps s"
    and u: "condo_management u (inv_condo iv) True" "can_read_unit_money u (inv_condo iv) (inv_unit iv)"
    and amount: "amount = (case mi_amount x of None \<Rightarrow> outstanding iv | Some a \<Rightarrow> a)"
      "0 < amount" "amount \<le> outstanding iv + 1 / 200"
    and c: "find_row co_id (inv_condo iv) (condos s) = Some c"
    and rc: "\<forall>r \<in> set (receipts s). rc_payment r \<noteq> Some (uuids s (next_uuid s))"
  shows "\<exists>y t. record_manual_payment e u i x s = (Inr y, t) \<and>
    now_has s (set_row inv_id i (settled e (inv_paid iv + amount)) (invoices s))
      (payments s @ [manual_row e u (uuids s (next_uuid s)) iv amount x]) (uuids s (next_uuid s))
      (t\<lparr>events := events s\<rparr>) \<and>
    events t = events s @ paid_event (inv_total iv \<le> inv_paid iv + amount) i"
proof -
  have id: "inv_id iv = i" "iv \<in> set (invoices s)" using find_invoice_Some [OF iv(1)] by simp_all
  have I: "ids_ok s" "paid_ok {} s" "periods_ok s" using ok by (simp_all add: billing_inv_def)
  have old: "paid_sum i (payments s) = inv_paid iv"
    using I(2) id unfolding paid_ok_def by (metis empty_iff)
  have "uuids s (next_uuid s) \<notin> used s" using I(1) by (auto simp: ids_ok_def used_def inj_def)
  then have fresh: "uuids s (next_uuid s) \<notin> pay_id ` set (payments s)" using I(1) by (auto simp: ids_ok_def)
  have can: "can_become i (settled e (inv_paid iv + amount)) s"
    by (rule can_become_live [OF I(3) iv(1)]) (use I(1) iv(2) in \<open>auto simp: ids_ok_def\<close>)
  let ?Q = "\<lambda>y t. now_has s (set_row inv_id i (settled e (inv_paid iv + amount)) (invoices s))
      (payments s @ [manual_row e u (uuids s (next_uuid s)) iv amount x]) (uuids s (next_uuid s)) (t\<lparr>events := events s\<rparr>) \<and>
    events t = events s @ paid_event (inv_total iv \<le> inv_paid iv + amount) i"
  have tx: "wp (manual_payment_tx e u iv amount x) (\<lambda>st. wp (bnd (emit_paid i st) (\<lambda>_. get_invoice i None)) ?Q (\<lambda>_. False)) (\<lambda>_. False) s"
  proof (rule wp_mono [OF manual_tx_run [OF iv(1) fresh old can c rc]])
    fix st t
    assume t: "st = Some (inv_total iv \<le> inv_paid iv + amount) \<and>
      now_has s (set_row inv_id i (settled e (inv_paid iv + amount)) (invoices s))
        (payments s @ [manual_row e u (uuids s (next_uuid s)) iv amount x]) (uuids s (next_uuid s)) t"
    have "find_row inv_id i (set_row inv_id i (settled e (inv_paid iv + amount)) (invoices s)) \<noteq> None"
      using iv(1) by (simp add: find_row_set_row settled_def find_invoice_def)
    with t show "wp (bnd (emit_paid i st) (\<lambda>_. get_invoice i None)) ?Q (\<lambda>_. False) t"
      by (auto simp: wp get_invoice_def find_invoice_def now_has_def)
  qed auto
  have "wp (record_manual_payment e u i x) ?Q (\<lambda>_. False) s"
    using tx iv u amount id
    by (simp add: record_manual_payment_def get_invoice_def [of i "Some u"] assert_condo_management_def wp)
  then show ?thesis by (auto simp: wp_def split: prod.splits sum.splits)
qed

section \<open>Applying credit\<close>

definition credit_row :: "svc_env \<Rightarrow> string \<Rightarrow> invoice \<Rightarrow> money \<Rightarrow> payment" where
  "credit_row e k iv x =
     \<lparr>pay_id = k, pay_invoice = inv_id iv, pay_user = None, pay_amount = x,
      pay_currency = inv_currency iv, pay_status = SUCCEEDED, pay_provider = MANUAL,
      pay_ref = None, pay_paid_at = Some (now e),
      pay_meta = [''method'' \<mapsto> JStr ''PREPAYMENT_APPLIED''], pay_created = now e\<rparr>"

definition all_cash :: "string \<Rightarrow> bdb \<Rightarrow> money" where
  "all_cash condo s = (\<Sum>f \<leftarrow> all_funds. fund_cash condo f s)"

lemma shares_by_fund:
  "(\<Sum>f \<leftarrow> all_funds. sum_where (\<lambda>q. fst q = f) snd qs) = sum_list (map snd qs)"
  for qs :: "(ledger_fund \<times> rat) list"
proof (induction qs)
  case (Cons q qs)
  then show ?case by (cases "fst q") (simp_all add: all_funds_def)
qed (simp add: all_funds_def)

lemma all_cash_paid:
  assumes "ledger_paid s iv k x t" and "no_keys (''payment:'' @ k @ '':'') s" and "whole_sen x"
  shows "all_cash (inv_condo iv) t = all_cash (inv_condo iv) s + x"
  using assms shares_by_fund [of "written_shares x (inv_lines iv)"] written_shares_sum [OF assms(3), of "inv_lines iv"]
  by (simp add: ledger_paid_def all_cash_def all_funds_def)

lemma consume_run:
  assumes "x \<le> credit_of unit s" and "0 < x" and "distinct (map ua_unit (accounts s))"
  shows "\<exists>as. consume_credit unit x s = (Inr (), s\<lparr>accounts := as\<rparr>) \<and>
    (\<forall>u. credit_of u (s\<lparr>accounts := as\<rparr>) = credit_of u s - (if u = unit then x else 0))"
proof -
  obtain a where a: "find_row ua_unit unit (accounts s) = Some a" "x \<le> ua_credit a"
    using assms(1,2) by (auto simp: credit_of_def split: option.splits)
  let ?as = "set_where (\<lambda>a. ua_unit a = unit \<and> ua_credit a \<ge> x)
           (\<lambda>a. a\<lparr>ua_credit := ua_credit a - x\<rparr>) (accounts s)"
  have "count_where (\<lambda>a. ua_unit a = unit \<and> ua_credit a \<ge> x) (accounts s) \<noteq> 0"
    using a find_row_mem [OF a(1)] find_row_key [OF a(1)] by (auto simp: count_where_def filter_empty_conv)
  then have run: "consume_credit unit x s = (Inr (), s\<lparr>accounts := ?as\<rparr>)"
    by (simp add: consume_credit_def act_defs)
  with consume_credit_effect(2) [OF run assms(3)] show ?thesis by blast
qed

lemma credit_entry_effect:
  assumes "find_entry (ei_key x) s = None" and "ei_unit x = Some unit" and "ei_type x = PREPAYMENT_APPLIED"
    and "ei_fund x = GENERAL" and "ei_amount x = - y" and "ei_condo x = condo"
  shows "unit_balance u (snd (append_entry e x s)) = unit_balance u s + (if u = unit then y else 0)"
    and "all_cash condo (snd (append_entry e x s)) = all_cash condo s - y"
  using assms
  by (auto simp: unit_balance_def fund_cash_def ledger_sum_def append_entry_run entry_of_def unit_weight_def
      cash_weight_def all_cash_def all_funds_def)

lemma apply_credit_run:
  assumes iv: "find_invoice i s = Some iv" "inv_status iv \<notin> {VOIDED, PAID}"
    and x: "x = min (credit_of unit s) (outstanding iv)" "1 / 200 < x" "whole_sen x"
    and fresh: "uuids s (next_uuid s) \<notin> pay_id ` set (payments s)"
    and old: "paid_sum i (payments s) = inv_paid iv"
    and can: "can_become i (settled e (inv_paid iv + x)) s"
    and unit: "inv_unit iv = unit" "inv_condo iv = condo" "distinct (map ua_unit (accounts s))"
    and c: "find_row co_id condo (condos s) = Some c"
    and rc: "\<forall>r \<in> set (receipts s). rc_payment r \<noteq> Some (uuids s (next_uuid s))"
    and keys: "no_keys (''payment:'' @ uuids s (next_uuid s) @ '':'') s"
      "no_keys (''invoice:'' @ i @ '':prepayment:'' @ uuids s (next_uuid s)) s"
  shows "\<exists>t. apply_credit_tx e i unit condo s = (Inr (Some (inv_paid iv + x \<ge> inv_total iv)), t) \<and>
    invoices t = set_row inv_id i (settled e (inv_paid iv + x)) (invoices s) \<and>
    payments t = payments s @ [credit_row e (uuids s (next_uuid s)) iv x] \<and>
    (\<forall>u. credit_of u t = credit_of u s - (if u = unit then x else 0)) \<and>
    (\<forall>u. unit_balance u t = unit_balance u s) \<and> all_cash condo t = all_cash condo s"
proof -
  let ?k = "uuids s (next_uuid s)"
  let ?p = "credit_row e ?k iv x"
  let ?s = "s\<lparr>next_uuid := Suc (next_uuid s), payments := payments s @ [?p]\<rparr>"
  let ?e = "\<lparr>ei_condo = condo, ei_unit = Some unit, ei_fund = GENERAL, ei_type = PREPAYMENT_APPLIED,
     ei_amount = - x, ei_key = Some (''invoice:'' @ i @ '':prepayment:'' @ ?k),
     ei_source = ''Invoice'', ei_source_id = Some i, ei_memo = Some ''Prepayment applied'', ei_at = None, ei_by = None\<rparr>"
  let ?Q = "\<lambda>r t. r = Some (inv_paid iv + x \<ge> inv_total iv) \<and>
    invoices t = set_row inv_id i (settled e (inv_paid iv + x)) (invoices s) \<and>
    payments t = payments s @ [?p] \<and>
    (\<forall>u. credit_of u t = credit_of u s - (if u = unit then x else 0)) \<and>
    (\<forall>u. unit_balance u t = unit_balance u s) \<and> all_cash condo t = all_cash condo s"
  have id: "inv_id iv = i" using find_invoice_Some [OF iv(1)] by simp
  have p: "find_payment ?k ?s = Some ?p"
    using fresh find_row_None [of pay_id ?k "payments s"]
    by (simp add: find_payment_def find_row_append credit_row_def)
  have paid: "paid_sum i (payments ?s) = inv_paid iv + x"
    using old id by (simp add: paid_sum_Cons paid_sum_Nil credit_row_def)
  have rest: "wp (bnd (consume_credit unit x) (\<lambda>_. bnd (record_entry e ?e) (\<lambda>_. ret r))) ?Q (\<lambda>_. False) t"
    if r: "r = Some (inv_paid iv + x \<ge> inv_total iv)"
      and t: "now_has ?s (set_row inv_id i (settled e (inv_paid iv + x)) (invoices s)) (payments s @ [?p]) ?k t"
      and l: "ledger_paid ?s iv ?k x t" for r t
  proof -
    have acc: "accounts t = accounts s" "credit_of u t = credit_of u s" for u
      using t by (simp_all add: now_has_def credit_of_def)
    then have "x \<le> credit_of unit t" "0 < x" "distinct (map ua_unit (accounts t))" using x unit(3) by auto
    from consume_run [OF this] obtain as where as: "consume_credit unit x t = (Inr (), t\<lparr>accounts := as\<rparr>)"
      "\<And>u. credit_of u (t\<lparr>accounts := as\<rparr>) = credit_of u s - (if u = unit then x else 0)"
      using acc by auto
    let ?t = "t\<lparr>accounts := as\<rparr>"
    let ?w = "snd (append_entry e ?e ?t)"
    have "find_entry (ei_key ?e) ?t = None"
    proof -
      have "le_key y \<noteq> ei_key ?e" if "y \<in> set (ledger s)" for y
        using that no_keys_find [OF keys(2), of "[]"] by (auto simp: find_entry_None_iff)
      then show ?thesis using l by (auto simp: find_entry_None_iff ledger_paid_def)
    qed
    note new = this and eff = credit_entry_effect [OF this, of unit x condo]
    have nk: "no_keys (''payment:'' @ ?k @ '':'') ?s" using keys(1) by (simp add: no_keys_def)
    have ub: "unit_balance u ?t = unit_balance u s - (if u = unit then x else 0)" for u
      using l nk x(3) unit(1) by (auto simp: ledger_paid_def unit_balance_def ledger_sum_def)
    have "all_cash condo t = all_cash condo ?s + x" using all_cash_paid [OF l nk x(3)] unit(2) by simp
    then have ac: "all_cash condo ?t = all_cash condo s + x"
      by (simp add: all_cash_def fund_cash_def ledger_sum_def)
    have run: "bnd (consume_credit unit x) (\<lambda>_. bnd (record_entry e ?e) (\<lambda>_. ret r)) t = (Inr r, ?w)"
      using as(1) record_entry_new [OF new] by (simp add: bnd_def ret_def append_entry_run)
    have "?Q r ?w"
    proof (intro conjI allI)
      show "credit_of u ?w = credit_of u s - (if u = unit then x else 0)" for u
        using as(2) [of u] by (simp add: append_entry_run credit_of_def)
      show "unit_balance u ?w = unit_balance u s" for u
        using eff(1) [of u] ub [of u] by simp
      show "all_cash condo ?w = all_cash condo s" using eff(2) ac by simp
    qed (use r t in \<open>simp_all add: append_entry_run now_has_def\<close>)
    with run show ?thesis by (simp add: wp_def)
  qed
  have set: "wp (settle_invoice e i None ?k r')
      (\<lambda>r. wp (bnd (consume_credit unit x) (\<lambda>_. bnd (record_entry e ?e) (\<lambda>_. ret r))) ?Q (\<lambda>_. False)) (\<lambda>_. False) ?s" for r'
  proof (rule wp_settle [where iv = iv and c = c and p = ?p and paid = "inv_paid iv + x"])
    show "wp (bnd (consume_credit unit x) (\<lambda>_. bnd (record_entry e ?e) (\<lambda>_. ret (Some (inv_total iv \<le> inv_paid iv + x))))) ?Q (\<lambda>_. False) t"
      if "now_has ?s (set_row inv_id i (settled e (inv_paid iv + x)) (invoices ?s)) (payments ?s) ?k t"
        "ledger_paid ?s iv ?k (pay_amount ?p) t" for t
      by (rule rest) (use that in \<open>simp_all add: credit_row_def\<close>)
  qed (use iv paid can p c rc unit in \<open>simp_all add: find_invoice_def can_become_def\<close>)
  have nx: "min (credit_of unit s) (outstanding iv) = x" "\<not> credit_of unit s \<le> 1 / 200" "\<not> x \<le> 1 / 200"
    using x(1,2) by auto
  have "wp (apply_credit_tx e i unit condo) ?Q (\<lambda>_. False) s"
    using iv set [of "''prepay_'' @ ?k"] id nx
    by (simp add: apply_credit_tx_def Let_def insert_payment_def wp_new_id_eq wp credit_row_def)
  then show ?thesis by (auto simp: wp_def split: prod.splits sum.splits)
qed

end
