(* ===== verification/Booking_Money.thy ===== *)
theory Booking_Money
  imports Booking_Properties Settlement
begin

text \<open>
  The money of the bookings: what a cancellation gives back, the fee invoices that the billing
  service refuses, and the slots that are offered.
\<close>

section \<open>What the parts of a cancellation do\<close>

lemma keeps_deposits [keep]:
  "keeps deposits (issue_receipt e x)" "keeps deposits (record_entry e y)"
  "keeps deposits (reverse_invoice_charges e iv a r)" "keeps deposits (update_invoice i f)"
  unfolding record_entry_def append_entry_def reverse_invoice_charges_def update_invoice_def
  by (intro keep keeps_modify; simp)+

lemma keeps_deposits_void [keep]: "keeps deposits (void_unpaid_invoice_in_tx e i a r)"
  unfolding void_unpaid_invoice_in_tx_def by (intro keep)

lemma keeps_invoices [keep]: "keeps frame m \<Longrightarrow> keeps invoices m"
  by (rule keepsI) (use keepsD [of frame m] in \<open>simp add: frame_def\<close>)

lemma pay_out_deposits: "keeps deposits (pay_out e d x y a)"
  unfolding pay_out_def by (intro keep)

lemma wp_keeps: "keeps f m \<Longrightarrow> (\<And>x t. f t = f s \<Longrightarrow> Q x t) \<Longrightarrow> wp m Q (\<lambda>_. True) s"
  using keeps_run [of f m s] by (auto simp: wp_def split: prod.split sum.split)

text \<open>The deposit after a refund of all that it holds, and the fee invoice after a cancellation.\<close>

definition paid_back :: "svc_env \<Rightarrow> deposit \<Rightarrow> deposit" where
  "paid_back e d =
     (if deposit_held d \<le> 1 / 200 then d
      else d\<lparr>dep_refunded := dep_refunded d + deposit_held d, dep_status := REFUNDED, dep_refunded_at := Some (now e)\<rparr>)"

definition void_unless_paid :: "svc_env \<Rightarrow> invoice \<Rightarrow> invoice" where
  "void_unless_paid e iv =
     (if inv_status iv = VOIDED \<or> inv_paid iv > 1 / 200 \<or> inv_status iv = PAID then iv else voided_row e iv)"

text \<open>
  The money of \<open>d\<close> has gone out: one more receipt, for a refund of the amount, and an entry under the
  refund's key, which, unless the key was there before, takes the amount from the deposits' fund.
\<close>

definition refund_key :: "svc_env \<Rightarrow> deposit \<Rightarrow> string" where
  "refund_key e d = ''deposit:'' @ dep_id d @ '':refund:'' @ num_text e (dep_refunded d + deposit_held d)"

definition paid_out :: "svc_env \<Rightarrow> deposit \<Rightarrow> bdb \<Rightarrow> bdb \<Rightarrow> bool" where
  "paid_out e d s t \<longleftrightarrow>
     (\<exists>r. receipts t = receipts s @ [r] \<and> rc_kind r = REFUND_RECEIPT \<and> rc_amount r = deposit_held d) \<and>
     (find_entry (Some (refund_key e d)) s = None \<longrightarrow>
      (\<exists>l \<in> set (ledger t). le_key l = Some (refund_key e d) \<and> le_type l = REFUND_ENTRY \<and> le_amount l = - deposit_held d \<and>
         le_fund l = DEPOSIT_FUND \<and> le_condo l = dep_condo d \<and> le_unit l = Some (dep_unit d)))"

text \<open>Entries are only ever added.\<close>

definition entries_kept :: "bdb \<Rightarrow> bdb \<Rightarrow> bool" where
  "entries_kept s t \<longleftrightarrow> set (ledger s) \<subseteq> set (ledger t) \<and> receipts t = receipts s \<and> deposits t = deposits s"

lemma entries_kept_keeps: "keeps (\<lambda>t. (ledger t, receipts t, deposits t)) m \<Longrightarrow> preserves (entries_kept s) m"
proof (rule preservesI)
  fix t assume k: "keeps (\<lambda>t. (ledger t, receipts t, deposits t)) m" and t: "entries_kept s t"
  from keepsD [OF k, of t] t show "entries_kept s (snd (m t))" by (simp add: entries_kept_def)
qed

lemma entries_kept_record [pres]: "preserves (entries_kept s) (record_entry e x)"
proof -
  have "preserves (entries_kept s) (append_entry e x)"
    by (rule preservesI) (auto simp: append_entry_run entries_kept_def)
  then show ?thesis unfolding record_entry_def by (intro pres)
qed

lemma entries_kept_void [pres]: "preserves (entries_kept s) (void_unpaid_invoice_in_tx e i a r)"
  unfolding void_unpaid_invoice_in_tx_def reverse_invoice_charges_def update_invoice_def
  by (intro pres preserves_modify; simp add: entries_kept_def)

lemma entries_kept_trans: "entries_kept s t \<Longrightarrow> entries_kept t w \<Longrightarrow> entries_kept s w"
  by (auto simp: entries_kept_def)

lemma paid_out_kept: "paid_out e d s t \<Longrightarrow> entries_kept t w \<Longrightarrow> paid_out e d s w"
  by (auto simp: paid_out_def entries_kept_def)

lemma pay_out_post:
  assumes "pay_out e d (deposit_held d) (dep_refunded d + deposit_held d) a s = (Inr x, t)"
  shows "paid_out e d s t \<and> deposits t = deposits s \<and> invoices t = invoices s"
proof (cases "find_row co_id (dep_condo d) (condos s)")
  case None
  then show ?thesis using assms by (simp add: pay_out_def issue_receipt_def deposit_receipt_def act_defs)
next
  case (Some c)
  let ?y = "dep_refunded d + deposit_held d"
  have key: "Some (dkey (dep_id d) (''refund:'' @ num_text e ?y)) = Some (refund_key e d)"
    by (simp add: dkey_def refund_key_def)
  show ?thesis
  proof (cases "find_entry (Some (refund_key e d)) s")
    case None
    from pay_out_run [OF Some, of e ?y, unfolded key, OF None, where x = "deposit_held d" and actor = a] assms None
    show ?thesis by (auto simp: paid_out_def)
  next
    case (Some l)
    from pay_out_again [OF \<open>find_row co_id (dep_condo d) (condos s) = Some c\<close>, of e ?y, unfolded key, OF Some,
        where x = "deposit_held d" and actor = a] assms Some
    show ?thesis by (auto simp: paid_out_def)
  qed
qed

text \<open>What a refund in a transaction does to the tables.\<close>

definition refund_done :: "svc_env \<Rightarrow> string \<Rightarrow> bdb \<Rightarrow> bdb \<Rightarrow> bool" where
  "refund_done e j s t \<longleftrightarrow> invoices t = invoices s \<and>
     (\<forall>k. find_deposit k t = (if k = j then map_option (paid_back e) (find_deposit k s) else find_deposit k s)) \<and>
     (\<forall>d. find_deposit j s = Some d \<and> 1 / 200 < deposit_held d \<longrightarrow> paid_out e d s t)"

lemma refund_post: "refund_held_in_tx e j a s = (Inr x, t) \<Longrightarrow> refund_done e j s t"
proof (cases "find_deposit j s")
  case None
  then show "refund_held_in_tx e j a s = (Inr x, t) \<Longrightarrow> ?thesis" by (auto simp: refund_held_in_tx_def act_defs refund_done_def)
next
  case (Some d)
  assume run: "refund_held_in_tx e j a s = (Inr x, t)"
  show ?thesis
  proof (cases "deposit_held d \<le> 1 / 200")
    case True
    with Some run have "t = s" by (simp add: refund_held_in_tx_def act_defs)
    with Some True show ?thesis by (simp add: refund_done_def paid_back_def)
  next
    case False
    let ?f = "\<lambda>x. x\<lparr>dep_refunded := dep_refunded d + deposit_held d, dep_status := REFUNDED, dep_refunded_at := Some (now e)\<rparr>"
    let ?s = "s\<lparr>deposits := set_row dep_id j ?f (deposits s)\<rparr>"
    obtain y where "pay_out e d (deposit_held d) (dep_refunded d + deposit_held d) a ?s = (Inr y, t)"
      using run Some False
      by (simp add: refund_held_in_tx_def runs update_deposit_def) (elim bnd_InrE, simp add: ret_run)
    from pay_out_post [OF this] have p: "paid_out e d ?s t" "deposits t = deposits ?s" "invoices t = invoices s" by auto
    have "find_deposit k t = (if k = j then map_option (paid_back e) (find_deposit k s) else find_deposit k s)" for k
    proof -
      have "find_deposit k t = (if j = k then map_option ?f (find_deposit k s) else find_deposit k s)"
      proof -
      have "deposits t = set_row dep_id j ?f (deposits s)" using p(2) by simp
      then show ?thesis unfolding find_deposit_def by (simp only:) (rule find_row_changed, simp)
    qed
      then show ?thesis using Some False by (auto simp: paid_back_def)
    qed
    moreover have "paid_out e d s t" using p(1) by (simp add: paid_out_def find_entry_def)
    ultimately show ?thesis using Some p(3) by (simp add: refund_done_def)
  qed
qed

definition void_done :: "svc_env \<Rightarrow> string \<Rightarrow> bdb \<Rightarrow> bdb \<Rightarrow> bool" where
  "void_done e j s t \<longleftrightarrow> entries_kept s t \<and>
     (\<forall>k. find_invoice k t = (if k = j then map_option (void_unless_paid e) (find_invoice k s) else find_invoice k s))"

lemma void_post: "void_unpaid_invoice_in_tx e j a r s = (Inr x, t) \<Longrightarrow> void_done e j s t"
proof (cases "find_invoice j s")
  case None
  then show "void_unpaid_invoice_in_tx e j a r s = (Inr x, t) \<Longrightarrow> ?thesis"
    by (auto simp: void_unpaid_invoice_in_tx_def act_defs void_done_def entries_kept_def)
next
  case (Some iv)
  assume run: "void_unpaid_invoice_in_tx e j a r s = (Inr x, t)"
  have kept: "entries_kept s t"
    by (rule preservesD [OF entries_kept_void _ run]) (simp add: entries_kept_def)
  show ?thesis
  proof (cases "inv_status iv = VOIDED \<or> inv_paid iv > 1 / 200 \<or> inv_status iv = PAID")
    case True
    with Some run have "t = s" by (auto simp: void_unpaid_invoice_in_tx_def act_defs split: if_splits)
    with Some True kept show ?thesis by (auto simp: void_done_def void_unless_paid_def)
  next
    case False
    obtain y w z where rev: "reverse_invoice_charges e (void_ref iv) a r s = (Inr y, w)"
      and upd: "update_invoice j (voided_row e) w = (Inr z, t)"
      using run Some False by (auto simp: void_unpaid_invoice_in_tx_def runs elim!: bnd_InrE simp: ret_run)
    have inv: "invoices w = invoices s" using keeps_run [OF keeps_invoices [OF frame_reverse] rev] .
    have "invoices t = set_row inv_id j (voided_row e) (invoices w)"
      using upd by (auto simp: update_invoice_def act_defs split: if_splits)
    then have "find_invoice k t = (if j = k then map_option (voided_row e) (find_invoice k s) else find_invoice k s)" for k
      unfolding find_invoice_def inv by (simp only:) (rule find_row_changed, simp add: voided_row_def)
    then show ?thesis using Some False kept by (auto simp: void_done_def void_unless_paid_def)
  qed
qed

text \<open>The booking after its cancellation.\<close>

definition cancelled_booking :: "booking_env \<Rightarrow> string option \<Rightarrow> booking \<Rightarrow> booking" where
  "cancelled_booking e reason b =
     b\<lparr>bk_status := BK_CANCELLED, bk_cancelled_at := Some (be_now e), bk_notes := with_note ''Cancelled'' reason (bk_notes b)\<rparr>"

lemma on_billing_Inr:
  assumes "on_billing m s = (Inr x, t)"
  shows "m (db_of s) = (Inr x, db_of t) \<and> fd_bookings t = fd_bookings s"
  using assms by (auto simp: on_part_def db_of_def split: prod.splits)

lemma log_booking_Inr:
  assumes "log_booking b u a m s = (Inr x, t)"
  shows "fd_bookings t = fd_bookings s \<and> (\<exists>as. db_of t = db_of s\<lparr>audit := as\<rparr>)"
proof -
  note r = on_billing_Inr [OF assms [unfolded log_booking_def]]
  then have "db_of t = db_of s\<lparr>audit := audit (db_of t)\<rparr>" by (auto simp: log_audit_def modify_def dest!: sym [of _ "db_of t"])
  with r show ?thesis by blast
qed

text \<open>What the transaction of a cancellation has done when it commits.\<close>

lemma cancel_tx_post:
  assumes run: "cancel_booking_tx e u b reason s = (Inr x, t)" and b: "find_booking i s = Some b"
  shows "find_booking i t = Some (cancelled_booking e reason b) \<and>
    (\<exists>m. (if truthy (bk_deposit b) then refund_done (be_svc e) (the (bk_deposit b)) (db_of s) m else m = db_of s) \<and>
     (\<exists>n as. (if truthy (bk_invoice b) then void_done (be_svc e) (the (bk_invoice b)) m n else n = m) \<and> db_of t = n\<lparr>audit := as\<rparr>))"
proof -
  let ?g = "\<lambda>x. x\<lparr>bk_status := BK_CANCELLED, bk_cancelled_at := Some (be_now e),
      bk_notes := with_note ''Cancelled'' reason (bk_notes b)\<rparr>"
  let ?s = "s\<lparr>fd_bookings := set_row bk_id (bk_id b) ?g (fd_bookings s)\<rparr>"
  have id: "bk_id b = i" using find_booking_Some [OF b] by simp
  obtain y v z w where dep: "(if truthy (bk_deposit b) then
        bnd (on_billing (refund_held_in_tx (be_svc e) (given_or (bk_deposit b) []) (Some (user_id u)))) (\<lambda>_. ret ())
      else ret ()) ?s = (Inr y, v)"
    and inv: "(if truthy (bk_invoice b) then
        bnd (on_billing (void_unpaid_invoice_in_tx (be_svc e) (given_or (bk_invoice b) []) (Some (user_id u)) (Some ''Booking cancelled''))) (\<lambda>_. ret ())
      else ret ()) v = (Inr z, w)"
    and log: "log_booking b u AUDIT_UPDATE [''status'' \<mapsto> JStr ''CANCELLED'', ''reason'' \<mapsto> opt_text reason,
        ''byManagement'' \<mapsto> JBool (bk_user b \<noteq> user_id u)] w = (Inr x, t)"
    using run unfolding cancel_booking_tx_def set_booking_def bnd_modify by (elim bnd_InrE) blast
  have base: "db_of ?s = db_of s" by (simp add: db_of_def)
  have the: "given_or y [] = the y" if "truthy y" for y :: "string option"
    using that by (auto simp: truthy_def given_or_def)
  have d: "fd_bookings v = fd_bookings ?s \<and>
      (if truthy (bk_deposit b) then refund_done (be_svc e) (the (bk_deposit b)) (db_of s) (db_of v) else db_of v = db_of s)"
  proof (cases "truthy (bk_deposit b)")
    case True
    then obtain a where "on_billing (refund_held_in_tx (be_svc e) (the (bk_deposit b)) (Some (user_id u))) ?s = (Inr a, v)"
      using dep the by (auto elim!: bnd_InrE simp: ret_run)
    from on_billing_Inr [OF this] refund_post True show ?thesis unfolding base by auto
  qed (use dep base in \<open>simp add: ret_run\<close>)
  have n: "fd_bookings w = fd_bookings v \<and>
      (if truthy (bk_invoice b) then void_done (be_svc e) (the (bk_invoice b)) (db_of v) (db_of w) else db_of w = db_of v)"
  proof (cases "truthy (bk_invoice b)")
    case True
    then obtain a where "on_billing (void_unpaid_invoice_in_tx (be_svc e) (the (bk_invoice b)) (Some (user_id u))
        (Some ''Booking cancelled'')) v = (Inr a, w)"
      using inv the by (auto elim!: bnd_InrE simp: ret_run)
    from on_billing_Inr [OF this] void_post True show ?thesis by auto
  qed (use inv in \<open>simp add: ret_run\<close>)
  note l = log_booking_Inr [OF log]
  have "find_booking i t = Some (cancelled_booking e reason b)"
    using b id d n l find_row_changed [where key = bk_id and f = ?g and j = i and k = i and t = "fd_bookings s"]
    by (simp add: find_booking_def cancelled_booking_def)
  with d n l show ?thesis by blast
qed

text \<open>
  C21. A cancellation gives back what it should and nothing else. The booking is CANCELLED; of the
  deposits only its own changes: what it still holds counts as refunded (not as forfeited), a refund
  receipt of the amount is issued and the ledger pays it out of the deposits' fund; of the invoices
  only its fee invoice changes, which is voided unless it is paid or something has been paid on it.
\<close>

theorem cancellation_releases_money:
  assumes "cancel_booking e u i reason s = (Inr b, t)" and "find_booking i s = Some b0"
  shows "b = cancelled_booking e reason b0 \<and>
    (\<forall>k. find_deposit k (db_of t) =
       (if bk_deposit b0 = Some k \<and> k \<noteq> [] then map_option (paid_back (be_svc e)) (find_deposit k (db_of s))
        else find_deposit k (db_of s))) \<and>
    (\<forall>k d. bk_deposit b0 = Some k \<and> k \<noteq> [] \<and> find_deposit k (db_of s) = Some d \<and> 1 / 200 < deposit_held d \<longrightarrow>
       paid_out (be_svc e) d (db_of s) (db_of t)) \<and>
    (\<forall>k. find_invoice k (db_of t) =
       (if bk_invoice b0 = Some k \<and> k \<noteq> [] then map_option (void_unless_paid (be_svc e)) (find_invoice k (db_of s))
        else find_invoice k (db_of s)))"
proof -
  obtain t' where tx: "cancel_booking_tx e u b0 reason s = (Inr (), t')"
      and get: "get_booking u i (t'\<lparr>fd_events := fd_events t' @ [BookingCancelled i (bk_user b0) (bk_user b0 \<noteq> user_id u) (user_id u)]\<rparr>) = (Inr b, t)"
    using assms by (auto simp: cancel_booking_def runs emit_booking_def split: if_splits elim!: bnd_InrE simp: txn_Inr_iff modify_run)
  have b: "find_booking i t' = Some b" "db_of t = db_of t'"
    using get by (auto simp: get_booking_def runs find_booking_def db_of_def ret_def split: option.splits if_splits)
  from cancel_tx_post [OF tx assms(2)] obtain m n as where
    p: "find_booking i t' = Some (cancelled_booking e reason b0)"
      "if truthy (bk_deposit b0) then refund_done (be_svc e) (the (bk_deposit b0)) (db_of s) m else m = db_of s"
      "if truthy (bk_invoice b0) then void_done (be_svc e) (the (bk_invoice b0)) m n else n = m"
      "db_of t' = n\<lparr>audit := as\<rparr>" by blast
  have fields: "deposits (db_of t) = deposits n" "invoices (db_of t) = invoices n" "ledger (db_of t) = ledger n"
    "receipts (db_of t) = receipts n" using b(2) p(4) by simp_all
  have kept: "entries_kept m (db_of t)"
    using p(3) fields by (auto simp: void_done_def entries_kept_def split: if_splits)
  have dep: "find_deposit k (db_of t) = find_deposit k m" for k using kept by (simp add: entries_kept_def find_deposit_def)
  have inv: "find_invoice k (db_of t) = find_invoice k n" for k using fields by (simp add: find_invoice_def)
  have tr: "truthy x \<longleftrightarrow> (\<exists>k. x = Some k \<and> k \<noteq> [])" for x by (auto simp: truthy_def)
  have "find_deposit k (db_of t) = (if bk_deposit b0 = Some k \<and> k \<noteq> []
      then map_option (paid_back (be_svc e)) (find_deposit k (db_of s)) else find_deposit k (db_of s))" for k
    unfolding dep using p(2) by (auto simp: tr refund_done_def split: if_splits)
  moreover have "paid_out (be_svc e) d (db_of s) (db_of t)"
    if "bk_deposit b0 = Some k" "k \<noteq> []" "find_deposit k (db_of s) = Some d" "1 / 200 < deposit_held d" for k d
    using p(2) that by (intro paid_out_kept [OF _ kept]) (simp add: tr refund_done_def)
  moreover have "find_invoice k (db_of t) = (if bk_invoice b0 = Some k \<and> k \<noteq> []
      then map_option (void_unless_paid (be_svc e)) (find_invoice k (db_of s)) else find_invoice k (db_of s))" for k
  proof -
    have m: "find_invoice k m = find_invoice k (db_of s)" for k
      using p(2) by (auto simp: refund_done_def find_invoice_def split: if_splits)
    show ?thesis unfolding inv using p(3) m by (auto simp: tr void_done_def split: if_splits)
  qed
  ultimately show ?thesis using b(1) p(1) by auto
qed

definition sample_booking :: booking where
  "sample_booking = (new_booking ''b'' sample_hall_row sample_admin (hall_request 9 10 []))
     \<lparr>bk_deposit := Some ''d'', bk_invoice := Some ''i''\<rparr>"

definition sample_held_deposit :: deposit where
  "sample_held_deposit = new_deposit sample_env ''d'' ''c'' sample_deposit None JNull"

text \<open>A confirmed booking with a deposit of 100 and an unpaid fee invoice of 80.\<close>

definition sample_booked :: facility_db where
  "sample_booked = sample_site\<lparr>fd_access := (fd_access sample_site)\<lparr>ad_base := sample_start\<lparr>deposits := [sample_held_deposit],
       invoices := [sample_invoice ''i'' ISSUED 80 0 0]\<rparr>\<rparr>, fd_bookings := [sample_booking]\<rparr>"

lemma sample_booking_fields:
  "bk_id sample_booking = ''b''" "bk_user sample_booking = user_id sample_admin" "bk_status sample_booking = BK_CONFIRMED"
  "bk_deposit sample_booking = Some ''d''" "bk_invoice sample_booking = Some ''i''"
  by (simp_all add: sample_booking_def new_booking_def sample_hall_fields)

lemma sample_held_fields:
  "dep_id sample_held_deposit = ''d''" "dep_condo sample_held_deposit = ''c''" "dep_amount sample_held_deposit = 100"
  "dep_refunded sample_held_deposit = 0" "dep_forfeited sample_held_deposit = 0" "deposit_held sample_held_deposit = 100"
  by (simp_all add: sample_held_deposit_def new_deposit_def sample_deposit_def deposit_held_def)

lemma sample_booked_fields:
  "find_booking ''b'' sample_booked = Some sample_booking" "find_deposit ''d'' (db_of sample_booked) = Some sample_held_deposit"
  "find_invoice ''i'' (db_of sample_booked) = Some (sample_invoice ''i'' ISSUED 80 0 0)" "ledger (db_of sample_booked) = []"
  "condos (db_of sample_booked) = condos sample_start" "fd_bookings sample_booked = [sample_booking]"
  "invoices (db_of sample_booked) = [sample_invoice ''i'' ISSUED 80 0 0]"
  by (simp_all add: find_booking_def find_deposit_def find_invoice_def find_row_def sample_booked_def sample_booking_fields
      db_of_def sample_held_fields sample_start_def sample_invoice_def)

lemma sample_refund_runs:
  assumes "s = db_of sample_booked"
  shows "\<exists>w. refund_held_in_tx sample_env ''d'' a s = (Inr 100, w) \<and> invoices w = invoices s \<and> charges_of ''i'' w = []"
proof -
  let ?d = sample_held_deposit
  let ?s = "s\<lparr>deposits := set_row dep_id ''d'' (\<lambda>x. x\<lparr>dep_refunded := dep_refunded ?d + deposit_held ?d,
      dep_status := REFUNDED, dep_refunded_at := Some (now sample_env)\<rparr>) (deposits s)\<rparr>"
  obtain c where c: "find_row co_id (dep_condo ?d) (condos ?s) = Some c"
    using assms by (simp add: sample_held_fields sample_booked_fields sample_start_def find_row_def)
  have k: "find_entry (Some k) ?s = None" for k :: string
    using assms by (simp add: sample_booked_fields find_entry_def)
  obtain r q l where w: "pay_out sample_env ?d (deposit_held ?d) (dep_refunded ?d + deposit_held ?d) a ?s =
      (Inr (), ?s\<lparr>sequences := q, next_uuid := Suc (Suc (next_uuid ?s)), receipts := receipts ?s @ [r], ledger := ledger ?s @ [l]\<rparr>)"
      "le_type l = REFUND_ENTRY"
    using pay_out_run [OF c k, of sample_env] by blast
  then show ?thesis
    using assms sample_booked_fields(2,4) sample_held_fields
    by (simp add: refund_held_in_tx_def runs update_deposit_def ret_run bnd_Inr charges_of_def)
qed

lemma sample_void_runs:
  assumes "invoices w = invoices (db_of sample_booked)" and "charges_of ''i'' w = []"
  shows "\<exists>v. void_unpaid_invoice_in_tx e ''i'' a r w = (Inr True, v)"
  using assms sample_booked_fields(7)
  by (simp add: void_unpaid_invoice_in_tx_def reverse_invoice_charges_def runs find_invoice_def find_row_def sample_invoice_def
      void_ref_def ref_of_def update_invoice_def voided_row_def ret_run)

theorem cancellation_releases_money_witness:
  "\<exists>b t d iv. cancel_booking sample_booking_env sample_admin ''b'' None sample_booked = (Inr b, t) \<and>
     bk_status b = BK_CANCELLED \<and>
     find_deposit ''d'' (db_of t) = Some d \<and> dep_refunded d = 100 \<and> dep_forfeited d = 0 \<and> dep_status d = REFUNDED \<and>
     (\<exists>r. receipts (db_of t) = [r] \<and> rc_kind r = REFUND_RECEIPT \<and> rc_amount r = 100) \<and>
     (\<exists>l \<in> set (ledger (db_of t)). le_fund l = DEPOSIT_FUND \<and> le_amount l = - 100) \<and>
     find_invoice ''i'' (db_of t) = Some iv \<and> inv_status iv = VOIDED"
proof -
  let ?b = sample_booking and ?s = sample_booked
  have env: "be_svc sample_booking_env = sample_env" by (simp add: sample_booking_env_def)
  obtain w where w: "refund_held_in_tx sample_env ''d'' (Some (user_id sample_admin)) (db_of ?s) = (Inr 100, w)"
      "invoices w = invoices (db_of ?s)" "charges_of ''i'' w = []"
    using sample_refund_runs by blast
  obtain v where v: "void_unpaid_invoice_in_tx sample_env ''i'' (Some (user_id sample_admin)) (Some ''Booking cancelled'') w = (Inr True, v)"
    using sample_void_runs [OF w(2,3)] by blast
  let ?g = "\<lambda>x. x\<lparr>bk_status := BK_CANCELLED, bk_cancelled_at := Some (be_now sample_booking_env),
      bk_notes := with_note ''Cancelled'' None (bk_notes ?b)\<rparr>"
  have "\<exists>t. cancel_booking_tx sample_booking_env sample_admin ?b None ?s = (Inr (), t) \<and> fd_bookings t = [?g ?b]"
    using w(1) v by (simp add: cancel_booking_tx_def set_booking_def runs sample_booking_fields truthy_def given_or_def env
        bnd_def on_part_def db_of_def sample_booked_def ret_def log_booking_def log_audit_def modify_def set_row_def set_where_def)
  then obtain t where t: "cancel_booking_tx sample_booking_env sample_admin ?b None ?s = (Inr (), t)" "fd_bookings t = [?g ?b]"
    by blast
  have txn: "bnd (txn (cancel_booking_tx sample_booking_env sample_admin ?b None)) k ?s = k () t"
    for k :: "unit \<Rightarrow> booking fsvc" by (simp add: bnd_def txn_def t(1))
  have "\<exists>b t. cancel_booking sample_booking_env sample_admin ''b'' None ?s = (Inr b, t)"
    unfolding cancel_booking_def bnd_gets sample_booked_fields bnd_need option.case
    using t(2) by (simp add: runs sample_booking_fields txn emit_booking_def get_booking_def find_booking_def
        find_row_def ret_run)
  then obtain b t where run: "cancel_booking sample_booking_env sample_admin ''b'' None ?s = (Inr b, t)" by blast
  note C = cancellation_releases_money [OF run sample_booked_fields(1), unfolded sample_booking_fields env]
  have "bk_status b = BK_CANCELLED" using C by (simp add: cancelled_booking_def)
  moreover have "find_deposit ''d'' (db_of t) = Some (paid_back sample_env sample_held_deposit)"
    using C sample_booked_fields(2) by simp
  moreover have "paid_out sample_env sample_held_deposit (db_of ?s) (db_of t)"
    using C sample_booked_fields(2) sample_held_fields(6) by simp
  moreover have "receipts (db_of ?s) = []" by (simp add: sample_booked_def db_of_def sample_start_def)
  moreover have "find_entry k (db_of ?s) = None" for k by (simp add: find_entry_def sample_booked_fields(4))
  moreover have "find_invoice ''i'' (db_of t) = Some (void_unless_paid sample_env (sample_invoice ''i'' ISSUED 80 0 0))"
    using C sample_booked_fields(3) by simp
  ultimately show ?thesis
    using run sample_held_fields
    by (force simp: paid_back_def paid_out_def void_unless_paid_def voided_row_def sample_invoice_def)
qed

section \<open>Fee invoices\<close>

lemma second_invoice_refused:
  assumes "iv \<in> set (invoices s)" and "inv_unit iv = unit" and "inv_period_start iv = start" and "inv_status iv \<noteq> VOIDED"
  shows "\<exists>t. create_invoice_in_tx e condo unit due (Some start) z ls actor m s =
    (Inl (UniqueViolation ''invoices_unitId_periodStart_active_key''), t)"
proof -
  obtain n q where n: "next_invoice_number e condo s = (Inr n, s\<lparr>sequences := q\<rparr>)" "n \<notin> set (invoice_numbers condo s)"
    using next_invoice_number_run by blast
  from n(2) have "\<forall>x \<in> set (invoices s). \<not> (inv_condo x = condo \<and> inv_number x = n)"
    by (auto simp: invoice_numbers_def)
  moreover have "\<not> (\<forall>x \<in> set (invoices s). \<not> (inv_unit x = unit \<and> inv_period_start x = start \<and> inv_status x \<noteq> VOIDED))"
    using assms by blast
  ultimately show ?thesis
    by (simp add: create_invoice_in_tx_def issue_tx_def bnd_def n(1) new_id_def Let_def insert_invoice_def new_invoice_def
        gets_def ensure_def ret_def throw_def) blast
qed

lemma bnd_new_id: "bnd (on_billing new_id) k s = k (uuids (db_of s) (next_uuid (db_of s)))
    (s\<lparr>fd_access := (fd_access s)\<lparr>ad_base := (db_of s)\<lparr>next_uuid := Suc (next_uuid (db_of s))\<rparr>\<rparr>\<rparr>)"
  by (simp add: bnd_def on_part_def new_id_def db_of_def)

lemma on_billing_Inl: "\<exists>t. m (db_of s) = (Inl err, t) \<Longrightarrow> \<exists>t. on_billing m s = (Inl err, t)"
  by (auto simp: on_part_def db_of_def)

text \<open>
  A unit that has a live invoice for the period that begins when the booking begins cannot
  book a facility with a fee for that time: the fee invoice breaks the index on the unit's active
  periods, and the request fails. Two paid facilities at the same hour are such a case.
\<close>

theorem fee_booking_refused_for_period:
  assumes "fa_fee f = Some fee" and "0 < fee" and "\<not> fa_approval f" and "bi_unit d = Some unit" and "unit \<noteq> []"
    and "iv \<in> set (invoices (db_of s))" and "inv_unit iv = unit" and "inv_period_start iv = bi_start d"
    and "inv_status iv \<noteq> VOIDED" and "overlapping (fa_id f) (bi_start d) (bi_end d) None (fd_bookings s) < fa_max f"
  shows "fst (create_booking_tx e u f d s) = Inl (UniqueViolation ''invoices_unitId_periodStart_active_key'')"
proof -
  let ?b = "new_booking (uuids (db_of s) (next_uuid (db_of s))) f u d"
  let ?s = "s\<lparr>fd_access := (fd_access s)\<lparr>ad_base := (db_of s)\<lparr>next_uuid := Suc (next_uuid (db_of s))\<rparr>\<rparr>,
      fd_bookings := fd_bookings s @ [?b]\<rparr>"
  have iv: "iv \<in> set (invoices (db_of ?s))" using assms(6) by (simp add: db_of_def)
  have b: "bk_start ?b = bi_start d" "bk_unit ?b = Some unit" using assms(4) by (simp_all add: new_booking_def)
  have "\<exists>t. fee_invoice e ?b f u unit fee ?s =
      (Inl (UniqueViolation ''invoices_unitId_periodStart_active_key''), t)"
    unfolding fee_invoice_def b(1)
    by (rule on_billing_Inl, rule second_invoice_refused [OF iv assms(7,8,9)])
  then obtain t where "fee_invoice e ?b f u unit fee ?s =
      (Inl (UniqueViolation ''invoices_unitId_periodStart_active_key''), t)" by blast
  then have "settle_money e ?b f u ?s = (Inl (UniqueViolation ''invoices_unitId_periodStart_active_key''), t)"
    using assms(1,2,5) by (simp add: settle_money_def Let_def given_or_def b(2) runs truthy_def bnd_Inl)
  then show ?thesis
    using assms(3,10)
    by (simp add: create_booking_tx_def assert_no_conflict_def runs bnd_new_id Let_def bnd_Inl)
qed


theorem fee_booking_refused_for_period_witness:
  "fst (create_booking_tx sample_booking_env sample_tenant (sample_hall_row\<lparr>fa_fee := Some 50\<rparr>)
      ((hall_request 9 10 (uuids sample_start 0))\<lparr>bi_unit := Some ''u''\<rparr>)
      (sample_site\<lparr>fd_access := (fd_access sample_site)\<lparr>ad_base := sample_start\<lparr>invoices :=
         [(sample_invoice ''i'' ISSUED 80 0 0)\<lparr>inv_period_start := 9 * 3600000\<rparr>]\<rparr>\<rparr>\<rparr>)) =
   Inl (UniqueViolation ''invoices_unitId_periodStart_active_key'')"
  by (rule fee_booking_refused_for_period [of _ 50 _ "''u''" "(sample_invoice ''i'' ISSUED 80 0 0)\<lparr>inv_period_start := 9 * 3600000\<rparr>"])
     (simp_all add: sample_hall_fields hall_request_def sample_invoice_def db_of_def sample_site_def overlapping_def
        count_where_def)

section \<open>Slots\<close>

lemma slot_starts_bounds:
  "t \<in> set (slot_starts ms z a) \<Longrightarrow> a \<le> t \<and> t + ms \<le> z + 1 \<and> (\<exists>k. t = a + ms * int k)"
proof (induction ms z a rule: slot_starts.induct)
  case (1 ms z a)
  show ?case
  proof (cases "0 < ms \<and> a + ms \<le> z + 1")
    case False
    with 1(2) show ?thesis by (simp add: slot_starts.simps [of ms z a] split: if_splits)
  next
    case True
    then have "t = a \<or> t \<in> set (slot_starts ms z (a + ms))"
      using 1(2) by (simp add: slot_starts.simps [of ms z a])
    then show ?thesis
    proof
      assume "t = a"
      with True show ?thesis by (auto intro: exI [of _ 0])
    next
      assume "t \<in> set (slot_starts ms z (a + ms))"
      with 1(1) True obtain k where "a + ms \<le> t" "t + ms \<le> z + 1" "t = a + ms + ms * int k" by auto
      with True show ?thesis by (auto intro!: exI [of _ "Suc k"] simp: algebra_simps)
    qed
  qed
qed

lemma slot_starts_length: "0 < ms \<Longrightarrow> int (length (slot_starts ms z a)) = max 0 ((z + 1 - a) div ms)"
proof (induction ms z a rule: slot_starts.induct)
  case (1 ms z a)
  show ?case
  proof (cases "a + ms \<le> z + 1")
    case True
    have "(z + 1 - a) div ms = (z + 1 - (a + ms)) div ms + 1"
    proof -
      have eq: "z + 1 - a = (z + 1 - (a + ms)) + ms" by simp
      show ?thesis unfolding eq using 1(2) by (intro div_add_self2) simp
    qed
    moreover have "0 \<le> (z + 1 - (a + ms)) div ms" using True 1(2) by (simp add: pos_imp_zdiv_nonneg_iff)
    ultimately show ?thesis
      using 1 True by (simp add: slot_starts.simps [of ms z a])
  next
    case False
    then have "(z + 1 - a) div ms \<le> (ms - 1) div ms" using 1(2) by (intro zdiv_mono1) auto
    moreover have "(ms - 1) div ms = 0" using 1(2) by (simp add: div_pos_pos_trivial)
    ultimately have "(z + 1 - a) div ms \<le> 0" by simp
    with False 1(2) show ?thesis by (simp add: slot_starts.simps [of ms z a])
  qed
qed

lemma slot_in_day:
  assumes "t \<in> set (slot_starts (m * 60000) z a)" and "a mod 60000 = z mod 60000"
  shows "t + m * 60000 \<le> z"
proof -
  from slot_starts_bounds [OF assms(1)] obtain k where k: "t + m * 60000 \<le> z + 1" "t = a + m * 60000 * int k" by blast
  have "t + m * 60000 \<noteq> z + 1"
  proof
    assume "t + m * 60000 = z + 1"
    then have "a + (m * int k + m) * 60000 = z + 1" using k(2) by (simp add: algebra_simps)
    then have "(z + 1) mod 60000 = (a + (m * int k + m) * 60000) mod 60000" by simp
    also have "\<dots> = a mod 60000" by (rule mod_mult_self1)
    finally have "(z + 1) mod 60000 = z mod 60000" using assms(2) by simp
    then show False unfolding mod_eq_dvd_iff by simp
  qed
  with k(1) show ?thesis by simp
qed

lemma slot_starts_eq: "0 < ms \<Longrightarrow> slot_starts ms z a = map (\<lambda>k. a + ms * int k) [0..<length (slot_starts ms z a)]"
proof (induction ms z a rule: slot_starts.induct)
  case (1 ms z a)
  show ?case
  proof (cases "a + ms \<le> z + 1")
    case True
    let ?n = "length (slot_starts ms z (a + ms))"
    have "slot_starts ms z a = a # map (\<lambda>k. a + ms + ms * int k) [0..<?n]"
      using 1 True by (simp add: slot_starts.simps [of ms z a])
    also have "\<dots> = map (\<lambda>k. a + ms * int k) [0..<Suc ?n]"
      by (simp only: upt_conv_Cons map_Suc_upt [symmetric] zero_less_Suc) (simp add: algebra_simps)
    also have "Suc ?n = length (slot_starts ms z a)" using 1(2) True by (simp add: slot_starts.simps [of ms z a])
    finally show ?thesis .
  next
    case False
    then show ?thesis by (simp add: slot_starts.simps [of ms z a])
  qed
qed

text \<open>
  C22. The slots offered for a day follow one another without a gap from the opening time on, each as
  long as the facility's slot, as many as end by the closing time. Each shows how many live bookings
  overlap it, and is offered as available exactly when the conflict check lets it be booked and it
  began no longer than one slot ago.
\<close>

theorem available_slots_bookable:
  assumes "availability e u i date s = (Inr sls, t)" and "find_facility i s = Some f" and "0 < fa_slot f"
    and "parse_date e date s = (Inr day, s)"
    and "hhmm_to_minutes (fa_open f) = Some op" and "hhmm_to_minutes (fa_close f) = Some cl"
  shows "t = s \<and> int (length sls) = max 0 ((at_minute day cl + 1 - at_minute day op) div (fa_slot f * 60000)) \<and>
    map sl_start sls = map (\<lambda>k. at_minute day op + fa_slot f * 60000 * int k) [0..<length sls] \<and>
    (\<forall>sl \<in> set sls. at_minute day op \<le> sl_start sl \<and> sl_end sl \<le> at_minute day cl \<and>
       sl_end sl = sl_start sl + fa_slot f * 60000 \<and>
       sl_booked sl = overlapping i (sl_start sl) (sl_end sl) None (fd_bookings s) \<and>
       (sl_available sl = (assert_no_conflict f (sl_start sl) (sl_end sl) None s = (Inr (), s) \<and>
          be_now e - fa_slot f * 60000 \<le> sl_start sl)))"
proof -
  let ?a = "at_minute day op" and ?z = "at_minute day cl" and ?ms = "fa_slot f * 60000"
  let ?bs = "filter (\<lambda>b. bk_facility b = i \<and> is_live b \<and> bookings_overlap (bk_start b, bk_end b) (?a, ?z)) (fd_bookings s)"
  have id: "fa_id f = i" using find_facility_Some [OF assms(2)] by simp
  have pd: "bnd (parse_date e date) k s = k day s" for k :: "int \<Rightarrow> slot list fsvc"
    by (simp add: bnd_def assms(4))
  have run: "sls = map (slot_at (be_now e) f ?bs) (slot_starts ?ms ?z ?a)" "t = s"
    using assms(1) unfolding availability_def get_facility_def assert_condo_access_def bnd_bnd bnd_gets assms(2) bnd_need
      option.case bnd_ensure bnd_ret
    by (auto simp: pd assms(5,6) gets_def Let_def split: if_splits)
  have align: "?a mod 60000 = ?z mod 60000"
  proof -
    have "at_minute day m = day + 60000 * m" for m
      unfolding at_minute_def using mult_div_mod_eq [of 60 m] by linarith
    then show ?thesis by simp
  qed
  have slot: "?a \<le> sl_start sl \<and> sl_end sl \<le> ?z \<and> sl_end sl = sl_start sl + ?ms \<and>
      sl_booked sl = overlapping i (sl_start sl) (sl_end sl) None (fd_bookings s) \<and>
      (sl_available sl = (assert_no_conflict f (sl_start sl) (sl_end sl) None s = (Inr (), s) \<and> be_now e - ?ms \<le> sl_start sl))"
    if sl: "sl \<in> set sls" for sl
  proof -
    obtain x where x: "x \<in> set (slot_starts ?ms ?z ?a)" "sl = slot_at (be_now e) f ?bs x" using sl run(1) by auto
    have bd: "?a \<le> x" "x + ?ms \<le> ?z" using slot_starts_bounds [OF x(1)] slot_in_day [OF x(1) align] by auto
    have "count_where (\<lambda>b. bookings_overlap (bk_start b, bk_end b) (x, x + ?ms)) ?bs =
        overlapping i x (x + ?ms) None (fd_bookings s)"
      unfolding overlapping_def count_where_def filter_filter
      by (rule arg_cong [where f = length], rule filter_cong) (use bd in \<open>auto simp: bookings_overlap_def\<close>)
    then show ?thesis
      using bd by (auto simp: x(2) slot_at_def Let_def assert_no_conflict_def id bnd_gets ensure_def ret_def throw_def)
  qed
  have ms: "0 < ?ms" using assms(3) by simp
  have "map sl_start sls = slot_starts ?ms ?z ?a"
    by (simp add: run(1) slot_at_def Let_def o_def)
  then have "map sl_start sls = map (\<lambda>k. ?a + ?ms * int k) [0..<length sls]"
    using slot_starts_eq [OF ms, of ?z ?a] by (simp add: run(1))
  moreover have "int (length sls) = max 0 ((?z + 1 - ?a) div ?ms)"
    using slot_starts_length [OF ms, of ?z ?a] by (simp add: run(1))
  ultimately show ?thesis using slot run(2) by blast
qed

theorem available_slots_bookable_witness:
  "\<exists>sls. availability sample_booking_env sample_admin (uuids sample_start 0) ''2024-02-29'' sample_opened = (Inr sls, sample_opened) \<and>
     length sls = 14 \<and> map sl_start sls = map (\<lambda>k. 1709193600000 + 3600000 * int k) [0..<14] \<and>
     (\<forall>sl \<in> set sls. sl_booked sl = 0)"
proof -
  let ?i = "uuids sample_start 0"
  have op: "hhmm_to_minutes (fa_open sample_hall_row) = Some 480" and cl: "hhmm_to_minutes (fa_close sample_hall_row) = Some 1320"
    and ms: "0 < fa_slot sample_hall_row"
    by (simp_all add: sample_hall_fields)
  have day: "parse_date sample_booking_env ''2024-02-29'' sample_opened = (Inr 1709164800000, sample_opened)"
    by (simp add: parse_date_def digits_at_def digit_val_def ret_def local_date_def full_year_def make_day_def day_from_year_def
        days_before_month_def is_leap_def Let_def sample_booking_env_def)
  have bnd_pd: "bnd (parse_date sample_booking_env ''2024-02-29'') k sample_opened = k 1709164800000 sample_opened"
    for k :: "int \<Rightarrow> slot list fsvc" by (simp add: bnd_def day)
  have "\<exists>sls. availability sample_booking_env sample_admin ?i ''2024-02-29'' sample_opened = (Inr sls, sample_opened)"
    by (simp add: availability_def get_facility_def assert_condo_access_def runs sample_opened_fields sample_hall_fields
        sample_admin_runs bnd_pd gets_run Let_def)
  then obtain sls where run: "availability sample_booking_env sample_admin ?i ''2024-02-29'' sample_opened = (Inr sls, sample_opened)"
    by blast
  from available_slots_bookable [OF run sample_opened_fields(1) ms day op cl] have
    "int (length sls) = 14" "map sl_start sls = map (\<lambda>k. 1709193600000 + 3600000 * int k) [0..<length sls]"
    "\<forall>sl \<in> set sls. sl_booked sl = overlapping ?i (sl_start sl) (sl_end sl) None (fd_bookings sample_opened)"
    by (simp_all add: at_minute_def sample_hall_fields)
  with run show ?thesis by (auto simp: sample_opened_fields overlapping_def count_where_def)
qed

end
