(* ===== verification/Billing_Side.thy ===== *)
theory Billing_Side
  imports Billing_Steps
begin

text \<open>
  The other tables that the billing service writes: the prepayment credit of the units, the
  advance payments, the ledger and the journals. No call overdraws a credit, opens a second
  account for a unit, repeats an idempotency key in the ledger or leaves an unbalanced journal.
\<close>

section \<open>The invariant\<close>

definition credits_ok :: "bdb \<Rightarrow> bool" where
  "credits_ok s \<longleftrightarrow> distinct (map ua_unit (accounts s)) \<and> (\<forall>a \<in> set (accounts s). 0 \<le> ua_credit a) \<and>
     (\<forall>p \<in> set (advances s). 0 \<le> adv_amount p)"

definition keyed :: "ledger_entry list \<Rightarrow> string option list" where
  "keyed ls = filter truthy (map le_key ls)"

definition ledger_keys_ok :: "bdb \<Rightarrow> bool" where
  "ledger_keys_ok s \<longleftrightarrow> distinct (keyed (ledger s))"

definition side_ok :: "bdb \<Rightarrow> bool" where
  "side_ok s \<longleftrightarrow> credits_ok s \<and> ledger_keys_ok s \<and> journals_balanced s"

definition side :: "bdb \<Rightarrow> _" where
  "side s = (accounts s, advances s, ledger s, journals s)"

lemma keeps_side: "keeps side m \<Longrightarrow> preserves side_ok m"
proof (rule preservesI)
  fix s assume k: "keeps side m" and ok: "side_ok s"
  from keepsD [OF k, of s] ok show "side_ok (snd (m s))"
    by (simp add: side_def side_ok_def credits_ok_def ledger_keys_ok_def journals_balanced_def)
qed

section \<open>Writes\<close>

lemma side_rows [keep]:
  "keeps side (insert_invoice iv)" "keeps side (update_invoice i f)" "keeps side (insert_payment p)"
  "keeps side (update_payments c f')"
  unfolding insert_invoice_def update_invoice_def insert_payment_def update_payments_def
  by (intro keep keeps_modify; simp add: side_def)+

lemma side_numbers [keep]:
  "keeps side (next_invoice_number e condo)" "keeps side (next_receipt_number e condo p)"
  "keeps side (issue_receipt e x)" "keeps side (emit v)" "keeps side (log_audit a)" "keeps side new_id"
  "keeps side (emit_paid i b)"
  unfolding emit_paid_def by (intro keep; simp add: side_def)+

lemmas side_quiet [pres] =
  keeps_side [OF side_rows(1)] keeps_side [OF side_rows(2)] keeps_side [OF side_rows(3)]
  keeps_side [OF side_rows(4)] keeps_side [OF side_numbers(1)] keeps_side [OF side_numbers(2)]
  keeps_side [OF side_numbers(3)] keeps_side [OF side_numbers(4)] keeps_side [OF side_numbers(5)]
  keeps_side [OF side_numbers(6)] keeps_side [OF side_numbers(7)]

lemma side_append_entry:
  "\<not> truthy (ei_key x) \<or> find_entry (ei_key x) s = None \<Longrightarrow> side_ok s \<Longrightarrow> side_ok (snd (append_entry e x s))"
  by (auto simp: side_ok_def credits_ok_def ledger_keys_ok_def journals_balanced_def keyed_def append_entry_run
      entry_of_def find_entry_None_iff truthy_def)

lemma side_record_entry [pres]: "preserves side_ok (record_entry e x)"
proof (rule preservesI)
  fix s assume ok: "side_ok s"
  show "side_ok (snd (record_entry e x s))"
  proof (cases "find_entry (if truthy (ei_key x) then ei_key x else None) s")
    case None
    have "\<not> truthy (ei_key x) \<or> find_entry (ei_key x) s = None"
      using None by (auto split: if_splits)
    then show ?thesis using None ok side_append_entry [of x s e]
      by (auto simp: record_entry_def bnd_def gets_def)
  qed (use ok in \<open>simp add: record_entry_def bnd_def gets_def ret_def\<close>)
qed

lemma side_create_entries [pres]: "preserves side_ok (create_entries e xs)"
proof -
  have "preserves side_ok (bnd (gets (find_entry (ei_key x))) (\<lambda>found.
       case found of Some l \<Rightarrow> ret () | None \<Rightarrow> bnd (append_entry e x) (\<lambda>_. ret ())))" for x
  proof (rule preservesI)
    fix s assume ok: "side_ok s"
    show "side_ok (snd (bnd (gets (find_entry (ei_key x))) (\<lambda>found.
       case found of Some l \<Rightarrow> ret () | None \<Rightarrow> bnd (append_entry e x) (\<lambda>_. ret ())) s))"
      using ok side_append_entry [of x s e]
      by (cases "find_entry (ei_key x) s") (auto simp: bnd_def gets_def ret_def append_entry_run)
  qed
  then have "preserves side_ok (for_each xs (\<lambda>x. bnd (gets (find_entry (ei_key x))) (\<lambda>found.
       case found of Some l \<Rightarrow> ret () | None \<Rightarrow> bnd (append_entry e x) (\<lambda>_. ret ()))))"
    by (rule preserves_for_each)
  then show ?thesis unfolding create_entries_def by (rule preserves_bnd) (rule preserves_ret)
qed

lemma preserves_side_ok:
  "preserves journals_balanced m \<Longrightarrow> keeps (\<lambda>s. (accounts s, advances s, ledger s)) m \<Longrightarrow> preserves side_ok m"
proof (rule preservesI)
  fix s assume j: "preserves journals_balanced m" and k: "keeps (\<lambda>s. (accounts s, advances s, ledger s)) m"
    and ok: "side_ok s"
  from keepsD [OF k, of s] ok preserves_snd [OF j, of s] show "side_ok (snd (m s))"
    by (simp add: side_ok_def credits_ok_def ledger_keys_ok_def)
qed

lemma posting_frame:
  "keeps (\<lambda>s. (accounts s, advances s, ledger s)) (post_entry p)"
  unfolding post_entry_def Let_def by (intro keep keeps_modify; simp)

lemma side_postings [pres]:
  "preserves side_ok (post_invoice_charges e i condo n d ls a)"
  "preserves side_ok (post_payment e p condo n al d a)"
proof -
  have "keeps (\<lambda>s. (accounts s, advances s, ledger s)) (post_invoice_charges e i condo n d ls a)"
    unfolding post_invoice_charges_def Let_def by (intro keep posting_frame; simp)
  then show "preserves side_ok (post_invoice_charges e i condo n d ls a)"
    by (rule preserves_side_ok [OF postings_balanced(1)])
  have "keeps (\<lambda>s. (accounts s, advances s, ledger s)) (post_payment e p condo n al d a)"
    unfolding post_payment_def Let_def by (intro keep posting_frame; simp)
  then show "preserves side_ok (post_payment e p condo n al d a)"
    by (rule preserves_side_ok [OF postings_balanced(2)])
qed

lemma side_ledger_ops [pres]:
  "preserves side_ok (record_invoice_charges e iv ls a)"
  "preserves side_ok (reverse_invoice_charges e iv a r)"
  "preserves side_ok (record_payment_allocation e i p x d a)"
  unfolding record_invoice_charges_def reverse_invoice_charges_def record_payment_allocation_def
  by (intro pres)+

text \<open>Credit rises by amounts that are not negative, and falls only where there is enough.\<close>

lemma side_add_credit: "0 \<le> x \<Longrightarrow> preserves side_ok (add_credit condo unit x)"
proof (unfold add_credit_def, rule preserves_modify)
  fix s assume x: "0 \<le> x" and ok: "side_ok s"
  show "side_ok (case find_row ua_unit unit (accounts s) of
       Some a \<Rightarrow> s\<lparr>accounts := set_row ua_unit unit (\<lambda>a. a\<lparr>ua_credit := ua_credit a + x\<rparr>) (accounts s)\<rparr>
     | None \<Rightarrow> s\<lparr>accounts := add_row \<lparr>ua_unit = unit, ua_condo = condo, ua_credit = x\<rparr> (accounts s)\<rparr>)"
  proof (cases "find_row ua_unit unit (accounts s)")
    case None
    then show ?thesis using x ok find_row_None [of ua_unit unit "accounts s"]
      by (auto simp: side_ok_def credits_ok_def ledger_keys_ok_def journals_balanced_def add_row_def)
  next
    case (Some a)
    let ?as = "set_row ua_unit unit (\<lambda>a. a\<lparr>ua_credit := ua_credit a + x\<rparr>) (accounts s)"
    have "map ua_unit ?as = map ua_unit (accounts s)"
      unfolding set_row_def by (rule map_key_set_where) simp
    moreover have "\<forall>a \<in> set ?as. 0 \<le> ua_credit a"
      using x ok by (auto simp: side_ok_def credits_ok_def set_row_def set_where_def)
    ultimately show ?thesis
      using Some ok by (simp add: side_ok_def credits_ok_def ledger_keys_ok_def journals_balanced_def)
  qed
qed

lemma side_consume_credit [pres]: "preserves side_ok (consume_credit unit x)"
  unfolding consume_credit_def
proof (intro pres preserves_modify)
  fix s assume ok: "side_ok s"
  let ?c = "\<lambda>a. ua_unit a = unit \<and> ua_credit a \<ge> x"
  let ?f = "\<lambda>a. a\<lparr>ua_credit := ua_credit a - x\<rparr>"
  have "map ua_unit (set_where ?c ?f (accounts s)) = map ua_unit (accounts s)"
    by (rule map_key_set_where) simp
  moreover have "\<forall>a \<in> set (set_where ?c ?f (accounts s)). 0 \<le> ua_credit a"
    using ok by (auto simp: side_ok_def credits_ok_def set_where_def)
  ultimately show "side_ok (s\<lparr>accounts := set_where ?c ?f (accounts s)\<rparr>)"
    using ok by (simp add: side_ok_def credits_ok_def ledger_keys_ok_def journals_balanced_def)
qed

lemma side_update_advances:
  "(\<And>a. adv_amount (f a) = adv_amount a) \<Longrightarrow> preserves side_ok (update_advances c f)"
  unfolding update_advances_def
  by (intro pres preserves_modify)
     (auto simp: side_ok_def credits_ok_def ledger_keys_ok_def journals_balanced_def set_where_def)

section \<open>The operations\<close>

lemma side_settle [pres]: "preserves side_ok (settle_invoice e i a p r)"
  unfolding settle_invoice_def record_settlement_def by (intro pres)

lemma side_credit_ops [pres]:
  "preserves side_ok (apply_credit_tx e i unit condo)"
  "preserves side_ok (get_credit unit)"
  unfolding apply_credit_tx_def get_credit_def Let_def by (intro pres)+

lemma side_apply_credit [pres]: "preserves side_ok (apply_credit_to_invoice e i unit condo)"
  unfolding apply_credit_to_invoice_def by (intro pres)

lemma side_credit_loop [pres]: "preserves side_ok (apply_credit_loop e unit condo is)"
  by (induction "is") (auto intro!: pres)

lemma side_apply_outstanding [pres]: "preserves side_ok (apply_credit_to_outstanding e unit condo)"
  unfolding apply_credit_to_outstanding_def by (intro pres)

lemma side_issue_tx [pres]: "preserves side_ok (issue_tx e condo unit a b d ls cls m actor)"
  unfolding issue_tx_def Let_def by (intro pres)

lemma side_create [pres]:
  "preserves side_ok (create_invoice e u unit a b d ls)"
  "preserves side_ok (create_invoice_in_tx e condo unit due st en ls actor m)"
  unfolding create_invoice_def create_invoice_in_tx_def by (intro pres)+

lemma side_void [pres]:
  "preserves side_ok (void_invoice e u i reason)"
  "preserves side_ok (void_unpaid_invoice_in_tx e i actor reason)"
  unfolding void_invoice_def void_invoice_tx_def void_unpaid_invoice_in_tx_def by (intro pres)+

lemma side_marks [pres]:
  "preserves side_ok (mark_payment_succeeded e r)" "preserves side_ok (mark_payment_failed g e r st)"
  unfolding mark_payment_succeeded_def succeed_tx_def settle_success_def mark_payment_failed_def
  by (intro pres)+

lemma side_advance_failed [pres]: "preserves side_ok (mark_advance_failed g e r st)"
  unfolding mark_advance_failed_def by (intro pres side_update_advances) simp

lemma side_succeed_advance [pres]: "preserves side_ok (succeed_advance_tx e p r)"
proof -
  have upd: "preserves side_ok (update_advances (is_pending_advance (adv_id p))
      (\<lambda>x. x\<lparr>adv_status := SUCCEEDED, adv_paid_at := Some (now e)\<rparr>))"
    by (rule side_update_advances) simp
  have nn: "0 \<le> adv_amount v" if "find_row adv_id i (advances s) = Some v" "side_ok s" for i v s
    using that find_row_mem [OF that(1)] by (simp add: side_ok_def credits_ok_def)
  show ?thesis
    unfolding succeed_advance_tx_def
    by (rule preservesW, rule guard_step [OF upd], assumption, intro guard)
       (auto intro!: guard_done pres side_add_credit nn)
qed

lemma side_advance_succeeded [pres]: "preserves side_ok (mark_advance_succeeded e r)"
  unfolding mark_advance_succeeded_def by (intro pres)

lemma side_flags [pres]:
  "preserves side_ok (flag_payment_for_review g e r x y)" "preserves side_ok (flag_advance_for_review g e r x y)"
  unfolding flag_payment_for_review_def flag_advance_for_review_def
  by (intro pres side_update_advances; simp)+

lemma side_set_ref [pres]: "preserves side_ok (set_payment_ref i prov r)"
  unfolding set_payment_ref_def by (intro pres)

lemma side_cancel [pres]: "preserves side_ok (cancel_stale_pending_payments i)"
  unfolding cancel_stale_pending_payments_def by (intro pres)

lemma side_create_payment [pres]: "preserves side_ok (create_payment g e u i prov)"
  unfolding create_payment_def by (intro pres)

lemma side_add_advance:
  assumes "side_ok s" and "\<And>k. 0 \<le> adv_amount (p k)" and "\<And>k. preserves side_ok (m k)"
  shows "holds (bnd new_id (\<lambda>k. bnd (modify (\<lambda>s. s\<lparr>advances := advances s @ [p k]\<rparr>)) (\<lambda>_. m k))) side_ok s"
proof (rule guard_step [of side_ok])
  show "holds (bnd (modify (\<lambda>s. s\<lparr>advances := advances s @ [p k]\<rparr>)) (\<lambda>_. m k)) side_ok t" if "side_ok t" for k t
    unfolding wp_bnd wp_modify
    by (rule guard_done [OF assms(3)])
       (use that assms(2) in \<open>simp add: side_ok_def credits_ok_def ledger_keys_ok_def journals_balanced_def ball_Un\<close>)
qed (use assms(1) in \<open>simp_all add: side_quiet\<close>)

lemma side_create_advance [pres]: "preserves side_ok (create_advance_payment g e u unit x prov)"
proof -
  have set: "preserves side_ok (update_advances c (\<lambda>a. a\<lparr>adv_ref := Some r\<rparr>))"
    "preserves side_ok (update_advances c (\<lambda>a. a\<lparr>adv_status := CANCELLED\<rparr>))" for c r
    by (rule side_update_advances; simp)+
  have rest: "preserves side_ok (case y of Inl err \<Rightarrow> throw err
     | Inr r \<Rightarrow> bnd (set_advance_ref i prov r) (\<lambda>_. ret (i, r)))" for y i
    unfolding set_advance_ref_def by (intro pres set)
  show ?thesis
    unfolding create_advance_payment_def
  proof (rule preservesW, (intro guard; assumption?), goal_cases)
    case (1 s un conn)
    show ?case
      by (rule guard_step [OF set(2) 1(1)], rule side_add_advance) (use 1(4) rest in simp_all)
  qed
qed

lemma side_callback_parts [pres]:
  "preserves side_ok (settle_callback g e b r x y)" "preserves side_ok (fail_callback g e b r st)"
  "preserves side_ok (poll_outcome g e b r poll)"
  unfolding settle_callback_def poll_outcome_def fail_callback_def by (intro pres)+

lemma side_callbacks [pres]:
  "preserves side_ok (handle_gateway_callback g e prov body)"
  "preserves side_ok (handle_stripe_callback g e payload)"
  "preserves side_ok (poll_duitnow_invoice g e u i)" "preserves side_ok (poll_duitnow_advance g e u i)"
  unfolding handle_gateway_callback_def handle_stripe_callback_def poll_duitnow_invoice_def
    poll_duitnow_advance_def Let_def
  by (intro pres)+

lemma side_manual [pres]: "preserves side_ok (record_manual_payment e u i x)"
  unfolding record_manual_payment_def manual_payment_tx_def Let_def by (intro pres)

lemma side_prepayment [pres]: "preserves side_ok (record_prepayment e u unit x payer m)"
proof -
  have "preserves side_ok (record_prepayment_tx e u un x payer m)" if "0 \<le> x" for un
    unfolding record_prepayment_tx_def by (intro pres side_add_credit that)
  then show ?thesis
    unfolding record_prepayment_def
    by (intro preservesW) (intro guard; auto intro!: pres guard_done preserves_success [of side_ok])
qed

lemma side_review [pres]:
  "preserves side_ok (dismiss_payment g e u i)" "preserves side_ok (approve_reviewed_payment g e u i)"
  unfolding dismiss_payment_def approve_reviewed_payment_def by (intro pres)+

lemma side_sweep [pres]: "preserves side_ok (run_due_sweep g e u condo)"
proof -
  have "preserves side_ok (modify (\<lambda>s. s\<lparr>invoices := h s\<rparr>))" for h
    by (rule keeps_side, rule keeps_modify) (simp add: side_def)
  then show ?thesis unfolding run_due_sweep_def notify_due_soon_def by (intro pres)
qed

lemma side_recurring [pres]: "preserves side_ok (generate_recurring e actor condo x opts)"
  unfolding generate_recurring_def run_chunk_def issue_chunk_def Let_def by (intro pres)

section \<open>Reachable states\<close>

lemmas side_steps = side_create(1) preserves_txn [OF side_create(2)] side_void(1) preserves_txn [OF side_void(2)]
  side_create_payment side_create_advance side_callbacks side_manual side_prepayment side_review side_sweep
  side_recurring

lemma billing_step_side:
  assumes "billing_step s t" and "side_ok s"
  shows "side_ok t"
  using assms
  by (induction rule: billing_step.induct)
     (rule preservesD [of side_ok], rule side_steps, assumption, assumption)+

interpretation side: billing_invariant side_ok
  by unfold_locales (rule billing_step_side)

text \<open>
  C7. Whatever calls the billing service has served: the prepayment credit of a unit is never
  negative and kept in one account, no idempotency key occurs twice in the ledger, and every
  journal is balanced.
\<close>

theorem credit_never_overdrawn:
  assumes "side_ok s" and "reachable s t"
  shows "0 \<le> credit_of unit t \<and> distinct (map ua_unit (accounts t)) \<and>
    distinct (filter truthy (map le_key (ledger t))) \<and>
    (\<forall>j \<in> set (journals t). debits (je_lines j) = credits (je_lines j))"
proof -
  have ok: "side_ok t" by (rule side.reachable_keeps [OF assms(2,1)])
  then have "0 \<le> credit_of unit t"
    by (auto simp: side_ok_def credits_ok_def credit_of_def dest: find_row_mem split: option.split)
  with ok show ?thesis
    by (auto simp: side_ok_def credits_ok_def ledger_keys_ok_def keyed_def journals_balanced_def)
qed

theorem credit_never_overdrawn_witness:
  "0 \<le> credit_of ''u'' sample_issued \<and> distinct (filter truthy (map le_key (ledger sample_issued)))"
proof -
  have "side_ok sample_start"
    by (simp add: side_ok_def credits_ok_def ledger_keys_ok_def keyed_def journals_balanced_def sample_start_def)
  from credit_never_overdrawn [OF this sample_issued_reachable, of "''u''"] show ?thesis by blast
qed

end
