(* ===== verification/Billing_Properties.thy ===== *)
theory Billing_Properties
  imports Settlement Billing_Side
begin

text \<open>
  What the settlement of payments promises, and the two ways in which a late success of a gateway
  payment goes wrong: over a manual payment, and over a voided invoice.
\<close>

section \<open>Reachable states\<close>

lemma billing_facts:
  assumes "billing_ok ps s" and "find_invoice i s = Some iv"
  shows "distinct (map pay_id (payments s))" "distinct (map inv_id (invoices s))"
    and "paid_sum i (payments s) = inv_paid iv" "inv_id iv = i" "iv \<in> set (invoices s)" "periods_ok s"
proof -
  have I: "ids_ok s" "paid_ok {} s" "periods_ok s" using assms(1) by (simp_all add: billing_inv_def)
  show iv: "inv_id iv = i" "iv \<in> set (invoices s)" using find_invoice_Some [OF assms(2)] by simp_all
  show "paid_sum i (payments s) = inv_paid iv" using I(2) iv unfolding paid_ok_def by (metis empty_iff)
  show "distinct (map pay_id (payments s))" "distinct (map inv_id (invoices s))" "periods_ok s"
    using I(1,3) by (simp_all add: ids_ok_def)
qed

text \<open>A reference that is a row's own finds it again, whatever has become of the row.\<close>

lemma find_ref_map:
  assumes "find_by_ref pid pref prov st cr r ps = Some p" and "pref p = Some r"
    and "\<And>x. pref (f x) = pref x"
  shows "find_by_ref pid pref prov st cr r (map f ps) = Some (f p)"
proof -
  have "find (\<lambda>x. pref x = Some r) ps \<noteq> None"
    using find_by_ref_mem [OF assms(1)] assms(2) by (auto simp: find_None_iff)
  then have "find (\<lambda>x. pref x = Some r) ps = Some p" using assms(1) by (auto simp: find_by_ref_def)
  moreover have "find (\<lambda>x. pref x = Some r) (map f ps) = map_option f (find (\<lambda>x. pref x = Some r) ps)"
    by (induction ps) (auto simp: assms(3))
  ultimately show ?thesis by (simp add: find_by_ref_def)
qed

lemma find_set_row:
  "find_invoice i s = Some iv \<Longrightarrow> invoices t = set_row inv_id i (settled e x) (invoices s) \<Longrightarrow>
   find_invoice j t = (if j = i then Some (settled e x iv) else find_invoice j s)"
  by (simp add: find_invoice_def find_row_set_row settled_def)

lemma success_row_ref [simp]: "pay_ref (success_row e p x) = pay_ref x"
  by (simp add: success_row_def succeeded_def)

section \<open>Success\<close>

text \<open>
  The tables that a success needs: ids name one row each, what an invoice has been paid is the sum of its
  successful payments, and no two live invoices are for one period of a unit. Every reachable state
  has them, and so have states that single calls do not reach: two requests to pay an invoice that
  run at the same time can leave two payments of it in progress, for \<open>createPayment\<close> cancels and
  inserts outside of a transaction.
\<close>

definition tables_ok :: "bdb \<Rightarrow> bool" where
  "tables_ok s \<longleftrightarrow> distinct (map pay_id (payments s)) \<and> distinct (map inv_id (invoices s)) \<and> periods_ok s \<and>
     (\<forall>iv \<in> set (invoices s). paid_sum (inv_id iv) (payments s) = inv_paid iv)"

lemma reachable_tables: "billing_ok ps s \<Longrightarrow> tables_ok s"
  by (simp add: billing_inv_def ids_ok_def paid_ok_def tables_ok_def)

text \<open>
  C2. A successful gateway payment is settled exactly once. Its row turns SUCCEEDED, every other payment
  in progress for the invoice turns CANCELLED and no other row changes; exactly its
  amount is added to what the invoice has been paid, the invoice is PAID (and announced) precisely
  when that covers it and no other invoice changes; and when the
  gateway reports the success again, the same payment is returned and nothing at all changes.
\<close>

theorem success_settles_once:
  assumes ok: "tables_ok s"
    and p: "find_payment_by_ref r s = Some p" "pay_status p = PENDING" "pay_ref p = Some r"
    and iv: "find_invoice (pay_invoice p) s = Some iv" "inv_status iv \<noteq> VOIDED"
    and c: "find_row co_id (inv_condo iv) (condos s) = Some c"
    and rc: "\<forall>x \<in> set (receipts s). rc_payment x \<noteq> Some (pay_id p)"
  shows "\<exists>t. mark_payment_succeeded e r s = (Inr (Some (succeeded e p)), t) \<and>
    payments t = map (\<lambda>q. if pay_id q = pay_id p then succeeded e p
      else if pay_invoice q = pay_invoice p \<and> pay_status q = PENDING then q\<lparr>pay_status := CANCELLED\<rparr> else q) (payments s) \<and>
    (\<forall>j. find_invoice j t = (if j = pay_invoice p then Some (settled e (inv_paid iv + pay_amount p) iv)
       else find_invoice j s)) \<and>
    events t = events s @ (if inv_total iv \<le> inv_paid iv + pay_amount p then [InvoicePaid (pay_invoice p)] else []) \<and>
    mark_payment_succeeded e' r t = (Inr (Some (succeeded e p)), t)"
proof -
  have ids: "distinct (map pay_id (payments s))" "distinct (map inv_id (invoices s))"
    and per: "periods_ok s" and paid: "\<forall>iv \<in> set (invoices s). paid_sum (inv_id iv) (payments s) = inv_paid iv"
    using ok by (simp_all add: tables_ok_def)
  have old: "paid_sum (pay_invoice p) (payments s) = inv_paid iv"
    using paid find_invoice_Some [OF iv(1)] by auto
  have can: "can_become (pay_invoice p) (settled e (inv_paid iv + pay_amount p)) s"
    by (rule can_become_live [OF per iv(1) ids(2) iv(2)])
  obtain t where t: "mark_payment_succeeded e r s = (Inr (Some (succeeded e p)), t)"
    "invoices t = set_row inv_id (pay_invoice p) (settled e (inv_paid iv + pay_amount p)) (invoices s)"
    "payments t = map (success_row e p) (payments s)"
    "events t = events s @ paid_event (inv_total iv \<le> inv_paid iv + pay_amount p) (pay_invoice p)"
    using mark_success_run [OF ids p(1,2) iv(1) old can c rc] by blast
  have row: "success_row e p p = succeeded e p" using p(2) by (simp add: success_row_def)
  have "find_payment_by_ref r t = Some (succeeded e p)"
    using find_ref_map [OF p(1) [unfolded find_payment_by_ref_def] p(3), of "success_row e p"] row t(3)
    by (simp add: find_payment_by_ref_def)
  then have "mark_payment_succeeded e' r t = (Inr (Some (succeeded e p)), t)"
    by (simp add: mark_payment_succeeded_def act_defs succeeded_def)
  moreover have "payments t = map (\<lambda>q. if pay_id q = pay_id p then succeeded e p
      else if pay_invoice q = pay_invoice p \<and> pay_status q = PENDING then q\<lparr>pay_status := CANCELLED\<rparr> else q) (payments s)"
    unfolding t(3)
  proof (rule map_cong [OF refl])
    fix q assume q: "q \<in> set (payments s)"
    have "q = p" if "pay_id q = pay_id p"
      using ids(1) q find_payment_mem [OF p(1)] that by (metis distinct_map inj_onD)
    then show "success_row e p q = (if pay_id q = pay_id p then succeeded e p
      else if pay_invoice q = pay_invoice p \<and> pay_status q = PENDING then q\<lparr>pay_status := CANCELLED\<rparr> else q)"
      using p(2) by (auto simp: success_row_def)
  qed
  moreover have "find_invoice j t = (if j = pay_invoice p then Some (settled e (inv_paid iv + pay_amount p) iv)
      else find_invoice j s)" for j
    by (rule find_set_row [OF iv(1) t(2)])
  ultimately show ?thesis using t by (auto simp: paid_event_def)
qed

text \<open>\<open>sample_paying\<close> with a second payment of the invoice in progress.\<close>

definition sample_double :: bdb where
  "sample_double = sample_paying\<lparr>payments := payments sample_paying @
     map (\<lambda>p. p\<lparr>pay_id := pay_id p @ ''2'', pay_ref := Some ''ref2''\<rparr>) (payments sample_paying)\<rparr>"

theorem success_settles_once_witness:
  "\<exists>p q t. payments sample_double = [p, q] \<and> pay_status p = PENDING \<and> pay_status q = PENDING \<and> pay_amount p = 100 \<and>
     mark_payment_succeeded sample_env ''ref'' sample_double = (Inr (Some (succeeded sample_env p)), t) \<and>
     payments t = [succeeded sample_env p, q\<lparr>pay_status := CANCELLED\<rparr>] \<and>
     map_option inv_status (find_invoice (pay_invoice p) t) = Some PAID \<and>
     mark_payment_succeeded sample_env ''ref'' t = (Inr (Some (succeeded sample_env p)), t)"
proof -
  obtain iv p where s: "invoices sample_paying = [iv]" "inv_total iv = 100" "inv_paid iv = 0" "inv_status iv = ISSUED"
      "inv_condo iv = ''c''" "payments sample_paying = [p]" "pay_status p = PENDING" "pay_ref p = Some ''ref''"
      "pay_invoice p = inv_id iv" "pay_amount p = 100" "receipts sample_paying = []"
      "condos sample_paying = condos sample_start"
    using sample_paying_run by auto
  let ?q = "p\<lparr>pay_id := pay_id p @ ''2'', pay_ref := Some ''ref2''\<rparr>"
  have d: "payments sample_double = [p, ?q]" "invoices sample_double = [iv]" "receipts sample_double = []"
    "condos sample_double = condos sample_start"
    using s by (simp_all add: sample_double_def)
  have ok: "tables_ok sample_double"
    using s d by (simp add: tables_ok_def periods_ok_def paid_sum_Cons paid_sum_Nil)
  have f: "find_payment_by_ref ''ref'' sample_double = Some p"
    using s d by (simp add: find_payment_by_ref_def find_by_ref_def)
  have iv: "find_invoice (pay_invoice p) sample_double = Some iv" using s d by (simp add: find_invoice_def)
  obtain c where c: "find_row co_id (inv_condo iv) (condos sample_double) = Some c"
    using s d by (simp add: sample_start_def)
  have rest: "inv_status iv \<noteq> VOIDED" "\<forall>x \<in> set (receipts sample_double). rc_payment x \<noteq> Some (pay_id p)"
    using s d by simp_all
  from success_settles_once [OF ok f s(7,8) iv rest(1) c rest(2), of sample_env sample_env] obtain t where
    t: "mark_payment_succeeded sample_env ''ref'' sample_double = (Inr (Some (succeeded sample_env p)), t)"
      "payments t = [succeeded sample_env p, ?q\<lparr>pay_status := CANCELLED\<rparr>]"
      "find_invoice (pay_invoice p) t = Some (settled sample_env (inv_paid iv + pay_amount p) iv)"
      "mark_payment_succeeded sample_env ''ref'' t = (Inr (Some (succeeded sample_env p)), t)"
    using d(1) s(7,9) by auto
  with d(1) s show ?thesis
    by (intro exI [of _ p] exI [of _ ?q] exI [of _ t]) (simp add: settled_def settle_status_def)
qed

text \<open>
  C9. Recording a manual payment, of all that is outstanding or a part of it, leaves a gateway payment in progress
  alone, and the gateway's later success is settled on top: the invoice has been paid both amounts, and so
  more than its total (and is PAID) whenever the two exceed what was outstanding.
\<close>

theorem manual_then_gateway_overpays:
  assumes start: "billing_start s0" "reachable s0 s"
    and p: "find_payment_by_ref r s = Some p" "pay_status p = PENDING" "pay_ref p = Some r"
    and iv: "find_invoice (pay_invoice p) s = Some iv" "inv_status iv \<notin> {VOIDED, PAID}"
    and u: "condo_management u (inv_condo iv) True" "can_read_unit_money u (inv_condo iv) (inv_unit iv)"
    and c: "find_row co_id (inv_condo iv) (condos s) = Some c"
    and rc: "\<forall>x \<in> set (receipts s). rc_payment x \<noteq> Some (pay_id p) \<and> rc_payment x \<noteq> Some (uuids s (next_uuid s))"
    and a: "a = (case mi_amount x of None \<Rightarrow> outstanding iv | Some y \<Rightarrow> y)" "0 < a" "a \<le> outstanding iv + 1 / 200"
  shows "\<exists>y z t w iv'. record_manual_payment e u (pay_invoice p) x s = (Inr y, t) \<and>
    mark_payment_succeeded e' r t = (Inr z, w) \<and> find_invoice (pay_invoice p) w = Some iv' \<and>
    inv_total iv' = inv_total iv \<and> inv_paid iv' = inv_paid iv + a + pay_amount p \<and>
    (outstanding iv < a + pay_amount p \<longrightarrow> inv_total iv' < inv_paid iv' \<and> inv_status iv' = PAID)"
proof -
  let ?i = "pay_invoice p" and ?k = "uuids s (next_uuid s)"
  let ?q = "manual_row e u ?k iv a x" and ?iv = "settled e (inv_paid iv + a) iv"
  have ok: "billing_ok (payments s) s" by (rule reachable_start [OF start])
  have rck: "\<forall>r \<in> set (receipts s). rc_payment r \<noteq> Some ?k" using rc by blast
  obtain y t where t: "record_manual_payment e u ?i x s = (Inr y, t)"
    "now_has s (set_row inv_id ?i (settled e (inv_paid iv + a)) (invoices s)) (payments s @ [?q]) ?k (t\<lparr>events := events s\<rparr>)"
    using manual_payment_run [OF iv ok u a c rck, of e] by blast
  have ok': "billing_ok (payments s) t"
    by (rule preservesD [OF record_manual_payment_ok ok t(1)])
  have p': "find_payment_by_ref r t = Some p"
  proof -
    have "find (\<lambda>x. pay_ref x = Some r) (payments s) \<noteq> None"
      using find_payment_mem [OF p(1)] p(3) by (auto simp: find_None_iff)
    with p(1) have "find (\<lambda>x. pay_ref x = Some r) (payments s) = Some p"
      by (auto simp: find_payment_by_ref_def find_by_ref_def)
    with t(2) show ?thesis by (simp add: find_payment_by_ref_def find_by_ref_def now_has_def find_append)
  qed
  have inv': "find_invoice ?i t = Some ?iv"
    using t(2) find_set_row [OF iv(1), of t e "inv_paid iv + a" ?i] by (simp add: now_has_def)
  note G = billing_facts [OF ok' inv']
  have live: "inv_status ?iv \<noteq> VOIDED" using iv(2) by (simp add: settled_def settle_status_def)
  have can: "can_become ?i (settled e' (inv_paid ?iv + pay_amount p)) t"
    by (rule can_become_live [OF G(6) inv' G(2) live])
  have c': "find_row co_id (inv_condo ?iv) (condos t) = Some c"
    using t(2) c by (simp add: now_has_def settled_def)
  have fresh: "?k \<noteq> pay_id p"
  proof -
    have I: "ids_ok s" using ok by (simp add: billing_inv_def)
    then have "pay_id p \<in> used s" using find_payment_mem [OF p(1)] by (auto simp: ids_ok_def)
    moreover have "?k \<notin> used s" using I by (auto simp: ids_ok_def used_def inj_def)
    ultimately show ?thesis by metis
  qed
  have rc': "\<forall>x \<in> set (receipts t). rc_payment x \<noteq> Some (pay_id p)"
    using t(2) rc fresh by (auto simp: now_has_def)
  obtain w where w: "mark_payment_succeeded e' r t = (Inr (Some (succeeded e' p)), w)"
    "invoices w = set_row inv_id ?i (settled e' (inv_paid ?iv + pay_amount p)) (invoices t)"
    using mark_success_run [OF G(1,2) p' p(2) inv' G(3) can c' rc'] by blast
  let ?w = "settled e' (inv_paid ?iv + pay_amount p) ?iv"
  have "find_invoice ?i w = Some ?w"
    using find_set_row [OF inv' w(2), of ?i] by simp
  moreover have "inv_total ?w = inv_total iv" "inv_paid ?w = inv_paid iv + a + pay_amount p"
    by (simp_all add: settled_def)
  moreover have "inv_total ?w < inv_paid ?w \<and> inv_status ?w = PAID" if "outstanding iv < a + pay_amount p"
    using that by (simp add: settled_def settle_status_def outstanding_def)
  ultimately show ?thesis using t(1) w(1) by blast
qed

text \<open>The payment in progress of \<open>sample_paying\<close>, and all that the properties ask of it.\<close>

lemma sample_paying_facts:
  obtains iv p c where "find_payment_by_ref ''ref'' sample_paying = Some p" "pay_status p = PENDING"
    "pay_ref p = Some ''ref''" "pay_amount p = 100" "find_invoice (pay_invoice p) sample_paying = Some iv"
    "inv_total iv = 100" "inv_paid iv = 0" "inv_status iv = ISSUED" "inv_condo iv = ''c''" "inv_unit iv = ''u''"
    "find_row co_id (inv_condo iv) (condos sample_paying) = Some c" "receipts sample_paying = []"
    "payments sample_paying = [p]" "invoices sample_paying = [iv]" "pay_provider p = STRIPE"
proof -
  obtain iv p where s: "invoices sample_paying = [iv]" "inv_total iv = 100" "inv_paid iv = 0" "inv_status iv = ISSUED"
      "inv_condo iv = ''c''" "inv_unit iv = ''u''" "payments sample_paying = [p]" "pay_status p = PENDING"
      "pay_ref p = Some ''ref''" "pay_invoice p = inv_id iv" "pay_amount p = 100" "receipts sample_paying = []"
      "condos sample_paying = condos sample_start" "pay_provider p = STRIPE"
    using sample_paying_run by auto
  show thesis
  proof (rule that)
    show "find_payment_by_ref ''ref'' sample_paying = Some p"
      using s by (simp add: find_payment_by_ref_def find_by_ref_def)
    show "find_invoice (pay_invoice p) sample_paying = Some iv" using s by (simp add: find_invoice_def)
    show "find_row co_id (inv_condo iv) (condos sample_paying) =
        Some \<lparr>co_id = ''c'', co_currency = ''MYR'', co_settings = JNull\<rparr>"
      using s by (simp add: sample_start_def)
  qed (use s in simp_all)
qed

lemmas sample_paying_start = sample_start_ok reachable_trans [OF sample_issued_reachable sample_paying_reachable]

lemma sample_admin_manages:
  "condo_management sample_admin ''c'' True" "can_read_unit_money sample_admin ''c'' ''u''"
  by (simp_all add: sample_admin_def condo_management_def grants_condo_management_def can_read_unit_money_def
      grants_read_money_def some_role_def is_role_in_def)

text \<open>40 of 100 are recorded by hand, and the payment of 100 in progress succeeds: 140 have been paid.\<close>

theorem manual_then_gateway_overpays_witness:
  "\<exists>i y z t w iv'. record_manual_payment sample_env sample_admin i
       \<lparr>mi_amount = Some 40, mi_method = None, mi_reference = None, mi_note = None\<rparr> sample_paying = (Inr y, t) \<and>
     mark_payment_succeeded sample_env ''ref'' t = (Inr z, w) \<and> find_invoice i w = Some iv' \<and> inv_total iv' = 100 \<and>
     inv_paid iv' = 140 \<and> inv_status iv' = PAID"
proof -
  obtain iv p c where f: "find_payment_by_ref ''ref'' sample_paying = Some p" "pay_status p = PENDING"
    "pay_ref p = Some ''ref''" "pay_amount p = 100" "find_invoice (pay_invoice p) sample_paying = Some iv"
    "inv_total iv = 100" "inv_paid iv = 0" "inv_status iv = ISSUED" "inv_condo iv = ''c''" "inv_unit iv = ''u''"
    "find_row co_id (inv_condo iv) (condos sample_paying) = Some c" "receipts sample_paying = []"
    by (rule sample_paying_facts)
  let ?x = "\<lparr>mi_amount = Some 40, mi_method = None, mi_reference = None, mi_note = None\<rparr>"
  have live: "inv_status iv \<notin> {VOIDED, PAID}"
    and man: "condo_management sample_admin (inv_condo iv) True"
      "can_read_unit_money sample_admin (inv_condo iv) (inv_unit iv)"
    and rc: "\<forall>x \<in> set (receipts sample_paying). rc_payment x \<noteq> Some (pay_id p) \<and>
      rc_payment x \<noteq> Some (uuids sample_paying (next_uuid sample_paying))"
    and a: "40 = (case mi_amount ?x of None \<Rightarrow> outstanding iv | Some y \<Rightarrow> y)" "(0 :: money) < 40" "40 \<le> outstanding iv + 1 / 200"
    and over: "outstanding iv < 40 + pay_amount p"
    using f sample_admin_manages by (simp_all add: outstanding_def)
  from manual_then_gateway_overpays [OF sample_paying_start f(1-3,5) live man f(11) rc a, of sample_env sample_env] over f(4,6,7)
  show ?thesis by fastforce
qed

section \<open>Voiding\<close>

lemma voided_can_become: "inv_status (f x) = VOIDED \<Longrightarrow> (\<And>x. inv_status (f x) = VOIDED) \<Longrightarrow> can_become i f s"
  by (simp add: can_become_def)

lemma reverse_returns: "\<exists>t. reverse_invoice_charges e iv a r s = (Inr (), t)"
proof -
  have "\<exists>ys t. for_each (charges_of (ir_id iv) s) (\<lambda>c. record_entry e (void_input iv a r c)) s = (Inr ys, t)"
    by (rule for_each_returns) (rule record_entry_returns)
  then show ?thesis by (auto simp: reverse_invoice_charges_def bnd_def gets_def ret_def)
qed

lemma void_unpaid_run:
  assumes "find_invoice i s = Some iv" and "inv_status iv \<notin> {VOIDED, PAID}" and "inv_paid iv \<le> 1 / 200"
  shows "\<exists>t. void_unpaid_invoice_in_tx e i a r s = (Inr True, t) \<and>
    frame t = frame (s\<lparr>invoices := set_row inv_id i (voided_row e) (invoices s)\<rparr>)"
proof -
  obtain t where t: "reverse_invoice_charges e (void_ref iv) a r s = (Inr (), t)"
    using reverse_returns by blast
  have fr: "frame t = frame s" by (rule keeps_run [OF frame_reverse t])
  then have i: "invoices t = invoices s" by (simp add: frame_def)
  let ?t = "t\<lparr>invoices := set_row inv_id i (voided_row e) (invoices t)\<rparr>"
  have "void_unpaid_invoice_in_tx e i a r s = (Inr True, ?t)"
    using assms t by (simp add: void_unpaid_invoice_in_tx_def update_invoice_def voided_row_def act_defs)
  moreover have "frame ?t = frame (s\<lparr>invoices := set_row inv_id i (voided_row e) (invoices s)\<rparr>)"
    using fr i by (simp add: frame_def)
  ultimately show ?thesis by blast
qed

text \<open>
  C8. \<open>voidUnpaidInvoiceInTx\<close> leaves a payment in progress alone, and the gateway's later success turns the
  void invoice into a paid one. (\<open>voidInvoice\<close>, in contrast, cancels the payments in progress.)
\<close>

theorem late_success_revives_void_invoice:
  assumes start: "billing_start s0" "reachable s0 s"
    and p: "find_payment_by_ref r s = Some p" "pay_status p = PENDING"
    and iv: "find_invoice (pay_invoice p) s = Some iv" "inv_status iv \<notin> {VOIDED, PAID}"
      "inv_paid iv \<le> 1 / 200" "outstanding iv \<le> pay_amount p"
    and c: "find_row co_id (inv_condo iv) (condos s) = Some c"
    and rc: "\<forall>x \<in> set (receipts s). rc_payment x \<noteq> Some (pay_id p)"
  shows "\<exists>t z w. void_unpaid_invoice_in_tx e (pay_invoice p) a reason s = (Inr True, t) \<and>
    map_option inv_status (find_invoice (pay_invoice p) t) = Some VOIDED \<and>
    mark_payment_succeeded e' r t = (Inr z, w) \<and>
    map_option inv_status (find_invoice (pay_invoice p) w) = Some PAID"
proof -
  let ?i = "pay_invoice p"
  have ok: "billing_ok (payments s) s" by (rule reachable_start [OF start])
  note F = billing_facts [OF ok iv(1)]
  obtain t where t: "void_unpaid_invoice_in_tx e ?i a reason s = (Inr True, t)"
    "frame t = frame (s\<lparr>invoices := set_row inv_id ?i (voided_row e) (invoices s)\<rparr>)"
    using void_unpaid_run [OF iv(1-3)] by blast
  then have T: "invoices t = set_row inv_id ?i (voided_row e) (invoices s)" "payments t = payments s"
    "condos t = condos s" "receipts t = receipts s"
    by (simp_all add: frame_def)
  have inv': "find_invoice ?i t = Some (voided_row e iv)"
    using iv(1) T(1) by (simp add: find_invoice_def find_row_set_row voided_row_def)
  have st: "map_option inv_status (find_invoice ?i t) = Some VOIDED" using inv' by (simp add: voided_row_def)
  have p': "find_payment_by_ref r t = Some p" using p(1) T(2) by (simp add: find_payment_by_ref_def)
  have ids: "distinct (map pay_id (payments t))" "distinct (map inv_id (invoices t))"
    using F(1,2) T(1,2) map_key_set_where [of inv_id "voided_row e" _ "invoices s"]
    by (simp_all add: set_row_def voided_row_def)
  have paid: "inv_paid (voided_row e iv) = inv_paid iv" "inv_total (voided_row e iv) = inv_total iv"
    "inv_condo (voided_row e iv) = inv_condo iv"
    by (simp_all add: voided_row_def)
  have can: "can_become ?i (settled e' (inv_paid iv + pay_amount p)) t"
  proof -
    have "\<not> same_period iv y" if "y \<in> set (invoices s)" "inv_id y \<noteq> ?i" "inv_status y \<noteq> VOIDED" for y
      using F(4-6) iv(2) that unfolding periods_ok_def by (metis insertCI)
    moreover have "x = voided_row e iv" if "x \<in> set (invoices t)" "inv_id x = ?i" for x
      using find_row_distinct [OF ids(2) that(1)] that(2) inv' by (simp add: find_invoice_def)
    moreover have "y \<in> set (invoices s)" if "y \<in> set (invoices t)" "inv_id y \<noteq> ?i" for y
      using that unfolding T(1) set_row_def set_where_def by (auto simp: voided_row_def split: if_splits)
    moreover have "same_period (voided_row e iv) y = same_period iv y" for y
      by (simp add: same_period_def voided_row_def)
    ultimately show ?thesis unfolding can_become_def by blast
  qed
  obtain w where w: "mark_payment_succeeded e' r t = (Inr (Some (succeeded e' p)), w)"
    "invoices w = set_row inv_id ?i (settled e' (inv_paid iv + pay_amount p)) (invoices t)"
    using mark_success_run [OF ids p' p(2) inv'] F(3) T can c rc paid by force
  have "find_invoice ?i w = Some (settled e' (inv_paid iv + pay_amount p) (voided_row e iv))"
    using find_set_row [OF inv' w(2), of ?i] by simp
  then have "map_option inv_status (find_invoice ?i w) = Some PAID"
    using iv(4) by (simp add: settled_def settle_status_def outstanding_def voided_row_def)
  then show ?thesis using t(1) st w(1) by blast
qed

theorem late_success_revives_void_invoice_witness:
  "\<exists>i t z w. void_unpaid_invoice_in_tx sample_env i None None sample_paying = (Inr True, t) \<and>
     mark_payment_succeeded sample_env ''ref'' t = (Inr z, w) \<and>
     map_option inv_status (find_invoice i w) = Some PAID"
proof -
  obtain iv p c where f: "find_payment_by_ref ''ref'' sample_paying = Some p" "pay_status p = PENDING"
    "pay_ref p = Some ''ref''" "pay_amount p = 100" "find_invoice (pay_invoice p) sample_paying = Some iv"
    "inv_total iv = 100" "inv_paid iv = 0" "inv_status iv = ISSUED" "inv_condo iv = ''c''" "inv_unit iv = ''u''"
    "find_row co_id (inv_condo iv) (condos sample_paying) = Some c" "receipts sample_paying = []"
    by (rule sample_paying_facts)
  have live: "inv_status iv \<notin> {VOIDED, PAID}" "inv_paid iv \<le> 1 / 200" "outstanding iv \<le> pay_amount p"
    and rc: "\<forall>x \<in> set (receipts sample_paying). rc_payment x \<noteq> Some (pay_id p)"
    using f by (simp_all add: outstanding_def)
  from late_success_revives_void_invoice [OF sample_paying_start f(1,2,5) live f(11) rc]
  show ?thesis by blast
qed

section \<open>Credit\<close>

text \<open>
  C6. Applying prepayment credit to an invoice moves money and creates none: the smaller of the
  credit and the outstanding amount leaves the unit's credit and is added to what the invoice has
  been paid, no other unit's credit changes, and since the payment's ledger entries and the
  PREPAYMENT_APPLIED entry cancel out, neither what any unit owes by the ledger nor the
  condo's cash over all funds changes.
\<close>

theorem credit_application_conserves:
  assumes start: "billing_start s0" "side_ok s0" "reachable s0 s"
    and iv: "find_invoice i s = Some iv" "inv_status iv \<notin> {VOIDED, PAID}"
    and x: "x = min (credit_of (inv_unit iv) s) (outstanding iv)" "1 / 200 < x" "whole_sen x"
    and c: "find_row co_id (inv_condo iv) (condos s) = Some c"
    and k: "k = uuids s (next_uuid s)" "\<forall>r \<in> set (receipts s). rc_payment r \<noteq> Some k"
      "no_keys (''payment:'' @ k @ '':'') s" "no_keys (''invoice:'' @ i @ '':prepayment:'' @ k) s"
  shows "\<exists>r t. apply_credit_tx e i (inv_unit iv) (inv_condo iv) s = (Inr r, t) \<and>
    find_invoice i t = Some (settled e (inv_paid iv + x) iv) \<and>
    (\<forall>u. credit_of u t = credit_of u s - (if u = inv_unit iv then x else 0)) \<and>
    (\<forall>u. unit_balance u t = unit_balance u s) \<and>
    (\<Sum>f \<leftarrow> all_funds. fund_cash (inv_condo iv) f t) = (\<Sum>f \<leftarrow> all_funds. fund_cash (inv_condo iv) f s)"
proof -
  have ok: "billing_ok (payments s) s" by (rule reachable_start [OF start(1,3)])
  have side: "distinct (map ua_unit (accounts s))"
    using side.reachable_keeps [OF start(3,2)] by (simp add: side_ok_def credits_ok_def)
  note F = billing_facts [OF ok iv(1)]
  have I: "ids_ok s" using ok by (simp add: billing_inv_def)
  then have "k \<notin> used s" by (auto simp: ids_ok_def used_def inj_def k(1))
  then have fresh: "k \<notin> pay_id ` set (payments s)" using I by (auto simp: ids_ok_def)
  have live: "inv_status iv \<noteq> VOIDED" using iv(2) by simp
  have can: "can_become i (settled e (inv_paid iv + x)) s"
    by (rule can_become_live [OF F(6) iv(1) F(2) live])
  obtain t where t: "apply_credit_tx e i (inv_unit iv) (inv_condo iv) s = (Inr (Some (inv_paid iv + x \<ge> inv_total iv)), t)"
    "invoices t = set_row inv_id i (settled e (inv_paid iv + x)) (invoices s)"
    "\<forall>u. credit_of u t = credit_of u s - (if u = inv_unit iv then x else 0)"
    "\<forall>u. unit_balance u t = unit_balance u s" "all_cash (inv_condo iv) t = all_cash (inv_condo iv) s"
    using apply_credit_run [OF iv x fresh [unfolded k(1)] F(3) can refl refl side c k(2-4) [unfolded k(1)]]
    by blast
  have "find_invoice i t = Some (settled e (inv_paid iv + x) iv)"
    using find_set_row [OF iv(1) t(2), of i] by simp
  with t show ?thesis by (auto simp: all_cash_def)
qed

text \<open>A unit with a credit of 40 gets an invoice of 100.\<close>

definition sample_credit :: bdb where
  "sample_credit = sample_start\<lparr>accounts := [\<lparr>ua_unit = ''u'', ua_condo = ''c'', ua_credit = 40\<rparr>]\<rparr>"

definition sample_billed :: bdb where
  "sample_billed = snd (txn (create_invoice_in_tx sample_env ''c'' ''u'' 30 None None [sample_line] None Map.empty) sample_credit)"

lemma sample_billed_run:
  "\<exists>iv. invoices sample_billed = [iv] \<and> inv_total iv = 100 \<and> inv_paid iv = 0 \<and> inv_status iv = ISSUED \<and>
     inv_condo iv = ''c'' \<and> inv_unit iv = ''u'' \<and> receipts sample_billed = [] \<and>
     accounts sample_billed = accounts sample_credit \<and> condos sample_billed = condos sample_start \<and>
     map le_key (ledger sample_billed) = [Some (''invoice:'' @ inv_id iv @ '':charge:'' @ show_nat 0)]"
proof -
  obtain n q where num: "next_invoice_number sample_env ''c'' sample_credit = (Inr n, sample_credit\<lparr>sequences := q\<rparr>)"
    using next_invoice_number_run by blast
  have empty: "invoices sample_credit = []" "ledger sample_credit = []" "receipts sample_credit = []"
    "condos sample_credit = condos sample_start"
    by (simp_all add: sample_credit_def sample_start_def)
  show ?thesis
    using num empty
    by (simp add: sample_billed_def create_invoice_in_tx_def issue_tx_def insert_invoice_def act_defs Let_def new_id_def
        new_invoice_def record_invoice_charges_def create_entries_def charge_inputs_def find_entry_def entry_of_def
        append_entry_def sample_env_def sample_line_def lines_total_def ref_of_def)
qed

lemma sample_billed_start: "billing_start sample_credit" "side_ok sample_credit" "reachable sample_credit sample_billed"
proof -
  show "billing_start sample_credit"
    using sample_start_ok by (simp add: sample_credit_def billing_start_def)
  show "side_ok sample_credit"
    by (simp add: side_ok_def credits_ok_def ledger_keys_ok_def keyed_def journals_balanced_def sample_credit_def sample_start_def)
  show "reachable sample_credit sample_billed"
    unfolding reachable_def sample_billed_def
    by (rule r_into_rtranclp, rule step_create_tx, rule prod.collapse [symmetric])
qed

theorem credit_application_conserves_witness:
  "\<exists>i r t. apply_credit_tx sample_env i ''u'' ''c'' sample_billed = (Inr r, t) \<and>
     map_option inv_paid (find_invoice i t) = Some 40 \<and> credit_of ''u'' sample_billed = 40 \<and>
     credit_of ''u'' t = 0 \<and> unit_balance ''u'' t = unit_balance ''u'' sample_billed"
proof -
  obtain iv where s: "invoices sample_billed = [iv]" "inv_total iv = 100" "inv_paid iv = 0" "inv_status iv = ISSUED"
      "inv_condo iv = ''c''" "inv_unit iv = ''u''" "receipts sample_billed = []"
      "accounts sample_billed = accounts sample_credit" "condos sample_billed = condos sample_start"
      "map le_key (ledger sample_billed) = [Some (''invoice:'' @ inv_id iv @ '':charge:'' @ show_nat 0)]"
    using sample_billed_run by auto
  then obtain l where l: "ledger sample_billed = [l]"
      "le_key l = Some (''invoice:'' @ inv_id iv @ '':charge:'' @ show_nat 0)" by auto
  let ?k = "uuids sample_billed (next_uuid sample_billed)"
  have iv: "find_invoice (inv_id iv) sample_billed = Some iv" using s(1) by (simp add: find_invoice_def)
  have credit: "credit_of ''u'' sample_billed = 40" using s(8) by (simp add: credit_of_def sample_credit_def)
  have x: "40 = min (credit_of (inv_unit iv) sample_billed) (outstanding iv)" "(1 :: rat) / 200 < 40" "whole_sen 40"
    "inv_status iv \<notin> {VOIDED, PAID}"
    using credit s by (simp_all add: outstanding_def)
  obtain c where c: "find_row co_id (inv_condo iv) (condos sample_billed) = Some c"
    using s by (simp add: sample_start_def)
  have k: "\<forall>r \<in> set (receipts sample_billed). rc_payment r \<noteq> Some ?k"
    "no_keys (''payment:'' @ ?k @ '':'') sample_billed"
    "no_keys (''invoice:'' @ inv_id iv @ '':prepayment:'' @ ?k) sample_billed"
    using s(7) l by (auto simp: no_keys_def starts_with_iff)
  from credit_application_conserves [OF sample_billed_start iv x(4,1,2,3) c refl k, of sample_env] s(3,5,6) credit
  show ?thesis by (force simp: settled_def)
qed

end
