(* ===== verification/Callbacks.thy ===== *)
theory Callbacks
  imports Billing_Properties
begin

text \<open>
  What a callback of a gateway can do to the payments: which rows it may change, and that none
  turns SUCCEEDED without a verified signature and a matching amount.
\<close>

section \<open>Which payments a call changes\<close>

text \<open>Every row of before is there unchanged.\<close>

definition rows_kept :: "payment list \<Rightarrow> bdb \<Rightarrow> bool" where
  "rows_kept ps t \<longleftrightarrow> set ps \<subseteq> set (payments t)"

lemma rows_kept_frame: "keeps payments m \<Longrightarrow> preserves (rows_kept ps) m"
  unfolding rows_kept_def by (rule keeps_preserves)

lemma keeps_payments [keep]:
  "keeps payments (record_entry e x)" "keeps payments (record_payment_allocation e i k y d a)"
  "keeps payments (update_invoice i f)" "keeps payments (consume_credit unit z)"
  "keeps payments (add_credit condo unit z)" "keeps payments (update_advances c h)"
  "keeps payments (emit_paid i b)"
proof -
  have fr: "keeps payments m" if "keeps frame m" for m :: "'x svc"
    by (rule keepsI) (use keepsD [OF that] in \<open>simp add: frame_def\<close>)
  show "keeps payments (record_entry e x)" "keeps payments (record_payment_allocation e i k y d a)"
    by (rule fr, rule keep)+
  show "keeps payments (update_invoice i f)" "keeps payments (consume_credit unit z)" "keeps payments (emit_paid i b)"
    "keeps payments (add_credit condo unit z)" "keeps payments (update_advances c h)"
    unfolding update_invoice_def consume_credit_def add_credit_def update_advances_def emit_paid_def
    by (intro keep keeps_modify; simp split: option.split)+
qed

lemma settle_keeps_payments [keep]: "keeps payments (settle_invoice e i a p r)"
  unfolding settle_invoice_def record_settlement_def by (intro keep; simp)

lemma rows_kept_insert [pres]: "preserves (rows_kept ps) (insert_payment p)"
  unfolding insert_payment_def by (rule preserves_modify) (auto simp: rows_kept_def)

lemma rows_kept_credit [pres]: "preserves (rows_kept ps) (apply_credit_tx e i unit condo)"
  unfolding apply_credit_tx_def Let_def
  by (intro pres rows_kept_frame keep; simp)

lemma rows_kept_credit_ops [pres]:
  "preserves (rows_kept ps) (apply_credit_to_invoice e i unit condo)"
  "preserves (rows_kept ps) (apply_credit_loop e unit condo is)"
  "preserves (rows_kept ps) (apply_credit_to_outstanding e unit condo)"
proof -
  have k: "keeps payments (get_credit unit)" by (simp add: get_credit_def keep)
  show one: "preserves (rows_kept ps) (apply_credit_to_invoice e i unit condo)" for i
    unfolding apply_credit_to_invoice_def by (intro pres rows_kept_frame [OF k] rows_kept_frame keeps_payments)
  show loop: "preserves (rows_kept ps) (apply_credit_loop e unit condo is)" for "is"
    by (induction "is") (auto intro!: pres one rows_kept_frame [OF k])
  show "preserves (rows_kept ps) (apply_credit_to_outstanding e unit condo)"
    unfolding apply_credit_to_outstanding_def by (intro pres loop)
qed

lemma rows_kept_advance [pres]:
  "preserves (rows_kept ps) (mark_advance_succeeded e r)" "preserves (rows_kept ps) (mark_advance_failed g e r st)"
  "preserves (rows_kept ps) (flag_advance_for_review g e r x y)"
proof -
  have tx: "preserves (rows_kept ps) (succeed_advance_tx e p r)" for p
    unfolding succeed_advance_tx_def by (intro pres rows_kept_frame keep; simp)
  show "preserves (rows_kept ps) (mark_advance_succeeded e r)"
    unfolding mark_advance_succeeded_def by (intro pres tx)
  show "preserves (rows_kept ps) (mark_advance_failed g e r st)" "preserves (rows_kept ps) (flag_advance_for_review g e r x y)"
    unfolding mark_advance_failed_def flag_advance_for_review_def by (intro pres rows_kept_frame keeps_payments)+
qed

lemma mark_success_payments:
  assumes "mark_payment_succeeded e r s = (x, t)"
  shows "payments t = payments s \<or>
    (\<exists>p. find_payment_by_ref r s = Some p \<and> payments t = map (success_row e p) (payments s))"
proof (cases "find_payment_by_ref r s")
  case (Some p)
  let ?Q = "\<lambda>t. payments t = payments s \<or> payments t = map (success_row e p) (payments s)"
  have set: "wp (settle_invoice e i a k r') (\<lambda>_. ?Q) (\<lambda>_. True) w"
    if "payments w = map (success_row e p) (payments s)" for i a k r' w
    using keepsD [OF settle_keeps_payments, of e i a k r' w] that by (auto simp: wp_def split: prod.split sum.split)
  have "wp (succeed_tx e p r) (\<lambda>_. ?Q) (\<lambda>_. True) s"
    by (auto simp: succeed_tx_def settle_success_def update_payments_def wp success_rows set_where_none
        intro: set wp_mono [OF set])
  then have "wp (txn (succeed_tx e p r)) (\<lambda>_. ?Q) ?Q s"
    unfolding wp_txn by (rule wp_mono) auto
  moreover have "wp (emit_paid i b) (\<lambda>_. ?Q) ?Q w" if "?Q w" for i b w
    using that keepsD [OF keeps_payments(7), of i b w] by (auto simp: wp_def split: prod.split sum.split)
  ultimately have "wp (mark_payment_succeeded e r) (\<lambda>_. ?Q) ?Q s"
    using Some by (auto simp: mark_payment_succeeded_def wp elim!: wp_mono intro: wp_mono)
  with assms Some show ?thesis by (cases x) (auto simp: wp_def)
qed (use assms in \<open>simp add: mark_payment_succeeded_def act_defs\<close>)

section \<open>Payments that turn successful\<close>

definition turned_success :: "bdb \<Rightarrow> bdb \<Rightarrow> payment \<Rightarrow> bool" where
  "turned_success s t p \<longleftrightarrow> p \<in> set (payments s) \<and> pay_status p \<noteq> SUCCEEDED \<and>
     (\<exists>q \<in> set (payments t). pay_id q = pay_id p \<and> pay_status q = SUCCEEDED)"

definition no_success :: "payment list \<Rightarrow> bdb \<Rightarrow> bool" where
  "no_success ps t \<longleftrightarrow> (\<forall>q \<in> set (payments t). pay_status q = SUCCEEDED \<longrightarrow>
     (\<exists>p \<in> set ps. pay_id p = pay_id q \<and> pay_status p = SUCCEEDED))"

lemma no_success_update:
  assumes "\<And>p. pay_id (f p) = pay_id p \<and> (pay_status (f p) = SUCCEEDED \<longrightarrow> pay_status p = SUCCEEDED)"
  shows "preserves (no_success ps) (update_payments c f)"
  unfolding update_payments_def
proof (intro pres preserves_modify)
  fix s assume s: "no_success ps s"
  have g: "pay_id (if c p then f p else p) = pay_id p"
    "pay_status (if c p then f p else p) = SUCCEEDED \<Longrightarrow> pay_status p = SUCCEEDED" for p
    using assms [of p] by (auto split: if_splits)
  show "no_success ps (s\<lparr>payments := set_where c f (payments s)\<rparr>)"
    unfolding no_success_def set_where_def
  proof (intro ballI impI)
    fix q assume q: "q \<in> set (payments (s\<lparr>payments := map (\<lambda>r. if c r then f r else r) (payments s)\<rparr>))"
      and st: "pay_status q = SUCCEEDED"
    have "q \<in> (\<lambda>r. if c r then f r else r) ` set (payments s)" using q by simp
    then obtain r where r: "r \<in> set (payments s)" "q = (if c r then f r else r)" by (rule imageE)
    have "pay_status r = SUCCEEDED" using g(2) [of r] st r(2) by metis
    then obtain p where "p \<in> set ps" "pay_id p = pay_id r" "pay_status p = SUCCEEDED"
      using s r(1) unfolding no_success_def by blast
    then show "\<exists>p \<in> set ps. pay_id p = pay_id q \<and> pay_status p = SUCCEEDED"
      using g(1) [of r] r(2) by metis
  qed
qed

lemma no_success_fail [pres]: "preserves (no_success ps) (mark_payment_failed g e r st)"
  unfolding mark_payment_failed_def by (intro pres no_success_update) simp

lemma no_success_flag [pres]: "preserves (no_success ps) (flag_payment_for_review g e r x y)"
  unfolding flag_payment_for_review_def by (intro pres no_success_update) simp

lemma same_row:
  assumes "distinct (map pay_id (payments s))" and "a \<in> set (payments s)" "b \<in> set (payments s)" "pay_id a = pay_id b"
  shows "a = b"
  using assms by (metis distinct_map inj_onD)

lemma no_success_turned:
  assumes ids: "distinct (map pay_id (payments s))" and no: "no_success (payments s) t"
  shows "\<not> turned_success s t p"
proof
  assume "turned_success s t p"
  then obtain q where q: "q \<in> set (payments t)" "pay_id q = pay_id p" "pay_status q = SUCCEEDED"
      and p: "p \<in> set (payments s)" "pay_status p \<noteq> SUCCEEDED"
    unfolding turned_success_def by blast
  then obtain r where r: "r \<in> set (payments s)" "pay_id r = pay_id q" "pay_status r = SUCCEEDED"
    using no unfolding no_success_def by blast
  have "r = p" by (rule same_row [OF ids r(1) p(1)]) (use r(2) q(2) in \<open>rule trans\<close>)
  with r(3) p(2) show False by simp
qed

lemma rows_kept_turned:
  assumes ids: "distinct (map pay_id (payments t))" and kept: "rows_kept (payments s) t"
  shows "\<not> turned_success s t p"
proof
  assume "turned_success s t p"
  then obtain q where q: "q \<in> set (payments t)" "pay_id q = pay_id p" "pay_status q = SUCCEEDED"
      and p: "p \<in> set (payments s)" "pay_status p \<noteq> SUCCEEDED"
    unfolding turned_success_def by blast
  have "p \<in> set (payments t)" using kept p(1) by (auto simp: rows_kept_def)
  with same_row [OF ids q(1) this q(2)] q(3) p(2) show False by simp
qed

lemma mark_success_turned:
  assumes ids: "distinct (map pay_id (payments s))" and run: "mark_payment_succeeded e r s = (x, t)"
    and p: "turned_success s t p"
  shows "find_payment_by_ref r s = Some p"
proof -
  note uniq = same_row [OF ids]
  obtain q where q: "q \<in> set (payments t)" "pay_id q = pay_id p" "pay_status q = SUCCEEDED"
      and mem: "p \<in> set (payments s)" "pay_status p \<noteq> SUCCEEDED"
    using p unfolding turned_success_def by blast
  from mark_success_payments [OF run] show ?thesis
  proof
    assume "payments t = payments s"
    with q mem uniq show ?thesis by metis
  next
    assume "\<exists>p. find_payment_by_ref r s = Some p \<and> payments t = map (success_row e p) (payments s)"
    then obtain p0 where p0: "find_payment_by_ref r s = Some p0" "payments t = map (success_row e p0) (payments s)"
      by blast
    then have "q \<in> success_row e p0 ` set (payments s)" using q(1) by simp
    then obtain q0 where q0: "q0 \<in> set (payments s)" "q = success_row e p0 q0" by blast
    have "q0 = p" using uniq [OF q0(1) mem(1)] q(2) q0(2) by simp
    then have "pay_id p = pay_id p0" using q(3) q0(2) mem(2) by simp
    then show ?thesis using uniq [OF mem(1) find_payment_mem [OF p0(1)]] p0(1) by simp
  qed
qed

section \<open>Callbacks\<close>

text \<open>
  What a callback has to show for a payment \<open>p\<close> that it makes SUCCEEDED: the reference \<open>r\<close> that it names
  is that of a payment of the gateway \<open>prov\<close>; the body is verified with that payment's condo's
  credentials and reports a success; and the amount it reports is that payment's to within a sen. The
  payment that is settled is the one that the reference \<open>vr\<close> of the verified answer finds, which
  is the named payment when \<open>vr\<close> is \<open>r\<close>.
\<close>

definition callback_evidence ::
  "gateway \<Rightarrow> payment_provider \<Rightarrow> string \<Rightarrow> json \<Rightarrow> (json \<Rightarrow> money \<Rightarrow> money option) \<Rightarrow> bdb \<Rightarrow> payment \<Rightarrow> bool" where
  "callback_evidence g prov r body reported s p \<longleftrightarrow>
     (\<exists>named condo vr raw x.
        find_payment_by_ref r s = Some named \<and> pay_provider named = prov \<and>
        condo = (case find_invoice (pay_invoice named) s of None \<Rightarrow> [] | Some iv \<Rightarrow> inv_condo iv) \<and>
        gw_verify g prov (resolve_credentials condo prov s) body = Some (vr, True, raw) \<and>
        reported raw (pay_amount named) = Some x \<and> \<bar>x - pay_amount named\<bar> \<le> 1 / 100 \<and>
        find_payment_by_ref vr s = Some p \<and> (vr = r \<longrightarrow> p = named))"

lemma payment_target:
  assumes "callback_target r s = Some (True, prov, condo, expected)"
  obtains named where "find_payment_by_ref r s = Some named" "pay_provider named = prov" "pay_amount named = expected"
    "condo = (case find_invoice (pay_invoice named) s of None \<Rightarrow> [] | Some iv \<Rightarrow> inv_condo iv)"
  using assms by (auto simp: callback_target_def split: option.splits)

text \<open>The part that both callbacks share: what follows once the gateway has answered.\<close>

lemma answered_evidence:
  assumes ok: "billing_ok (payments s) s" "billing_ok (payments s) t"
    and turned: "turned_success s t p"
    and tgt: "callback_target r s = Some (is_payment, prov, condo, expected)"
    and run: "(case gw_verify g prov (resolve_credentials condo prov s) body of None \<Rightarrow> ret ()
        | Some (vr, ok, raw) \<Rightarrow>
          if \<not> ok then fail_callback g e is_payment vr st
          else settle_callback g e is_payment vr (reported raw expected) expected) s = (res, t)"
  shows "callback_evidence g prov r body reported s p"
proof -
  have ids: "distinct (map pay_id (payments s))" and ids': "distinct (map pay_id (payments t))"
    using ok by (simp_all add: billing_inv_def ids_ok_def)
  have quiet: False if "m s = (y, t)" "preserves (rows_kept (payments s)) m \<or> preserves (no_success (payments s)) m"
    for m :: "unit svc" and y
  proof -
    have "rows_kept (payments s) s" "no_success (payments s) s" by (auto simp: rows_kept_def no_success_def)
    then have "rows_kept (payments s) t \<or> no_success (payments s) t"
      using that(2) preservesD [of "rows_kept (payments s)" m s y t] preservesD [of "no_success (payments s)" m s y t] that(1)
      by metis
    with turned show False using no_success_turned [OF ids] rows_kept_turned [OF ids'] by blast
  qed
  have skip: False if "t = s"
    using that quiet [of "ret ()" "Inr ()"] preserves_ret [of "rows_kept (payments s)" "()"] ret_run [of "()" s]
    by simp
  have adv: "preserves (rows_kept (payments s)) (fail_callback g e False r st)"
    "preserves (no_success (payments s)) (fail_callback g e True r st)"
    "preserves (rows_kept (payments s)) (settle_callback g e False r x y)" for r st x y
    unfolding fail_callback_def settle_callback_def by (simp_all split: option.split) (intro conjI allI impI pres)+
  from run skip obtain vr ok raw where v: "gw_verify g prov (resolve_credentials condo prov s) body = Some (vr, ok, raw)"
    and run3: "(if \<not> ok then fail_callback g e is_payment vr st
          else settle_callback g e is_payment vr (reported raw expected) expected) s = (res, t)"
    by (auto simp: ret_def split: option.splits)
  have okT: ok using run3 quiet adv by (cases is_payment; cases ok) (auto, blast+)
  have pay: is_payment using run3 quiet adv okT by (cases is_payment) (auto, blast)
  from run3 okT pay skip obtain x where x: "reported raw expected = Some x"
    and run4: "(if \<bar>x - expected\<bar> > 1 / 100 then flag_payment_for_review g e vr x expected
        else bnd (mark_payment_succeeded e vr) (\<lambda>_. ret ())) s = (res, t)"
    by (auto simp: settle_callback_def ret_def split: option.splits cong: if_cong)
  have near: "\<bar>x - expected\<bar> \<le> 1 / 100"
  proof (rule ccontr)
    assume "\<not> \<bar>x - expected\<bar> \<le> 1 / 100"
    with run4 have "flag_payment_for_review g e vr x expected s = (res, t)" by simp
    then show False using quiet no_success_flag by blast
  qed
  obtain y where "mark_payment_succeeded e vr s = (y, t)"
    using run4 near by (auto simp: bnd_def ret_def split: prod.splits sum.splits if_splits)
  from mark_success_turned [OF ids this turned] have p: "find_payment_by_ref vr s = Some p" .
  have tgt': "callback_target r s = Some (True, prov, condo, expected)" using tgt pay by simp
  obtain named where named: "find_payment_by_ref r s = Some named" "pay_provider named = prov" "pay_amount named = expected"
    "condo = (case find_invoice (pay_invoice named) s of None \<Rightarrow> [] | Some iv \<Rightarrow> inv_condo iv)"
    by (rule payment_target [OF tgt'])
  have "vr = r \<longrightarrow> p = named" using named(1) p by auto
  moreover have "gw_verify g prov (resolve_credentials condo prov s) body = Some (vr, True, raw)"
    "reported raw (pay_amount named) = Some x" "\<bar>x - pay_amount named\<bar> \<le> 1 / 100"
    using v okT x near named(3) by simp_all
  ultimately show ?thesis unfolding callback_evidence_def using named(1,2,4) p by (intro exI conjI)
qed

text \<open>
  C3. No payment turns SUCCEEDED by a callback, of a gateway or of Stripe, without evidence: the callback names a
  payment of that very gateway, its body is verified with the credentials of that payment's condo,
  and it reports that payment's amount to within a sen. The payment that turns is the one that the
  reference of the verified answer finds: the named payment itself, with its condo and its amount, if the
  answer has the reference that was named. If the answer has another one, nothing is checked
  of the payment that it finds.
\<close>

theorem callback_success_is_verified:
  assumes start: "billing_start s0" "reachable s0 s"
    and p: "p \<in> set (payments s)" "pay_status p \<noteq> SUCCEEDED"
    and q: "q \<in> set (payments t)" "pay_id q = pay_id p" "pay_status q = SUCCEEDED"
  shows "(handle_gateway_callback g e prov body s = (res, t) \<longrightarrow>
      callback_evidence g prov (callback_ref g body) body (\<lambda>raw. reported_amount g body) s p) \<and>
    (handle_stripe_callback g e payload s = (res, t) \<longrightarrow>
      (\<exists>r j. stripe_ref payload = Some r \<and> payload = Some j \<and> callback_evidence g STRIPE r j (\<lambda>raw x. stripe_amount raw) s p))"
proof (intro conjI impI)
  have ok: "billing_ok (payments s) s" by (rule reachable_start [OF start])
  have turned: "turned_success s t p" unfolding turned_success_def using p q by blast
  have moved: "t \<noteq> s"
  proof
    assume "t = s"
    then have "q = p" using ok p(1) q(1,2) same_row [of s q p] by (simp add: billing_inv_def ids_ok_def)
    with p(2) q(3) show False by simp
  qed
  show "callback_evidence g prov (callback_ref g body) body (\<lambda>raw. reported_amount g body) s p"
    if run: "handle_gateway_callback g e prov body s = (res, t)"
  proof -
    have ok': "billing_ok (payments s) t" by (rule preservesD [OF handle_gateway_callback_ok ok run])
    from run moved obtain is_payment condo expected where tgt:
        "callback_target (callback_ref g body) s = Some (is_payment, prov, condo, expected)"
      and run2: "(case gw_verify g prov (resolve_credentials condo prov s) body of None \<Rightarrow> ret ()
          | Some (vr, ok, raw) \<Rightarrow>
            if \<not> ok then fail_callback g e is_payment vr (body_status g body)
            else settle_callback g e is_payment vr (reported_amount g body expected) expected) s = (res, t)"
      by (auto simp: handle_gateway_callback_def Let_def act_defs split: if_splits option.splits)
    show ?thesis by (rule answered_evidence [where reported = "\<lambda>raw. reported_amount g body" and st = "body_status g body", OF ok ok' turned tgt run2])
  qed
  show "\<exists>r j. stripe_ref payload = Some r \<and> payload = Some j \<and> callback_evidence g STRIPE r j (\<lambda>raw x. stripe_amount raw) s p"
    if run: "handle_stripe_callback g e payload s = (res, t)"
  proof -
    have ok': "billing_ok (payments s) t" by (rule preservesD [OF handle_stripe_callback_ok ok run])
    from run moved obtain r is_payment condo expected where r: "stripe_ref payload = Some r"
      and tgt: "callback_target r s = Some (is_payment, STRIPE, condo, expected)"
      and run2: "(case gw_verify g STRIPE (resolve_credentials condo STRIPE s) (the payload) of None \<Rightarrow> ret ()
          | Some (vr, ok, raw) \<Rightarrow>
            if \<not> ok then fail_callback g e is_payment vr ''payment_failed''
            else settle_callback g e is_payment vr (stripe_amount raw) expected) s = (res, t)"
      by (auto simp: handle_stripe_callback_def Let_def act_defs split: if_splits option.splits)
    have "callback_evidence g STRIPE r (the payload) (\<lambda>raw x. stripe_amount raw) s p"
      by (rule answered_evidence [where reported = "\<lambda>raw x. stripe_amount raw" and st = "''payment_failed''", OF ok ok' turned tgt run2])
    with r show ?thesis by (cases payload) (auto simp: stripe_ref_def)
  qed
qed

text \<open>A callback that reports the payment of \<open>sample_paying\<close> with its amount.\<close>

definition sample_callback_gateway :: gateway where
  "sample_callback_gateway = sample_gateway\<lparr>json_text := (\<lambda>j. ''ref''), json_number := (\<lambda>j. Some 100)\<rparr>"

definition sample_body :: json where
  "sample_body = JObj [(''orderid'', JStr ''ref''), (''amount'', JNum 100)]"

lemma sample_fields:
  "callback_ref sample_callback_gateway sample_body = ''ref''"
  "reported_amount sample_callback_gateway sample_body x = Some 100"
  "gw_verify sample_callback_gateway prov c sample_body = Some (''ref'', True, sample_body)"
  by (simp_all add: callback_ref_def reported_amount_def sample_body_def json_field_def as_object_def
      sample_callback_gateway_def sample_gateway_def)

text \<open>Both callbacks settle the payment of \<open>sample_paying\<close>, which is one through Stripe.\<close>

definition sample_stripe_event :: json where
  "sample_stripe_event = JObj [(''data'', JObj [(''object'', JObj [(''id'', JStr ''ref''), (''amount_received'', JNum 10000)])])]"

lemma sample_stripe_fields:
  "stripe_ref (Some sample_stripe_event) = Some ''ref''" "stripe_amount sample_stripe_event = Some 100"
  "gw_verify sample_callback_gateway prov c sample_stripe_event = Some (''ref'', True, sample_stripe_event)"
  by (simp_all add: stripe_ref_def stripe_amount_def sample_stripe_event_def json_field_def as_object_def
      sample_callback_gateway_def sample_gateway_def whole_sen_iff Let_def)

theorem callback_success_is_verified_witness:
  "\<exists>p t. p \<in> set (payments sample_paying) \<and> pay_status p = PENDING \<and> pay_provider p = STRIPE \<and> pay_amount p = 100 \<and>
     succeeded sample_env p \<in> set (payments t) \<and>
     handle_gateway_callback sample_callback_gateway sample_env STRIPE sample_body sample_paying = (Inr (), t) \<and>
     callback_evidence sample_callback_gateway STRIPE ''ref'' sample_body
       (\<lambda>raw. reported_amount sample_callback_gateway sample_body) sample_paying p \<and>
     handle_stripe_callback sample_callback_gateway sample_env (Some sample_stripe_event) sample_paying = (Inr (), t) \<and>
     callback_evidence sample_callback_gateway STRIPE ''ref'' sample_stripe_event (\<lambda>raw x. stripe_amount raw) sample_paying p"
proof -
  obtain iv p c where f: "find_payment_by_ref ''ref'' sample_paying = Some p" "pay_status p = PENDING"
    "pay_ref p = Some ''ref''" "pay_amount p = 100" "find_invoice (pay_invoice p) sample_paying = Some iv"
    "inv_total iv = 100" "inv_paid iv = 0" "inv_status iv = ISSUED" "inv_condo iv = ''c''" "inv_unit iv = ''u''"
    "find_row co_id (inv_condo iv) (condos sample_paying) = Some c" "receipts sample_paying = []"
    "payments sample_paying = [p]" "pay_provider p = STRIPE"
    by (rule sample_paying_facts)
  have "billing_ok (payments sample_paying) sample_paying" by (rule reachable_start [OF sample_paying_start])
  note F = billing_facts [OF this f(5)]
  have live: "inv_status iv \<noteq> VOIDED" and rc: "\<forall>x \<in> set (receipts sample_paying). rc_payment x \<noteq> Some (pay_id p)"
    using f by simp_all
  obtain t where t: "mark_payment_succeeded sample_env ''ref'' sample_paying = (Inr (Some (succeeded sample_env p)), t)"
    "payments t = map (success_row sample_env p) (payments sample_paying)"
    using mark_success_run [OF F(1,2) f(1,2,5) F(3) can_become_live [OF F(6) f(5) F(2) live] f(11) rc] by blast
  let ?g = sample_callback_gateway and ?q = "succeeded sample_env p"
  have tgt: "callback_target ''ref'' sample_paying = Some (True, STRIPE, ''c'', 100)"
    using f by (simp add: callback_target_def)
  have run: "handle_gateway_callback ?g sample_env STRIPE sample_body sample_paying = (Inr (), t)"
    using t(1) tgt
    by (simp add: handle_gateway_callback_def sample_fields settle_callback_def act_defs has_adapter_def cong: if_cong)
  have stripe: "handle_stripe_callback ?g sample_env (Some sample_stripe_event) sample_paying = (Inr (), t)"
    using t(1) tgt
    by (simp add: handle_stripe_callback_def sample_stripe_fields settle_callback_def act_defs cong: if_cong)
  have q: "?q \<in> set (payments t)" "pay_id ?q = pay_id p" "pay_status ?q = SUCCEEDED"
    using t(2) f(2,13) by (simp_all add: success_row_def succeeded_def)
  have p: "p \<in> set (payments sample_paying)" "pay_status p \<noteq> SUCCEEDED" using f by simp_all
  note C = callback_success_is_verified [OF sample_paying_start p q, of ?g sample_env]
  have "callback_evidence ?g STRIPE ''ref'' sample_body (\<lambda>raw. reported_amount ?g sample_body) sample_paying p"
    using C run sample_fields(1) by metis
  moreover have "callback_evidence ?g STRIPE ''ref'' sample_stripe_event (\<lambda>raw x. stripe_amount raw) sample_paying p"
    using C stripe sample_stripe_fields(1) by (metis option.inject)
  ultimately show ?thesis using p(1) f(2,4,14) q(1) run stripe by blast
qed

end
