(* ===== verification/Visitor_Rules.thy ===== *)
theory Visitor_Rules
  imports Access_Restriction Calendar
begin

text \<open>
  The rules of the visitor service: condo settings (visitor/visitor-settings.ts), public holidays
  (visitor/holidays.ts), overnight stays (visitor/overnight-rules.ts) and the day of a condo in its
  own time zone (visitor/condo-timezone.ts).

  The package date-holidays is a parameter: for a state code (empty for the whole federation) and a
  year it gives dates, names and whether the holiday is public. The text of a day in a time zone
  (\<open>Intl.DateTimeFormat\<close>) is a parameter too; the zone of the host is a fixed offset. The memo table of
  \<open>resolveMyHolidays\<close> returns what a fresh computation gives and is left out.
\<close>

section \<open>Purposes\<close>

datatype visitor_purpose = PU_VISITOR | PU_CONTRACTOR | PU_GOVERNMENT | PU_DELIVERY | PU_MAINTENANCE | PU_OTHER

fun purpose_text :: "visitor_purpose \<Rightarrow> string" where
  "purpose_text PU_VISITOR = ''VISITOR''"
| "purpose_text PU_CONTRACTOR = ''CONTRACTOR''"
| "purpose_text PU_GOVERNMENT = ''GOVERNMENT_UTILITIES''"
| "purpose_text PU_DELIVERY = ''DELIVERY''"
| "purpose_text PU_MAINTENANCE = ''MAINTENANCE''"
| "purpose_text PU_OTHER = ''OTHER''"

definition purpose_of :: "string \<Rightarrow> visitor_purpose option" where
  "purpose_of t = find (\<lambda>p. purpose_text p = t)
     [PU_VISITOR, PU_CONTRACTOR, PU_GOVERNMENT, PU_DELIVERY, PU_MAINTENANCE, PU_OTHER]"

text \<open>\<open>replace(/[\s/]+/g, '_')\<close>: every run of white space and slashes becomes one underscore.\<close>

definition is_gap :: "char \<Rightarrow> bool" where
  "is_gap c \<longleftrightarrow> is_space c \<or> c = CHR ''/''"

fun join_gaps :: "bool \<Rightarrow> string \<Rightarrow> string" where
  "join_gaps inside [] = []"
| "join_gaps inside (c # cs) =
     (if is_gap c then (if inside then join_gaps True cs else CHR ''_'' # join_gaps True cs)
      else c # join_gaps False cs)"

definition walk_in_purpose :: "string option \<Rightarrow> visitor_purpose" where
  "walk_in_purpose p =
     (case p of None \<Rightarrow> PU_VISITOR
      | Some t \<Rightarrow> if trim t = [] then PU_VISITOR
                  else (case purpose_of (join_gaps False (to_upper (trim t))) of None \<Rightarrow> PU_OTHER | Some q \<Rightarrow> q))"

section \<open>Public holidays\<close>

type_synonym holiday_source = "string \<Rightarrow> int \<Rightarrow> (string \<times> string \<times> bool) list"

type_synonym holidays = "(string \<times> string) list"

text \<open>\<open>isHolidayDateString\<close>: four, two and two digits, and \<open>Date.UTC\<close> of them reads back as they are.\<close>

definition is_date_text :: "string \<Rightarrow> bool" where
  "is_date_text t \<longleftrightarrow>
     (case (digits_at 0 4 t, digits_at 5 2 t, digits_at 8 2 t) of
        (Some y, Some m, Some d) \<Rightarrow>
          length t = 10 \<and> t ! 4 = CHR ''-'' \<and> t ! 7 = CHR ''-'' \<and>
          civil_of_day (make_day (full_year y) (m - 1) d) = (y, m - 1, d)
      | _ \<Rightarrow> False)"

definition normalize_state :: "string \<Rightarrow> string" where
  "normalize_state st =
     (if st \<in> {''01'', ''02'', ''03'', ''04'', ''05'', ''06'', ''07'', ''08'', ''09'', ''10'', ''11'', ''12'',
               ''13'', ''14'', ''15'', ''16''} then st else [])"

definition normalize_holiday_state :: "json \<Rightarrow> string" where
  "normalize_holiday_state j = (case j of JStr t \<Rightarrow> normalize_state t | _ \<Rightarrow> [])"

text \<open>\<open>if (!byDate.has(date)) byDate.set(date, name)\<close>.\<close>

definition add_date :: "string \<Rightarrow> string \<Rightarrow> holidays \<Rightarrow> holidays" where
  "add_date d n hs = (if d \<in> fst ` set hs then hs else hs @ [(d, n)])"

definition resolve_my_holidays :: "holiday_source \<Rightarrow> string \<Rightarrow> int list \<Rightarrow> holidays" where
  "resolve_my_holidays src st years =
     sort_key fst (foldl (\<lambda>hs (d, n, public). if public then add_date (take 10 d) n hs else hs) []
       (concat (map (src (normalize_state st)) years)))"

record holiday_config =
  hc_auto :: bool
  hc_state :: string
  hc_custom :: "string list"
  hc_excluded :: "string list"

definition holiday_years :: "int \<Rightarrow> int list" where
  "holiday_years y = [y, y + 1]"

definition resolve_condo_holidays :: "holiday_source \<Rightarrow> int \<Rightarrow> holiday_config \<Rightarrow> holidays" where
  "resolve_condo_holidays src year c =
     (let auto = (if hc_auto c then resolve_my_holidays src (hc_state c) (holiday_years year) else []);
          all = foldl (\<lambda>hs d. if is_date_text d then add_date d ''Custom holiday'' hs else hs) auto (hc_custom c)
      in sort_key fst (filter (\<lambda>(d, n). \<not> (is_date_text d \<and> d \<in> set (hc_excluded c))) all))"

section \<open>Settings\<close>

record visitor_settings =
  vs_monthly_cap :: rat
  vs_slots :: int
  vs_approval_minutes :: int
  vs_owner_approval :: bool
  vs_buffer :: int
  vs_urgent_hours :: int
  vs_weekdays :: "rat list"
  vs_holiday :: holiday_config
  vs_resolved :: holidays
  vs_auto_approve :: bool
  vs_count_pending :: bool
  vs_plate_photo :: bool
  vs_purpose :: visitor_purpose

text \<open>\<open>publicHolidays\<close> of the settings: the dates of the resolved holidays.\<close>

definition public_holidays :: "visitor_settings \<Rightarrow> string list" where
  "public_holidays x = map fst (vs_resolved x)"

definition default_holiday_config :: holiday_config where
  "default_holiday_config = \<lparr>hc_auto = True, hc_state = [], hc_custom = [], hc_excluded = []\<rparr>"

definition default_visitor_settings :: "holiday_source \<Rightarrow> int \<Rightarrow> visitor_settings" where
  "default_visitor_settings src year =
     \<lparr>vs_monthly_cap = 4, vs_slots = 10, vs_approval_minutes = 15, vs_owner_approval = True, vs_buffer = 120,
      vs_urgent_hours = 24, vs_weekdays = [1, 2, 3, 4, 5], vs_holiday = default_holiday_config,
      vs_resolved = resolve_condo_holidays src year default_holiday_config, vs_auto_approve = True,
      vs_count_pending = True, vs_plate_photo = True, vs_purpose = PU_VISITOR\<rparr>"

definition parse_positive_int :: "json \<Rightarrow> int \<Rightarrow> int" where
  "parse_positive_int j fallback =
     (case j of JNum x \<Rightarrow> if x > 0 \<and> of_int \<lfloor>x\<rfloor> = x then \<lfloor>x\<rfloor> else fallback | _ \<Rightarrow> fallback)"

definition parse_purpose :: "json \<Rightarrow> visitor_purpose \<Rightarrow> visitor_purpose" where
  "parse_purpose j fallback =
     (case j of JStr t \<Rightarrow> (case purpose_of t of None \<Rightarrow> fallback | Some p \<Rightarrow> p) | _ \<Rightarrow> fallback)"

text \<open>\<open>Array.isArray(x) ? x.filter(isHolidayDateString) : []\<close>.\<close>

definition date_texts :: "json \<Rightarrow> string list" where
  "date_texts j =
     (case j of JArr js \<Rightarrow> List.map_filter (\<lambda>x. case x of JStr t \<Rightarrow> if is_date_text t then Some t else None | _ \<Rightarrow> None) js
      | _ \<Rightarrow> [])"

text \<open>\<open>parseHolidayConfig\<close>: a record without \<open>holidayAuto\<close> is a legacy one.\<close>

definition parse_holiday_config :: "holiday_source \<Rightarrow> int \<Rightarrow> json \<Rightarrow> holiday_config" where
  "parse_holiday_config src year v =
     (let st = normalize_holiday_state (json_field ''holidayState'' v);
          (legacy, auto) = (case json_field ''holidayAuto'' v of JBool b \<Rightarrow> (False, b) | _ \<Rightarrow> (True, True));
          custom = date_texts (json_field ''customHolidays'' v);
          old = date_texts (json_field ''publicHolidays'' v);
          official = map fst (resolve_my_holidays src st [year, year + 1])
      in \<lparr>hc_auto = auto, hc_state = st,
          hc_custom = (if legacy \<and> custom = [] then filter (\<lambda>d. d \<notin> set official) old else custom),
          hc_excluded = date_texts (json_field ''holidayExclusions'' v)\<rparr>)"

definition positive_num :: "json \<Rightarrow> rat option" where
  "positive_num j = (case j of JNum x \<Rightarrow> if x > 0 then Some x else None | _ \<Rightarrow> None)"

definition parse_weekdays :: "json \<Rightarrow> rat list" where
  "parse_weekdays j =
     (let ws = (case json_field ''weekdays'' j of
          JArr js \<Rightarrow> List.map_filter (\<lambda>x. case x of JNum d \<Rightarrow> if d \<ge> 1 \<and> d \<le> 7 then Some d else None | _ \<Rightarrow> None) js
        | _ \<Rightarrow> [1, 2, 3, 4, 5])
      in if ws = [] then [1, 2, 3, 4, 5] else ws)"

definition is_object :: "json \<Rightarrow> bool" where
  "is_object j = (case j of JObj _ \<Rightarrow> True | JArr _ \<Rightarrow> True | _ \<Rightarrow> False)"

definition parse_visitor_settings :: "holiday_source \<Rightarrow> int \<Rightarrow> json \<Rightarrow> visitor_settings" where
  "parse_visitor_settings src year settings =
     (let v = json_field ''visitor'' settings; f = (\<lambda>k. json_field k v); d = default_visitor_settings src year;
          hc = parse_holiday_config src year v
      in if \<not> is_object v then d
      else
        \<lparr>vs_monthly_cap = (case positive_num (f ''maxOvernightVisitsPerUnitPerMonth'') of Some x \<Rightarrow> x
           | None \<Rightarrow> (case positive_num (f ''maxOvernightVisitsPerOwnerPerMonth'') of Some x \<Rightarrow> x
               | None \<Rightarrow> vs_monthly_cap d)),
         vs_slots = parse_positive_int (f ''overnightSlotsPerNight'') (vs_slots d),
         vs_approval_minutes = parse_positive_int (f ''walkInApprovalMinutes'') (vs_approval_minutes d),
         vs_owner_approval = parse_boolean (f ''walkInRequireOwnerApproval'') (vs_owner_approval d),
         vs_buffer = parse_positive_int (f ''preRegExpiryBufferMins'') (vs_buffer d),
         vs_urgent_hours = parse_positive_int (f ''urgentOvernightMinHours'') (vs_urgent_hours d),
         vs_weekdays = parse_weekdays (f ''workingDays''),
         vs_holiday = hc, vs_resolved = resolve_condo_holidays src year hc,
         vs_auto_approve = parse_boolean (f ''holidayOvernightAutoApprove'') (vs_auto_approve d),
         vs_count_pending = parse_boolean (f ''countPendingTowardCap'') (vs_count_pending d),
         vs_plate_photo = parse_boolean (f ''requirePlatePhotoOvernight'') (vs_plate_photo d),
         vs_purpose = parse_purpose (f ''defaultPurpose'') (vs_purpose d)\<rparr>)"

text \<open>A patch: a field that is not given stays. The holidays are resolved anew.\<close>

record visitor_patch =
  vp_monthly_cap :: "rat option"
  vp_slots :: "int option"
  vp_approval_minutes :: "int option"
  vp_owner_approval :: "bool option"
  vp_buffer :: "int option"
  vp_urgent_hours :: "int option"
  vp_weekdays :: "rat list option"
  vp_auto :: "bool option"
  vp_state :: "string option"
  vp_custom :: "string list option"
  vp_excluded :: "string list option"
  vp_auto_approve :: "bool option"
  vp_count_pending :: "bool option"
  vp_plate_photo :: "bool option"
  vp_purpose :: "visitor_purpose option"

definition patched_settings :: "holiday_source \<Rightarrow> int \<Rightarrow> visitor_settings \<Rightarrow> visitor_patch \<Rightarrow> visitor_settings" where
  "patched_settings src year c p =
     (let hc = \<lparr>hc_auto = given_or (vp_auto p) (hc_auto (vs_holiday c)),
                hc_state = normalize_state (given_or (vp_state p) (hc_state (vs_holiday c))),
                hc_custom = filter is_date_text (given_or (vp_custom p) (hc_custom (vs_holiday c))),
                hc_excluded = filter is_date_text (given_or (vp_excluded p) (hc_excluded (vs_holiday c)))\<rparr>
      in \<lparr>vs_monthly_cap = given_or (vp_monthly_cap p) (vs_monthly_cap c),
          vs_slots = given_or (vp_slots p) (vs_slots c),
          vs_approval_minutes = given_or (vp_approval_minutes p) (vs_approval_minutes c),
          vs_owner_approval = given_or (vp_owner_approval p) (vs_owner_approval c),
          vs_buffer = given_or (vp_buffer p) (vs_buffer c),
          vs_urgent_hours = given_or (vp_urgent_hours p) (vs_urgent_hours c),
          vs_weekdays = given_or (vp_weekdays p) (vs_weekdays c),
          vs_holiday = hc, vs_resolved = resolve_condo_holidays src year hc,
          vs_auto_approve = given_or (vp_auto_approve p) (vs_auto_approve c),
          vs_count_pending = given_or (vp_count_pending p) (vs_count_pending c),
          vs_plate_photo = given_or (vp_plate_photo p) (vs_plate_photo c),
          vs_purpose = given_or (vp_purpose p) (vs_purpose c)\<rparr>)"

definition visitor_settings_json :: "visitor_settings \<Rightarrow> json" where
  "visitor_settings_json x =
     JObj [(''maxOvernightVisitsPerUnitPerMonth'', JNum (vs_monthly_cap x)),
           (''overnightSlotsPerNight'', JNum (of_int (vs_slots x))),
           (''walkInApprovalMinutes'', JNum (of_int (vs_approval_minutes x))),
           (''walkInRequireOwnerApproval'', JBool (vs_owner_approval x)),
           (''preRegExpiryBufferMins'', JNum (of_int (vs_buffer x))),
           (''urgentOvernightMinHours'', JNum (of_int (vs_urgent_hours x))),
           (''workingDays'', JObj [(''weekdays'', JArr (map JNum (vs_weekdays x)))]),
           (''holidayAuto'', JBool (hc_auto (vs_holiday x))),
           (''holidayState'', JStr (hc_state (vs_holiday x))),
           (''customHolidays'', JArr (map JStr (hc_custom (vs_holiday x)))),
           (''holidayExclusions'', JArr (map JStr (hc_excluded (vs_holiday x)))),
           (''publicHolidays'', JArr (map JStr (public_holidays x))),
           (''holidayOvernightAutoApprove'', JBool (vs_auto_approve x)),
           (''countPendingTowardCap'', JBool (vs_count_pending x)),
           (''requirePlatePhotoOvernight'', JBool (vs_plate_photo x)),
           (''defaultPurpose'', JStr (purpose_text (vs_purpose x)))]"

definition merge_visitor_settings :: "holiday_source \<Rightarrow> int \<Rightarrow> json \<Rightarrow> visitor_patch \<Rightarrow> json" where
  "merge_visitor_settings src year raw p =
     JObj (set_field ''visitor''
       (visitor_settings_json (patched_settings src year (parse_visitor_settings src year raw) p)) (as_object raw))"

section \<open>Overnight stays\<close>

text \<open>\<open>d.setHours(0, 0, 0, 0)\<close> in the zone of the host.\<close>

definition start_of_day :: "int \<Rightarrow> int \<Rightarrow> int" where
  "start_of_day z t = (t + z) div day_ms * day_ms - z"

definition is_public_holiday :: "int \<Rightarrow> string list \<Rightarrow> bool" where
  "is_public_holiday t hs \<longleftrightarrow> iso_day t \<in> set hs"

text \<open>\<open>getDay()\<close> with Sunday as 7; 1 January 1970 was a Thursday.\<close>

definition iso_weekday :: "int \<Rightarrow> int \<Rightarrow> int" where
  "iso_weekday z t = (let w = ((t + z) div day_ms + 4) mod 7 in if w = 0 then 7 else w)"

definition is_working_day :: "int \<Rightarrow> visitor_settings \<Rightarrow> int \<Rightarrow> bool" where
  "is_working_day z x t \<longleftrightarrow>
     \<not> is_public_holiday t (public_holidays x) \<and> of_int (iso_weekday z t) \<in> set (vs_weekdays x)"

definition hours_until_arrival :: "int \<Rightarrow> int \<Rightarrow> rat" where
  "hours_until_arrival n t = of_int (t - n) / 3600000"

definition is_urgent_arrival :: "int \<Rightarrow> int \<Rightarrow> visitor_settings \<Rightarrow> bool" where
  "is_urgent_arrival n t x \<longleftrightarrow> hours_until_arrival n t < of_int (vs_urgent_hours x)"

text \<open>Until ten o'clock of the next day, eight hours at least.\<close>

definition overnight_duration_mins :: "int \<Rightarrow> int \<Rightarrow> int" where
  "overnight_duration_mins z t =
     max (js_round (of_int (start_of_day z t + day_ms + 36000000 - t) / 60000)) 480"

definition night_range :: "int \<Rightarrow> int \<Rightarrow> int \<times> int" where
  "night_range z t = (let a = start_of_day z t in (a, a + day_ms))"

record overnight_outcome =
  oo_approved :: bool
  oo_urgent :: bool
  oo_review :: bool
  oo_minutes :: int
  oo_holiday :: bool

text \<open>\<open>resolveOvernightOutcome\<close>; \<open>None\<close> is the error \<open>OVERNIGHT_SLOTS_FULL\<close>.\<close>

definition resolve_overnight :: "int \<Rightarrow> int \<Rightarrow> int \<Rightarrow> visitor_settings \<Rightarrow> nat \<Rightarrow> overnight_outcome option" where
  "resolve_overnight z n t x occupied =
     (let free_night = \<not> is_working_day z x (start_of_day z t);
          o' = \<lparr>oo_approved = free_night \<and> vs_auto_approve x, oo_urgent = is_urgent_arrival n t x,
                oo_review = free_night \<and> vs_auto_approve x, oo_minutes = overnight_duration_mins z t,
                oo_holiday = free_night \<and> vs_auto_approve x\<rparr>
      in if free_night \<and> vs_auto_approve x then (if int occupied \<ge> vs_slots x then None else Some o')
         else Some o')"

text \<open>The next working day after a day, or the fifteenth day after it.\<close>

fun working_day_within :: "nat \<Rightarrow> int \<Rightarrow> visitor_settings \<Rightarrow> int \<Rightarrow> int" where
  "working_day_within 0 z x cursor = cursor"
| "working_day_within (Suc n) z x cursor =
     (if is_working_day z x cursor then cursor else working_day_within n z x (cursor + day_ms))"

definition next_working_day :: "int \<Rightarrow> visitor_settings \<Rightarrow> int \<Rightarrow> int" where
  "next_working_day z x from_day = working_day_within 14 z x (start_of_day z from_day + day_ms)"

record overnight_preview =
  op_hours :: rat
  op_urgent :: bool
  op_holiday :: bool
  op_working_day :: bool
  op_max :: int
  op_occupied :: nat
  op_remaining :: int
  op_full :: bool
  op_review :: string
  op_message :: string

definition overnight_helper_message :: "int \<Rightarrow> (int \<Rightarrow> string) \<Rightarrow> int \<Rightarrow> int \<Rightarrow> visitor_settings \<Rightarrow> nat \<Rightarrow> overnight_preview" where
  "overnight_helper_message z show_date n t x occupied =
     (let day = start_of_day z t; working = is_working_day z x day; holiday = \<not> working \<and> vs_auto_approve x;
          full = holiday \<and> int occupied \<ge> vs_slots x; review = show_date (next_working_day z x day)
      in \<lparr>op_hours = hours_until_arrival n t, op_urgent = is_urgent_arrival n t x, op_holiday = holiday,
          op_working_day = working, op_max = vs_slots x, op_occupied = occupied,
          op_remaining = max 0 (vs_slots x - int occupied), op_full = full, op_review = review,
          op_message =
            (if holiday then
               (if full then ''No overnight slots left tonight '' @ em_dash @
                   '' contact management or register as urgent and visit the management office.''
                else ''Auto-approved tonight; management reviews '' @ review @ ''.'')
             else if is_urgent_arrival n t x then ''Urgent '' @ em_dash @ '' visit management office before arrival.''
             else ''Management will approve within 1 working day.'')\<rparr>)"

section \<open>The day of a condo\<close>

text \<open>\<open>Number(part)\<close> of the first three parts; a part that is missing or no number is an error.\<close>

definition parse_day_key :: "string \<Rightarrow> (int \<times> int \<times> int) option" where
  "parse_day_key key =
     (let ps = split_on CHR ''-'' key; num = (\<lambda>i. if i < length ps then map_option int (read_nat 0 (ps ! i)) else None)
      in case (num 0, num 1, num 2) of (Some y, Some m, Some d) \<Rightarrow> Some (y, m, d) | _ \<Rightarrow> None)"

definition utc_midnight :: "int \<Rightarrow> int \<Rightarrow> int \<Rightarrow> int" where
  "utc_midnight y m d = make_day (full_year y) (m - 1) d * day_ms"

definition add_days_to_key :: "string \<Rightarrow> int \<Rightarrow> string option" where
  "add_days_to_key key n =
     (case parse_day_key key of None \<Rightarrow> None | Some (y, m, d) \<Rightarrow> Some (iso_day (utc_midnight y m (d + n))))"

text \<open>The binary search for the first time whose day is not before the day of the key.\<close>

function midnight_search :: "(int \<Rightarrow> string) \<Rightarrow> string \<Rightarrow> int \<Rightarrow> int \<Rightarrow> int" where
  "midnight_search day_of key low high =
     (if low < high then
        let mid = (low + high) div 2
        in if day_of mid < key then midnight_search day_of key (mid + 1) high
           else midnight_search day_of key low mid
      else low)"
  by pat_completeness auto
termination by (relation "measure (\<lambda>(day_of, key, low, high). nat (high - low))") auto

declare midnight_search.simps [simp del]

definition zoned_midnight :: "(int \<Rightarrow> string) \<Rightarrow> string \<Rightarrow> int option" where
  "zoned_midnight day_of key =
     (case parse_day_key key of None \<Rightarrow> None
      | Some (y, m, d) \<Rightarrow> Some (midnight_search day_of key (utc_midnight y m (d - 1)) (utc_midnight y m (d + 2))))"

definition condo_day_bounds :: "(int \<Rightarrow> string) \<Rightarrow> int \<Rightarrow> (int \<times> int) option" where
  "condo_day_bounds day_of t =
     (case (zoned_midnight day_of (day_of t), add_days_to_key (day_of t) 1) of
        (Some a, Some next) \<Rightarrow> map_option (\<lambda>b. (a, b)) (zoned_midnight day_of next)
      | _ \<Rightarrow> None)"

end
