(* ===== verification/Visitor_Passes.thy ===== *)
theory Visitor_Passes
  imports Visitor_Rules
begin

text \<open>
  What stands on a pass: Malaysian mobile numbers (shared-types/src/phone.ts), vehicle plates, access
  codes and QR payloads (visitor/access-code.ts). The random numbers of a call are a parameter, the
  sequence of draws it sees. Postgres aborts a serializable transaction only under contention; calls
  run one after the other here, so \<open>withSerializableRetry\<close> runs its transaction once.
\<close>

section \<open>Characters\<close>

definition is_digit :: "char \<Rightarrow> bool" where
  "is_digit c \<longleftrightarrow> digit_val c \<noteq> None"

definition is_letter :: "char \<Rightarrow> bool" where
  "is_letter c = (let n = (of_char (lower_char c) :: nat) in 97 \<le> n \<and> n \<le> 122)"

definition is_hex :: "char \<Rightarrow> bool" where
  "is_hex c \<longleftrightarrow> is_digit c \<or> (let n = (of_char (lower_char c) :: nat) in 97 \<le> n \<and> n \<le> 102)"

section \<open>Phone numbers and plates\<close>

text \<open>\<open>replace(/[\s-]/g, '')\<close>.\<close>

definition compact :: "string \<Rightarrow> string" where
  "compact t = filter (\<lambda>c. \<not> is_space c \<and> c \<noteq> CHR ''-'') t"

definition normalize_phone :: "string \<Rightarrow> string" where
  "normalize_phone input =
     (let t = compact (trim input) in
      if t = [] then []
      else if starts_with ''+60'' t then t
      else if starts_with ''60'' t then ''+'' @ t
      else if starts_with ''0'' t then ''+6'' @ t
      else ''+60'' @ t)"

text \<open>\<open>/^\+60(1\d{8,9})$/\<close>.\<close>

definition is_mobile :: "string \<Rightarrow> bool" where
  "is_mobile t \<longleftrightarrow> starts_with ''+601'' t \<and> length t \<in> {12, 13} \<and> list_all is_digit (drop 4 t)"

definition is_valid_phone :: "string \<Rightarrow> bool" where
  "is_valid_phone input = is_mobile (normalize_phone input)"

definition given_text :: "string option \<Rightarrow> bool" where
  "given_text t \<longleftrightarrow> (case t of None \<Rightarrow> False | Some x \<Rightarrow> trim x \<noteq> [])"

definition resolve_phone :: "string option \<Rightarrow> string option \<Rightarrow> string option" where
  "resolve_phone phone country =
     (if \<not> given_text phone then None
      else
        let t = compact (trim (given_or phone []));
            code = filter (\<lambda>c. \<not> is_space c) (given_or country ''+60'');
            full = (if starts_with ''+'' t then t
                    else if starts_with ''0'' t \<or> starts_with ''1'' t then t else code @ t);
            n = normalize_phone full
        in if is_valid_phone n then Some n else None)"

definition phone_error :: string where
  "phone_error = ''Enter a valid Malaysia mobile number (e.g. +60123456789 or 012-345 6789)''"

definition phone_field :: "string option \<Rightarrow> bool \<Rightarrow> ('s, string option) act" where
  "phone_field phone required =
     (if \<not> given_text phone then
        (if required then throw (BadRequest ''Phone number is required for visitors'') else ret None)
      else
        let n = normalize_phone (given_or phone []) in
        bnd (ensure (is_valid_phone n) (BadRequest phone_error)) (\<lambda>_. ret (Some n)))"

definition phone_for_guard :: "string option \<Rightarrow> string option \<Rightarrow> string option" where
  "phone_for_guard phone country =
     (case resolve_phone phone country of Some t \<Rightarrow> Some t | None \<Rightarrow> map_option trim phone)"

definition normalize_plate :: "string option \<Rightarrow> string option" where
  "normalize_plate plate =
     (case plate of None \<Rightarrow> None
      | Some t \<Rightarrow> let p = compact (to_upper (trim t)) in if p = [] then None else Some p)"

section \<open>Access codes\<close>

definition code_chars :: string where
  "code_chars = ''ABCDEFGHJKMNPQRSTUVWXYZ23456789''"

text \<open>Six draws; \<open>randomInt(n)\<close> is a number below \<open>n\<close>.\<close>

definition access_code :: "(nat \<Rightarrow> nat) \<Rightarrow> string" where
  "access_code draw = map (\<lambda>k. code_chars ! (draw k mod length code_chars)) [0..<6]"

definition code_conflict :: http_error where
  "code_conflict = ServerError ''Access code already in use''"

definition is_code_conflict :: "http_error \<Rightarrow> bool" where
  "is_code_conflict err = (case err of UniqueViolation _ \<Rightarrow> True | _ \<Rightarrow> err = code_conflict)"

text \<open>\<open>withUniqueAccessCodeRetry\<close>, for a number of attempts; the last error is thrown.\<close>

fun try_codes :: "nat \<Rightarrow> (nat \<Rightarrow> nat) \<Rightarrow> (string \<Rightarrow> ('s, 'a) act) \<Rightarrow> ('s, 'a) act" where
  "try_codes 0 draw allocate = throw (ServerError (''Could not allocate access code '' @ em_dash @ '' try again''))"
| "try_codes (Suc n) draw allocate = (\<lambda>s.
     case allocate (access_code draw) s of
       (Inr x, t) \<Rightarrow> (Inr x, t)
     | (Inl err, t) \<Rightarrow> if is_code_conflict err \<and> 0 < n then try_codes n (\<lambda>k. draw (k + 6)) allocate t else (Inl err, t))"

definition with_unique_code :: "(nat \<Rightarrow> nat) \<Rightarrow> (string \<Rightarrow> ('s, 'a) act) \<Rightarrow> ('s, 'a) act" where
  "with_unique_code = try_codes 8"

section \<open>What the gate reads\<close>

definition qr_payload :: "string \<Rightarrow> string \<Rightarrow> string \<Rightarrow> string" where
  "qr_payload condo i code = condo @ '':'' @ i @ '':'' @ code"

definition parse_qr :: "string \<Rightarrow> (string \<times> string \<times> string) option" where
  "parse_qr payload =
     (case split_on CHR '':'' (trim payload) of
        [condo, i, code] \<Rightarrow>
          if condo = [] \<or> i = [] \<or> code = [] then None else Some (condo, i, to_upper code)
      | _ \<Rightarrow> None)"

text \<open>\<open>UUID_RE\<close>: eight, four, four, four and twelve hexadecimal digits, with version and variant.\<close>

definition is_uuid :: "string \<Rightarrow> bool" where
  "is_uuid t \<longleftrightarrow>
     length t = 36 \<and>
     list_all (\<lambda>k. if k \<in> {8, 13, 18, 23} then t ! k = CHR ''-'' else is_hex (t ! k)) [0..<36] \<and>
     t ! 14 \<in> {CHR ''1'', CHR ''2'', CHR ''3'', CHR ''4'', CHR ''5''} \<and>
     lower_char (t ! 19) \<in> {CHR ''8'', CHR ''9'', CHR ''a'', CHR ''b''}"

definition normalize_pass :: "string \<Rightarrow> string" where
  "normalize_pass pass =
     (let t = trim pass in
      if is_uuid t then to_lower t
      else if t \<noteq> [] \<and> length t \<le> 8 \<and> list_all (\<lambda>c. is_digit c \<or> is_letter c) t then to_upper t
      else t)"

definition is_visitor_id :: "string \<Rightarrow> bool" where
  "is_visitor_id pass = is_uuid (trim pass)"

end
