(* ===== verification/Visitor_Db.thy ===== *)
theory Visitor_Db
  imports Visitor_Passes
begin

text \<open>
  The rows of the visitor services (schema.prisma: Visitor, VisitorCheckIn, FavouriteVisitor,
  UnitVisitorPolicy, VisitorBlacklist, RecurringPass), the calls' surroundings, and the reads and
  writes the services share. The tables stand beside those of the access-restriction service, whose
  billing database holds the condos, the units and the audit log.

  Ownerships, tenancies and users are tables that only other services write; so are the access
  codes of approved form submissions. Every call is atomic.
\<close>

section \<open>Rows\<close>

datatype visit_type = PRE_REG | WALKIN_UNIT | WALKIN_OFFICE

datatype entry_mode = WALK_IN | DRIVE_IN

datatype visitor_status =
    PENDING_OWNER_APPROVAL | PENDING_MANAGEMENT_APPROVAL | APPROVED | REJECTED
  | CHECKED_IN | CHECKED_OUT | EXPIRED | CANCELLED

fun status_text :: "visitor_status \<Rightarrow> string" where
  "status_text PENDING_OWNER_APPROVAL = ''PENDING_OWNER_APPROVAL''"
| "status_text PENDING_MANAGEMENT_APPROVAL = ''PENDING_MANAGEMENT_APPROVAL''"
| "status_text APPROVED = ''APPROVED''"
| "status_text REJECTED = ''REJECTED''"
| "status_text CHECKED_IN = ''CHECKED_IN''"
| "status_text CHECKED_OUT = ''CHECKED_OUT''"
| "status_text EXPIRED = ''EXPIRED''"
| "status_text CANCELLED = ''CANCELLED''"

datatype pass_kind = STANDARD_PASS | DELIVERY_PASS | E_HAILING_PASS

datatype platform = GRABFOOD | FOODPANDA | SHOPEE_FOOD | GRAB | OTHER_PLATFORM

record visitor =
  vi_id :: string
  vi_condo :: string
  vi_type :: visit_type
  vi_kind :: pass_kind
  vi_platform :: "platform option"
  vi_unit :: "string option"
  vi_host :: "string option"
  vi_name :: string
  vi_ident :: "string option"
  vi_phone :: "string option"
  vi_country :: string
  vi_entry :: entry_mode
  vi_plate :: "string option"
  vi_photo :: "string option"
  vi_mismatch :: bool
  vi_purpose :: visitor_purpose
  vi_overnight :: bool
  vi_urgent :: bool
  vi_urgent_reason :: "string option"
  vi_review :: bool
  vi_expected :: int
  vi_duration :: "int option"
  vi_qr :: "string option"
  vi_payload :: "string option"
  vi_code :: "string option"
  vi_expires :: "int option"
  vi_deadline :: "int option"
  vi_status :: visitor_status
  vi_approver :: "string option"
  vi_approved_at :: "int option"
  vi_admitted :: "string option"
  vi_cancelled :: "int option"
  vi_meta :: "(string \<times> json) list"
  vi_created :: int
  vi_updated :: int

text \<open>A row with the defaults of the schema, created at \<open>n\<close>.\<close>

definition blank_visitor :: "string \<Rightarrow> string \<Rightarrow> int \<Rightarrow> visitor" where
  "blank_visitor i condo n =
     \<lparr>vi_id = i, vi_condo = condo, vi_type = PRE_REG, vi_kind = STANDARD_PASS, vi_platform = None, vi_unit = None,
      vi_host = None, vi_name = [], vi_ident = None, vi_phone = None, vi_country = ''+60'', vi_entry = WALK_IN,
      vi_plate = None, vi_photo = None, vi_mismatch = False, vi_purpose = PU_VISITOR, vi_overnight = False,
      vi_urgent = False, vi_urgent_reason = None, vi_review = False, vi_expected = n, vi_duration = None,
      vi_qr = None, vi_payload = None, vi_code = None, vi_expires = None, vi_deadline = None,
      vi_status = APPROVED, vi_approver = None, vi_approved_at = None, vi_admitted = None, vi_cancelled = None,
      vi_meta = [], vi_created = n, vi_updated = n\<rparr>"

record check_in =
  ci_id :: string
  ci_visitor :: string
  ci_at :: int
  ci_guard :: "string option"
  ci_out :: "int option"
  ci_out_guard :: "string option"
  ci_gate :: "string option"
  ci_notes :: "string option"

record favourite =
  fv_id :: string
  fv_user :: string
  fv_unit :: string
  fv_name :: string
  fv_phone :: "string option"
  fv_country :: string
  fv_entry :: entry_mode
  fv_plate :: "string option"
  fv_notes :: "string option"

record unit_policy =
  up_id :: string
  up_condo :: string
  up_unit :: string
  up_user :: string
  up_until :: "int option"
  up_reason :: "string option"

record blacklist_entry =
  bl_id :: string
  bl_condo :: string
  bl_name :: "string option"
  bl_phone :: "string option"
  bl_plate :: "string option"
  bl_number :: "string option"
  bl_reason :: string
  bl_by :: string
  bl_expires :: "int option"
  bl_active :: bool
  bl_created :: int

record recurring_pass =
  rp_id :: string
  rp_condo :: string
  rp_unit :: string
  rp_host :: string
  rp_guest :: string
  rp_phone :: "string option"
  rp_plate :: "string option"
  rp_schedule :: json
  rp_from :: int
  rp_until :: int
  rp_code :: "string option"
  rp_payload :: "string option"
  rp_qr :: "string option"
  rp_active :: bool

record ownership =
  ow_id :: string
  ow_unit :: string
  ow_user :: string
  ow_share :: rat
  ow_active :: bool
  ow_primary :: bool
  ow_start :: int
  ow_end :: "int option"

record user_row =
  us_id :: string
  us_name :: string
  us_email :: string
  us_phone :: "string option"

datatype visitor_event =
    VisitorCreated string string
  | VisitorApproved string string
  | WalkInRequested string string
  | WalkInAdmitted string string
  | VisitorCheckedIn string string
  | VisitorCheckedOut string string bool
  | VisitorRejected string string
  | VisitorCancelled string string

text \<open>A notification: to whom, which kind, title, body.\<close>

datatype notice_kind = ACCESS_REVOKED | ACCESS_GRANTED

record notice =
  no_users :: "string list"
  no_kind :: notice_kind
  no_title :: string
  no_body :: string

section \<open>State and surroundings\<close>

text \<open>
  \<open>vd_zone\<close> is the time zone column of the condo rows, \<open>vd_numbers\<close> the identifier column of the
  unit rows, \<open>vd_forms\<close> the condos and codes of form submissions.
\<close>

record visitor_db =
  vd_access :: access_db
  vd_zone :: "string \<Rightarrow> string"
  vd_numbers :: "string \<Rightarrow> string"
  vd_owners :: "ownership list"
  vd_tenants :: "(string \<times> string) list"
  vd_users :: "user_row list"
  vd_forms :: "(string \<times> string) list"
  vd_visitors :: "visitor list"
  vd_checkins :: "check_in list"
  vd_favourites :: "favourite list"
  vd_policies :: "unit_policy list"
  vd_blacklist :: "blacklist_entry list"
  vd_passes :: "recurring_pass list"
  vd_events :: "visitor_event list"
  vd_notices :: "notice list"

type_synonym 'a vsvc = "(visitor_db, 'a) act"

text \<open>
  What a call sees: the clock, the URL parser, the offset of the host's zone, the holidays, the
  texts of times (the day key, weekday and time of day in a zone, and the renderings for people), the
  text of a number, and its random draws.
\<close>

record visit_env =
  ve_svc :: env
  ve_url :: url_parser
  ve_host :: int
  ve_holidays :: holiday_source
  ve_day :: "string \<Rightarrow> int \<Rightarrow> string"
  ve_weekday :: "string \<Rightarrow> int \<Rightarrow> string"
  ve_clock :: "string \<Rightarrow> int \<Rightarrow> string"
  ve_date_text :: "int \<Rightarrow> string"
  ve_time_text :: "int \<Rightarrow> string"
  ve_review_text :: "int \<Rightarrow> string"
  ve_number :: "rat \<Rightarrow> string"
  ve_draw :: "nat \<Rightarrow> nat"

abbreviation ve_now :: "visit_env \<Rightarrow> int" where
  "ve_now e \<equiv> now (ve_svc e)"

abbreviation visit_access :: "'a asvc \<Rightarrow> 'a vsvc" where
  "visit_access \<equiv> on_part vd_access vd_access_update"

abbreviation visit_base :: "'a svc \<Rightarrow> 'a vsvc" where
  "visit_base m \<equiv> visit_access (on_base m)"

definition vdb :: "visitor_db \<Rightarrow> bdb" where
  "vdb s = ad_base (vd_access s)"

definition find_condo :: "string \<Rightarrow> visitor_db \<Rightarrow> condo_row option" where
  "find_condo condo s = find_row co_id condo (condos (vdb s))"

definition find_unit :: "string \<Rightarrow> visitor_db \<Rightarrow> unit_row option" where
  "find_unit unit s = find_row un_id unit (units (vdb s))"

definition find_visitor :: "string \<Rightarrow> visitor_db \<Rightarrow> visitor option" where
  "find_visitor i s = find_row vi_id i (vd_visitors s)"

definition condo_json :: "string \<Rightarrow> visitor_db \<Rightarrow> json" where
  "condo_json condo s = (case find_condo condo s of None \<Rightarrow> JNull | Some c \<Rightarrow> co_settings c)"

definition visit_settings :: "visit_env \<Rightarrow> json \<Rightarrow> visitor_settings" where
  "visit_settings e j = parse_visitor_settings (ve_holidays e) (this_year (ve_svc e)) j"

section \<open>Writes\<close>

text \<open>\<open>@@unique([condoId, accessCode])\<close>, \<open>qrPayload @unique\<close> and \<open>qrCode @unique\<close> against the other rows.\<close>

definition same_given :: "'a option \<Rightarrow> 'a option \<Rightarrow> bool" where
  "same_given x y \<longleftrightarrow> x \<noteq> None \<and> x = y"

definition visitor_clash :: "visitor \<Rightarrow> visitor list \<Rightarrow> string option" where
  "visitor_clash v vs =
     (let others = filter (\<lambda>w. vi_id w \<noteq> vi_id v) vs in
      if list_ex (\<lambda>w. vi_condo w = vi_condo v \<and> same_given (vi_code v) (vi_code w)) others
        then Some ''visitors_condoId_accessCode_key''
      else if list_ex (\<lambda>w. same_given (vi_payload v) (vi_payload w)) others then Some ''visitors_qrPayload_key''
      else if list_ex (\<lambda>w. same_given (vi_qr v) (vi_qr w)) others then Some ''visitors_qrCode_key''
      else None)"

definition assert_no_clash :: "visitor \<Rightarrow> unit vsvc" where
  "assert_no_clash v =
     bnd (gets (\<lambda>s. visitor_clash v (vd_visitors s))) (\<lambda>clash.
     case clash of None \<Rightarrow> ret () | Some index \<Rightarrow> throw (UniqueViolation index))"

text \<open>\<open>visitor.create\<close>: the data are the changes to a row of defaults.\<close>

definition insert_visitor :: "visit_env \<Rightarrow> string \<Rightarrow> (visitor \<Rightarrow> visitor) \<Rightarrow> visitor vsvc" where
  "insert_visitor e condo data =
     bnd (visit_base new_id) (\<lambda>i.
     let v = data (blank_visitor i condo (ve_now e)) in
     bnd (assert_no_clash v) (\<lambda>_.
     bnd (modify (\<lambda>s. s\<lparr>vd_visitors := add_row v (vd_visitors s)\<rparr>)) (\<lambda>_. ret v)))"

text \<open>\<open>visitor.update\<close> with data that leave the unique columns alone.\<close>

definition set_visitor :: "visit_env \<Rightarrow> string \<Rightarrow> (visitor \<Rightarrow> visitor) \<Rightarrow> unit vsvc" where
  "set_visitor e i f =
     modify (\<lambda>s. s\<lparr>vd_visitors := set_row vi_id i (\<lambda>v. (f v)\<lparr>vi_updated := ve_now e\<rparr>) (vd_visitors s)\<rparr>)"

definition set_status :: "visit_env \<Rightarrow> string \<Rightarrow> visitor_status \<Rightarrow> unit vsvc" where
  "set_status e i st = set_visitor e i (\<lambda>v. v\<lparr>vi_status := st\<rparr>)"

definition read_visitor :: "string \<Rightarrow> visitor vsvc" where
  "read_visitor i =
     bnd (gets (find_visitor i)) (\<lambda>found. need found (NotFound ''No Visitor found''))"

text \<open>The pass fields: code, payload and QR code of a row. \<open>assert_no_clash\<close> is the unique indexes.\<close>

definition pass_fields :: "string \<Rightarrow> visitor \<Rightarrow> visitor" where
  "pass_fields code v =
     (let p = qr_payload (vi_condo v) (vi_id v) code in v\<lparr>vi_code := Some code, vi_payload := Some p, vi_qr := Some p\<rparr>)"

definition write_pass :: "visit_env \<Rightarrow> string \<Rightarrow> (visitor \<Rightarrow> visitor) \<Rightarrow> string \<Rightarrow> visitor vsvc" where
  "write_pass e i f code =
     bnd (read_visitor i) (\<lambda>v.
     bnd (assert_no_clash (pass_fields code (f v))) (\<lambda>_.
     bnd (set_visitor e i (\<lambda>v. pass_fields code (f v))) (\<lambda>_. read_visitor i)))"

definition insert_check_in :: "visit_env \<Rightarrow> string \<Rightarrow> string \<Rightarrow> string option \<Rightarrow> string option \<Rightarrow> check_in vsvc" where
  "insert_check_in e visitor guard gate notes =
     bnd (visit_base new_id) (\<lambda>i.
     let c = \<lparr>ci_id = i, ci_visitor = visitor, ci_at = ve_now e, ci_guard = Some guard, ci_out = None,
              ci_out_guard = None, ci_gate = gate, ci_notes = notes\<rparr> in
     bnd (modify (\<lambda>s. s\<lparr>vd_checkins := add_row c (vd_checkins s)\<rparr>)) (\<lambda>_. ret c))"

definition close_check_in :: "string \<Rightarrow> int \<Rightarrow> string option \<Rightarrow> unit vsvc" where
  "close_check_in i t guard =
     modify (\<lambda>s. s\<lparr>vd_checkins := set_row ci_id i (\<lambda>c. c\<lparr>ci_out := Some t, ci_out_guard := guard\<rparr>) (vd_checkins s)\<rparr>)"

definition visit_audit ::
  "string \<Rightarrow> string option \<Rightarrow> auth_user \<Rightarrow> audit_action \<Rightarrow> string \<Rightarrow> string \<Rightarrow> meta \<Rightarrow> unit vsvc" where
  "visit_audit condo unit u action resource i m =
     visit_base (log_audit \<lparr>au_condo = condo, au_unit = unit, au_actor = Some (user_id u), au_action = action,
       au_resource = resource, au_resource_id = i, au_meta = m\<rparr>)"

definition emit_visit :: "visitor_event \<Rightarrow> unit vsvc" where
  "emit_visit v = modify (\<lambda>s. s\<lparr>vd_events := vd_events s @ [v]\<rparr>)"

definition send_notice :: "notice \<Rightarrow> unit vsvc" where
  "send_notice x = modify (\<lambda>s. s\<lparr>vd_notices := vd_notices s @ [x]\<rparr>)"

section \<open>Codes in use\<close>

definition code_taken :: "string \<Rightarrow> string \<Rightarrow> visitor_db \<Rightarrow> bool" where
  "code_taken condo code s \<longleftrightarrow>
     list_ex (\<lambda>v. vi_condo v = condo \<and> vi_code v = Some code) (vd_visitors s) \<or>
     list_ex (\<lambda>p. rp_condo p = condo \<and> rp_code p = Some code) (vd_passes s) \<or>
     (condo, code) \<in> set (vd_forms s)"

definition assert_code_free :: "string \<Rightarrow> string \<Rightarrow> unit vsvc" where
  "assert_code_free condo code =
     bnd (gets (code_taken condo code)) (\<lambda>taken. ensure (\<not> taken) code_conflict)"

section \<open>Guards\<close>

definition grants_gate :: "unit \<Rightarrow> role_assignment \<Rightarrow> bool" where
  "grants_gate _ r \<longleftrightarrow> is_super r \<or> role r = SECURITY_GUARD"

definition assert_gate_operator :: "auth_user \<Rightarrow> unit vsvc" where
  "assert_gate_operator u =
     ensure (some_role (grants_gate ()) u) (Forbidden ''Only security guards can perform gate operations'')"

interpretation gate_gate: role_gate grants_gate
  by unfold_locales (simp add: grants_gate_def)

definition is_guard :: "auth_user \<Rightarrow> bool" where
  "is_guard u = some_role (\<lambda>r. role r = SECURITY_GUARD) u"

definition guard_condo :: "string option \<Rightarrow> string vsvc" where
  "guard_condo active =
     bnd (ensure (truthy active) (BadRequest ''Active condo context required'')) (\<lambda>_. ret (given_or active []))"

definition can_approve_unit :: "auth_user \<Rightarrow> string \<Rightarrow> bool" where
  "can_approve_unit u unit = some_role (\<lambda>r. role_unit r = Some unit \<and> role r \<in> {UNIT_OWNER, TENANT}) u"

definition can_manage_unit :: "auth_user \<Rightarrow> string \<Rightarrow> bool" where
  "can_manage_unit u unit =
     some_role (\<lambda>r. role_unit r = Some unit \<and> role r \<in> {UNIT_OWNER, TENANT, HOUSEHOLD_MEMBER}) u"

definition is_visit_management :: "auth_user \<Rightarrow> string \<Rightarrow> bool" where
  "is_visit_management u condo = condo_management u condo False"

definition is_visit_member :: "auth_user \<Rightarrow> string \<Rightarrow> bool" where
  "is_visit_member u condo = some_role (grants_member condo) u"

definition assert_unit_access :: "auth_user \<Rightarrow> string \<Rightarrow> unit vsvc" where
  "assert_unit_access u unit =
     (if can_manage_unit u unit then ret ()
      else bnd (gets (find_unit unit)) (\<lambda>found.
        bnd (need found (NotFound ''Unit not found'')) (\<lambda>un.
        ensure (is_visit_management u (un_condo un)) (Forbidden ''You cannot access visitors for this unit''))))"

section \<open>Times\<close>

definition add_minutes :: "int \<Rightarrow> int \<Rightarrow> int" where
  "add_minutes t mins = t + mins * 60000"

definition timezone :: "string \<Rightarrow> visitor_db \<Rightarrow> string" where
  "timezone condo s = (if find_condo condo s = None then ''Asia/Kuala_Lumpur'' else vd_zone s condo)"

definition day_bounds :: "visit_env \<Rightarrow> string \<Rightarrow> (int \<times> int) vsvc" where
  "day_bounds e condo =
     bnd (gets (timezone condo)) (\<lambda>z.
     need (condo_day_bounds (ve_day e z) (ve_now e)) (ServerError (''Invalid day key: '' @ ve_day e z (ve_now e))))"

text \<open>The first of a month of a year and the first of the next, in the host's zone, and the month's text.\<close>

definition month_range :: "int \<Rightarrow> int \<Rightarrow> int \<Rightarrow> int \<times> int" where
  "month_range z y m = (make_day (full_year y) m 1 * day_ms - z, make_day (full_year y) (m + 1) 1 * day_ms - z)"

definition calendar_month :: "int \<Rightarrow> int \<Rightarrow> (int \<times> int) \<times> string" where
  "calendar_month z t =
     (let (y, m, d) = civil_of_day ((t + z) div day_ms) in (month_range z y m, show_int y @ ''-'' @ iso_two (m + 1)))"

definition month_param :: "int \<Rightarrow> int \<Rightarrow> string option \<Rightarrow> (int \<times> int) \<times> string" where
  "month_param z n month =
     (case month of None \<Rightarrow> calendar_month z n
      | Some t \<Rightarrow>
        (case (digits_at 0 4 t, digits_at 5 2 t) of
           (Some y, Some m) \<Rightarrow>
             if length t = 7 \<and> t ! 4 = CHR ''-'' then (month_range z y (m - 1), t) else calendar_month z n
         | _ \<Rightarrow> calendar_month z n))"

end
