(* ===== verification/Visitor_Gate.thy ===== *)
theory Visitor_Gate
  imports Visitor_Db
begin

text \<open>
  The gate (visitor/visitor.service.ts): passes that lapse, visits the system closes at the end of
  the condo's day, looking up a pass, checking in and checking out; and the periodic sweep of
  visitor/visitor-auto-close.service.ts.
\<close>

section \<open>Lapsed passes\<close>

definition in_scope :: "string option \<Rightarrow> visitor \<Rightarrow> bool" where
  "in_scope condo v \<longleftrightarrow> truthy condo \<longrightarrow> condo = Some (vi_condo v)"

definition before :: "int option \<Rightarrow> int \<Rightarrow> bool" where
  "before t n = (case t of None \<Rightarrow> False | Some x \<Rightarrow> x < n)"

definition is_stale :: "int \<Rightarrow> visitor \<Rightarrow> bool" where
  "is_stale n v \<longleftrightarrow>
     vi_status v = PENDING_OWNER_APPROVAL \<and> before (vi_deadline v) n \<or>
     vi_status v = APPROVED \<and> before (vi_expires v) n \<and> vi_type v \<in> {PRE_REG, WALKIN_UNIT}"

definition expire_stale :: "visit_env \<Rightarrow> string option \<Rightarrow> unit vsvc" where
  "expire_stale e condo =
     modify (\<lambda>s. s\<lparr>vd_visitors := set_where (\<lambda>v. in_scope condo v \<and> is_stale (ve_now e) v)
       (\<lambda>v. v\<lparr>vi_status := EXPIRED, vi_updated := ve_now e\<rparr>) (vd_visitors s)\<rparr>)"

section \<open>The end of the day\<close>

definition is_walk_in :: "visitor \<Rightarrow> bool" where
  "is_walk_in v \<longleftrightarrow> vi_type v \<in> {WALKIN_UNIT, WALKIN_OFFICE}"

text \<open>\<open>resolveAutoCloseAt\<close>: the time at which the system closes a visit, if it does.\<close>

definition auto_close_at :: "visitor \<Rightarrow> int \<Rightarrow> int \<Rightarrow> int \<Rightarrow> int option" where
  "auto_close_at v came day_start n =
     (let at_midnight = (if came < day_start then Some day_start else None) in
      if is_walk_in v then at_midnight
      else if vi_overnight v then
        (case vi_expires v of
           Some t \<Rightarrow> if t > n then None else Some t
         | None \<Rightarrow> at_midnight)
      else at_midnight)"

text \<open>The open check-ins of a visitor, the latest first.\<close>

definition open_check_ins :: "string \<Rightarrow> visitor_db \<Rightarrow> check_in list" where
  "open_check_ins i s = sort_key (\<lambda>c. - ci_at c) (filter (\<lambda>c. ci_visitor c = i \<and> ci_out c = None) (vd_checkins s))"

definition auto_close_one :: "visit_env \<Rightarrow> string \<Rightarrow> int \<Rightarrow> visitor \<times> check_in list \<Rightarrow> bool vsvc" where
  "auto_close_one e condo day_start = (\<lambda>(v, open_ins).
     case open_ins of [] \<Rightarrow> ret False
     | c # _ \<Rightarrow>
       (case auto_close_at v (ci_at c) day_start (ve_now e) of None \<Rightarrow> ret False
        | Some t \<Rightarrow>
          bnd (close_check_in (ci_id c) t None) (\<lambda>_.
          bnd (set_status e (vi_id v) CHECKED_OUT) (\<lambda>_.
          bnd (emit_visit (VisitorCheckedOut (vi_id v) condo True)) (\<lambda>_. ret True)))))"

definition open_visits :: "string \<Rightarrow> visitor_db \<Rightarrow> (visitor \<times> check_in list) list" where
  "open_visits condo s =
     map (\<lambda>v. (v, open_check_ins (vi_id v) s))
       (filter (\<lambda>v. vi_condo v = condo \<and> vi_status v = CHECKED_IN \<and> open_check_ins (vi_id v) s \<noteq> []) (vd_visitors s))"

definition auto_close :: "visit_env \<Rightarrow> string \<Rightarrow> nat vsvc" where
  "auto_close e condo =
     bnd (day_bounds e condo) (\<lambda>(day_start, day_end).
     bnd (gets (open_visits condo)) (\<lambda>found.
     bnd (for_each found (auto_close_one e condo day_start)) (\<lambda>closed.
     ret (count_where (\<lambda>x. x) closed))))"

text \<open>
  The sweep runs when the lock \<open>schedule:visitor-auto-close\<close> is free; the condos are those with a
  visitor on site.
\<close>

definition auto_close_sweep :: "visit_env \<Rightarrow> bool \<Rightarrow> nat vsvc" where
  "auto_close_sweep e lock_free =
     (if \<not> lock_free then ret 0
      else
        bnd (gets (\<lambda>s. uniq (map vi_condo (filter (\<lambda>v. vi_status v = CHECKED_IN) (vd_visitors s))))) (\<lambda>found.
        bnd (for_each found (auto_close e)) (\<lambda>ns. ret (sum_list ns))))"

section \<open>Looking up a pass\<close>

fun first_some :: "'a option list \<Rightarrow> 'a option" where
  "first_some [] = None"
| "first_some (x # xs) = (case x of None \<Rightarrow> first_some xs | Some y \<Rightarrow> Some y)"

text \<open>By id, by what the QR code says, by the payload, by the QR code, by the access code.\<close>

definition lookup_pass :: "string option \<Rightarrow> string \<Rightarrow> visitor list \<Rightarrow> visitor option" where
  "lookup_pass condo t vs =
     first_some
       [if is_visitor_id t then find_row vi_id t vs else None,
        (case parse_qr t of None \<Rightarrow> None | Some (c, i, code) \<Rightarrow> find (\<lambda>v. vi_id v = i \<and> vi_condo v = c) vs),
        find (\<lambda>v. vi_payload v = Some t) vs,
        find (\<lambda>v. vi_qr v = Some t) vs,
        (if truthy condo then find (\<lambda>v. Some (vi_condo v) = condo \<and> vi_code v = Some t) vs
         else find (\<lambda>v. vi_code v = Some t) vs)]"

definition checked_pass :: "visit_env \<Rightarrow> visitor \<Rightarrow> visitor vsvc" where
  "checked_pass e v =
     bnd (ensure (vi_status v \<noteq> CANCELLED) (BadRequest ''Visitor pass has been cancelled'')) (\<lambda>_.
     bnd (ensure (vi_status v \<noteq> EXPIRED)
       (BadRequest (if vi_type v = WALKIN_UNIT
          then ''Owner did not respond in time '' @ em_dash @ '' contact the resident or ask the visitor to leave''
          else ''Visitor pass has expired''))) (\<lambda>_.
     bnd (ensure (\<not> (vi_overnight v \<and> vi_type v = PRE_REG \<and> vi_status v = APPROVED \<and> vi_expected v > ve_now e))
       (BadRequest (''Pass not yet active '' @ em_dash @ '' valid from '' @ ve_time_text e (vi_expected v)))) (\<lambda>_.
     ret v)))"

definition verify_by_pass :: "visit_env \<Rightarrow> string \<Rightarrow> string option \<Rightarrow> visitor vsvc" where
  "verify_by_pass e pass condo =
     bnd (expire_stale e condo) (\<lambda>_.
     bnd (gets (\<lambda>s. lookup_pass condo (normalize_pass pass) (vd_visitors s))) (\<lambda>found.
     bnd (need found (NotFound (''Unknown pass '' @ em_dash @ '' check the QR or access code''))) (\<lambda>v.
     checked_pass e v)))"

section \<open>Entry and exit\<close>

text \<open>\<open>CheckInVisitorDto\<close>: where, and what the guard notes.\<close>

record check_in_input =
  cn_gate :: "string option"
  cn_notes :: "string option"

definition visit_check_in ::
  "visit_env \<Rightarrow> auth_user \<Rightarrow> string option \<Rightarrow> string \<Rightarrow> check_in_input \<Rightarrow> check_in vsvc" where
  "visit_check_in e g active pass d =
     bnd (assert_gate_operator g) (\<lambda>_.
     bnd (guard_condo active) (\<lambda>condo.
     bnd (verify_by_pass e pass (Some condo)) (\<lambda>v.
     bnd (ensure (vi_condo v = condo) (Forbidden ''Visitor pass is not for this condo'')) (\<lambda>_.
     bnd (ensure (vi_status v \<noteq> CHECKED_IN) (BadRequest ''Visitor already checked in'')) (\<lambda>_.
     bnd (ensure (\<not> (vi_type v = PRE_REG \<and> vi_status v = PENDING_MANAGEMENT_APPROVAL))
       (BadRequest ''Pre-registered visitor is awaiting management approval'')) (\<lambda>_.
     bnd (ensure (vi_status v = APPROVED)
       (BadRequest (''Cannot check in visitor with status '' @ status_text (vi_status v)))) (\<lambda>_.
     if before (vi_expires v) (ve_now e) then
       bnd (set_status e (vi_id v) EXPIRED) (\<lambda>_. throw (BadRequest ''Visitor pass has expired''))
     else
       bnd (txn (
         bnd (set_status e (vi_id v) CHECKED_IN) (\<lambda>_.
         bnd (insert_check_in e (vi_id v) (user_id g) (cn_gate d) (cn_notes d)) (\<lambda>c.
         bnd (visit_audit (vi_condo v) (vi_unit v) g AUDIT_CREATE ''VisitorCheckIn'' (ci_id c) Map.empty) (\<lambda>_.
         ret c))))) (\<lambda>c.
       bnd (emit_visit (VisitorCheckedIn (vi_id v) (vi_condo v))) (\<lambda>_. ret c)))))))))"

definition walk_in_exit_error :: http_error where
  "walk_in_exit_error =
     BadRequest (''Walk-in visits close automatically '' @ em_dash @ '' manual checkout is not used'')"

definition visit_check_out :: "visit_env \<Rightarrow> auth_user \<Rightarrow> string option \<Rightarrow> string \<Rightarrow> check_in vsvc" where
  "visit_check_out e g active pass =
     bnd (assert_gate_operator g) (\<lambda>_.
     bnd (guard_condo active) (\<lambda>condo.
     bnd (gets (\<lambda>s. if is_visitor_id (normalize_pass pass) then find_visitor (normalize_pass pass) s else None)) (\<lambda>by_id.
     bnd (ensure (case by_id of None \<Rightarrow> True | Some v \<Rightarrow> \<not> (vi_condo v = condo \<and> is_walk_in v)) walk_in_exit_error) (\<lambda>_.
     bnd (verify_by_pass e pass (Some condo)) (\<lambda>v.
     bnd (ensure (\<not> is_walk_in v) walk_in_exit_error) (\<lambda>_.
     bnd (gets (\<lambda>s. case open_check_ins (vi_id v) s of [] \<Rightarrow> None | c # _ \<Rightarrow> Some c)) (\<lambda>last.
     bnd (need last (BadRequest ''No active check-in for this visitor'')) (\<lambda>c.
     bnd (close_check_in (ci_id c) (ve_now e) (Some (user_id g))) (\<lambda>_.
     bnd (set_status e (vi_id v) CHECKED_OUT) (\<lambda>_.
     bnd (emit_visit (VisitorCheckedOut (vi_id v) (vi_condo v) False)) (\<lambda>_.
     ret (c\<lparr>ci_out := Some (ve_now e), ci_out_guard := Some (user_id g)\<rparr>))))))))))))"

end
