(* ===== verification/Visitor.thy ===== *)
theory Visitor
  imports Visitor_Gate
begin

text \<open>
  Registering visitors (visitor/visitor.service.ts, visitor/overnight-policy.ts): pre-registrations
  with their overnight rules, quick-entry passes, walk-ins to units and to the office, and the
  decisions of residents, guards and management.
\<close>

section \<open>Overnight policy\<close>

definition counted_overnight :: "visitor_settings \<Rightarrow> visitor_status list" where
  "counted_overnight x =
     (if vs_count_pending x then [PENDING_MANAGEMENT_APPROVAL, APPROVED, CHECKED_IN, CHECKED_OUT]
      else [APPROVED, CHECKED_IN, CHECKED_OUT])"

definition indefinite_until :: int where
  "indefinite_until = make_day 2099 11 31 * day_ms + 86399000"

definition is_indefinite :: "int option \<Rightarrow> bool" where
  "is_indefinite t = (case t of None \<Rightarrow> False | Some x \<Rightarrow> x \<ge> indefinite_until)"

definition is_suspended :: "int \<Rightarrow> unit_policy \<Rightarrow> bool" where
  "is_suspended n p = (case up_until p of None \<Rightarrow> False | Some t \<Rightarrow> t > n)"

definition month_overnight :: "string \<Rightarrow> int \<times> int \<Rightarrow> visitor_settings \<Rightarrow> visitor_db \<Rightarrow> nat" where
  "month_overnight unit period x s =
     count_where (\<lambda>v. vi_unit v = Some unit \<and> vi_overnight v \<and> vi_status v \<in> set (counted_overnight x) \<and>
       fst period \<le> vi_created v \<and> vi_created v < snd period) (vd_visitors s)"

definition suspend_policy :: "int \<Rightarrow> string \<Rightarrow> visitor_db \<Rightarrow> unit_policy option" where
  "suspend_policy n unit s = find (is_suspended n) (filter (\<lambda>p. up_unit p = unit) (vd_policies s))"

record eligibility =
  el_allowed :: bool
  el_reason :: "string option"
  el_count :: nat
  el_limit :: rat
  el_suspended :: bool

definition suspension_reason :: "visit_env \<Rightarrow> unit_policy \<Rightarrow> string" where
  "suspension_reason e p =
     (let label = (if is_indefinite (up_until p) then ''until lifted by management''
                   else case up_until p of None \<Rightarrow> [] | Some t \<Rightarrow> ve_date_text e t) in
      case up_reason p of
        Some r \<Rightarrow> if r \<noteq> [] then ''Overnight registration suspended'' @ (if label = [] then [] else '' '' @ label) @ '': '' @ r
                  else ''Overnight registration is temporarily suspended for this unit '' @ em_dash @ '' contact management''
      | None \<Rightarrow> ''Overnight registration is temporarily suspended for this unit '' @ em_dash @ '' contact management'')"

definition check_eligibility :: "visit_env \<Rightarrow> string \<Rightarrow> visitor_settings \<Rightarrow> visitor_db \<Rightarrow> eligibility" where
  "check_eligibility e unit x s =
     (case suspend_policy (ve_now e) unit s of
        Some p \<Rightarrow> \<lparr>el_allowed = False, el_reason = Some (suspension_reason e p), el_count = 0,
                   el_limit = vs_monthly_cap x, el_suspended = True\<rparr>
      | None \<Rightarrow>
        let n = month_overnight unit (fst (calendar_month (ve_host e) (ve_now e))) x s in
        if of_nat n \<ge> vs_monthly_cap x then
          \<lparr>el_allowed = False,
           el_reason = Some (''Monthly overnight limit reached ('' @ ve_number e (vs_monthly_cap x) @ '' per unit) '' @
             em_dash @ '' contact management''),
           el_count = n, el_limit = vs_monthly_cap x, el_suspended = False\<rparr>
        else \<lparr>el_allowed = True, el_reason = None, el_count = n, el_limit = vs_monthly_cap x, el_suspended = False\<rparr>)"

definition overnight_slots_taken :: "visit_env \<Rightarrow> string \<Rightarrow> int \<Rightarrow> visitor_db \<Rightarrow> nat" where
  "overnight_slots_taken e condo t s =
     (let (a, b) = night_range (ve_host e) t in
      count_where (\<lambda>v. vi_condo v = condo \<and> vi_overnight v \<and>
        vi_status v \<in> {APPROVED, PENDING_MANAGEMENT_APPROVAL, CHECKED_IN} \<and> a \<le> vi_expected v \<and> vi_expected v < b)
        (vd_visitors s))"

definition preview_overnight :: "visit_env \<Rightarrow> auth_user \<Rightarrow> string \<Rightarrow> int \<Rightarrow> overnight_preview vsvc" where
  "preview_overnight e u condo t =
     bnd (ensure (is_visit_member u condo) (Forbidden ''You cannot access overnight rules for this condo'')) (\<lambda>_.
     bnd (gets (find_condo condo)) (\<lambda>found.
     bnd (need found (NotFound ''Condo not found'')) (\<lambda>c.
     bnd (gets (overnight_slots_taken e condo t)) (\<lambda>n.
     ret (overnight_helper_message (ve_host e) (ve_review_text e) (ve_now e) t (visit_settings e (co_settings c)) n)))))"

section \<open>Pre-registrations\<close>

record visitor_input =
  vn_unit :: string
  vn_name :: string
  vn_ident :: "string option"
  vn_phone :: string
  vn_entry :: "entry_mode option"
  vn_plate :: "string option"
  vn_purpose :: "visitor_purpose option"
  vn_expected :: int
  vn_duration :: "int option"
  vn_overnight :: "bool option"
  vn_urgent_reason :: "string option"
  vn_photo :: "string option"

definition input_overnight :: "visitor_input \<Rightarrow> bool" where
  "input_overnight d = given_or (vn_overnight d) False"

definition input_entry :: "visitor_input \<Rightarrow> entry_mode" where
  "input_entry d = (if input_overnight d then DRIVE_IN else given_or (vn_entry d) DRIVE_IN)"

definition validate_overnight :: "visit_env \<Rightarrow> visitor_input \<Rightarrow> string \<Rightarrow> visitor_settings \<Rightarrow> unit vsvc" where
  "validate_overnight e d unit x =
     bnd (ensure (given_text (vn_plate d))
       (BadRequest ''Overnight visits require a typed plate number that matches your photo'')) (\<lambda>_.
     bnd (ensure (\<not> (vs_plate_photo x \<and> \<not> given_text (vn_photo d)))
       (BadRequest (''Overnight visits require a vehicle plate photo '' @ em_dash @
         '' capture the plate on mobile or upload a photo that matches the typed plate''))) (\<lambda>_.
     bnd (gets (check_eligibility e unit x)) (\<lambda>el.
     bnd (ensure (el_allowed el) (BadRequest (given_or (el_reason el) ''Overnight registration not allowed''))) (\<lambda>_.
     ensure (\<not> (is_urgent_arrival (ve_now e) (vn_expected d) x \<and> \<not> given_text (vn_urgent_reason d)))
       (BadRequest (''Urgent overnight visits require a brief reason '' @ em_dash @
         '' visit management office before arrival''))))))"

definition validate_pre_reg :: "visit_env \<Rightarrow> visitor_input \<Rightarrow> string \<Rightarrow> visitor_settings \<Rightarrow> unit vsvc" where
  "validate_pre_reg e d unit x =
     bnd (phone_field (Some (vn_phone d)) True) (\<lambda>_.
     bnd (ensure (\<not> (input_overnight d \<and> vn_entry d = Some WALK_IN))
       (BadRequest (''Overnight stays are only for drive-in pre-registrations '' @ em_dash @ '' vehicle park overnight''))) (\<lambda>_.
     bnd (ensure (\<not> (input_entry d = DRIVE_IN \<and> \<not> given_text (vn_plate d)))
       (BadRequest ''Plate number is required for drive-in visitors'')) (\<lambda>_.
     only_if (input_overnight d) (validate_overnight e d unit x))))"

definition pre_reg_expires :: "int \<Rightarrow> int option \<Rightarrow> visitor_settings \<Rightarrow> int" where
  "pre_reg_expires t duration x = add_minutes t (given_or duration 120 + vs_buffer x)"

definition slots_full_error :: http_error where
  "slots_full_error =
     BadRequest (''No overnight slots left tonight '' @ em_dash @
       '' contact management or register as urgent and visit the management office'')"

text \<open>The outcome of a visit by day: approved at once.\<close>

definition day_outcome :: "visitor_input \<Rightarrow> overnight_outcome" where
  "day_outcome d =
     \<lparr>oo_approved = True, oo_urgent = False, oo_review = False, oo_minutes = given_or (vn_duration d) 120, oo_holiday = False\<rparr>"

definition overnight_result :: "visit_env \<Rightarrow> string \<Rightarrow> visitor_input \<Rightarrow> visitor_settings \<Rightarrow> overnight_outcome vsvc" where
  "overnight_result e condo d x =
     bnd (gets (overnight_slots_taken e condo (vn_expected d))) (\<lambda>n.
     need (resolve_overnight (ve_host e) (ve_now e) (vn_expected d) x n) slots_full_error)"

definition pre_reg_data ::
  "visit_env \<Rightarrow> auth_user \<Rightarrow> visitor_input \<Rightarrow> string \<Rightarrow> string option \<Rightarrow> visitor_settings \<Rightarrow> overnight_outcome \<Rightarrow> visitor \<Rightarrow> visitor" where
  "pre_reg_data e u d unit phone x o' v =
     v\<lparr>vi_type := PRE_REG, vi_unit := Some unit, vi_host := Some (user_id u), vi_name := vn_name d,
       vi_ident := vn_ident d, vi_phone := phone, vi_country := ''+60'', vi_entry := input_entry d,
       vi_plate := (if input_entry d = DRIVE_IN then map_option trim (vn_plate d) else None),
       vi_photo := (if input_overnight d then map_option trim (vn_photo d) else None),
       vi_purpose := given_or (vn_purpose d) (vs_purpose x), vi_overnight := input_overnight d,
       vi_urgent := oo_urgent o',
       vi_urgent_reason := (if oo_urgent o' then map_option trim (vn_urgent_reason d) else None),
       vi_review := oo_review o', vi_expected := vn_expected d, vi_duration := Some (oo_minutes o'),
       vi_status := (if oo_approved o' then APPROVED else PENDING_MANAGEMENT_APPROVAL),
       vi_approver := (if oo_approved o' then Some (user_id u) else None),
       vi_approved_at := (if oo_approved o' then Some (ve_now e) else None),
       vi_expires := (if oo_approved o' then Some (pre_reg_expires (vn_expected d) (Some (oo_minutes o')) x) else None),
       vi_qr := None\<rparr>"

text \<open>A new row with its pass: the payload names the row, so it is written once the row has its id.\<close>

definition insert_with_pass :: "visit_env \<Rightarrow> string \<Rightarrow> (visitor \<Rightarrow> visitor) \<Rightarrow> string \<Rightarrow> visitor vsvc" where
  "insert_with_pass e condo data code =
     bnd (insert_visitor e condo (\<lambda>v. (data v)\<lparr>vi_code := Some code, vi_payload := Some (qr_payload condo ''pending'' code)\<rparr>)) (\<lambda>v.
     write_pass e (vi_id v) (\<lambda>v. v) code)"

definition issue_pass :: "visit_env \<Rightarrow> string \<Rightarrow> (visitor \<Rightarrow> visitor) \<Rightarrow> visitor vsvc" where
  "issue_pass e condo data =
     with_unique_code (ve_draw e) (\<lambda>code.
       bnd (assert_code_free condo code) (\<lambda>_. insert_with_pass e condo data code))"

definition create_visitor :: "visit_env \<Rightarrow> auth_user \<Rightarrow> visitor_input \<Rightarrow> visitor vsvc" where
  "create_visitor e u d =
     bnd (gets (find_unit (vn_unit d))) (\<lambda>found.
     bnd (need found (NotFound ''Unit not found'')) (\<lambda>un.
     bnd (ensure (can_manage_unit u (un_id un))
       (Forbidden ''You can only pre-register visitors for your own units'')) (\<lambda>_.
     bnd (visit_access (assert_not_restricted (ve_url e) u (un_id un) CAP_VISITORS)) (\<lambda>_.
     bnd (gets (\<lambda>s. visit_settings e (condo_json (un_condo un) s))) (\<lambda>x.
     bnd (validate_pre_reg e d (un_id un) x) (\<lambda>_.
     bnd (if input_overnight d then overnight_result e (un_condo un) d x else ret (day_outcome d)) (\<lambda>o'.
     bnd (phone_field (Some (vn_phone d)) True) (\<lambda>phone.
     let data = pre_reg_data e u d (un_id un) phone x o'; condo = un_condo un in
     bnd (if input_overnight d then
            txn (bnd (overnight_result e condo d x) (\<lambda>_.
              if oo_approved o' then issue_pass e condo data else insert_visitor e condo data))
          else if oo_approved o' then issue_pass e condo data
          else insert_visitor e condo data) (\<lambda>v.
     bnd (emit_visit (VisitorCreated (vi_id v) (vi_condo v))) (\<lambda>_. ret v))))))))))"

section \<open>Quick-entry passes\<close>

datatype quick_kind = QUICK_DELIVERY | QUICK_E_HAILING

fun platform_label :: "platform \<Rightarrow> string" where
  "platform_label GRABFOOD = ''GrabFood''"
| "platform_label FOODPANDA = ''Foodpanda''"
| "platform_label SHOPEE_FOOD = ''Shopee Food''"
| "platform_label GRAB = ''Grab''"
| "platform_label OTHER_PLATFORM = ''Other''"

fun quick_pass_kind :: "quick_kind \<Rightarrow> pass_kind" where
  "quick_pass_kind QUICK_DELIVERY = DELIVERY_PASS"
| "quick_pass_kind QUICK_E_HAILING = E_HAILING_PASS"

definition quick_pass_name :: "quick_kind \<Rightarrow> platform \<Rightarrow> string" where
  "quick_pass_name k p = platform_label p @ (if k = QUICK_E_HAILING then '' driver'' else '' delivery'')"

definition quick_duration :: "quick_kind \<Rightarrow> int option \<Rightarrow> int" where
  "quick_duration k requested =
     (case requested of Some m \<Rightarrow> m | None \<Rightarrow> if k = QUICK_E_HAILING then 180 else 120)"

definition quick_expires :: "int \<Rightarrow> int \<Rightarrow> int" where
  "quick_expires t duration = add_minutes t (duration + 30)"

record quick_input =
  qn_unit :: string
  qn_kind :: quick_kind
  qn_platform :: platform
  qn_name :: "string option"
  qn_plate :: "string option"
  qn_expected :: int
  qn_duration :: "int option"

definition quick_data :: "visit_env \<Rightarrow> auth_user \<Rightarrow> quick_input \<Rightarrow> string \<Rightarrow> visitor \<Rightarrow> visitor" where
  "quick_data e u d unit v =
     (let duration = quick_duration (qn_kind d) (qn_duration d); plate = trimmed (qn_plate d) in
      v\<lparr>vi_type := PRE_REG, vi_kind := quick_pass_kind (qn_kind d), vi_platform := Some (qn_platform d),
        vi_unit := Some unit, vi_host := Some (user_id u),
        vi_name := given_or (trimmed (qn_name d)) (quick_pass_name (qn_kind d) (qn_platform d)),
        vi_phone := None, vi_country := ''+60'', vi_entry := (if plate = None then WALK_IN else DRIVE_IN),
        vi_plate := plate, vi_purpose := (if qn_kind d = QUICK_DELIVERY then PU_DELIVERY else PU_VISITOR),
        vi_overnight := False, vi_expected := qn_expected d, vi_duration := Some duration,
        vi_status := APPROVED, vi_approver := Some (user_id u), vi_approved_at := Some (ve_now e),
        vi_expires := Some (quick_expires (qn_expected d) duration), vi_qr := None\<rparr>)"

definition create_delivery_pass :: "visit_env \<Rightarrow> auth_user \<Rightarrow> quick_input \<Rightarrow> visitor vsvc" where
  "create_delivery_pass e u d =
     bnd (gets (find_unit (qn_unit d))) (\<lambda>found.
     bnd (need found (NotFound ''Unit not found'')) (\<lambda>un.
     bnd (ensure (can_manage_unit u (un_id un)) (Forbidden ''You can only create passes for your own units'')) (\<lambda>_.
     bnd (visit_access (assert_not_restricted (ve_url e) u (un_id un) CAP_DELIVERIES)) (\<lambda>_.
     bnd (issue_pass e (un_condo un) (quick_data e u d (un_id un))) (\<lambda>v.
     bnd (emit_visit (VisitorCreated (vi_id v) (vi_condo v))) (\<lambda>_. ret v))))))"

section \<open>Management's approval\<close>

definition approve_overnight :: "visit_env \<Rightarrow> auth_user \<Rightarrow> string \<Rightarrow> visitor vsvc" where
  "approve_overnight e u i =
     bnd (expire_stale e None) (\<lambda>_.
     bnd (gets (find_visitor i)) (\<lambda>found.
     bnd (need found (NotFound ''Not Found'')) (\<lambda>v.
     bnd (ensure (is_visit_management u (vi_condo v)) (Forbidden ''Only management can approve overnight visitors'')) (\<lambda>_.
     bnd (ensure (vi_type v = PRE_REG \<and> vi_overnight v)
       (BadRequest ''Only overnight pre-registrations can be approved here'')) (\<lambda>_.
     bnd (ensure (vi_status v = PENDING_MANAGEMENT_APPROVAL)
       (BadRequest (''Visitor is '' @ status_text (vi_status v) @ '', not awaiting management approval''))) (\<lambda>_.
     bnd (gets (\<lambda>s. visit_settings e (condo_json (vi_condo v) s))) (\<lambda>x.
     let expires = pre_reg_expires (vi_expected v) (Some (given_or (vi_duration v) 120)) x in
     bnd (with_unique_code (ve_draw e) (\<lambda>code.
       bnd (assert_code_free (vi_condo v) code) (\<lambda>_.
       txn (
         bnd (write_pass e i (\<lambda>v. v\<lparr>vi_status := APPROVED, vi_approver := Some (user_id u),
                vi_approved_at := Some (ve_now e), vi_expires := Some expires\<rparr>) code) (\<lambda>v'.
         bnd (visit_audit (vi_condo v) (vi_unit v) u AUDIT_UPDATE ''Visitor'' i
           [''decision'' \<mapsto> JStr ''overnight_approved'']) (\<lambda>_. ret v')))))) (\<lambda>v'.
     bnd (emit_visit (VisitorApproved i (vi_condo v))) (\<lambda>_. ret v')))))))))"

end
