(* ===== verification/Walk_In.thy ===== *)
theory Walk_In
  imports Visitor
begin

text \<open>
  Visitors without a pre-registration (visitor/visitor.service.ts): walk-ins to a unit, which wait for
  its owner or are let in by the guard, walk-ins to the management office, and what residents and
  guards decide about them. The labels of units are not modelled.
\<close>

section \<open>Text\<close>

text \<open>\<open>toISOString()\<close>.\<close>

definition iso_time :: "int \<Rightarrow> string" where
  "iso_time t =
     (let (y, m, d) = civil_of_day (t div day_ms); r = t mod day_ms in
      iso_year y @ ''-'' @ iso_two (m + 1) @ ''-'' @ iso_two d @ ''T'' @ iso_two (r div 3600000) @ '':'' @
      iso_two (r div 60000 mod 60) @ '':'' @ iso_two (r div 1000 mod 60) @ ''.'' @
      pad_start 3 (CHR ''0'') (show_nat (nat (r mod 1000))) @ ''Z'')"

definition middle_dot :: string where
  "middle_dot = [char_of (194 :: nat), char_of (183 :: nat)]"

section \<open>Owners\<close>

record owner_contact =
  oc_id :: string
  oc_name :: string
  oc_phone :: "string option"
  oc_primary :: bool

definition contact_of :: "visitor_db \<Rightarrow> ownership \<Rightarrow> owner_contact option" where
  "contact_of s w =
     map_option (\<lambda>u. \<lparr>oc_id = us_id u, oc_name = us_name u, oc_phone = us_phone u, oc_primary = ow_primary w\<rparr>)
       (find_row us_id (ow_user w) (vd_users s))"

text \<open>The active owners of a unit, the primary ones first, then by the start of the ownership.\<close>

definition active_owners :: "string \<Rightarrow> visitor_db \<Rightarrow> ownership list" where
  "active_owners unit s =
     sort_key (\<lambda>w. if ow_primary w then 0 else (1 :: nat))
       (sort_key ow_start (filter (\<lambda>w. ow_unit w = unit \<and> ow_active w) (vd_owners s)))"

definition owner_contacts :: "string \<Rightarrow> visitor_db \<Rightarrow> owner_contact list" where
  "owner_contacts unit s = List.map_filter (contact_of s) (active_owners unit s)"

definition with_contacts :: "visitor \<Rightarrow> string \<Rightarrow> (visitor \<times> owner_contact list option) vsvc" where
  "with_contacts v unit =
     (if vi_status v \<noteq> PENDING_OWNER_APPROVAL then ret (v, None)
      else bnd (gets (owner_contacts unit)) (\<lambda>cs. ret (v, Some cs)))"

definition walk_in_owner_contacts :: "auth_user \<Rightarrow> string option \<Rightarrow> string \<Rightarrow> owner_contact list vsvc" where
  "walk_in_owner_contacts g active i =
     bnd (guard_condo active) (\<lambda>condo.
     bnd (gets (find_visitor i)) (\<lambda>found.
     bnd (need (case found of None \<Rightarrow> None | Some v \<Rightarrow> if vi_condo v = condo then Some v else None)
       (NotFound ''Visitor not found'')) (\<lambda>v.
     bnd (ensure (vi_type v = WALKIN_UNIT) (BadRequest ''Only unit walk-in visitors have owner contacts'')) (\<lambda>_.
     bnd (ensure (vi_status v = PENDING_OWNER_APPROVAL)
       (BadRequest ''Owner contacts are only available while awaiting approval'')) (\<lambda>_.
     bnd (ensure (truthy (vi_unit v)) (BadRequest ''Visitor has no unit'')) (\<lambda>_.
     gets (owner_contacts (given_or (vi_unit v) []))))))))"

definition walk_in_policy :: "visit_env \<Rightarrow> string option \<Rightarrow> (bool \<times> int) vsvc" where
  "walk_in_policy e active =
     bnd (guard_condo active) (\<lambda>condo.
     bnd (gets (find_condo condo)) (\<lambda>found.
     bnd (need found (NotFound ''Condo not found'')) (\<lambda>c.
     let x = visit_settings e (co_settings c) in ret (vs_owner_approval x, vs_approval_minutes x))))"

section \<open>Walk-ins to a unit\<close>

record walk_in_input =
  wn_overnight :: "bool option"
  wn_unit :: string
  wn_name :: string
  wn_phone :: string
  wn_plate :: "string option"
  wn_purpose :: "string option"
  wn_admit :: "bool option"
  wn_photo :: "string option"

definition reject_walk_in_overnight :: "bool option \<Rightarrow> unit vsvc" where
  "reject_walk_in_overnight overnight =
     ensure (\<not> given_or overnight False)
       (BadRequest (''Overnight stays are only available for pre-registered visitors '' @ em_dash @
         '' walk-ins are one visit validated at the gate''))"

definition walk_in_data :: "walk_in_input \<Rightarrow> string \<Rightarrow> string option \<Rightarrow> visitor \<Rightarrow> visitor" where
  "walk_in_data d unit phone v =
     v\<lparr>vi_type := WALKIN_UNIT, vi_unit := Some unit, vi_host := None, vi_name := wn_name d, vi_phone := phone,
       vi_plate := wn_plate d, vi_purpose := walk_in_purpose (wn_purpose d), vi_overnight := False\<rparr>"

definition admit_note :: "walk_in_input \<Rightarrow> bool \<Rightarrow> string option" where
  "admit_note d by_guard =
     (let note = map_option (\<lambda>t. ''Purpose: '' @ t) (trimmed (wn_purpose d)) in
      if by_guard then
        Some (''Walk-in admitted at gate by guard (on-site discretion)'' @
          (case note of None \<Rightarrow> [] | Some t \<Rightarrow> '' '' @ middle_dot @ '' '' @ t))
      else note)"

definition admit_data :: "visit_env \<Rightarrow> auth_user \<Rightarrow> walk_in_input \<Rightarrow> bool \<Rightarrow> visitor \<Rightarrow> visitor" where
  "admit_data e g d by_guard v =
     v\<lparr>vi_expected := ve_now e, vi_status := CHECKED_IN,
       vi_admitted := (if by_guard then Some (user_id g) else None),
       vi_approver := (if by_guard then Some (user_id g) else None),
       vi_approved_at := (if by_guard then Some (ve_now e) else None),
       vi_meta := [(''createdByGuardId'', JStr (user_id g)), (''singleVisit'', JBool True), (''ownerApprovalSkipped'', JBool True)] @
         (if by_guard then
            [(''admissionSource'', JStr ''GUARD_WALK_IN''), (''admittedByGuardId'', JStr (user_id g)),
             (''guardAdmittedAt'', JStr (iso_time (ve_now e)))] @
            (case trimmed (wn_photo d) of None \<Rightarrow> [] | Some t \<Rightarrow> [(''admitPhotoUrl'', JStr t)])
          else [])\<rparr>"

definition admit_walk_in ::
  "visit_env \<Rightarrow> auth_user \<Rightarrow> string \<Rightarrow> string \<Rightarrow> walk_in_input \<Rightarrow> bool \<Rightarrow> visitor vsvc" where
  "admit_walk_in e g condo unit d by_guard =
     bnd (phone_field (Some (wn_phone d)) True) (\<lambda>phone.
     bnd (txn (
       bnd (insert_visitor e condo (\<lambda>v. admit_data e g d by_guard (walk_in_data d unit phone v))) (\<lambda>v.
       bnd (insert_check_in e (vi_id v) (user_id g) (Some ''Main gate'') (admit_note d by_guard)) (\<lambda>c.
       bnd (visit_audit condo (Some unit) g AUDIT_CREATE ''Visitor'' (vi_id v)
         ([''visitType'' \<mapsto> JStr ''WALKIN_UNIT'', ''status'' \<mapsto> JStr ''CHECKED_IN'', ''ownerApprovalSkipped'' \<mapsto> JBool True]
            ++ (if by_guard then [''admittedByGuard'' \<mapsto> JBool True, ''admissionSource'' \<mapsto> JStr ''GUARD_WALK_IN'']
                else Map.empty))) (\<lambda>_.
       bnd (visit_audit condo (Some unit) g AUDIT_CREATE ''VisitorCheckIn'' (ci_id c)
         ([''visitType'' \<mapsto> JStr ''WALKIN_UNIT'', ''ownerApprovalSkipped'' \<mapsto> JBool True]
            ++ (if by_guard then [''admittedByGuard'' \<mapsto> JBool True] else Map.empty))) (\<lambda>_.
       ret v)))))) (\<lambda>v.
     bnd (emit_visit (if by_guard then WalkInAdmitted (vi_id v) condo else VisitorCheckedIn (vi_id v) condo)) (\<lambda>_.
     ret v)))"

definition create_walk_in ::
  "visit_env \<Rightarrow> auth_user \<Rightarrow> string option \<Rightarrow> walk_in_input \<Rightarrow> (visitor \<times> owner_contact list option) vsvc" where
  "create_walk_in e g active d =
     bnd (assert_gate_operator g) (\<lambda>_.
     bnd (reject_walk_in_overnight (wn_overnight d)) (\<lambda>_.
     bnd (guard_condo active) (\<lambda>condo.
     bnd (gets (\<lambda>s. find (\<lambda>un. un_id un = wn_unit d \<and> un_condo un = condo) (units (vdb s)))) (\<lambda>found.
     bnd (need found (NotFound ''Unit not found in this condo'')) (\<lambda>un.
     bnd (gets (\<lambda>s. visit_settings e (condo_json condo s))) (\<lambda>x.
     if given_or (wn_admit d) False then
       bnd (admit_walk_in e g condo (un_id un) d True) (\<lambda>v. ret (v, None))
     else if \<not> vs_owner_approval x then
       bnd (admit_walk_in e g condo (un_id un) d False) (\<lambda>v. ret (v, None))
     else
       bnd (phone_field (Some (wn_phone d)) True) (\<lambda>phone.
       bnd (insert_visitor e condo (\<lambda>v. (walk_in_data d (un_id un) phone v)
              \<lparr>vi_expected := ve_now e, vi_status := PENDING_OWNER_APPROVAL,
               vi_deadline := Some (add_minutes (ve_now e) (vs_approval_minutes x)),
               vi_meta := [(''createdByGuardId'', JStr (user_id g)), (''singleVisit'', JBool True)]\<rparr>)) (\<lambda>v.
       bnd (visit_audit condo (Some (un_id un)) g AUDIT_CREATE ''Visitor'' (vi_id v)
         [''visitType'' \<mapsto> JStr ''WALKIN_UNIT'', ''status'' \<mapsto> JStr ''PENDING_OWNER_APPROVAL'',
          ''overnight'' \<mapsto> JBool False]) (\<lambda>_.
       bnd (emit_visit (WalkInRequested (vi_id v) condo)) (\<lambda>_.
       with_contacts v (un_id un)))))))))))"

section \<open>Walk-ins to the office\<close>

record office_input =
  on_overnight :: "bool option"
  on_name :: string
  on_phone :: string
  on_plate :: "string option"
  on_purpose :: string
  on_gate :: "string option"
  on_notes :: "string option"

definition office_data :: "visit_env \<Rightarrow> auth_user \<Rightarrow> office_input \<Rightarrow> string option \<Rightarrow> visitor \<Rightarrow> visitor" where
  "office_data e g d phone v =
     v\<lparr>vi_type := WALKIN_OFFICE, vi_unit := None, vi_host := None, vi_name := on_name d, vi_phone := phone,
       vi_plate := on_plate d, vi_purpose := walk_in_purpose (Some (on_purpose d)), vi_overnight := False,
       vi_expected := ve_now e, vi_status := CHECKED_IN,
       vi_meta := [(''createdByGuardId'', JStr (user_id g)), (''routedTo'', JStr ''management''),
         (''purposeNote'', JStr (trim (on_purpose d))), (''singleVisit'', JBool True)]\<rparr>"

definition create_office_walk_in :: "visit_env \<Rightarrow> auth_user \<Rightarrow> string option \<Rightarrow> office_input \<Rightarrow> visitor vsvc" where
  "create_office_walk_in e g active d =
     bnd (assert_gate_operator g) (\<lambda>_.
     bnd (reject_walk_in_overnight (on_overnight d)) (\<lambda>_.
     bnd (guard_condo active) (\<lambda>condo.
     bnd (ensure (given_text (Some (on_purpose d)))
       (BadRequest ''Purpose is required for management office visitors'')) (\<lambda>_.
     bnd (phone_field (Some (on_phone d)) True) (\<lambda>phone.
     bnd (txn (
       bnd (insert_visitor e condo (office_data e g d phone)) (\<lambda>v.
       bnd (insert_check_in e (vi_id v) (user_id g) (Some (given_or (on_gate d) ''Management office'')) (on_notes d)) (\<lambda>c.
       bnd (visit_audit condo None g AUDIT_CREATE ''VisitorCheckIn'' (ci_id c)
         [''visitType'' \<mapsto> JStr ''WALKIN_OFFICE'', ''purpose'' \<mapsto> JStr (on_purpose d)]) (\<lambda>_.
       ret v))))) (\<lambda>v.
     bnd (emit_visit (VisitorCheckedIn (vi_id v) condo)) (\<lambda>_. ret v)))))))"

section \<open>Decisions\<close>

definition approve_visitor :: "visit_env \<Rightarrow> auth_user \<Rightarrow> string \<Rightarrow> visitor vsvc" where
  "approve_visitor e u i =
     bnd (expire_stale e None) (\<lambda>_.
     bnd (gets (find_visitor i)) (\<lambda>found.
     bnd (need found (NotFound ''Not Found'')) (\<lambda>v.
     bnd (ensure (vi_type v = WALKIN_UNIT) (BadRequest ''Only unit walk-in visitors can be approved'')) (\<lambda>_.
     bnd (ensure (truthy (vi_unit v) \<and> can_approve_unit u (given_or (vi_unit v) []))
       (Forbidden ''You cannot approve visitors for this unit'')) (\<lambda>_.
     bnd (ensure (vi_status v = PENDING_OWNER_APPROVAL)
       (BadRequest (''Visitor is '' @ status_text (vi_status v) @ '', not awaiting approval''))) (\<lambda>_.
     if before (vi_deadline v) (ve_now e) then
       bnd (set_status e i EXPIRED) (\<lambda>_.
       throw (BadRequest (''Approval window expired '' @ em_dash @ '' ask the guard to re-register the visitor'')))
     else
       bnd (txn (
         bnd (set_visitor e i (\<lambda>v. v\<lparr>vi_status := APPROVED, vi_approver := Some (user_id u),
                vi_approved_at := Some (ve_now e), vi_expires := Some (add_minutes (ve_now e) 120)\<rparr>)) (\<lambda>_.
         bnd (visit_audit (vi_condo v) (vi_unit v) u AUDIT_UPDATE ''Visitor'' i [''decision'' \<mapsto> JStr ''approved'']) (\<lambda>_.
         read_visitor i)))) (\<lambda>v'.
       bnd (emit_visit (VisitorApproved i (vi_condo v))) (\<lambda>_. ret v'))))))))"

datatype approval_method = OWNER_BY_PHONE | GUARD_MANUAL

fun method_text :: "approval_method \<Rightarrow> string" where
  "method_text OWNER_BY_PHONE = ''OWNER_BY_PHONE''"
| "method_text GUARD_MANUAL = ''GUARD_MANUAL''"

definition method_note :: "approval_method \<Rightarrow> string" where
  "method_note m =
     (case m of OWNER_BY_PHONE \<Rightarrow> ''Owner approved by phone (guard-recorded)''
      | GUARD_MANUAL \<Rightarrow> ''Approved at gate by guard (verified visitor)'')"

text \<open>The visitor of the guard's condo.\<close>

definition visitor_at_gate :: "string \<Rightarrow> string \<Rightarrow> visitor vsvc" where
  "visitor_at_gate i condo =
     bnd (gets (find_visitor i)) (\<lambda>found.
     need (case found of None \<Rightarrow> None | Some v \<Rightarrow> if vi_condo v = condo then Some v else None)
       (NotFound ''Visitor not found''))"

definition guard_approved :: "visit_env \<Rightarrow> auth_user \<Rightarrow> approval_method \<Rightarrow> visitor \<Rightarrow> visitor" where
  "guard_approved e g m v =
     v\<lparr>vi_status := CHECKED_IN, vi_approver := Some (user_id g), vi_approved_at := Some (ve_now e),
       vi_meta := set_field ''guardApprovedAt'' (JStr (iso_time (ve_now e)))
         (set_field ''approvedByGuardId'' (JStr (user_id g))
           (set_field ''approvalMethod'' (JStr (method_text m)) (vi_meta v)))\<rparr>"

definition approve_by_guard ::
  "visit_env \<Rightarrow> auth_user \<Rightarrow> string option \<Rightarrow> string \<Rightarrow> approval_method \<Rightarrow> visitor vsvc" where
  "approve_by_guard e g active i m =
     bnd (assert_gate_operator g) (\<lambda>_.
     bnd (guard_condo active) (\<lambda>condo.
     bnd (visitor_at_gate i condo) (\<lambda>v.
     bnd (ensure (vi_type v = WALKIN_UNIT) (BadRequest ''Only unit walk-in visitors can be approved at the gate'')) (\<lambda>_.
     bnd (ensure (vi_status v = PENDING_OWNER_APPROVAL)
       (BadRequest (if vi_status v = EXPIRED
          then ''Approval window expired '' @ em_dash @ '' re-register the visitor''
          else ''Visitor is '' @ status_text (vi_status v) @ '', not awaiting approval''))) (\<lambda>_.
     bnd (txn (
       bnd (set_visitor e i (guard_approved e g m)) (\<lambda>_.
       bnd (insert_check_in e i (user_id g) (Some ''Main gate'') (Some (method_note m))) (\<lambda>c.
       bnd (visit_audit (vi_condo v) (vi_unit v) g AUDIT_UPDATE ''Visitor'' i
         [''decision'' \<mapsto> JStr ''guard_approved'', ''method'' \<mapsto> JStr (method_text m), ''autoCheckIn'' \<mapsto> JBool True]) (\<lambda>_.
       bnd (visit_audit (vi_condo v) (vi_unit v) g AUDIT_CREATE ''VisitorCheckIn'' (ci_id c)
         [''visitType'' \<mapsto> JStr ''WALKIN_UNIT'', ''approvalMethod'' \<mapsto> JStr (method_text m)]) (\<lambda>_.
       read_visitor i)))))) (\<lambda>v'.
     bnd (emit_visit (VisitorCheckedIn i (vi_condo v))) (\<lambda>_. ret v')))))))"

definition acknowledge_walk_in ::
  "visit_env \<Rightarrow> auth_user \<Rightarrow> string option \<Rightarrow> string \<Rightarrow> check_in_input \<Rightarrow> check_in vsvc" where
  "acknowledge_walk_in e g active i d =
     bnd (assert_gate_operator g) (\<lambda>_.
     bnd (guard_condo active) (\<lambda>condo.
     bnd (visitor_at_gate i condo) (\<lambda>v.
     bnd (ensure (vi_type v = WALKIN_UNIT)
       (BadRequest ''Only unit walk-in visitors can be acknowledged at the gate'')) (\<lambda>_.
     bnd (ensure (vi_status v = APPROVED)
       (BadRequest (if vi_status v = CHECKED_IN then ''Visitor already acknowledged on site''
          else ''Visitor is '' @ status_text (vi_status v) @ '', not awaiting gate acknowledgment''))) (\<lambda>_.
     if before (vi_expires v) (ve_now e) then
       bnd (set_status e i EXPIRED) (\<lambda>_.
       throw (BadRequest (''Owner approval window expired '' @ em_dash @ '' ask the resident to re-register the visitor'')))
     else
       bnd (txn (
         bnd (set_status e i CHECKED_IN) (\<lambda>_.
         bnd (insert_check_in e i (user_id g) (Some (given_or (cn_gate d) ''Main gate''))
           (Some (given_or (cn_notes d) ''Walk-in acknowledged at gate (owner approved in app)''))) (\<lambda>c.
         bnd (visit_audit (vi_condo v) (vi_unit v) g AUDIT_CREATE ''VisitorCheckIn'' (ci_id c)
           [''visitType'' \<mapsto> JStr ''WALKIN_UNIT'', ''acknowledgment'' \<mapsto> JBool True]) (\<lambda>_.
         ret c))))) (\<lambda>c.
       bnd (emit_visit (VisitorCheckedIn i (vi_condo v))) (\<lambda>_. ret c)))))))"

definition reject_visitor :: "visit_env \<Rightarrow> auth_user \<Rightarrow> string \<Rightarrow> string option \<Rightarrow> visitor vsvc" where
  "reject_visitor e u i reason =
     bnd (expire_stale e None) (\<lambda>_.
     bnd (gets (find_visitor i)) (\<lambda>found.
     bnd (need found (NotFound ''Not Found'')) (\<lambda>v.
     bnd (ensure (vi_type v = WALKIN_UNIT) (BadRequest ''Only unit walk-in visitors can be rejected'')) (\<lambda>_.
     bnd (ensure (truthy (vi_unit v) \<and> can_approve_unit u (given_or (vi_unit v) []))
       (Forbidden ''You cannot reject visitors for this unit'')) (\<lambda>_.
     bnd (ensure (vi_status v = PENDING_OWNER_APPROVAL)
       (BadRequest (''Visitor is '' @ status_text (vi_status v) @ '', not awaiting approval''))) (\<lambda>_.
     bnd (txn (
       bnd (set_status e i REJECTED) (\<lambda>_.
       bnd (visit_audit (vi_condo v) (vi_unit v) u AUDIT_UPDATE ''Visitor'' i
         [''decision'' \<mapsto> JStr ''rejected'', ''reason'' \<mapsto> opt_text reason]) (\<lambda>_.
       read_visitor i)))) (\<lambda>v'.
     bnd (emit_visit (VisitorRejected i (vi_condo v))) (\<lambda>_. ret v'))))))))"

definition upcoming_statuses :: "visitor_status list" where
  "upcoming_statuses = [PENDING_OWNER_APPROVAL, PENDING_MANAGEMENT_APPROVAL, APPROVED]"

definition cancel_visitor :: "visit_env \<Rightarrow> auth_user \<Rightarrow> string \<Rightarrow> visitor vsvc" where
  "cancel_visitor e u i =
     bnd (gets (find_visitor i)) (\<lambda>found.
     bnd (need found (NotFound ''Not Found'')) (\<lambda>v.
     bnd (ensure (truthy (vi_unit v) \<and> can_manage_unit u (given_or (vi_unit v) []))
       (BadRequest ''Only the unit owner can cancel this visitor'')) (\<lambda>_.
     bnd (ensure (vi_status v \<in> set upcoming_statuses) (BadRequest ''Only upcoming passes can be cancelled'')) (\<lambda>_.
     bnd (set_visitor e i (\<lambda>v. v\<lparr>vi_status := CANCELLED, vi_cancelled := Some (ve_now e)\<rparr>)) (\<lambda>_.
     bnd (read_visitor i) (\<lambda>v'.
     bnd (emit_visit (VisitorCancelled i (vi_condo v))) (\<lambda>_. ret v')))))))"

end
