(* ===== verification/Visitor_Desk.thy ===== *)
theory Visitor_Desk
  imports Walk_In
begin

text \<open>
  The desk (visitor/visitor.service.ts): the lists of residents, guards and management, their
  figures, favourite visitors, the visitor settings of a condo, and the suspension of a unit's
  overnight registration. The picture of a QR code and the labels of units are not modelled.
\<close>

section \<open>Lists\<close>

datatype list_view = VIEW_UPCOMING | VIEW_LIVE | VIEW_ACTIVE | VIEW_HISTORY | VIEW_EXPECTED | VIEW_NO_SHOW

datatype admin_filter = FILTER_OVERNIGHT_PENDING | FILTER_URGENT_OVERNIGHT | FILTER_HOLIDAY_REVIEW

definition history_statuses :: "visitor_status list" where
  "history_statuses = [CHECKED_OUT, EXPIRED, REJECTED, CANCELLED]"

fun statuses_for_view :: "list_view option \<Rightarrow> visitor_status list option" where
  "statuses_for_view (Some VIEW_UPCOMING) = Some upcoming_statuses"
| "statuses_for_view (Some VIEW_EXPECTED) = Some upcoming_statuses"
| "statuses_for_view (Some VIEW_LIVE) = Some [CHECKED_IN]"
| "statuses_for_view (Some VIEW_ACTIVE) = Some (upcoming_statuses @ [CHECKED_IN])"
| "statuses_for_view (Some VIEW_HISTORY) = Some history_statuses"
| "statuses_for_view (Some VIEW_NO_SHOW) = Some [EXPIRED]"
| "statuses_for_view None = None"

definition status_filter :: "visitor_status option \<Rightarrow> list_view option \<Rightarrow> visitor_status list option" where
  "status_filter st view = (case st of Some x \<Rightarrow> Some [x] | None \<Rightarrow> statuses_for_view view)"

text \<open>A later key of a spread object replaces an earlier one.\<close>

definition overriding :: "'a option \<Rightarrow> 'a option \<Rightarrow> 'a option" where
  "overriding earlier later = (case later of None \<Rightarrow> earlier | Some x \<Rightarrow> Some x)"

definition has_status :: "visitor_status list option \<Rightarrow> visitor \<Rightarrow> bool" where
  "has_status sts v = (case sts of None \<Rightarrow> True | Some l \<Rightarrow> vi_status v \<in> set l)"

definition admin_status :: "admin_filter option \<Rightarrow> visitor_status list option" where
  "admin_status f = (if f = Some FILTER_OVERNIGHT_PENDING then Some [PENDING_MANAGEMENT_APPROVAL] else None)"

definition admin_match :: "admin_filter option \<Rightarrow> visitor \<Rightarrow> bool" where
  "admin_match f v =
     (case f of None \<Rightarrow> True
      | Some FILTER_OVERNIGHT_PENDING \<Rightarrow> vi_overnight v
      | Some FILTER_URGENT_OVERNIGHT \<Rightarrow> vi_overnight v \<and> vi_urgent v
      | Some FILTER_HOLIDAY_REVIEW \<Rightarrow> vi_overnight v \<and> vi_review v)"

definition in_day :: "int \<times> int \<Rightarrow> int \<Rightarrow> bool" where
  "in_day day t \<longleftrightarrow> fst day \<le> t \<and> t < snd day"

text \<open>
  \<open>guardCondoListWhere\<close>: what a guard may list, for the bounds of today.
\<close>

definition guard_where ::
  "int \<times> int \<Rightarrow> string \<Rightarrow> visitor_status option \<Rightarrow> list_view option \<Rightarrow> admin_filter option \<Rightarrow> visitor \<Rightarrow> bool" where
  "guard_where day condo st view f v \<longleftrightarrow>
     vi_condo v = condo \<and> admin_match f v \<and>
     (case view of
        Some VIEW_HISTORY \<Rightarrow>
          has_status (admin_status f) v \<and> vi_expected v < snd day \<and>
          (vi_expected v < fst day \<or> vi_status v \<in> set history_statuses)
      | Some VIEW_LIVE \<Rightarrow> has_status (overriding (status_filter st view) (admin_status f)) v \<and> vi_expected v < snd day
      | Some VIEW_EXPECTED \<Rightarrow> in_day day (vi_expected v) \<and> vi_status v \<in> set upcoming_statuses
      | Some VIEW_NO_SHOW \<Rightarrow> in_day day (vi_expected v) \<and> vi_status v = EXPIRED
      | _ \<Rightarrow>
          in_day day (vi_expected v) \<and>
          (case admin_status f of
             Some l \<Rightarrow> vi_status v \<in> set l
           | None \<Rightarrow> (case st of Some x \<Rightarrow> vi_status v = x | None \<Rightarrow> vi_status v \<notin> set history_statuses)))"

record list_query =
  lq_limit :: nat
  lq_offset :: nat
  lq_status :: "visitor_status option"
  lq_view :: "list_view option"
  lq_filter :: "admin_filter option"
  lq_search :: "string option"
  lq_unit :: "string option"
  lq_from :: "int option"
  lq_to :: "int option"

definition search_match :: "string option \<Rightarrow> visitor_db \<Rightarrow> visitor \<Rightarrow> bool" where
  "search_match search s v =
     (case trimmed search of None \<Rightarrow> True
      | Some term \<Rightarrow>
        let has = (\<lambda>t. has_infix (to_lower term) (to_lower t));
            has_opt = (\<lambda>t. case t of None \<Rightarrow> False | Some x \<Rightarrow> has x)
        in has (vi_name v) \<or> has_opt (vi_code v) \<or> has_opt (vi_plate v) \<or>
           (case vi_unit v of None \<Rightarrow> False | Some u \<Rightarrow> has (vd_numbers s u)))"

definition management_where :: "string \<Rightarrow> list_query \<Rightarrow> visitor \<Rightarrow> bool" where
  "management_where condo q v \<longleftrightarrow>
     vi_condo v = condo \<and>
     has_status (overriding (status_filter (lq_status q) (lq_view q)) (admin_status (lq_filter q))) v \<and>
     admin_match (lq_filter q) v \<and>
     (case lq_from q of None \<Rightarrow> True | Some t \<Rightarrow> t \<le> vi_expected v) \<and>
     (case lq_to q of None \<Rightarrow> True | Some t \<Rightarrow> vi_expected v \<le> t) \<and>
     (truthy (lq_unit q) \<longrightarrow> vi_unit v = lq_unit q)"

text \<open>What a guard sees of an expected visitor, and a listed row with the contacts of its owners.\<close>

record expected_view =
  ev_id :: string
  ev_name :: string
  ev_expected :: int
  ev_plate :: "string option"
  ev_type :: visit_type
  ev_kind :: pass_kind
  ev_platform :: "platform option"
  ev_status :: visitor_status
  ev_overnight :: bool

datatype list_item =
    ExpectedItem expected_view
  | VisitorItem visitor "owner_contact list option"

definition guard_expected :: "visitor \<Rightarrow> expected_view" where
  "guard_expected v =
     \<lparr>ev_id = vi_id v, ev_name = vi_name v, ev_expected = vi_expected v, ev_plate = vi_plate v, ev_type = vi_type v,
      ev_kind = vi_kind v, ev_platform = vi_platform v, ev_status = vi_status v, ev_overnight = vi_overnight v\<rparr>"

definition guard_item :: "visitor_db \<Rightarrow> visitor \<Rightarrow> list_item" where
  "guard_item s v =
     VisitorItem (v\<lparr>vi_phone := phone_for_guard (vi_phone v) (Some (vi_country v))\<rparr>)
       (if vi_status v = PENDING_OWNER_APPROVAL \<and> truthy (vi_unit v) then Some (owner_contacts (given_or (vi_unit v) []) s)
        else None)"

definition page :: "nat \<Rightarrow> nat \<Rightarrow> 'a list \<Rightarrow> 'a list" where
  "page limit offset xs = take limit (drop offset xs)"

definition list_unit_visitors :: "auth_user \<Rightarrow> string \<Rightarrow> list_query \<Rightarrow> (visitor list \<times> nat) vsvc" where
  "list_unit_visitors u unit q =
     bnd (assert_unit_access u unit) (\<lambda>_.
     gets (\<lambda>s. let p = (\<lambda>v. vi_unit v = Some unit \<and> has_status (status_filter (lq_status q) (lq_view q)) v) in
       (page (lq_limit q) (lq_offset q)
          (sort_key (\<lambda>v. if lq_view q = Some VIEW_LIVE then - vi_updated v else - vi_expected v) (filter p (vd_visitors s))),
        count_where p (vd_visitors s))))"

definition list_condo_visitors ::
  "visit_env \<Rightarrow> string \<Rightarrow> auth_user option \<Rightarrow> list_query \<Rightarrow> (list_item list \<times> nat) vsvc" where
  "list_condo_visitors e condo viewer q =
     bnd (case viewer of None \<Rightarrow> ret ()
          | Some u \<Rightarrow>
            bnd (ensure (is_visit_member u condo) (Forbidden ''You cannot view visitors for this condo'')) (\<lambda>_.
            ensure (is_visit_management u condo \<or> is_guard u \<or> some_role is_super u)
              (Forbidden ''You cannot view the condo-wide visitor log''))) (\<lambda>_.
     let by_guard = (case viewer of None \<Rightarrow> False | Some u \<Rightarrow> is_guard u);
         board = (by_guard \<and> lq_view q \<in> {Some VIEW_EXPECTED, Some VIEW_NO_SHOW});
         rising = (by_guard \<and> lq_view q = Some VIEW_EXPECTED) in
     bnd (ensure (\<not> (by_guard \<and> lq_view q = Some VIEW_UPCOMING))
       (BadRequest ''Guards cannot list future expected visitors'')) (\<lambda>_.
     bnd (if by_guard then day_bounds e condo else ret (0, 0)) (\<lambda>day.
     gets (\<lambda>s.
       let base = (if by_guard then guard_where day condo (lq_status q) (lq_view q) (lq_filter q)
                   else management_where condo q);
           p = (\<lambda>v. base v \<and> search_match (lq_search q) s v);
           rows = page (lq_limit q) (lq_offset q)
             (sort_key (\<lambda>v. if rising then vi_expected v else - vi_expected v) (filter p (vd_visitors s)))
       in (if board then map (\<lambda>v. ExpectedItem (guard_expected v)) rows
           else if by_guard then map (guard_item s) rows
           else map (\<lambda>v. VisitorItem v None) rows,
           count_where p (vd_visitors s))))))"

section \<open>The live board\<close>

record live_view =
  lv_id :: string
  lv_name :: string
  lv_phone :: "string option"
  lv_purpose :: visitor_purpose
  lv_plate :: "string option"
  lv_since :: int
  lv_type :: visit_type
  lv_kind :: pass_kind
  lv_platform :: "platform option"
  lv_overnight :: bool
  lv_can_check_out :: bool
  lv_contacts :: "owner_contact list"

definition live_since :: "visitor_db \<Rightarrow> visitor \<Rightarrow> int" where
  "live_since s v = (case open_check_ins (vi_id v) s of [] \<Rightarrow> vi_updated v | c # _ \<Rightarrow> ci_at c)"

definition guard_live :: "visitor_db \<Rightarrow> visitor \<Rightarrow> live_view" where
  "guard_live s v =
     \<lparr>lv_id = vi_id v, lv_name = vi_name v, lv_phone = phone_for_guard (vi_phone v) (Some (vi_country v)),
      lv_purpose = vi_purpose v, lv_plate = vi_plate v, lv_since = live_since s v, lv_type = vi_type v,
      lv_kind = vi_kind v, lv_platform = vi_platform v, lv_overnight = vi_overnight v,
      lv_can_check_out = (vi_type v \<noteq> WALKIN_UNIT \<and> vi_type v \<noteq> WALKIN_OFFICE),
      lv_contacts =
        (if truthy (vi_unit v) \<and> vi_type v \<noteq> WALKIN_OFFICE then
           map (\<lambda>c. c\<lparr>oc_phone := phone_for_guard (oc_phone c) (Some ''+60'')\<rparr>) (owner_contacts (given_or (vi_unit v) []) s)
         else [])\<rparr>"

definition list_live :: "visit_env \<Rightarrow> string option \<Rightarrow> live_view list vsvc" where
  "list_live e active =
     bnd (guard_condo active) (\<lambda>condo.
     bnd (auto_close e condo) (\<lambda>_.
     gets (\<lambda>s. sort_key (\<lambda>x. - lv_since x)
       (map (guard_live s) (filter (\<lambda>v. vi_condo v = condo \<and> vi_status v = CHECKED_IN) (vd_visitors s))))))"

record visitor_stats =
  vt_on_site :: nat
  vt_expected :: nat
  vt_check_ins :: nat
  vt_walk_ins :: nat
  vt_overnight :: nat
  vt_owner :: nat

definition visitor_stats_of :: "int \<times> int \<Rightarrow> string \<Rightarrow> visitor_db \<Rightarrow> visitor_stats" where
  "visitor_stats_of day condo s =
     (let count = (\<lambda>p. count_where (\<lambda>v. vi_condo v = condo \<and> p v) (vd_visitors s)) in
      \<lparr>vt_on_site = count (\<lambda>v. vi_status v = CHECKED_IN),
       vt_expected = count (\<lambda>v. in_day day (vi_expected v) \<and> vi_status v \<in> set upcoming_statuses),
       vt_check_ins = count_where (\<lambda>c. in_day day (ci_at c) \<and>
         (case find_visitor (ci_visitor c) s of None \<Rightarrow> False | Some v \<Rightarrow> vi_condo v = condo)) (vd_checkins s),
       vt_walk_ins = count (\<lambda>v. is_walk_in v \<and> in_day day (vi_created v)),
       vt_overnight = count (\<lambda>v. vi_overnight v \<and> vi_status v = PENDING_MANAGEMENT_APPROVAL),
       vt_owner = count (\<lambda>v. vi_status v = PENDING_OWNER_APPROVAL)\<rparr>)"

definition admin_stats :: "visit_env \<Rightarrow> auth_user \<Rightarrow> string \<Rightarrow> visitor_stats vsvc" where
  "admin_stats e u condo =
     bnd (ensure (is_visit_management u condo) (Forbidden ''You cannot view visitor stats for this condo'')) (\<lambda>_.
     bnd (day_bounds e condo) (\<lambda>day. gets (visitor_stats_of day condo)))"

text \<open>The payload and the code of a pass; the picture of the payload is not modelled.\<close>

definition pass_qr :: "auth_user \<Rightarrow> string \<Rightarrow> (string \<times> string option) vsvc" where
  "pass_qr u i =
     bnd (gets (find_visitor i)) (\<lambda>found.
     bnd (need found (NotFound ''Not Found'')) (\<lambda>v.
     let scoped = (is_visit_management u (vi_condo v) \<or> is_guard u \<or> some_role is_super u) in
     bnd (if truthy (vi_unit v) then (if scoped then ret () else assert_unit_access u (given_or (vi_unit v) []))
          else ensure scoped (Forbidden ''You cannot view this visitor pass'')) (\<lambda>_.
     let payload = overriding (vi_qr v) (vi_payload v) in
     bnd (ensure (truthy payload) (BadRequest ''This visitor pass has no QR code'')) (\<lambda>_.
     ret (given_or payload [], vi_code v)))))"

section \<open>Favourites\<close>

definition find_favourite :: "string \<Rightarrow> visitor_db \<Rightarrow> favourite option" where
  "find_favourite i s = find_row fv_id i (vd_favourites s)"

definition list_favourites :: "auth_user \<Rightarrow> string \<Rightarrow> (favourite list \<times> nat) vsvc" where
  "list_favourites u unit =
     bnd (assert_unit_access u unit) (\<lambda>_.
     gets (\<lambda>s. let fs = filter (\<lambda>f. fv_unit f = unit) (vd_favourites s) in (sort_key fv_name fs, length fs)))"

record favourite_input =
  fn_unit :: string
  fn_name :: string
  fn_phone :: string
  fn_entry :: "entry_mode option"
  fn_plate :: "string option"
  fn_notes :: "string option"

definition create_favourite :: "auth_user \<Rightarrow> favourite_input \<Rightarrow> favourite vsvc" where
  "create_favourite u d =
     bnd (ensure (can_manage_unit u (fn_unit d)) (Forbidden ''You cannot manage favourites for this unit'')) (\<lambda>_.
     bnd (phone_field (Some (fn_phone d)) True) (\<lambda>phone.
     bnd (visit_base new_id) (\<lambda>i.
     let f = \<lparr>fv_id = i, fv_user = user_id u, fv_unit = fn_unit d, fv_name = fn_name d, fv_phone = phone,
              fv_country = ''+60'', fv_entry = given_or (fn_entry d) DRIVE_IN, fv_plate = fn_plate d,
              fv_notes = fn_notes d\<rparr> in
     bnd (modify (\<lambda>s. s\<lparr>vd_favourites := add_row f (vd_favourites s)\<rparr>)) (\<lambda>_. ret f))))"

text \<open>A field that is not given stays; \<open>fc_country\<close> is replaced when a phone is given.\<close>

record favourite_patch =
  fc_name :: "string option"
  fc_country :: "string option"
  fc_phone :: "string option"
  fc_entry :: "entry_mode option"
  fc_plate :: "string option"
  fc_notes :: "string option"

definition my_favourite :: "auth_user \<Rightarrow> string \<Rightarrow> favourite vsvc" where
  "my_favourite u i =
     bnd (gets (find_favourite i)) (\<lambda>found.
     bnd (need found (NotFound ''Not Found'')) (\<lambda>f.
     bnd (ensure (can_manage_unit u (fv_unit f)) (Forbidden ''You cannot manage favourites for this unit'')) (\<lambda>_.
     ret f)))"

definition patched_favourite :: "favourite_patch \<Rightarrow> string option \<Rightarrow> favourite \<Rightarrow> favourite" where
  "patched_favourite d phone f =
     f\<lparr>fv_name := given_or (fc_name d) (fv_name f), fv_phone := overriding (fv_phone f) phone,
       fv_country := (if fc_phone d = None then given_or (fc_country d) (fv_country f) else ''+60''),
       fv_entry := given_or (fc_entry d) (fv_entry f), fv_plate := overriding (fv_plate f) (fc_plate d),
       fv_notes := overriding (fv_notes f) (fc_notes d)\<rparr>"

definition update_favourite :: "auth_user \<Rightarrow> string \<Rightarrow> favourite_patch \<Rightarrow> favourite vsvc" where
  "update_favourite u i d =
     bnd (my_favourite u i) (\<lambda>f.
     bnd (if fc_phone d = None then ret None else phone_field (fc_phone d) True) (\<lambda>phone.
     bnd (modify (\<lambda>s. s\<lparr>vd_favourites := set_row fv_id i (patched_favourite d phone) (vd_favourites s)\<rparr>)) (\<lambda>_.
     ret (patched_favourite d phone f))))"

definition delete_favourite :: "auth_user \<Rightarrow> string \<Rightarrow> unit vsvc" where
  "delete_favourite u i =
     bnd (my_favourite u i) (\<lambda>_.
     modify (\<lambda>s. s\<lparr>vd_favourites := filter (\<lambda>f. fv_id f \<noteq> i) (vd_favourites s)\<rparr>))"

section \<open>Settings\<close>

definition require_visit_condo :: "string \<Rightarrow> condo_row vsvc" where
  "require_visit_condo condo =
     bnd (gets (find_condo condo)) (\<lambda>found. need found (NotFound ''Condo not found''))"

definition get_visitor_settings :: "visit_env \<Rightarrow> auth_user \<Rightarrow> string \<Rightarrow> visitor_settings vsvc" where
  "get_visitor_settings e u condo =
     bnd (ensure (is_visit_management u condo) (Forbidden ''You cannot view visitor settings for this condo'')) (\<lambda>_.
     bnd (require_visit_condo condo) (\<lambda>c. ret (visit_settings e (co_settings c))))"

text \<open>The patch a request gives: the legacy flat list of holidays stands for custom ones that are not given.\<close>

definition settings_patch :: "visitor_patch \<Rightarrow> string list option \<Rightarrow> visitor_patch" where
  "settings_patch d legacy =
     d\<lparr>vp_weekdays := map_option (filter (\<lambda>x. 1 \<le> x \<and> x \<le> 7)) (vp_weekdays d),
       vp_custom := overriding legacy (vp_custom d)\<rparr>"

definition update_visitor_settings ::
  "visit_env \<Rightarrow> auth_user \<Rightarrow> string \<Rightarrow> visitor_patch \<Rightarrow> string list option \<Rightarrow> visitor_settings vsvc" where
  "update_visitor_settings e u condo d legacy =
     bnd (ensure (is_visit_management u condo) (Forbidden ''You cannot update visitor settings for this condo'')) (\<lambda>_.
     bnd (require_visit_condo condo) (\<lambda>c.
     let next = merge_visitor_settings (ve_holidays e) (this_year (ve_svc e)) (co_settings c) (settings_patch d legacy) in
     bnd (visit_base (modify (\<lambda>b. b\<lparr>condos := set_row co_id condo (\<lambda>r. r\<lparr>co_settings := next\<rparr>) (condos b)\<rparr>))) (\<lambda>_.
     ret (visit_settings e next))))"

section \<open>Overnight registration of a unit\<close>

record overnight_row =
  or_unit :: string
  or_number :: string
  or_owners :: "(string \<times> string \<times> string \<times> bool) list"
  or_count :: nat
  or_limit :: rat
  or_suspended :: bool
  or_until :: "int option"
  or_indefinite :: bool
  or_reason :: "string option"

definition overnight_row_of :: "visit_env \<Rightarrow> int \<times> int \<Rightarrow> visitor_settings \<Rightarrow> visitor_db \<Rightarrow> unit_row \<Rightarrow> overnight_row" where
  "overnight_row_of e period x s un =
     (let policy = suspend_policy (ve_now e) (un_id un) s in
      \<lparr>or_unit = un_id un, or_number = vd_numbers s (un_id un),
       or_owners = List.map_filter (\<lambda>w. map_option (\<lambda>u. (us_id u, us_name u, us_email u, ow_primary w))
         (find_row us_id (ow_user w) (vd_users s))) (active_owners (un_id un) s),
       or_count = month_overnight (un_id un) period x s, or_limit = vs_monthly_cap x,
       or_suspended = (case policy of None \<Rightarrow> False | Some p \<Rightarrow> is_suspended (ve_now e) p),
       or_until = (case policy of None \<Rightarrow> None | Some p \<Rightarrow> up_until p),
       or_indefinite = (case policy of None \<Rightarrow> False | Some p \<Rightarrow> is_indefinite (up_until p)),
       or_reason = (case policy of None \<Rightarrow> None | Some p \<Rightarrow> up_reason p)\<rparr>)"

definition overnight_summary ::
  "visit_env \<Rightarrow> auth_user \<Rightarrow> string \<Rightarrow> string option \<Rightarrow> (string \<times> overnight_row list \<times> visitor_settings) vsvc" where
  "overnight_summary e u condo month =
     bnd (ensure (is_visit_management u condo) (Forbidden ''You cannot view overnight summaries for this condo'')) (\<lambda>_.
     bnd (require_visit_condo condo) (\<lambda>c.
     let (period, key) = month_param (ve_host e) (ve_now e) month; x = visit_settings e (co_settings c) in
     gets (\<lambda>s. (key,
       map (overnight_row_of e period x s)
         (sort_key (\<lambda>un. vd_numbers s (un_id un)) (filter (\<lambda>un. un_condo un = condo) (units (vdb s)))), x))))"

text \<open>The primary owner of a unit: the earliest active primary ownership, else the earliest active one.\<close>

definition primary_owner :: "string \<Rightarrow> visitor_db \<Rightarrow> string option" where
  "primary_owner unit s =
     (let active = sort_key ow_start (filter (\<lambda>w. ow_unit w = unit \<and> ow_active w) (vd_owners s)) in
      first_some [map_option ow_user (find ow_primary active), map_option ow_user (find (\<lambda>_. True) active)])"

definition unit_residents :: "string \<Rightarrow> visitor_db \<Rightarrow> string list" where
  "unit_residents unit s =
     uniq (map ow_user (filter (\<lambda>w. ow_unit w = unit \<and> ow_active w) (vd_owners s)) @
           map fst (filter (\<lambda>(user, un). un = unit) (vd_tenants s)))"

record suspend_input =
  sn_reason :: string
  sn_until :: "int option"
  sn_indefinite :: "bool option"

definition unit_number :: "string \<Rightarrow> visitor_db \<Rightarrow> string" where
  "unit_number unit s = (case find_unit unit s of None \<Rightarrow> unit | Some _ \<Rightarrow> vd_numbers s unit)"

text \<open>\<open>unitVisitorPolicy.upsert\<close> on the unit and the user.\<close>

definition upsert_policy :: "string \<Rightarrow> string \<Rightarrow> string \<Rightarrow> int \<Rightarrow> string \<Rightarrow> unit_policy vsvc" where
  "upsert_policy condo unit user until reason =
     (let key = (\<lambda>p. (up_unit p, up_user p)); f = (\<lambda>p. p\<lparr>up_until := Some until, up_reason := Some reason\<rparr>) in
      bnd (gets (\<lambda>s. find_row key (unit, user) (vd_policies s))) (\<lambda>found.
      case found of
        Some p \<Rightarrow> bnd (modify (\<lambda>s. s\<lparr>vd_policies := set_row key (unit, user) f (vd_policies s)\<rparr>)) (\<lambda>_. ret (f p))
      | None \<Rightarrow>
        bnd (visit_base new_id) (\<lambda>i.
        let p = \<lparr>up_id = i, up_condo = condo, up_unit = unit, up_user = user, up_until = Some until,
                 up_reason = Some reason\<rparr> in
        bnd (modify (\<lambda>s. s\<lparr>vd_policies := add_row p (vd_policies s)\<rparr>)) (\<lambda>_. ret p))))"

definition suspend_unit :: "visit_env \<Rightarrow> auth_user \<Rightarrow> string \<Rightarrow> string \<Rightarrow> suspend_input \<Rightarrow> unit_policy vsvc" where
  "suspend_unit e u condo unit d =
     bnd (ensure (is_visit_management u condo) (Forbidden ''Only management can suspend overnight registration'')) (\<lambda>_.
     bnd (gets (primary_owner unit)) (\<lambda>found.
     bnd (need found (BadRequest ''No active owner found for this unit'')) (\<lambda>owner.
     bnd (need (if given_or (sn_indefinite d) False then Some indefinite_until else sn_until d)
       (BadRequest ''Provide until date or set indefinite to suspend until lifted'')) (\<lambda>until.
     bnd (upsert_policy condo unit owner until (trim (sn_reason d))) (\<lambda>p.
     bnd (visit_audit condo (Some unit) u AUDIT_UPDATE ''UnitVisitorPolicy'' (up_id p)
       [''action'' \<mapsto> JStr ''suspend_overnight'', ''until'' \<mapsto> JStr (iso_time until),
        ''indefinite'' \<mapsto> JBool (given_or (sn_indefinite d) False), ''reason'' \<mapsto> JStr (sn_reason d)]) (\<lambda>_.
     bnd (gets (unit_residents unit)) (\<lambda>residents.
     bnd (gets (unit_number unit)) (\<lambda>number.
     let label = (if given_or (sn_indefinite d) False then ''until lifted by management'' else ''until '' @ ve_date_text e until) in
     bnd (send_notice \<lparr>no_users = residents, no_kind = ACCESS_REVOKED,
       no_title = ''Overnight visitor registration suspended'',
       no_body = ''Unit '' @ number @ '': overnight registration is suspended '' @ label @ ''. Reason: '' @ trim (sn_reason d)\<rparr>) (\<lambda>_.
     ret p)))))))))"

definition unsuspend_unit :: "visit_env \<Rightarrow> auth_user \<Rightarrow> string \<Rightarrow> string \<Rightarrow> unit vsvc" where
  "unsuspend_unit e u condo unit =
     bnd (ensure (is_visit_management u condo) (Forbidden ''Only management can restore overnight registration'')) (\<lambda>_.
     bnd (gets (\<lambda>s. filter (\<lambda>p. up_unit p = unit \<and> is_suspended (ve_now e) p) (vd_policies s))) (\<lambda>active.
     if active = [] then ret ()
     else
       bnd (modify (\<lambda>s. s\<lparr>vd_policies := set_where (\<lambda>p. up_id p \<in> up_id ` set active)
              (\<lambda>p. p\<lparr>up_until := None, up_reason := None\<rparr>) (vd_policies s)\<rparr>)) (\<lambda>_.
       bnd (for_each active (\<lambda>p. visit_audit condo (Some unit) u AUDIT_UPDATE ''UnitVisitorPolicy'' (up_id p)
              [''action'' \<mapsto> JStr ''unsuspend_overnight''])) (\<lambda>_.
       bnd (gets (unit_residents unit)) (\<lambda>residents.
       bnd (gets (unit_number unit)) (\<lambda>number.
       send_notice \<lparr>no_users = residents, no_kind = ACCESS_GRANTED,
         no_title = ''Overnight visitor registration restored'',
         no_body = ''Unit '' @ number @ '': you may register overnight visitors again.''\<rparr>))))))"

definition flag_plate :: "visit_env \<Rightarrow> auth_user \<Rightarrow> string \<Rightarrow> string option \<Rightarrow> bool option \<Rightarrow> visitor vsvc" where
  "flag_plate e u i reason suspend_owner =
     bnd (gets (find_visitor i)) (\<lambda>found.
     bnd (need found (NotFound ''Not Found'')) (\<lambda>v.
     bnd (ensure (is_visit_management u (vi_condo v)) (Forbidden ''Only management can flag plate mismatches'')) (\<lambda>_.
     bnd (set_visitor e i (\<lambda>v. v\<lparr>vi_mismatch := True\<rparr>)) (\<lambda>_.
     bnd (read_visitor i) (\<lambda>v'.
     bnd (visit_audit (vi_condo v) (vi_unit v) u AUDIT_UPDATE ''Visitor'' i
       [''action'' \<mapsto> JStr ''plate_mismatch_flagged'', ''reason'' \<mapsto> opt_text reason,
        ''vehiclePlate'' \<mapsto> opt_text (vi_plate v)]) (\<lambda>_.
     bnd (if given_or suspend_owner False \<and> truthy (vi_unit v) then
            bnd (suspend_unit e u (vi_condo v) (given_or (vi_unit v) [])
              \<lparr>sn_reason = given_or (trimmed reason) ''Plate number did not match photo evidence'', sn_until = None,
               sn_indefinite = Some True\<rparr>) (\<lambda>_. ret ())
          else ret ()) (\<lambda>_. ret v')))))))"

end
