(* ===== verification/Recurring_Passes.thy ===== *)
theory Recurring_Passes
  imports Walk_In
begin

text \<open>
  Passes that hold on certain days of the week (visitor/recurring-pass.service.ts,
  visitor/recurring-pass-schedule.ts) and the list of visitors a condo keeps out
  (visitor/visitor-blacklist.service.ts).
\<close>

section \<open>Those kept out\<close>

definition normalize_name :: "string option \<Rightarrow> string option" where
  "normalize_name t = map_option to_lower (trimmed t)"

text \<open>\<open>phone ? this.normalizePhone(phone) : null\<close>.\<close>

definition checked_phone :: "string option \<Rightarrow> string option vsvc" where
  "checked_phone phone =
     (if \<not> truthy phone then ret None
      else
        let n = normalize_phone (given_or phone []) in
        bnd (ensure (is_valid_phone n) (BadRequest ''Enter a valid Malaysia mobile number'')) (\<lambda>_. ret (Some n)))"

record blacklist_input =
  bn_name :: "string option"
  bn_phone :: "string option"
  bn_plate :: "string option"
  bn_number :: "string option"
  bn_reason :: string
  bn_expires :: "int option"

definition list_blacklist :: "auth_user \<Rightarrow> string \<Rightarrow> blacklist_entry list vsvc" where
  "list_blacklist u condo =
     bnd (assert_management u condo) (\<lambda>_.
     gets (\<lambda>s. sort_key (\<lambda>b. if bl_active b then 0 else (1 :: nat))
       (sort_key (\<lambda>b. - bl_created b) (filter (\<lambda>b. bl_condo b = condo) (vd_blacklist s)))))"

definition create_blacklist :: "visit_env \<Rightarrow> auth_user \<Rightarrow> string \<Rightarrow> blacklist_input \<Rightarrow> blacklist_entry vsvc" where
  "create_blacklist e u condo d =
     bnd (assert_management u condo) (\<lambda>_.
     bnd (checked_phone (bn_phone d)) (\<lambda>phone.
     let plate = normalize_plate (bn_plate d); name = trimmed (bn_name d); number = trimmed (bn_number d) in
     bnd (ensure (name \<noteq> None \<or> phone \<noteq> None \<or> plate \<noteq> None \<or> number \<noteq> None)
       (BadRequest ''Provide at least one identifier (name, phone, plate, or ID number)'')) (\<lambda>_.
     bnd (visit_base new_id) (\<lambda>i.
     let b = \<lparr>bl_id = i, bl_condo = condo, bl_name = name, bl_phone = phone, bl_plate = plate, bl_number = number,
              bl_reason = trim (bn_reason d), bl_by = user_id u, bl_expires = bn_expires d, bl_active = True,
              bl_created = ve_now e\<rparr> in
     bnd (modify (\<lambda>s. s\<lparr>vd_blacklist := add_row b (vd_blacklist s)\<rparr>)) (\<lambda>_.
     bnd (visit_audit condo None u AUDIT_CREATE ''VisitorBlacklist'' i Map.empty) (\<lambda>_. ret b))))))"

definition find_blacklist :: "string \<Rightarrow> blacklist_entry vsvc" where
  "find_blacklist i =
     bnd (gets (\<lambda>s. find_row bl_id i (vd_blacklist s))) (\<lambda>found. need found (NotFound ''Blacklist entry not found''))"

text \<open>A patch: what is not given stays, \<open>Some None\<close> is null.\<close>

record blacklist_patch =
  bp_reason :: "string option"
  bp_active :: "bool option"
  bp_expires :: "int option option"
  bp_name :: "string option option"
  bp_number :: "string option option"
  bp_phone :: "string option option"
  bp_plate :: "string option option"

definition patched_blacklist :: "blacklist_patch \<Rightarrow> string option \<Rightarrow> blacklist_entry \<Rightarrow> blacklist_entry" where
  "patched_blacklist d phone b =
     b\<lparr>bl_reason := (case bp_reason d of None \<Rightarrow> bl_reason b | Some t \<Rightarrow> trim t),
       bl_active := given_or (bp_active d) (bl_active b), bl_expires := given_or (bp_expires d) (bl_expires b),
       bl_name := (case bp_name d of None \<Rightarrow> bl_name b | Some t \<Rightarrow> trimmed t),
       bl_number := (case bp_number d of None \<Rightarrow> bl_number b | Some t \<Rightarrow> trimmed t),
       bl_phone := (if bp_phone d = None then bl_phone b else phone),
       bl_plate := (case bp_plate d of None \<Rightarrow> bl_plate b | Some t \<Rightarrow> normalize_plate t)\<rparr>"

definition update_blacklist :: "visit_env \<Rightarrow> auth_user \<Rightarrow> string \<Rightarrow> blacklist_patch \<Rightarrow> blacklist_entry vsvc" where
  "update_blacklist e u i d =
     bnd (find_blacklist i) (\<lambda>b.
     bnd (assert_management u (bl_condo b)) (\<lambda>_.
     bnd (checked_phone (given_or (bp_phone d) None)) (\<lambda>phone.
     bnd (modify (\<lambda>s. s\<lparr>vd_blacklist := set_row bl_id i (patched_blacklist d phone) (vd_blacklist s)\<rparr>)) (\<lambda>_.
     bnd (visit_audit (bl_condo b) None u AUDIT_UPDATE ''VisitorBlacklist'' i Map.empty) (\<lambda>_.
     ret (patched_blacklist d phone b))))))"

definition remove_blacklist :: "auth_user \<Rightarrow> string \<Rightarrow> unit vsvc" where
  "remove_blacklist u i =
     bnd (find_blacklist i) (\<lambda>b.
     bnd (assert_management u (bl_condo b)) (\<lambda>_.
     bnd (modify (\<lambda>s. s\<lparr>vd_blacklist := filter (\<lambda>b. bl_id b \<noteq> i) (vd_blacklist s)\<rparr>)) (\<lambda>_.
     visit_audit (bl_condo b) None u AUDIT_DELETE ''VisitorBlacklist'' i Map.empty)))"

text \<open>What is compared: a name, a phone number, a plate, an identity number.\<close>

record candidate =
  cd_name :: "string option"
  cd_phone :: "string option"
  cd_plate :: "string option"
  cd_number :: "string option"

definition entry_matches :: "candidate \<Rightarrow> blacklist_entry \<Rightarrow> bool" where
  "entry_matches c b \<longleftrightarrow>
     (truthy (cd_phone c) \<and> bl_phone b = Some (normalize_phone (given_or (cd_phone c) [])) \<and>
        normalize_phone (given_or (cd_phone c) []) \<noteq> []) \<or>
     same_given (normalize_plate (cd_plate c)) (bl_plate b) \<or>
     same_given (normalize_name (cd_name c)) (map_option to_lower (bl_name b)) \<or>
     same_given (trimmed (cd_number c)) (bl_number b)"

definition blacklist_match :: "int \<Rightarrow> string \<Rightarrow> candidate \<Rightarrow> visitor_db \<Rightarrow> blacklist_entry option" where
  "blacklist_match n condo c s =
     find (\<lambda>_. True) (sort_key (\<lambda>b. - bl_created b) (filter (\<lambda>b. bl_condo b = condo \<and> bl_active b \<and>
       (case bl_expires b of None \<Rightarrow> True | Some t \<Rightarrow> t > n) \<and> entry_matches c b) (vd_blacklist s)))"

definition assert_not_blacklisted :: "visit_env \<Rightarrow> string \<Rightarrow> candidate \<Rightarrow> unit vsvc" where
  "assert_not_blacklisted e condo c =
     bnd (gets (blacklist_match (ve_now e) condo c)) (\<lambda>found.
     case found of None \<Rightarrow> ret ()
     | Some b \<Rightarrow> throw (Forbidden (''Visitor blocked '' @ em_dash @ '' blacklist: '' @ bl_reason b)))"

section \<open>Schedules\<close>

definition zoned_weekday :: "visit_env \<Rightarrow> string \<Rightarrow> int \<Rightarrow> nat" where
  "zoned_weekday e z t =
     (case map_of [(''Mon'', 1), (''Tue'', 2), (''Wed'', 3), (''Thu'', 4), (''Fri'', 5), (''Sat'', 6), (''Sun'', 7)]
        (ve_weekday e z t) of None \<Rightarrow> 1 | Some w \<Rightarrow> w)"

record pass_schedule =
  ps_days :: "json list"
  ps_start :: string
  ps_end :: string

definition parse_schedule :: "json \<Rightarrow> pass_schedule option" where
  "parse_schedule raw =
     (case (json_field ''daysOfWeek'' raw, json_field ''start'' (json_field ''timeWindow'' raw),
            json_field ''end'' (json_field ''timeWindow'' raw)) of
        (JArr ds, JStr a, JStr b) \<Rightarrow>
          if a = [] \<or> b = [] then None else Some \<lparr>ps_days = ds, ps_start = a, ps_end = b\<rparr>
      | _ \<Rightarrow> None)"

definition weekday_names :: "string list" where
  "weekday_names = ['''', ''Mon'', ''Tue'', ''Wed'', ''Thu'', ''Fri'', ''Sat'', ''Sun'']"

definition en_dash_mark :: string where
  "en_dash_mark = [char_of (226 :: nat), char_of (128 :: nat), char_of (147 :: nat)]"

text \<open>\<open>isWithinRecurringSchedule\<close>: nothing, or why not.\<close>

definition schedule_error :: "visit_env \<Rightarrow> pass_schedule \<Rightarrow> string \<Rightarrow> string option" where
  "schedule_error e p z =
     (let w = zoned_weekday e z (ve_now e); hm = ve_clock e z (ve_now e) in
      if JNum (of_nat w) \<notin> set (ps_days p) then Some (''Recurring pass is not valid on '' @ weekday_names ! w)
      else if hm < ps_start p \<or> hm \<ge> ps_end p then
        Some (''Outside allowed window ('' @ ps_start p @ en_dash_mark @ ps_end p @ '')'')
      else None)"

definition pass_schedule_of :: "recurring_pass \<Rightarrow> pass_schedule vsvc" where
  "pass_schedule_of p = need (parse_schedule (rp_schedule p)) (ServerError ''Invalid recurring pass schedule'')"

section \<open>Passes\<close>

definition find_pass :: "string \<Rightarrow> visitor_db \<Rightarrow> recurring_pass option" where
  "find_pass i s = find_row rp_id i (vd_passes s)"

definition pass_order :: "recurring_pass list \<Rightarrow> recurring_pass list" where
  "pass_order ps = sort_key (\<lambda>p. if rp_active p then 0 else (1 :: nat)) (sort_key (\<lambda>p. - rp_from p) ps)"

definition list_unit_passes :: "auth_user \<Rightarrow> string \<Rightarrow> recurring_pass list vsvc" where
  "list_unit_passes u unit =
     bnd (if can_approve_unit u unit then ret ()
          else bnd (gets (find_unit unit)) (\<lambda>found.
            bnd (need found (NotFound ''Unit not found'')) (\<lambda>un.
            ensure (is_visit_management u (un_condo un))
              (Forbidden ''You cannot access recurring passes for this unit'')))) (\<lambda>_.
     gets (\<lambda>s. pass_order (filter (\<lambda>p. rp_unit p = unit) (vd_passes s))))"

definition list_condo_passes :: "auth_user \<Rightarrow> string \<Rightarrow> recurring_pass list vsvc" where
  "list_condo_passes u condo =
     bnd (ensure (is_visit_management u condo) (Forbidden ''You cannot access recurring passes for this condo'')) (\<lambda>_.
     gets (\<lambda>s. pass_order (filter (\<lambda>p. rp_condo p = condo) (vd_passes s))))"

definition pass_clash :: "recurring_pass \<Rightarrow> recurring_pass list \<Rightarrow> string option" where
  "pass_clash p ps =
     (let others = filter (\<lambda>w. rp_id w \<noteq> rp_id p) ps in
      if list_ex (\<lambda>w. rp_condo w = rp_condo p \<and> same_given (rp_code p) (rp_code w)) others
        then Some ''recurring_passes_condoId_accessCode_key''
      else if list_ex (\<lambda>w. same_given (rp_payload p) (rp_payload w)) others then Some ''recurring_passes_qrPayload_key''
      else None)"

definition assert_no_pass_clash :: "recurring_pass \<Rightarrow> unit vsvc" where
  "assert_no_pass_clash p =
     bnd (gets (\<lambda>s. pass_clash p (vd_passes s))) (\<lambda>clash.
     case clash of None \<Rightarrow> ret () | Some index \<Rightarrow> throw (UniqueViolation index))"

record pass_input =
  pn_unit :: string
  pn_guest :: string
  pn_phone :: "string option"
  pn_plate :: "string option"
  pn_schedule :: json
  pn_from :: int
  pn_until :: int

definition insert_pass :: "auth_user \<Rightarrow> unit_row \<Rightarrow> pass_input \<Rightarrow> string option \<Rightarrow> string \<Rightarrow> recurring_pass vsvc" where
  "insert_pass u un d phone code =
     bnd (visit_base new_id) (\<lambda>i.
     let p = \<lparr>rp_id = i, rp_condo = un_condo un, rp_unit = un_id un, rp_host = user_id u,
              rp_guest = trim (pn_guest d), rp_phone = phone, rp_plate = normalize_plate (pn_plate d),
              rp_schedule = pn_schedule d, rp_from = pn_from d, rp_until = pn_until d, rp_code = Some code,
              rp_payload = Some (qr_payload (un_condo un) ''pending'' code), rp_qr = None, rp_active = True\<rparr>;
         qr = qr_payload (un_condo un) i code; f = (\<lambda>p. p\<lparr>rp_payload := Some qr, rp_qr := Some qr\<rparr>) in
     bnd (assert_no_pass_clash p) (\<lambda>_.
     bnd (modify (\<lambda>s. s\<lparr>vd_passes := add_row p (vd_passes s)\<rparr>)) (\<lambda>_.
     bnd (assert_no_pass_clash (f p)) (\<lambda>_.
     bnd (modify (\<lambda>s. s\<lparr>vd_passes := set_row rp_id i f (vd_passes s)\<rparr>)) (\<lambda>_. ret (f p))))))"

definition create_pass :: "visit_env \<Rightarrow> auth_user \<Rightarrow> pass_input \<Rightarrow> recurring_pass vsvc" where
  "create_pass e u d =
     bnd (gets (find_unit (pn_unit d))) (\<lambda>found.
     bnd (need found (NotFound ''Unit not found'')) (\<lambda>un.
     bnd (ensure (can_approve_unit u (un_id un))
       (Forbidden ''You can only create recurring passes for your unit'')) (\<lambda>_.
     bnd (visit_access (assert_not_restricted (ve_url e) u (un_id un) CAP_RECURRING)) (\<lambda>_.
     bnd (checked_phone (pn_phone d)) (\<lambda>phone.
     bnd (with_unique_code (ve_draw e) (\<lambda>code.
       bnd (assert_code_free (un_condo un) code) (\<lambda>_. insert_pass u un d phone code))) (\<lambda>p.
     bnd (visit_audit (un_condo un) (Some (un_id un)) u AUDIT_CREATE ''RecurringPass'' (rp_id p) Map.empty) (\<lambda>_.
     ret p)))))))"

text \<open>A patch of a pass; a phone number or plate that is given may be null.\<close>

record pass_patch =
  pp_guest :: "string option"
  pp_phone :: "string option option"
  pp_plate :: "string option option"
  pp_schedule :: "json option"
  pp_from :: "int option"
  pp_until :: "int option"
  pp_active :: "bool option"

definition patched_pass :: "pass_patch \<Rightarrow> string option \<Rightarrow> recurring_pass \<Rightarrow> recurring_pass" where
  "patched_pass d phone p =
     p\<lparr>rp_guest := (case pp_guest d of None \<Rightarrow> rp_guest p | Some t \<Rightarrow> trim t),
       rp_phone := (if pp_phone d = None then rp_phone p else phone),
       rp_plate := (case pp_plate d of None \<Rightarrow> rp_plate p | Some t \<Rightarrow> normalize_plate t),
       rp_schedule := given_or (pp_schedule d) (rp_schedule p), rp_from := given_or (pp_from d) (rp_from p),
       rp_until := given_or (pp_until d) (rp_until p), rp_active := given_or (pp_active d) (rp_active p)\<rparr>"

definition update_pass :: "auth_user \<Rightarrow> string \<Rightarrow> pass_patch \<Rightarrow> recurring_pass vsvc" where
  "update_pass u i d =
     bnd (gets (find_pass i)) (\<lambda>found.
     bnd (need found (NotFound ''Recurring pass not found'')) (\<lambda>p.
     bnd (ensure (can_approve_unit u (rp_unit p))
       (Forbidden ''You can only update recurring passes for your unit'')) (\<lambda>_.
     bnd (checked_phone (given_or (pp_phone d) None)) (\<lambda>phone.
     bnd (ensure (\<not> rp_until (patched_pass d phone p) \<le> rp_from (patched_pass d phone p))
       (BadRequest ''Valid until must be after valid from'')) (\<lambda>_.
     bnd (modify (\<lambda>s. s\<lparr>vd_passes := set_row rp_id i (patched_pass d phone) (vd_passes s)\<rparr>)) (\<lambda>_.
     bnd (visit_audit (rp_condo p) (Some (rp_unit p)) u AUDIT_UPDATE ''RecurringPass'' i Map.empty) (\<lambda>_.
     ret (patched_pass d phone p))))))))"

definition remove_pass :: "auth_user \<Rightarrow> string \<Rightarrow> unit vsvc" where
  "remove_pass u i =
     bnd (gets (find_pass i)) (\<lambda>found.
     bnd (need found (NotFound ''Recurring pass not found'')) (\<lambda>p.
     bnd (ensure (can_approve_unit u (rp_unit p))
       (Forbidden ''You can only delete recurring passes for your unit'')) (\<lambda>_.
     bnd (modify (\<lambda>s. s\<lparr>vd_passes := filter (\<lambda>p. rp_id p \<noteq> i) (vd_passes s)\<rparr>)) (\<lambda>_.
     visit_audit (rp_condo p) (Some (rp_unit p)) u AUDIT_DELETE ''RecurringPass'' i Map.empty))))"

section \<open>At the gate\<close>

definition lookup_recurring :: "string option \<Rightarrow> string \<Rightarrow> recurring_pass list \<Rightarrow> recurring_pass option" where
  "lookup_recurring condo t ps =
     first_some
       [if is_visitor_id t then find_row rp_id t ps else None,
        (case parse_qr t of None \<Rightarrow> None | Some (c, i, code) \<Rightarrow> find (\<lambda>p. rp_id p = i \<and> rp_condo p = c) ps),
        find (\<lambda>p. rp_payload p = Some t) ps,
        (if truthy condo then find (\<lambda>p. Some (rp_condo p) = condo \<and> rp_code p = Some t) ps
         else find (\<lambda>p. rp_code p = Some t) ps)]"

definition resolve_pass :: "string \<Rightarrow> string option \<Rightarrow> recurring_pass vsvc" where
  "resolve_pass pass condo =
     bnd (gets (\<lambda>s. lookup_recurring condo (normalize_pass pass) (vd_passes s))) (\<lambda>found.
     need found (NotFound (''Unknown recurring pass '' @ em_dash @ '' check the QR or access code'')))"

record pass_view =
  pv_pass :: recurring_pass
  pv_schedule :: pass_schedule
  pv_within :: bool
  pv_message :: "string option"

definition verify_recurring :: "visit_env \<Rightarrow> string \<Rightarrow> string option \<Rightarrow> pass_view vsvc" where
  "verify_recurring e pass condo =
     bnd (resolve_pass pass condo) (\<lambda>p.
     bnd (ensure (rp_active p) (BadRequest ''Recurring pass is inactive'')) (\<lambda>_.
     bnd (ensure (\<not> rp_from p > ve_now e)
       (BadRequest (''Recurring pass not yet active '' @ em_dash @ '' valid from '' @ ve_time_text e (rp_from p)))) (\<lambda>_.
     bnd (ensure (\<not> rp_until p < ve_now e) (BadRequest ''Recurring pass has expired'')) (\<lambda>_.
     bnd (pass_schedule_of p) (\<lambda>sch.
     bnd (gets (timezone (rp_condo p))) (\<lambda>z.
     let err = schedule_error e sch z in
     ret \<lparr>pv_pass = p, pv_schedule = sch, pv_within = (err = None), pv_message = err\<rparr>))))))"

definition recurring_visit :: "visit_env \<Rightarrow> recurring_pass \<Rightarrow> visitor \<Rightarrow> visitor" where
  "recurring_visit e p v =
     v\<lparr>vi_type := PRE_REG, vi_unit := Some (rp_unit p), vi_host := Some (rp_host p), vi_name := rp_guest p,
       vi_phone := rp_phone p, vi_country := ''+60'', vi_plate := rp_plate p, vi_expected := ve_now e,
       vi_status := CHECKED_IN, vi_approver := Some (rp_host p), vi_approved_at := Some (ve_now e),
       vi_meta := [(''recurringPassId'', JStr (rp_id p)), (''checkInSource'', JStr ''RECURRING_PASS'')]\<rparr>"

definition check_in_recurring ::
  "visit_env \<Rightarrow> auth_user \<Rightarrow> string option \<Rightarrow> string \<Rightarrow> check_in_input \<Rightarrow> check_in vsvc" where
  "check_in_recurring e g active pass d =
     bnd (ensure (some_role (grants_gate ()) g)
       (Forbidden ''Only security guards can check in recurring passes'')) (\<lambda>_.
     bnd (guard_condo active) (\<lambda>condo.
     bnd (resolve_pass pass (Some condo)) (\<lambda>p.
     bnd (ensure (rp_condo p = condo) (Forbidden ''Recurring pass is not for this condo'')) (\<lambda>_.
     bnd (ensure (rp_active p) (BadRequest ''Recurring pass is inactive'')) (\<lambda>_.
     bnd (ensure (\<not> (rp_from p > ve_now e \<or> rp_until p < ve_now e))
       (BadRequest ''Recurring pass is outside its validity period'')) (\<lambda>_.
     bnd (pass_schedule_of p) (\<lambda>sch.
     bnd (gets (timezone (rp_condo p))) (\<lambda>z.
     bnd (case schedule_error e sch z of None \<Rightarrow> ret () | Some m \<Rightarrow> throw (BadRequest m)) (\<lambda>_.
     bnd (assert_not_blacklisted e (rp_condo p)
       \<lparr>cd_name = Some (rp_guest p), cd_phone = rp_phone p, cd_plate = rp_plate p, cd_number = None\<rparr>) (\<lambda>_.
     bnd (txn (
       bnd (insert_visitor e (rp_condo p) (recurring_visit e p)) (\<lambda>v.
       bnd (insert_check_in e (vi_id v) (user_id g) (cn_gate d) (cn_notes d)) (\<lambda>c.
       bnd (visit_audit (rp_condo p) (Some (rp_unit p)) g AUDIT_CREATE ''VisitorCheckIn'' (ci_id c)
         [''recurringPassId'' \<mapsto> JStr (rp_id p)]) (\<lambda>_. ret c))))) (\<lambda>c.
     bnd (emit_visit (VisitorCheckedIn (ci_visitor c) (rp_condo p))) (\<lambda>_. ret c))))))))))))"

end
