(* ===== verification/Visitor_Machine.thy ===== *)
theory Visitor_Machine
  imports Visitor_Desk Recurring_Passes Booking_Properties
begin

text \<open>
  The states the visitor services can reach: the abstract life of a visit, the shape of a visitor's
  row, and the invariant that every call keeps. The calls change few things: they add a visitor, with
  or without a check-in, move a visitor along, close a check-in, and add, change or remove recurring
  passes; there is one lemma for each.
\<close>

section \<open>The life of a visit\<close>

inductive status_step :: "visitor_status \<Rightarrow> visitor_status \<Rightarrow> bool" where
  owner_approves: "status_step PENDING_OWNER_APPROVAL APPROVED"
| guard_admits: "status_step PENDING_OWNER_APPROVAL CHECKED_IN"
| owner_rejects: "status_step PENDING_OWNER_APPROVAL REJECTED"
| nobody_answers: "status_step PENDING_OWNER_APPROVAL EXPIRED"
| walk_in_cancelled: "status_step PENDING_OWNER_APPROVAL CANCELLED"
| management_approves: "status_step PENDING_MANAGEMENT_APPROVAL APPROVED"
| overnight_cancelled: "status_step PENDING_MANAGEMENT_APPROVAL CANCELLED"
| arrives: "status_step APPROVED CHECKED_IN"
| pass_lapses: "status_step APPROVED EXPIRED"
| pass_cancelled: "status_step APPROVED CANCELLED"
| leaves: "status_step CHECKED_IN CHECKED_OUT"

inductive_cases status_stepE: "status_step a b"

definition first_statuses :: "visitor_status set" where
  "first_statuses = {PENDING_OWNER_APPROVAL, PENDING_MANAGEMENT_APPROVAL, APPROVED, CHECKED_IN}"

text \<open>The desk, abstractly: who is known, and how far the visit has come.\<close>

inductive desk_step :: "(string \<rightharpoonup> visitor_status) \<Rightarrow> (string \<rightharpoonup> visitor_status) \<Rightarrow> bool" where
  registers: "m i = None \<Longrightarrow> st \<in> first_statuses \<Longrightarrow> desk_step m (m(i \<mapsto> st))"
| moves: "m i = Some a \<Longrightarrow> status_step a b \<Longrightarrow> desk_step m (m(i \<mapsto> b))"

definition visit_abs :: "visitor list \<Rightarrow> (string \<rightharpoonup> visitor_status)" where
  "visit_abs vs = (\<lambda>i. map_option vi_status (find_row vi_id i vs))"

text \<open>The same on the rows: none disappears, none changes what it is, each moves along.\<close>

definition row_moves :: "visitor \<Rightarrow> visitor \<Rightarrow> bool" where
  "row_moves v w \<longleftrightarrow> vi_id w = vi_id v \<and> vi_condo w = vi_condo v \<and> vi_type w = vi_type v \<and> vi_unit w = vi_unit v \<and>
     vi_host w = vi_host v \<and> status_step\<^sup>*\<^sup>* (vi_status v) (vi_status w)"

definition begins :: "visitor \<Rightarrow> bool" where
  "begins v \<longleftrightarrow> (\<exists>a \<in> first_statuses. status_step\<^sup>*\<^sup>* a (vi_status v))"

definition visits_move :: "visitor list \<Rightarrow> visitor list \<Rightarrow> bool" where
  "visits_move vs ws \<longleftrightarrow> (\<exists>h ns. ws = map h vs @ ns \<and> (\<forall>v \<in> set vs. row_moves v (h v)) \<and> (\<forall>v \<in> set ns. begins v))"

lemma row_moves_refl [simp]: "row_moves v v"
  by (simp add: row_moves_def)

lemma row_moves_trans: "row_moves u v \<Longrightarrow> row_moves v w \<Longrightarrow> row_moves u w"
  by (auto simp: row_moves_def)

lemma begins_moves: "begins v \<Longrightarrow> row_moves v w \<Longrightarrow> begins w"
  unfolding begins_def row_moves_def by (meson rtranclp_trans)

lemma visits_move_refl [simp]: "visits_move vs vs"
  unfolding visits_move_def by (rule exI [of _ "\<lambda>v. v"], rule exI [of _ "[]"]) simp

lemma visits_move_trans:
  assumes "visits_move us vs" and "visits_move vs ws"
  shows "visits_move us ws"
proof -
  obtain h ns where h: "vs = map h us @ ns" "\<And>v. v \<in> set us \<Longrightarrow> row_moves v (h v)" "\<And>v. v \<in> set ns \<Longrightarrow> begins v"
    using assms(1) by (auto simp: visits_move_def)
  obtain k ms where k: "ws = map k vs @ ms" "\<And>v. v \<in> set vs \<Longrightarrow> row_moves v (k v)" "\<And>v. v \<in> set ms \<Longrightarrow> begins v"
    using assms(2) by (auto simp: visits_move_def)
  have "ws = map (k \<circ> h) us @ (map k ns @ ms)" by (simp add: h(1) k(1))
  moreover have "row_moves v ((k \<circ> h) v)" if "v \<in> set us" for v
    using h(2) [OF that] k(2) [of "h v"] that by (auto simp: h(1) intro: row_moves_trans)
  moreover have "begins v" if "v \<in> set (map k ns @ ms)" for v
    using that h(3) k(2, 3) by (auto simp: h(1) intro: begins_moves)
  ultimately show ?thesis unfolding visits_move_def by blast
qed

text \<open>The rows refine the desk.\<close>

lemma desk_moves: "status_step\<^sup>*\<^sup>* a b \<Longrightarrow> m i = Some a \<Longrightarrow> desk_step\<^sup>*\<^sup>* m (m(i \<mapsto> b))"
proof (induction b rule: rtranclp_induct)
  case base
  then show ?case by (simp add: fun_upd_idem)
next
  case (step b c)
  then have "desk_step\<^sup>*\<^sup>* m (m(i \<mapsto> b))" by blast
  moreover have "desk_step (m(i \<mapsto> b)) ((m(i \<mapsto> b))(i \<mapsto> c))" using step(2) by (intro moves) simp_all
  ultimately have "desk_step\<^sup>*\<^sup>* m ((m(i \<mapsto> b))(i \<mapsto> c))" by (rule rtranclp.rtrancl_into_rtrancl [of desk_step])
  then show ?case unfolding fun_upd_upd .
qed

lemma visit_abs_simps [simp]: "visit_abs [] = Map.empty"
  "visit_abs (v # vs) = (visit_abs vs)(vi_id v \<mapsto> vi_status v)"
  by (simp_all add: visit_abs_def fun_eq_iff)

lemma visit_abs_None: "visit_abs vs i = None \<longleftrightarrow> i \<notin> vi_id ` set vs"
  by (simp add: visit_abs_def find_row_None)

lemma desk_registers:
  assumes "m i = None" and "begins v"
  shows "desk_step\<^sup>*\<^sup>* m (m(i \<mapsto> vi_status v))"
proof -
  obtain a where a: "a \<in> first_statuses" "status_step\<^sup>*\<^sup>* a (vi_status v)" using assms(2) by (auto simp: begins_def)
  have "desk_step m (m(i \<mapsto> a))" using assms(1) a(1) by (rule registers)
  moreover have "desk_step\<^sup>*\<^sup>* (m(i \<mapsto> a)) ((m(i \<mapsto> a))(i \<mapsto> vi_status v))" using a(2) by (rule desk_moves) simp
  ultimately have "desk_step\<^sup>*\<^sup>* m ((m(i \<mapsto> a))(i \<mapsto> vi_status v))" by (rule converse_rtranclp_into_rtranclp [of desk_step])
  then show ?thesis unfolding fun_upd_upd .
qed

lemma map_add_upd_order: "i \<notin> dom n \<Longrightarrow> m(i \<mapsto> x) ++ n = (m ++ n)(i \<mapsto> x)"
  by (auto simp: fun_eq_iff map_add_def split: option.split)


lemma visit_abs_append: "i \<notin> vi_id ` set vs \<Longrightarrow> vi_id v = i \<Longrightarrow> visit_abs (vs @ [v]) = (visit_abs vs)(i \<mapsto> vi_status v)"
  by (induction vs) auto

lemma desk_moves_all:
  assumes "distinct (map vi_id vs)" and "\<And>v. v \<in> set vs \<Longrightarrow> row_moves v (h v)"
  shows "desk_step\<^sup>*\<^sup>* (n ++ visit_abs vs) (n ++ visit_abs (map h vs))"
  using assms
proof (induction vs arbitrary: n)
  case (Cons v vs)
  have mv: "row_moves v (h v)" and id: "vi_id (h v) = vi_id v" using Cons.prems(2) by (auto simp: row_moves_def)
  have off: "vi_id v \<notin> dom (visit_abs vs)" using Cons.prems(1) visit_abs_None [of vs "vi_id v"] by (simp add: domIff)
  have "vi_id ` set (map h vs) = vi_id ` set vs"
    using Cons.prems(2) by (auto simp: row_moves_def image_iff)
  then have off': "vi_id v \<notin> dom (visit_abs (map h vs))"
    using Cons.prems(1) visit_abs_None [of "map h vs" "vi_id v"] by (simp add: domIff)
  have "desk_step\<^sup>*\<^sup>* ((n ++ visit_abs vs)(vi_id v \<mapsto> vi_status v)) (((n ++ visit_abs vs)(vi_id v \<mapsto> vi_status v))(vi_id v \<mapsto> vi_status (h v)))"
    by (rule desk_moves [of "vi_status v"]) (use mv in \<open>simp_all add: row_moves_def\<close>)
  moreover have "desk_step\<^sup>*\<^sup>* (n(vi_id v \<mapsto> vi_status (h v)) ++ visit_abs vs) (n(vi_id v \<mapsto> vi_status (h v)) ++ visit_abs (map h vs))"
    using Cons.prems by (intro Cons.IH) simp_all
  ultimately show ?case
    using map_add_upd_order [OF off, of n "vi_status (h v)"] map_add_upd_order [OF off', of n "vi_status (h v)"]
    unfolding list.map visit_abs_simps id map_add_upd fun_upd_upd by (metis rtranclp_trans)
qed simp

lemma desk_registers_all:
  "distinct (map vi_id (vs @ ns)) \<Longrightarrow> (\<And>v. v \<in> set ns \<Longrightarrow> begins v) \<Longrightarrow> desk_step\<^sup>*\<^sup>* (visit_abs vs) (visit_abs (vs @ ns))"
proof (induction ns rule: rev_induct)
  case (snoc v ns)
  then have IH: "desk_step\<^sup>*\<^sup>* (visit_abs vs) (visit_abs (vs @ ns))" by simp
  have off: "vi_id v \<notin> vi_id ` set (vs @ ns)" using snoc.prems(1) by auto
  have "desk_step\<^sup>*\<^sup>* (visit_abs (vs @ ns)) ((visit_abs (vs @ ns))(vi_id v \<mapsto> vi_status v))"
    using visit_abs_None [of "vs @ ns" "vi_id v"] off snoc.prems(2) by (intro desk_registers) simp_all
  with IH show ?case using visit_abs_append [OF off refl] by (metis append_assoc rtranclp_trans)
qed simp

lemma visits_move_refines:
  assumes "visits_move vs ws" and "distinct (map vi_id vs)" and "distinct (map vi_id ws)"
  shows "desk_step\<^sup>*\<^sup>* (visit_abs vs) (visit_abs ws)"
proof -
  obtain h ns where h: "ws = map h vs @ ns" "\<And>v. v \<in> set vs \<Longrightarrow> row_moves v (h v)" "\<And>v. v \<in> set ns \<Longrightarrow> begins v"
    using assms(1) by (auto simp: visits_move_def)
  have "desk_step\<^sup>*\<^sup>* (visit_abs vs) (visit_abs (map h vs))"
    using desk_moves_all [OF assms(2) h(2), where n = Map.empty] by simp
  moreover have "desk_step\<^sup>*\<^sup>* (visit_abs (map h vs)) (visit_abs ws)"
    unfolding h(1) using assms(3) h(1, 3) by (intro desk_registers_all) simp_all
  ultimately show ?thesis by simp
qed

section \<open>The shape of a row\<close>

definition is_code :: "string \<Rightarrow> bool" where
  "is_code t \<longleftrightarrow> length t = 6 \<and> set t \<subseteq> set code_chars"

definition kind_ok :: "visitor \<Rightarrow> bool" where
  "kind_ok v \<longleftrightarrow>
     (case vi_type v of
        PRE_REG \<Rightarrow> vi_unit v \<noteq> None \<and> vi_host v \<noteq> None
      | WALKIN_UNIT \<Rightarrow> vi_unit v \<noteq> None \<and> vi_host v = None \<and> \<not> vi_overnight v \<and> vi_code v = None
      | WALKIN_OFFICE \<Rightarrow> vi_unit v = None \<and> vi_host v = None \<and> \<not> vi_overnight v \<and> vi_code v = None)"

definition status_ok :: "visitor \<Rightarrow> bool" where
  "status_ok v \<longleftrightarrow>
     (case vi_status v of
        PENDING_OWNER_APPROVAL \<Rightarrow> vi_type v = WALKIN_UNIT \<and> vi_deadline v \<noteq> None
      | PENDING_MANAGEMENT_APPROVAL \<Rightarrow> vi_type v = PRE_REG \<and> vi_overnight v \<and> vi_code v = None
      | APPROVED \<Rightarrow> vi_type v \<noteq> WALKIN_OFFICE \<and> vi_expires v \<noteq> None \<and> vi_approver v \<noteq> None \<and>
          (vi_type v = PRE_REG \<longrightarrow> vi_code v \<noteq> None)
      | CHECKED_IN \<Rightarrow> True
      | CHECKED_OUT \<Rightarrow> True
      | _ \<Rightarrow> vi_type v \<noteq> WALKIN_OFFICE)"

definition pass_ok :: "visitor \<Rightarrow> bool" where
  "pass_ok v \<longleftrightarrow> vi_payload v = map_option (qr_payload (vi_condo v) (vi_id v)) (vi_code v) \<and> vi_qr v = vi_payload v \<and>
     (case vi_code v of None \<Rightarrow> True | Some c \<Rightarrow> is_code c)"

definition visitor_ok :: "visitor \<Rightarrow> bool" where
  "visitor_ok v \<longleftrightarrow> kind_ok v \<and> status_ok v \<and> pass_ok v \<and> (vi_overnight v \<longrightarrow> vi_entry v = DRIVE_IN)"

section \<open>The invariant\<close>

text \<open>The condos and codes in use, over the three tables that share the alphabet of the gate.\<close>

definition given_codes :: "visitor_db \<Rightarrow> (string \<times> string) list" where
  "given_codes s =
     List.map_filter (\<lambda>v. map_option (Pair (vi_condo v)) (vi_code v)) (vd_visitors s) @
     List.map_filter (\<lambda>p. map_option (Pair (rp_condo p)) (rp_code p)) (vd_passes s) @ vd_forms s"

definition visit_ids_ok :: "visitor_db \<Rightarrow> bool" where
  "visit_ids_ok s \<longleftrightarrow> inj (uuids (vdb s)) \<and> (\<forall>n. CHR '':'' \<notin> set (uuids (vdb s) n)) \<and> distinct (map vi_id (vd_visitors s)) \<and>
     distinct (map ci_id (vd_checkins s)) \<and> distinct (map rp_id (vd_passes s)) \<and>
     vi_id ` set (vd_visitors s) \<union> ci_id ` set (vd_checkins s) \<union> rp_id ` set (vd_passes s) \<subseteq>
       uuids (vdb s) ` {..<next_uuid (vdb s)}"

definition open_at :: "string \<Rightarrow> check_in \<Rightarrow> bool" where
  "open_at i c \<longleftrightarrow> ci_visitor c = i \<and> ci_out c = None"

text \<open>A visitor on site has one open check-in, any other visitor has none.\<close>

definition on_site_ok :: "visitor_db \<Rightarrow> bool" where
  "on_site_ok s \<longleftrightarrow> ci_visitor ` set (vd_checkins s) \<subseteq> vi_id ` set (vd_visitors s) \<and>
     (\<forall>v \<in> set (vd_visitors s). count_where (open_at (vi_id v)) (vd_checkins s) = (if vi_status v = CHECKED_IN then 1 else 0))"

definition visit_inv :: "visitor_db \<Rightarrow> bool" where
  "visit_inv s \<longleftrightarrow> visit_ids_ok s \<and> on_site_ok s \<and> distinct (given_codes s) \<and> (\<forall>v \<in> set (vd_visitors s). visitor_ok v)"

text \<open>The tables the invariant speaks of, and what a change elsewhere keeps.\<close>

definition visit_frame :: "visitor_db \<Rightarrow> visitor_db \<Rightarrow> bool" where
  "visit_frame s t \<longleftrightarrow> vd_visitors t = vd_visitors s \<and> vd_checkins t = vd_checkins s \<and> vd_passes t = vd_passes s \<and>
     vd_forms t = vd_forms s \<and> id_grow (vdb s) (vdb t)"

lemma id_grow_ids: "id_grow b c \<Longrightarrow> uuids b ` {..<next_uuid b} \<subseteq> uuids c ` {..<next_uuid c}"
  by (auto simp: id_grow_def)

lemma frame_visit_inv:
  assumes "visit_frame s t" and "visit_inv s"
  shows "visit_inv t"
proof -
  have f: "vd_visitors t = vd_visitors s" "vd_checkins t = vd_checkins s" "vd_passes t = vd_passes s"
    "vd_forms t = vd_forms s" "uuids (vdb t) = uuids (vdb s)"
    using assms(1) by (simp_all add: visit_frame_def id_grow_def)
  have "visit_ids_ok t"
    using assms id_grow_ids [of "vdb s" "vdb t"] unfolding visit_inv_def visit_ids_ok_def visit_frame_def f by blast
  with assms(2) show ?thesis by (simp add: visit_inv_def on_site_ok_def given_codes_def f)
qed

end
