(* ===== verification/Visitor_Changes.thy ===== *)
theory Visitor_Changes
  imports Visitor_Machine
begin

text \<open>
  What each change of the visitor tables does to the invariant, and the rules that carry it through
  the actions the services share.
\<close>

text \<open>The invariant, and that the visits have moved along and ids have been drawn since \<open>s0\<close>.\<close>

definition visit_ok :: "visitor_db \<Rightarrow> visitor_db \<Rightarrow> bool" where
  "visit_ok s0 s \<longleftrightarrow> visit_inv s \<and> visits_move (vd_visitors s0) (vd_visitors s) \<and> id_grow (vdb s0) (vdb s)"

lemma visit_ok_refl: "visit_inv s \<Longrightarrow> visit_ok s s"
  by (simp add: visit_ok_def)

lemma visit_ok_next: "visit_ok s0 s \<Longrightarrow> visit_inv t \<Longrightarrow> visits_move (vd_visitors s) (vd_visitors t) \<Longrightarrow>
  id_grow (vdb s) (vdb t) \<Longrightarrow> visit_ok s0 t"
  unfolding visit_ok_def id_grow_def using visits_move_trans by (metis le_trans)

lemma frame_visit_ok: "visit_frame s t \<Longrightarrow> visit_ok s0 s \<Longrightarrow> visit_ok s0 t"
  using frame_visit_inv [of s t] by (auto simp: visit_ok_def visit_frame_def id_grow_def)

section \<open>Actions elsewhere\<close>

lemma frame_refl [simp]: "visit_frame s s"
  by (simp add: visit_frame_def)

lemma frame_trans: "visit_frame s t \<Longrightarrow> visit_frame t u \<Longrightarrow> visit_frame s u"
  by (auto simp: visit_frame_def id_grow_def)

lemma ok_of_frame: "(\<And>s. preserves (visit_frame s) m) \<Longrightarrow> preserves (visit_ok s0) m"
  unfolding preserves_def using frame_visit_ok frame_refl by metis

lemma frame_access:
  assumes "\<And>b. preserves (\<lambda>a. id_grow b (ad_base a)) m"
  shows "preserves (visit_frame s) (visit_access m)"
proof (rule preservesI)
  fix t assume f: "visit_frame s t"
  then have "id_grow (vdb s) (ad_base (snd (m (vd_access t))))"
    using preserves_snd [OF assms [of "vdb s"], of "vd_access t"] by (simp add: visit_frame_def vdb_def)
  with f show "visit_frame s (snd (visit_access m t))"
    by (cases "m (vd_access t)") (simp add: visit_frame_def vdb_def on_part_def)
qed

lemma frame_base:
  assumes "\<And>b. preserves (id_grow b) m"
  shows "preserves (visit_frame s) (visit_base m)"
proof (rule frame_access, rule preservesI)
  fix b :: bdb and a :: access_db assume "id_grow b (ad_base a)"
  then have "id_grow b (snd (m (ad_base a)))" by (rule preserves_snd [OF assms])
  then show "id_grow b (ad_base (snd (on_base m a)))" by (cases "m (ad_base a)") (simp add: on_part_def)
qed

lemma frame_modify: "(\<And>t. visit_frame t (f t)) \<Longrightarrow> preserves (visit_frame s) (modify f)"
  by (rule preserves_modify) (blast intro: frame_trans)

lemma frame_shared [pres]:
  "preserves (visit_frame s) (visit_audit condo unit u a resource i m)" "preserves (visit_frame s) (emit_visit v)"
  "preserves (visit_frame s) (send_notice x)" "preserves (visit_frame s) (visit_base new_id)"
proof -
  show "preserves (visit_frame s) (visit_audit condo unit u a resource i m)"
    unfolding visit_audit_def by (rule frame_base) (rule pres)
  show "preserves (visit_frame s) (emit_visit v)"
    unfolding emit_visit_def by (rule frame_modify) (simp add: visit_frame_def vdb_def)
  show "preserves (visit_frame s) (send_notice x)"
    unfolding send_notice_def by (rule frame_modify) (simp add: visit_frame_def vdb_def)
  show "preserves (visit_frame s) (visit_base new_id)"
    by (rule frame_base) (rule pres)
qed

lemmas ok_shared [pres] = ok_of_frame [OF frame_shared(1)] ok_of_frame [OF frame_shared(2)]
  ok_of_frame [OF frame_shared(3)] ok_of_frame [OF frame_shared(4)]

lemma guards_only_read [reads]:
  "reads_only (phone_field p r)" "reads_only (assert_no_clash v)" "reads_only (assert_code_free condo code)"
  "reads_only (assert_gate_operator u)" "reads_only (guard_condo active)" "reads_only (assert_unit_access u unit)"
  "reads_only (read_visitor i)" "reads_only (day_bounds e condo)" "reads_only (visitor_at_gate i condo)"
  "reads_only (reject_walk_in_overnight over)" "reads_only (with_contacts w unit)" "reads_only (checked_phone p)"
  "reads_only (validate_pre_reg e d unit x)" "reads_only (overnight_result e condo d x)"
  "reads_only (checked_pass e w)" "reads_only (resolve_pass pass c)" "reads_only (pass_schedule_of rp)"
  "reads_only (assert_not_blacklisted e condo cd)"
  unfolding phone_field_def assert_no_clash_def assert_code_free_def assert_gate_operator_def guard_condo_def
    assert_unit_access_def read_visitor_def day_bounds_def visitor_at_gate_def reject_walk_in_overnight_def
    with_contacts_def checked_phone_def validate_pre_reg_def validate_overnight_def only_if_def overnight_result_def
    checked_pass_def resolve_pass_def pass_schedule_of_def assert_not_blacklisted_def Let_def
  by (intro reads)+

lemma reads_restricted [reads]: "reads_only (visit_access (assert_not_restricted up u unit k))"
  unfolding assert_not_restricted_def Let_def by (intro reads_on_part reads; simp)+

lemmas reads_ok [pres] = guards_only_read [THEN reads_preserves] reads_restricted [THEN reads_preserves]

section \<open>New ids\<close>

definition fresh :: "visitor_db \<Rightarrow> string" where
  "fresh s = uuids (vdb s) (next_uuid (vdb s))"

definition bump :: "visitor_db \<Rightarrow> visitor_db" where
  "bump s = snd (visit_base new_id s)"

lemma wp_fresh: "wp (visit_base new_id) Q E s = Q (fresh s) (bump s)"
  by (simp add: wp_def fresh_def bump_def new_id_def on_part_def vdb_def)

lemma bump_fields [simp]:
  "vd_visitors (bump s) = vd_visitors s" "vd_checkins (bump s) = vd_checkins s" "vd_passes (bump s) = vd_passes s"
  "vd_forms (bump s) = vd_forms s" "uuids (vdb (bump s)) = uuids (vdb s)" "next_uuid (vdb (bump s)) = Suc (next_uuid (vdb s))"
  by (simp_all add: bump_def new_id_def on_part_def vdb_def)

lemma vdb_simps [simp]:
  "vdb (s\<lparr>vd_visitors := vs\<rparr>) = vdb s" "vdb (s\<lparr>vd_checkins := cs\<rparr>) = vdb s" "vdb (s\<lparr>vd_passes := ps\<rparr>) = vdb s"
  "vdb (s\<lparr>vd_forms := fs\<rparr>) = vdb s" "vdb (s\<lparr>vd_policies := us\<rparr>) = vdb s" "vdb (s\<lparr>vd_favourites := fv\<rparr>) = vdb s"
  "vdb (s\<lparr>vd_blacklist := bs\<rparr>) = vdb s" "vdb (s\<lparr>vd_events := ev\<rparr>) = vdb s"
  by (simp_all add: vdb_def)

lemma frame_bump: "visit_frame s (bump s)"
  by (simp add: visit_frame_def id_grow_def)

text \<open>Rows added with ids of the supply.\<close>

lemma supply_apart: "inj f \<Longrightarrow> f ` {..<a} \<inter> f ` {a..<b} = {}" for a b :: nat
proof -
  assume "inj f"
  moreover have "{..<a} \<inter> {a..<b} = {}" by auto
  ultimately show ?thesis using image_Int [of f "{..<a}" "{a..<b}"] by simp
qed

lemma ids_grow:
  assumes ok: "visit_ids_ok s" and u: "uuids (vdb t) = uuids (vdb s)" "next_uuid (vdb s) \<le> next_uuid (vdb t)"
    and v: "map vi_id (vd_visitors t) = map vi_id (vd_visitors s) @ xs"
    and c: "map ci_id (vd_checkins t) = map ci_id (vd_checkins s) @ ys"
    and p: "map rp_id (vd_passes t) = map rp_id (vd_passes s) @ zs"
    and new: "distinct xs" "distinct ys" "distinct zs"
      "set xs \<union> set ys \<union> set zs \<subseteq> uuids (vdb s) ` {next_uuid (vdb s)..<next_uuid (vdb t)}"
  shows "visit_ids_ok t"
proof -
  let ?old = "uuids (vdb s) ` {..<next_uuid (vdb s)}" and ?new = "uuids (vdb s) ` {next_uuid (vdb s)..<next_uuid (vdb t)}"
  have inj: "inj (uuids (vdb s))" using ok by (simp add: visit_ids_ok_def)
  have apart: "?old \<inter> ?new = {}" using inj by (rule supply_apart)
  have "{..<next_uuid (vdb t)} = {..<next_uuid (vdb s)} \<union> {next_uuid (vdb s)..<next_uuid (vdb t)}" using u(2) by auto
  then have all: "uuids (vdb t) ` {..<next_uuid (vdb t)} = ?old \<union> ?new" by (simp add: u(1) image_Un)
  have old: "set (map vi_id (vd_visitors s)) \<union> set (map ci_id (vd_checkins s)) \<union> set (map rp_id (vd_passes s)) \<subseteq> ?old"
    using ok by (simp add: visit_ids_ok_def)
  have off: "set (map vi_id (vd_visitors s)) \<inter> set xs = {}" "set (map ci_id (vd_checkins s)) \<inter> set ys = {}"
    "set (map rp_id (vd_passes s)) \<inter> set zs = {}"
    using old new(4) apart by blast+
  have "set (map vi_id (vd_visitors t)) \<union> set (map ci_id (vd_checkins t)) \<union> set (map rp_id (vd_passes t)) \<subseteq> ?old \<union> ?new"
    unfolding v c p set_append using old new(4) by blast
  moreover have "distinct (map vi_id (vd_visitors t))" "distinct (map ci_id (vd_checkins t))" "distinct (map rp_id (vd_passes t))"
    unfolding v c p distinct_append using ok new(1-3) off unfolding visit_ids_ok_def by blast+
  ultimately show ?thesis using ok unfolding visit_ids_ok_def all list.set_map unfolding u(1) by simp
qed

lemma fresh_new: "visit_ids_ok s \<Longrightarrow> fresh s \<notin> vi_id ` set (vd_visitors s) \<and> fresh s \<notin> rp_id ` set (vd_passes s)"
proof -
  assume ok: "visit_ids_ok s"
  then have "fresh s \<notin> uuids (vdb s) ` {..<next_uuid (vdb s)}"
    by (auto simp: visit_ids_ok_def fresh_def inj_def)
  with ok show ?thesis unfolding visit_ids_ok_def by blast
qed

section \<open>Codes\<close>

lemma map_filter_append: "List.map_filter f (xs @ ys) = List.map_filter f xs @ List.map_filter f ys"
  by (simp add: List.map_filter_def)

lemma map_filter_cong: "(\<And>x. x \<in> set xs \<Longrightarrow> f (h x) = f x) \<Longrightarrow> List.map_filter f (map h xs) = List.map_filter f xs"
  by (induction xs) (simp_all add: List.map_filter_simps split: option.split)

lemma in_map_filter: "y \<in> set (List.map_filter f xs) \<longleftrightarrow> (\<exists>x \<in> set xs. f x = Some y)"
  by (induction xs) (auto simp: List.map_filter_simps split: option.split)

lemma taken_iff: "code_taken condo code s \<longleftrightarrow> (condo, code) \<in> set (given_codes s)"
  by (auto simp: code_taken_def given_codes_def in_map_filter list_ex_iff)

section \<open>Visitors that move along\<close>

lemma visitor_ok_updated [simp]: "visitor_ok (v\<lparr>vi_updated := n\<rparr>) = visitor_ok v"
  by (cases "vi_type v"; cases "vi_status v"; simp add: visitor_ok_def kind_ok_def status_ok_def pass_ok_def)

lemma row_moves_updated [simp]: "row_moves v (w\<lparr>vi_updated := n\<rparr>) = row_moves v w"
  by (simp add: row_moves_def)

lemma inv_map_rows:
  assumes inv: "visit_inv s"
    and h: "\<And>v. v \<in> set (vd_visitors s) \<Longrightarrow> vi_id (h v) = vi_id v \<and> vi_condo (h v) = vi_condo v \<and> vi_code (h v) = vi_code v \<and>
      visitor_ok (h v) \<and> (vi_status (h v) = CHECKED_IN \<longleftrightarrow> vi_status v = CHECKED_IN)"
  shows "visit_inv (s\<lparr>vd_visitors := map h (vd_visitors s)\<rparr>)" (is "visit_inv ?t")
proof -
  have ids: "map vi_id (vd_visitors ?t) = map vi_id (vd_visitors s)" using h by simp
  have "visit_ids_ok ?t"
    by (rule ids_grow [of s _ "[]" "[]" "[]"]) (use inv ids in \<open>simp_all add: visit_inv_def\<close>)
  moreover have "on_site_ok ?t"
  proof -
    have "vi_id ` set (vd_visitors ?t) = vi_id ` set (vd_visitors s)" using arg_cong [OF ids, of set] by (simp only: list.set_map)
    then have "ci_visitor ` set (vd_checkins ?t) \<subseteq> vi_id ` set (vd_visitors ?t)" using inv by (simp add: visit_inv_def on_site_ok_def)
    moreover have "count_where (open_at (vi_id w)) (vd_checkins s) = (if vi_status w = CHECKED_IN then 1 else 0)"
      if w: "w \<in> set (vd_visitors ?t)" for w
    proof -
      obtain v where "v \<in> set (vd_visitors s)" "w = h v" using w by auto
      with inv h [of v] show ?thesis by (simp add: visit_inv_def on_site_ok_def)
    qed
    ultimately show ?thesis by (simp add: on_site_ok_def)
  qed
  moreover have "given_codes ?t = given_codes s"
    unfolding given_codes_def using h by (simp add: map_filter_cong)
  ultimately show ?thesis using inv h by (simp add: visit_inv_def)
qed

lemma ok_map_rows:
  assumes "visit_ok s0 s"
    and "\<And>v. v \<in> set (vd_visitors s) \<Longrightarrow> row_moves v (h v) \<and> vi_code (h v) = vi_code v \<and>
      visitor_ok (h v) \<and> (vi_status (h v) = CHECKED_IN \<longleftrightarrow> vi_status v = CHECKED_IN)"
  shows "visit_ok s0 (s\<lparr>vd_visitors := map h (vd_visitors s)\<rparr>)" (is "visit_ok s0 ?t")
proof (rule visit_ok_next [OF assms(1)])
  show "visit_inv ?t"
    by (rule inv_map_rows) (use assms in \<open>auto simp: visit_ok_def row_moves_def\<close>)
  show "visits_move (vd_visitors s) (vd_visitors ?t)"
    unfolding visits_move_def using assms(2) by (intro exI [of _ h] exI [of _ "[]"]) simp
qed simp

lemma find_visitor_Some: "find_visitor i s = Some v \<Longrightarrow> v \<in> set (vd_visitors s) \<and> vi_id v = i"
  by (auto simp: find_visitor_def find_row_def find_Some_iff)

lemma find_visitor_same:
  "visit_ids_ok s \<Longrightarrow> find_visitor i s = Some v \<Longrightarrow> w \<in> set (vd_visitors s) \<Longrightarrow> vi_id w = i \<Longrightarrow> w = v"
  using find_visitor_Some unfolding visit_ids_ok_def by (metis distinct_map inj_onD)

definition moved_to :: "visit_env \<Rightarrow> string \<Rightarrow> (visitor \<Rightarrow> visitor) \<Rightarrow> visitor_db \<Rightarrow> visitor_db" where
  "moved_to e i f s = s\<lparr>vd_visitors := set_row vi_id i (\<lambda>v. (f v)\<lparr>vi_updated := ve_now e\<rparr>) (vd_visitors s)\<rparr>"

lemma wp_set_visitor: "wp (set_visitor e i f) Q E s = Q () (moved_to e i f s)"
  by (simp add: set_visitor_def moved_to_def wp)

lemma wp_set_status: "wp (set_status e i st) Q E s = Q () (moved_to e i (\<lambda>v. v\<lparr>vi_status := st\<rparr>) s)"
  by (simp add: set_status_def wp_set_visitor)

lemma ok_moved:
  assumes ok: "visit_ok s0 s" and v: "find_visitor i s = Some v"
    and f: "row_moves v (f v)" "vi_code (f v) = vi_code v" "visitor_ok (f v)"
      "vi_status (f v) = CHECKED_IN \<longleftrightarrow> vi_status v = CHECKED_IN"
  shows "visit_ok s0 (moved_to e i f s)"
proof -
  let ?h = "\<lambda>w. if vi_id w = i then (f w)\<lparr>vi_updated := ve_now e\<rparr> else w"
  have ids: "visit_ids_ok s" and rows: "\<forall>w \<in> set (vd_visitors s). visitor_ok w"
    using ok by (simp_all add: visit_ok_def visit_inv_def)
  have "visit_ok s0 (s\<lparr>vd_visitors := map ?h (vd_visitors s)\<rparr>)"
  proof (rule ok_map_rows [OF ok])
    fix w assume w: "w \<in> set (vd_visitors s)"
    show "row_moves w (?h w) \<and> vi_code (?h w) = vi_code w \<and> visitor_ok (?h w) \<and>
        (vi_status (?h w) = CHECKED_IN \<longleftrightarrow> vi_status w = CHECKED_IN)"
      using find_visitor_same [OF ids v w] f rows w by (cases "vi_id w = i") simp_all
  qed
  then show ?thesis by (simp add: moved_to_def set_row_def set_where_def)
qed

section \<open>Rows after an update\<close>

lemma kind_ok_update [simp]:
  "kind_ok (v\<lparr>vi_status := a\<rparr>) = kind_ok v" "kind_ok (v\<lparr>vi_approver := b\<rparr>) = kind_ok v"
  "kind_ok (v\<lparr>vi_approved_at := c\<rparr>) = kind_ok v" "kind_ok (v\<lparr>vi_expires := c\<rparr>) = kind_ok v"
  "kind_ok (v\<lparr>vi_meta := d\<rparr>) = kind_ok v" "kind_ok (v\<lparr>vi_cancelled := c\<rparr>) = kind_ok v"
  "kind_ok (v\<lparr>vi_mismatch := x\<rparr>) = kind_ok v"
  by (cases "vi_type v"; simp add: kind_ok_def)+

lemma pass_ok_update [simp]:
  "pass_ok (v\<lparr>vi_status := a\<rparr>) = pass_ok v" "pass_ok (v\<lparr>vi_approver := b\<rparr>) = pass_ok v"
  "pass_ok (v\<lparr>vi_approved_at := c\<rparr>) = pass_ok v" "pass_ok (v\<lparr>vi_expires := c\<rparr>) = pass_ok v"
  "pass_ok (v\<lparr>vi_meta := d\<rparr>) = pass_ok v" "pass_ok (v\<lparr>vi_cancelled := c\<rparr>) = pass_ok v"
  "pass_ok (v\<lparr>vi_mismatch := x\<rparr>) = pass_ok v"
  by (simp_all add: pass_ok_def)

lemma status_ok_flag [simp]: "status_ok (v\<lparr>vi_mismatch := x\<rparr>) = status_ok v"
  by (cases "vi_status v"; simp add: status_ok_def)

lemma row_ok: "visit_ok s0 s \<Longrightarrow> find_visitor i s = Some v \<Longrightarrow> visitor_ok v"
  using find_visitor_Some by (auto simp: visit_ok_def visit_inv_def)

lemma one_step: "status_step a b \<Longrightarrow> status_step\<^sup>*\<^sup>* a b"
  by (rule r_into_rtranclp [of status_step])

text \<open>A status that any visitor but one of the office may reach, with nothing to show.\<close>

lemma closed_row_ok: "visitor_ok v \<Longrightarrow> vi_type v \<noteq> WALKIN_OFFICE \<Longrightarrow> st \<in> {EXPIRED, REJECTED, CANCELLED} \<Longrightarrow>
  visitor_ok (v\<lparr>vi_status := st\<rparr>)"
  by (auto simp: visitor_ok_def status_ok_def)

lemma entered_row_ok: "visitor_ok v \<Longrightarrow> st \<in> {CHECKED_IN, CHECKED_OUT} \<Longrightarrow> visitor_ok (v\<lparr>vi_status := st\<rparr>)"
  by (auto simp: visitor_ok_def status_ok_def)

lemma ok_expire_stale [pres]: "preserves (visit_ok s0) (expire_stale e condo)"
  unfolding expire_stale_def set_where_def
proof (rule preserves_modify)
  fix s assume ok: "visit_ok s0 s"
  let ?h = "\<lambda>v. if in_scope condo v \<and> is_stale (ve_now e) v then v\<lparr>vi_status := EXPIRED, vi_updated := ve_now e\<rparr> else v"
  show "visit_ok s0 (s\<lparr>vd_visitors := map ?h (vd_visitors s)\<rparr>)"
  proof (rule ok_map_rows [OF ok])
    fix v assume "v \<in> set (vd_visitors s)"
    then have v: "visitor_ok v" using ok by (simp add: visit_ok_def visit_inv_def)
    show "row_moves v (?h v) \<and> vi_code (?h v) = vi_code v \<and> visitor_ok (?h v) \<and>
      (vi_status (?h v) = CHECKED_IN \<longleftrightarrow> vi_status v = CHECKED_IN)"
    proof (cases "in_scope condo v \<and> is_stale (ve_now e) v")
      case True
      then have "status_step (vi_status v) EXPIRED" "vi_status v \<noteq> CHECKED_IN" "vi_type v \<noteq> WALKIN_OFFICE"
        using v by (auto simp: is_stale_def visitor_ok_def status_ok_def intro: status_step.intros)
      moreover have "?h v = v\<lparr>vi_status := EXPIRED, vi_updated := ve_now e\<rparr>" using True by simp
      ultimately show ?thesis using v by (simp only:) (simp add: closed_row_ok row_moves_def one_step)
    next
      case False
      then have "?h v = v" by (rule if_not_P)
      with v show ?thesis by (simp only: row_moves_refl)
    qed
  qed
qed

section \<open>Visitors that arrive\<close>

lemma count_where_append: "count_where p (xs @ ys) = count_where p xs + count_where p ys"
  by (simp add: count_where_def)

lemma count_where_none: "(\<And>x. x \<in> set xs \<Longrightarrow> \<not> p x) \<Longrightarrow> count_where p xs = 0"
  by (simp add: count_where_def filter_empty_conv)

text \<open>A new visitor, and the check-in of one who is let in at once.\<close>

lemma ok_new:
  assumes ok: "visit_ok s0 s" and v: "visitor_ok v" "begins v"
    and t: "vd_visitors t = vd_visitors s @ [v]" "vd_checkins t = vd_checkins s @ cs" "vd_passes t = vd_passes s"
      "vd_forms t = vd_forms s" "uuids (vdb t) = uuids (vdb s)" "next_uuid (vdb s) \<le> next_uuid (vdb t)"
    and ids: "{vi_id v} \<union> ci_id ` set cs \<subseteq> uuids (vdb s) ` {next_uuid (vdb s)..<next_uuid (vdb t)}"
    and code: "\<And>c. vi_code v = Some c \<Longrightarrow> \<not> code_taken (vi_condo v) c s"
    and cs: "if vi_status v = CHECKED_IN then \<exists>c. cs = [c] \<and> open_at (vi_id v) c else cs = []"
  shows "visit_ok s0 t"
proof (rule visit_ok_next [OF ok])
  have inv: "visit_inv s" using ok by (simp add: visit_ok_def)
  then have I: "visit_ids_ok s" "on_site_ok s" "distinct (given_codes s)" "\<forall>v \<in> set (vd_visitors s). visitor_ok v"
    by (simp_all add: visit_inv_def)
  have "inj (uuids (vdb s))" using I(1) by (simp add: visit_ids_ok_def)
  from supply_apart [OF this, of "next_uuid (vdb s)" "next_uuid (vdb t)"]
  have "vi_id v \<notin> uuids (vdb s) ` {..<next_uuid (vdb s)}" using ids by blast
  then have new: "vi_id v \<notin> vi_id ` set (vd_visitors s)" using I(1) unfolding visit_ids_ok_def by blast
  have "distinct (map ci_id cs)" using cs by (cases "vi_status v = CHECKED_IN") auto
  then have "visit_ids_ok t"
    using t ids by (intro ids_grow [OF I(1), of t "[vi_id v]" "map ci_id cs" "[]"]) simp_all
  moreover have "on_site_ok t"
  proof -
    have cv: "ci_visitor c = vi_id v" if "c \<in> set cs" for c
      using cs that by (cases "vi_status v = CHECKED_IN") (auto simp: open_at_def)
    have old: "ci_visitor c \<noteq> vi_id v" if "c \<in> set (vd_checkins s)" for c
      using I(2) that new unfolding on_site_ok_def by (metis image_eqI subsetD)
    have none: "count_where (open_at (vi_id v)) (vd_checkins s) = 0"
      by (rule count_where_none) (use old in \<open>auto simp: open_at_def\<close>)
    have "count_where (open_at (vi_id v)) cs = (if vi_status v = CHECKED_IN then 1 else 0)"
      using cs by (auto simp: count_where_def)
    moreover have "count_where (open_at (vi_id w)) cs = 0" if "w \<in> set (vd_visitors s)" for w
      by (rule count_where_none) (use cv new that in \<open>auto simp: open_at_def\<close>)
    ultimately show ?thesis
      using I(2) none cv by (auto simp: on_site_ok_def t count_where_append)
  qed
  moreover have "distinct (given_codes t)"
  proof (cases "vi_code v")
    case None
    then have "given_codes t = given_codes s" by (simp add: given_codes_def t map_filter_append List.map_filter_simps)
    with I(3) show ?thesis by simp
  next
    case (Some c)
    have "given_codes t = List.map_filter (\<lambda>v. map_option (Pair (vi_condo v)) (vi_code v)) (vd_visitors s) @ [(vi_condo v, c)] @
        List.map_filter (\<lambda>p. map_option (Pair (rp_condo p)) (rp_code p)) (vd_passes s) @ vd_forms s"
      by (simp add: given_codes_def t map_filter_append List.map_filter_simps Some)
    moreover have "(vi_condo v, c) \<notin> set (given_codes s)" using code [OF Some] by (simp add: taken_iff)
    ultimately show ?thesis using I(3) by (auto simp: given_codes_def)
  qed
  ultimately show "visit_inv t" using I(4) v(1) by (simp add: visit_inv_def t)
  show "visits_move (vd_visitors s) (vd_visitors t)"
    unfolding visits_move_def t using v(2) by (intro exI [of _ "\<lambda>v. v"] exI [of _ "[v]"]) simp
qed (simp add: id_grow_def t)

text \<open>A known visitor enters: the row moves and a check-in is opened.\<close>

lemma ok_enter:
  assumes ok: "visit_ok s0 s" and v: "find_visitor i s = Some v" "vi_status v \<noteq> CHECKED_IN"
    and f: "row_moves v (f v)" "vi_code (f v) = vi_code v" "visitor_ok (f v)" "vi_status (f v) = CHECKED_IN"
    and t: "vd_visitors t = vd_visitors (moved_to e i f s)" "vd_checkins t = vd_checkins s @ [c]" "vd_passes t = vd_passes s"
      "vd_forms t = vd_forms s" "uuids (vdb t) = uuids (vdb s)" "next_uuid (vdb s) \<le> next_uuid (vdb t)"
    and c: "open_at i c" "ci_id c \<in> uuids (vdb s) ` {next_uuid (vdb s)..<next_uuid (vdb t)}"
  shows "visit_ok s0 t"
proof (rule visit_ok_next [OF ok])
  have inv: "visit_inv s" using ok by (simp add: visit_ok_def)
  then have I: "visit_ids_ok s" "on_site_ok s" "distinct (given_codes s)" "\<forall>v \<in> set (vd_visitors s). visitor_ok v"
    by (simp_all add: visit_inv_def)
  define h where "h = (\<lambda>w. if vi_id w = i then (f w)\<lparr>vi_updated := ve_now e\<rparr> else w)"
  have vs: "vd_visitors t = map h (vd_visitors s)" by (simp add: t moved_to_def set_row_def set_where_def h_def)
  have vid: "v \<in> set (vd_visitors s)" "vi_id v = i" using find_visitor_Some [OF v(1)] by simp_all
  have h: "row_moves w (h w) \<and> vi_code (h w) = vi_code w \<and> visitor_ok (h w) \<and>
      (if vi_id w = i then vi_status (h w) = CHECKED_IN else h w = w)" if w: "w \<in> set (vd_visitors s)" for w
    using find_visitor_same [OF I(1) v(1) w] f I(4) w by (cases "vi_id w = i") (simp_all add: h_def)
  have key: "vi_id (h w) = vi_id w" if "w \<in> set (vd_visitors s)" for w using h [OF that] by (simp add: row_moves_def)
  have ids: "map vi_id (vd_visitors t) = map vi_id (vd_visitors s)" unfolding vs using key by simp
  have "visit_ids_ok t"
    using t ids c(2) by (intro ids_grow [OF I(1), of t "[]" "[ci_id c]" "[]"]) simp_all
  moreover have "on_site_ok t"
  proof -
    have "vi_id ` set (vd_visitors t) = vi_id ` set (vd_visitors s)" using arg_cong [OF ids, of set] by (simp only: list.set_map)
    then have "ci_visitor ` set (vd_checkins t) \<subseteq> vi_id ` set (vd_visitors t)"
      using I(2) vid c(1) by (auto simp: on_site_ok_def t(2) open_at_def)
    moreover have "count_where (open_at (vi_id (h w))) (vd_checkins t) = (if vi_status (h w) = CHECKED_IN then 1 else 0)"
      if w: "w \<in> set (vd_visitors s)" for w
    proof (cases "vi_id w = i")
      case True
      have "count_where (open_at (vi_id v)) (vd_checkins s) = 0" using I(2) vid(1) v(2) by (simp add: on_site_ok_def)
      then have "count_where (open_at i) (vd_checkins t) = 1"
        using c(1) vid(2) by (simp add: t(2) count_where_append) (simp add: count_where_def)
      with h [OF w] True key [OF w] show ?thesis by simp
    next
      case False
      with I(2) w h [OF w] c(1) show ?thesis
        by (simp add: on_site_ok_def t(2) count_where_append) (simp add: count_where_def open_at_def)
    qed
    ultimately show ?thesis unfolding on_site_ok_def vs by auto
  qed
  moreover have "given_codes t = given_codes s"
    unfolding given_codes_def vs t(3, 4) using h by (simp add: map_filter_cong row_moves_def)
  ultimately show "visit_inv t" using I(3, 4) h by (simp add: visit_inv_def vs)
  show "visits_move (vd_visitors s) (vd_visitors t)"
    unfolding visits_move_def vs using h by (intro exI [of _ h] exI [of _ "[]"]) simp
qed (simp add: id_grow_def t)

section \<open>Visitors that leave\<close>

lemma count_close:
  "distinct (map ci_id cs) \<Longrightarrow> c \<in> set cs \<Longrightarrow>
   count_where (open_at j) (set_row ci_id (ci_id c) (\<lambda>c. c\<lparr>ci_out := Some x, ci_out_guard := g\<rparr>) cs) =
     count_where (open_at j) cs - (if open_at j c then 1 else 0)"
proof (induction cs)
  case (Cons d cs)
  let ?f = "\<lambda>c. c\<lparr>ci_out := Some x, ci_out_guard := g\<rparr>"
  have closed: "\<not> open_at j (?f b)" for b by (simp add: open_at_def)
  show ?case
  proof (cases "d = c")
    case True
    then have "set_row ci_id (ci_id c) ?f cs = cs"
      using Cons.prems(1) by (auto simp: set_row_def set_where_def rev_image_eqI intro!: map_idI)
    with True closed show ?thesis by (simp add: set_row_def set_where_def count_where_def)
  next
    case False
    then have c: "c \<in> set cs" using Cons.prems(2) by simp
    then have "ci_id d \<noteq> ci_id c" using Cons.prems(1) by auto
    moreover have "open_at j c \<Longrightarrow> 0 < count_where (open_at j) cs"
      using c by (auto simp: count_where_def filter_empty_conv)
    ultimately show ?thesis using Cons.IH Cons.prems(1) c by (auto simp: set_row_def set_where_def count_where_def)
  qed
qed simp

lemma ok_leave:
  assumes ok: "visit_ok s0 s" and v: "find_visitor i s = Some v" and c: "c \<in> set (vd_checkins s)" "open_at i c"
    and t: "t = moved_to e i (\<lambda>v. v\<lparr>vi_status := CHECKED_OUT\<rparr>)
      (s\<lparr>vd_checkins := set_row ci_id (ci_id c) (\<lambda>c. c\<lparr>ci_out := Some x, ci_out_guard := g\<rparr>) (vd_checkins s)\<rparr>)"
  shows "visit_ok s0 t"
proof (rule visit_ok_next [OF ok])
  have inv: "visit_inv s" using ok by (simp add: visit_ok_def)
  then have I: "visit_ids_ok s" "on_site_ok s" "distinct (given_codes s)" "\<forall>v \<in> set (vd_visitors s). visitor_ok v"
    by (simp_all add: visit_inv_def)
  have vid: "v \<in> set (vd_visitors s)" "vi_id v = i" using find_visitor_Some [OF v] by simp_all
  have "0 < count_where (open_at (vi_id v)) (vd_checkins s)"
    using c vid by (auto simp: count_where_def filter_empty_conv)
  then have st: "vi_status v = CHECKED_IN" "count_where (open_at (vi_id v)) (vd_checkins s) = 1"
    using I(2) vid(1) by (auto simp: on_site_ok_def split: if_splits)
  define h :: "visitor \<Rightarrow> visitor" where "h = (\<lambda>w. if vi_id w = i then w\<lparr>vi_status := CHECKED_OUT, vi_updated := ve_now e\<rparr> else w)"
  have vs: "vd_visitors t = map h (vd_visitors s)" by (simp add: t moved_to_def set_row_def set_where_def h_def)
  have cs: "vd_checkins t = set_row ci_id (ci_id c) (\<lambda>c. c\<lparr>ci_out := Some x, ci_out_guard := g\<rparr>) (vd_checkins s)"
    by (simp add: t moved_to_def)
  have rest: "vd_passes t = vd_passes s" "vd_forms t = vd_forms s" "vdb t = vdb s" by (simp_all add: t moved_to_def)
  have cids: "map ci_id (vd_checkins t) = map ci_id (vd_checkins s)"
    and cvis: "map ci_visitor (vd_checkins t) = map ci_visitor (vd_checkins s)"
    unfolding cs by (simp_all add: set_row_def set_where_def)
  have key: "vi_id (h w) = vi_id w" for w by (simp add: h_def)
  have ids: "map vi_id (vd_visitors t) = map vi_id (vd_visitors s)" unfolding vs by (simp add: key)
  have h: "row_moves w (h w) \<and> vi_code (h w) = vi_code w \<and> visitor_ok (h w)" if w: "w \<in> set (vd_visitors s)" for w
    using find_visitor_same [OF I(1) v w] I(4) w st(1) one_step [OF leaves]
    by (cases "vi_id w = i") (auto simp: h_def row_moves_def entered_row_ok)
  have "visit_ids_ok t"
    by (rule ids_grow [OF I(1), of t "[]" "[]" "[]"]) (use ids cids in \<open>simp_all add: rest\<close>)
  moreover have "on_site_ok t"
  proof -
    have "vi_id ` set (vd_visitors t) = vi_id ` set (vd_visitors s)" using arg_cong [OF ids, of set] by (simp only: list.set_map)
    moreover have "ci_visitor ` set (vd_checkins t) = ci_visitor ` set (vd_checkins s)"
      using arg_cong [OF cvis, of set] by (simp only: list.set_map)
    moreover have "count_where (open_at (vi_id w)) (vd_checkins t) = (if vi_status (h w) = CHECKED_IN then 1 else 0)"
      if w: "w \<in> set (vd_visitors s)" for w
    proof -
      have "distinct (map ci_id (vd_checkins s))" using I(1) by (simp add: visit_ids_ok_def)
      from count_close [OF this c(1), where j = "vi_id w" and x = x and g = g]
      have n: "count_where (open_at (vi_id w)) (vd_checkins t) =
          count_where (open_at (vi_id w)) (vd_checkins s) - (if open_at (vi_id w) c then 1 else 0)"
        unfolding cs .
      show ?thesis
      proof (cases "vi_id w = i")
        case True
        then have "w = v" using find_visitor_same [OF I(1) v w] by simp
        with n st(2) c(2) vid(2) show ?thesis by (simp add: h_def)
      next
        case False
        then have "\<not> open_at (vi_id w) c" "h w = w" using c(2) by (auto simp: open_at_def h_def)
        with n I(2) w show ?thesis by (simp add: on_site_ok_def)
      qed
    qed
    ultimately show ?thesis using I(2) unfolding on_site_ok_def vs by (auto simp: key)
  qed
  moreover have "given_codes t = given_codes s"
    unfolding given_codes_def vs rest using h by (simp add: map_filter_cong row_moves_def)
  ultimately show "visit_inv t" using I(3, 4) h by (simp add: visit_inv_def vs)
  show "visits_move (vd_visitors s) (vd_visitors t)"
    unfolding visits_move_def vs using h by (intro exI [of _ h] exI [of _ "[]"]) simp
qed (simp add: t moved_to_def)

section \<open>Passes written\<close>

lemma split_last_colon:
  assumes "xs @ CHR '':'' # ys = xs' @ CHR '':'' # ys'" and "CHR '':'' \<notin> set ys" and "CHR '':'' \<notin> set ys'"
  shows "xs = xs' \<and> ys = ys'"
proof -
  have "takeWhile (\<lambda>c. c \<noteq> CHR '':'') (rev (us @ CHR '':'' # vs)) = rev vs" if "CHR '':'' \<notin> set vs" for us vs
    using that by (simp, subst takeWhile_append2) auto
  then have "rev ys = rev ys'" using assms by metis
  with assms(1) show ?thesis by simp
qed

lemma code_no_colon: "is_code c \<Longrightarrow> CHR '':'' \<notin> set c"
  by (auto simp: is_code_def code_chars_def)

lemma qr_payload_inj:
  assumes "qr_payload condo i c = qr_payload condo' i' c'" and "is_code c" and "is_code c'"
    and "CHR '':'' \<notin> set i" and "CHR '':'' \<notin> set i'"
  shows "condo = condo' \<and> i = i' \<and> c = c'"
proof -
  have "(condo @ CHR '':'' # i) @ CHR '':'' # c = (condo' @ CHR '':'' # i') @ CHR '':'' # c'"
    using assms(1) by (simp add: qr_payload_def)
  from split_last_colon [OF this code_no_colon [OF assms(2)] code_no_colon [OF assms(3)]]
  have "condo @ CHR '':'' # i = condo' @ CHR '':'' # i'" "c = c'" by simp_all
  with split_last_colon [OF this(1) assms(4, 5)] show ?thesis by simp
qed

lemma access_code_is_code: "is_code (access_code draw)"
proof -
  have "draw k mod length code_chars < length code_chars" for k by (rule mod_less_divisor) (simp add: code_chars_def)
  then have "code_chars ! (draw k mod length code_chars) \<in> set code_chars" for k by (rule nth_mem)
  then show ?thesis by (auto simp: is_code_def access_code_def)
qed

lemma row_id_no_colon: "visit_ids_ok s \<Longrightarrow> w \<in> set (vd_visitors s) \<Longrightarrow> CHR '':'' \<notin> set (vi_id w)"
  unfolding visit_ids_ok_def by (auto simp: subset_iff image_iff)

text \<open>A free code clashes with no row: the payload and the QR code name the row.\<close>

lemma free_code_no_clash:
  assumes inv: "visit_inv s" and free: "\<not> code_taken (vi_condo v) c s" and c: "is_code c"
    and i: "CHR '':'' \<notin> set (vi_id v)"
  shows "visitor_clash (pass_fields c v) (vd_visitors s) = None"
proof -
  have I: "visit_ids_ok s" "\<forall>v \<in> set (vd_visitors s). visitor_ok v" using inv by (simp_all add: visit_inv_def)
  have other: "vi_payload w \<noteq> Some (qr_payload (vi_condo v) (vi_id v) c) \<and> vi_qr w = vi_payload w"
    if w: "w \<in> set (vd_visitors s)" "vi_id w \<noteq> vi_id v" for w
  proof -
    have ok: "pass_ok w" using I(2) w(1) by (simp add: visitor_ok_def)
    have "qr_payload (vi_condo w) (vi_id w) d \<noteq> qr_payload (vi_condo v) (vi_id v) c" if "vi_code w = Some d" for d
      using qr_payload_inj [of "vi_condo w" "vi_id w" d "vi_condo v" "vi_id v" c] w(2) c i row_id_no_colon [OF I(1) w(1)] ok that
      by (auto simp: pass_ok_def)
    with ok show ?thesis by (cases "vi_code w") (auto simp: pass_ok_def)
  qed
  let ?p = "Some (qr_payload (vi_condo v) (vi_id v) c)"
  have "\<not> (vi_condo w = vi_condo v \<and> Some c = vi_code w)" "vi_id w \<noteq> vi_id v \<Longrightarrow> ?p \<noteq> vi_payload w"
    "vi_id w \<noteq> vi_id v \<Longrightarrow> ?p \<noteq> vi_qr w" if "w \<in> set (vd_visitors s)" for w
    using free that other [OF that] by (auto simp: code_taken_def list_ex_iff)
  then show ?thesis
    by (simp add: visitor_clash_def pass_fields_def Let_def list_ex_iff same_given_def)
qed

end
