(* ===== verification/Visitor_Calls.thy ===== *)
theory Visitor_Calls
  imports Visitor_Changes
begin

text \<open>
  Every call of the visitor services keeps the invariant and takes the visits along the desk's steps:
  one lemma for each way a call writes, then one for each call.
\<close>

section \<open>Rows written\<close>

lemma bumped: "visit_ok s0 s \<Longrightarrow> visit_ok s0 (bump s)"
  by (rule frame_visit_ok [OF frame_bump])

lemma fresh_supply: "fresh s \<in> uuids (vdb s) ` {next_uuid (vdb s)..<Suc (next_uuid (vdb s))}"
  by (simp add: fresh_def)

lemma wp_insert_visitor:
  "wp (insert_visitor e condo data) Q E s =
     (let v = data (blank_visitor (fresh s) condo (ve_now e)) in
      case visitor_clash v (vd_visitors s) of
        None \<Rightarrow> Q v ((bump s)\<lparr>vd_visitors := vd_visitors s @ [v]\<rparr>) | Some _ \<Rightarrow> E (bump s))"
  unfolding insert_visitor_def wp_bnd wp_fresh Let_def
  by (simp add: wp assert_no_clash_def add_row_def split: option.split)

definition entry_row :: "visit_env \<Rightarrow> string \<Rightarrow> string \<Rightarrow> string option \<Rightarrow> string option \<Rightarrow> string \<Rightarrow> check_in" where
  "entry_row e i g gate notes j =
     \<lparr>ci_id = j, ci_visitor = i, ci_at = ve_now e, ci_guard = Some g, ci_out = None, ci_out_guard = None,
      ci_gate = gate, ci_notes = notes\<rparr>"

lemma entry_row_open: "open_at i (entry_row e i g gate notes j)" "ci_id (entry_row e i g gate notes j) = j"
  by (simp_all add: entry_row_def open_at_def)

lemma wp_insert_check_in:
  "wp (insert_check_in e i g gate notes) Q E s =
     Q (entry_row e i g gate notes (fresh s)) ((bump s)\<lparr>vd_checkins := vd_checkins s @ [entry_row e i g gate notes (fresh s)]\<rparr>)"
  unfolding insert_check_in_def wp_bnd wp_fresh Let_def by (simp add: wp add_row_def entry_row_def)

text \<open>A new row that waits or is approved, without a code.\<close>

lemma wp_registered:
  assumes ok: "visit_ok s0 s"
    and v: "\<And>i. visitor_ok (data (blank_visitor i condo (ve_now e))) \<and> begins (data (blank_visitor i condo (ve_now e))) \<and>
      vi_id (data (blank_visitor i condo (ve_now e))) = i \<and> vi_code (data (blank_visitor i condo (ve_now e))) = None \<and>
      vi_status (data (blank_visitor i condo (ve_now e))) \<noteq> CHECKED_IN"
  shows "holds (insert_visitor e condo data) (visit_ok s0) s"
  unfolding wp_insert_visitor Let_def
proof (simp add: bumped [OF ok] split: option.split, intro impI)
  let ?v = "data (blank_visitor (fresh s) condo (ve_now e))"
  show "visit_ok s0 ((bump s)\<lparr>vd_visitors := vd_visitors s @ [?v]\<rparr>)"
    by (rule ok_new [OF ok, of ?v _ "[]"]) (use v [of "fresh s"] fresh_supply [of s] in simp_all)
qed

text \<open>A new row that is let in at once.\<close>

lemma wp_admitted:
  assumes ok: "visit_ok s0 s"
    and v: "\<And>i. visitor_ok (data (blank_visitor i condo (ve_now e))) \<and> vi_id (data (blank_visitor i condo (ve_now e))) = i \<and>
      vi_code (data (blank_visitor i condo (ve_now e))) = None \<and> vi_status (data (blank_visitor i condo (ve_now e))) = CHECKED_IN"
    and k: "\<And>v c. preserves (visit_ok s0) (k v c)"
  shows "wp (bnd (insert_visitor e condo data) (\<lambda>v. bnd (insert_check_in e (vi_id v) g gate notes) (k v)))
    (\<lambda>_. visit_ok s0) (\<lambda>_. True) s"
  unfolding wp_bnd wp_insert_visitor wp_insert_check_in Let_def
proof (simp split: option.split, intro impI preserves_success [OF k])
  let ?v = "data (blank_visitor (fresh s) condo (ve_now e))"
  let ?s = "(bump s)\<lparr>vd_visitors := vd_visitors s @ [?v]\<rparr>"
  let ?c = "entry_row e (vi_id ?v) g gate notes (fresh ?s)"
  have two: "{next_uuid (vdb s)..<Suc (Suc (next_uuid (vdb s)))} = {next_uuid (vdb s), Suc (next_uuid (vdb s))}" by auto
  have "begins ?v" using v [of "fresh s"] by (auto simp: begins_def first_statuses_def)
  then show "visit_ok s0 ((bump ?s)\<lparr>vd_checkins := vd_checkins s @ [?c]\<rparr>)"
    by (intro ok_new [OF ok, of ?v _ "[?c]"])
       (use v [of "fresh s"] in \<open>simp_all add: entry_row_open two, simp_all add: fresh_def\<close>)
qed

text \<open>A known visitor that enters.\<close>

lemma wp_entered:
  assumes ok: "visit_ok s0 s" and v: "find_visitor i s = Some v" "vi_status v \<noteq> CHECKED_IN"
    and f: "row_moves v (f v)" "vi_code (f v) = vi_code v" "visitor_ok (f v)" "vi_status (f v) = CHECKED_IN"
    and k: "\<And>c. preserves (visit_ok s0) (k c)"
  shows "wp (bnd (set_visitor e i f) (\<lambda>_. bnd (insert_check_in e i g gate notes) k)) (\<lambda>_. visit_ok s0) (\<lambda>_. True) s"
  unfolding wp_bnd wp_set_visitor wp_insert_check_in
proof (rule preserves_success [OF k])
  let ?t = "moved_to e i f s"
  have t: "vd_checkins ?t = vd_checkins s" "vd_passes ?t = vd_passes s" "vd_forms ?t = vd_forms s" "vdb ?t = vdb s"
    by (simp_all add: moved_to_def)
  show "visit_ok s0 ((bump ?t)\<lparr>vd_checkins := vd_checkins ?t @ [entry_row e i g gate notes (fresh ?t)]\<rparr>)"
    by (rule ok_enter [where f = f and e = e and c = "entry_row e i g gate notes (fresh ?t)", OF ok v f])
       (simp_all add: t entry_row_open fresh_def)
qed

lemma wp_checked_in:
  assumes "visit_ok s0 s" and "find_visitor i s = Some v" and "vi_status v = APPROVED"
    and "\<And>c. preserves (visit_ok s0) (k c)"
  shows "wp (bnd (set_status e i CHECKED_IN) (\<lambda>_. bnd (insert_check_in e i g gate notes) k)) (\<lambda>_. visit_ok s0) (\<lambda>_. True) s"
  unfolding set_status_def
  by (rule wp_entered [where f = "\<lambda>v. v\<lparr>vi_status := CHECKED_IN\<rparr>", OF assms(1, 2) _ _ _ _ _ assms(4)])
     (use assms(3) row_ok [OF assms(1, 2)] one_step [OF arrives] in \<open>simp_all add: row_moves_def entered_row_ok\<close>)

text \<open>A visitor that moves along and does not enter.\<close>

lemma wp_moved:
  assumes "visit_ok s0 s" and "find_visitor i s = Some v"
    and "row_moves v (f v)" "vi_code (f v) = vi_code v" "visitor_ok (f v)" "vi_status (f v) = CHECKED_IN \<longleftrightarrow> vi_status v = CHECKED_IN"
    and "preserves (visit_ok s0) k"
  shows "holds (bnd (set_visitor e i f) (\<lambda>_. k)) (visit_ok s0) s"
  unfolding wp_bnd wp_set_visitor by (rule guard_done [OF assms(7) ok_moved [where f = f, OF assms(1-6)]])

lemma wp_closed:
  assumes "visit_ok s0 s" and "find_visitor i s = Some v" and "status_step (vi_status v) st"
    and "st \<in> {EXPIRED, REJECTED, CANCELLED}" and "preserves (visit_ok s0) k"
  shows "holds (bnd (set_status e i st) (\<lambda>_. k)) (visit_ok s0) s"
proof -
  have "visitor_ok v" using assms(1, 2) by (rule row_ok)
  moreover have "vi_status v \<noteq> CHECKED_IN" using assms(3, 4) by (auto elim: status_stepE)
  moreover have "vi_type v \<noteq> WALKIN_OFFICE"
    using \<open>visitor_ok v\<close> assms(3, 4) by (auto elim!: status_stepE simp: visitor_ok_def status_ok_def)
  ultimately show ?thesis
    unfolding set_status_def using assms(3, 4)
    by (intro wp_moved [where f = "\<lambda>v. v\<lparr>vi_status := st\<rparr>", OF assms(1, 2) _ _ _ _ assms(5)]) (auto simp: row_moves_def one_step closed_row_ok)
qed

section \<open>Codes given\<close>

text \<open>The attempts, one after the other: each starts where the last one failed.\<close>

lemma wp_try_codes:
  "(\<And>code s. is_code code \<Longrightarrow> J s \<Longrightarrow> wp (f code) Q J s) \<Longrightarrow> J s \<Longrightarrow> wp (try_codes n draw f) Q J s"
proof (induction n arbitrary: draw s)
  case 0
  then show ?case by (simp add: wp)
next
  case (Suc n)
  obtain r t where run: "f (access_code draw) s = (r, t)" by (cases "f (access_code draw) s")
  have first: "wp (f (access_code draw)) Q J s" using Suc.prems access_code_is_code by blast
  show ?case
  proof (cases r)
    case (Inl err)
    then have "J t" using first by (simp add: wp_def run)
    from Suc.IH [OF Suc.prems(1) this] this Inl run show ?thesis by (simp add: wp_def)
  qed (use first run in \<open>simp add: wp_def\<close>)
qed

lemma preserves_try_codes:
  "(\<And>code s. is_code code \<Longrightarrow> I s \<Longrightarrow> holds (f code) I s) \<Longrightarrow> preserves I (try_codes n draw f)"
  by (rule preservesW, rule wp_try_codes)

lemma pass_fields_simps [simp]:
  "vi_id (pass_fields c v) = vi_id v" "vi_condo (pass_fields c v) = vi_condo v" "vi_code (pass_fields c v) = Some c"
  "vi_status (pass_fields c v) = vi_status v" "vi_type (pass_fields c v) = vi_type v" "vi_unit (pass_fields c v) = vi_unit v"
  "vi_host (pass_fields c v) = vi_host v"
  by (simp_all add: pass_fields_def Let_def)

lemma find_new_row: "i \<notin> key ` set xs \<Longrightarrow> key x = i \<Longrightarrow> find_row key i (xs @ [x]) = Some x"
  by (simp add: find_row_append find_row_None [THEN iffD2])

lemma set_new_row: "i \<notin> key ` set xs \<Longrightarrow> key x = i \<Longrightarrow> set_row key i f (xs @ [x]) = xs @ [f x]"
  by (auto simp: set_row_def set_where_def image_iff intro!: map_idI)

lemma clash_new_row: "vi_id v = vi_id w \<Longrightarrow> visitor_clash v (xs @ [w]) = visitor_clash v xs"
  by (simp add: visitor_clash_def)

text \<open>A new row and its pass: the second write cannot clash, and the row is whole afterwards.\<close>

lemma wp_with_pass:
  assumes ok: "visit_ok s0 s" and free: "\<not> code_taken condo c s" and c: "is_code c"
    and v: "\<And>i. visitor_ok (pass_fields c (data (blank_visitor i condo (ve_now e)))) \<and>
      begins (data (blank_visitor i condo (ve_now e))) \<and> vi_id (data (blank_visitor i condo (ve_now e))) = i \<and>
      vi_condo (data (blank_visitor i condo (ve_now e))) = condo \<and>
      vi_status (data (blank_visitor i condo (ve_now e))) \<noteq> CHECKED_IN"
  shows "holds (insert_with_pass e condo data c) (visit_ok s0) s"
proof -
  define b where "b = data (blank_visitor (fresh s) condo (ve_now e))"
  define v1 where "v1 = b\<lparr>vi_code := Some c, vi_payload := Some (qr_payload condo ''pending'' c)\<rparr>"
  define s1 where "s1 = (bump s)\<lparr>vd_visitors := vd_visitors s @ [v1]\<rparr>"
  define v2 where "v2 = (pass_fields c v1)\<lparr>vi_updated := ve_now e\<rparr>"
  have b: "visitor_ok (pass_fields c b)" "begins b" "vi_id b = fresh s" "vi_condo b = condo" "vi_status b \<noteq> CHECKED_IN"
    using v [of "fresh s"] by (simp_all add: b_def)
  have inv: "visit_inv s" using ok by (simp add: visit_ok_def)
  then have ids: "visit_ids_ok s" by (simp add: visit_inv_def)
  have id: "vi_id v1 = fresh s" "vi_condo v1 = condo" by (simp_all add: v1_def b)
  have new: "fresh s \<notin> vi_id ` set (vd_visitors s)" using fresh_new [OF ids] by simp
  have colon: "CHR '':'' \<notin> set (fresh s)" using ids by (simp add: visit_ids_ok_def fresh_def)
  have same: "pass_fields c v1 = pass_fields c b" by (simp add: v1_def pass_fields_def Let_def)
  have find: "find_visitor (fresh s) s1 = Some v1"
    using find_new_row [OF new id(1)] by (simp add: find_visitor_def s1_def)
  have clash: "visitor_clash (pass_fields c v1) (vd_visitors s1) = None"
    using free_code_no_clash [OF inv _ c, of v1] free colon by (simp add: s1_def clash_new_row id)
  have moved: "moved_to e (fresh s) (\<lambda>v. pass_fields c v) s1 = (bump s)\<lparr>vd_visitors := vd_visitors s @ [v2]\<rparr>"
    using set_new_row [OF new id(1)] by (simp add: moved_to_def s1_def v2_def)
  have whole: "visit_ok s0 ((bump s)\<lparr>vd_visitors := vd_visitors s @ [v2]\<rparr>)"
    by (rule ok_new [OF ok, of v2 _ "[]"])
       (use b free id fresh_supply [of s] in \<open>simp_all add: v2_def same begins_def\<close>)
  have "find_visitor (fresh s) ((bump s)\<lparr>vd_visitors := vd_visitors s @ [v2]\<rparr>) = Some v2"
    using find_new_row [OF new, of v2] by (simp add: find_visitor_def v2_def id)
  then have "holds (write_pass e (vi_id v1) (\<lambda>v. v) c) (visit_ok s0) s1"
    unfolding write_pass_def read_visitor_def assert_no_clash_def wp_bnd wp_set_visitor id(1) moved
    using whole by (simp add: wp find clash moved)
  then show ?thesis
    unfolding insert_with_pass_def wp_bnd wp_insert_visitor Let_def
    using bumped [OF ok] by (simp add: b_def [symmetric] v1_def [symmetric] s1_def [symmetric] split: option.split)
qed

lemma issue_pass_ok:
  assumes "\<And>i c. is_code c \<Longrightarrow> visitor_ok (pass_fields c (data (blank_visitor i condo (ve_now e)))) \<and>
      begins (data (blank_visitor i condo (ve_now e))) \<and> vi_id (data (blank_visitor i condo (ve_now e))) = i \<and>
      vi_condo (data (blank_visitor i condo (ve_now e))) = condo \<and>
      vi_status (data (blank_visitor i condo (ve_now e))) \<noteq> CHECKED_IN"
  shows "preserves (visit_ok s0) (issue_pass e condo data)"
  unfolding issue_pass_def with_unique_code_def
proof (rule preserves_try_codes)
  fix c s assume c: "is_code c" and ok: "visit_ok s0 s"
  show "holds (bnd (assert_code_free condo c) (\<lambda>_. insert_with_pass e condo data c)) (visit_ok s0) s"
    unfolding assert_code_free_def wp_bnd
    using wp_with_pass [OF ok _ c assms [OF c]] ok by (simp add: wp)
qed

text \<open>An overnight stay gets its pass when management approves it.\<close>

lemma given_codes_gain:
  assumes "visit_ids_ok s" and v: "v \<in> set (vd_visitors s)" "vi_code v = None"
    and h: "\<And>w. w \<in> set (vd_visitors s) \<Longrightarrow> vi_condo (h w) = vi_condo w \<and> (vi_id w \<noteq> vi_id v \<longrightarrow> vi_code (h w) = vi_code w)"
      "vi_code (h v) = Some c"
    and t: "vd_visitors t = map h (vd_visitors s)" "vd_passes t = vd_passes s" "vd_forms t = vd_forms s"
    and s: "distinct (given_codes s)" "\<not> code_taken (vi_condo v) c s"
  shows "distinct (given_codes t)"
proof -
  let ?code = "\<lambda>v. map_option (Pair (vi_condo v)) (vi_code v)"
  obtain xs ys where vs: "vd_visitors s = xs @ v # ys" using v(1) by (metis in_set_conv_decomp)
  have d: "distinct (map vi_id (xs @ v # ys))" using assms(1) vs by (simp add: visit_ids_ok_def)
  have off: "vi_id w \<noteq> vi_id v" if "w \<in> set xs \<union> set ys" for w using d that by (auto simp: rev_image_eqI)
  have part: "List.map_filter ?code (map h us) = List.map_filter ?code us" if "set us \<subseteq> set xs \<union> set ys" for us
    by (rule map_filter_cong) (use h(1) off vs that in auto)
  have hv: "vi_condo (h v) = vi_condo v" using h(1) v(1) by simp
  let ?A = "List.map_filter ?code xs" and ?B = "List.map_filter ?code ys @
    List.map_filter (\<lambda>p. map_option (Pair (rp_condo p)) (rp_code p)) (vd_passes s) @ vd_forms s"
  have "given_codes s = ?A @ ?B" by (simp add: given_codes_def vs map_filter_append List.map_filter_simps v(2))
  moreover have "given_codes t = ?A @ (vi_condo v, c) # ?B"
    by (simp add: given_codes_def t vs map_filter_append List.map_filter_simps h(2) hv part)
  ultimately show ?thesis using s by (simp add: taken_iff)
qed

lemma ok_coded:
  assumes ok: "visit_ok s0 s" and v: "find_visitor i s = Some v" "vi_code v = None"
    and free: "\<not> code_taken (vi_condo v) c s"
    and f: "row_moves v (f v)" "vi_code (f v) = Some c" "visitor_ok (f v)" "vi_status (f v) \<noteq> CHECKED_IN" "vi_status v \<noteq> CHECKED_IN"
  shows "visit_ok s0 (moved_to e i f s)"
proof (rule visit_ok_next [OF ok])
  let ?t = "moved_to e i f s"
  have I: "visit_ids_ok s" "on_site_ok s" "distinct (given_codes s)" "\<forall>v \<in> set (vd_visitors s). visitor_ok v"
    using ok by (simp_all add: visit_ok_def visit_inv_def)
  define h where "h = (\<lambda>w. if vi_id w = i then (f w)\<lparr>vi_updated := ve_now e\<rparr> else w)"
  have vs: "vd_visitors ?t = map h (vd_visitors s)" by (simp add: moved_to_def set_row_def set_where_def h_def)
  have rest: "vd_checkins ?t = vd_checkins s" "vd_passes ?t = vd_passes s" "vd_forms ?t = vd_forms s" "vdb ?t = vdb s"
    by (simp_all add: moved_to_def)
  have vid: "v \<in> set (vd_visitors s)" "vi_id v = i" using find_visitor_Some [OF v(1)] by simp_all
  have h: "row_moves w (h w) \<and> visitor_ok (h w) \<and> (vi_status (h w) = CHECKED_IN \<longleftrightarrow> vi_status w = CHECKED_IN) \<and>
      (vi_id w \<noteq> vi_id v \<longrightarrow> h w = w)" if w: "w \<in> set (vd_visitors s)" for w
    using find_visitor_same [OF I(1) v(1) w] f I(4) w vid by (cases "vi_id w = i") (simp_all add: h_def)
  have key: "vi_id (h w) = vi_id w" if "w \<in> set (vd_visitors s)" for w using h [OF that] by (simp add: row_moves_def)
  have ids: "map vi_id (vd_visitors ?t) = map vi_id (vd_visitors s)" unfolding vs using key by simp
  have "visit_ids_ok ?t"
    by (rule ids_grow [OF I(1), of ?t "[]" "[]" "[]"]) (use ids in \<open>simp_all add: rest\<close>)
  moreover have "on_site_ok ?t"
  proof -
    have "vi_id ` set (vd_visitors ?t) = vi_id ` set (vd_visitors s)" using arg_cong [OF ids, of set] by (simp only: list.set_map)
    moreover have "count_where (open_at (vi_id (h w))) (vd_checkins s) = (if vi_status (h w) = CHECKED_IN then 1 else 0)"
      if "w \<in> set (vd_visitors s)" for w using I(2) h [OF that] key [OF that] that by (simp add: on_site_ok_def)
    ultimately show ?thesis using I(2) unfolding on_site_ok_def rest by (auto simp: vs)
  qed
  moreover have "distinct (given_codes ?t)"
    by (rule given_codes_gain [of s v h c, OF I(1) vid(1) v(2) _ _ vs rest(2, 3) I(3) free])
       (use h in \<open>auto simp: row_moves_def\<close>, use f(2) vid in \<open>simp add: h_def\<close>)
  ultimately show "visit_inv ?t" using h by (simp add: visit_inv_def vs)
  show "visits_move (vd_visitors s) (vd_visitors ?t)"
    unfolding visits_move_def vs using h by (intro exI [of _ h] exI [of _ "[]"]) simp
qed (simp add: moved_to_def)

section \<open>Recurring passes\<close>

lemma ok_passes:
  assumes ok: "visit_ok s0 s" and ids: "visit_ids_ok t" and codes: "distinct (given_codes t)"
    and t: "vd_visitors t = vd_visitors s" "vd_checkins t = vd_checkins s" "id_grow (vdb s) (vdb t)"
  shows "visit_ok s0 t"
  by (rule visit_ok_next [OF ok])
     (use ok ids codes in \<open>simp_all add: visit_ok_def visit_inv_def on_site_ok_def t\<close>)

lemma ok_add_pass:
  assumes ok: "visit_ok s0 s" and p: "rp_id p = fresh s" "rp_code p = Some c" "\<not> code_taken (rp_condo p) c s"
  shows "visit_ok s0 ((bump s)\<lparr>vd_passes := vd_passes s @ [p]\<rparr>)" (is "visit_ok s0 ?t")
proof (rule ok_passes [OF ok])
  have I: "visit_ids_ok s" "distinct (given_codes s)" using ok by (simp_all add: visit_ok_def visit_inv_def)
  show "visit_ids_ok ?t"
    by (rule ids_grow [OF I(1), of ?t "[]" "[]" "[rp_id p]"]) (use fresh_supply [of s] p(1) in simp_all)
  show "distinct (given_codes ?t)"
    using I(2) p(2, 3) by (auto simp: given_codes_def map_filter_append List.map_filter_simps taken_iff)
qed (simp_all add: id_grow_def)

lemma ok_map_passes:
  assumes ok: "visit_ok s0 s"
    and h: "\<And>p. p \<in> set (vd_passes s) \<Longrightarrow> rp_id (h p) = rp_id p \<and> rp_condo (h p) = rp_condo p \<and> rp_code (h p) = rp_code p"
  shows "visit_ok s0 (s\<lparr>vd_passes := map h (vd_passes s)\<rparr>)" (is "visit_ok s0 ?t")
proof (rule ok_passes [OF ok])
  have I: "visit_ids_ok s" "distinct (given_codes s)" using ok by (simp_all add: visit_ok_def visit_inv_def)
  show "visit_ids_ok ?t"
    by (rule ids_grow [OF I(1), of ?t "[]" "[]" "[]"]) (use h in simp_all)
  have "given_codes ?t = given_codes s" unfolding given_codes_def using h by (simp add: map_filter_cong)
  with I(2) show "distinct (given_codes ?t)" by simp
qed (simp_all add: id_grow_def)

lemma ok_drop_passes:
  assumes ok: "visit_ok s0 s"
  shows "visit_ok s0 (s\<lparr>vd_passes := filter q (vd_passes s)\<rparr>)" (is "visit_ok s0 ?t")
proof (rule ok_passes [OF ok])
  have I: "visit_ids_ok s" "distinct (given_codes s)" using ok by (simp_all add: visit_ok_def visit_inv_def)
  have "distinct (map rp_id (filter q ps))" if "distinct (map rp_id ps)" for ps
    using that by (induction ps) auto
  then show "visit_ids_ok ?t" using I(1) unfolding visit_ids_ok_def by auto
  let ?code = "\<lambda>p. map_option (Pair (rp_condo p)) (rp_code p)"
  have "distinct (List.map_filter ?code (filter q ps)) \<and>
      set (List.map_filter ?code (filter q ps)) \<subseteq> set (List.map_filter ?code ps)"
    if "distinct (List.map_filter ?code ps)" for ps
    using that by (induction ps) (auto simp: List.map_filter_simps split: option.splits)
  then show "distinct (given_codes ?t)" using I(2) by (fastforce simp: given_codes_def)
qed (simp_all add: id_grow_def)

end
