(* ===== verification/Visitor_Reach.thy ===== *)
theory Visitor_Reach
  imports Visitor_Calls
begin

text \<open>
  One lemma for each call of the visitor services, the system that runs them in any order, and the
  invariant of its states.
\<close>

section \<open>The end of the day\<close>

text \<open>The visits that are still to be closed are the ones the sweep has found.\<close>

definition awaiting :: "(visitor \<times> check_in list) list \<Rightarrow> visitor_db \<Rightarrow> bool" where
  "awaiting xs s \<longleftrightarrow> distinct (map (vi_id \<circ> fst) xs) \<and>
     (\<forall>(v, cs) \<in> set xs. find_visitor (vi_id v) s = Some v \<and> cs = open_check_ins (vi_id v) s)"

lemma open_check_ins_mem: "c \<in> set (open_check_ins i s) \<longleftrightarrow> c \<in> set (vd_checkins s) \<and> open_at i c"
  by (auto simp: open_check_ins_def open_at_def)

definition closed_visit :: "visit_env \<Rightarrow> string \<Rightarrow> check_in \<Rightarrow> int \<Rightarrow> string option \<Rightarrow> visitor_db \<Rightarrow> visitor_db" where
  "closed_visit e i c t g s =
     moved_to e i (\<lambda>v. v\<lparr>vi_status := CHECKED_OUT\<rparr>)
       (s\<lparr>vd_checkins := set_row ci_id (ci_id c) (\<lambda>c. c\<lparr>ci_out := Some t, ci_out_guard := g\<rparr>) (vd_checkins s)\<rparr>)"

lemma wp_close: "wp (bnd (close_check_in (ci_id c) t g) (\<lambda>_. bnd (set_status e i CHECKED_OUT) (\<lambda>_. k))) Q E s =
    wp k Q E (closed_visit e i c t g s)"
  unfolding wp_bnd wp_set_status close_check_in_def wp_modify closed_visit_def ..

lemma closed_visit_ok:
  "visit_ok s0 s \<Longrightarrow> find_visitor i s = Some v \<Longrightarrow> c \<in> set (open_check_ins i s) \<Longrightarrow> visit_ok s0 (closed_visit e i c t g s)"
  by (rule ok_leave [OF _ _ _ _ closed_visit_def]) (simp_all add: open_check_ins_mem)

text \<open>The other visits stay as they were found.\<close>

lemma closed_visit_others:
  assumes ids: "visit_ids_ok s" and c: "c \<in> set (open_check_ins i s)" and j: "j \<noteq> i"
  shows "find_visitor j (closed_visit e i c t g s) = find_visitor j s"
    and "open_check_ins j (closed_visit e i c t g s) = open_check_ins j s"
proof -
  show "find_visitor j (closed_visit e i c t g s) = find_visitor j s"
    unfolding closed_visit_def moved_to_def find_visitor_def using j by (simp add: find_row_set_row)
  have cs: "ci_visitor c = i" "c \<in> set (vd_checkins s)" using c by (auto simp: open_check_ins_mem open_at_def)
  have same: "b = c" if "b \<in> set (vd_checkins s)" "ci_id b = ci_id c" for b
    using ids that cs(2) unfolding visit_ids_ok_def by (metis distinct_map inj_onD)
  let ?h = "\<lambda>b. if ci_id b = ci_id c then b\<lparr>ci_out := Some t, ci_out_guard := g\<rparr> else b"
  let ?p = "\<lambda>b. ci_visitor b = j \<and> ci_out b = None"
  have "filter ?p (map ?h bs) = filter ?p bs" if "set bs \<subseteq> set (vd_checkins s)" for bs
    using that
  proof (induction bs)
    case (Cons b bs)
    then have IH: "filter ?p (map ?h bs) = filter ?p bs" by simp
    have "ci_id b = ci_id c \<Longrightarrow> \<not> ?p b" using same [of b] Cons.prems cs(1) j by auto
    with IH cs(1) j show ?case by auto
  qed simp
  then show "open_check_ins j (closed_visit e i c t g s) = open_check_ins j s"
    by (simp add: open_check_ins_def closed_visit_def moved_to_def set_row_def set_where_def)
qed

lemma emit_reads_others:
  "find_visitor j (s\<lparr>vd_events := evs\<rparr>) = find_visitor j s" "open_check_ins j (s\<lparr>vd_events := evs\<rparr>) = open_check_ins j s"
  by (simp_all add: find_visitor_def open_check_ins_def)

lemma auto_close_one_ok:
  assumes ok: "visit_ok s0 s" and w: "awaiting (x # xs) s"
  shows "wp (auto_close_one e condo day x) (\<lambda>_ t. visit_ok s0 t \<and> awaiting xs t) (visit_ok s0) s"
proof (cases x)
  case (Pair v cs)
  have x: "find_visitor (vi_id v) s = Some v" "cs = open_check_ins (vi_id v) s" and rest: "awaiting xs s"
    using w by (auto simp: awaiting_def Pair)
  show ?thesis
  proof (cases cs)
    case Nil
    with ok rest show ?thesis by (simp add: auto_close_one_def Pair wp)
  next
    case (Cons c cs')
    then have c: "c \<in> set (open_check_ins (vi_id v) s)" using x(2) by (metis list.set_intros(1))
    have ids: "visit_ids_ok s" using ok by (simp add: visit_ok_def visit_inv_def)
    have after: "visit_ok s0 t' \<and> awaiting xs t'"
      if t': "t' = (closed_visit e (vi_id v) c z None s)\<lparr>vd_events := evs\<rparr>" for z evs t'
    proof
      show "visit_ok s0 t'" unfolding t'
        by (rule frame_visit_ok [OF _ closed_visit_ok [OF ok x(1) c, of e z None]]) (simp add: visit_frame_def)
      have "distinct (map (vi_id \<circ> fst) xs)" "vi_id v \<notin> (vi_id \<circ> fst) ` set xs"
        using w by (simp_all add: awaiting_def Pair)
      then show "awaiting xs t'"
        using rest closed_visit_others [OF ids c] unfolding awaiting_def t' emit_reads_others by (force simp: image_iff)
    qed
    show ?thesis
    proof (cases "auto_close_at v (ci_at c) day (ve_now e)")
      case None
      with ok rest show ?thesis by (simp add: auto_close_one_def Pair Cons wp)
    next
      case (Some z)
      show ?thesis
        unfolding auto_close_one_def Pair Cons prod.case list.case Some option.case wp_close
        unfolding emit_visit_def wp_bnd wp_modify wp_ret by (rule after) (rule refl)
    qed
  qed
qed

lemma auto_close_loop_ok: "awaiting xs s \<Longrightarrow> visit_ok s0 s \<Longrightarrow> holds (for_each xs (auto_close_one e condo day)) (visit_ok s0) s"
proof (induction xs arbitrary: s)
  case (Cons x xs)
  have "wp (for_each xs (auto_close_one e condo day)) (\<lambda>_. visit_ok s0) (visit_ok s0) t"
    if "visit_ok s0 t \<and> awaiting xs t" for t using Cons.IH that by blast
  then show ?case
    unfolding for_each.simps wp_bnd wp_ret by (intro wp_mono [OF auto_close_one_ok [OF Cons.prems(2, 1)]])
qed (simp add: wp)

lemma open_visits_awaiting: "visit_ids_ok s \<Longrightarrow> awaiting (open_visits condo s) s"
proof -
  assume ids: "visit_ids_ok s"
  let ?p = "\<lambda>v. vi_condo v = condo \<and> vi_status v = CHECKED_IN \<and> open_check_ins (vi_id v) s \<noteq> []"
  have "distinct (map vi_id vs) \<Longrightarrow> distinct (map vi_id (filter ?p vs))" for vs
    by (induction vs) auto
  then have "distinct (map vi_id (filter ?p (vd_visitors s)))" using ids unfolding visit_ids_ok_def by blast
  then have "distinct (map (vi_id \<circ> fst) (open_visits condo s))" by (simp add: open_visits_def comp_def)
  moreover have "find_visitor (vi_id v) s = Some v" if "v \<in> set (vd_visitors s)" for v
    using find_row_distinct [of vi_id "vd_visitors s" v] ids that by (simp add: visit_ids_ok_def find_visitor_def)
  ultimately show ?thesis by (auto simp: awaiting_def open_visits_def)
qed

lemma auto_close_ok [pres]: "preserves (visit_ok s0) (auto_close e condo)"
proof (rule preservesW)
  fix s assume ok: "visit_ok s0 s"
  then have "awaiting (open_visits condo s) s" by (intro open_visits_awaiting) (simp add: visit_ok_def visit_inv_def)
  then have "holds (for_each (open_visits condo s) (auto_close_one e condo day)) (visit_ok s0) s" for day
    using auto_close_loop_ok ok by blast
  then show "holds (auto_close e condo) (visit_ok s0) s"
    unfolding auto_close_def case_prod_beta
    by (intro guard_reads [of "visit_ok s0", OF ok guards_only_read(8)] guard_gets)
       (unfold wp_bnd [of "for_each x f" for x f] wp_ret, assumption)
qed

lemma sweep_ok: "preserves (visit_ok s0) (auto_close_sweep e lock_free)"
  unfolding auto_close_sweep_def by (intro pres)

section \<open>Calls that leave the visits alone\<close>

lemma frame_settings: "preserves (visit_frame s) (visit_base (modify (\<lambda>b. b\<lparr>condos := f b\<rparr>)))"
  by (rule frame_base, rule preserves_modify) (simp add: id_grow_def)

lemma frame_tables:
  "preserves (visit_frame s) (modify (\<lambda>s. s\<lparr>vd_favourites := f1 s\<rparr>))"
  "preserves (visit_frame s) (modify (\<lambda>s. s\<lparr>vd_policies := f2 s\<rparr>))"
  "preserves (visit_frame s) (modify (\<lambda>s. s\<lparr>vd_blacklist := f3 s\<rparr>))"
  by (rule frame_modify, simp add: visit_frame_def)+

lemmas frames = frame_settings frame_tables guards_only_read [THEN reads_preserves]

lemma frame_upsert [pres]: "preserves (visit_frame s) (upsert_policy condo unit u t reason)"
  unfolding upsert_policy_def Let_def by (intro frames pres)

lemma frame_favourites [pres]:
  "preserves (visit_frame s) (create_favourite u fd)" "preserves (visit_frame s) (update_favourite u i fp)"
  "preserves (visit_frame s) (delete_favourite u i)" "preserves (visit_frame s) (list_favourites u unit)"
  unfolding create_favourite_def update_favourite_def delete_favourite_def list_favourites_def my_favourite_def Let_def
  by (intro frames pres)+

lemma frame_units [pres]:
  "preserves (visit_frame s) (suspend_unit e u condo unit d)" "preserves (visit_frame s) (unsuspend_unit e u condo unit)"
  "preserves (visit_frame s) (update_visitor_settings e u condo vp legacy)"
  "preserves (visit_frame s) (get_visitor_settings e u condo)" "preserves (visit_frame s) (overnight_summary e u condo month)"
  unfolding suspend_unit_def unsuspend_unit_def update_visitor_settings_def get_visitor_settings_def overnight_summary_def
    require_visit_condo_def Let_def case_prod_beta
  by (intro frames pres)+

lemma frame_kept_out [pres]:
  "preserves (visit_frame s) (create_blacklist e u condo bi)" "preserves (visit_frame s) (update_blacklist e u i bp)"
  "preserves (visit_frame s) (remove_blacklist u i)" "preserves (visit_frame s) (list_blacklist u condo)"
  unfolding create_blacklist_def update_blacklist_def remove_blacklist_def list_blacklist_def find_blacklist_def
    assert_management_def Let_def
  by (intro frames pres)+

lemma frame_lists [pres]:
  "preserves (visit_frame s) (list_unit_visitors u unit q)" "preserves (visit_frame s) (list_condo_visitors e condo viewer q)"
  "preserves (visit_frame s) (pass_qr u i)" "preserves (visit_frame s) (admin_stats e u condo)"
  "preserves (visit_frame s) (walk_in_policy e active)"
  "preserves (visit_frame s) (walk_in_owner_contacts u active i)" "preserves (visit_frame s) (preview_overnight e u condo t)"
  "preserves (visit_frame s) (list_unit_passes u unit)" "preserves (visit_frame s) (list_condo_passes u condo)"
  "preserves (visit_frame s) (verify_recurring e pass condo')"
  unfolding list_unit_visitors_def list_condo_visitors_def pass_qr_def admin_stats_def walk_in_policy_def
    walk_in_owner_contacts_def preview_overnight_def list_unit_passes_def list_condo_passes_def verify_recurring_def Let_def
  by (intro frames pres)+

section \<open>Calls that register a visitor\<close>

text \<open>Rows as the calls register them.\<close>

lemmas row_shapes = visitor_ok_def kind_ok_def status_ok_def pass_ok_def begins_def first_statuses_def blank_visitor_def

lemma begins_first: "vi_status v \<in> first_statuses \<Longrightarrow> begins v"
  by (auto simp: begins_def)

lemma pass_ok_fields: "is_code c \<Longrightarrow> pass_ok (pass_fields c v)"
  by (simp add: pass_ok_def pass_fields_def Let_def)

lemma pre_reg_row:
  assumes "is_code c" and "oo_approved o'"
  shows "visitor_ok (pass_fields c (pre_reg_data e u d unit phone x o' (blank_visitor i condo n)))"
  unfolding visitor_ok_def using assms(2)
  by (intro conjI pass_ok_fields [OF assms(1)])
     (simp_all add: kind_ok_def status_ok_def pass_fields_def Let_def pre_reg_data_def input_entry_def)

lemma quick_row: "is_code c \<Longrightarrow> visitor_ok (pass_fields c (quick_data e u d unit (blank_visitor i condo n)))"
  unfolding visitor_ok_def
  by (intro conjI pass_ok_fields) (simp_all add: kind_ok_def status_ok_def pass_fields_def Let_def quick_data_def)

lemma issued_pre_reg: "oo_approved o' \<Longrightarrow> preserves (visit_ok s0) (issue_pass e condo (pre_reg_data e u d unit phone x o'))"
  by (rule issue_pass_ok) (simp add: pre_reg_row, simp add: pre_reg_data_def row_shapes)

lemma issued_quick [pres]: "preserves (visit_ok s0) (issue_pass e condo (quick_data e u d unit))"
  by (rule issue_pass_ok) (simp add: quick_row, simp add: quick_data_def row_shapes Let_def)

lemma day_outcome_approved [simp]: "oo_approved (day_outcome d)"
  by (simp add: day_outcome_def)

text \<open>A stay that waits for management is an overnight one.\<close>

lemma waiting_pre_reg:
  assumes "\<not> oo_approved o'" and "input_overnight d"
  shows "preserves (visit_ok s0) (insert_visitor e condo (pre_reg_data e u d unit phone x o'))"
proof (rule preservesW, rule wp_registered)
  let ?v = "\<lambda>i. pre_reg_data e u d unit phone x o' (blank_visitor i condo (ve_now e))"
  fix i
  have "visitor_ok (?v i)"
    using assms by (simp add: visitor_ok_def kind_ok_def status_ok_def pass_ok_def pre_reg_data_def input_entry_def blank_visitor_def)
  then show "visitor_ok (?v i) \<and> begins (?v i) \<and> vi_id (?v i) = i \<and> vi_code (?v i) = None \<and> vi_status (?v i) \<noteq> CHECKED_IN"
    using assms by (simp add: pre_reg_data_def begins_first first_statuses_def blank_visitor_def)
qed

lemma ret_first: "bnd (ret x) f = f x"
  by (rule ext) (simp add: runs)

lemma create_visitor_ok: "preserves (visit_ok s0) (create_visitor e u d)"
proof -
  have stay: "preserves (visit_ok s0)
      (if oo_approved o' then issue_pass e condo (pre_reg_data e u d unit phone x o')
       else insert_visitor e condo (pre_reg_data e u d unit phone x o'))"
    if "input_overnight d" for o' condo unit phone x
    using issued_pre_reg waiting_pre_reg [OF _ that] by simp
  show ?thesis
  proof (cases "input_overnight d")
    case True
    show ?thesis unfolding create_visitor_def Let_def by (simp only: True if_True) (intro stay [OF True] pres)
  next
    case False
    show ?thesis
      unfolding create_visitor_def Let_def
      by (simp only: False if_False ret_first day_outcome_approved if_True) (intro issued_pre_reg [OF day_outcome_approved] pres)
  qed
qed

lemma create_delivery_ok: "preserves (visit_ok s0) (create_delivery_pass e u q)"
  unfolding create_delivery_pass_def by (intro pres)

section \<open>Walk-ins\<close>

lemma admitted_tx:
  assumes "\<And>i. visitor_ok (data (blank_visitor i condo (ve_now e))) \<and> vi_id (data (blank_visitor i condo (ve_now e))) = i \<and>
      vi_code (data (blank_visitor i condo (ve_now e))) = None \<and> vi_status (data (blank_visitor i condo (ve_now e))) = CHECKED_IN"
    and "\<And>v c. preserves (visit_ok s0) (k v c)"
  shows "preserves (visit_ok s0) (txn (bnd (insert_visitor e condo data) (\<lambda>v. bnd (insert_check_in e (vi_id v) g gate notes) (k v))))"
  by (rule preserves_txnI) (rule wp_admitted [OF _ assms])

lemma admit_ok [pres]: "preserves (visit_ok s0) (admit_walk_in e g condo unit d by_guard)"
  unfolding admit_walk_in_def
  by (intro admitted_tx pres)
     (simp add: visitor_ok_def kind_ok_def status_ok_def pass_ok_def admit_data_def walk_in_data_def blank_visitor_def)

lemma waiting_walk_in [pres]:
  "preserves (visit_ok s0) (insert_visitor e condo (\<lambda>v. (walk_in_data d unit phone v)
     \<lparr>vi_expected := n, vi_status := PENDING_OWNER_APPROVAL, vi_deadline := Some t, vi_meta := m\<rparr>))"
  by (rule preservesW, rule wp_registered)
     (simp_all add: visitor_ok_def kind_ok_def status_ok_def pass_ok_def walk_in_data_def blank_visitor_def begins_first
       first_statuses_def)

lemma create_walk_in_ok: "preserves (visit_ok s0) (create_walk_in e g active d)"
  unfolding create_walk_in_def by (intro pres)

lemma create_office_ok: "preserves (visit_ok s0) (create_office_walk_in e g active d)"
  unfolding create_office_walk_in_def
  by (intro admitted_tx pres)
     (simp add: visitor_ok_def kind_ok_def status_ok_def pass_ok_def office_data_def blank_visitor_def)

section \<open>Decisions\<close>

text \<open>The steps of the desk, as the rows take them.\<close>

lemmas moves_along = status_step.intros [THEN one_step]

lemma in_tx: "holds m I s \<Longrightarrow> wp m (\<lambda>_. I) (\<lambda>_. True) s"
  by (erule wp_mono) simp_all

lemma approved_row_ok:
  "visitor_ok v \<Longrightarrow> vi_type v = WALKIN_UNIT \<Longrightarrow>
   visitor_ok (v\<lparr>vi_status := APPROVED, vi_approver := Some a, vi_approved_at := b, vi_expires := Some x\<rparr>)"
  by (simp add: visitor_ok_def status_ok_def)

lemma late_walk_in:
  assumes "visit_ok s0 t" and "find_visitor i t = Some v" and "vi_status v = PENDING_OWNER_APPROVAL" and "preserves (visit_ok s0) k"
  shows "holds (bnd (set_status e i EXPIRED) (\<lambda>_. k)) (visit_ok s0) t"
  by (rule wp_closed [OF assms(1, 2) _ _ assms(4)]) (use assms(3) nobody_answers in simp_all)

lemma late_pass:
  assumes "visit_ok s0 t" and "find_visitor i t = Some v" and "vi_status v = APPROVED" and "preserves (visit_ok s0) k"
  shows "holds (bnd (set_status e i EXPIRED) (\<lambda>_. k)) (visit_ok s0) t"
  by (rule wp_closed [OF assms(1, 2) _ _ assms(4)]) (use assms(3) pass_lapses in simp_all)

lemma approve_visitor_ok: "preserves (visit_ok s0) (approve_visitor e u i)"
proof (rule preservesW)
  fix s assume ok: "visit_ok s0 s"
  have tx: "wp (bnd (set_visitor e i (\<lambda>v. v\<lparr>vi_status := APPROVED, vi_approver := Some a, vi_approved_at := b, vi_expires := Some z\<rparr>))
      (\<lambda>_. k)) (\<lambda>_. visit_ok s0) (\<lambda>_. True) t"
    if "visit_ok s0 t" "find_visitor i t = Some v" "vi_type v = WALKIN_UNIT" "vi_status v = PENDING_OWNER_APPROVAL"
      "preserves (visit_ok s0) k"
    for v k a b z t
    by (rule in_tx, rule wp_moved [OF that(1, 2) _ _ _ _ that(5)])
       (use that(3, 4) row_ok [OF that(1, 2)] in \<open>simp_all add: row_moves_def moves_along approved_row_ok\<close>)
  show "holds (approve_visitor e u i) (visit_ok s0) s"
    unfolding approve_visitor_def
    by (rule guard_step [OF ok_expire_stale ok], (rule guard tx late_walk_in pres | assumption)+)
qed

lemma guard_row_ok:
  "visitor_ok v \<Longrightarrow> vi_status v = PENDING_OWNER_APPROVAL \<Longrightarrow> visitor_ok (guard_approved e g m v)"
  by (cases "vi_type v") (simp_all add: visitor_ok_def status_ok_def kind_ok_def pass_ok_def guard_approved_def)

text \<open>The guards of the calls at the gate.\<close>

lemma at_gate [guard]:
  "I s \<Longrightarrow> (\<And>v. find_visitor i s = Some v \<Longrightarrow> vi_condo v = condo \<Longrightarrow> holds (k v) I s) \<Longrightarrow> holds (bnd (visitor_at_gate i condo) k) I s"
  by (cases "find_visitor i s") (simp_all add: visitor_at_gate_def wp)

lemma operator_gate [guard]: "I s \<Longrightarrow> holds (k ()) I s \<Longrightarrow> holds (bnd (assert_gate_operator g) k) I s"
  by (simp add: assert_gate_operator_def wp)

lemma condo_gate [guard]:
  "I s \<Longrightarrow> (\<And>condo. active = Some condo \<Longrightarrow> condo \<noteq> [] \<Longrightarrow> holds (k condo) I s) \<Longrightarrow> holds (bnd (guard_condo active) k) I s"
  by (cases active) (simp_all add: guard_condo_def wp truthy_def given_or_def)

lemma approve_by_guard_ok: "preserves (visit_ok s0) (approve_by_guard e g active i m)"
proof (rule preservesW)
  fix s assume ok: "visit_ok s0 s"
  have tx: "wp (bnd (set_visitor e i (guard_approved e g m)) (\<lambda>_. bnd (insert_check_in e i u gate n) k))
      (\<lambda>_. visit_ok s0) (\<lambda>_. True) s"
    if "find_visitor i s = Some v" "vi_status v = PENDING_OWNER_APPROVAL" "\<And>c. preserves (visit_ok s0) (k c)"
    for v k u gate n
    by (rule wp_entered [where f = "guard_approved e g m", OF ok that(1) _ _ _ _ _ that(3)])
       (use that(2) row_ok [OF ok that(1)] in \<open>simp_all add: row_moves_def moves_along guard_row_ok, simp_all add: guard_approved_def moves_along\<close>)
  show "holds (approve_by_guard e g active i m) (visit_ok s0) s"
    unfolding approve_by_guard_def by (rule guard ok tx pres | assumption)+
qed

lemma acknowledge_ok: "preserves (visit_ok s0) (acknowledge_walk_in e g active i d)"
proof (rule preservesW)
  fix s assume ok: "visit_ok s0 s"
  show "holds (acknowledge_walk_in e g active i d) (visit_ok s0) s"
    unfolding acknowledge_walk_in_def by (rule guard ok wp_checked_in [OF ok] late_pass pres | assumption)+
qed

lemma reject_ok: "preserves (visit_ok s0) (reject_visitor e u i reason)"
proof (rule preservesW)
  fix s assume ok: "visit_ok s0 s"
  have tx: "wp (bnd (set_status e i REJECTED) (\<lambda>_. k)) (\<lambda>_. visit_ok s0) (\<lambda>_. True) t"
    if "visit_ok s0 t" "find_visitor i t = Some v" "vi_status v = PENDING_OWNER_APPROVAL" "preserves (visit_ok s0) k" for v k t
    by (rule in_tx, rule wp_closed [OF that(1, 2) _ _ that(4)]) (use that(3) owner_rejects in simp_all)
  show "holds (reject_visitor e u i reason) (visit_ok s0) s"
    unfolding reject_visitor_def
    by (rule guard_step [OF ok_expire_stale ok], (rule guard tx pres | assumption)+)
qed

lemma cancelled_row_ok:
  "visitor_ok v \<Longrightarrow> vi_status v \<in> set upcoming_statuses \<Longrightarrow> visitor_ok (v\<lparr>vi_status := CANCELLED, vi_cancelled := x\<rparr>) \<and>
   status_step (vi_status v) CANCELLED \<and> vi_status v \<noteq> CHECKED_IN"
  by (auto simp: upcoming_statuses_def visitor_ok_def status_ok_def intro: status_step.intros)

lemma cancel_ok: "preserves (visit_ok s0) (cancel_visitor e u i)"
proof (rule preservesW)
  fix s assume ok: "visit_ok s0 s"
  have move: "holds (bnd (set_visitor e i (\<lambda>v. v\<lparr>vi_status := CANCELLED, vi_cancelled := x\<rparr>)) (\<lambda>_. k)) (visit_ok s0) s"
    if "find_visitor i s = Some v" "vi_status v \<in> set upcoming_statuses" "preserves (visit_ok s0) k" for v k x
    by (rule wp_moved [OF ok that(1) _ _ _ _ that(3)])
       (use cancelled_row_ok [OF row_ok [OF ok that(1)] that(2)] one_step in \<open>simp_all add: row_moves_def\<close>)
  show "holds (cancel_visitor e u i) (visit_ok s0) s"
    unfolding cancel_visitor_def by (rule guard ok move pres | assumption)+
qed

section \<open>The gate\<close>

lemma first_some_mem: "first_some xs = Some y \<Longrightarrow> Some y \<in> set xs"
  by (induction xs rule: first_some.induct) (auto split: option.splits)

lemma found_mem: "Some y = find p xs \<Longrightarrow> y \<in> set xs" "Some y = find_row key k xs \<Longrightarrow> y \<in> set xs"
  by (metis find_Some_iff nth_mem) (metis find_row_mem)

lemma lookup_pass_mem: "lookup_pass condo t vs = Some v \<Longrightarrow> v \<in> set vs"
  unfolding lookup_pass_def
  by (drule first_some_mem) (auto dest: found_mem split: if_splits option.splits)

lemma find_member: "visit_ids_ok s \<Longrightarrow> v \<in> set (vd_visitors s) \<Longrightarrow> find_visitor (vi_id v) s = Some v"
  using find_row_distinct [of vi_id "vd_visitors s" v] by (simp add: visit_ids_ok_def find_visitor_def)

lemma verify_ok:
  assumes "visit_ok s0 s"
  shows "wp (verify_by_pass e pass condo) (\<lambda>v t. visit_ok s0 t \<and> find_visitor (vi_id v) t = Some v) (visit_ok s0) s"
  unfolding verify_by_pass_def wp_bnd
proof (rule wp_preserves [OF ok_expire_stale assms])
  fix x t assume ok: "visit_ok s0 t"
  then have "find_visitor (vi_id v) t = Some v" if "lookup_pass condo (normalize_pass pass) (vd_visitors t) = Some v" for v
    using find_member lookup_pass_mem [OF that] by (simp add: visit_ok_def visit_inv_def)
  with ok show "wp (gets (\<lambda>s. lookup_pass condo (normalize_pass pass) (vd_visitors s)))
      (\<lambda>found. wp (need found (NotFound (''Unknown pass '' @ em_dash @ '' check the QR or access code'')))
        (\<lambda>v. wp (checked_pass e v) (\<lambda>v t. visit_ok s0 t \<and> find_visitor (vi_id v) t = Some v) (visit_ok s0)) (visit_ok s0))
      (visit_ok s0) t"
    by (simp add: wp checked_pass_def split: option.split)
qed simp

lemma guard_verify:
  "visit_ok s0 s \<Longrightarrow> (\<And>v t. visit_ok s0 t \<Longrightarrow> find_visitor (vi_id v) t = Some v \<Longrightarrow> holds (k v) (visit_ok s0) t) \<Longrightarrow>
   holds (bnd (verify_by_pass e pass condo) k) (visit_ok s0) s"
  unfolding wp_bnd by (erule verify_ok [THEN wp_mono]) blast+

lemma verify_by_pass_ok: "preserves (visit_ok s0) (verify_by_pass e pass condo)"
  by (rule preservesW, erule verify_ok [THEN wp_mono]) simp_all

lemma check_in_ok: "preserves (visit_ok s0) (visit_check_in e g active pass d)"
proof (rule preservesW)
  fix s assume ok: "visit_ok s0 s"
  show "holds (visit_check_in e g active pass d) (visit_ok s0) s"
    unfolding visit_check_in_def
    by (rule guard ok guard_verify wp_checked_in late_pass pres | assumption)+
qed

lemma check_out_ok: "preserves (visit_ok s0) (visit_check_out e g active pass)"
proof (rule preservesW)
  fix s assume ok: "visit_ok s0 s"
  have leave: "holds (bnd (close_check_in (ci_id c) t h) (\<lambda>_. bnd (set_status e (vi_id v) CHECKED_OUT) (\<lambda>_. k))) (visit_ok s0) s'"
    if "visit_ok s0 s'" "find_visitor (vi_id v) s' = Some v"
      "(case open_check_ins (vi_id v) s' of [] \<Rightarrow> None | c # _ \<Rightarrow> Some c) = Some c" "preserves (visit_ok s0) k" for s' v c t h k
    unfolding wp_close
    by (rule guard_done [OF that(4) closed_visit_ok [OF that(1, 2)]]) (use that(3) in \<open>auto split: list.splits\<close>)
  show "holds (visit_check_out e g active pass) (visit_ok s0) s"
    unfolding visit_check_out_def
    by (rule guard ok guard_verify leave pres | assumption)+
qed

lemma list_live_ok: "preserves (visit_ok s0) (list_live e active)"
  unfolding list_live_def by (intro pres)

section \<open>Management\<close>

text \<open>An overnight stay that waits has no code; the approval gives it one.\<close>

lemma approved_overnight_ok:
  assumes "visitor_ok v" and "vi_status v = PENDING_MANAGEMENT_APPROVAL" and "is_code c"
  shows "visitor_ok (pass_fields c (v\<lparr>vi_status := APPROVED, vi_approver := Some a, vi_approved_at := b, vi_expires := Some x\<rparr>))"
    and "vi_code v = None"
proof -
  have v: "vi_type v = PRE_REG" "vi_unit v \<noteq> None" "vi_host v \<noteq> None" "vi_code v = None" "vi_overnight v" "vi_entry v = DRIVE_IN"
    using assms by (auto simp: visitor_ok_def kind_ok_def status_ok_def)
  then show "vi_code v = None" by simp
  show "visitor_ok (pass_fields c (v\<lparr>vi_status := APPROVED, vi_approver := Some a, vi_approved_at := b, vi_expires := Some x\<rparr>))"
    unfolding visitor_ok_def using v
    by (intro conjI pass_ok_fields [OF assms(3)]) (simp_all add: kind_ok_def status_ok_def pass_fields_def Let_def)
qed

lemma wp_overnight_pass:
  assumes ok: "visit_ok s0 s" and v: "find_visitor i s = Some v" "vi_status v = PENDING_MANAGEMENT_APPROVAL"
    and free: "\<not> code_taken (vi_condo v) c s" and c: "is_code c"
    and k: "\<And>x. preserves (visit_ok s0) (k x)"
  shows "wp (bnd (write_pass e i (\<lambda>v. v\<lparr>vi_status := APPROVED, vi_approver := Some a, vi_approved_at := b, vi_expires := Some z\<rparr>) c) k)
    (\<lambda>_. visit_ok s0) (\<lambda>_. True) s"
proof -
  let ?f = "\<lambda>v. v\<lparr>vi_status := APPROVED, vi_approver := Some a, vi_approved_at := b, vi_expires := Some z\<rparr>"
  let ?g = "\<lambda>v. pass_fields c (?f v)"
  have row: "visitor_ok v" using row_ok [OF ok v(1)] .
  have inv: "visit_inv s" using ok by (simp add: visit_ok_def)
  have vid: "v \<in> set (vd_visitors s)" "vi_id v = i" using find_visitor_Some [OF v(1)] by simp_all
  have "CHR '':'' \<notin> set (vi_id v)" using row_id_no_colon [OF _ vid(1)] inv by (simp add: visit_inv_def)
  then have clash: "visitor_clash (?g v) (vd_visitors s) = None"
    using free_code_no_clash [OF inv, of "?f v" c] free c by simp
  have "visit_ok s0 (moved_to e i ?g s)"
    by (rule ok_coded [where f = ?g and c = c, OF ok v(1) approved_overnight_ok(2) [OF row v(2) c] free])
       (use v(2) approved_overnight_ok(1) [OF row v(2) c] in \<open>simp_all add: row_moves_def moves_along\<close>)
  then have after: "wp (read_visitor i) (\<lambda>x. wp (k x) (\<lambda>_. visit_ok s0) (\<lambda>_. True)) (\<lambda>_. True) (moved_to e i ?g s)"
    unfolding read_visitor_def by (auto simp: wp split: option.split intro: preserves_success [OF k])
  have "read_visitor i s = (Inr v, s)" by (simp add: read_visitor_def bnd_gets v(1) act_simps)
  then have "wp (read_visitor i) Q E s = Q v s" for Q E by (simp add: wp_def)
  then show ?thesis
    unfolding write_pass_def wp_bnd wp_set_visitor assert_no_clash_def wp_gets using after by (simp add: clash wp_ret)
qed

lemma approve_overnight_ok: "preserves (visit_ok s0) (approve_overnight e u i)"
proof (rule preservesW)
  fix s assume ok: "visit_ok s0 s"
  have codes: "holds (bnd (with_unique_code draw (\<lambda>code. bnd (assert_code_free (vi_condo v) code) (\<lambda>_. txn (bnd
      (write_pass e i (\<lambda>v. v\<lparr>vi_status := APPROVED, vi_approver := Some a, vi_approved_at := b, vi_expires := Some z\<rparr>) code) k)))) l)
      (visit_ok s0) t"
    if "visit_ok s0 t" "find_visitor i t = Some v" "vi_status v = PENDING_MANAGEMENT_APPROVAL"
      "\<And>x. preserves (visit_ok s0) (k x)" "\<And>x. preserves (visit_ok s0) (l x)" for t v a b z k l draw
    unfolding with_unique_code_def wp_bnd
  proof (rule wp_mono [OF wp_try_codes [of "\<lambda>t'. t' = t" _ "\<lambda>_. visit_ok s0"]])
    fix code t' assume c: "is_code code" and t': "t' = t"
    show "wp (bnd (assert_code_free (vi_condo v) code) (\<lambda>_. txn (bnd
      (write_pass e i (\<lambda>v. v\<lparr>vi_status := APPROVED, vi_approver := Some a, vi_approved_at := b, vi_expires := Some z\<rparr>) code) k)))
      (\<lambda>_. visit_ok s0) (\<lambda>t'. t' = t) t'"
      unfolding assert_code_free_def t' using wp_overnight_pass [OF that(1-3) _ c that(4)]
      by (simp add: wp_bnd wp_gets wp_ensure wp_txn)
  qed (use that(1) guard_done [OF that(5)] in auto)
  show "holds (approve_overnight e u i) (visit_ok s0) s"
    unfolding approve_overnight_def Let_def
    by (rule guard_step [OF ok_expire_stale ok], (rule guard codes pres | assumption)+)
qed

lemma flag_ok: "preserves (visit_ok s0) (flag_plate e u i reason suspend_owner)"
proof (rule preservesW)
  fix s assume ok: "visit_ok s0 s"
  have flagged: "visitor_ok (v\<lparr>vi_mismatch := x\<rparr>) = visitor_ok v" for v x by (simp add: visitor_ok_def)
  have move: "holds (bnd (set_visitor e i (\<lambda>v. v\<lparr>vi_mismatch := True\<rparr>)) (\<lambda>_. k)) (visit_ok s0) s"
    if "find_visitor i s = Some v" "preserves (visit_ok s0) k" for v k
    by (rule wp_moved [OF ok that(1) _ _ _ _ that(2)]) (use row_ok [OF ok that(1)] in \<open>simp_all add: row_moves_def flagged\<close>)
  have suspended: "preserves (visit_ok s0) (suspend_unit e u condo unit d)" for condo unit d
    by (rule ok_of_frame) (rule pres)
  show "holds (flag_plate e u i reason suspend_owner) (visit_ok s0) s"
    unfolding flag_plate_def by (rule guard ok move suspended pres | assumption)+
qed

section \<open>Recurring passes\<close>

lemma insert_pass_ok:
  assumes ok: "visit_ok s0 s" and free: "\<not> code_taken (un_condo un) c s"
  shows "holds (insert_pass u un d phone c) (visit_ok s0) s"
proof -
  define p where "p = \<lparr>rp_id = fresh s, rp_condo = un_condo un, rp_unit = un_id un, rp_host = user_id u,
      rp_guest = trim (pn_guest d), rp_phone = phone, rp_plate = normalize_plate (pn_plate d),
      rp_schedule = pn_schedule d, rp_from = pn_from d, rp_until = pn_until d, rp_code = Some c,
      rp_payload = Some (qr_payload (un_condo un) ''pending'' c), rp_qr = None, rp_active = True\<rparr>"
  let ?s = "(bump s)\<lparr>vd_passes := vd_passes s @ [p]\<rparr>"
  have added: "visit_ok s0 ?s" by (rule ok_add_pass [where c = c, OF ok]) (simp_all add: p_def free)
  have "visit_ok s0 (?s\<lparr>vd_passes := set_row rp_id i (\<lambda>p. p\<lparr>rp_payload := a, rp_qr := b\<rparr>) (vd_passes ?s)\<rparr>)" for i a b
    unfolding set_row_def set_where_def by (rule ok_map_passes [OF added]) simp
  with added bumped [OF ok] show ?thesis
    unfolding insert_pass_def wp_bnd wp_fresh Let_def assert_no_pass_clash_def p_def
    by (simp add: wp add_row_def split: option.split)
qed

lemma create_pass_ok: "preserves (visit_ok s0) (create_pass e u d)"
proof -
  have "preserves (visit_ok s0) (with_unique_code draw (\<lambda>code.
      bnd (assert_code_free (un_condo un) code) (\<lambda>_. insert_pass u un d phone code)))" for draw un phone
    unfolding with_unique_code_def
    by (rule preserves_try_codes) (simp add: assert_code_free_def wp_bnd wp_gets wp_ensure insert_pass_ok)
  then show ?thesis unfolding create_pass_def by (intro pres)
qed

lemma update_pass_ok: "preserves (visit_ok s0) (update_pass u i d)"
proof -
  have "preserves (visit_ok s0) (modify (\<lambda>s. s\<lparr>vd_passes := set_row rp_id i (patched_pass d phone) (vd_passes s)\<rparr>))" for phone
    unfolding set_row_def set_where_def
    by (rule preserves_modify) (rule ok_map_passes, simp_all add: patched_pass_def)
  then show ?thesis unfolding update_pass_def by (intro pres)
qed

lemma remove_pass_ok: "preserves (visit_ok s0) (remove_pass u i)"
proof -
  have "preserves (visit_ok s0) (modify (\<lambda>s. s\<lparr>vd_passes := filter q (vd_passes s)\<rparr>))" for q
    by (rule preserves_modify) (rule ok_drop_passes)
  then show ?thesis unfolding remove_pass_def by (intro pres)
qed

lemma check_in_recurring_ok: "preserves (visit_ok s0) (check_in_recurring e g active pass d)"
  unfolding check_in_recurring_def
  by (intro admitted_tx pres)
     (simp add: visitor_ok_def kind_ok_def status_ok_def pass_ok_def recurring_visit_def blank_visitor_def)

section \<open>The codes of forms\<close>

text \<open>
  An approved form is given a code of the same alphabet (\<open>allocatePermitFields\<close>, forms.service.ts),
  which its caller writes to the row.
\<close>

definition allocate_permit_code :: "visit_env \<Rightarrow> string \<Rightarrow> string vsvc" where
  "allocate_permit_code e condo = with_unique_code (ve_draw e) (\<lambda>code. bnd (assert_code_free condo code) (\<lambda>_. ret code))"

definition form_code :: "visit_env \<Rightarrow> string \<Rightarrow> string vsvc" where
  "form_code e condo =
     bnd (allocate_permit_code e condo) (\<lambda>code.
     bnd (modify (\<lambda>s. s\<lparr>vd_forms := vd_forms s @ [(condo, code)]\<rparr>)) (\<lambda>_. ret code))"

lemma form_code_ok: "preserves (visit_ok s0) (form_code e condo)"
proof (rule preservesW)
  fix s assume ok: "visit_ok s0 s"
  have given: "visit_ok s0 (t\<lparr>vd_forms := vd_forms t @ [(condo, code)]\<rparr>)"
    if t: "visit_ok s0 t" "\<not> code_taken condo code t" for t code
  proof (rule ok_passes [OF t(1)])
    have I: "visit_ids_ok t" "distinct (given_codes t)" using t(1) by (simp_all add: visit_ok_def visit_inv_def)
    show "visit_ids_ok (t\<lparr>vd_forms := vd_forms t @ [(condo, code)]\<rparr>)" using I(1) by (simp add: visit_ids_ok_def)
    show "distinct (given_codes (t\<lparr>vd_forms := vd_forms t @ [(condo, code)]\<rparr>))"
      using I(2) t(2) by (auto simp: given_codes_def taken_iff)
  qed simp_all
  have "wp (allocate_permit_code e condo) (\<lambda>code t. visit_ok s0 t \<and> \<not> code_taken condo code t) (visit_ok s0) s"
    unfolding allocate_permit_code_def with_unique_code_def
    by (rule wp_try_codes [where J = "visit_ok s0"]) (simp_all add: assert_code_free_def wp ok)
  then show "holds (form_code e condo) (visit_ok s0) s"
    unfolding form_code_def wp_bnd by (rule wp_mono) (simp_all add: wp given)
qed

end
