(* ===== verification/Visitor_Properties.thy ===== *)
theory Visitor_Properties
  imports Visitor_Reach
begin

text \<open>
  The visitor services as a system: a step for each call that writes, in any order, and what holds in
  every state it reaches. Calls that only read, and changes of tables the visits do not rest on
  (favourites, settings, suspensions, the blacklist, rows of other services), are steps elsewhere.
\<close>

section \<open>The system\<close>

inductive visit_step :: "visitor_db \<Rightarrow> visitor_db \<Rightarrow> bool" where
  step_register: "create_visitor e u vn s = (r, t) \<Longrightarrow> visit_step s t"
| step_quick_pass: "create_delivery_pass e u qn s = (r, t) \<Longrightarrow> visit_step s t"
| step_overnight: "approve_overnight e u i s = (r, t) \<Longrightarrow> visit_step s t"
| step_walk_in: "create_walk_in e u active wn s = (r', t) \<Longrightarrow> visit_step s t"
| step_office: "create_office_walk_in e u active on s = (r, t) \<Longrightarrow> visit_step s t"
| step_owner_approves: "approve_visitor e u i s = (r, t) \<Longrightarrow> visit_step s t"
| step_guard_approves: "approve_by_guard e u active i m s = (r, t) \<Longrightarrow> visit_step s t"
| step_acknowledge: "acknowledge_walk_in e u active i cn s = (c, t) \<Longrightarrow> visit_step s t"
| step_reject: "reject_visitor e u i reason s = (r, t) \<Longrightarrow> visit_step s t"
| step_cancel: "cancel_visitor e u i s = (r, t) \<Longrightarrow> visit_step s t"
| step_verify: "verify_by_pass e pass active s = (r, t) \<Longrightarrow> visit_step s t"
| step_check_in: "visit_check_in e u active pass cn s = (c, t) \<Longrightarrow> visit_step s t"
| step_check_out: "visit_check_out e u active pass s = (c, t) \<Longrightarrow> visit_step s t"
| step_live_board: "list_live e active s = (l, t) \<Longrightarrow> visit_step s t"
| step_sweep: "auto_close_sweep e lock_free s = (n, t) \<Longrightarrow> visit_step s t"
| step_flag: "flag_plate e u i reason suspend_owner s = (r, t) \<Longrightarrow> visit_step s t"
| step_new_pass: "create_pass e u pn s = (p, t) \<Longrightarrow> visit_step s t"
| step_change_pass: "update_pass u i pp s = (p, t) \<Longrightarrow> visit_step s t"
| step_remove_pass: "remove_pass u i s = (x, t) \<Longrightarrow> visit_step s t"
| step_recurring: "check_in_recurring e u active pass cn s = (c, t) \<Longrightarrow> visit_step s t"
| step_form_code: "form_code e condo s = (code, t) \<Longrightarrow> visit_step s t"
| step_elsewhere: "visit_frame s t \<Longrightarrow> visit_step s t"

lemmas call_ok = create_visitor_ok create_delivery_ok approve_overnight_ok create_walk_in_ok create_office_ok
  approve_visitor_ok approve_by_guard_ok acknowledge_ok reject_ok cancel_ok verify_by_pass_ok check_in_ok
  check_out_ok list_live_ok sweep_ok flag_ok create_pass_ok update_pass_ok remove_pass_ok check_in_recurring_ok form_code_ok

lemma visit_step_ok:
  assumes "visit_step s t" and "visit_ok s0 s"
  shows "visit_ok s0 t"
  using assms(1)
proof cases
  case step_elsewhere
  then show ?thesis using assms(2) by (rule frame_visit_ok)
qed (use assms(2) in \<open>blast dest: call_ok [THEN preservesD]\<close>)+

text \<open>Calls on the other tables are steps elsewhere.\<close>

lemma frame_step: "(\<And>s. preserves (visit_frame s) m) \<Longrightarrow> m s = (r, t) \<Longrightarrow> visit_step s t"
  by (metis frame_refl preservesD step_elsewhere)

definition visit_start :: "visitor_db \<Rightarrow> bool" where
  "visit_start s \<longleftrightarrow> inj (uuids (vdb s)) \<and> (\<forall>n. CHR '':'' \<notin> set (uuids (vdb s) n)) \<and> vd_visitors s = [] \<and>
     vd_checkins s = [] \<and> vd_passes s = [] \<and> vd_forms s = []"

lemma visit_start_inv: "visit_start s \<Longrightarrow> visit_inv s"
  by (simp add: visit_start_def visit_inv_def visit_ids_ok_def on_site_ok_def given_codes_def)

lemma visit_steps_inv: "visit_step\<^sup>*\<^sup>* s t \<Longrightarrow> visit_inv s \<Longrightarrow> visit_inv t"
proof (induction rule: rtranclp_induct)
  case (step t u)
  then show ?case using visit_step_ok [OF step(2) visit_ok_refl] by (simp add: visit_ok_def)
qed

lemma reached: "visit_start s0 \<Longrightarrow> visit_step\<^sup>*\<^sup>* s0 s \<Longrightarrow> visit_inv s"
  by (rule visit_steps_inv [OF _ visit_start_inv])

section \<open>A concrete desk\<close>

text \<open>A tenant's delivery pass, and a guard.\<close>

definition sample_visit_env :: visit_env where
  "sample_visit_env = \<lparr>ve_svc = \<lparr>now = 1000000, this_year = 2024\<rparr>, ve_url = (\<lambda>_. None), ve_host = 0, ve_holidays = (\<lambda>_ _. []),
     ve_day = (\<lambda>_ _. ''1970-01-01''), ve_weekday = (\<lambda>_ _. ''Thu''), ve_clock = (\<lambda>_ _. ''00:16''), ve_date_text = (\<lambda>_. []),
     ve_time_text = (\<lambda>_. []), ve_review_text = (\<lambda>_. []), ve_number = (\<lambda>_. []), ve_draw = (\<lambda>k. k)\<rparr>"

definition sample_desk :: visitor_db where
  "sample_desk = \<lparr>vd_access = \<lparr>ad_base = sample_start, ad_restrictions = [], ad_residents = [], ad_deleted = [],
       ad_webhooks = []\<rparr>, vd_zone = (\<lambda>_. ''UTC''), vd_numbers = (\<lambda>_. ''A-1''), vd_owners = [], vd_tenants = [], vd_users = [],
     vd_forms = [], vd_visitors = [], vd_checkins = [], vd_favourites = [], vd_policies = [], vd_blacklist = [],
     vd_passes = [], vd_events = [], vd_notices = []\<rparr>"

definition sample_quick :: quick_input where
  "sample_quick = \<lparr>qn_unit = ''u'', qn_kind = QUICK_DELIVERY, qn_platform = GRABFOOD, qn_name = None, qn_plate = None,
     qn_expected = 1000000, qn_duration = None\<rparr>"

definition sample_guard :: auth_user where
  "sample_guard = \<lparr>user_id = ''g'', user_roles = [\<lparr>role = SECURITY_GUARD, role_condo = Some ''c'', role_unit = None\<rparr>]\<rparr>"

definition sample_issued :: visitor_db where
  "sample_issued = snd (create_delivery_pass sample_visit_env sample_tenant sample_quick sample_desk)"

definition sample_inside :: visitor_db where
  "sample_inside = snd (visit_check_in sample_visit_env sample_guard (Some ''c'') ''abcdef'' \<lparr>cn_gate = None, cn_notes = None\<rparr> sample_issued)"

lemma sample_desk_start: "visit_start sample_desk"
proof -
  have "uuids (vdb sample_desk) = (\<lambda>n. ''id'' @ show_nat n)"
    by (simp add: sample_desk_def vdb_def sample_start_def empty_db_def)
  moreover have "inj (\<lambda>n. ''id'' @ show_nat n)" by (rule injI) simp
  moreover have "CHR '':'' \<notin> set (show_nat n)" for n by (rule colon_not_in_show)
  ultimately show ?thesis by (simp add: visit_start_def sample_desk_def)
qed

lemma sample_steps: "visit_step sample_desk sample_issued" "visit_step sample_issued sample_inside"
  unfolding sample_issued_def sample_inside_def by (rule step_quick_pass step_check_in, rule prod.collapse [symmetric])+

lemma sample_runs: "visit_step\<^sup>*\<^sup>* sample_desk sample_issued" "visit_step\<^sup>*\<^sup>* sample_desk sample_inside"
  using sample_steps by (meson rtranclp.simps)+

lemma sample_rows:
  "map (\<lambda>v. (vi_id v, vi_status v, vi_code v)) (vd_visitors sample_issued) = [(''id0'', APPROVED, Some ''ABCDEF'')]"
  "map (\<lambda>v. (vi_id v, vi_status v, vi_code v)) (vd_visitors sample_inside) = [(''id0'', CHECKED_IN, Some ''ABCDEF'')]"
  by code_simp+

section \<open>The life of a visit\<close>

text \<open>
  C24. Whatever call is made, in whatever order, the visits take the steps of the desk: a visitor is
  registered with one of the four first statuses and moves only as the desk's machine allows; no row
  disappears or is taken back.
\<close>

theorem visits_follow_machine:
  assumes "visit_start s0" and "visit_step\<^sup>*\<^sup>* s0 s" and "visit_step s t"
  shows "desk_step\<^sup>*\<^sup>* (visit_abs (vd_visitors s)) (visit_abs (vd_visitors t))"
proof -
  have s: "visit_inv s" using assms(1, 2) by (rule reached)
  have "visit_ok s t" using assms(3) visit_ok_refl [OF s] by (rule visit_step_ok)
  with s show ?thesis
    by (intro visits_move_refines) (simp_all add: visit_ok_def visit_inv_def visit_ids_ok_def)
qed

theorem visits_follow_machine_witness:
  "desk_step\<^sup>*\<^sup>* (visit_abs (vd_visitors sample_issued)) (visit_abs (vd_visitors sample_inside)) \<and>
   visit_abs (vd_visitors sample_issued) ''id0'' = Some APPROVED \<and> visit_abs (vd_visitors sample_inside) ''id0'' = Some CHECKED_IN"
proof (intro conjI)
  show "visit_abs (vd_visitors sample_issued) ''id0'' = Some APPROVED"
    "visit_abs (vd_visitors sample_inside) ''id0'' = Some CHECKED_IN"
    using sample_rows by (auto simp: Cons_eq_map_conv)
qed (rule visits_follow_machine [OF sample_desk_start sample_runs(1) sample_steps(2)])

text \<open>
  C25. A visitor is on site exactly while one check-in is open, and every check-in is a known
  visitor's: a visitor on site has one open check-in, any other visitor none.
\<close>

theorem one_open_entry:
  assumes "visit_start s0" and "visit_step\<^sup>*\<^sup>* s0 s" and "v \<in> set (vd_visitors s)"
  shows "length (filter (\<lambda>c. ci_visitor c = vi_id v \<and> ci_out c = None) (vd_checkins s)) =
      (if vi_status v = CHECKED_IN then 1 else 0) \<and>
    (\<forall>c \<in> set (vd_checkins s). find_visitor (ci_visitor c) s \<noteq> None)"
proof -
  have I: "on_site_ok s" using reached [OF assms(1, 2)] by (simp add: visit_inv_def)
  then have "find_visitor (ci_visitor c) s \<noteq> None" if "c \<in> set (vd_checkins s)" for c
    using that unfolding on_site_ok_def find_visitor_def find_row_None by blast
  moreover have "open_at (vi_id v) = (\<lambda>c. ci_visitor c = vi_id v \<and> ci_out c = None)" by (simp add: fun_eq_iff open_at_def)
  ultimately show ?thesis using I assms(3) unfolding on_site_ok_def count_where_def by metis
qed

theorem one_open_entry_witness:
  "\<exists>v \<in> set (vd_visitors sample_inside). vi_status v = CHECKED_IN \<and>
     length (filter (\<lambda>c. ci_visitor c = vi_id v \<and> ci_out c = None) (vd_checkins sample_inside)) = 1"
proof -
  obtain v where "v \<in> set (vd_visitors sample_inside)" "vi_status v = CHECKED_IN" using sample_rows(2) by (auto simp: map_eq_Cons_conv)
  with one_open_entry [OF sample_desk_start sample_runs(2)] show ?thesis by auto
qed

text \<open>
  C27. Every row has the shape its type asks for: a pre-registration has a unit and a host, a walk-in
  has no host, no code and no overnight stay, one to the office no unit; a visitor that waits for an
  owner has a deadline; an approved one an expiry, an approver and, when pre-registered, a code; the
  payload and the QR code name the condo, the row and its code.
\<close>

theorem visitor_rows_typed:
  assumes "visit_start s0" and "visit_step\<^sup>*\<^sup>* s0 s" and "v \<in> set (vd_visitors s)"
  shows "visitor_ok v"
  using reached [OF assms(1, 2)] assms(3) by (simp add: visit_inv_def)

theorem visitor_rows_typed_witness:
  "\<exists>v \<in> set (vd_visitors sample_issued). visitor_ok v \<and> vi_code v = Some ''ABCDEF''"
proof -
  obtain v where "v \<in> set (vd_visitors sample_issued)" "vi_code v = Some ''ABCDEF''" using sample_rows(1) by (auto simp: map_eq_Cons_conv)
  with visitor_rows_typed [OF sample_desk_start sample_runs(1)] show ?thesis by auto
qed

section \<open>Codes\<close>

lemma distinct_map_filter:
  "distinct (List.map_filter f xs) \<Longrightarrow> x \<in> set xs \<Longrightarrow> y \<in> set xs \<Longrightarrow> f x = Some k \<Longrightarrow> f y = Some k \<Longrightarrow> distinct (map g xs) \<Longrightarrow> x = y"
proof (induction xs)
  case (Cons a xs)
  have "k \<notin> set (List.map_filter f xs) \<or> f a \<noteq> Some k" using Cons.prems(1) by (auto simp: List.map_filter_simps)
  then show ?case using Cons by (auto simp: List.map_filter_simps in_map_filter split: option.splits)
qed simp

lemma codes_apart:
  assumes inv: "visit_inv s" and v: "v \<in> set (vd_visitors s)" "vi_code v = Some c"
  shows "w \<in> set (vd_visitors s) \<Longrightarrow> vi_condo w = vi_condo v \<Longrightarrow> vi_code w = Some c \<Longrightarrow> w = v"
    and "p \<in> set (vd_passes s) \<Longrightarrow> rp_condo p = vi_condo v \<Longrightarrow> rp_code p \<noteq> Some c"
    and "(vi_condo v, c) \<notin> set (vd_forms s)"
proof -
  let ?code = "\<lambda>v. map_option (Pair (vi_condo v)) (vi_code v)"
  have d: "distinct (given_codes s)" "distinct (map vi_id (vd_visitors s))"
    using inv by (simp_all add: visit_inv_def visit_ids_ok_def)
  have mem: "(vi_condo v, c) \<in> set (List.map_filter ?code (vd_visitors s))" using v by (auto simp: in_map_filter)
  show "w = v" if "w \<in> set (vd_visitors s)" "vi_condo w = vi_condo v" "vi_code w = Some c"
    using d v that by (intro distinct_map_filter [of ?code "vd_visitors s" w v "(vi_condo v, c)" vi_id]) (simp_all add: given_codes_def)
  show "rp_code p \<noteq> Some c" if p: "p \<in> set (vd_passes s)" "rp_condo p = vi_condo v"
  proof
    assume "rp_code p = Some c"
    then have "(vi_condo v, c) \<in> set (List.map_filter (\<lambda>p. map_option (Pair (rp_condo p)) (rp_code p)) (vd_passes s))"
      using p by (auto simp: in_map_filter)
    with d(1) mem show False unfolding given_codes_def distinct_append by auto
  qed
  show "(vi_condo v, c) \<notin> set (vd_forms s)" using d(1) mem unfolding given_codes_def distinct_append by auto
qed

text \<open>
  C26. An access code at the gate of a condo names one pass: no two visitors of the condo share one,
  and none is also the code of a recurring pass or of a form's permit; a code is six letters and
  digits of the alphabet that leaves out the look-alikes.
\<close>

theorem code_names_one_pass:
  assumes "visit_start s0" and "visit_step\<^sup>*\<^sup>* s0 s" and "v \<in> set (vd_visitors s)" and "vi_code v = Some c"
  shows "length c = 6 \<and> set c \<subseteq> set code_chars \<and>
    filter (\<lambda>w. vi_condo w = vi_condo v \<and> vi_code w = Some c) (vd_visitors s) = [v] \<and>
    filter (\<lambda>p. rp_condo p = vi_condo v \<and> rp_code p = Some c) (vd_passes s) = [] \<and> (vi_condo v, c) \<notin> set (vd_forms s)"
proof -
  have inv: "visit_inv s" using assms(1, 2) by (rule reached)
  have "pass_ok v" using inv assms(3) by (simp add: visit_inv_def visitor_ok_def)
  then have "is_code c" using assms(4) by (simp add: pass_ok_def)
  moreover have "filter (\<lambda>w. vi_condo w = vi_condo v \<and> vi_code w = Some c) (vd_visitors s) = filter (\<lambda>w. w = v) (vd_visitors s)"
    by (rule filter_cong [OF refl]) (use codes_apart(1) [OF inv assms(3, 4)] assms(4) in blast)
  moreover have "filter (\<lambda>w. w = v) ws = [v]" if "distinct ws" "v \<in> set ws" for ws
    using that by (induction ws) (auto simp: filter_empty_conv)
  then have "filter (\<lambda>w. w = v) (vd_visitors s) = [v]"
    using assms(3) inv by (simp add: visit_inv_def visit_ids_ok_def distinct_map)
  ultimately show ?thesis
    using codes_apart(2, 3) [OF inv assms(3, 4)] by (auto simp: is_code_def filter_empty_conv)
qed

theorem code_names_one_pass_witness:
  "\<exists>v \<in> set (vd_visitors sample_issued). filter (\<lambda>w. vi_condo w = vi_condo v \<and> vi_code w = Some ''ABCDEF'') (vd_visitors sample_issued) = [v]"
proof -
  obtain v where "v \<in> set (vd_visitors sample_issued)" "vi_code v = Some ''ABCDEF''" using sample_rows(1) by (auto simp: map_eq_Cons_conv)
  with code_names_one_pass [OF sample_desk_start sample_runs(1)] show ?thesis by auto
qed

end
