(* ===== verification/Forms.thy ===== *)
theory Forms
  imports Visitor_Properties
begin

text \<open>
  Application forms and permits (apps/api/src/forms/forms.service.ts, shared-types/src/forms.ts):
  templates with a list of fields, submissions with answers, their review by the management, and the
  permit of an approved renovation, which a guard verifies at the gate by its QR code, its access
  code or its id.

  The tables stand beside those of the visitor services, whose codes the permits share: the column
  \<open>vd_forms\<close> there is what the rows here say. The PDF and the picture of the QR code are left out.
\<close>

section \<open>Rows\<close>

datatype form_kind = MOVE_IN | MOVE_OUT | RENOVATION | VEHICLE_STICKER | CUSTOM_FORM

datatype form_status = FORM_DRAFT | FORM_SUBMITTED | FORM_APPROVED | FORM_REJECTED | FORM_CANCELLED

fun form_status_text :: "form_status \<Rightarrow> string" where
  "form_status_text FORM_DRAFT = ''DRAFT''"
| "form_status_text FORM_SUBMITTED = ''SUBMITTED''"
| "form_status_text FORM_APPROVED = ''APPROVED''"
| "form_status_text FORM_REJECTED = ''REJECTED''"
| "form_status_text FORM_CANCELLED = ''CANCELLED''"

fun form_kind_text :: "form_kind \<Rightarrow> string" where
  "form_kind_text MOVE_IN = ''MOVE_IN''"
| "form_kind_text MOVE_OUT = ''MOVE_OUT''"
| "form_kind_text RENOVATION = ''RENOVATION''"
| "form_kind_text VEHICLE_STICKER = ''VEHICLE_STICKER''"
| "form_kind_text CUSTOM_FORM = ''CUSTOM''"

definition is_permit_kind :: "form_kind \<Rightarrow> bool" where
  "is_permit_kind k \<longleftrightarrow> k \<in> {RENOVATION}"

record form_field =
  fl_id :: string
  fl_type :: string
  fl_label :: string
  fl_required :: bool
  fl_placeholder :: "string option"
  fl_options :: "string list option"

record form_template =
  tm_id :: string
  tm_condo :: string
  tm_kind :: form_kind
  tm_title :: string
  tm_fields :: "form_field list"
  tm_active :: bool
  tm_position :: int

type_synonym answers = "(string \<times> json) list"

record submission =
  sb_id :: string
  sb_template :: string
  sb_condo :: string
  sb_unit :: string
  sb_user :: string
  sb_status :: form_status
  sb_answers :: answers
  sb_reviewer :: "string option"
  sb_reviewed :: "int option"
  sb_note :: "string option"
  sb_submitted :: "int option"
  sb_code :: "string option"
  sb_payload :: "string option"
  sb_from :: "int option"
  sb_until :: "int option"
  sb_created :: int
  sb_updated :: int

datatype form_event =
    FormUpdated string string string form_status
  | FormSubmitted string string string string
  | FormApproved string string string
  | FormRejected string string string "string option"

record forms_db =
  fo_visits :: visitor_db
  fo_templates :: "form_template list"
  fo_rows :: "submission list"
  fo_events :: "form_event list"

type_synonym 'a msvc = "(forms_db, 'a) act"

text \<open>
  What a call sees besides: what \<open>new Date\<close> makes of a text that is no calendar date, and the
  renderings of a date and of a time for people.
\<close>

record form_env =
  fe_visit :: visit_env
  fe_date :: "string \<Rightarrow> int option"
  fe_date_text :: "int \<Rightarrow> string"
  fe_time_text :: "int \<Rightarrow> string"

abbreviation fe_now :: "form_env \<Rightarrow> int" where
  "fe_now e \<equiv> ve_now (fe_visit e)"

abbreviation on_visits :: "'a vsvc \<Rightarrow> 'a msvc" where
  "on_visits \<equiv> on_part fo_visits fo_visits_update"

definition find_template :: "string \<Rightarrow> forms_db \<Rightarrow> form_template option" where
  "find_template i s = find_row tm_id i (fo_templates s)"

definition find_submission :: "string \<Rightarrow> forms_db \<Rightarrow> submission option" where
  "find_submission i s = find_row sb_id i (fo_rows s)"

section \<open>Writes\<close>

text \<open>The access codes of the rows, and a change of the rows that the visitor services see.\<close>

definition form_codes :: "submission list \<Rightarrow> (string \<times> string) list" where
  "form_codes rows = List.map_filter (\<lambda>r. map_option (Pair (sb_condo r)) (sb_code r)) rows"

definition with_rows :: "submission list \<Rightarrow> forms_db \<Rightarrow> forms_db" where
  "with_rows rows s = s\<lparr>fo_rows := rows, fo_visits := (fo_visits s)\<lparr>vd_forms := form_codes rows\<rparr>\<rparr>"

definition insert_template :: "(string \<Rightarrow> form_template) \<Rightarrow> form_template msvc" where
  "insert_template mk =
     bnd (on_visits (visit_base new_id)) (\<lambda>i.
     bnd (modify (\<lambda>s. s\<lparr>fo_templates := add_row (mk i) (fo_templates s)\<rparr>)) (\<lambda>_. ret (mk i)))"

definition set_template :: "string \<Rightarrow> (form_template \<Rightarrow> form_template) \<Rightarrow> unit msvc" where
  "set_template i f = modify (\<lambda>s. s\<lparr>fo_templates := set_row tm_id i f (fo_templates s)\<rparr>)"

definition read_template :: "string \<Rightarrow> form_template msvc" where
  "read_template i = bnd (gets (find_template i)) (\<lambda>found. need found (NotFound ''No FormTemplate found''))"

text \<open>\<open>@@unique([condoId, accessCode])\<close> and \<open>qrPayload @unique\<close> against the other rows.\<close>

definition submission_clash :: "submission \<Rightarrow> submission list \<Rightarrow> string option" where
  "submission_clash r rows =
     (let others = filter (\<lambda>q. sb_id q \<noteq> sb_id r) rows in
      if list_ex (\<lambda>q. sb_condo q = sb_condo r \<and> same_given (sb_code r) (sb_code q)) others
        then Some ''form_submissions_condoId_accessCode_key''
      else if list_ex (\<lambda>q. same_given (sb_payload r) (sb_payload q)) others then Some ''form_submissions_qrPayload_key''
      else None)"

definition read_submission :: "string \<Rightarrow> submission msvc" where
  "read_submission i = bnd (gets (find_submission i)) (\<lambda>found. need found (NotFound ''No FormSubmission found''))"

text \<open>\<open>formSubmission.update\<close>; \<open>updatedAt\<close> is set by every update.\<close>

definition set_submission :: "form_env \<Rightarrow> string \<Rightarrow> (submission \<Rightarrow> submission) \<Rightarrow> submission msvc" where
  "set_submission e i f =
     bnd (read_submission i) (\<lambda>r.
     bnd (gets (\<lambda>s. submission_clash (f r) (fo_rows s))) (\<lambda>clash.
     bnd (case clash of None \<Rightarrow> ret () | Some index \<Rightarrow> throw (UniqueViolation index)) (\<lambda>_.
     bnd (modify (\<lambda>s. with_rows (set_row sb_id i (\<lambda>r. (f r)\<lparr>sb_updated := fe_now e\<rparr>) (fo_rows s)) s)) (\<lambda>_.
     read_submission i))))"

definition insert_submission :: "(string \<Rightarrow> submission) \<Rightarrow> submission msvc" where
  "insert_submission mk =
     bnd (on_visits (visit_base new_id)) (\<lambda>i.
     bnd (modify (\<lambda>s. with_rows (add_row (mk i) (fo_rows s)) s)) (\<lambda>_. ret (mk i)))"

definition emit_form :: "form_event \<Rightarrow> unit msvc" where
  "emit_form v = modify (\<lambda>s. s\<lparr>fo_events := fo_events s @ [v]\<rparr>)"

definition emit_update :: "submission \<Rightarrow> unit msvc" where
  "emit_update r = emit_form (FormUpdated (sb_condo r) (sb_id r) (sb_user r) (sb_status r))"

definition form_audit ::
  "string \<Rightarrow> string option \<Rightarrow> auth_user \<Rightarrow> audit_action \<Rightarrow> string \<Rightarrow> string \<Rightarrow> meta \<Rightarrow> unit msvc" where
  "form_audit condo unit u action resource i m = on_visits (visit_audit condo unit u action resource i m)"

section \<open>Guards\<close>

definition is_form_member :: "auth_user \<Rightarrow> string \<Rightarrow> bool" where
  "is_form_member u condo = some_role (\<lambda>r. role_condo r = Some condo) u"

definition is_form_management :: "auth_user \<Rightarrow> string \<Rightarrow> bool" where
  "is_form_management u condo =
     some_role (\<lambda>r. role_condo r = Some condo \<and> (role r = MANAGEMENT_ADMIN \<or> role r = MANAGEMENT_STAFF)) u"

definition assert_form_member :: "auth_user \<Rightarrow> string \<Rightarrow> unit msvc" where
  "assert_form_member u condo = ensure (is_form_member u condo) (Forbidden ''No access to this condo'')"

definition assert_form_management :: "auth_user \<Rightarrow> string \<Rightarrow> unit msvc" where
  "assert_form_management u condo = ensure (is_form_management u condo) (Forbidden ''Management access required'')"

definition acts_for_unit :: "auth_user \<Rightarrow> string \<Rightarrow> string \<Rightarrow> bool" where
  "acts_for_unit u unit condo =
     some_role (\<lambda>r. role_condo r = Some condo \<and>
       (role_unit r = Some unit \<or> role r = MANAGEMENT_ADMIN \<or> role r = MANAGEMENT_STAFF)) u"

definition assert_files_for_unit :: "auth_user \<Rightarrow> string \<Rightarrow> string \<Rightarrow> unit msvc" where
  "assert_files_for_unit u unit condo =
     bnd (gets (\<lambda>s. find_unit unit (fo_visits s))) (\<lambda>found.
     bnd (ensure (case found of None \<Rightarrow> False | Some x \<Rightarrow> un_condo x = condo) (BadRequest ''Invalid unit'')) (\<lambda>_.
     ensure (acts_for_unit u unit condo) (Forbidden ''You cannot submit forms for this unit'')))"

definition is_form_guard :: "auth_user \<Rightarrow> string \<Rightarrow> bool" where
  "is_form_guard u condo = some_role (is_role_in SECURITY_GUARD condo) u"

definition assert_guard_or_management :: "auth_user \<Rightarrow> string \<Rightarrow> unit msvc" where
  "assert_guard_or_management u condo =
     ensure (is_form_guard u condo \<or> is_form_management u condo) (Forbidden ''Guard or management access required'')"

section \<open>Fields and answers\<close>

definition quoted :: "string \<Rightarrow> string" where
  "quoted t = CHR 0x22 # t @ [CHR 0x22]"

fun check_fields :: "string list \<Rightarrow> form_field list \<Rightarrow> unit msvc" where
  "check_fields seen [] = ret ()"
| "check_fields seen (f # fs) =
     bnd (ensure (fl_id f \<notin> set seen) (BadRequest (''Duplicate field id: '' @ fl_id f))) (\<lambda>_.
     bnd (ensure (\<not> (fl_type f = ''select'' \<and> (fl_options f = None \<or> fl_options f = Some [])))
       (BadRequest (''Select field '' @ quoted (fl_label f) @ '' needs options''))) (\<lambda>_.
     check_fields (fl_id f # seen) fs))"

definition validate_fields :: "form_field list \<Rightarrow> unit msvc" where
  "validate_fields fs =
     bnd (ensure (fs \<noteq> []) (BadRequest ''At least one field is required'')) (\<lambda>_. check_fields [] fs)"

definition parse_fields :: "form_field list \<Rightarrow> (form_field list) msvc" where
  "parse_fields fs = bnd (ensure (fs \<noteq> []) (BadRequest ''Form template has no fields configured'')) (\<lambda>_. ret fs)"

text \<open>\<open>String(value)\<close>; the text of a number is a parameter.\<close>

definition join_with :: "string \<Rightarrow> string list \<Rightarrow> string" where
  "join_with d ts = concat (case ts of [] \<Rightarrow> [] | t # us \<Rightarrow> t # map (\<lambda>u. d @ u) us)"

fun js_text :: "(rat \<Rightarrow> string) \<Rightarrow> json \<Rightarrow> string" where
  "js_text num JNull = ''null''"
| "js_text num (JBool b) = (if b then ''true'' else ''false'')"
| "js_text num (JNum x) = num x"
| "js_text num (JStr t) = t"
| "js_text num (JArr xs) = join_with '','' (map (\<lambda>x. if x = JNull then [] else js_text num x) xs)"
| "js_text num (JObj fs) = ''[object Object]''"

text \<open>\<open>value === undefined || value === null || value === ''\<close>.\<close>

definition not_answered :: "json option \<Rightarrow> bool" where
  "not_answered v \<longleftrightarrow> v = None \<or> v = Some JNull \<or> v = Some (JStr [])"

definition is_bool :: "json option \<Rightarrow> bool" where
  "is_bool v \<longleftrightarrow> v = Some (JBool True) \<or> v = Some (JBool False)"

definition check_answer :: "(rat \<Rightarrow> string) \<Rightarrow> form_field \<Rightarrow> json option \<Rightarrow> unit msvc" where
  "check_answer num f v =
     bnd (ensure (\<not> (fl_required f \<and> not_answered v)) (BadRequest (fl_label f @ '' is required''))) (\<lambda>_.
     bnd (ensure (\<not> (fl_required f \<and> fl_type f = ''boolean'' \<and> v \<noteq> Some (JBool True)))
       (BadRequest (fl_label f @ '' must be confirmed''))) (\<lambda>_.
     if not_answered v then ret ()
     else
       bnd (ensure (\<not> (fl_type f = ''boolean'' \<and> \<not> is_bool v)) (BadRequest (fl_label f @ '' must be yes/no''))) (\<lambda>_.
       ensure (\<not> (fl_type f = ''select'' \<and>
           (case fl_options f of None \<Rightarrow> False | Some os \<Rightarrow> js_text num (given_or v JNull) \<notin> set os)))
         (BadRequest (fl_label f @ '' has an invalid selection'')))))"

fun validate_answers :: "(rat \<Rightarrow> string) \<Rightarrow> form_field list \<Rightarrow> answers \<Rightarrow> unit msvc" where
  "validate_answers num [] a = ret ()"
| "validate_answers num (f # fs) a =
     bnd (check_answer num f (map_of a (fl_id f))) (\<lambda>_. validate_answers num fs a)"

definition string_answer :: "(rat \<Rightarrow> string) \<Rightarrow> answers \<Rightarrow> string \<Rightarrow> string option" where
  "string_answer num a k =
     (let v = map_of a k in if not_answered v then None else Some (js_text num (given_or v JNull)))"

text \<open>
  \<open>new Date(text)\<close>: a calendar date is midnight UTC of the day; \<open>other\<close> says what the engine makes of
  any other text.
\<close>

definition js_date :: "(string \<Rightarrow> int option) \<Rightarrow> string \<Rightarrow> int option" where
  "js_date other t =
     (case (digits_at 0 4 t, digits_at 5 2 t, digits_at 8 2 t) of
        (Some y, Some m, Some d) \<Rightarrow>
          if length t = 10 \<and> t ! 4 = CHR ''-'' \<and> t ! 7 = CHR ''-'' \<and> 1 \<le> m \<and> m \<le> 12 \<and> 1 \<le> d \<and> d \<le> days_in_month y (m - 1)
          then Some (make_day y (m - 1) d * day_ms) else other t
      | _ \<Rightarrow> other t)"

definition answer_date :: "form_env \<Rightarrow> answers \<Rightarrow> string \<Rightarrow> int option" where
  "answer_date e a k =
     (case map_of a k of
        Some (JStr t) \<Rightarrow> if trim t = [] then None else js_date (fe_date e) t
      | _ \<Rightarrow> None)"

text \<open>\<open>setHours(23, 59, 59, 999)\<close> in a zone at the offset \<open>z\<close>.\<close>

definition end_of_day :: "int \<Rightarrow> int \<Rightarrow> int" where
  "end_of_day z t = (t + z) div day_ms * day_ms + day_ms - 1 - z"

end
