(* ===== verification/Form_Desk.thy ===== *)
theory Form_Desk
  imports Forms
begin

text \<open>
  The operations of apps/api/src/forms/forms.service.ts: templates and the default templates of a
  condo, submissions from the draft to the decision, and the permit at the gate.
\<close>

section \<open>Default templates\<close>

definition plain_field :: "string \<Rightarrow> string \<Rightarrow> string \<Rightarrow> bool \<Rightarrow> string option \<Rightarrow> form_field" where
  "plain_field i ty label req hint =
     \<lparr>fl_id = i, fl_type = ty, fl_label = label, fl_required = req, fl_placeholder = hint, fl_options = None\<rparr>"

definition move_in_fields :: "form_field list" where
  "move_in_fields =
     [plain_field ''moveDate'' ''date'' ''Move date'' True None,
      plain_field ''occupantNames'' ''textarea'' ''Occupant names'' True (Some ''Full names of all occupants moving in''),
      plain_field ''contractorContact'' ''text'' ''Contractor contact'' False (Some ''Name and phone number''),
      plain_field ''vehiclePlates'' ''text'' ''Vehicle plate numbers'' False (Some ''e.g. WXY 1234, VAB 5678'')]"

definition move_out_fields :: "form_field list" where
  "move_out_fields =
     [plain_field ''moveDate'' ''date'' ''Move date'' True None,
      plain_field ''forwardingAddress'' ''textarea'' ''Forwarding address'' True (Some ''Where correspondence should be sent''),
      plain_field ''keysReturned'' ''boolean'' ''I confirm all keys and access cards have been returned'' True None]"

definition renovation_fields :: "form_field list" where
  "renovation_fields =
     [plain_field ''workScope'' ''textarea'' ''Scope of renovation work'' True None,
      plain_field ''contractorCompany'' ''text'' ''Contractor company'' True None,
      plain_field ''startDate'' ''date'' ''Work start date'' True None,
      plain_field ''endDate'' ''date'' ''Expected completion date'' True None,
      plain_field ''depositAcknowledgement'' ''boolean'' ''I acknowledge the renovation deposit requirements'' True None]"

definition vehicle_sticker_fields :: "form_field list" where
  "vehicle_sticker_fields =
     [plain_field ''plateNumber'' ''text'' ''Vehicle plate number'' True (Some ''e.g. WXY 1234''),
      (plain_field ''vehicleType'' ''select'' ''Vehicle type'' True None)\<lparr>fl_options := Some [''Car'', ''Motorcycle'', ''Other'']\<rparr>,
      plain_field ''bayNumber'' ''text'' ''Parking bay (if assigned)'' False (Some ''e.g. B2-045'')]"

definition default_templates :: "(form_kind \<times> string \<times> form_field list) list" where
  "default_templates =
     [(MOVE_IN, ''Move-in application'', move_in_fields),
      (MOVE_OUT, ''Move-out application'', move_out_fields),
      (RENOVATION, ''Renovation permit'', renovation_fields),
      (VEHICLE_STICKER, ''Vehicle sticker application'', vehicle_sticker_fields)]"

definition missing_defaults :: "string \<Rightarrow> form_template list \<Rightarrow> (form_kind \<times> string \<times> form_field list) list" where
  "missing_defaults condo ts = filter (\<lambda>(k, _). \<not> list_ex (\<lambda>t. tm_condo t = condo \<and> tm_kind t = k) ts) default_templates"

definition seeded_template :: "string \<Rightarrow> nat \<Rightarrow> form_kind \<times> string \<times> form_field list \<Rightarrow> string \<Rightarrow> form_template" where
  "seeded_template condo k d i =
     (case d of (kind, title, fs) \<Rightarrow> \<lparr>tm_id = i, tm_condo = condo, tm_kind = kind, tm_title = title, tm_fields = fs,
        tm_active = True, tm_position = int k\<rparr>)"

definition ensure_default_templates :: "string \<Rightarrow> unit msvc" where
  "ensure_default_templates condo =
     bnd (gets (\<lambda>s. missing_defaults condo (fo_templates s))) (\<lambda>missing.
     bnd (for_each (zip [0..<length missing] missing) (\<lambda>(k, d). insert_template (seeded_template condo k d))) (\<lambda>_.
     ret ()))"

section \<open>Templates\<close>

definition list_templates ::
  "auth_user \<Rightarrow> string \<Rightarrow> bool \<Rightarrow> nat \<Rightarrow> nat \<Rightarrow> (form_template list \<times> nat) msvc" where
  "list_templates u condo inactive limit offset =
     bnd (assert_form_member u condo) (\<lambda>_.
     bnd (ensure_default_templates condo) (\<lambda>_.
     gets (\<lambda>s. let p = (\<lambda>t. tm_condo t = condo \<and> ((is_form_management u condo \<and> inactive) \<or> tm_active t)) in
       (page limit offset (sort_key tm_position (sort_key tm_title (filter p (fo_templates s)))),
        count_where p (fo_templates s)))))"

definition get_template :: "auth_user \<Rightarrow> string \<Rightarrow> form_template msvc" where
  "get_template u i =
     bnd (gets (find_template i)) (\<lambda>found.
     bnd (need found (NotFound ''Form template not found'')) (\<lambda>t.
     bnd (assert_form_member u (tm_condo t)) (\<lambda>_.
     bnd (ensure (tm_active t \<or> is_form_management u (tm_condo t)) (NotFound ''Form template not found'')) (\<lambda>_.
     ret t))))"

record template_input =
  ti_condo :: string
  ti_kind :: form_kind
  ti_title :: string
  ti_fields :: "form_field list"
  ti_active :: "bool option"
  ti_position :: "int option"

definition create_template :: "auth_user \<Rightarrow> template_input \<Rightarrow> form_template msvc" where
  "create_template u d =
     bnd (assert_form_management u (ti_condo d)) (\<lambda>_.
     bnd (validate_fields (ti_fields d)) (\<lambda>_.
     bnd (insert_template (\<lambda>i. \<lparr>tm_id = i, tm_condo = ti_condo d, tm_kind = ti_kind d, tm_title = trim (ti_title d),
       tm_fields = ti_fields d, tm_active = given_or (ti_active d) True, tm_position = given_or (ti_position d) 0\<rparr>)) (\<lambda>t.
     bnd (form_audit (ti_condo d) None u AUDIT_CREATE ''FormTemplate'' (tm_id t)
       [''kind'' \<mapsto> JStr (form_kind_text (tm_kind t))]) (\<lambda>_. ret t))))"

record form_template_patch =
  tq_kind :: "form_kind option"
  tq_title :: "string option"
  tq_fields :: "form_field list option"
  tq_active :: "bool option"
  tq_position :: "int option"

definition patched_template :: "form_template_patch \<Rightarrow> form_template \<Rightarrow> form_template" where
  "patched_template d t =
     t\<lparr>tm_kind := given_or (tq_kind d) (tm_kind t),
       tm_title := (case tq_title d of None \<Rightarrow> tm_title t | Some x \<Rightarrow> trim x),
       tm_fields := given_or (tq_fields d) (tm_fields t),
       tm_active := given_or (tq_active d) (tm_active t),
       tm_position := given_or (tq_position d) (tm_position t)\<rparr>"

definition update_template :: "auth_user \<Rightarrow> string \<Rightarrow> form_template_patch \<Rightarrow> form_template msvc" where
  "update_template u i d =
     bnd (gets (find_template i)) (\<lambda>found.
     bnd (need found (NotFound ''Form template not found'')) (\<lambda>t.
     bnd (assert_form_management u (tm_condo t)) (\<lambda>_.
     bnd (case tq_fields d of None \<Rightarrow> ret () | Some fs \<Rightarrow> validate_fields fs) (\<lambda>_.
     bnd (set_template i (patched_template d)) (\<lambda>_.
     bnd (read_template i) (\<lambda>t'.
     bnd (form_audit (tm_condo t) None u AUDIT_UPDATE ''FormTemplate'' i
       [''kind'' \<mapsto> JStr (form_kind_text (tm_kind t'))]) (\<lambda>_. ret t')))))))"

text \<open>A template with submissions is only deactivated; \<open>None\<close> is the answer \<open>{ ok: true }\<close>.\<close>

definition delete_template :: "auth_user \<Rightarrow> string \<Rightarrow> form_template option msvc" where
  "delete_template u i =
     bnd (gets (find_template i)) (\<lambda>found.
     bnd (need found (NotFound ''Form template not found'')) (\<lambda>t.
     bnd (assert_form_management u (tm_condo t)) (\<lambda>_.
     bnd (gets (\<lambda>s. list_ex (\<lambda>r. sb_template r = i) (fo_rows s))) (\<lambda>used.
     if used then
       bnd (set_template i (\<lambda>t. t\<lparr>tm_active := False\<rparr>)) (\<lambda>_.
       bnd (read_template i) (\<lambda>t'.
       bnd (form_audit (tm_condo t) None u AUDIT_UPDATE ''FormTemplate'' i [''deactivated'' \<mapsto> JBool True]) (\<lambda>_.
       ret (Some t'))))
     else
       bnd (modify (\<lambda>s. s\<lparr>fo_templates := filter (\<lambda>t. tm_id t \<noteq> i) (fo_templates s)\<rparr>)) (\<lambda>_.
       bnd (form_audit (tm_condo t) None u AUDIT_DELETE ''FormTemplate'' i Map.empty) (\<lambda>_.
       ret None))))))"

section \<open>Submissions\<close>

text \<open>
  \<open>orderBy: [{ submittedAt: 'desc' }, { createdAt: 'desc' }]\<close>: in descending order Postgres puts the
  rows without a time first.
\<close>

definition latest_first :: "submission list \<Rightarrow> submission list" where
  "latest_first rows =
     (let sorted = sort_key (\<lambda>r. - given_or (sb_submitted r) 0) (sort_key (\<lambda>r. - sb_created r) rows) in
      filter (\<lambda>r. sb_submitted r = None) sorted @ filter (\<lambda>r. sb_submitted r \<noteq> None) sorted)"

definition list_condo_submissions ::
  "auth_user \<Rightarrow> string \<Rightarrow> form_status option \<Rightarrow> string option \<Rightarrow> nat \<Rightarrow> nat \<Rightarrow> (submission list \<times> nat) msvc" where
  "list_condo_submissions u condo st template limit offset =
     bnd (assert_form_management u condo) (\<lambda>_.
     gets (\<lambda>s. let p = (\<lambda>r. sb_condo r = condo \<and> (st = None \<or> Some (sb_status r) = st) \<and>
         (template = None \<or> Some (sb_template r) = template)) in
       (page limit offset (latest_first (filter p (fo_rows s))), count_where p (fo_rows s))))"

definition list_my_submissions :: "auth_user \<Rightarrow> nat \<Rightarrow> nat \<Rightarrow> (submission list \<times> nat) msvc" where
  "list_my_submissions u limit offset =
     gets (\<lambda>s. let p = (\<lambda>r. sb_user r = user_id u) in
       (page limit offset (sort_key (\<lambda>r. - sb_updated r) (filter p (fo_rows s))), count_where p (fo_rows s)))"

definition get_submission :: "auth_user \<Rightarrow> string \<Rightarrow> submission msvc" where
  "get_submission u i =
     bnd (gets (find_submission i)) (\<lambda>found.
     bnd (need found (NotFound ''Form submission not found'')) (\<lambda>r.
     bnd (ensure (sb_user r = user_id u \<or> is_form_management u (sb_condo r))
       (Forbidden ''You cannot view this submission'')) (\<lambda>_. ret r)))"

record submission_input =
  si_template :: string
  si_unit :: string
  si_answers :: "answers option"
  si_submit :: bool

definition new_submission ::
  "form_env \<Rightarrow> auth_user \<Rightarrow> form_template \<Rightarrow> submission_input \<Rightarrow> answers \<Rightarrow> string \<Rightarrow> submission" where
  "new_submission e u t d a i =
     \<lparr>sb_id = i, sb_template = tm_id t, sb_condo = tm_condo t, sb_unit = si_unit d, sb_user = user_id u,
      sb_status = (if si_submit d then FORM_SUBMITTED else FORM_DRAFT), sb_answers = a, sb_reviewer = None,
      sb_reviewed = None, sb_note = None, sb_submitted = (if si_submit d then Some (fe_now e) else None),
      sb_code = None, sb_payload = None, sb_from = None, sb_until = None, sb_created = fe_now e, sb_updated = fe_now e\<rparr>"

definition create_submission :: "form_env \<Rightarrow> auth_user \<Rightarrow> submission_input \<Rightarrow> submission msvc" where
  "create_submission e u d =
     bnd (gets (find_template (si_template d))) (\<lambda>found.
     bnd (need found (NotFound ''Form template not found'')) (\<lambda>t.
     bnd (ensure (tm_active t) (NotFound ''Form template not found'')) (\<lambda>_.
     bnd (assert_form_member u (tm_condo t)) (\<lambda>_.
     bnd (assert_files_for_unit u (si_unit d) (tm_condo t)) (\<lambda>_.
     bnd (parse_fields (tm_fields t)) (\<lambda>fs.
     let a = given_or (si_answers d) [] in
     bnd (only_if (si_submit d) (validate_answers (ve_number (fe_visit e)) fs a)) (\<lambda>_.
     bnd (insert_submission (new_submission e u t d a)) (\<lambda>r.
     bnd (form_audit (tm_condo t) (Some (si_unit d)) u AUDIT_CREATE ''FormSubmission'' (sb_id r)
       [''status'' \<mapsto> JStr (form_status_text (sb_status r)), ''templateKind'' \<mapsto> JStr (form_kind_text (tm_kind t))]) (\<lambda>_.
     bnd (emit_update r) (\<lambda>_.
     bnd (only_if (si_submit d) (emit_form (FormSubmitted (sb_id r) (tm_condo t) (user_id u) (si_unit d)))) (\<lambda>_.
     ret r)))))))))))"

text \<open>A submission with its template, which the foreign key keeps.\<close>

definition with_template :: "string \<Rightarrow> (submission \<times> form_template) msvc" where
  "with_template i =
     bnd (gets (find_submission i)) (\<lambda>found.
     bnd (need found (NotFound ''Form submission not found'')) (\<lambda>r.
     bnd (gets (find_template (sb_template r))) (\<lambda>t.
     bnd (need t (ServerError ''Inconsistent query result'')) (\<lambda>t. ret (r, t)))))"

definition status_meta :: "form_status \<Rightarrow> meta" where
  "status_meta st = [''status'' \<mapsto> JStr (form_status_text st)]"

definition update_submission :: "form_env \<Rightarrow> auth_user \<Rightarrow> string \<Rightarrow> answers option \<Rightarrow> bool \<Rightarrow> submission msvc" where
  "update_submission e u i a submit =
     bnd (with_template i) (\<lambda>(r, t).
     bnd (ensure (sb_user r = user_id u) (Forbidden ''You can only edit your own submissions'')) (\<lambda>_.
     bnd (ensure (sb_status r = FORM_DRAFT) (BadRequest ''Only draft submissions can be edited'')) (\<lambda>_.
     let a' = given_or a (sb_answers r) in
     bnd (parse_fields (tm_fields t)) (\<lambda>fs.
     bnd (only_if submit (validate_answers (ve_number (fe_visit e)) fs a')) (\<lambda>_.
     bnd (set_submission e i (\<lambda>r. if submit
       then r\<lparr>sb_answers := a', sb_status := FORM_SUBMITTED, sb_submitted := Some (fe_now e)\<rparr>
       else r\<lparr>sb_answers := a'\<rparr>)) (\<lambda>r'.
     bnd (form_audit (sb_condo r) (Some (sb_unit r)) u AUDIT_UPDATE ''FormSubmission'' i (status_meta (sb_status r'))) (\<lambda>_.
     bnd (emit_update r') (\<lambda>_.
     bnd (only_if submit (emit_form (FormSubmitted (sb_id r') (sb_condo r) (user_id u) (sb_unit r)))) (\<lambda>_.
     ret r')))))))))"

definition cancel_submission :: "form_env \<Rightarrow> auth_user \<Rightarrow> string \<Rightarrow> submission msvc" where
  "cancel_submission e u i =
     bnd (gets (find_submission i)) (\<lambda>found.
     bnd (need found (NotFound ''Form submission not found'')) (\<lambda>r.
     bnd (ensure (sb_user r = user_id u) (Forbidden ''You can only cancel your own submissions'')) (\<lambda>_.
     bnd (ensure (sb_status r = FORM_DRAFT \<or> sb_status r = FORM_SUBMITTED)
       (BadRequest ''This submission can no longer be cancelled'')) (\<lambda>_.
     bnd (set_submission e i (\<lambda>r. r\<lparr>sb_status := FORM_CANCELLED\<rparr>)) (\<lambda>r'.
     bnd (form_audit (sb_condo r) (Some (sb_unit r)) u AUDIT_UPDATE ''FormSubmission'' i (status_meta FORM_CANCELLED)) (\<lambda>_.
     bnd (emit_update r') (\<lambda>_. ret r')))))))"

section \<open>Decisions\<close>

record permit_fields =
  pf_code :: string
  pf_payload :: string
  pf_from :: "int option"
  pf_until :: "int option"

definition allocate_permit_fields :: "form_env \<Rightarrow> string \<Rightarrow> string \<Rightarrow> answers \<Rightarrow> permit_fields msvc" where
  "allocate_permit_fields e condo i a =
     bnd (on_visits (allocate_permit_code (fe_visit e) condo)) (\<lambda>code.
     ret \<lparr>pf_code = code, pf_payload = qr_payload condo i code, pf_from = answer_date e a ''startDate'',
          pf_until = map_option (end_of_day (ve_host (fe_visit e))) (answer_date e a ''endDate'')\<rparr>)"

definition with_permit :: "permit_fields option \<Rightarrow> submission \<Rightarrow> submission" where
  "with_permit p r =
     (case p of None \<Rightarrow> r
      | Some f \<Rightarrow> r\<lparr>sb_code := Some (pf_code f), sb_payload := Some (pf_payload f), sb_from := pf_from f, sb_until := pf_until f\<rparr>)"

definition approved_row :: "form_env \<Rightarrow> auth_user \<Rightarrow> permit_fields option \<Rightarrow> submission \<Rightarrow> submission" where
  "approved_row e u p r =
     with_permit p (r\<lparr>sb_status := FORM_APPROVED, sb_reviewer := Some (user_id u), sb_reviewed := Some (fe_now e), sb_note := None\<rparr>)"

definition approve_submission :: "form_env \<Rightarrow> auth_user \<Rightarrow> string \<Rightarrow> submission msvc" where
  "approve_submission e u i =
     bnd (with_template i) (\<lambda>(r, t).
     bnd (assert_form_management u (sb_condo r)) (\<lambda>_.
     bnd (ensure (sb_status r = FORM_SUBMITTED) (BadRequest ''Only submitted forms can be approved'')) (\<lambda>_.
     bnd (if is_permit_kind (tm_kind t) then bnd (allocate_permit_fields e (sb_condo r) i (sb_answers r)) (\<lambda>p. ret (Some p))
          else ret None) (\<lambda>p.
     bnd (set_submission e i (approved_row e u p)) (\<lambda>r'.
     bnd (form_audit (sb_condo r) (Some (sb_unit r)) u AUDIT_UPDATE ''FormSubmission'' i
       (case p of None \<Rightarrow> status_meta FORM_APPROVED
        | Some f \<Rightarrow> (status_meta FORM_APPROVED)(''accessCode'' \<mapsto> JStr (pf_code f)))) (\<lambda>_.
     bnd (emit_update r') (\<lambda>_.
     bnd (emit_form (FormApproved i (sb_condo r) (sb_user r))) (\<lambda>_. ret r'))))))))"

definition reject_submission :: "form_env \<Rightarrow> auth_user \<Rightarrow> string \<Rightarrow> string option \<Rightarrow> submission msvc" where
  "reject_submission e u i note =
     bnd (with_template i) (\<lambda>(r, t).
     bnd (assert_form_management u (sb_condo r)) (\<lambda>_.
     bnd (ensure (sb_status r = FORM_SUBMITTED) (BadRequest ''Only submitted forms can be rejected'')) (\<lambda>_.
     bnd (set_submission e i (\<lambda>r. r\<lparr>sb_status := FORM_REJECTED, sb_reviewer := Some (user_id u),
       sb_reviewed := Some (fe_now e), sb_note := trimmed note\<rparr>)) (\<lambda>r'.
     bnd (form_audit (sb_condo r) (Some (sb_unit r)) u AUDIT_UPDATE ''FormSubmission'' i (status_meta FORM_REJECTED)) (\<lambda>_.
     bnd (emit_update r') (\<lambda>_.
     bnd (emit_form (FormRejected i (sb_condo r) (sb_user r) (sb_note r'))) (\<lambda>_. ret r')))))))"

section \<open>The permit at the gate\<close>

record permit_view =
  pw_id :: string
  pw_condo :: string
  pw_status :: form_status
  pw_code :: "string option"
  pw_payload :: "string option"
  pw_from :: "int option"
  pw_until :: "int option"
  pw_kind :: form_kind
  pw_title :: string
  pw_contractor :: "string option"
  pw_scope :: "string option"
  pw_valid :: bool
  pw_message :: "string option"

definition to_permit_view :: "form_env \<Rightarrow> submission \<Rightarrow> form_template \<Rightarrow> permit_view" where
  "to_permit_view e r t =
     (let answer = string_answer (ve_number (fe_visit e)) (sb_answers r);
          (valid, message) =
            (if sb_status r \<noteq> FORM_APPROVED then (False, Some (''Permit is '' @ form_status_text (sb_status r)))
             else if (case sb_from r of None \<Rightarrow> False | Some x \<Rightarrow> x > fe_now e) then (False, Some ''Permit is not yet valid'')
             else if (case sb_until r of None \<Rightarrow> False | Some x \<Rightarrow> x < fe_now e) then (False, Some ''Permit has expired'')
             else (True, None))
      in \<lparr>pw_id = sb_id r, pw_condo = sb_condo r, pw_status = sb_status r, pw_code = sb_code r, pw_payload = sb_payload r,
          pw_from = sb_from r, pw_until = sb_until r, pw_kind = tm_kind t, pw_title = tm_title t,
          pw_contractor = answer ''contractorCompany'', pw_scope = answer ''workScope'', pw_valid = valid, pw_message = message\<rparr>)"

definition resolve_permit :: "string \<Rightarrow> string \<Rightarrow> submission list \<Rightarrow> submission option" where
  "resolve_permit pass condo rows =
     (let t = normalize_pass pass in
      first_some
        [if is_visitor_id t then find_row sb_id t rows else None,
         (case parse_qr t of None \<Rightarrow> None | Some (c, i, code) \<Rightarrow> find (\<lambda>r. sb_id r = i \<and> sb_condo r = c) rows),
         find (\<lambda>r. sb_payload r = Some t) rows,
         find (\<lambda>r. sb_condo r = condo \<and> sb_code r = Some t) rows])"

definition verify_permit ::
  "form_env \<Rightarrow> auth_user \<Rightarrow> string option \<Rightarrow> string \<Rightarrow> string option \<Rightarrow> permit_view msvc" where
  "verify_permit e u active pass condo =
     bnd (case condo of Some c \<Rightarrow> ret c | None \<Rightarrow> on_visits (guard_condo active)) (\<lambda>c.
     bnd (assert_guard_or_management u c) (\<lambda>_.
     bnd (gets (\<lambda>s. resolve_permit pass c (fo_rows s))) (\<lambda>found.
     bnd (need found (NotFound ''Permit not found'')) (\<lambda>r.
     bnd (ensure (sb_condo r = c) (Forbidden ''Permit is not for this condo'')) (\<lambda>_.
     bnd (gets (find_template (sb_template r))) (\<lambda>t.
     bnd (need t (ServerError ''Inconsistent query result'')) (\<lambda>t.
     bnd (ensure (is_permit_kind (tm_kind t)) (BadRequest ''This form is not a gate-verifiable permit'')) (\<lambda>_.
     ret (to_permit_view e r t)))))))))"

definition has_permit :: "submission \<Rightarrow> bool" where
  "has_permit r \<longleftrightarrow> sb_status r = FORM_APPROVED \<and> truthy (sb_payload r) \<and> truthy (sb_code r)"

text \<open>\<open>getPermitQr\<close>: payload, code and window; the picture is drawn from the payload.\<close>

definition get_permit_qr :: "auth_user \<Rightarrow> string \<Rightarrow> permit_fields msvc" where
  "get_permit_qr u i =
     bnd (get_submission u i) (\<lambda>r.
     bnd (ensure (has_permit r) (BadRequest ''This submission has no printable permit yet'')) (\<lambda>_.
     bnd (gets (find_template (sb_template r))) (\<lambda>t.
     bnd (need t (ServerError ''Inconsistent query result'')) (\<lambda>t.
     bnd (ensure (is_permit_kind (tm_kind t)) (BadRequest ''This form kind does not issue a gate permit'')) (\<lambda>_.
     ret \<lparr>pf_code = given_or (sb_code r) [], pf_payload = given_or (sb_payload r) [], pf_from = sb_from r, pf_until = sb_until r\<rparr>)))))"

text \<open>What the printed permit says, and the name of its file.\<close>

record permit_print =
  pr_title :: string
  pr_reference :: string
  pr_contractor :: "string option"
  pr_scope :: "string option"
  pr_from :: "string option"
  pr_until :: "string option"
  pr_code :: string
  pr_payload :: string
  pr_approved :: "string option"
  pr_file :: string

text \<open>\<open>replace(/[^a-z0-9]+/g, '-').replace(/^-|-$/g, '').slice(0, 40)\<close> of the lower case.\<close>

fun dashed :: "bool \<Rightarrow> string \<Rightarrow> string" where
  "dashed gap [] = []"
| "dashed gap (c # cs) =
     (if is_digit c \<or> (is_letter c \<and> lower_char c = c) then c # dashed False cs
      else if gap then dashed True cs else CHR ''-'' # dashed True cs)"

definition file_slug :: "string \<Rightarrow> string" where
  "file_slug t =
     (let d = dashed False (to_lower t);
          d = (if d \<noteq> [] \<and> hd d = CHR ''-'' then tl d else d);
          d = (if d \<noteq> [] \<and> last d = CHR ''-'' then butlast d else d)
      in take 40 d)"

definition export_permit :: "form_env \<Rightarrow> auth_user \<Rightarrow> string \<Rightarrow> permit_print msvc" where
  "export_permit e u i =
     bnd (with_template i) (\<lambda>(r, t).
     bnd (ensure (sb_user r = user_id u \<or> is_form_management u (sb_condo r))
       (Forbidden ''You cannot print this permit'')) (\<lambda>_.
     bnd (ensure (has_permit r) (BadRequest ''Only approved permits with an access code can be printed'')) (\<lambda>_.
     bnd (ensure (is_permit_kind (tm_kind t)) (BadRequest ''This form kind does not issue a printable permit'')) (\<lambda>_.
     let answer = string_answer (ve_number (fe_visit e)) (sb_answers r);
         slug = file_slug (if tm_title t = [] then ''permit'' else tm_title t) in
     ret \<lparr>pr_title = (if tm_title t = [] then ''Renovation permit'' else tm_title t),
          pr_reference = to_upper (take 8 (sb_id r)), pr_contractor = answer ''contractorCompany'', pr_scope = answer ''workScope'',
          pr_from = map_option (fe_date_text e) (sb_from r), pr_until = map_option (fe_date_text e) (sb_until r),
          pr_code = given_or (sb_code r) [], pr_payload = given_or (sb_payload r) [],
          pr_approved = map_option (fe_time_text e) (sb_reviewed r),
          pr_file = (if slug = [] then ''permit'' else slug) @ ''-'' @ take 8 (sb_id r) @ ''.pdf''\<rparr>))))"

end
