(* ===== verification/Day_Bounds.thy ===== *)
theory Day_Bounds
  imports Visitor_Rules
begin

text \<open>
  The binary search for the midnight of a condo's day: it ends, and it finds the first time of the
  local day, whatever the time zone, as long as local days do not run backwards. The texts of days
  are ordered like the days.
\<close>

section \<open>Order of decimal text\<close>

abbreviation padded :: "nat \<Rightarrow> nat \<Rightarrow> string" where
  "padded k n \<equiv> pad_start k (CHR ''0'') (show_nat n)"

lemma digit_char_less: "a < 10 \<Longrightarrow> b < 10 \<Longrightarrow> digit_char a < digit_char b \<longleftrightarrow> a < b"
  by (simp add: less_char_def digit_char_def)

lemma append_less:
  "length xs = length ys \<Longrightarrow> xs @ as < ys @ bs \<longleftrightarrow> xs < ys \<or> (xs = ys \<and> as < bs)" for xs ys :: string
  by (induction xs ys rule: list_induct2) auto

lemma padded_Suc:
  assumes "0 < k" and "n < 10 ^ Suc k"
  shows "padded (Suc k) n = padded k (n div 10) @ [digit_char (n mod 10)]"
proof (cases "n < 10")
  case True
  moreover have "digit_char 0 = CHR ''0''" by code_simp
  ultimately have "show_nat n = [digit_char n]" "show_nat (n div 10) = [CHR ''0'']"
    by (simp_all add: show_nat.simps [of n] show_nat.simps [of 0])
  then show ?thesis using assms(1) True by (cases k) (simp_all add: pad_start_def replicate_append_same)
next
  case False
  then show ?thesis by (simp add: show_nat.simps [of n] pad_start_def)
qed

lemma padded_length: "0 < k \<Longrightarrow> n < 10 ^ k \<Longrightarrow> length (padded k n) = k"
proof (induction k arbitrary: n)
  case (Suc k)
  show ?case
  proof (cases "k = 0")
    case True
    then show ?thesis using Suc.prems by (simp add: pad_start_def show_nat.simps [of n])
  next
    case False
    then have "n div 10 < 10 ^ k" using Suc.prems by (simp add: less_mult_imp_div_less)
    with False Suc show ?thesis by (simp only: padded_Suc) simp
  qed
qed simp

lemma digits_less:
  fixes m n a b r q :: nat
  assumes "m = 10 * a + r" and "n = 10 * b + q" and "r < 10" and "q < 10"
  shows "a < b \<or> a = b \<and> r < q \<longleftrightarrow> m < n"
  using assms by linarith

lemma padded_less: "0 < k \<Longrightarrow> m < 10 ^ k \<Longrightarrow> n < 10 ^ k \<Longrightarrow> padded k m < padded k n \<longleftrightarrow> m < n"
proof (induction k arbitrary: m n)
  case (Suc k)
  show ?case
  proof (cases "k = 0")
    case True
    then show ?thesis using Suc.prems
      by (simp add: pad_start_def show_nat.simps [of n] show_nat.simps [of m] digit_char_less)
  next
    case False
    then have d: "m div 10 < 10 ^ k" "n div 10 < 10 ^ k" using Suc.prems by (simp_all add: less_mult_imp_div_less)
    have IH: "padded k (m div 10) < padded k (n div 10) \<longleftrightarrow> m div 10 < n div 10"
      using Suc.IH [OF _ d] False by simp
    have "padded k (m div 10) = padded k (n div 10) \<longleftrightarrow> m div 10 = n div 10"
      using read_pad_show by (metis option.inject)
    note eq = this
    have len: "length (padded k (m div 10)) = length (padded k (n div 10))"
      using padded_length d False by simp
    have last: "[digit_char (m mod 10)] < [digit_char (n mod 10)] \<longleftrightarrow> m mod 10 < n mod 10"
      by (simp add: digit_char_less)
    have k: "0 < k" using False by simp
    have "padded (Suc k) m < padded (Suc k) n \<longleftrightarrow>
        m div 10 < n div 10 \<or> m div 10 = n div 10 \<and> m mod 10 < n mod 10"
      unfolding padded_Suc [OF k Suc.prems(2)] padded_Suc [OF k Suc.prems(3)]
      by (simp only: append_less [OF len] IH eq last)
    also have "\<dots> \<longleftrightarrow> m < n"
      by (rule digits_less) simp_all
    finally show ?thesis .
  qed
qed simp

section \<open>The text of a day\<close>

text \<open>Days of the years 100 to 9999, which have ten characters and no quirks.\<close>

definition plain_day :: "int \<Rightarrow> bool" where
  "plain_day d \<longleftrightarrow> day_from_year 100 \<le> d \<and> d < day_from_year 10000"

lemma plain_year:
  assumes "plain_day d"
  shows "100 \<le> year_of_day d" and "year_of_day d < 10000"
proof -
  note b = year_of_day_bounds [of d]
  show "100 \<le> year_of_day d"
  proof (rule ccontr)
    assume "\<not> 100 \<le> year_of_day d"
    then have "day_from_year (year_of_day d + 1) \<le> day_from_year 100"
      using day_from_year_less [of "year_of_day d + 1" 100] by (cases "year_of_day d + 1 = 100") auto
    with b assms show False by (simp add: plain_day_def)
  qed
  show "year_of_day d < 10000"
  proof (rule ccontr)
    assume "\<not> year_of_day d < 10000"
    then have "day_from_year 10000 \<le> day_from_year (year_of_day d)"
      using day_from_year_less [of 10000 "year_of_day d"] by (cases "year_of_day d = 10000") auto
    with b assms show False by (simp add: plain_day_def)
  qed
qed

lemma iso_day_text:
  assumes "plain_day (t div day_ms)" and "civil_of_day (t div day_ms) = (y, m, d)"
  shows "iso_day t = padded 4 (nat y) @ CHR ''-'' # padded 2 (nat (m + 1)) @ CHR ''-'' # padded 2 (nat d)"
    and "100 \<le> y" and "y < 10000" and "0 \<le> m" and "m < 12" and "1 \<le> d" and "d < 32"
proof -
  obtain y' m' d' where c: "civil_of_day (t div day_ms) = (y', m', d')" "y' = year_of_day (t div day_ms)"
    "0 \<le> m'" "m' < 12" "1 \<le> d'" "d' \<le> days_in_month y' m'" by (rule civil_of_day)
  have "days_in_month y' m' < 32" by (rule month_cases [OF c(3, 4)]) (simp_all add: days_in_month_def)
  with c plain_year [OF assms(1)] assms(2)
  show r: "100 \<le> y" "y < 10000" "0 \<le> m" "m < 12" "1 \<le> d" "d < 32" by simp_all
  have "length (padded 4 (nat y)) = 4" "length (padded 2 (nat (m + 1))) = 2" "length (padded 2 (nat d)) = 2"
    by (rule padded_length; use r in simp)+
  then show "iso_day t = padded 4 (nat y) @ CHR ''-'' # padded 2 (nat (m + 1)) @ CHR ''-'' # padded 2 (nat d)"
    using r assms(2) by (simp add: iso_day_def iso_year_def iso_two_def)
qed

lemma iso_day_less:
  assumes "plain_day (s div day_ms)" and "plain_day (t div day_ms)"
  shows "iso_day s < iso_day t \<longleftrightarrow> s div day_ms < t div day_ms"
proof -
  obtain y m d where c: "civil_of_day (s div day_ms) = (y, m, d)" "0 \<le> m" "m < 12" "1 \<le> d" "d \<le> days_in_month y m"
    "make_day y m d = s div day_ms" by (rule civil_of_day)
  obtain y' m' d' where c': "civil_of_day (t div day_ms) = (y', m', d')" "0 \<le> m'" "m' < 12" "1 \<le> d'" "d' \<le> days_in_month y' m'"
    "make_day y' m' d' = t div day_ms" by (rule civil_of_day)
  note a = iso_day_text [OF assms(1) c(1)] and a' = iso_day_text [OF assms(2) c'(1)]
  let ?lt = "y < y' \<or> y = y' \<and> (m < m' \<or> m = m' \<and> d < d')"
  have len: "length (padded 4 (nat y)) = 4" "length (padded 4 (nat y')) = 4" "length (padded 2 (nat (m + 1))) = 2"
    "length (padded 2 (nat (m' + 1))) = 2" by (rule padded_length; use a a' in simp)+
  have less: "padded 4 (nat y) < padded 4 (nat y') \<longleftrightarrow> y < y'"
    "padded 2 (nat (m + 1)) < padded 2 (nat (m' + 1)) \<longleftrightarrow> m < m'" "padded 2 (nat d) < padded 2 (nat d') \<longleftrightarrow> d < d'"
    by (subst padded_less; use a a' in auto)+
  have eq: "padded 4 (nat y) = padded 4 (nat y') \<longleftrightarrow> y = y'" "padded 2 (nat (m + 1)) = padded 2 (nat (m' + 1)) \<longleftrightarrow> m = m'"
    using less a a' len by (metis eq_nat_nat_iff read_pad_show option.inject order.trans zero_le_numeral,
      metis (no_types, opaque_lifting) add_right_cancel add_increasing2 eq_nat_nat_iff read_pad_show option.inject zero_le_one)
  have "iso_day s < iso_day t \<longleftrightarrow> ?lt"
    unfolding a(1) a'(1) using len by (simp add: append_less less eq)
  also have "?lt \<longleftrightarrow> s div day_ms < t div day_ms"
  proof
    assume ?lt
    then show "s div day_ms < t div day_ms" using make_day_less [of m d y m' d' y'] c c' by auto
  next
    assume l: "s div day_ms < t div day_ms"
    show ?lt
    proof (rule ccontr)
      assume "\<not> ?lt"
      then have "(y', m', d') = (y, m, d) \<or> y' < y \<or> y' = y \<and> (m' < m \<or> m' = m \<and> d' < d)" by auto
      then have "make_day y' m' d' \<le> make_day y m d" using make_day_less [of m' d' y' m d y] c c' by auto
      with l c c' show False by simp
    qed
  qed
  finally show ?thesis .
qed

section \<open>Reading a day\<close>

lemma split_on_none: "c \<notin> set xs \<Longrightarrow> split_on c xs = [xs]"
  by (induction xs) auto

lemma split_on_first: "c \<notin> set xs \<Longrightarrow> split_on c (xs @ c # ys) = xs # split_on c ys"
  by (induction xs) auto

lemma no_hyphen: "CHR ''-'' \<notin> set (padded k n)"
proof
  assume "CHR ''-'' \<in> set (padded k n)"
  then have "CHR ''-'' \<in> set (show_nat n)" by (auto simp: pad_start_def)
  then obtain d where "d < 10" "CHR ''-'' = digit_char d" using show_nat_digits by blast
  then have "digit_val (CHR ''-'') = Some d" using digit_val_char by simp
  then show False by (simp add: digit_val_def)
qed

lemma parse_iso_day:
  assumes "plain_day (t div day_ms)" and "civil_of_day (t div day_ms) = (y, m, d)"
  shows "parse_day_key (iso_day t) = Some (y, m + 1, d)"
proof -
  note a = iso_day_text [OF assms]
  have "split_on CHR ''-'' (iso_day t) = [padded 4 (nat y), padded 2 (nat (m + 1)), padded 2 (nat d)]"
    unfolding a(1) by (simp add: split_on_first split_on_none no_hyphen)
  then show ?thesis using a(2-7) by (simp add: parse_day_key_def read_pad_show)
qed

lemma utc_midnight_plain:
  assumes "plain_day n" and "civil_of_day n = (y, m, d)"
  shows "utc_midnight y (m + 1) (d + k) = (n + k) * day_ms"
proof -
  obtain y' m' d' where c: "civil_of_day n = (y', m', d')" "y' = year_of_day n" "make_day y' m' d' = n"
    by (rule civil_of_day)
  have "make_day y m (d + k) = n + k" using c assms(2) by (simp add: make_day_def Let_def)
  then show ?thesis using plain_year [OF assms(1)] assms(2) c by (simp add: utc_midnight_def full_year_def)
qed

section \<open>The search\<close>

lemma midnight_search_least:
  assumes "low \<le> high" and "\<And>u. low \<le> u \<Longrightarrow> u < high \<Longrightarrow> day_of u < key \<longleftrightarrow> u < a" and "low \<le> a" and "a \<le> high"
  shows "midnight_search day_of key low high = a"
  using assms
proof (induction day_of key low high rule: midnight_search.induct)
  case (1 day_of key low high)
  show ?case
  proof (cases "low < high")
    case True
    let ?mid = "(low + high) div 2"
    have mid: "low \<le> ?mid" "?mid < high" using True by simp_all
    show ?thesis
    proof (cases "day_of ?mid < key")
      case True
      with "1.prems"(2) mid have "?mid < a" by simp
      then show ?thesis using "1.IH"(1) [OF \<open>low < high\<close> refl True] "1.prems" mid True \<open>low < high\<close>
        by (simp add: midnight_search.simps [of day_of key low high])
    next
      case False
      with "1.prems"(2) mid have "a \<le> ?mid" by simp
      then show ?thesis using "1.IH"(2) [OF \<open>low < high\<close> refl False] "1.prems" mid False \<open>low < high\<close>
        by (simp add: midnight_search.simps [of day_of key low high])
    qed
  next
    case False
    with "1.prems" have "low = a" by simp
    moreover have "midnight_search day_of key low high = low"
      using False by (simp add: midnight_search.simps [of day_of key low high])
    ultimately show ?thesis by simp
  qed
qed

text \<open>
  A local clock: the offset of a zone is at most fourteen hours, and later times are not on earlier
  days. \<open>local_day off u\<close> is the day of the local calendar at the time \<open>u\<close>.
\<close>

definition local_day :: "(int \<Rightarrow> int) \<Rightarrow> int \<Rightarrow> int" where
  "local_day off u = (u + off u) div day_ms"

definition clock_ok :: "(int \<Rightarrow> int) \<Rightarrow> bool" where
  "clock_ok off \<longleftrightarrow> (\<forall>u. \<bar>off u\<bar> \<le> 50400000) \<and> (\<forall>u v. u \<le> v \<longrightarrow> local_day off u \<le> local_day off v)"

lemma local_day_near:
  assumes "clock_ok off"
  shows "u div day_ms - 1 \<le> local_day off u" and "local_day off u \<le> u div day_ms + 1"
    and "local_day off (n * day_ms) < n + 1" and "n - 1 \<le> local_day off (n * day_ms)"
proof -
  have b: "- 50400000 \<le> off v" "off v \<le> 50400000" for v using assms unfolding clock_ok_def abs_le_iff by (metis minus_le_iff)+
  have "(u - day_ms) div day_ms \<le> local_day off u" "local_day off u \<le> (u + day_ms) div day_ms"
    using b [of u] by (simp_all add: local_day_def zdiv_mono1)
  then show "u div day_ms - 1 \<le> local_day off u" "local_day off u \<le> u div day_ms + 1" by simp_all
  have "(n * day_ms + off (n * day_ms)) div day_ms = n + off (n * day_ms) div day_ms" by simp
  moreover have "- 1 \<le> off (n * day_ms) div day_ms"
    using b(1) [of "n * day_ms"] zdiv_mono1 [of "- day_ms" "off (n * day_ms)" day_ms] by simp
  moreover have "off (n * day_ms) div day_ms < 1"
    using b(2) [of "n * day_ms"] zdiv_mono1 [of "off (n * day_ms)" "day_ms - 1" day_ms] by simp
  ultimately show "local_day off (n * day_ms) < n + 1" "n - 1 \<le> local_day off (n * day_ms)"
    by (simp_all add: local_day_def)
qed

lemma day_div_bounds:
  "a * day_ms \<le> u \<Longrightarrow> a \<le> u div day_ms" "u < b * day_ms \<Longrightarrow> u div day_ms < b"
proof -
  show "a \<le> u div day_ms" if "a * day_ms \<le> u" using zdiv_mono1 [OF that, of day_ms] by simp
  show "u div day_ms < b" if "u < b * day_ms"
  proof -
    have "u \<le> (b - 1) * day_ms + (day_ms - 1)" using that by (simp add: algebra_simps)
    from zdiv_mono1 [OF this, of day_ms] have "u div day_ms \<le> ((b - 1) * day_ms + (day_ms - 1)) div day_ms" by simp
    moreover have "((b - 1) * day_ms + (day_ms - 1)) div day_ms = b - 1" by (subst div_mult_self3) simp_all
    ultimately show ?thesis by simp
  qed
qed

lemma zoned_midnight_first:
  assumes "clock_ok off" and "\<And>u. day_of u = iso_day (u + off u)"
    and "day_from_year 1000 \<le> n" and "n < day_from_year 9000"
  shows "\<exists>a. zoned_midnight day_of (iso_day (n * day_ms)) = Some a \<and> (\<forall>u. a \<le> u \<longleftrightarrow> n \<le> local_day off u)"
proof -
  have r: "day_from_year 100 + 10 \<le> n" "n + 10 < day_from_year 10000"
    using assms(3, 4) by (simp_all add: day_from_year_def)
  obtain y m d where c: "civil_of_day n = (y, m, d)" by (rule civil_of_day)
  have n: "plain_day n" using r by (simp add: plain_day_def)
  let ?lo = "(n - 1) * day_ms" and ?hi = "(n + 2) * day_ms" and ?L = "local_day off"
  have z: "zoned_midnight day_of (iso_day (n * day_ms)) = Some (midnight_search day_of (iso_day (n * day_ms)) ?lo ?hi)"
    using parse_iso_day [of "n * day_ms" y m d] utc_midnight_plain [OF n c, of "- 1"] utc_midnight_plain [OF n c, of 2] n c
    by (simp add: zoned_midnight_def)
  have mono: "u \<le> v \<Longrightarrow> ?L u \<le> ?L v" for u v using assms(1) by (simp add: clock_ok_def)
  have lo: "?L ?lo < n" using local_day_near(3) [OF assms(1), of "n - 1"] by simp
  have hi: "n \<le> ?L ?hi" using local_day_near(4) [OF assms(1), of "n + 2"] by simp
  let ?P = "\<lambda>k. n \<le> ?L (?lo + int k)"
  have "?lo \<le> ?hi" by simp
  then have "?lo + int (nat (?hi - ?lo)) = ?hi" by (simp only: int_nat_eq if_True diff_ge_0_iff_ge)
  then have ex: "?P (nat (?hi - ?lo))" using hi by (simp only:)
  define a where "a = ?lo + int (LEAST k. ?P k)"
  have "n \<le> ?L a" using LeastI [of ?P, OF ex] by (simp add: a_def)
  moreover have "?L u < n" if "u < a" for u
  proof (cases "?lo \<le> u")
    case True
    then have "nat (u - ?lo) < (LEAST k. ?P k)" using that by (simp add: a_def)
    then have "\<not> ?P (nat (u - ?lo))" by (rule not_less_Least)
    with True show ?thesis by simp
  next
    case False
    then show ?thesis using mono [of u ?lo] lo by simp
  qed
  ultimately have a: "a \<le> u \<longleftrightarrow> n \<le> ?L u" for u using mono [of a u] by (metis leD not_le_imp_less order.trans)
  have "day_of u < iso_day (n * day_ms) \<longleftrightarrow> u < a" if "?lo \<le> u" "u < ?hi" for u
  proof -
    have "n - 1 \<le> u div day_ms" "u div day_ms < n + 2"
      using that by (intro day_div_bounds, simp)+
    then have "n - 2 \<le> ?L u" "?L u \<le> n + 3" using local_day_near(1, 2) [OF assms(1), of u] by simp_all
    then have "plain_day ((u + off u) div day_ms)" using r by (simp add: plain_day_def local_day_def)
    then show ?thesis using iso_day_less [of "u + off u" "n * day_ms"] n assms(2) a [of u]
      by (simp add: local_day_def not_le [symmetric])
  qed
  moreover have "?lo \<le> a" "a \<le> ?hi" using a [of ?lo] a [of ?hi] lo hi by simp_all
  ultimately have "midnight_search day_of (iso_day (n * day_ms)) ?lo ?hi = a"
    by (intro midnight_search_least) simp_all
  with z a show ?thesis by auto
qed

section \<open>The bounds of a day\<close>

lemma condo_day_bounds_enclose:
  assumes "clock_ok off" and "\<And>u. day_of u = iso_day (u + off u)"
    and "utc_midnight 1000 1 2 \<le> t" and "t < utc_midnight 8999 1 1"
  shows "\<exists>a b. condo_day_bounds day_of t = Some (a, b) \<and> a \<le> t \<and> t < b \<and>
    (\<forall>u. a \<le> u \<and> u < b \<longleftrightarrow> local_day off u = local_day off t)"
proof -
  let ?n = "local_day off t"
  have "day_from_year 1000 + 1 \<le> t div day_ms" "t div day_ms < day_from_year 8999"
    using assms(3, 4) day_div_bounds [of "day_from_year 1000 + 1" t] day_div_bounds(2) [of t "day_from_year 8999"]
    by (simp_all add: utc_midnight_def full_year_def make_day_def days_before_month_def)
  then have n: "day_from_year 1000 \<le> ?n" "?n + 1 < day_from_year 9000"
    using local_day_near(1, 2) [OF assms(1), of t] by (simp_all add: day_from_year_def)
  have key: "day_of t = iso_day (?n * day_ms)"
    by (simp add: assms(2) iso_day_def local_day_def)
  have plain: "plain_day ?n" using n by (simp add: plain_day_def day_from_year_def)
  obtain y m d where c: "civil_of_day ?n = (y, m, d)" by (rule civil_of_day)
  have next_key: "add_days_to_key (day_of t) 1 = Some (iso_day ((?n + 1) * day_ms))"
    using parse_iso_day [of "?n * day_ms" y m d] utc_midnight_plain [OF plain c, of 1] plain c key
    by (simp add: add_days_to_key_def)
  obtain a where a: "zoned_midnight day_of (day_of t) = Some a" "\<And>u. a \<le> u \<longleftrightarrow> ?n \<le> local_day off u"
    using zoned_midnight_first [OF assms(1, 2) n(1)] n(2) key by auto
  obtain b where b: "zoned_midnight day_of (iso_day ((?n + 1) * day_ms)) = Some b" "\<And>u. b \<le> u \<longleftrightarrow> ?n + 1 \<le> local_day off u"
    using zoned_midnight_first [OF assms(1, 2), of "?n + 1"] n by auto
  have "condo_day_bounds day_of t = Some (a, b)"
    using a(1) b(1) next_key by (simp add: condo_day_bounds_def)
  moreover have "u < b \<longleftrightarrow> local_day off u \<le> ?n" for u using b(2) [of u] by linarith
  ultimately show ?thesis using a(2) by (intro exI [of _ a] exI [of _ b]) (auto simp: order.antisym)
qed

section \<open>Property\<close>

text \<open>
  C23. The two binary searches of the condo's day end and are right in every time zone whose local
  days do not run backwards: the bounds they give enclose the given time, and a time lies between
  them exactly when it falls on the same local day.
\<close>

theorem condo_day_found:
  assumes "clock_ok off" and "\<And>u. day_of u = iso_day (u + off u)"
    and "utc_midnight 1000 1 2 \<le> t" and "t < utc_midnight 8999 1 1"
  shows "\<exists>a b. condo_day_bounds day_of t = Some (a, b) \<and> a \<le> t \<and> t < b \<and>
    (\<forall>u. a \<le> u \<and> u < b \<longleftrightarrow> local_day off u = local_day off t)"
  using assms by (rule condo_day_bounds_enclose)

text \<open>Kuala Lumpur, eight hours ahead, at 17:00 UTC of 30 August 2026: the day is the 31st.\<close>

theorem condo_day_found_witness:
  "\<exists>a b. condo_day_bounds (\<lambda>u. iso_day (u + 28800000)) 1788109200000 = Some (a, b) \<and> a \<le> 1788109200000 \<and>
     (\<forall>u. a \<le> u \<and> u < b \<longleftrightarrow> (u + 28800000) div day_ms = 20696)"
proof -
  have clock: "clock_ok (\<lambda>_. 28800000)" by (simp add: clock_ok_def local_day_def zdiv_mono1)
  have "utc_midnight 1000 1 2 \<le> 1788109200000" "1788109200000 < utc_midnight 8999 1 1"
    by (simp_all add: utc_midnight_def full_year_def make_day_def day_from_year_def days_before_month_def is_leap_def)
  from condo_day_found [OF clock refl this] show ?thesis by (auto simp: local_day_def)
qed

end
