(* ===== verification/Visitor_Liveness.thy ===== *)
theory Visitor_Liveness
  imports Visitor_Properties Day_Bounds
begin

text \<open>
  What the desk brings about: a pass that is valid opens the gate, the end of the day closes the visits
  that are over; and what it does not: the list of those kept out stops nobody but holders of
  recurring passes.
\<close>

section \<open>Codes as typed\<close>

lemma wp_total: "wp m Q (\<lambda>_. False) s \<Longrightarrow> \<exists>x t. m s = (Inr x, t) \<and> Q x t"
  by (cases "m s"; cases "fst (m s)") (auto simp: wp_def)

lemma code_letter: "upper_char x \<in> set code_chars \<Longrightarrow> is_digit x \<or> is_letter x"
proof (cases "97 \<le> (of_char x :: nat) \<and> (of_char x :: nat) \<le> 122")
  case True
  then show ?thesis by (simp add: is_letter_def lower_char_def Let_def)
next
  case False
  have "list_all (\<lambda>x. is_digit x \<or> is_letter x) code_chars" by code_simp
  moreover assume "upper_char x \<in> set code_chars"
  ultimately show ?thesis using False by (auto simp: upper_char_def Let_def list_all_iff)
qed

lemma code_plain: "x \<in> set code_chars \<Longrightarrow> upper_char x = x \<and> \<not> is_space x"
proof -
  have "list_all (\<lambda>x. upper_char x = x \<and> \<not> is_space x) code_chars" by code_simp
  then show "x \<in> set code_chars \<Longrightarrow> upper_char x = x \<and> \<not> is_space x" by (simp add: list_all_iff)
qed

lemma typed_code:
  assumes "is_code c" and "to_upper (trim pass) = c"
  shows "normalize_pass pass = c"
proof -
  have len: "length (trim pass) = 6" using assms by (auto simp: is_code_def to_upper_def)
  have "is_digit x \<or> is_letter x" if "x \<in> set (trim pass)" for x
    using assms that by (intro code_letter) (auto simp: is_code_def to_upper_def)
  then have "list_all (\<lambda>c. is_digit c \<or> is_letter c) (trim pass)" by (simp add: list_all_iff)
  with len assms(2) show ?thesis by (auto simp: normalize_pass_def Let_def is_uuid_def)
qed

lemma trim_plain: "(\<And>x. x \<in> set t \<Longrightarrow> \<not> is_space x) \<Longrightarrow> trim t = t"
proof -
  assume a: "\<And>x. x \<in> set t \<Longrightarrow> \<not> is_space x"
  have "dropWhile is_space u = u" if "\<And>x. x \<in> set u \<Longrightarrow> \<not> is_space x" for u
    using that by (cases u) auto
  from this [OF a] this [of "rev t"] a show ?thesis by (simp add: trim_def)
qed

lemma split_none: "d \<notin> set t \<Longrightarrow> split_on d t = [t]"
  by (induction t) auto

lemma code_not_qr: "is_code c \<Longrightarrow> trim c = c \<and> parse_qr c = None \<and> \<not> is_visitor_id c"
proof -
  assume c: "is_code c"
  then have "trim c = c" using code_plain by (intro trim_plain) (auto simp: is_code_def)
  moreover from this have "parse_qr c = None" using split_none [OF code_no_colon [OF c]] by (simp add: parse_qr_def)
  ultimately show ?thesis using c by (simp add: is_visitor_id_def is_uuid_def is_code_def)
qed

lemma payload_not_code: "is_code c \<Longrightarrow> qr_payload condo i d \<noteq> c"
  using code_no_colon [of c] by (auto simp: qr_payload_def)

section \<open>A valid pass\<close>

lemma find_None_all: "(\<And>x. x \<in> set xs \<Longrightarrow> \<not> P x) \<Longrightarrow> find P xs = None"
  by (simp add: find_None_iff)

lemma find_only: "v \<in> set xs \<Longrightarrow> P v \<Longrightarrow> (\<And>w. w \<in> set xs \<Longrightarrow> P w \<Longrightarrow> w = v) \<Longrightarrow> find P xs = Some v"
proof (induction xs)
  case (Cons x xs)
  show ?case
  proof (cases "P x")
    case True
    then have "x = v" using Cons.prems(3) [of x] by simp
    with True show ?thesis by simp
  next
    case False
    then have "v \<in> set xs" using Cons.prems(1, 2) by auto
    then have "find P xs = Some v" by (rule Cons.IH [OF _ Cons.prems(2)]) (rule Cons.prems(3), simp)
    with False show ?thesis by simp
  qed
qed simp

text \<open>Looking up a code finds its visitor, also when lapsed passes have been marked.\<close>

lemma lookup_code:
  assumes inv: "visit_inv s" and v: "v \<in> set (vd_visitors s)" "vi_code v = Some c" "vi_condo v \<noteq> []"
    and h: "h v = v" "\<And>w. w \<in> set (vd_visitors s) \<Longrightarrow> vi_condo (h w) = vi_condo w \<and> vi_code (h w) = vi_code w \<and>
      vi_payload (h w) = vi_payload w \<and> vi_qr (h w) = vi_qr w"
  shows "lookup_pass (Some (vi_condo v)) c (map h (vd_visitors s)) = Some v"
proof -
  have ok: "pass_ok w" if "w \<in> set (vd_visitors s)" for w
    using inv that by (simp add: visit_inv_def visitor_ok_def)
  have c: "is_code c" using ok [OF v(1)] v(2) by (simp add: pass_ok_def)
  have "vi_payload w \<noteq> Some c \<and> vi_qr w \<noteq> Some c" if "w \<in> set (vd_visitors s)" for w
    using ok [OF that] payload_not_code [OF c] by (auto simp: pass_ok_def)
  then have "find (\<lambda>w. vi_payload w = Some c) (map h (vd_visitors s)) = None"
    "find (\<lambda>w. vi_qr w = Some c) (map h (vd_visitors s)) = None"
    using h(2) by (auto intro!: find_None_all)
  moreover have "find (\<lambda>w. Some (vi_condo w) = Some (vi_condo v) \<and> vi_code w = Some c) (map h (vd_visitors s)) = Some v"
  proof (rule find_only)
    show "v \<in> set (map h (vd_visitors s))" using v(1) h(1) by force
  next
    fix w assume "w \<in> set (map h (vd_visitors s))" and w: "Some (vi_condo w) = Some (vi_condo v) \<and> vi_code w = Some c"
    then obtain u where u: "u \<in> set (vd_visitors s)" "w = h u" by auto
    with w h(2) [OF u(1)] have "u = v" by (intro codes_apart(1) [OF inv v(1, 2)]) simp_all
    with u h(1) show "w = v" by simp
  qed (use v in simp)
  moreover have "truthy (Some (vi_condo v))" using v(3) by (simp add: truthy_def)
  ultimately show ?thesis using code_not_qr [OF c] by (simp add: lookup_pass_def)
qed

lemma wp_visit_audit:
  "(\<And>t. vd_visitors t = vd_visitors s \<Longrightarrow> vd_checkins t = vd_checkins s \<Longrightarrow> Q () t) \<Longrightarrow>
   wp (visit_audit condo unit u a resource i m) Q E s"
  by (simp add: visit_audit_def log_audit_def wp)

text \<open>
  C28. A pass that is valid opens the gate: a guard of the condo who types the access code of an
  approved visitor, in capitals or not and with blanks around it, before the pass lapses and, for an
  overnight stay, not before it begins, checks the visitor in. The check-in is open and the visitor is
  on site afterwards.
\<close>

theorem pass_opens_gate:
  assumes "visit_start s0" and "visit_step\<^sup>*\<^sup>* s0 s" and "v \<in> set (vd_visitors s)"
    and "vi_type v = PRE_REG" and "vi_status v = APPROVED" and "vi_expires v = Some x" and "ve_now e \<le> x"
    and "vi_overnight v \<Longrightarrow> vi_expected v \<le> ve_now e" and "vi_condo v \<noteq> []" and "some_role (grants_gate ()) g"
    and "vi_code v = Some (to_upper (trim pass))"
  shows "\<exists>c t w. visit_check_in e g (Some (vi_condo v)) pass d s = (Inr c, t) \<and> ci_visitor c = vi_id v \<and> ci_out c = None \<and>
    c \<in> set (vd_checkins t) \<and> find_visitor (vi_id v) t = Some w \<and> vi_status w = CHECKED_IN"
proof -
  have inv: "visit_inv s" using assms(1, 2) by (rule reached)
  then have "pass_ok v" using assms(3) by (simp add: visit_inv_def visitor_ok_def)
  then have code: "is_code (to_upper (trim pass))" using assms(11) by (simp add: pass_ok_def)
  let ?h = "\<lambda>v'. if in_scope (Some (vi_condo v)) v' \<and> is_stale (ve_now e) v'
    then v'\<lparr>vi_status := EXPIRED, vi_updated := ve_now e\<rparr> else v'"
  let ?s = "s\<lparr>vd_visitors := map ?h (vd_visitors s)\<rparr>"
  have stay: "?h v = v" using assms(5, 6, 7) by (simp add: is_stale_def before_def)
  have look: "lookup_pass (Some (vi_condo v)) (normalize_pass pass) (map ?h (vd_visitors s)) = Some v"
    unfolding typed_code [OF code refl] by (rule lookup_code [where h = ?h, OF inv assms(3, 11, 9) stay]) simp
  have found: "find_visitor (vi_id v) ?s = Some v"
  proof -
    have eq: "map vi_id (map ?h (vd_visitors s)) = map vi_id (vd_visitors s)" by simp
    have "distinct (map vi_id (vd_visitors s))" using inv by (simp add: visit_inv_def visit_ids_ok_def)
    then have "distinct (map vi_id (map ?h (vd_visitors s)))" unfolding eq .
    moreover have "v \<in> set (map ?h (vd_visitors s))" unfolding set_map
      by (rule image_eqI [of v ?h v]) (use stay assms(3) in \<open>simp_all only: not_False_eq_True\<close>)
    ultimately have "find_row vi_id (vi_id v) (map ?h (vd_visitors s)) = Some v" by (rule find_row_distinct)
    then show ?thesis by (simp add: find_visitor_def)
  qed
  let ?Q = "\<lambda>c t. ci_visitor c = vi_id v \<and> ci_out c = None \<and> c \<in> set (vd_checkins t) \<and>
    (\<exists>w. find_visitor (vi_id v) t = Some w \<and> vi_status w = CHECKED_IN)"
  let ?t = "moved_to e (vi_id v) (\<lambda>v. v\<lparr>vi_status := CHECKED_IN\<rparr>) ?s"
  have inside: "find_visitor (vi_id v) t = Some (v\<lparr>vi_status := CHECKED_IN, vi_updated := ve_now e\<rparr>)"
    if "vd_visitors t = vd_visitors ?t" for t
    using found that by (simp add: find_visitor_def moved_to_def find_row_set_row)
  have enter: "wp (bnd (set_status e (vi_id v) CHECKED_IN) (\<lambda>_. bnd (insert_check_in e (vi_id v) (user_id g) gate n) (\<lambda>c.
      bnd (visit_audit condo unit g AUDIT_CREATE ''VisitorCheckIn'' (ci_id c) Map.empty) (\<lambda>_. ret c)))) ?Q (\<lambda>_. False) ?s"
    for gate n condo unit
    unfolding wp_bnd wp_set_status wp_insert_check_in
    by (rule wp_visit_audit) (simp add: wp inside, simp add: entry_row_def)
  have ver: "verify_by_pass e pass (Some (vi_condo v)) s = (Inr v, ?s)"
  proof -
    have live: "vi_status v \<noteq> CANCELLED" "vi_status v \<noteq> EXPIRED" "\<not> (vi_overnight v \<and> vi_type v = PRE_REG \<and> vi_status v = APPROVED \<and> vi_expected v > ve_now e)"
      using assms(5, 8) by auto
    then have "checked_pass e v s' = (Inr v, s')" for s'
      unfolding checked_pass_def by (simp only: bnd_ensure if_True not_False_eq_True) (simp add: ret_def)
    then show ?thesis
      unfolding verify_by_pass_def expire_stale_def set_where_def by (simp only: bnd_modify bnd_gets) (simp add: look bnd_need)
  qed
  have late: "\<not> before (vi_expires v) (ve_now e)" using assms(6, 7) by (simp add: before_def)
  have "visit_check_in e g (Some (vi_condo v)) pass d s =
      bnd (txn (bnd (set_status e (vi_id v) CHECKED_IN) (\<lambda>_.
         bnd (insert_check_in e (vi_id v) (user_id g) (cn_gate d) (cn_notes d)) (\<lambda>c.
         bnd (visit_audit (vi_condo v) (vi_unit v) g AUDIT_CREATE ''VisitorCheckIn'' (ci_id c) Map.empty) (\<lambda>_. ret c)))))
       (\<lambda>c. bnd (emit_visit (VisitorCheckedIn (vi_id v) (vi_condo v))) (\<lambda>_. ret c)) ?s"
    unfolding visit_check_in_def assert_gate_operator_def guard_condo_def
    using assms(9, 10) by (simp add: runs truthy_def given_or_def bnd_Inr [of "verify_by_pass e pass (Some (vi_condo v))" s, OF ver] assms(4, 5) late)
  moreover have "wp (bnd (txn (bnd (set_status e (vi_id v) CHECKED_IN) (\<lambda>_.
         bnd (insert_check_in e (vi_id v) (user_id g) (cn_gate d) (cn_notes d)) (\<lambda>c.
         bnd (visit_audit (vi_condo v) (vi_unit v) g AUDIT_CREATE ''VisitorCheckIn'' (ci_id c) Map.empty) (\<lambda>_. ret c)))))
       (\<lambda>c. bnd (emit_visit (VisitorCheckedIn (vi_id v) (vi_condo v))) (\<lambda>_. ret c))) ?Q (\<lambda>_. False) ?s"
    unfolding wp_bnd [of "txn m" for m] wp_txn
    by (rule enter [THEN wp_mono]) (simp_all add: wp emit_visit_def find_visitor_def)
  ultimately have "wp (visit_check_in e g (Some (vi_condo v)) pass d) ?Q (\<lambda>_. False) s" by (simp add: wp_def)
  from wp_total [OF this] show ?thesis by blast
qed

lemma sample_issued_row:
  "map (\<lambda>v. (vi_id v, vi_condo v, vi_type v, vi_status v, vi_code v, vi_expires v, vi_overnight v)) (vd_visitors sample_issued) =
     [(''id0'', ''c'', PRE_REG, APPROVED, Some ''ABCDEF'', Some 10000000, False)]"
  by code_simp

theorem pass_opens_gate_witness:
  "\<exists>c t w. visit_check_in sample_visit_env sample_guard (Some ''c'') '' abcDEF '' \<lparr>cn_gate = None, cn_notes = None\<rparr> sample_issued = (Inr c, t) \<and>
     ci_visitor c = ''id0'' \<and> find_visitor ''id0'' t = Some w \<and> vi_status w = CHECKED_IN"
proof -
  obtain v where v: "v \<in> set (vd_visitors sample_issued)" "vi_id v = ''id0''" "vi_condo v = ''c''" "vi_type v = PRE_REG"
      "vi_status v = APPROVED" "vi_code v = Some ''ABCDEF''" "vi_expires v = Some 10000000" "\<not> vi_overnight v"
    using sample_issued_row by (auto simp: map_eq_Cons_conv)
  have "to_upper (trim '' abcDEF '') = ''ABCDEF''" "ve_now sample_visit_env \<le> 10000000" "some_role (grants_gate ()) sample_guard"
    by (code_simp, simp add: sample_visit_env_def, code_simp)
  with pass_opens_gate [OF sample_desk_start sample_runs(1) v(1, 4, 5, 7), of sample_visit_env sample_guard "'' abcDEF ''" "\<lparr>cn_gate = None, cn_notes = None\<rparr>"] v
  show ?thesis by auto
qed

section \<open>The end of the day\<close>

definition swept :: "visit_env \<Rightarrow> int \<Rightarrow> visitor \<times> check_in list \<Rightarrow> visitor" where
  "swept e day = (\<lambda>(v, cs). case cs of [] \<Rightarrow> v
     | c # _ \<Rightarrow> if auto_close_at v (ci_at c) day (ve_now e) = None then v
       else v\<lparr>vi_status := CHECKED_OUT, vi_updated := ve_now e\<rparr>)"

lemma wp_conj: "wp m Q E s \<Longrightarrow> wp m Q' E' s \<Longrightarrow> wp m (\<lambda>x t. Q x t \<and> Q' x t) (\<lambda>t. E t \<and> E' t) s"
  by (auto simp: wp_def split: prod.splits sum.splits)

lemma auto_close_one_row:
  assumes ok: "visit_ok s0 s" and w: "awaiting (x # xs) s"
  shows "wp (auto_close_one e condo day x) (\<lambda>_ t. (\<forall>j. j \<noteq> vi_id (fst x) \<longrightarrow> find_visitor j t = find_visitor j s) \<and>
    find_visitor (vi_id (fst x)) t = Some (swept e day x)) (\<lambda>_. False) s"
proof (cases x)
  case (Pair v cs)
  have x: "find_visitor (vi_id v) s = Some v" "cs = open_check_ins (vi_id v) s" using w by (auto simp: awaiting_def Pair)
  show ?thesis
  proof (cases cs)
    case Nil
    with x(1) show ?thesis by (simp add: auto_close_one_def Pair wp swept_def)
  next
    case (Cons c cs')
    then have c: "c \<in> set (open_check_ins (vi_id v) s)" using x(2) by (metis list.set_intros(1))
    have ids: "visit_ids_ok s" using ok by (simp add: visit_ok_def visit_inv_def)
    show ?thesis
    proof (cases "auto_close_at v (ci_at c) day (ve_now e)")
      case None
      with x(1) show ?thesis by (simp add: auto_close_one_def Pair Cons wp swept_def)
    next
      case (Some z)
      have "find_visitor (vi_id v) (closed_visit e (vi_id v) c z None s) = Some (v\<lparr>vi_status := CHECKED_OUT, vi_updated := ve_now e\<rparr>)"
        using x(1) by (simp add: closed_visit_def moved_to_def find_visitor_def find_row_set_row)
      then show ?thesis
        unfolding auto_close_one_def Pair Cons prod.case list.case Some option.case wp_close
        unfolding emit_visit_def wp_bnd wp_modify wp_ret
        using closed_visit_others(1) [OF ids c] by (simp add: emit_reads_others swept_def Some)
    qed
  qed
qed

lemma auto_close_rows:
  "awaiting xs s \<Longrightarrow> visit_ok s0 s \<Longrightarrow> wp (for_each xs (auto_close_one e condo day))
    (\<lambda>_ t. (\<forall>j. j \<notin> (vi_id \<circ> fst) ` set xs \<longrightarrow> find_visitor j t = find_visitor j s) \<and>
      (\<forall>x \<in> set xs. find_visitor (vi_id (fst x)) t = Some (swept e day x))) (\<lambda>_. False) s"
proof (induction xs arbitrary: s)
  case (Cons x xs)
  have first: "vi_id (fst x) \<notin> (vi_id \<circ> fst) ` set xs" using Cons.prems(1) by (simp add: awaiting_def)
  show ?case
    unfolding for_each.simps wp_bnd wp_ret
  proof (rule wp_mono [OF wp_conj [OF auto_close_one_ok [OF Cons.prems(2, 1)] auto_close_one_row [OF Cons.prems(2, 1)]]])
    fix y t
    assume t: "(visit_ok s0 t \<and> awaiting xs t) \<and> (\<forall>j. j \<noteq> vi_id (fst x) \<longrightarrow> find_visitor j t = find_visitor j s) \<and>
      find_visitor (vi_id (fst x)) t = Some (swept e day x)"
    show "wp (for_each xs (auto_close_one e condo day)) (\<lambda>_ u. (\<forall>j. j \<notin> (vi_id \<circ> fst) ` set (x # xs) \<longrightarrow> find_visitor j u = find_visitor j s) \<and>
        (\<forall>x \<in> set (x # xs). find_visitor (vi_id (fst x)) u = Some (swept e day x))) (\<lambda>_. False) t"
      by (rule wp_mono [OF Cons.IH]) (use t first in \<open>simp_all add: image_iff\<close>)
  qed simp
qed (simp add: wp)

lemma one_open: "on_site_ok s \<Longrightarrow> v \<in> set (vd_visitors s) \<Longrightarrow> vi_status v = CHECKED_IN \<Longrightarrow>
  \<exists>c \<in> set (vd_checkins s). open_at (vi_id v) c \<and> open_check_ins (vi_id v) s = [c]"
proof -
  assume "on_site_ok s" "v \<in> set (vd_visitors s)" "vi_status v = CHECKED_IN"
  then have "length (filter (open_at (vi_id v)) (vd_checkins s)) = 1" by (simp add: on_site_ok_def count_where_def)
  then obtain c where c: "filter (open_at (vi_id v)) (vd_checkins s) = [c]" by (auto simp: length_Suc_conv)
  moreover have "open_at (vi_id v) = (\<lambda>c. ci_visitor c = vi_id v \<and> ci_out c = None)" by (simp add: fun_eq_iff open_at_def)
  ultimately have "open_check_ins (vi_id v) s = [c]" by (simp add: open_check_ins_def)
  then show ?thesis using open_check_ins_mem [of c "vi_id v" s] by auto
qed

text \<open>
  C29. The sweep at the end of a condo's day returns and closes exactly the visits that are over: of
  the visitors on site, those whose check-in the rule of the day closes have left, the others are
  still there; a walk-in that came before the day began is never among the others.
\<close>

theorem sweep_closes_the_day:
  assumes "visit_start s0" and "visit_step\<^sup>*\<^sup>* s0 s"
    and "condo_day_bounds (ve_day e (timezone condo s)) (ve_now e) = Some (a, b)"
  shows "\<exists>n t. auto_close e condo s = (Inr n, t) \<and>
    (\<forall>v \<in> set (vd_visitors s). vi_condo v = condo \<longrightarrow> vi_status v = CHECKED_IN \<longrightarrow>
      (\<exists>c \<in> set (vd_checkins s). \<exists>w. ci_visitor c = vi_id v \<and> ci_out c = None \<and> find_visitor (vi_id v) t = Some w \<and>
        vi_status w = (if auto_close_at v (ci_at c) a (ve_now e) = None then CHECKED_IN else CHECKED_OUT) \<and>
        (is_walk_in v \<and> ci_at c < a \<longrightarrow> vi_status w = CHECKED_OUT)))"
proof -
  have inv: "visit_inv s" using assms(1, 2) by (rule reached)
  then have I: "visit_ids_ok s" "on_site_ok s" by (simp_all add: visit_inv_def)
  have "wp (auto_close e condo) (\<lambda>_ t. \<forall>x \<in> set (open_visits condo s). find_visitor (vi_id (fst x)) t = Some (swept e a x)) (\<lambda>_. False) s"
    unfolding auto_close_def day_bounds_def wp_bnd wp_gets wp_need assms(3) option.case prod.case wp_ret
    by (rule wp_mono [OF auto_close_rows [OF open_visits_awaiting [OF I(1)] visit_ok_refl [OF inv]]]) simp_all
  from wp_total [OF this] obtain n t where run: "auto_close e condo s = (Inr n, t)"
      and rows: "\<And>x. x \<in> set (open_visits condo s) \<Longrightarrow> find_visitor (vi_id (fst x)) t = Some (swept e a x)" by blast
  have "\<exists>c \<in> set (vd_checkins s). \<exists>w. ci_visitor c = vi_id v \<and> ci_out c = None \<and> find_visitor (vi_id v) t = Some w \<and>
      vi_status w = (if auto_close_at v (ci_at c) a (ve_now e) = None then CHECKED_IN else CHECKED_OUT) \<and>
      (is_walk_in v \<and> ci_at c < a \<longrightarrow> vi_status w = CHECKED_OUT)"
    if v: "v \<in> set (vd_visitors s)" "vi_condo v = condo" "vi_status v = CHECKED_IN" for v
  proof -
    obtain c where c: "c \<in> set (vd_checkins s)" "open_at (vi_id v) c" "open_check_ins (vi_id v) s = [c]"
      using one_open [OF I(2) v(1, 3)] by blast
    have "(v, [c]) \<in> set (open_visits condo s)" using v c(3) by (auto simp: open_visits_def image_iff)
    from rows [OF this] c v(3) show ?thesis
      by (intro bexI [of _ c]) (auto simp: swept_def open_at_def auto_close_at_def Let_def)
  qed
  with run show ?thesis by blast
qed

text \<open>A visitor to the office on the first of January 1970, and the sweep a day later.\<close>

definition sample_office :: visitor_db where
  "sample_office = snd (create_office_walk_in sample_visit_env sample_guard (Some ''c'')
     \<lparr>on_overnight = None, on_name = ''Ali'', on_phone = ''0123456789'', on_plate = None, on_purpose = ''Keys'', on_gate = None,
      on_notes = None\<rparr> sample_desk)"

definition next_day_env :: visit_env where
  "next_day_env = sample_visit_env\<lparr>ve_svc := \<lparr>now = 90000000, this_year = 1970\<rparr>, ve_day := (\<lambda>_ t. iso_day (t + 0))\<rparr>"

lemma sample_office_run: "visit_step\<^sup>*\<^sup>* sample_desk sample_office"
proof -
  have "visit_step sample_desk sample_office"
    unfolding sample_office_def by (rule step_office, rule prod.collapse [symmetric])
  then show ?thesis by (rule r_into_rtranclp [of visit_step])
qed

lemma sample_office_row:
  "map (\<lambda>v. (vi_id v, vi_condo v, vi_type v, vi_status v)) (vd_visitors sample_office) = [(''id0'', ''c'', WALKIN_OFFICE, CHECKED_IN)]"
  "map (\<lambda>c. (ci_visitor c, ci_at c)) (vd_checkins sample_office) = [(''id0'', 1000000)]"
  by code_simp+

theorem sweep_closes_the_day_witness:
  "\<exists>n t w. auto_close next_day_env ''c'' sample_office = (Inr n, t) \<and> find_visitor ''id0'' t = Some w \<and> vi_status w = CHECKED_OUT"
proof -
  have clock: "clock_ok (\<lambda>_. 0)" by (simp add: clock_ok_def local_day_def zdiv_mono1)
  have near: "utc_midnight 1000 1 2 \<le> 90000000" "90000000 < utc_midnight 8999 1 1"
    by (simp_all add: utc_midnight_def full_year_def make_day_def day_from_year_def days_before_month_def is_leap_def)
  obtain a b where ab: "condo_day_bounds (\<lambda>t. iso_day (t + 0)) 90000000 = Some (a, b)" "90000000 < b"
      "\<And>u. a \<le> u \<and> u < b \<longleftrightarrow> local_day (\<lambda>_. 0) u = local_day (\<lambda>_. 0) 90000000"
    using condo_day_bounds_enclose [OF clock refl near] by blast
  have "\<not> a \<le> 1000000" using ab(2) ab(3) [of 1000000] by (simp add: local_day_def)
  then have late: "1000000 < a" by simp
  have "condo_day_bounds (ve_day next_day_env (timezone ''c'' sample_office)) (ve_now next_day_env) = Some (a, b)"
    using ab(1) by (simp add: next_day_env_def)
  from sweep_closes_the_day [OF sample_desk_start sample_office_run this] obtain n t where
    t: "auto_close next_day_env ''c'' sample_office = (Inr n, t)" and
    rows: "\<And>v. v \<in> set (vd_visitors sample_office) \<Longrightarrow> vi_condo v = ''c'' \<Longrightarrow> vi_status v = CHECKED_IN \<Longrightarrow>
      \<exists>c \<in> set (vd_checkins sample_office). \<exists>w. find_visitor (vi_id v) t = Some w \<and>
        (is_walk_in v \<and> ci_at c < a \<longrightarrow> vi_status w = CHECKED_OUT)" by blast
  obtain v where v: "v \<in> set (vd_visitors sample_office)" "vi_id v = ''id0''" "vi_condo v = ''c''" "vi_type v = WALKIN_OFFICE"
      "vi_status v = CHECKED_IN"
    using sample_office_row(1) by (auto simp: map_eq_Cons_conv)
  have "ci_at c = 1000000" if "c \<in> set (vd_checkins sample_office)" for c
    using sample_office_row(2) that by (auto simp: map_eq_Cons_conv)
  then show ?thesis using rows [OF v(1, 3, 5)] v(2, 4) t late by (auto simp: is_walk_in_def)
qed

section \<open>Those kept out\<close>

text \<open>A call that behaves the same whoever is on the list.\<close>

definition blind :: "(visitor_db, 'a) act \<Rightarrow> bool" where
  "blind m \<longleftrightarrow> (\<forall>s bs. m (s\<lparr>vd_blacklist := bs\<rparr>) = (fst (m s), (snd (m s))\<lparr>vd_blacklist := bs\<rparr>))"

named_theorems blinds "calls that do not look at the list of those kept out"

lemma blind_basic [blinds]:
  "blind (ret x)" "blind (throw err)" "blind (ensure c err)" "blind (need y err)"
  by (simp_all add: blind_def act_defs split: option.split)

lemma blind_gets [blinds]: "(\<And>s bs. f (s\<lparr>vd_blacklist := bs\<rparr>) = f s) \<Longrightarrow> blind (gets f)"
  by (simp add: blind_def gets_def)

lemma blind_modify [blinds]: "(\<And>s bs. f (s\<lparr>vd_blacklist := bs\<rparr>) = (f s)\<lparr>vd_blacklist := bs\<rparr>) \<Longrightarrow> blind (modify f)"
  by (simp add: blind_def modify_def)

lemma blind_bnd [blinds]: "blind m \<Longrightarrow> (\<And>x. blind (f x)) \<Longrightarrow> blind (bnd m f)"
  by (auto simp: blind_def bnd_def split: prod.split sum.split)

lemma blind_txn [blinds]: "blind m \<Longrightarrow> blind (txn m)"
  by (auto simp: blind_def txn_def split: prod.split sum.split)

lemma blind_branches [blinds]:
  "blind m \<Longrightarrow> blind n \<Longrightarrow> blind (if c then m else n)"
  "blind m \<Longrightarrow> (\<And>v. blind (k v)) \<Longrightarrow> blind (case x of None \<Rightarrow> m | Some v \<Rightarrow> k v)"
  "(\<And>a b. blind (h a b)) \<Longrightarrow> blind (case p of (a, b) \<Rightarrow> h a b)"
  by (simp_all split: option.split prod.split)

lemma blind_only_if [blinds]: "blind m \<Longrightarrow> blind (only_if c m)"
  by (simp add: only_if_def blind_basic)

lemma blind_part [blinds]: "blind (visit_access m)"
  by (simp add: blind_def on_part_def split: prod.split)

lemma blind_codes [blinds]: "(\<And>code. blind (f code)) \<Longrightarrow> blind (try_codes n draw f)"
proof (induction n arbitrary: draw)
  case (Suc n)
  show ?case using Suc.prems [of "access_code draw"] Suc.IH [OF Suc.prems, of "\<lambda>k. draw (k + 6)"]
    by (auto simp: blind_def split: prod.split sum.split)
qed (simp add: blind_basic)

lemma blind_counts [simp]:
  "contact_of (s\<lparr>vd_blacklist := bs\<rparr>) = contact_of s"
  "month_overnight u period x (s\<lparr>vd_blacklist := bs\<rparr>) = month_overnight u period x s"
  "suspend_policy n u (s\<lparr>vd_blacklist := bs\<rparr>) = suspend_policy n u s"
  by (simp_all add: contact_of_def fun_eq_iff month_overnight_def suspend_policy_def)

lemma blind_reads [simp]:
  "vdb (s\<lparr>vd_blacklist := bs\<rparr>) = vdb s" "find_condo c (s\<lparr>vd_blacklist := bs\<rparr>) = find_condo c s"
  "find_unit u (s\<lparr>vd_blacklist := bs\<rparr>) = find_unit u s" "find_visitor i (s\<lparr>vd_blacklist := bs\<rparr>) = find_visitor i s"
  "condo_json c (s\<lparr>vd_blacklist := bs\<rparr>) = condo_json c s" "code_taken c k (s\<lparr>vd_blacklist := bs\<rparr>) = code_taken c k s"
  "open_check_ins i (s\<lparr>vd_blacklist := bs\<rparr>) = open_check_ins i s" "owner_contacts u (s\<lparr>vd_blacklist := bs\<rparr>) = owner_contacts u s"
  "check_eligibility e u x (s\<lparr>vd_blacklist := bs\<rparr>) = check_eligibility e u x s"
  "overnight_slots_taken e c t (s\<lparr>vd_blacklist := bs\<rparr>) = overnight_slots_taken e c t s"
  by (simp_all add: vdb_def find_condo_def find_unit_def find_visitor_def condo_json_def code_taken_def open_check_ins_def
      owner_contacts_def active_owners_def check_eligibility_def overnight_slots_taken_def split: option.split)

lemmas call_parts = phone_field_def assert_no_clash_def insert_visitor_def set_visitor_def set_status_def read_visitor_def
  write_pass_def insert_check_in_def visit_audit_def emit_visit_def assert_code_free_def assert_gate_operator_def
  guard_condo_def expire_stale_def checked_pass_def verify_by_pass_def validate_overnight_def validate_pre_reg_def
  overnight_result_def insert_with_pass_def issue_pass_def with_unique_code_def with_contacts_def reject_walk_in_overnight_def
  admit_walk_in_def

lemma calls_blind:
  "blind (create_visitor e u vn)" "blind (create_delivery_pass e u qn)" "blind (create_walk_in e u active wn)"
  "blind (create_office_walk_in e u active on)" "blind (visit_check_in e u active pass cn)"
  unfolding create_visitor_def create_delivery_pass_def create_walk_in_def create_office_walk_in_def visit_check_in_def
    call_parts Let_def
  by (intro blinds; simp)+

text \<open>
  C30. The list of those a condo keeps out stops no registration and no entry but that of a recurring
  pass: pre-registration, quick-entry pass, walk-in, visit to the office and check-in at the gate
  have the same outcome whatever entries the list has.
\<close>

theorem gate_ignores_blacklist:
  "fst (create_visitor e u vn (s\<lparr>vd_blacklist := bs\<rparr>)) = fst (create_visitor e u vn s) \<and>
   fst (create_delivery_pass e u qn (s\<lparr>vd_blacklist := bs\<rparr>)) = fst (create_delivery_pass e u qn s) \<and>
   fst (create_walk_in e u active wn (s\<lparr>vd_blacklist := bs\<rparr>)) = fst (create_walk_in e u active wn s) \<and>
   fst (create_office_walk_in e u active on (s\<lparr>vd_blacklist := bs\<rparr>)) = fst (create_office_walk_in e u active on s) \<and>
   fst (visit_check_in e u active pass cn (s\<lparr>vd_blacklist := bs\<rparr>)) = fst (visit_check_in e u active pass cn s)"
  using calls_blind unfolding blind_def by (metis fst_conv)

end
