(* ===== verification/Form_Reach.thy ===== *)
theory Form_Reach
  imports Form_Desk Visitor_Liveness
begin

text \<open>
  The states that the forms and the visitor services reach together: the life of a submission, the
  invariant of the tables, and that every call of the forms service keeps it.
\<close>

section \<open>The life of a submission\<close>

inductive form_move :: "form_status \<Rightarrow> form_status \<Rightarrow> bool" where
  form_submitted: "form_move FORM_DRAFT FORM_SUBMITTED"
| draft_cancelled: "form_move FORM_DRAFT FORM_CANCELLED"
| form_cancelled: "form_move FORM_SUBMITTED FORM_CANCELLED"
| form_approved: "form_move FORM_SUBMITTED FORM_APPROVED"
| form_rejected: "form_move FORM_SUBMITTED FORM_REJECTED"

inductive_cases form_moveE: "form_move a b"

definition is_decided :: "form_status \<Rightarrow> bool" where
  "is_decided st \<longleftrightarrow> st \<in> {FORM_APPROVED, FORM_REJECTED, FORM_CANCELLED}"

text \<open>A row and the same row later.\<close>

definition sub_kept :: "submission \<Rightarrow> submission \<Rightarrow> bool" where
  "sub_kept r r' \<longleftrightarrow>
     sb_id r' = sb_id r \<and> sb_template r' = sb_template r \<and> sb_condo r' = sb_condo r \<and> sb_unit r' = sb_unit r \<and>
     sb_user r' = sb_user r \<and> form_move\<^sup>*\<^sup>* (sb_status r) (sb_status r') \<and>
     (sb_status r \<noteq> FORM_DRAFT \<longrightarrow> sb_answers r' = sb_answers r \<and> sb_submitted r' = sb_submitted r) \<and>
     (is_decided (sb_status r) \<longrightarrow> r' = r)"

definition subs_kept :: "submission list \<Rightarrow> submission list \<Rightarrow> bool" where
  "subs_kept rs rs' \<longleftrightarrow> (\<exists>h ns. rs' = map h rs @ ns \<and> (\<forall>r \<in> set rs. sub_kept r (h r)))"

lemma no_draft_again: "form_move\<^sup>*\<^sup>* a b \<Longrightarrow> a \<noteq> FORM_DRAFT \<Longrightarrow> b \<noteq> FORM_DRAFT"
  by (induction b rule: rtranclp_induct) (auto elim: form_moveE)

lemma sub_kept_refl [simp]: "sub_kept r r"
  by (simp add: sub_kept_def)

lemma sub_kept_trans: "sub_kept p q \<Longrightarrow> sub_kept q r \<Longrightarrow> sub_kept p r"
  unfolding sub_kept_def using no_draft_again by (metis rtranclp_trans)

lemma subs_kept_refl [simp]: "subs_kept rs rs"
  unfolding subs_kept_def by (rule exI [of _ "\<lambda>r. r"], rule exI [of _ "[]"]) simp

lemma subs_kept_trans:
  assumes "subs_kept ps qs" and "subs_kept qs rs"
  shows "subs_kept ps rs"
proof -
  obtain h ns where h: "qs = map h ps @ ns" "\<And>r. r \<in> set ps \<Longrightarrow> sub_kept r (h r)" using assms(1) by (auto simp: subs_kept_def)
  obtain k ms where k: "rs = map k qs @ ms" "\<And>r. r \<in> set qs \<Longrightarrow> sub_kept r (k r)" using assms(2) by (auto simp: subs_kept_def)
  have "rs = map (k \<circ> h) ps @ (map k ns @ ms)" by (simp add: h(1) k(1))
  moreover have "sub_kept r ((k \<circ> h) r)" if "r \<in> set ps" for r
    using h(2) [OF that] k(2) [of "h r"] that by (auto simp: h(1) intro: sub_kept_trans)
  ultimately show ?thesis unfolding subs_kept_def by blast
qed

section \<open>The invariant\<close>

text \<open>
  Only an approved submission has a code, and with it a payload that names the row; without a code
  there is no window. What was decided names who decided.
\<close>

definition submission_ok :: "submission \<Rightarrow> bool" where
  "submission_ok r \<longleftrightarrow>
     sb_payload r = map_option (qr_payload (sb_condo r) (sb_id r)) (sb_code r) \<and>
     (case sb_code r of None \<Rightarrow> sb_from r = None \<and> sb_until r = None | Some c \<Rightarrow> is_code c \<and> sb_status r = FORM_APPROVED) \<and>
     (sb_reviewer r \<noteq> None \<longleftrightarrow> sb_status r \<in> {FORM_APPROVED, FORM_REJECTED}) \<and>
     (sb_status r \<in> {FORM_SUBMITTED, FORM_APPROVED, FORM_REJECTED} \<longrightarrow> sb_submitted r \<noteq> None)"

text \<open>The ids that have been given out.\<close>

definition drawn :: "visitor_db \<Rightarrow> string set" where
  "drawn v = uuids (vdb v) ` {..<next_uuid (vdb v)}"

lemma drawn_grow: "id_grow (vdb v) (vdb w) \<Longrightarrow> i \<in> drawn v \<Longrightarrow> i \<in> drawn w"
  using id_grow_ids unfolding drawn_def by blast

lemma fresh_drawn: "visit_inv v \<Longrightarrow> fresh v \<notin> drawn v \<and> fresh v \<in> drawn (bump v)"
  by (auto simp: visit_inv_def visit_ids_ok_def inj_def fresh_def drawn_def)

definition form_ids_ok :: "forms_db \<Rightarrow> bool" where
  "form_ids_ok s \<longleftrightarrow> distinct (map sb_id (fo_rows s)) \<and> distinct (map tm_id (fo_templates s)) \<and>
     sb_id ` set (fo_rows s) \<union> tm_id ` set (fo_templates s) \<subseteq> drawn (fo_visits s)"

definition has_template :: "form_template list \<Rightarrow> submission \<Rightarrow> bool" where
  "has_template ts r \<longleftrightarrow> (\<exists>t \<in> set ts. tm_id t = sb_template r \<and> tm_condo t = sb_condo r)"

definition forms_inv :: "forms_db \<Rightarrow> bool" where
  "forms_inv s \<longleftrightarrow> visit_inv (fo_visits s) \<and> vd_forms (fo_visits s) = form_codes (fo_rows s) \<and> form_ids_ok s \<and>
     (\<forall>r \<in> set (fo_rows s). submission_ok r \<and> has_template (fo_templates s) r)"

definition forms_ok :: "forms_db \<Rightarrow> forms_db \<Rightarrow> bool" where
  "forms_ok s0 s \<longleftrightarrow> forms_inv s \<and> subs_kept (fo_rows s0) (fo_rows s)"

lemma forms_ok_refl: "forms_inv s \<Longrightarrow> forms_ok s s"
  by (simp add: forms_ok_def)

lemma forms_ok_next: "forms_ok s0 s \<Longrightarrow> forms_inv t \<Longrightarrow> subs_kept (fo_rows s) (fo_rows t) \<Longrightarrow> forms_ok s0 t"
  unfolding forms_ok_def by (blast intro: subs_kept_trans)

lemma forms_okD: "forms_ok s0 s \<Longrightarrow> forms_inv s"
  by (simp add: forms_ok_def)

text \<open>Changes of the visitor tables that leave the codes of the forms alone.\<close>

lemma form_ids_grow:
  assumes "form_ids_ok s" and "id_grow (vdb (fo_visits s)) (vdb v)"
  shows "form_ids_ok (s\<lparr>fo_visits := v\<rparr>)"
  using assms drawn_grow [OF assms(2)] by (auto simp: form_ids_ok_def)

lemma ok_visits:
  assumes ok: "forms_ok s0 s" and v: "visit_ok (fo_visits s) v" "vd_forms v = vd_forms (fo_visits s)"
  shows "forms_ok s0 (s\<lparr>fo_visits := v\<rparr>)"
proof (rule forms_ok_next [OF ok])
  have "form_ids_ok (s\<lparr>fo_visits := v\<rparr>)"
    using forms_okD [OF ok] v(1) by (intro form_ids_grow) (simp_all add: forms_inv_def visit_ok_def)
  then show "forms_inv (s\<lparr>fo_visits := v\<rparr>)" using forms_okD [OF ok] v by (simp add: forms_inv_def visit_ok_def)
qed simp

lemma ok_framed:
  assumes "\<And>v. preserves (visit_frame v) m"
  shows "preserves (forms_ok s0) (on_visits m)"
proof (rule preservesI)
  fix s assume ok: "forms_ok s0 s"
  have f: "visit_frame (fo_visits s) (snd (m (fo_visits s)))" using preserves_snd [OF assms frame_refl] .
  have "visit_ok (fo_visits s) (snd (m (fo_visits s)))"
    using f visit_ok_refl forms_okD [OF ok] by (intro frame_visit_ok [OF f]) (simp add: forms_inv_def)
  then have "forms_ok s0 (s\<lparr>fo_visits := snd (m (fo_visits s))\<rparr>)"
    using f by (intro ok_visits [OF ok]) (simp_all add: visit_frame_def)
  then show "forms_ok s0 (snd (on_visits m s))" by (cases "m (fo_visits s)") (simp add: on_part_def)
qed

lemma forms_shared [pres]:
  "preserves (forms_ok s0) (form_audit condo unit u a resource i m)" "preserves (forms_ok s0) (emit_form v)"
  "preserves (forms_ok s0) (emit_update r)"
proof -
  show emit: "preserves (forms_ok s0) (emit_form v)" for v
    unfolding emit_form_def
  proof (rule preserves_modify)
    fix s assume "forms_ok s0 s"
    then show "forms_ok s0 (s\<lparr>fo_events := fo_events s @ [v]\<rparr>)"
      by (rule forms_ok_next) (use \<open>forms_ok s0 s\<close> in \<open>simp_all add: forms_ok_def forms_inv_def form_ids_ok_def\<close>)
  qed
  show "preserves (forms_ok s0) (emit_update r)" unfolding emit_update_def by (rule emit)
  show "preserves (forms_ok s0) (form_audit condo unit u a resource i m)"
    unfolding form_audit_def by (rule ok_framed) (rule pres)
qed

lemma form_guards_read [reads]:
  "reads_only (assert_form_member u condo)" "reads_only (assert_form_management u condo)"
  "reads_only (assert_files_for_unit u unit condo)" "reads_only (parse_fields fs)" "reads_only (with_template i)"
  "reads_only (read_submission i)" "reads_only (read_template i)" "reads_only (get_submission u i)"
  "reads_only (check_answer num f v)"
  unfolding assert_form_member_def assert_form_management_def assert_files_for_unit_def parse_fields_def with_template_def
    read_submission_def read_template_def get_submission_def check_answer_def
  by (intro reads)+

lemma check_fields_read: "reads_only (check_fields seen fs)"
  by (induction seen fs rule: check_fields.induct) (auto intro!: reads)

lemma validate_answers_read [reads]: "reads_only (validate_answers num fs a)"
  by (induction num fs a rule: validate_answers.induct) (auto intro!: reads)

lemma validate_fields_read [reads]: "reads_only (validate_fields fs)"
  unfolding validate_fields_def by (intro reads check_fields_read)

lemmas forms_reads_ok [pres] = form_guards_read [THEN reads_preserves] validate_answers_read [THEN reads_preserves]
  validate_fields_read [THEN reads_preserves]

lemma wp_form_id:
  "wp (on_visits (visit_base new_id)) Q E s = Q (fresh (fo_visits s)) (s\<lparr>fo_visits := bump (fo_visits s)\<rparr>)"
  unfolding wp_on_part [of fo_visits fo_visits_update "visit_base new_id"] wp_fresh ..

section \<open>Templates\<close>

lemma templates_inv:
  assumes ok: "forms_ok s0 s" and v: "visit_frame (fo_visits s) v"
    and ts: "distinct (map tm_id ts)" "tm_id ` set ts \<subseteq> drawn v"
    and r: "\<And>r. r \<in> set (fo_rows s) \<Longrightarrow> has_template ts r"
  shows "forms_ok s0 (s\<lparr>fo_visits := v, fo_templates := ts\<rparr>)" (is "forms_ok s0 ?t")
proof (rule forms_ok_next [OF ok])
  have inv: "forms_inv s" using ok by (rule forms_okD)
  have g: "id_grow (vdb (fo_visits s)) (vdb v)" and "visit_inv v" "vd_forms v = vd_forms (fo_visits s)"
    using v inv frame_visit_inv [OF v] by (simp_all add: visit_frame_def forms_inv_def)
  moreover have "form_ids_ok ?t"
    using inv drawn_grow [OF g] ts by (auto simp: forms_inv_def form_ids_ok_def)
  ultimately show "forms_inv ?t" using inv r by (simp add: forms_inv_def)
qed simp

lemma insert_template_ok [pres]:
  assumes mk: "\<And>i. tm_id (mk i) = i"
  shows "preserves (forms_ok s0) (insert_template mk)"
proof (rule preservesW)
  fix s assume ok: "forms_ok s0 s"
  have inv: "forms_inv s" using ok by (rule forms_okD)
  let ?v = "fo_visits s"
  have new: "fresh ?v \<notin> drawn ?v" "fresh ?v \<in> drawn (bump ?v)" using inv fresh_drawn [of ?v] by (simp_all add: forms_inv_def)
  have grow: "id_grow (vdb ?v) (vdb (bump ?v))" using frame_bump by (simp add: visit_frame_def)
  have "forms_ok s0 (s\<lparr>fo_visits := bump ?v, fo_templates := add_row (mk (fresh ?v)) (fo_templates s)\<rparr>)"
  proof (rule templates_inv [OF ok frame_bump])
    show "distinct (map tm_id (add_row (mk (fresh ?v)) (fo_templates s)))"
      using inv new(1) by (auto simp: add_row_def mk forms_inv_def form_ids_ok_def)
    show "tm_id ` set (add_row (mk (fresh ?v)) (fo_templates s)) \<subseteq> drawn (bump ?v)"
      using inv new(2) drawn_grow [OF grow] by (auto simp: add_row_def mk forms_inv_def form_ids_ok_def)
    show "has_template (add_row (mk (fresh ?v)) (fo_templates s)) r" if "r \<in> set (fo_rows s)" for r
      using inv that by (auto simp: add_row_def forms_inv_def has_template_def)
  qed
  then show "holds (insert_template mk) (forms_ok s0) s"
    unfolding insert_template_def wp_bnd wp_form_id by (simp add: wp)
qed

lemma set_template_ok [pres]:
  assumes f: "\<And>t. tm_id (f t) = tm_id t \<and> tm_condo (f t) = tm_condo t"
  shows "preserves (forms_ok s0) (set_template i f)"
  unfolding set_template_def
proof (rule preserves_modify)
  fix s assume ok: "forms_ok s0 s"
  have inv: "forms_inv s" using ok by (rule forms_okD)
  have ids: "map tm_id (set_row tm_id i f (fo_templates s)) = map tm_id (fo_templates s)"
    unfolding set_row_def by (rule map_key_set_where) (simp add: f)
  have "forms_ok s0 (s\<lparr>fo_visits := fo_visits s, fo_templates := set_row tm_id i f (fo_templates s)\<rparr>)"
  proof (rule templates_inv [OF ok frame_refl])
    show "distinct (map tm_id (set_row tm_id i f (fo_templates s)))" using inv by (simp add: ids forms_inv_def form_ids_ok_def)
    show "tm_id ` set (set_row tm_id i f (fo_templates s)) \<subseteq> drawn (fo_visits s)"
      using inv arg_cong [OF ids, of set] by (simp add: forms_inv_def form_ids_ok_def)
    show "has_template (set_row tm_id i f (fo_templates s)) r" if "r \<in> set (fo_rows s)" for r
    proof -
      obtain t where "t \<in> set (fo_templates s)" "tm_id t = sb_template r" "tm_condo t = sb_condo r"
        using inv \<open>r \<in> set (fo_rows s)\<close> by (auto simp: forms_inv_def has_template_def)
      then show ?thesis using f by (intro bexI [of _ "if tm_id t = i then f t else t"] has_template_def [THEN iffD2])
          (auto simp: set_row_def set_where_def)
    qed
  qed
  then show "forms_ok s0 (s\<lparr>fo_templates := set_row tm_id i f (fo_templates s)\<rparr>)" by simp
qed

lemma create_template_ok: "preserves (forms_ok s0) (create_template u d)"
  unfolding create_template_def by (intro pres) simp

lemma update_template_ok: "preserves (forms_ok s0) (update_template u i d)"
  unfolding update_template_def by (intro pres) (simp_all add: patched_template_def)

lemma ensure_defaults_ok [pres]: "preserves (forms_ok s0) (ensure_default_templates condo)"
  unfolding ensure_default_templates_def by (intro pres) (simp add: seeded_template_def split: prod.split)

lemma list_templates_ok: "preserves (forms_ok s0) (list_templates u condo inactive limit offset)"
  unfolding list_templates_def by (intro pres)

lemma delete_template_ok: "preserves (forms_ok s0) (delete_template u i)"
proof (rule preservesW)
  fix s assume ok: "forms_ok s0 s"
  have inv: "forms_inv s" using ok by (rule forms_okD)
  have drop: "forms_ok s0 (s\<lparr>fo_templates := filter (\<lambda>t. tm_id t \<noteq> i) (fo_templates s)\<rparr>)"
    if unused: "\<not> list_ex (\<lambda>r. sb_template r = i) (fo_rows s)"
  proof -
    have "forms_ok s0 (s\<lparr>fo_visits := fo_visits s, fo_templates := filter (\<lambda>t. tm_id t \<noteq> i) (fo_templates s)\<rparr>)"
    proof (rule templates_inv [OF ok frame_refl])
      show "distinct (map tm_id (filter (\<lambda>t. tm_id t \<noteq> i) (fo_templates s)))"
        using inv by (simp add: forms_inv_def form_ids_ok_def distinct_map inj_on_def)
      show "tm_id ` set (filter (\<lambda>t. tm_id t \<noteq> i) (fo_templates s)) \<subseteq> drawn (fo_visits s)"
        using inv by (auto simp: forms_inv_def form_ids_ok_def)
      show "has_template (filter (\<lambda>t. tm_id t \<noteq> i) (fo_templates s)) r" if r: "r \<in> set (fo_rows s)" for r
      proof -
        have "sb_template r \<noteq> i" using unused r by (auto simp: list_ex_iff)
        moreover have "has_template (fo_templates s) r" using inv r by (simp add: forms_inv_def)
        ultimately show ?thesis by (auto simp: has_template_def)
      qed
    qed
    then show ?thesis by simp
  qed
  show "holds (delete_template u i) (forms_ok s0) s"
    unfolding delete_template_def
  proof (rule guard_gets, rule guard_need, rule ok, rule guard_reads, rule ok, rule reads)
    fix t
    show "holds (bnd (gets (\<lambda>s. list_ex (\<lambda>r. sb_template r = i) (fo_rows s))) (\<lambda>used.
     if used then
       bnd (set_template i (\<lambda>t. t\<lparr>tm_active := False\<rparr>)) (\<lambda>_.
       bnd (read_template i) (\<lambda>t'.
       bnd (form_audit (tm_condo t) None u AUDIT_UPDATE ''FormTemplate'' i [''deactivated'' \<mapsto> JBool True]) (\<lambda>_.
       ret (Some t'))))
     else
       bnd (modify (\<lambda>s. s\<lparr>fo_templates := filter (\<lambda>t. tm_id t \<noteq> i) (fo_templates s)\<rparr>)) (\<lambda>_.
       bnd (form_audit (tm_condo t) None u AUDIT_DELETE ''FormTemplate'' i Map.empty) (\<lambda>_.
       ret None)))) (forms_ok s0) s"
    proof (rule guard_gets, rule guard_if)
      assume "\<not> list_ex (\<lambda>r. sb_template r = i) (fo_rows s)"
      then show "holds (bnd (modify (\<lambda>s. s\<lparr>fo_templates := filter (\<lambda>t. tm_id t \<noteq> i) (fo_templates s)\<rparr>)) (\<lambda>_.
          bnd (form_audit (tm_condo t) None u AUDIT_DELETE ''FormTemplate'' i Map.empty) (\<lambda>_. ret None))) (forms_ok s0) s"
        unfolding wp_bnd [of "modify _"] wp_modify by (intro guard_done pres drop)
    qed (rule guard_done, intro pres, simp, rule ok)
  qed
qed

section \<open>Submissions\<close>

lemma visit_inv_forms:
  "visit_inv v \<Longrightarrow> distinct (given_codes (v\<lparr>vd_forms := fs\<rparr>)) \<Longrightarrow> visit_inv (v\<lparr>vd_forms := fs\<rparr>)"
  by (simp add: visit_inv_def visit_ids_ok_def on_site_ok_def)

lemma drawn_forms [simp]: "drawn (v\<lparr>vd_forms := fs\<rparr>) = drawn v"
  by (simp add: drawn_def)

lemma rows_inv:
  assumes ok: "forms_ok s0 s" and v: "visit_frame (fo_visits s) v"
    and ids: "distinct (map sb_id rows)" "sb_id ` set rows \<subseteq> drawn v"
    and rows: "\<And>r. r \<in> set rows \<Longrightarrow> submission_ok r \<and> has_template (fo_templates s) r"
    and codes: "distinct (given_codes (v\<lparr>vd_forms := form_codes rows\<rparr>))" and kept: "subs_kept (fo_rows s) rows"
  shows "forms_ok s0 (with_rows rows (s\<lparr>fo_visits := v\<rparr>))" (is "forms_ok s0 ?t")
proof (rule forms_ok_next [OF ok])
  have inv: "forms_inv s" using ok by (rule forms_okD)
  then have "visit_inv v" using frame_visit_inv [OF v] by (simp add: forms_inv_def)
  moreover have "id_grow (vdb (fo_visits s)) (vdb v)" using v by (simp add: visit_frame_def)
  then have "form_ids_ok ?t" using inv ids drawn_grow by (auto simp: forms_inv_def form_ids_ok_def with_rows_def)
  ultimately show "forms_inv ?t" using rows codes visit_inv_forms by (simp add: forms_inv_def with_rows_def)
  show "subs_kept (fo_rows s) (fo_rows ?t)" using kept by (simp add: with_rows_def)
qed

lemma insert_submission_ok:
  assumes ok: "forms_ok s0 s"
    and mk: "\<And>i. sb_id (mk i) = i \<and> sb_code (mk i) = None \<and> submission_ok (mk i) \<and> has_template (fo_templates s) (mk i)"
  shows "holds (insert_submission mk) (forms_ok s0) s"
proof -
  have inv: "forms_inv s" using ok by (rule forms_okD)
  let ?v = "fo_visits s" and ?rows = "add_row (mk (fresh (fo_visits s))) (fo_rows s)"
  have new: "fresh ?v \<notin> drawn ?v" "fresh ?v \<in> drawn (bump ?v)" using inv fresh_drawn [of ?v] by (simp_all add: forms_inv_def)
  have grow: "id_grow (vdb ?v) (vdb (bump ?v))" using frame_bump by (simp add: visit_frame_def)
  have fc: "form_codes ?rows = vd_forms ?v"
    using inv mk by (simp add: form_codes_def add_row_def map_filter_append List.map_filter_simps forms_inv_def)
  have "forms_ok s0 (with_rows ?rows (s\<lparr>fo_visits := bump ?v\<rparr>))"
  proof (rule rows_inv [OF ok frame_bump])
    show "distinct (map sb_id ?rows)" using inv new(1) mk by (auto simp: add_row_def forms_inv_def form_ids_ok_def)
    show "sb_id ` set ?rows \<subseteq> drawn (bump ?v)"
      using inv new(2) drawn_grow [OF grow] mk by (auto simp: add_row_def forms_inv_def form_ids_ok_def)
    show "submission_ok r \<and> has_template (fo_templates s) r" if "r \<in> set ?rows" for r
      using inv that mk by (auto simp: add_row_def forms_inv_def)
    show "distinct (given_codes ((bump ?v)\<lparr>vd_forms := form_codes ?rows\<rparr>))"
    proof -
      have "distinct (given_codes ?v)" using inv by (simp add: forms_inv_def visit_inv_def)
      then show ?thesis by (simp add: fc given_codes_def)
    qed
    show "subs_kept (fo_rows s) ?rows"
      unfolding subs_kept_def by (intro exI [of _ "\<lambda>r. r"] exI [of _ "[mk (fresh ?v)]"]) (simp add: add_row_def)
  qed
  then show ?thesis unfolding insert_submission_def wp_bnd wp_form_id by (simp add: wp)
qed

lemma form_codes_gain:
  assumes "distinct (map sb_id rows)" and r: "r \<in> set rows" "sb_code r = None"
    and h: "\<And>q. q \<in> set rows \<Longrightarrow> sb_condo (h q) = sb_condo q \<and> (sb_id q \<noteq> sb_id r \<longrightarrow> sb_code (h q) = sb_code q)"
      "sb_code (h r) = Some c"
  obtains xs ys where "form_codes rows = xs @ ys" and "form_codes (map h rows) = xs @ (sb_condo r, c) # ys"
proof -
  let ?code = "\<lambda>r. map_option (Pair (sb_condo r)) (sb_code r)"
  obtain qs ps where rows: "rows = qs @ r # ps" using r(1) by (metis in_set_conv_decomp)
  have off: "sb_id q \<noteq> sb_id r" if "q \<in> set qs \<union> set ps" for q using assms(1) rows that by (auto simp: rev_image_eqI)
  have part: "List.map_filter ?code (map h us) = List.map_filter ?code us" if "set us \<subseteq> set qs \<union> set ps" for us
    by (rule map_filter_cong) (use h(1) off rows that in auto)
  have "sb_condo (h r) = sb_condo r" using h(1) r(1) by simp
  then show thesis
    by (intro that [of "List.map_filter ?code qs" "List.map_filter ?code ps"])
       (simp_all add: form_codes_def rows map_filter_append List.map_filter_simps r(2) h(2) part)
qed

lemma find_submission_Some: "find_submission i s = Some r \<Longrightarrow> r \<in> set (fo_rows s) \<and> sb_id r = i"
  by (auto simp: find_submission_def find_row_def find_Some_iff)

definition code_new :: "forms_db \<Rightarrow> submission \<Rightarrow> submission \<Rightarrow> bool" where
  "code_new s r r' \<longleftrightarrow> sb_code r' = sb_code r \<or>
     (sb_code r = None \<and> (\<exists>c. sb_code r' = Some c \<and> \<not> code_taken (sb_condo r) c (fo_visits s)))"

lemma set_row_ok:
  assumes ok: "forms_ok s0 s" and r: "find_submission i s = Some r" "\<not> is_decided (sb_status r)"
    and f: "sub_kept r (f r)" "submission_ok (f r)" "code_new s r (f r)"
  shows "forms_ok s0 (with_rows (set_row sb_id i (\<lambda>r. (f r)\<lparr>sb_updated := n\<rparr>) (fo_rows s)) s)"
proof -
  have inv: "forms_inv s" using ok by (rule forms_okD)
  define h where "h = (\<lambda>q. if sb_id q = i then (f q)\<lparr>sb_updated := n\<rparr> else q)"
  have rows: "set_row sb_id i (\<lambda>r. (f r)\<lparr>sb_updated := n\<rparr>) (fo_rows s) = map h (fo_rows s)"
    by (simp add: set_row_def set_where_def h_def)
  have rid: "r \<in> set (fo_rows s)" "sb_id r = i" using find_submission_Some [OF r(1)] by simp_all
  have dist: "distinct (map sb_id (fo_rows s))" using inv by (simp add: forms_inv_def form_ids_ok_def)
  have same: "q = r" if "q \<in> set (fo_rows s)" "sb_id q = i" for q
    using dist rid that by (auto simp: distinct_map dest: inj_onD)
  have h: "sub_kept q (h q) \<and> submission_ok (h q) \<and> has_template (fo_templates s) (h q)" if q: "q \<in> set (fo_rows s)" for q
  proof (cases "sb_id q = i")
    case True
    then have "q = r" using same q by simp
    moreover have "has_template (fo_templates s) r" using inv rid(1) by (simp add: forms_inv_def)
    moreover have "submission_ok ((f r)\<lparr>sb_updated := n\<rparr>)" using f(2) by (simp add: submission_ok_def split: option.splits)
    ultimately show ?thesis using f(1) r(2) rid(2) by (simp add: h_def sub_kept_def has_template_def)
  next
    case False
    then show ?thesis using inv q by (simp add: h_def forms_inv_def)
  qed
  have key: "map sb_id (map h (fo_rows s)) = map sb_id (fo_rows s)" using h by (simp add: sub_kept_def)
  have codes: "distinct (given_codes ((fo_visits s)\<lparr>vd_forms := form_codes (map h (fo_rows s))\<rparr>))"
  proof (cases "sb_code (f r) = sb_code r")
    case True
    have "form_codes (map h (fo_rows s)) = form_codes (fo_rows s)"
      unfolding form_codes_def
    proof (rule map_filter_cong)
      fix q assume q: "q \<in> set (fo_rows s)"
      then show "map_option (Pair (sb_condo (h q))) (sb_code (h q)) = map_option (Pair (sb_condo q)) (sb_code q)"
        using h [OF q] same [OF q] True by (auto simp: h_def sub_kept_def)
    qed
    then have e: "form_codes (map h (fo_rows s)) = vd_forms (fo_visits s)" using inv by (simp add: forms_inv_def)
    have "distinct (given_codes (fo_visits s))" using inv by (simp add: forms_inv_def visit_inv_def)
    then show ?thesis unfolding e by simp
  next
    case False
    then obtain c where c: "sb_code r = None" "sb_code (f r) = Some c" "\<not> code_taken (sb_condo r) c (fo_visits s)"
      using f(3) by (auto simp: code_new_def)
    have "sb_condo (h q) = sb_condo q \<and> (sb_id q \<noteq> sb_id r \<longrightarrow> sb_code (h q) = sb_code q)" if "q \<in> set (fo_rows s)" for q
      using h [OF that] rid(2) by (simp add: sub_kept_def h_def)
    moreover have "sb_code (h r) = Some c" using c(2) rid(2) by (simp add: h_def)
    ultimately obtain xs ys where "form_codes (fo_rows s) = xs @ ys" "form_codes (map h (fo_rows s)) = xs @ (sb_condo r, c) # ys"
      using form_codes_gain [OF dist rid(1) c(1)] by metis
    moreover have "distinct (given_codes (fo_visits s))" "vd_forms (fo_visits s) = form_codes (fo_rows s)"
      using inv by (simp_all add: forms_inv_def visit_inv_def)
    ultimately show ?thesis using c(3) unfolding taken_iff given_codes_def by auto
  qed
  have "forms_ok s0 (with_rows (map h (fo_rows s)) (s\<lparr>fo_visits := fo_visits s\<rparr>))"
  proof (rule rows_inv [OF ok frame_refl _ _ _ codes])
    show "distinct (map sb_id (map h (fo_rows s)))" unfolding key by (rule dist)
    show "sb_id ` set (map h (fo_rows s)) \<subseteq> drawn (fo_visits s)"
      using arg_cong [OF key, of set] inv unfolding list.set_map forms_inv_def form_ids_ok_def by simp
    show "submission_ok q \<and> has_template (fo_templates s) q" if "q \<in> set (map h (fo_rows s))" for q using that h by auto
    show "subs_kept (fo_rows s) (map h (fo_rows s))"
      unfolding subs_kept_def using h by (intro exI [of _ h] exI [of _ "[]"]) simp
  qed
  then show ?thesis unfolding rows by simp
qed

lemma set_submission_ok:
  assumes "forms_ok s0 s" and "find_submission i s = Some r" and "\<not> is_decided (sb_status r)"
    and "sub_kept r (f r)" and "submission_ok (f r)" and "code_new s r (f r)"
  shows "holds (set_submission e i f) (forms_ok s0) s"
  using set_row_ok [where f = f, OF assms] assms(1)
  unfolding set_submission_def read_submission_def by (simp add: wp split: option.split)

lemma guard_then: "holds m I s \<Longrightarrow> (\<And>x. preserves I (k x)) \<Longrightarrow> holds (bnd m k) I s"
  unfolding wp_bnd by (erule wp_mono) (simp_all add: preserves_wp)

lemma guard_with_template:
  "I s \<Longrightarrow> (\<And>r t. find_submission i s = Some r \<Longrightarrow> find_template (sb_template r) s = Some t \<Longrightarrow> holds (k (r, t)) I s) \<Longrightarrow>
   holds (bnd (with_template i) k) I s"
  by (simp add: with_template_def wp split: option.split)

lemma submission_row_ok: "forms_ok s0 s \<Longrightarrow> find_submission i s = Some r \<Longrightarrow> submission_ok r"
  using find_submission_Some by (auto simp: forms_ok_def forms_inv_def)

lemma one_move [simp]:
  "form_move\<^sup>*\<^sup>* FORM_DRAFT FORM_SUBMITTED" "form_move\<^sup>*\<^sup>* FORM_DRAFT FORM_CANCELLED"
  "form_move\<^sup>*\<^sup>* FORM_SUBMITTED FORM_CANCELLED" "form_move\<^sup>*\<^sup>* FORM_SUBMITTED FORM_APPROVED"
  "form_move\<^sup>*\<^sup>* FORM_SUBMITTED FORM_REJECTED"
  by (rule r_into_rtranclp [of form_move], rule form_move.intros)+

lemmas kept_defs = is_decided_def sub_kept_def submission_ok_def code_new_def

lemma create_submission_ok: "preserves (forms_ok s0) (create_submission e u d)"
proof (rule preservesW)
  fix s assume ok: "forms_ok s0 s"
  have new: "holds (insert_submission (new_submission e u t d a)) (forms_ok s0) s"
    if "find_template (si_template d) s = Some t" for t a
  proof (rule insert_submission_ok [OF ok])
    have "t \<in> set (fo_templates s)" using that by (auto simp: find_template_def find_row_def find_Some_iff)
    then show "sb_id (new_submission e u t d a i) = i \<and> sb_code (new_submission e u t d a i) = None \<and>
        submission_ok (new_submission e u t d a i) \<and> has_template (fo_templates s) (new_submission e u t d a i)" for i
      by (auto simp: new_submission_def submission_ok_def has_template_def)
  qed
  show "holds (create_submission e u d) (forms_ok s0) s"
    unfolding create_submission_def Let_def only_if_def
    by (rule guard_gets, rule guard_need, rule ok, rule guard_ensure, rule ok, (rule guard_reads, rule ok, (rule reads)+)+,
        rule guard_then, rule new, assumption, intro pres)
qed

lemma update_submission_ok: "preserves (forms_ok s0) (update_submission e u i a submit)"
proof (rule preservesW)
  fix s assume ok: "forms_ok s0 s"
  have set: "holds (set_submission e i (\<lambda>r. if submit
       then r\<lparr>sb_answers := x, sb_status := FORM_SUBMITTED, sb_submitted := Some (fe_now e)\<rparr>
       else r\<lparr>sb_answers := x\<rparr>)) (forms_ok s0) s"
    if r: "find_submission i s = Some r" "sb_status r = FORM_DRAFT" for r x
    by (rule set_submission_ok [OF ok r(1)])
       (use r submission_row_ok [OF ok r(1)] in \<open>auto simp: kept_defs split: option.splits\<close>)
  show "holds (update_submission e u i a submit) (forms_ok s0) s"
    unfolding update_submission_def Let_def only_if_def
    by (rule guard_with_template, rule ok, simp only: prod.case, rule guard_ensure, rule ok, rule guard_ensure, rule ok,
       (rule guard_reads, rule ok, (rule reads)+)+, rule guard_then, rule set, assumption, assumption, intro pres)
qed

lemma cancel_submission_ok: "preserves (forms_ok s0) (cancel_submission e u i)"
proof (rule preservesW)
  fix s assume ok: "forms_ok s0 s"
  have set: "holds (set_submission e i (\<lambda>r. r\<lparr>sb_status := FORM_CANCELLED\<rparr>)) (forms_ok s0) s"
    if r: "find_submission i s = Some r" "sb_status r = FORM_DRAFT \<or> sb_status r = FORM_SUBMITTED" for r
    by (rule set_submission_ok [OF ok r(1)])
       (use r submission_row_ok [OF ok r(1)] in \<open>auto simp: kept_defs split: option.splits\<close>)
  show "holds (cancel_submission e u i) (forms_ok s0) s"
    unfolding cancel_submission_def
    by (rule guard_gets, rule guard_need, rule ok, rule guard_ensure, rule ok, rule guard_ensure, rule ok, rule guard_then, rule set, assumption, assumption, intro pres)
qed

lemma reject_submission_ok: "preserves (forms_ok s0) (reject_submission e u i note)"
proof (rule preservesW)
  fix s assume ok: "forms_ok s0 s"
  have set: "holds (set_submission e i (\<lambda>r. r\<lparr>sb_status := FORM_REJECTED, sb_reviewer := Some (user_id u),
       sb_reviewed := Some (fe_now e), sb_note := trimmed note\<rparr>)) (forms_ok s0) s"
    if r: "find_submission i s = Some r" "sb_status r = FORM_SUBMITTED" for r
    by (rule set_submission_ok [OF ok r(1)])
       (use r submission_row_ok [OF ok r(1)] in \<open>auto simp: kept_defs split: option.splits\<close>)
  show "holds (reject_submission e u i note) (forms_ok s0) s"
    unfolding reject_submission_def
    by (rule guard_with_template, rule ok, simp only: prod.case, rule guard_reads, rule ok, rule reads, rule guard_ensure, rule ok,
       rule guard_then, rule set, assumption, assumption, intro pres)
qed

lemma wp_allocate:
  "wp (allocate_permit_code e condo) (\<lambda>code t. t = s \<and> is_code code \<and> \<not> code_taken condo code s) (\<lambda>t. t = s) s"
  unfolding allocate_permit_code_def with_unique_code_def
  by (rule wp_try_codes [where J = "\<lambda>t. t = s"]) (simp_all add: assert_code_free_def wp)

lemma approve_submission_ok: "preserves (forms_ok s0) (approve_submission e u i)"
proof (rule preservesW)
  fix s assume ok: "forms_ok s0 s"
  have set: "holds (set_submission e i (approved_row e u p)) (forms_ok s0) s"
    if r: "find_submission i s = Some r" "sb_status r = FORM_SUBMITTED"
      and p: "case p of None \<Rightarrow> True | Some f \<Rightarrow> pf_payload f = qr_payload (sb_condo r) i (pf_code f) \<and> is_code (pf_code f) \<and>
        \<not> code_taken (sb_condo r) (pf_code f) (fo_visits s)" for r and p :: "permit_fields option"
  proof (rule set_submission_ok [OF ok r(1)])
    have id: "sb_id r = i" using find_submission_Some [OF r(1)] by simp
    have none: "sb_code r = None" using submission_row_ok [OF ok r(1)] r(2) by (auto simp: submission_ok_def split: option.splits)
    show "sub_kept r (approved_row e u p r)"
      using r(2) by (auto simp: sub_kept_def approved_row_def with_permit_def is_decided_def split: option.split)
    show "submission_ok (approved_row e u p r)"
      using submission_row_ok [OF ok r(1)] r(2) p id none
      by (auto simp: submission_ok_def approved_row_def with_permit_def split: option.splits)
    show "code_new s r (approved_row e u p r)"
      using p none by (auto simp: code_new_def approved_row_def with_permit_def split: option.splits)
  qed (use r(2) in \<open>simp add: is_decided_def\<close>)
  have permit: "wp (if is_permit_kind k then bnd (allocate_permit_fields e (sb_condo r) i a) (\<lambda>p. ret (Some p)) else ret None)
      (\<lambda>(p :: permit_fields option) t. t = s \<and> (case p of None \<Rightarrow> True | Some f \<Rightarrow> pf_payload f = qr_payload (sb_condo r) i (pf_code f) \<and> is_code (pf_code f) \<and>
        \<not> code_taken (sb_condo r) (pf_code f) (fo_visits s))) (forms_ok s0) s" for k r a
  proof -
    have "wp (on_visits (allocate_permit_code (fe_visit e) (sb_condo r)))
        (\<lambda>code t. t = s \<and> is_code code \<and> \<not> code_taken (sb_condo r) code (fo_visits s)) (\<lambda>t. t = s) s"
      unfolding wp_on_part [of fo_visits fo_visits_update "allocate_permit_code (fe_visit e) (sb_condo r)"]
      by (rule wp_mono [OF wp_allocate]) simp_all
    then have "wp (bnd (allocate_permit_fields e (sb_condo r) i a) (\<lambda>p. ret (Some p)))
      (\<lambda>(p :: permit_fields option) t. t = s \<and> (case p of None \<Rightarrow> True | Some f \<Rightarrow> pf_payload f = qr_payload (sb_condo r) i (pf_code f) \<and> is_code (pf_code f) \<and>
        \<not> code_taken (sb_condo r) (pf_code f) (fo_visits s))) (forms_ok s0) s"
      unfolding allocate_permit_fields_def wp_bnd wp_ret by (rule wp_mono) (use ok in simp_all)
    then show ?thesis by (simp add: wp_ret)
  qed
  show "holds (approve_submission e u i) (forms_ok s0) s"
    unfolding approve_submission_def
  proof (rule guard_with_template, rule ok, simp only: prod.case, rule guard_reads, rule ok, rule reads, rule guard_ensure, rule ok)
    fix r t
    assume r: "find_submission i s = Some r" "sb_status r = FORM_SUBMITTED"
    show "holds (bnd (if is_permit_kind (tm_kind t) then bnd (allocate_permit_fields e (sb_condo r) i (sb_answers r)) (\<lambda>p. ret (Some p))
          else ret None) (\<lambda>p.
     bnd (set_submission e i (approved_row e u p)) (\<lambda>r'.
     bnd (form_audit (sb_condo r) (Some (sb_unit r)) u AUDIT_UPDATE ''FormSubmission'' i
       (case p of None \<Rightarrow> status_meta FORM_APPROVED
        | Some f \<Rightarrow> (status_meta FORM_APPROVED)(''accessCode'' \<mapsto> JStr (pf_code f)))) (\<lambda>_.
     bnd (emit_update r') (\<lambda>_.
     bnd (emit_form (FormApproved i (sb_condo r) (sb_user r))) (\<lambda>_. ret r')))))) (forms_ok s0) s"
      unfolding wp_bnd [of "if _ then _ else _"]
    proof (rule wp_mono [OF permit])
      fix p :: "permit_fields option" and s'
      assume p: "s' = s \<and> (case p of None \<Rightarrow> True | Some f \<Rightarrow> pf_payload f = qr_payload (sb_condo r) i (pf_code f) \<and>
        is_code (pf_code f) \<and> \<not> code_taken (sb_condo r) (pf_code f) (fo_visits s))"
      show "holds (bnd (set_submission e i (approved_row e u p)) (\<lambda>r'.
     bnd (form_audit (sb_condo r) (Some (sb_unit r)) u AUDIT_UPDATE ''FormSubmission'' i
       (case p of None \<Rightarrow> status_meta FORM_APPROVED
        | Some f \<Rightarrow> (status_meta FORM_APPROVED)(''accessCode'' \<mapsto> JStr (pf_code f)))) (\<lambda>_.
     bnd (emit_update r') (\<lambda>_.
     bnd (emit_form (FormApproved i (sb_condo r) (sb_user r))) (\<lambda>_. ret r'))))) (forms_ok s0) s'"
        unfolding p [THEN conjunct1] by (rule guard_then, rule set [OF r p [THEN conjunct2]], intro pres)
    qed
  qed
qed

end
