(* ===== verification/Form_Properties.thy ===== *)
theory Form_Properties
  imports Form_Reach
begin

text \<open>
  Forms and visitors as one system: a step for each call of either service that writes, in any order,
  and what holds of submissions and permits in every state it reaches.
\<close>

section \<open>The system\<close>

inductive form_step :: "forms_db \<Rightarrow> forms_db \<Rightarrow> bool" where
  step_at_desk: "visit_step (fo_visits s) v \<Longrightarrow> vd_forms v = vd_forms (fo_visits s) \<Longrightarrow> form_step s (s\<lparr>fo_visits := v\<rparr>)"
| step_list_templates: "list_templates u condo inactive limit offset s = (l, t) \<Longrightarrow> form_step s t"
| step_create_template: "create_template u ti s = (x, t) \<Longrightarrow> form_step s t"
| step_update_template: "update_template u i tq s = (x, t) \<Longrightarrow> form_step s t"
| step_delete_template: "delete_template u i s = (y, t) \<Longrightarrow> form_step s t"
| step_create_submission: "create_submission e u si s = (r, t) \<Longrightarrow> form_step s t"
| step_update_submission: "update_submission e u i a submit s = (r, t) \<Longrightarrow> form_step s t"
| step_cancel_submission: "cancel_submission e u i s = (r, t) \<Longrightarrow> form_step s t"
| step_approve: "approve_submission e u i s = (r, t) \<Longrightarrow> form_step s t"
| step_reject_form: "reject_submission e u i note s = (r, t) \<Longrightarrow> form_step s t"

lemma form_step_ok:
  assumes "form_step s t" and "forms_ok s0 s"
  shows "forms_ok s0 t"
  using assms(1)
proof cases
  case (step_at_desk v)
  have "visit_inv (fo_visits s)" using assms(2) by (simp add: forms_ok_def forms_inv_def)
  then have "visit_ok (fo_visits s) v" using visit_step_ok [OF step_at_desk(2)] visit_ok_refl by blast
  then have "forms_ok s0 (s\<lparr>fo_visits := v\<rparr>)" by (rule ok_visits [OF assms(2) _ step_at_desk(3)])
  then show ?thesis by (simp only: step_at_desk(1))
qed (erule preservesD [OF list_templates_ok assms(2)] preservesD [OF create_template_ok assms(2)]
    preservesD [OF update_template_ok assms(2)] preservesD [OF delete_template_ok assms(2)]
    preservesD [OF create_submission_ok assms(2)] preservesD [OF update_submission_ok assms(2)]
    preservesD [OF cancel_submission_ok assms(2)] preservesD [OF approve_submission_ok assms(2)]
    preservesD [OF reject_submission_ok assms(2)])+

definition form_start :: "forms_db \<Rightarrow> bool" where
  "form_start s \<longleftrightarrow> visit_start (fo_visits s) \<and> fo_templates s = [] \<and> fo_rows s = []"

lemma form_start_inv: "form_start s \<Longrightarrow> forms_inv s"
  using visit_start_inv [of "fo_visits s"]
  by (simp add: form_start_def forms_inv_def form_ids_ok_def form_codes_def visit_start_def List.map_filter_simps)

lemma form_steps_ok: "form_step\<^sup>*\<^sup>* s t \<Longrightarrow> forms_ok s0 s \<Longrightarrow> forms_ok s0 t"
  by (induction rule: rtranclp_induct) (blast intro: form_step_ok)+

lemma form_reached: "form_start s0 \<Longrightarrow> form_step\<^sup>*\<^sup>* s0 s \<Longrightarrow> forms_inv s"
  using form_steps_ok forms_ok_refl [OF form_start_inv] forms_okD by blast

section \<open>A concrete office\<close>

text \<open>
  The desk with the delivery pass, a manager, a renovation template, and a tenant's permit; and a
  vehicle sticker that was approved.
\<close>

definition sample_office :: forms_db where
  "sample_office = \<lparr>fo_visits = sample_desk, fo_templates = [], fo_rows = [], fo_events = []\<rparr>"

definition sample_form_env :: form_env where
  "sample_form_env = \<lparr>fe_visit = sample_visit_env, fe_date = (\<lambda>_. None), fe_date_text = (\<lambda>_. []), fe_time_text = (\<lambda>_. [])\<rparr>"

definition sample_manager :: auth_user where
  "sample_manager = \<lparr>user_id = ''m'', user_roles = [\<lparr>role = MANAGEMENT_ADMIN, role_condo = Some ''c'', role_unit = None\<rparr>]\<rparr>"

definition sample_answers :: answers where
  "sample_answers = [(''workScope'', JStr ''Kitchen''), (''contractorCompany'', JStr ''Acme''), (''startDate'', JStr ''1970-01-01''),
     (''endDate'', JStr ''1970-01-02''), (''depositAcknowledgement'', JBool True), (''plateNumber'', JStr ''WXY1''),
     (''vehicleType'', JStr ''Car'')]"

definition sample_issued_office :: forms_db where
  "sample_issued_office = sample_office\<lparr>fo_visits := sample_issued\<rparr>"

definition sample_template :: "form_kind \<Rightarrow> form_field list \<Rightarrow> template_input" where
  "sample_template k fs = \<lparr>ti_condo = ''c'', ti_kind = k, ti_title = ''Form'', ti_fields = fs, ti_active = None, ti_position = None\<rparr>"

definition sample_first :: forms_db where
  "sample_first = snd (create_template sample_manager (sample_template RENOVATION renovation_fields) sample_issued_office)"

definition sample_listed :: forms_db where
  "sample_listed = snd (create_template sample_manager (sample_template VEHICLE_STICKER vehicle_sticker_fields) sample_first)"

definition sample_applied :: forms_db where
  "sample_applied = snd (create_submission sample_form_env sample_tenant
     \<lparr>si_template = ''id1'', si_unit = ''u'', si_answers = Some sample_answers, si_submit = True\<rparr> sample_listed)"

definition sample_permit :: forms_db where
  "sample_permit = snd (approve_submission sample_form_env sample_manager ''id3'' sample_applied)"

definition sample_sticker_applied :: forms_db where
  "sample_sticker_applied = snd (create_submission sample_form_env sample_tenant
     \<lparr>si_template = ''id2'', si_unit = ''u'', si_answers = Some sample_answers, si_submit = True\<rparr> sample_listed)"

definition sample_sticker :: forms_db where
  "sample_sticker = snd (approve_submission sample_form_env sample_manager ''id3'' sample_sticker_applied)"

lemma sample_office_start: "form_start sample_office"
  using sample_desk_start by (simp add: form_start_def sample_office_def)


lemma sample_permit_rows:
  "map (\<lambda>r. (sb_id r, sb_status r, sb_code r, sb_from r, sb_until r)) (fo_rows sample_permit) =
     [(''id3'', FORM_APPROVED, Some ''GHJKMN'', Some 0, Some 172799999)]"
  "map (\<lambda>r. (sb_id r, sb_status r, sb_code r)) (fo_rows sample_sticker) = [(''id3'', FORM_APPROVED, None)]"
  by code_simp+

lemma sample_form_steps: "form_step\<^sup>*\<^sup>* sample_office sample_issued_office" "form_step\<^sup>*\<^sup>* sample_issued_office sample_permit"
  "form_step\<^sup>*\<^sup>* sample_issued_office sample_sticker"
proof -
  have "vd_forms sample_issued = []" by code_simp
  then have "form_step sample_office sample_issued_office"
    using step_at_desk [of sample_office sample_issued] sample_steps(1) by (simp add: sample_office_def sample_desk_def sample_issued_office_def)
  then show "form_step\<^sup>*\<^sup>* sample_office sample_issued_office" by (rule r_into_rtranclp [of form_step])
  have "form_step sample_issued_office sample_first" "form_step sample_first sample_listed"
    unfolding sample_first_def sample_listed_def by (rule step_create_template, rule prod.collapse [symmetric])+
  then have listed: "form_step\<^sup>*\<^sup>* sample_issued_office sample_listed"
    by (meson converse_rtranclp_into_rtranclp r_into_rtranclp)
  have "form_step sample_listed sample_applied" "form_step sample_listed sample_sticker_applied"
    unfolding sample_applied_def sample_sticker_applied_def by (rule step_create_submission, rule prod.collapse [symmetric])+
  moreover have "form_step sample_applied sample_permit" "form_step sample_sticker_applied sample_sticker"
    unfolding sample_permit_def sample_sticker_def by (rule step_approve, rule prod.collapse [symmetric])+
  ultimately show "form_step\<^sup>*\<^sup>* sample_issued_office sample_permit" "form_step\<^sup>*\<^sup>* sample_issued_office sample_sticker"
    using listed by (meson rtranclp.rtrancl_into_rtrancl)+
qed

lemma sample_reach: "form_step\<^sup>*\<^sup>* sample_office sample_permit" "form_step\<^sup>*\<^sup>* sample_office sample_sticker"
  using sample_form_steps by (meson rtranclp_trans)+

section \<open>Submissions\<close>

text \<open>
  C31. A submission has a history that nobody rewrites: whatever calls of the forms and visitor services
  follow, it stays, with its template, unit and author; it moves only from draft to submitted or
  cancelled and from submitted to approved, rejected or cancelled; its answers change no more once it
  was submitted, and nothing of it once it is decided or cancelled.
\<close>

theorem submission_history:
  assumes "form_start s0" and "form_step\<^sup>*\<^sup>* s0 s" and "form_step\<^sup>*\<^sup>* s t" and "r \<in> set (fo_rows s)"
  shows "\<exists>r' \<in> set (fo_rows t). sb_id r' = sb_id r \<and> sb_template r' = sb_template r \<and> sb_condo r' = sb_condo r \<and>
    sb_unit r' = sb_unit r \<and> sb_user r' = sb_user r \<and> form_move\<^sup>*\<^sup>* (sb_status r) (sb_status r') \<and>
    (sb_status r \<noteq> FORM_DRAFT \<longrightarrow> sb_answers r' = sb_answers r \<and> sb_submitted r' = sb_submitted r) \<and>
    (sb_status r \<in> {FORM_APPROVED, FORM_REJECTED, FORM_CANCELLED} \<longrightarrow> r' = r)"
proof -
  have "forms_ok s t" by (rule form_steps_ok [OF assms(3) forms_ok_refl [OF form_reached [OF assms(1, 2)]]])
  then obtain h ns where "fo_rows t = map h (fo_rows s) @ ns" "sub_kept r (h r)"
    using assms(4) by (auto simp: forms_ok_def subs_kept_def)
  moreover from this have "h r \<in> set (fo_rows t)" using assms(4) by simp
  ultimately show ?thesis by (intro bexI [of _ "h r"]) (auto simp: sub_kept_def is_decided_def)
qed

theorem submission_history_witness:
  "\<exists>r \<in> set (fo_rows sample_permit). sb_status r = FORM_APPROVED \<and> (\<exists>r' \<in> set (fo_rows sample_permit). r' = r)"
proof -
  obtain r where r: "r \<in> set (fo_rows sample_permit)" "sb_status r = FORM_APPROVED"
    using sample_permit_rows(1) by (auto simp: map_eq_Cons_conv)
  from submission_history [OF sample_office_start sample_reach(1) rtranclp.rtrancl_refl r(1)] r show ?thesis by blast
qed

section \<open>Permits\<close>

lemma filter_one: "distinct xs \<Longrightarrow> x \<in> set xs \<Longrightarrow> filter (\<lambda>y. y = x) xs = [x]"
  by (induction xs) (auto simp: filter_empty_conv)

lemma same_code:
  assumes "forms_inv s" and "r \<in> set (fo_rows s)" and "q \<in> set (fo_rows s)" and "sb_code r = Some c" and "sb_code q = Some c"
    and "sb_condo q = sb_condo r"
  shows "q = r"
proof -
  let ?code = "\<lambda>r. map_option (Pair (sb_condo r)) (sb_code r)"
  have "distinct (given_codes (fo_visits s))" "vd_forms (fo_visits s) = form_codes (fo_rows s)" and ids: "distinct (map sb_id (fo_rows s))"
    using assms(1) by (simp_all add: forms_inv_def visit_inv_def form_ids_ok_def)
  then have "distinct (form_codes (fo_rows s))" by (simp add: given_codes_def)
  with ids assms show ?thesis
    by (intro distinct_map_filter [of ?code "fo_rows s" q r "(sb_condo r, c)" sb_id]) (simp_all add: form_codes_def)
qed

text \<open>
  C32. The code of a permit opens one door: in every state of the forms and visitor services, an access
  code that a submission carries is a code of the gate, the submission is approved and no other
  submission, visitor or recurring pass of the condo has the code; the payload of the permit's QR code
  names the condo, the submission and the code.
\<close>

theorem permit_codes_apart:
  assumes "form_start s0" and "form_step\<^sup>*\<^sup>* s0 s" and "r \<in> set (fo_rows s)" and "sb_code r = Some c"
  shows "sb_status r = FORM_APPROVED \<and> length c = 6 \<and> set c \<subseteq> set code_chars \<and>
    sb_payload r = Some (qr_payload (sb_condo r) (sb_id r) c) \<and>
    filter (\<lambda>q. sb_condo q = sb_condo r \<and> sb_code q = Some c) (fo_rows s) = [r] \<and>
    filter (\<lambda>v. vi_condo v = sb_condo r \<and> vi_code v = Some c) (vd_visitors (fo_visits s)) = [] \<and>
    filter (\<lambda>p. rp_condo p = sb_condo r \<and> rp_code p = Some c) (vd_passes (fo_visits s)) = []"
proof -
  have inv: "forms_inv s" using assms(1, 2) by (rule form_reached)
  then have row: "submission_ok r" and d: "distinct (given_codes (fo_visits s))" "distinct (map sb_id (fo_rows s))"
    and fc: "vd_forms (fo_visits s) = form_codes (fo_rows s)"
    using assms(3) by (simp_all add: forms_inv_def visit_inv_def form_ids_ok_def)
  have mem: "(sb_condo r, c) \<in> set (form_codes (fo_rows s))" using assms(3, 4) by (auto simp: form_codes_def in_map_filter)
  have same: "q = r" if "q \<in> set (fo_rows s)" "sb_condo q = sb_condo r" "sb_code q = Some c" for q
    by (rule same_code [OF inv assms(3) that(1) assms(4) that(3, 2)])
  have "filter (\<lambda>q. sb_condo q = sb_condo r \<and> sb_code q = Some c) (fo_rows s) = filter (\<lambda>q. q = r) (fo_rows s)"
    by (rule filter_cong [OF refl]) (use same assms(4) in blast)
  moreover have "filter (\<lambda>q. q = r) (fo_rows s) = [r]"
    using assms(3) d(2) filter_one [of "fo_rows s" r] by (simp add: distinct_map)
  moreover have "vi_code v \<noteq> Some c" if "v \<in> set (vd_visitors (fo_visits s))" "vi_condo v = sb_condo r" for v
    using codes_apart(3) [of "fo_visits s" v c] inv mem that by (auto simp: forms_inv_def)
  moreover have "rp_code p \<noteq> Some c" if "p \<in> set (vd_passes (fo_visits s))" "rp_condo p = sb_condo r" for p
  proof
    assume "rp_code p = Some c"
    then have "(sb_condo r, c) \<in> set (List.map_filter (\<lambda>p. map_option (Pair (rp_condo p)) (rp_code p)) (vd_passes (fo_visits s)))"
      using that by (auto simp: in_map_filter)
    with d(1) mem show False unfolding given_codes_def fc distinct_append by auto
  qed
  ultimately show ?thesis using row assms(4) by (auto simp: submission_ok_def is_code_def filter_empty_conv)
qed

theorem permit_codes_apart_witness:
  "\<exists>r \<in> set (fo_rows sample_permit). sb_code r = Some ''GHJKMN'' \<and>
     filter (\<lambda>v. vi_condo v = sb_condo r \<and> vi_code v = Some ''GHJKMN'') (vd_visitors (fo_visits sample_permit)) = []"
proof -
  obtain r where "r \<in> set (fo_rows sample_permit)" "sb_code r = Some ''GHJKMN''"
    using sample_permit_rows(1) by (auto simp: map_eq_Cons_conv)
  with permit_codes_apart [OF sample_office_start sample_reach(1)] show ?thesis by blast
qed

lemma resolve_code:
  assumes "form_start s0" and "form_step\<^sup>*\<^sup>* s0 s" and r: "r \<in> set (fo_rows s)" "sb_code r = Some (to_upper (trim pass))"
  shows "resolve_permit pass (sb_condo r) (fo_rows s) = Some r"
proof -
  have inv: "forms_inv s" using assms(1, 2) by (rule form_reached)
  let ?c = "to_upper (trim pass)"
  have ok: "submission_ok q" if "q \<in> set (fo_rows s)" for q using inv that by (simp add: forms_inv_def)
  have c: "is_code ?c" using ok [OF r(1)] r(2) by (simp add: submission_ok_def)
  have "sb_payload q \<noteq> Some ?c" if "q \<in> set (fo_rows s)" for q
    using ok [OF that] payload_not_code [OF c] by (auto simp: submission_ok_def)
  then have "find (\<lambda>q. sb_payload q = Some ?c) (fo_rows s) = None" by (rule find_None_all)
  moreover have "find (\<lambda>q. sb_condo q = sb_condo r \<and> sb_code q = Some ?c) (fo_rows s) = Some r"
  proof (rule find_only [OF r(1)])
    fix q assume "q \<in> set (fo_rows s)" "sb_condo q = sb_condo r \<and> sb_code q = Some ?c"
    then show "q = r" using same_code [OF inv r(1) _ r(2)] by simp
  qed (use r in simp)
  ultimately show ?thesis using code_not_qr [OF c] typed_code [OF c refl] by (simp add: resolve_permit_def)
qed

lemma permit_view_simps [simp]:
  "pw_id (to_permit_view e r t) = sb_id r" "pw_code (to_permit_view e r t) = sb_code r"
  "pw_valid (to_permit_view e r t) \<longleftrightarrow> sb_status r = FORM_APPROVED \<and>
     (case sb_from r of None \<Rightarrow> True | Some x \<Rightarrow> x \<le> fe_now e) \<and> (case sb_until r of None \<Rightarrow> True | Some x \<Rightarrow> fe_now e \<le> x)"
  by (auto simp: to_permit_view_def Let_def split: option.split)

lemma verify_found:
  assumes "resolve_permit pass (sb_condo r) (fo_rows s) = Some r" and "find_template (sb_template r) s = Some t"
    and "is_permit_kind (tm_kind t)" and "is_form_guard g (sb_condo r) \<or> is_form_management g (sb_condo r)"
  shows "verify_permit e g active pass (Some (sb_condo r)) s = (Inr (to_permit_view e r t), s)"
  using assms by (simp add: verify_permit_def assert_guard_or_management_def runs ret_run)

text \<open>
  C33. The gate answers for the permit whose code is typed: a guard or manager of the condo who types the
  code of a permit, in capitals or not and with blanks around it, is shown that submission, and the
  permit is called valid exactly within its window. The answer changes nothing.
\<close>

theorem typed_permit_answered:
  assumes "form_start s0" and "form_step\<^sup>*\<^sup>* s0 s" and "r \<in> set (fo_rows s)" and "sb_code r = Some (to_upper (trim pass))"
    and "find_template (sb_template r) s = Some t" and "is_permit_kind (tm_kind t)"
    and "is_form_guard g (sb_condo r) \<or> is_form_management g (sb_condo r)"
  shows "\<exists>w. verify_permit e g active pass (Some (sb_condo r)) s = (Inr w, s) \<and> pw_id w = sb_id r \<and>
    pw_code w = Some (to_upper (trim pass)) \<and>
    (pw_valid w \<longleftrightarrow> (\<forall>x. sb_from r = Some x \<longrightarrow> x \<le> fe_now e) \<and> (\<forall>x. sb_until r = Some x \<longrightarrow> fe_now e \<le> x))"
proof -
  have "submission_ok r" using form_reached [OF assms(1, 2)] assms(3) by (simp add: forms_inv_def)
  then have "sb_status r = FORM_APPROVED" using assms(4) by (simp add: submission_ok_def)
  then show ?thesis
    using verify_found [OF resolve_code [OF assms(1-4)] assms(5-7)] assms(4)
    by (intro exI [of _ "to_permit_view e r t"]) (auto split: option.split)
qed

definition sample_condo_guard :: auth_user where
  "sample_condo_guard = \<lparr>user_id = ''g'', user_roles = [\<lparr>role = SECURITY_GUARD, role_condo = Some ''c'', role_unit = None\<rparr>]\<rparr>"

theorem typed_permit_answered_witness:
  "\<exists>w. verify_permit sample_form_env sample_condo_guard None '' ghjkmn '' (Some ''c'') sample_permit = (Inr w, sample_permit) \<and> pw_valid w"
proof -
  obtain r where r: "r \<in> set (fo_rows sample_permit)" "sb_code r = Some ''GHJKMN''" "sb_from r = Some 0" "sb_until r = Some 172799999"
    using sample_permit_rows(1) by (auto simp: map_eq_Cons_conv)
  have k: "map (\<lambda>r. (sb_condo r, map_option tm_kind (find_template (sb_template r) sample_permit))) (fo_rows sample_permit) =
      [(''c'', Some RENOVATION)]" by code_simp
  then obtain t where t: "sb_condo r = ''c''" "find_template (sb_template r) sample_permit = Some t" "tm_kind t = RENOVATION"
    using r(1) by (auto simp: map_eq_Cons_conv)
  have "to_upper (trim '' ghjkmn '') = ''GHJKMN''" "is_form_guard sample_condo_guard ''c''" by code_simp+
  with typed_permit_answered [OF sample_office_start sample_reach(1) r(1) _ t(2), of "'' ghjkmn ''" sample_condo_guard sample_form_env None] r t
  show ?thesis by (auto simp: is_permit_kind_def sample_form_env_def sample_visit_env_def)
qed

text \<open>
  C34. The kind of a form is that of its template today. When the management turns the template of an
  approved form that never was a permit into a renovation permit, the gate calls that form a valid
  permit, at any time, without a code and without a window, however it is looked up.
\<close>

theorem retyped_form_is_permit:
  assumes "form_start s0" and "form_step\<^sup>*\<^sup>* s0 s" and "r \<in> set (fo_rows s)" and "sb_status r = FORM_APPROVED" and "sb_code r = None"
    and "is_form_management u (sb_condo r)" and "is_form_guard g (sb_condo r)"
    and "resolve_permit pass (sb_condo r) (fo_rows s) = Some r"
  shows "\<exists>t s'. update_template u (sb_template r) \<lparr>tq_kind = Some RENOVATION, tq_title = None, tq_fields = None, tq_active = None,
      tq_position = None\<rparr> s = (Inr t, s') \<and>
    (\<forall>e active. \<exists>w. verify_permit e g active pass (Some (sb_condo r)) s' = (Inr w, s') \<and> pw_id w = sb_id r \<and> pw_valid w \<and> pw_code w = None)"
proof -
  let ?d = "\<lparr>tq_kind = Some RENOVATION, tq_title = None, tq_fields = None, tq_active = None, tq_position = None\<rparr>"
  have inv: "forms_inv s" using assms(1, 2) by (rule form_reached)
  then obtain t where t: "t \<in> set (fo_templates s)" "tm_id t = sb_template r" "tm_condo t = sb_condo r"
    using assms(3) by (auto simp: forms_inv_def has_template_def)
  then have found: "find_template (sb_template r) s = Some t"
    using inv find_row_distinct [of tm_id "fo_templates s" t] by (simp add: find_template_def forms_inv_def form_ids_ok_def)
  let ?t = "patched_template ?d t" and ?s = "s\<lparr>fo_templates := set_row tm_id (sb_template r) (patched_template ?d) (fo_templates s)\<rparr>"
  have found': "find_template (sb_template r) ?s = Some ?t"
    using found by (simp add: find_template_def find_row_set_row patched_template_def)
  obtain s' where audit: "form_audit (tm_condo t) None u AUDIT_UPDATE ''FormTemplate'' (sb_template r)
      [''kind'' \<mapsto> JStr (form_kind_text (tm_kind ?t))] ?s = (Inr (), s')"
    and s': "fo_rows s' = fo_rows s" "fo_templates s' = fo_templates ?s"
    by (auto simp: form_audit_def visit_audit_def log_audit_def on_part_def modify_def bnd_def gets_def ret_def split: prod.splits)
  have "update_template u (sb_template r) ?d s = (Inr ?t, s')"
    using found found' audit assms(6) t(3)
    by (simp add: update_template_def assert_form_management_def set_template_def read_template_def runs act_simps)
  moreover have "find_template (sb_template r) s' = Some ?t" using found' s'(2) by (simp add: find_template_def)
  moreover have "sb_from r = None" "sb_until r = None"
    using inv assms(3, 5) by (auto simp: forms_inv_def submission_ok_def)
  ultimately show ?thesis
    using verify_found [of pass r s' ?t g] assms(4, 5, 7, 8) s'(1)
    by (auto simp: is_permit_kind_def patched_template_def given_or_def)
qed

theorem retyped_form_is_permit_witness:
  "\<exists>r \<in> set (fo_rows sample_sticker). sb_status r = FORM_APPROVED \<and> sb_code r = None \<and>
     (\<exists>s'. \<forall>e active. \<exists>w. verify_permit e sample_condo_guard active ''c:id3:0'' (Some ''c'') s' = (Inr w, s') \<and> pw_valid w)"
proof -
  have "map (\<lambda>r. (sb_condo r, sb_status r, sb_code r)) (fo_rows sample_sticker) = [(''c'', FORM_APPROVED, None)]"
    "map_option sb_id (resolve_permit ''c:id3:0'' ''c'' (fo_rows sample_sticker)) = Some ''id3''"
    "is_form_management sample_manager ''c''" "is_form_guard sample_condo_guard ''c''"
    by code_simp+
  moreover from this obtain r where "fo_rows sample_sticker = [r]" by (auto simp: map_eq_Cons_conv)
  moreover from calculation have "resolve_permit ''c:id3:0'' ''c'' (fo_rows sample_sticker) = Some r"
    by (auto simp: resolve_permit_def find_row_def Let_def split: option.splits if_splits)
  ultimately show ?thesis
    using retyped_form_is_permit [OF sample_office_start sample_reach(2), of r sample_manager sample_condo_guard "''c:id3:0''"]
    by simp blast
qed

end
