(* ===== verification/Polls.thy ===== *)
theory Polls
  imports Visitor_Db
begin

text \<open>
  Polls of the owners (apps/api/src/polls/polls.service.ts): drafts with options, voting within a
  window, one ballot for each unit with the share of the owner who casts it, results by count and by
  share, and the closing of expired polls, also by the sweep of polls/poll-schedule.service.ts.

  The tables stand beside those of the visitor services, which hold owners, users and the rows of
  billing. Ballots refer to options with \<open>onDelete: Cascade\<close>.
\<close>

section \<open>Rows\<close>

datatype poll_status = POLL_DRAFT | POLL_OPEN | POLL_CLOSED

datatype audience_scope = ALL_OWNERS | BLOCK_OWNERS

record poll_option =
  qo_id :: string
  qo_label :: string
  qo_position :: int

record poll =
  ql_id :: string
  ql_condo :: string
  ql_title :: string
  ql_desc :: string
  ql_status :: poll_status
  ql_opens :: "int option"
  ql_closes :: "int option"
  ql_author :: string
  ql_scope :: audience_scope
  ql_blocks :: "string list"
  ql_options :: "poll_option list"
  ql_created :: int
  ql_updated :: int

record ballot =
  vt_poll :: string
  vt_option :: string
  vt_unit :: string
  vt_user :: string
  vt_ownership :: string
  vt_weight :: rat
  vt_proxy :: bool
  vt_proxy_id :: "string option"
  vt_meeting :: "string option"
  vt_owner :: string
  vt_at :: int

datatype meeting_kind = AGM | EGM

datatype meeting_status = MEETING_DRAFT | NOTICE_PUBLISHED | IN_PROGRESS | MEETING_CLOSED

record poll_results =
  qr_votes :: nat
  qr_weight :: rat
  qr_options :: "(string \<times> nat \<times> rat \<times> rat \<times> rat) list"
  qr_breakdown :: "ballot list option"

record quorum =
  qm_percent :: rat
  qm_units :: nat
  qm_share :: rat
  qm_cast_units :: nat
  qm_cast_share :: rat
  qm_cast_percent :: rat
  qm_met :: bool

record eligible_unit =
  eu_unit :: string
  eu_share :: rat
  eu_owner :: string

record voter_register =
  ey_at :: int
  ey_total :: rat
  ey_units :: "eligible_unit list"

record meeting =
  gm_id :: string
  gm_condo :: string
  gm_kind :: meeting_kind
  gm_title :: string
  gm_scheduled :: int
  gm_notice :: string
  gm_minutes :: string
  gm_published :: "int option"
  gm_snapshot :: "(int \<times> (ledger_fund \<times> money) list) option"
  gm_quorum :: rat
  gm_status :: meeting_status
  gm_author :: string

record proxy =
  px_id :: string
  px_meeting :: string
  px_unit :: string
  px_owner :: string
  px_holder :: "string option"
  px_name :: string
  px_contact :: string
  px_at :: int

record resolution =
  rl_id :: string
  rl_meeting :: string
  rl_title :: string
  rl_desc :: string
  rl_poll :: "string option"
  rl_opens :: "int option"
  rl_closes :: "int option"
  rl_eligible :: "voter_register option"
  rl_results :: "(poll_results \<times> quorum) option"
  rl_position :: int

datatype meeting_event =
    NoticePublished string string
  | MinutesPublished string string
  | ResolutionOpened string string string string
  | ResolutionClosed string string string string bool
  | ProxySubmitted string string string string string "string option"

text \<open>\<open>gd_block\<close> is the block column of the unit rows, \<open>gd_roles\<close> the role assignments: user and condo.\<close>

record gov_db =
  gd_desk :: visitor_db
  gd_block :: "string \<Rightarrow> string"
  gd_roles :: "(string \<times> string) list"
  gd_polls :: "poll list"
  gd_votes :: "ballot list"
  gd_meetings :: "meeting list"
  gd_proxies :: "proxy list"
  gd_resolutions :: "resolution list"
  gd_events :: "meeting_event list"

type_synonym 'a gvc = "(gov_db, 'a) act"

abbreviation on_desk :: "'a vsvc \<Rightarrow> 'a gvc" where
  "on_desk \<equiv> on_part gd_desk gd_desk_update"

abbreviation gov_id :: "string gvc" where
  "gov_id \<equiv> on_desk (visit_base new_id)"

definition find_poll :: "string \<Rightarrow> gov_db \<Rightarrow> poll option" where
  "find_poll i s = find_row ql_id i (gd_polls s)"

definition gov_audit :: "string \<Rightarrow> string option \<Rightarrow> auth_user \<Rightarrow> audit_action \<Rightarrow> string \<Rightarrow> string \<Rightarrow> meta \<Rightarrow> unit gvc" where
  "gov_audit condo unit u action resource i m = on_desk (visit_audit condo unit u action resource i m)"

section \<open>Guards\<close>

definition is_gov_management :: "auth_user \<Rightarrow> string \<Rightarrow> bool" where
  "is_gov_management u condo = condo_management u condo True"

definition assert_gov_management :: "auth_user \<Rightarrow> string \<Rightarrow> unit gvc" where
  "assert_gov_management u condo = ensure (is_gov_management u condo) (Forbidden ''Management access required'')"

definition assert_gov_access :: "auth_user \<Rightarrow> string \<Rightarrow> unit gvc" where
  "assert_gov_access u condo = ensure (some_role (grants_member condo) u) (Forbidden ''No access to this condo'')"

definition can_vote :: "auth_user \<Rightarrow> bool" where
  "can_vote u = some_role (\<lambda>r. role r = UNIT_OWNER) u"

section \<open>Status\<close>

definition effective_status :: "int \<Rightarrow> poll \<Rightarrow> poll_status" where
  "effective_status n p =
     (if ql_status p = POLL_OPEN \<and> (case ql_closes p of None \<Rightarrow> False | Some c \<Rightarrow> c \<le> n) then POLL_CLOSED else ql_status p)"

definition set_poll :: "visit_env \<Rightarrow> string \<Rightarrow> (poll \<Rightarrow> poll) \<Rightarrow> unit gvc" where
  "set_poll e i f = modify (\<lambda>s. s\<lparr>gd_polls := set_row ql_id i (\<lambda>p. (f p)\<lparr>ql_updated := ve_now e\<rparr>) (gd_polls s)\<rparr>)"

definition maybe_auto_close :: "visit_env \<Rightarrow> poll \<Rightarrow> poll_status gvc" where
  "maybe_auto_close e p =
     (if ql_status p = POLL_OPEN \<and> effective_status (ve_now e) p = POLL_CLOSED
      then bnd (set_poll e (ql_id p) (\<lambda>p. p\<lparr>ql_status := POLL_CLOSED\<rparr>)) (\<lambda>_. ret POLL_CLOSED)
      else ret (ql_status p))"

definition is_expired :: "int \<Rightarrow> poll \<Rightarrow> bool" where
  "is_expired n p \<longleftrightarrow> ql_status p = POLL_OPEN \<and> (case ql_closes p of None \<Rightarrow> False | Some c \<Rightarrow> c \<le> n)"

definition close_expired_polls :: "visit_env \<Rightarrow> nat gvc" where
  "close_expired_polls e =
     bnd (gets (\<lambda>s. count_where (is_expired (ve_now e)) (gd_polls s))) (\<lambda>n.
     bnd (modify (\<lambda>s. s\<lparr>gd_polls := set_where (is_expired (ve_now e)) (\<lambda>p. p\<lparr>ql_status := POLL_CLOSED, ql_updated := ve_now e\<rparr>)
       (gd_polls s)\<rparr>)) (\<lambda>_. ret n))"

text \<open>The sweep, when the lock \<open>schedule:poll-auto-close\<close> is free.\<close>

definition poll_sweep :: "visit_env \<Rightarrow> bool \<Rightarrow> nat gvc" where
  "poll_sweep e lock_free = (if lock_free then close_expired_polls e else ret 0)"

section \<open>Results\<close>

text \<open>The map from options to count and weight, in insertion order.\<close>

fun tally_add :: "string \<Rightarrow> rat \<Rightarrow> (string \<times> nat \<times> rat) list \<Rightarrow> (string \<times> nat \<times> rat) list" where
  "tally_add k w [] = [(k, 1, w)]"
| "tally_add k w ((k', n, x) # m) = (if k = k' then (k', n + 1, x + w) # m else (k', n, x) # tally_add k w m)"

definition tally :: "poll_option list \<Rightarrow> ballot list \<Rightarrow> (string \<times> nat \<times> rat) list" where
  "tally os vs = fold (\<lambda>v. tally_add (vt_option v) (vt_weight v)) vs (map (\<lambda>q. (qo_id q, 0, 0)) os)"

text \<open>\<open>Math.round((x / y) * 1000) / 10\<close>, and 0 when \<open>y\<close> is not positive.\<close>

definition tenth_percent :: "rat \<Rightarrow> rat \<Rightarrow> rat" where
  "tenth_percent x y = (if y > 0 then of_int (js_round (x / y * 1000)) / 10 else 0)"

definition option_line :: "(string \<times> nat \<times> rat) list \<Rightarrow> nat \<Rightarrow> rat \<Rightarrow> poll_option \<Rightarrow> string \<times> nat \<times> rat \<times> rat \<times> rat" where
  "option_line m votes weight q =
     (let (n, x) = (case map_of m (qo_id q) of None \<Rightarrow> (0, 0) | Some b \<Rightarrow> b) in
      (qo_id q, n, x, tenth_percent (of_nat n) (of_nat votes), tenth_percent x weight))"

definition compute_results :: "string \<Rightarrow> poll_option list \<Rightarrow> bool \<Rightarrow> gov_db \<Rightarrow> poll_results" where
  "compute_results i os breakdown s =
     (let vs = filter (\<lambda>v. vt_poll v = i) (gd_votes s);
          votes = length vs;
          weight = sum_list (map vt_weight vs);
          m = tally os vs
      in \<lparr>qr_votes = votes, qr_weight = weight, qr_options = map (option_line m votes weight) os,
          qr_breakdown = (if breakdown then Some vs else None)\<rparr>)"

definition sorted_options :: "poll \<Rightarrow> poll_option list" where
  "sorted_options p = sort_key qo_position (ql_options p)"

definition compute_results_snapshot :: "string \<Rightarrow> bool \<Rightarrow> poll_results gvc" where
  "compute_results_snapshot i breakdown =
     bnd (gets (find_poll i)) (\<lambda>found.
     bnd (need found (NotFound ''Not Found'')) (\<lambda>p.
     gets (compute_results i (sorted_options p) breakdown)))"

definition get_my_votes :: "auth_user \<Rightarrow> string \<Rightarrow> (ballot list) gvc" where
  "get_my_votes u i =
     bnd (gets (find_poll i)) (\<lambda>found.
     bnd (need found (NotFound ''Not Found'')) (\<lambda>p.
     bnd (assert_gov_access u (ql_condo p)) (\<lambda>_.
     gets (\<lambda>s. sort_key vt_at (filter (\<lambda>v. vt_poll v = i \<and> vt_user v = user_id u) (gd_votes s))))))"

section \<open>Views\<close>

record owner_poll_view =
  pv_poll :: poll
  pv_status :: poll_status
  pv_results :: "poll_results option"
  pv_mine :: "ballot list option"

definition serialize_poll :: "visit_env \<Rightarrow> poll \<Rightarrow> auth_user \<Rightarrow> bool \<Rightarrow> bool \<Rightarrow> owner_poll_view gvc" where
  "serialize_poll e p u results breakdown =
     (let st = effective_status (ve_now e) p in
      bnd (if results \<and> st \<noteq> POLL_DRAFT then gets (\<lambda>s. Some (compute_results (ql_id p) (sorted_options p) breakdown s))
           else ret None) (\<lambda>r.
      bnd (if can_vote u then bnd (get_my_votes u (ql_id p)) (\<lambda>vs. ret (Some vs)) else ret None) (\<lambda>mine.
      ret \<lparr>pv_poll = p, pv_status = st, pv_results = r, pv_mine = mine\<rparr>)))"

definition recently_closed :: "int \<Rightarrow> poll \<Rightarrow> bool" where
  "recently_closed n p \<longleftrightarrow>
     (let cutoff = n - 90 * 86400000 in
      ql_status p = POLL_OPEN \<or>
      ql_status p = POLL_CLOSED \<and> ((case ql_closes p of None \<Rightarrow> False | Some c \<Rightarrow> cutoff \<le> c) \<or> cutoff \<le> ql_updated p))"

fun poll_rank :: "poll_status \<Rightarrow> nat" where
  "poll_rank POLL_DRAFT = 0"
| "poll_rank POLL_OPEN = 1"
| "poll_rank POLL_CLOSED = 2"

text \<open>
  \<open>list\<close>: its items are the promises of an asynchronous \<open>serialize\<close> that nobody awaits, so that the
  answer holds an empty object for each poll of the page.
\<close>

definition list_polls :: "visit_env \<Rightarrow> auth_user \<Rightarrow> string \<Rightarrow> bool \<Rightarrow> nat \<Rightarrow> nat \<Rightarrow> (unit list \<times> nat) gvc" where
  "list_polls e u condo manage limit offset =
     bnd (assert_gov_access u condo) (\<lambda>_.
     let p = (\<lambda>q. ql_condo q = condo \<and> ((manage \<and> is_gov_management u condo) \<or> recently_closed (ve_now e) q)) in
     bnd (gets (\<lambda>s. take limit (drop offset (sort_key (\<lambda>q. poll_rank (ql_status q)) (sort_key (\<lambda>q. - ql_created q) (filter p (gd_polls s))))))) (\<lambda>rows.
     bnd (gets (\<lambda>s. count_where p (gd_polls s))) (\<lambda>n.
     bnd (for_each rows (maybe_auto_close e)) (\<lambda>_.
     ret (map (\<lambda>_. ()) rows, n)))))"

definition get_poll :: "visit_env \<Rightarrow> auth_user \<Rightarrow> string \<Rightarrow> bool option \<Rightarrow> owner_poll_view gvc" where
  "get_poll e u i manage =
     bnd (gets (find_poll i)) (\<lambda>found.
     bnd (need found (NotFound ''Not Found'')) (\<lambda>p.
     bnd (assert_gov_access u (ql_condo p)) (\<lambda>_.
     bnd (maybe_auto_close e p) (\<lambda>st.
     bnd (ensure ((case manage of None \<Rightarrow> is_gov_management u (ql_condo p) | Some m \<Rightarrow> m) \<or> st \<noteq> POLL_DRAFT) (NotFound ''Not Found'')) (\<lambda>_.
     serialize_poll e p u (st = POLL_OPEN \<or> st = POLL_CLOSED) (st = POLL_CLOSED))))))"

section \<open>Drafts\<close>

definition validate_schedule :: "int option \<Rightarrow> int option \<Rightarrow> unit gvc" where
  "validate_schedule a z =
     ensure (case (a, z) of (Some x, Some y) \<Rightarrow> x < y | _ \<Rightarrow> True) (BadRequest ''closesAt must be after opensAt'')"

definition validate_audience :: "audience_scope option \<Rightarrow> string list option \<Rightarrow> unit gvc" where
  "validate_audience scope blocks =
     ensure (\<not> (scope = Some BLOCK_OWNERS \<and> (blocks = None \<or> blocks = Some [])))
       (BadRequest ''blockIds required when audienceScope is BLOCK'')"

type_synonym option_input = "string \<times> int option"

fun new_options :: "nat \<Rightarrow> option_input list \<Rightarrow> (poll_option list) gvc" where
  "new_options k [] = ret []"
| "new_options k ((label, position) # os) =
     bnd gov_id (\<lambda>i. bnd (new_options (Suc k) os) (\<lambda>qs.
     ret (\<lparr>qo_id = i, qo_label = label, qo_position = (case position of None \<Rightarrow> int k | Some x \<Rightarrow> x)\<rparr> # qs)))"

definition trim_options :: "option_input list \<Rightarrow> option_input list" where
  "trim_options os = map (\<lambda>(label, position). (trim label, position)) os"

record poll_input =
  qi_condo :: string
  qi_title :: string
  qi_desc :: string
  qi_opens :: "int option"
  qi_closes :: "int option"
  qi_scope :: "audience_scope option"
  qi_blocks :: "string list option"
  qi_options :: "option_input list"

definition insert_poll :: "visit_env \<Rightarrow> poll \<Rightarrow> option_input list \<Rightarrow> poll gvc" where
  "insert_poll e p os =
     bnd gov_id (\<lambda>i.
     bnd (new_options 0 os) (\<lambda>qs.
     let p' = p\<lparr>ql_id := i, ql_options := qs, ql_created := ve_now e, ql_updated := ve_now e\<rparr> in
     bnd (modify (\<lambda>s. s\<lparr>gd_polls := add_row p' (gd_polls s)\<rparr>)) (\<lambda>_. ret p')))"

definition create_poll :: "visit_env \<Rightarrow> auth_user \<Rightarrow> poll_input \<Rightarrow> owner_poll_view gvc" where
  "create_poll e u d =
     bnd (assert_gov_management u (qi_condo d)) (\<lambda>_.
     bnd (validate_schedule (qi_opens d) (qi_closes d)) (\<lambda>_.
     bnd (validate_audience (qi_scope d) (qi_blocks d)) (\<lambda>_.
     bnd (insert_poll e \<lparr>ql_id = [], ql_condo = qi_condo d, ql_title = trim (qi_title d), ql_desc = trim (qi_desc d),
       ql_status = POLL_DRAFT, ql_opens = qi_opens d, ql_closes = qi_closes d, ql_author = user_id u,
       ql_scope = (case qi_scope d of None \<Rightarrow> ALL_OWNERS | Some x \<Rightarrow> x),
       ql_blocks = (case qi_blocks d of None \<Rightarrow> [] | Some x \<Rightarrow> x), ql_options = [], ql_created = 0, ql_updated = 0\<rparr>
       (trim_options (qi_options d))) (\<lambda>p.
     serialize_poll e p u False False))))"

text \<open>An update: a time may be left alone, cleared or set.\<close>

record poll_patch =
  qp_title :: "string option"
  qp_desc :: "string option"
  qp_opens :: "int option option"
  qp_closes :: "int option option"
  qp_scope :: "audience_scope option"
  qp_blocks :: "string list option"
  qp_status :: "poll_status option"
  qp_options :: "option_input list option"

definition given_time :: "int option option \<Rightarrow> int option \<Rightarrow> int option" where
  "given_time d old = (case d of Some (Some t) \<Rightarrow> Some t | _ \<Rightarrow> old)"

definition patched_poll :: "poll_patch \<Rightarrow> poll \<Rightarrow> poll" where
  "patched_poll d p =
     p\<lparr>ql_title := (case qp_title d of None \<Rightarrow> ql_title p | Some t \<Rightarrow> trim t),
       ql_desc := (case qp_desc d of None \<Rightarrow> ql_desc p | Some t \<Rightarrow> trim t),
       ql_opens := (case qp_opens d of None \<Rightarrow> ql_opens p | Some t \<Rightarrow> t),
       ql_closes := (case qp_closes d of None \<Rightarrow> ql_closes p | Some t \<Rightarrow> t),
       ql_scope := (case qp_scope d of None \<Rightarrow> ql_scope p | Some x \<Rightarrow> x),
       ql_blocks := (case qp_blocks d of None \<Rightarrow> ql_blocks p | Some x \<Rightarrow> x),
       ql_status := (case qp_status d of None \<Rightarrow> ql_status p | Some x \<Rightarrow> x)\<rparr>"

text \<open>New options take the place of the old ones, whose ballots go with them.\<close>

definition replace_options :: "string \<Rightarrow> option_input list \<Rightarrow> unit gvc" where
  "replace_options i os =
     bnd (gets (\<lambda>s. case find_poll i s of None \<Rightarrow> [] | Some p \<Rightarrow> map qo_id (ql_options p))) (\<lambda>gone.
     bnd (modify (\<lambda>s. s\<lparr>gd_votes := filter (\<lambda>v. vt_option v \<notin> set gone) (gd_votes s)\<rparr>)) (\<lambda>_.
     bnd (new_options 0 (trim_options os)) (\<lambda>qs.
     modify (\<lambda>s. s\<lparr>gd_polls := set_row ql_id i (\<lambda>p. p\<lparr>ql_options := qs\<rparr>) (gd_polls s)\<rparr>))))"

definition update_poll :: "visit_env \<Rightarrow> auth_user \<Rightarrow> string \<Rightarrow> poll_patch \<Rightarrow> owner_poll_view gvc" where
  "update_poll e u i d =
     bnd (gets (find_poll i)) (\<lambda>found.
     bnd (need found (NotFound ''Not Found'')) (\<lambda>p.
     bnd (assert_gov_management u (ql_condo p)) (\<lambda>_.
     let st = effective_status (ve_now e) p in
     bnd (ensure (\<not> (st \<noteq> POLL_DRAFT \<and> qp_options d \<noteq> None)) (BadRequest ''Options can only be edited while the poll is a draft'')) (\<lambda>_.
     bnd (ensure (\<not> (st = POLL_CLOSED \<and> qp_status d \<noteq> Some POLL_CLOSED)) (BadRequest ''Closed polls cannot be reopened'')) (\<lambda>_.
     bnd (only_if (qp_opens d \<noteq> None \<or> qp_closes d \<noteq> None)
       (validate_schedule (given_time (qp_opens d) (ql_opens p)) (given_time (qp_closes d) (ql_closes p)))) (\<lambda>_.
     bnd (only_if (qp_scope d \<noteq> None \<or> qp_blocks d \<noteq> None)
       (validate_audience (Some (case qp_scope d of None \<Rightarrow> ql_scope p | Some x \<Rightarrow> x))
         (Some (case qp_blocks d of None \<Rightarrow> ql_blocks p | Some x \<Rightarrow> x)))) (\<lambda>_.
     bnd (ensure (\<not> (qp_status d = Some POLL_OPEN \<and> ql_options p = [] \<and> (qp_options d = None \<or> qp_options d = Some [])))
       (BadRequest ''Poll must have at least two options before opening'')) (\<lambda>_.
     let d' = (if qp_status d = Some POLL_OPEN
               then d\<lparr>qp_opens := Some (Some (case given_time (qp_opens d) (ql_opens p) of None \<Rightarrow> ve_now e | Some t \<Rightarrow> t))\<rparr> else d) in
     bnd (txn (bnd (case qp_options d of None \<Rightarrow> ret () | Some os \<Rightarrow> only_if (st = POLL_DRAFT) (replace_options i os)) (\<lambda>_.
       bnd (set_poll e i (patched_poll d')) (\<lambda>_.
       bnd (gets (find_poll i)) (\<lambda>found. need found (NotFound ''Not Found'')))))) (\<lambda>p'.
     let st' = effective_status (ve_now e) p' in
     serialize_poll e p' u (st' \<noteq> POLL_DRAFT) (st' = POLL_CLOSED))))))))))"

section \<open>Ballots\<close>

definition ownership_at :: "int \<Rightarrow> ownership \<Rightarrow> bool" where
  "ownership_at n w \<longleftrightarrow> ow_active w \<and> (case ow_end w of None \<Rightarrow> True | Some t \<Rightarrow> n < t)"

definition find_ownership :: "int \<Rightarrow> string \<Rightarrow> string \<Rightarrow> gov_db \<Rightarrow> ownership option" where
  "find_ownership n user unit s =
     find (\<lambda>w. ow_user w = user \<and> ow_unit w = unit \<and> ownership_at n w) (vd_owners (gd_desk s))"

definition unit_condo :: "string \<Rightarrow> gov_db \<Rightarrow> string option" where
  "unit_condo unit s = map_option un_condo (find_unit unit (gd_desk s))"

definition unit_matches_audience :: "poll \<Rightarrow> string \<Rightarrow> bool" where
  "unit_matches_audience p block \<longleftrightarrow> ql_scope p = ALL_OWNERS \<or> block \<in> set (ql_blocks p)"

text \<open>What the meeting service adds to a ballot.\<close>

record ballot_note =
  bt_proxy :: bool
  bt_proxy_id :: "string option"
  bt_owner :: string
  bt_meeting :: string
  bt_resolution :: string

definition json_opt :: "string option \<Rightarrow> json" where
  "json_opt t = (case t of None \<Rightarrow> JNull | Some x \<Rightarrow> JStr x)"

definition ballot_meta :: "poll_option \<Rightarrow> ballot \<Rightarrow> ballot_note option \<Rightarrow> meta" where
  "ballot_meta q v x =
     [''event'' \<mapsto> JStr (if vt_meeting v = None then ''poll.vote_cast'' else ''governance.resolution.ballot_cast''),
      ''optionId'' \<mapsto> JStr (vt_option v), ''optionLabel'' \<mapsto> JStr (qo_label q), ''ownershipId'' \<mapsto> JStr (vt_ownership v),
      ''weight'' \<mapsto> JNum (vt_weight v), ''viaProxy'' \<mapsto> JBool (vt_proxy v), ''proxyId'' \<mapsto> json_opt (vt_proxy_id v),
      ''meetingId'' \<mapsto> json_opt (vt_meeting v), ''ownerUserId'' \<mapsto> JStr (vt_owner v), ''immutable'' \<mapsto> JBool True] ++
     (case x of None \<Rightarrow> Map.empty | Some n \<Rightarrow> [''resolutionId'' \<mapsto> JStr (bt_resolution n)])"

definition new_ballot ::
  "visit_env \<Rightarrow> auth_user \<Rightarrow> poll \<Rightarrow> ownership \<Rightarrow> string \<Rightarrow> string \<Rightarrow> ballot_note option \<Rightarrow> ballot" where
  "new_ballot e u p w unit opt x =
     \<lparr>vt_poll = ql_id p, vt_option = opt, vt_unit = unit, vt_user = user_id u, vt_ownership = ow_id w, vt_weight = ow_share w,
      vt_proxy = (case x of None \<Rightarrow> False | Some n \<Rightarrow> bt_proxy n), vt_proxy_id = (case x of None \<Rightarrow> None | Some n \<Rightarrow> bt_proxy_id n),
      vt_meeting = map_option bt_meeting x, vt_owner = (case x of None \<Rightarrow> ow_user w | Some n \<Rightarrow> bt_owner n), vt_at = ve_now e\<rparr>"

text \<open>
  A unique index: a row whose key is in the table is refused with Prisma's P2002, any other row is
  added. The services turn the refusal into an answer of their own.
\<close>

locale unique_index =
  fixes rows :: "'s \<Rightarrow> 'r list"
    and ins :: "'r \<Rightarrow> ('s, unit) act"
    and key :: "'r \<Rightarrow> 'k"
  assumes ins_new: "key r \<notin> key ` set (rows s) \<Longrightarrow> \<exists>t. ins r s = (Inr (), t) \<and> rows t = add_row r (rows s)"
    and ins_taken: "key r \<in> key ` set (rows s) \<Longrightarrow> \<exists>name. ins r s = (Inl (UniqueViolation name), s)"
begin

lemma ins_done: "ins r s = (Inr x, t) \<Longrightarrow> key r \<notin> key ` set (rows s) \<and> rows t = add_row r (rows s)"
  using ins_new [of r s] ins_taken [of r s] by (cases "key r \<in> key ` set (rows s)") auto

lemma ins_distinct: "preserves (\<lambda>s. distinct (map key (rows s))) (ins r)"
proof (rule preservesI)
  fix s assume "distinct (map key (rows s))"
  then show "distinct (map key (rows (snd (ins r s))))"
    using ins_new [of r s] ins_taken [of r s] by (cases "key r \<in> key ` set (rows s)") (auto simp: add_row_def)
qed

lemma ins_twice: "ins r s = (Inr x, t) \<Longrightarrow> key q = key r \<Longrightarrow> \<exists>name. ins q t = (Inl (UniqueViolation name), t)"
  using ins_done [of r s x t] by (intro ins_taken) (simp add: add_row_def)

end

text \<open>\<open>pollVote.create\<close> with \<open>@@unique([pollId, unitId])\<close>.\<close>

definition ballot_key :: "ballot \<Rightarrow> string \<times> string" where
  "ballot_key v = (vt_poll v, vt_unit v)"

definition insert_ballot :: "ballot \<Rightarrow> unit gvc" where
  "insert_ballot v =
     bnd (gets (\<lambda>s. list_ex (\<lambda>x. ballot_key x = ballot_key v) (gd_votes s))) (\<lambda>taken.
     bnd (ensure (\<not> taken) (UniqueViolation ''poll_votes_pollId_unitId_key'')) (\<lambda>_.
     modify (\<lambda>s. s\<lparr>gd_votes := add_row v (gd_votes s)\<rparr>)))"

lemma taken_key: "list_ex (\<lambda>x. key x = key r) xs \<longleftrightarrow> key r \<in> key ` set xs"
  unfolding list_ex_iff image_iff by metis

interpretation box: unique_index gd_votes insert_ballot ballot_key
  by unfold_locales (simp_all add: insert_ballot_def taken_key bnd_gets bnd_ensure modify_run)

text \<open>\<open>catch (err) { if (isUniqueViolation(err)) throw conflict; throw err }\<close>.\<close>

definition as_conflict :: "string \<Rightarrow> 'a gvc \<Rightarrow> 'a gvc" where
  "as_conflict msg m = (\<lambda>s. case m s of
     (Inl (UniqueViolation _), t) \<Rightarrow> (Inl (Conflict msg), t) | r \<Rightarrow> r)"

definition record_vote ::
  "visit_env \<Rightarrow> auth_user \<Rightarrow> poll \<Rightarrow> poll_option \<Rightarrow> ownership \<Rightarrow> string \<Rightarrow> ballot_note option \<Rightarrow> (ballot list) gvc" where
  "record_vote e u p q w unit x =
     (let v = new_ballot e u p w unit (qo_id q) x in
      bnd (as_conflict ''This unit has already voted in this poll''
        (txn (bnd (insert_ballot v) (\<lambda>_.
          gov_audit (ql_condo p) (Some unit) u AUDIT_CREATE ''PollVote'' (ql_id p) (ballot_meta q v x))))) (\<lambda>_.
      get_my_votes u (ql_id p)))"

definition assert_voting :: "visit_env \<Rightarrow> poll \<Rightarrow> unit gvc" where
  "assert_voting e p =
     bnd (maybe_auto_close e p) (\<lambda>st.
     bnd (ensure (st = POLL_OPEN) (BadRequest ''This poll is not open for voting'')) (\<lambda>_.
     bnd (ensure (case ql_opens p of None \<Rightarrow> True | Some t \<Rightarrow> t \<le> ve_now e) (BadRequest ''Voting has not opened yet'')) (\<lambda>_.
     ensure (case ql_closes p of None \<Rightarrow> True | Some t \<Rightarrow> ve_now e < t) (BadRequest ''Voting has closed''))))"

definition assert_in_audience :: "poll \<Rightarrow> string \<Rightarrow> unit gvc" where
  "assert_in_audience p unit =
     bnd (gets (unit_condo unit)) (\<lambda>c.
     bnd (ensure (c = Some (ql_condo p)) (BadRequest ''Unit does not belong to this poll'')) (\<lambda>_.
     bnd (gets (\<lambda>s. gd_block s unit)) (\<lambda>b.
     ensure (unit_matches_audience p b) (BadRequest ''This unit is not in the poll audience''))))"

definition cast_vote :: "visit_env \<Rightarrow> auth_user \<Rightarrow> string \<Rightarrow> string \<Rightarrow> string \<Rightarrow> (ballot list) gvc" where
  "cast_vote e u i unit opt =
     bnd (ensure (can_vote u) (Forbidden ''Only unit owners may vote on governance polls'')) (\<lambda>_.
     bnd (gets (find_poll i)) (\<lambda>found.
     bnd (need found (NotFound ''Not Found'')) (\<lambda>p.
     bnd (assert_voting e p) (\<lambda>_.
     bnd (need (find_row qo_id opt (ql_options p)) (BadRequest ''Invalid poll option'')) (\<lambda>q.
     bnd (gets (find_ownership (ve_now e) (user_id u) unit)) (\<lambda>w.
     bnd (need w (Forbidden ''You do not have active ownership on the selected unit'')) (\<lambda>w.
     bnd (assert_in_audience p unit) (\<lambda>_.
     record_vote e u p q w unit None))))))))"

definition cast_vote_with_ownership ::
  "visit_env \<Rightarrow> auth_user \<Rightarrow> string \<Rightarrow> string \<Rightarrow> string \<Rightarrow> ownership \<Rightarrow> ballot_note option \<Rightarrow> (ballot list) gvc" where
  "cast_vote_with_ownership e u i unit opt w x =
     bnd (gets (find_poll i)) (\<lambda>found.
     bnd (need found (NotFound ''Not Found'')) (\<lambda>p.
     bnd (assert_voting e p) (\<lambda>_.
     bnd (need (find_row qo_id opt (ql_options p)) (BadRequest ''Invalid poll option'')) (\<lambda>q.
     bnd (ensure (ow_unit w = unit) (BadRequest ''Ownership does not match the selected unit'')) (\<lambda>_.
     bnd (assert_in_audience p unit) (\<lambda>_.
     record_vote e u p q w unit x))))))"

end
