(* ===== verification/Meetings.thy ===== *)
theory Meetings
  imports Polls
begin

text \<open>
  General meetings (apps/api/src/governance/governance.service.ts): the notice with the balances of
  the funds, resolutions that are voted on in a poll of For, Against and Abstain, proxies, the quorum
  by share, results and minutes. The meetings use the polls through \<open>castVoteWithOwnership\<close>,
  \<open>computeResultsSnapshot\<close> and \<open>getOne\<close>, and the ledger through \<open>fundBalances\<close>. Names of users and
  units in the views are left out. The e-mail address of the caller is an argument.
\<close>

section \<open>Tables\<close>

definition find_meeting :: "string \<Rightarrow> gov_db \<Rightarrow> meeting option" where
  "find_meeting i s = find_row gm_id i (gd_meetings s)"

definition find_resolution :: "string \<Rightarrow> gov_db \<Rightarrow> resolution option" where
  "find_resolution i s = find_row rl_id i (gd_resolutions s)"

definition resolutions_of :: "string \<Rightarrow> gov_db \<Rightarrow> resolution list" where
  "resolutions_of i s = sort_key rl_position (filter (\<lambda>r. rl_meeting r = i) (gd_resolutions s))"

definition poll_of :: "resolution \<Rightarrow> gov_db \<Rightarrow> poll option" where
  "poll_of r s = (case rl_poll r of None \<Rightarrow> None | Some i \<Rightarrow> find_poll i s)"

definition need_meeting :: "string \<Rightarrow> meeting gvc" where
  "need_meeting i = bnd (gets (find_meeting i)) (\<lambda>found. need found (NotFound ''Not Found''))"

text \<open>A resolution with its meeting, which the foreign key keeps.\<close>

definition need_resolution :: "string \<Rightarrow> (resolution \<times> meeting) gvc" where
  "need_resolution i =
     bnd (gets (find_resolution i)) (\<lambda>found.
     bnd (need found (NotFound ''Not Found'')) (\<lambda>r.
     bnd (gets (find_meeting (rl_meeting r))) (\<lambda>m.
     bnd (need m (ServerError ''Inconsistent query result'')) (\<lambda>m. ret (r, m)))))"

definition set_meeting :: "string \<Rightarrow> (meeting \<Rightarrow> meeting) \<Rightarrow> meeting gvc" where
  "set_meeting i f =
     bnd (modify (\<lambda>s. s\<lparr>gd_meetings := set_row gm_id i f (gd_meetings s)\<rparr>)) (\<lambda>_. need_meeting i)"

definition set_resolution :: "string \<Rightarrow> (resolution \<Rightarrow> resolution) \<Rightarrow> unit gvc" where
  "set_resolution i f = modify (\<lambda>s. s\<lparr>gd_resolutions := set_row rl_id i f (gd_resolutions s)\<rparr>)"

definition emit_meeting :: "meeting_event \<Rightarrow> unit gvc" where
  "emit_meeting v = modify (\<lambda>s. s\<lparr>gd_events := gd_events s @ [v]\<rparr>)"

section \<open>Quorum\<close>

definition round3 :: "rat \<Rightarrow> rat" where
  "round3 x = of_int (js_round (x * 1000)) / 1000"

definition active_ownerships :: "int \<Rightarrow> string \<Rightarrow> gov_db \<Rightarrow> ownership list" where
  "active_ownerships n condo s =
     filter (\<lambda>w. ownership_at n w \<and> unit_condo (ow_unit w) s = Some condo) (vd_owners (gd_desk s))"

text \<open>\<open>byUnit\<close>: the largest share of each unit, for the units with a positive one.\<close>

fun share_add :: "string \<Rightarrow> rat \<Rightarrow> (string \<times> rat) list \<Rightarrow> (string \<times> rat) list" where
  "share_add k x [] = (if x > 0 then [(k, x)] else [])"
| "share_add k x ((k', y) # m) = (if k = k' then (k', if x > y then x else y) # m else (k', y) # share_add k x m)"

definition shares_by_unit :: "ownership list \<Rightarrow> (string \<times> rat) list" where
  "shares_by_unit ws = fold (\<lambda>w. share_add (ow_unit w) (ow_share w)) ws []"

definition quorum_of_shares :: "(string \<times> rat) list \<Rightarrow> rat \<Rightarrow> quorum" where
  "quorum_of_shares m q =
     (let total = sum_list (map snd m) in
      \<lparr>qm_percent = q, qm_units = length m, qm_share = round3 total, qm_cast_units = 0, qm_cast_share = 0,
       qm_cast_percent = (if total > 0 then 0 else if total = 0 \<and> q = 0 then 100 else 0), qm_met = (q \<le> 0)\<rparr>)"

definition quorum_baseline :: "visit_env \<Rightarrow> string \<Rightarrow> rat \<Rightarrow> gov_db \<Rightarrow> quorum" where
  "quorum_baseline e condo q s = quorum_of_shares (shares_by_unit (active_ownerships (ve_now e) condo s)) q"

definition with_cast :: "quorum \<Rightarrow> rat list \<Rightarrow> quorum" where
  "with_cast b ws =
     (let share = sum_list ws;
          percent = (if qm_share b > 0 then of_int (js_round (share / qm_share b * 100000)) / 1000
                     else if length ws > 0 then 100 else 0)
      in b\<lparr>qm_cast_units := length ws, qm_cast_share := round3 share, qm_cast_percent := percent,
           qm_met := (percent + 1 / 1000000000 \<ge> qm_percent b)\<rparr>)"

definition quorum_for_poll :: "visit_env \<Rightarrow> string \<Rightarrow> string \<Rightarrow> rat \<Rightarrow> gov_db \<Rightarrow> quorum" where
  "quorum_for_poll e condo i q s =
     with_cast (quorum_baseline e condo q s) (map vt_weight (filter (\<lambda>v. vt_poll v = i) (gd_votes s)))"

text \<open>
  \<open>buildEligibilitySnapshot\<close>: by unit, the owner with the largest share; the ownerships come by unit
  number and then by falling share.
\<close>

fun eligible_add :: "ownership \<Rightarrow> eligible_unit list \<Rightarrow> eligible_unit list" where
  "eligible_add w [] = [\<lparr>eu_unit = ow_unit w, eu_share = ow_share w, eu_owner = ow_user w\<rparr>]"
| "eligible_add w (x # xs) =
     (if eu_unit x = ow_unit w
      then (if ow_share w > eu_share x then x\<lparr>eu_share := ow_share w, eu_owner := ow_user w\<rparr> else x) # xs
      else x # eligible_add w xs)"

definition eligibility_snapshot :: "visit_env \<Rightarrow> string \<Rightarrow> gov_db \<Rightarrow> voter_register" where
  "eligibility_snapshot e condo s =
     (let ws = sort_key (\<lambda>w. vd_numbers (gd_desk s) (ow_unit w)) (sort_key (\<lambda>w. - ow_share w) (active_ownerships (ve_now e) condo s));
          us = fold eligible_add ws []
      in \<lparr>ey_at = ve_now e, ey_total = round3 (sum_list (map eu_share us)), ey_units = us\<rparr>)"

section \<open>Proxies\<close>

definition lower_trim :: "string \<Rightarrow> string" where
  "lower_trim t = to_lower (trim t)"

definition is_proxy_holder :: "auth_user \<Rightarrow> string option \<Rightarrow> proxy \<Rightarrow> bool" where
  "is_proxy_holder u mail x \<longleftrightarrow>
     (truthy (px_holder x) \<and> px_holder x = Some (user_id u)) \<or>
     (let contact = lower_trim (px_contact x) in contact \<noteq> [] \<and> (case mail of None \<Rightarrow> False | Some m \<Rightarrow> contact = lower_trim m))"

definition has_role_in :: "string \<Rightarrow> string \<Rightarrow> gov_db \<Rightarrow> bool" where
  "has_role_in user condo s \<longleftrightarrow> (user, condo) \<in> set (gd_roles s)"

definition resolve_proxy_holder :: "string \<Rightarrow> string option \<Rightarrow> string option \<Rightarrow> (string option) gvc" where
  "resolve_proxy_holder condo user contact =
     (if truthy user then
        bnd (gets (\<lambda>s. case find_row us_id (given_or user []) (vd_users (gd_desk s)) of
            None \<Rightarrow> None | Some x \<Rightarrow> if has_role_in (us_id x) condo s then Some (us_id x) else None)) (\<lambda>found.
        bnd (need found (BadRequest ''Proxy holder must be a registered resident in this condo'')) (\<lambda>i. ret (Some i)))
      else
        let mail = trim (given_or contact []) in
        if has_infix ''@'' mail then
          gets (\<lambda>s. case find (\<lambda>x. to_lower (us_email x) = to_lower mail) (vd_users (gd_desk s)) of
            None \<Rightarrow> None | Some x \<Rightarrow> if has_role_in (us_id x) condo s then Some (us_id x) else None)
        else ret None)"

text \<open>\<open>meetingProxy.create\<close> with \<open>@@unique([meetingId, unitId])\<close>.\<close>

definition proxy_key :: "proxy \<Rightarrow> string \<times> string" where
  "proxy_key x = (px_meeting x, px_unit x)"

definition insert_proxy :: "proxy \<Rightarrow> unit gvc" where
  "insert_proxy x =
     bnd (gets (\<lambda>s. list_ex (\<lambda>y. proxy_key y = proxy_key x) (gd_proxies s))) (\<lambda>taken.
     bnd (ensure (\<not> taken) (UniqueViolation ''meeting_proxies_meetingId_unitId_key'')) (\<lambda>_.
     modify (\<lambda>s. s\<lparr>gd_proxies := add_row x (gd_proxies s)\<rparr>)))"

interpretation proxies: unique_index gd_proxies insert_proxy proxy_key
  by unfold_locales (simp_all add: insert_proxy_def taken_key bnd_gets bnd_ensure modify_run)

record proxy_input =
  pi_unit :: string
  pi_name :: string
  pi_contact :: "string option"
  pi_holder :: "string option"

definition submit_proxy :: "visit_env \<Rightarrow> auth_user \<Rightarrow> string \<Rightarrow> proxy_input \<Rightarrow> proxy gvc" where
  "submit_proxy e u i d =
     bnd (ensure (can_vote u) (Forbidden ''Only unit owners may submit meeting proxies'')) (\<lambda>_.
     bnd (need_meeting i) (\<lambda>m.
     bnd (ensure (gm_status m = NOTICE_PUBLISHED \<or> gm_status m = IN_PROGRESS)
       (BadRequest ''Proxies can only be submitted after the notice is published'')) (\<lambda>_.
     bnd (gets (find_ownership (ve_now e) (user_id u) (pi_unit d))) (\<lambda>w.
     bnd (need w (Forbidden ''You do not have active ownership on the selected unit'')) (\<lambda>w.
     bnd (gets (unit_condo (pi_unit d))) (\<lambda>c.
     bnd (ensure (c = Some (gm_condo m)) (BadRequest ''Unit does not belong to this meeting'')) (\<lambda>_.
     bnd (resolve_proxy_holder (gm_condo m) (pi_holder d) (pi_contact d)) (\<lambda>holder.
     as_conflict ''A proxy has already been submitted for this unit'' (
       bnd gov_id (\<lambda>k.
       let x = \<lparr>px_id = k, px_meeting = i, px_unit = pi_unit d, px_owner = user_id u, px_holder = holder,
         px_name = trim (pi_name d), px_contact = trim (given_or (pi_contact d) []), px_at = ve_now e\<rparr> in
       bnd (insert_proxy x) (\<lambda>_.
       bnd (emit_meeting (ProxySubmitted (px_id x) i (gm_condo m) (user_id u) (pi_unit d) holder)) (\<lambda>_. ret x))))))))))))"

definition fetch_my_proxies :: "string \<Rightarrow> string \<Rightarrow> (proxy list) gvc" where
  "fetch_my_proxies user i = gets (\<lambda>s. sort_key px_at (filter (\<lambda>x. px_meeting x = i \<and> px_owner x = user) (gd_proxies s)))"

definition get_my_proxies :: "auth_user \<Rightarrow> string \<Rightarrow> (proxy list) gvc" where
  "get_my_proxies u i =
     bnd (need_meeting i) (\<lambda>m. bnd (assert_gov_access u (gm_condo m)) (\<lambda>_. fetch_my_proxies (user_id u) i))"

definition fetch_assignments :: "auth_user \<Rightarrow> string option \<Rightarrow> string \<Rightarrow> (proxy list) gvc" where
  "fetch_assignments u mail i =
     gets (\<lambda>s. case find_meeting i s of None \<Rightarrow> []
       | Some _ \<Rightarrow> sort_key px_at (filter (\<lambda>x. px_meeting x = i \<and> (px_holder x = Some (user_id u) \<or>
           (truthy mail \<and> to_lower (px_contact x) = to_lower (given_or mail [])))) (gd_proxies s)))"

definition list_meeting_proxies :: "auth_user \<Rightarrow> string \<Rightarrow> (proxy list) gvc" where
  "list_meeting_proxies u i =
     bnd (need_meeting i) (\<lambda>m. bnd (assert_gov_management u (gm_condo m)) (\<lambda>_.
     gets (\<lambda>s. sort_key px_at (filter (\<lambda>x. px_meeting x = i) (gd_proxies s)))))"

section \<open>Views\<close>

record meeting_view =
  mv_meeting :: meeting
  mv_notice :: string
  mv_minutes :: string
  mv_snapshot :: "(int \<times> (ledger_fund \<times> money) list) option"
  mv_resolutions :: nat
  mv_proxies :: nat

definition serialize_meeting :: "bool \<Rightarrow> meeting \<Rightarrow> gov_db \<Rightarrow> meeting_view" where
  "serialize_meeting manage m s =
     (let shown = (manage \<or> gm_status m \<noteq> MEETING_DRAFT) in
      \<lparr>mv_meeting = m, mv_notice = (if shown then gm_notice m else []),
       mv_minutes = (if manage \<or> gm_published m \<noteq> None then gm_minutes m else []),
       mv_snapshot = (if shown then gm_snapshot m else None),
       mv_resolutions = count_where (\<lambda>r. rl_meeting r = gm_id m) (gd_resolutions s),
       mv_proxies = count_where (\<lambda>x. px_meeting x = gm_id m) (gd_proxies s)\<rparr>)"

datatype shown_results = LiveResults "poll_results option" | StoredResults "poll_results \<times> quorum"

record resolution_view =
  rv_resolution :: resolution
  rv_status :: "poll_status option"
  rv_results :: shown_results
  rv_mine :: "ballot list option"
  rv_eligible :: "voter_register option"
  rv_stored :: "(poll_results \<times> quorum) option"

definition serialize_resolution ::
  "visit_env \<Rightarrow> resolution \<Rightarrow> auth_user \<Rightarrow> bool \<Rightarrow> bool \<Rightarrow> resolution_view gvc" where
  "serialize_resolution e r u manage detail =
     bnd (gets (poll_of r)) (\<lambda>p.
     let st = map_option ql_status p;
         opened = (st = Some POLL_OPEN); closed = (st = Some POLL_CLOSED);
         view = (\<lambda>v. \<lparr>rv_resolution = r,
           rv_status = (case v of None \<Rightarrow> st | Some x \<Rightarrow> Some (pv_status x)),
           rv_results = (case (v, rl_results r) of (Some _, Some x) \<Rightarrow> if closed then StoredResults x
               else LiveResults (case v of None \<Rightarrow> None | Some y \<Rightarrow> pv_results y)
             | (Some y, None) \<Rightarrow> LiveResults (pv_results y) | (None, _) \<Rightarrow> LiveResults None),
           rv_mine = (case v of None \<Rightarrow> None | Some x \<Rightarrow> pv_mine x),
           rv_eligible = (if manage \<or> opened \<or> closed then rl_eligible r else None),
           rv_stored = (if closed then rl_results r else None)\<rparr>) in
     (case rl_poll r of None \<Rightarrow> ret (view None)
      | Some i \<Rightarrow> if detail \<or> manage \<or> opened \<or> closed \<or> rl_results r \<noteq> None
          then bnd (get_poll e u i (Some manage)) (\<lambda>v. ret (view (Some v)))
          else ret (view None)))"

definition list_meetings ::
  "auth_user \<Rightarrow> string \<Rightarrow> bool \<Rightarrow> nat \<Rightarrow> nat \<Rightarrow> (meeting_view list \<times> nat) gvc" where
  "list_meetings u condo manage limit offset =
     bnd (assert_gov_access u condo) (\<lambda>_.
     let all = (manage \<and> is_gov_management u condo);
         p = (\<lambda>m. gm_condo m = condo \<and> (all \<or> gm_status m \<noteq> MEETING_DRAFT)) in
     gets (\<lambda>s. (map (\<lambda>m. serialize_meeting all m s)
         (take limit (drop offset (sort_key (\<lambda>m. - gm_scheduled m) (filter p (gd_meetings s))))),
       count_where p (gd_meetings s))))"

definition get_meeting ::
  "visit_env \<Rightarrow> auth_user \<Rightarrow> string option \<Rightarrow> string \<Rightarrow>
   (meeting_view \<times> resolution_view list \<times> proxy list option \<times> proxy list) gvc" where
  "get_meeting e u mail i =
     bnd (need_meeting i) (\<lambda>m.
     bnd (assert_gov_access u (gm_condo m)) (\<lambda>_.
     let manage = is_gov_management u (gm_condo m) in
     bnd (ensure (manage \<or> gm_status m \<noteq> MEETING_DRAFT) (NotFound ''Not Found'')) (\<lambda>_.
     bnd (if can_vote u then bnd (fetch_my_proxies (user_id u) i) (\<lambda>xs. ret (Some xs)) else ret None) (\<lambda>mine.
     bnd (fetch_assignments u mail i) (\<lambda>held.
     bnd (gets (resolutions_of i)) (\<lambda>rs.
     bnd (for_each rs (\<lambda>r. serialize_resolution e r u manage False)) (\<lambda>vs.
     bnd (gets (serialize_meeting manage m)) (\<lambda>v.
     ret (v, vs, mine, held)))))))))"

section \<open>Meetings\<close>

record meeting_input =
  mi_condo :: string
  mi_kind :: meeting_kind
  mi_title :: string
  mi_scheduled :: int
  mi_notice :: "string option"
  mi_quorum :: "rat option"

definition create_meeting :: "auth_user \<Rightarrow> meeting_input \<Rightarrow> meeting gvc" where
  "create_meeting u d =
     bnd (assert_gov_management u (mi_condo d)) (\<lambda>_.
     bnd gov_id (\<lambda>i.
     let m = \<lparr>gm_id = i, gm_condo = mi_condo d, gm_kind = mi_kind d, gm_title = trim (mi_title d), gm_scheduled = mi_scheduled d,
       gm_notice = trim (given_or (mi_notice d) []), gm_minutes = [], gm_published = None, gm_snapshot = None,
       gm_quorum = round3 (given_or (mi_quorum d) 50), gm_status = MEETING_DRAFT, gm_author = user_id u\<rparr> in
     bnd (modify (\<lambda>s. s\<lparr>gd_meetings := add_row m (gd_meetings s)\<rparr>)) (\<lambda>_. ret m)))"

record meeting_patch =
  mp_kind :: "meeting_kind option"
  mp_title :: "string option"
  mp_scheduled :: "int option"
  mp_notice :: "string option"
  mp_minutes :: "string option"
  mp_status :: "meeting_status option"
  mp_quorum :: "rat option"

definition patched_meeting :: "meeting_patch \<Rightarrow> meeting \<Rightarrow> meeting" where
  "patched_meeting d m =
     m\<lparr>gm_kind := given_or (mp_kind d) (gm_kind m), gm_title := given_or (map_option trim (mp_title d)) (gm_title m),
       gm_scheduled := given_or (mp_scheduled d) (gm_scheduled m), gm_notice := given_or (map_option trim (mp_notice d)) (gm_notice m),
       gm_minutes := given_or (map_option trim (mp_minutes d)) (gm_minutes m), gm_status := given_or (mp_status d) (gm_status m),
       gm_quorum := given_or (map_option round3 (mp_quorum d)) (gm_quorum m)\<rparr>"

definition update_meeting :: "auth_user \<Rightarrow> string \<Rightarrow> meeting_patch \<Rightarrow> meeting gvc" where
  "update_meeting u i d =
     bnd (need_meeting i) (\<lambda>m.
     bnd (assert_gov_management u (gm_condo m)) (\<lambda>_.
     bnd (ensure (\<not> (gm_status m = MEETING_CLOSED \<and> mp_status d \<noteq> Some MEETING_CLOSED)) (BadRequest ''Closed meetings cannot be reopened'')) (\<lambda>_.
     bnd (ensure (\<not> (gm_status m \<noteq> MEETING_DRAFT \<and> mp_notice d \<noteq> None))
       (BadRequest ''Notice body can only be edited while the meeting is a draft'')) (\<lambda>_.
     bnd (ensure (\<not> (gm_published m \<noteq> None \<and> mp_minutes d \<noteq> None)) (BadRequest ''Minutes cannot be edited after they are published'')) (\<lambda>_.
     bnd (ensure (\<not> (mp_minutes d \<noteq> None \<and> gm_status m = MEETING_DRAFT))
       (BadRequest ''Minutes can only be edited after the notice is published'')) (\<lambda>_.
     bnd (ensure (\<not> (mp_quorum d \<noteq> None \<and> gm_status m \<notin> {MEETING_DRAFT, NOTICE_PUBLISHED}))
       (BadRequest ''Quorum can only be changed before voting is in progress or the meeting is closed'')) (\<lambda>_.
     set_meeting i (patched_meeting d))))))))"

definition publish_notice :: "visit_env \<Rightarrow> auth_user \<Rightarrow> string \<Rightarrow> meeting gvc" where
  "publish_notice e u i =
     bnd (need_meeting i) (\<lambda>m.
     bnd (assert_gov_management u (gm_condo m)) (\<lambda>_.
     bnd (ensure (gm_status m = MEETING_DRAFT) (BadRequest ''Only draft meetings can have their notice published'')) (\<lambda>_.
     bnd (ensure (trim (gm_notice m) \<noteq> []) (BadRequest ''Notice body is required before publishing'')) (\<lambda>_.
     bnd (gets (\<lambda>s. fund_balances (gm_condo m) (vdb (gd_desk s)))) (\<lambda>funds.
     bnd (set_meeting i (\<lambda>m. m\<lparr>gm_status := NOTICE_PUBLISHED, gm_snapshot := Some (ve_now e, funds)\<rparr>)) (\<lambda>m'.
     bnd (emit_meeting (NoticePublished i (gm_condo m'))) (\<lambda>_. ret m')))))))"

definition publish_minutes :: "visit_env \<Rightarrow> auth_user \<Rightarrow> string \<Rightarrow> string option \<Rightarrow> meeting gvc" where
  "publish_minutes e u i body =
     bnd (need_meeting i) (\<lambda>m.
     bnd (assert_gov_management u (gm_condo m)) (\<lambda>_.
     bnd (ensure (gm_status m = IN_PROGRESS \<or> gm_status m = MEETING_CLOSED)
       (BadRequest ''Minutes can only be published when the meeting is in progress or closed'')) (\<lambda>_.
     bnd (gets (\<lambda>s. list_ex (\<lambda>r. map_option ql_status (poll_of r s) = Some POLL_OPEN) (resolutions_of i s))) (\<lambda>still.
     bnd (ensure (\<not> still) (BadRequest ''All resolution polls must be closed before publishing minutes'')) (\<lambda>_.
     let b = given_or (map_option trim body) (gm_minutes m) in
     bnd (ensure (trim b \<noteq> []) (BadRequest ''Minutes body is required before publishing'')) (\<lambda>_.
     bnd (set_meeting i (\<lambda>m. m\<lparr>gm_minutes := b, gm_published := Some (ve_now e)\<rparr>)) (\<lambda>m'.
     bnd (emit_meeting (MinutesPublished i (gm_condo m'))) (\<lambda>_. ret m'))))))))"

section \<open>Resolutions\<close>

definition add_resolution ::
  "visit_env \<Rightarrow> auth_user \<Rightarrow> string \<Rightarrow> string \<Rightarrow> string option \<Rightarrow> int option \<Rightarrow> resolution_view gvc" where
  "add_resolution e u i title desc position =
     bnd (need_meeting i) (\<lambda>m.
     bnd (assert_gov_management u (gm_condo m)) (\<lambda>_.
     bnd (ensure (gm_status m \<noteq> MEETING_CLOSED) (BadRequest ''Cannot add resolutions to a closed meeting'')) (\<lambda>_.
     bnd gov_id (\<lambda>k.
     let r = \<lparr>rl_id = k, rl_meeting = i, rl_title = trim title, rl_desc = trim (given_or desc []), rl_poll = None, rl_opens = None,
       rl_closes = None, rl_eligible = None, rl_results = None, rl_position = given_or position 0\<rparr> in
     bnd (modify (\<lambda>s. s\<lparr>gd_resolutions := add_row r (gd_resolutions s)\<rparr>)) (\<lambda>_.
     serialize_resolution e r u True False)))))"

definition read_resolution :: "string \<Rightarrow> resolution gvc" where
  "read_resolution i = bnd (gets (find_resolution i)) (\<lambda>found. need found (NotFound ''Not Found''))"

definition update_resolution ::
  "visit_env \<Rightarrow> auth_user \<Rightarrow> string \<Rightarrow> string option \<Rightarrow> string option \<Rightarrow> int option \<Rightarrow> resolution_view gvc" where
  "update_resolution e u i title desc position =
     bnd (need_resolution i) (\<lambda>(r, m).
     bnd (assert_gov_management u (gm_condo m)) (\<lambda>_.
     bnd (gets (poll_of r)) (\<lambda>p.
     bnd (ensure (\<not> (rl_poll r \<noteq> None \<and> map_option ql_status p \<noteq> Some POLL_DRAFT))
       (BadRequest ''Resolution cannot be edited after voting has opened'')) (\<lambda>_.
     bnd (set_resolution i (\<lambda>r. r\<lparr>rl_title := given_or (map_option trim title) (rl_title r),
       rl_desc := given_or (map_option trim desc) (rl_desc r), rl_position := given_or position (rl_position r)\<rparr>)) (\<lambda>_.
     bnd (read_resolution i) (\<lambda>r'. serialize_resolution e r' u True False))))))"

definition resolution_options :: "option_input list" where
  "resolution_options = [(''For'', Some 0), (''Against'', Some 1), (''Abstain'', Some 2)]"

text \<open>\<open>pollId @unique\<close>: the poll is new, so no other resolution has it.\<close>

definition open_voting_tx :: "visit_env \<Rightarrow> auth_user \<Rightarrow> resolution \<Rightarrow> meeting \<Rightarrow> int \<Rightarrow> int option \<Rightarrow> voter_register \<Rightarrow> resolution gvc" where
  "open_voting_tx e u r m a z el =
     bnd (insert_poll e \<lparr>ql_id = [], ql_condo = gm_condo m, ql_title = rl_title r, ql_desc = rl_desc r, ql_status = POLL_OPEN,
       ql_opens = Some a, ql_closes = z, ql_author = user_id u, ql_scope = ALL_OWNERS, ql_blocks = [], ql_options = [],
       ql_created = 0, ql_updated = 0\<rparr> resolution_options) (\<lambda>p.
     bnd (set_resolution (rl_id r) (\<lambda>r. r\<lparr>rl_poll := Some (ql_id p), rl_opens := Some a, rl_closes := z, rl_eligible := Some el\<rparr>)) (\<lambda>_.
     bnd (read_resolution (rl_id r)) (\<lambda>r'.
     bnd (only_if (gm_status m = NOTICE_PUBLISHED)
       (bnd (set_meeting (gm_id m) (\<lambda>m. m\<lparr>gm_status := IN_PROGRESS\<rparr>)) (\<lambda>_. ret ()))) (\<lambda>_.
     ret r'))))"

definition open_resolution_voting ::
  "visit_env \<Rightarrow> auth_user \<Rightarrow> string \<Rightarrow> int option \<Rightarrow> int option \<Rightarrow> resolution_view gvc" where
  "open_resolution_voting e u i a z =
     bnd (need_resolution i) (\<lambda>(r, m).
     bnd (assert_gov_management u (gm_condo m)) (\<lambda>_.
     bnd (ensure (rl_poll r = None) (BadRequest ''Voting is already open for this resolution'')) (\<lambda>_.
     bnd (ensure (gm_status m = NOTICE_PUBLISHED \<or> gm_status m = IN_PROGRESS)
       (BadRequest ''Meeting notice must be published before opening voting'')) (\<lambda>_.
     let a' = given_or a (ve_now e) in
     bnd (ensure (case z of None \<Rightarrow> True | Some t \<Rightarrow> a' < t) (BadRequest ''votingClosesAt must be after votingOpensAt'')) (\<lambda>_.
     bnd (gets (eligibility_snapshot e (gm_condo m))) (\<lambda>el.
     bnd (txn (open_voting_tx e u r m a' z el)) (\<lambda>r'.
     bnd (emit_meeting (ResolutionOpened i (rl_meeting r) (gm_condo m) (given_or (rl_poll r') []))) (\<lambda>_.
     serialize_resolution e r' u True True))))))))"

definition close_voting_tx ::
  "visit_env \<Rightarrow> auth_user \<Rightarrow> resolution \<Rightarrow> meeting \<Rightarrow> poll \<Rightarrow> poll_results \<times> quorum \<Rightarrow> unit gvc" where
  "close_voting_tx e u r m p x =
     bnd (set_poll e (ql_id p) (\<lambda>p. p\<lparr>ql_status := POLL_CLOSED\<rparr>)) (\<lambda>_.
     bnd (set_resolution (rl_id r) (\<lambda>q. q\<lparr>rl_results := Some x, rl_closes := Some (given_or (rl_closes r) (ve_now e))\<rparr>)) (\<lambda>_.
     gov_audit (gm_condo m) None u AUDIT_UPDATE ''MeetingResolution'' (rl_id r)
       [''event'' \<mapsto> JStr ''governance.resolution.voting_closed'', ''meetingId'' \<mapsto> JStr (rl_meeting r),
        ''pollId'' \<mapsto> JStr (ql_id p), ''quorumMet'' \<mapsto> JBool (qm_met (snd x))]))"

definition close_resolution_voting :: "visit_env \<Rightarrow> auth_user \<Rightarrow> string \<Rightarrow> resolution_view gvc" where
  "close_resolution_voting e u i =
     bnd (need_resolution i) (\<lambda>(r, m).
     bnd (assert_gov_management u (gm_condo m)) (\<lambda>_.
     bnd (gets (poll_of r)) (\<lambda>found.
     bnd (need found (BadRequest ''Voting is not open for this resolution'')) (\<lambda>p.
     bnd (ensure (ql_status p \<noteq> POLL_CLOSED) (BadRequest ''Voting is already closed'')) (\<lambda>_.
     bnd (compute_results_snapshot (ql_id p) True) (\<lambda>res.
     bnd (gets (quorum_for_poll e (gm_condo m) (ql_id p) (gm_quorum m))) (\<lambda>q.
     bnd (txn (close_voting_tx e u r m p (res, q))) (\<lambda>_.
     bnd (read_resolution i) (\<lambda>r'.
     bnd (emit_meeting (ResolutionClosed i (rl_meeting r) (gm_condo m) (ql_id p) (qm_met q))) (\<lambda>_.
     serialize_resolution e r' u True True))))))))))"

definition get_resolution_results ::
  "visit_env \<Rightarrow> auth_user \<Rightarrow> string \<Rightarrow> (owner_poll_view \<times> shown_results) gvc" where
  "get_resolution_results e u i =
     bnd (need_resolution i) (\<lambda>(r, m).
     bnd (assert_gov_access u (gm_condo m)) (\<lambda>_.
     let manage = is_gov_management u (gm_condo m) in
     bnd (ensure (manage \<or> gm_status m \<noteq> MEETING_DRAFT) (NotFound ''Not Found'')) (\<lambda>_.
     bnd (need (rl_poll r) (BadRequest ''Voting has not opened for this resolution'')) (\<lambda>p.
     bnd (get_poll e u p (Some manage)) (\<lambda>v.
     ret (v, case rl_results r of Some x \<Rightarrow> StoredResults x | None \<Rightarrow> LiveResults (pv_results v)))))))"

definition cast_resolution_vote ::
  "visit_env \<Rightarrow> auth_user \<Rightarrow> string option \<Rightarrow> string \<Rightarrow> string \<Rightarrow> string \<Rightarrow> (ballot list) gvc" where
  "cast_resolution_vote e u mail i unit opt =
     bnd (need_resolution i) (\<lambda>(r, m).
     bnd (gets (poll_of r)) (\<lambda>found.
     bnd (need found (BadRequest ''Voting is not open for this resolution'')) (\<lambda>p.
     bnd (ensure (ql_status p = POLL_OPEN) (BadRequest ''Voting is not open for this resolution'')) (\<lambda>_.
     bnd (ensure (gm_status m = IN_PROGRESS \<or> gm_status m = NOTICE_PUBLISHED) (BadRequest ''Meeting is not open for e-voting'')) (\<lambda>_.
     bnd (gets (\<lambda>s. find (\<lambda>x. px_meeting x = rl_meeting r \<and> px_unit x = unit) (gd_proxies s))) (\<lambda>found.
     case found of
       Some x \<Rightarrow>
         bnd (ensure (px_owner x \<noteq> user_id u)
           (Conflict (''You submitted a proxy for this unit '' @ em_dash @ '' only your proxy holder may vote''))) (\<lambda>_.
         bnd (ensure (is_proxy_holder u mail x) (Forbidden ''You are not the designated proxy holder for this unit'')) (\<lambda>_.
         bnd (gets (find_ownership (ve_now e) (px_owner x) unit)) (\<lambda>w.
         bnd (need w (BadRequest ''Proxied unit has no active ownership record'')) (\<lambda>w.
         cast_vote_with_ownership e u (ql_id p) unit opt w (Some \<lparr>bt_proxy = True, bt_proxy_id = Some (px_id x),
           bt_owner = px_owner x, bt_meeting = rl_meeting r, bt_resolution = rl_id r\<rparr>)))))
     | None \<Rightarrow>
         bnd (gets (find_ownership (ve_now e) (user_id u) unit)) (\<lambda>w.
         bnd (need w (Forbidden ''You do not have active ownership on the selected unit'')) (\<lambda>w.
         bnd (gets (unit_condo unit)) (\<lambda>c.
         bnd (ensure (c = Some (gm_condo m)) (BadRequest ''Unit does not belong to this meeting'')) (\<lambda>_.
         cast_vote_with_ownership e u (ql_id p) unit opt w (Some \<lparr>bt_proxy = False, bt_proxy_id = None,
           bt_owner = user_id u, bt_meeting = rl_meeting r, bt_resolution = rl_id r\<rparr>)))))))))))"

section \<open>Who may vote\<close>

record castable_unit =
  cu_unit :: string
  cu_share :: rat
  cu_proxy :: bool
  cu_voted :: bool
  cu_blocked :: bool

definition own_units :: "int \<Rightarrow> auth_user \<Rightarrow> meeting \<Rightarrow> string list \<Rightarrow> proxy list \<Rightarrow> gov_db \<Rightarrow> castable_unit list" where
  "own_units n u m voted xs s =
     map (\<lambda>w. \<lparr>cu_unit = ow_unit w, cu_share = ow_share w, cu_proxy = False, cu_voted = (ow_unit w \<in> set voted),
         cu_blocked = list_ex (\<lambda>x. px_unit x = ow_unit w) xs\<rparr>)
       (filter (\<lambda>w. ow_user w = user_id u) (active_ownerships n (gm_condo m) s))"

definition held_unit :: "int \<Rightarrow> string list \<Rightarrow> gov_db \<Rightarrow> proxy \<Rightarrow> castable_unit list \<Rightarrow> castable_unit list" where
  "held_unit n voted s x us =
     (if list_ex (\<lambda>c. cu_unit c = px_unit x \<and> \<not> cu_blocked c) us then us
      else us @ [\<lparr>cu_unit = px_unit x,
        cu_share = (case find_ownership n (px_owner x) (px_unit x) s of None \<Rightarrow> 0 | Some w \<Rightarrow> ow_share w),
        cu_proxy = True, cu_voted = (px_unit x \<in> set voted), cu_blocked = False\<rparr>])"

definition eligible_units :: "int \<Rightarrow> auth_user \<Rightarrow> string option \<Rightarrow> resolution \<Rightarrow> meeting \<Rightarrow> gov_db \<Rightarrow> castable_unit list" where
  "eligible_units n u mail r m s =
     (let xs = filter (\<lambda>x. px_meeting x = rl_meeting r) (gd_proxies s);
          voted = (case rl_poll r of None \<Rightarrow> [] | Some i \<Rightarrow> map vt_unit (filter (\<lambda>v. vt_poll v = i) (gd_votes s)))
      in fold (held_unit n voted s) (filter (is_proxy_holder u mail) xs) (own_units n u m voted xs s))"

record eligibility_view =
  ev_open :: bool
  ev_quorum :: quorum
  ev_units :: "castable_unit list"
  ev_castable :: nat

definition get_voting_eligibility ::
  "visit_env \<Rightarrow> auth_user \<Rightarrow> string option \<Rightarrow> string \<Rightarrow> eligibility_view gvc" where
  "get_voting_eligibility e u mail i =
     bnd (need_resolution i) (\<lambda>(r, m).
     bnd (assert_gov_access u (gm_condo m)) (\<lambda>_.
     bnd (ensure (is_gov_management u (gm_condo m) \<or> gm_status m \<noteq> MEETING_DRAFT) (NotFound ''Not Found'')) (\<lambda>_.
     bnd (gets (eligible_units (ve_now e) u mail r m)) (\<lambda>us.
     bnd (gets (\<lambda>s. map_option ql_status (poll_of r s) = Some POLL_OPEN \<and> (gm_status m = IN_PROGRESS \<or> gm_status m = NOTICE_PUBLISHED))) (\<lambda>opened.
     bnd (gets (case rl_poll r of None \<Rightarrow> quorum_baseline e (gm_condo m) (gm_quorum m)
         | Some p \<Rightarrow> quorum_for_poll e (gm_condo m) p (gm_quorum m))) (\<lambda>q.
     ret \<lparr>ev_open = opened, ev_quorum = q, ev_units = us,
          ev_castable = count_where (\<lambda>c. \<not> cu_blocked c \<and> \<not> cu_voted c) us\<rparr>))))))"

definition list_resolution_ballots :: "visit_env \<Rightarrow> auth_user \<Rightarrow> string \<Rightarrow> (quorum \<times> ballot list) gvc" where
  "list_resolution_ballots e u i =
     bnd (need_resolution i) (\<lambda>(r, m).
     bnd (assert_gov_management u (gm_condo m)) (\<lambda>_.
     bnd (need (rl_poll r) (BadRequest ''Voting has not opened for this resolution'')) (\<lambda>p.
     bnd (gets (\<lambda>s. sort_key vt_at (filter (\<lambda>v. vt_poll v = p) (gd_votes s)))) (\<lambda>vs.
     bnd (gets (quorum_for_poll e (gm_condo m) p (gm_quorum m))) (\<lambda>q. ret (q, vs))))))"

definition get_meeting_quorum :: "visit_env \<Rightarrow> auth_user \<Rightarrow> string \<Rightarrow> quorum gvc" where
  "get_meeting_quorum e u i =
     bnd (need_meeting i) (\<lambda>m.
     bnd (assert_gov_access u (gm_condo m)) (\<lambda>_.
     bnd (ensure (is_gov_management u (gm_condo m) \<or> gm_status m \<noteq> MEETING_DRAFT) (NotFound ''Not Found'')) (\<lambda>_.
     gets (quorum_baseline e (gm_condo m) (gm_quorum m)))))"

end
