(* ===== verification/Meeting_Reach.thy ===== *)
theory Meeting_Reach
  imports Meetings Form_Reach
begin

text \<open>
  What every call of the polls and meetings services keeps: the invariant of polls, ballots, proxies
  and resolutions, and what stays of them for good once a poll is closed.
\<close>

section \<open>The invariant\<close>

definition ballots_of :: "string \<Rightarrow> gov_db \<Rightarrow> ballot list" where
  "ballots_of i s = filter (\<lambda>v. vt_poll v = i) (gd_votes s)"

definition is_closed :: "string \<Rightarrow> gov_db \<Rightarrow> bool" where
  "is_closed i s \<longleftrightarrow> (\<exists>p. find_poll i s = Some p \<and> ql_status p = POLL_CLOSED)"

definition option_ids :: "poll list \<Rightarrow> string list" where
  "option_ids ps = concat (map (\<lambda>p. map qo_id (ql_options p)) ps)"

lemma option_ids_simps [simp]:
  "option_ids [] = []" "option_ids (p # ps) = map qo_id (ql_options p) @ option_ids ps"
  "option_ids (ps @ qs) = option_ids ps @ option_ids qs"
  by (simp_all add: option_ids_def)

definition gov_ids_ok :: "gov_db \<Rightarrow> bool" where
  "gov_ids_ok s \<longleftrightarrow> inj (uuids (vdb (gd_desk s))) \<and> distinct (map ql_id (gd_polls s)) \<and>
     distinct (map rl_id (gd_resolutions s)) \<and> distinct (option_ids (gd_polls s)) \<and>
     ql_id ` set (gd_polls s) \<union> rl_id ` set (gd_resolutions s) \<union> set (option_ids (gd_polls s)) \<subseteq> drawn (gd_desk s)"

text \<open>A ballot is for an option of its poll and for a unit of the poll's condo.\<close>

definition ballot_ok :: "gov_db \<Rightarrow> ballot \<Rightarrow> bool" where
  "ballot_ok s v \<longleftrightarrow> (\<exists>p. find_poll (vt_poll v) s = Some p \<and> vt_option v \<in> qo_id ` set (ql_options p) \<and>
     unit_condo (vt_unit v) s = Some (ql_condo p))"

definition resolution_ok :: "gov_db \<Rightarrow> resolution \<Rightarrow> bool" where
  "resolution_ok s r \<longleftrightarrow> (\<forall>i. rl_poll r = Some i \<longrightarrow> find_poll i s \<noteq> None) \<and>
     (rl_results r \<noteq> None \<longrightarrow> (\<exists>i. rl_poll r = Some i \<and> is_closed i s))"

definition gov_inv :: "gov_db \<Rightarrow> bool" where
  "gov_inv s \<longleftrightarrow> gov_ids_ok s \<and> distinct (map ballot_key (gd_votes s)) \<and> distinct (map proxy_key (gd_proxies s)) \<and>
     (\<forall>v \<in> set (gd_votes s). ballot_ok s v) \<and> (\<forall>r \<in> set (gd_resolutions s). resolution_ok s r)"

text \<open>What stays.\<close>

definition polls_kept :: "gov_db \<Rightarrow> gov_db \<Rightarrow> bool" where
  "polls_kept s t \<longleftrightarrow> (\<forall>i p. find_poll i s = Some p \<longrightarrow> (\<exists>q. find_poll i t = Some q \<and> ql_condo q = ql_condo p \<and>
     (ql_status p = POLL_CLOSED \<longrightarrow> ql_status q = POLL_CLOSED \<and> ql_options q = ql_options p \<and> ballots_of i t = ballots_of i s)))"

definition resolutions_kept :: "gov_db \<Rightarrow> gov_db \<Rightarrow> bool" where
  "resolutions_kept s t \<longleftrightarrow> (\<forall>i r. find_resolution i s = Some r \<longrightarrow> (\<exists>q. find_resolution i t = Some q \<and>
     rl_meeting q = rl_meeting r \<and> (rl_poll r \<noteq> None \<longrightarrow> rl_poll q = rl_poll r) \<and>
     (\<forall>k. rl_poll r = Some k \<longrightarrow> is_closed k s \<longrightarrow> rl_results q = rl_results r)))"

definition gov_ok :: "gov_db \<Rightarrow> gov_db \<Rightarrow> bool" where
  "gov_ok s0 s \<longleftrightarrow> gov_inv s \<and> polls_kept s0 s \<and> resolutions_kept s0 s"

lemma polls_kept_refl [simp]: "polls_kept s s"
  by (simp add: polls_kept_def)

lemma polls_kept_trans: "polls_kept s t \<Longrightarrow> polls_kept t u \<Longrightarrow> polls_kept s u"
  unfolding polls_kept_def by fastforce

lemma kept_closed: "polls_kept s t \<Longrightarrow> is_closed i s \<Longrightarrow> is_closed i t"
  unfolding polls_kept_def is_closed_def by blast

lemma resolutions_kept_refl [simp]: "resolutions_kept s s"
  by (simp add: resolutions_kept_def)

lemma resolutions_kept_trans:
  assumes "resolutions_kept s t" and "resolutions_kept t u" and "polls_kept s t"
  shows "resolutions_kept s u"
  unfolding resolutions_kept_def
proof (intro allI impI)
  fix i r assume "find_resolution i s = Some r"
  then obtain q where q: "find_resolution i t = Some q" "rl_meeting q = rl_meeting r" "rl_poll r \<noteq> None \<longrightarrow> rl_poll q = rl_poll r"
    "\<And>k. rl_poll r = Some k \<Longrightarrow> is_closed k s \<Longrightarrow> rl_results q = rl_results r"
    using assms(1) unfolding resolutions_kept_def by blast
  then obtain p where "find_resolution i u = Some p" "rl_meeting p = rl_meeting q" "rl_poll q \<noteq> None \<longrightarrow> rl_poll p = rl_poll q"
    "\<And>k. rl_poll q = Some k \<Longrightarrow> is_closed k t \<Longrightarrow> rl_results p = rl_results q"
    using assms(2) unfolding resolutions_kept_def by blast
  with q kept_closed [OF assms(3)] show "\<exists>q. find_resolution i u = Some q \<and> rl_meeting q = rl_meeting r \<and>
      (rl_poll r \<noteq> None \<longrightarrow> rl_poll q = rl_poll r) \<and>
      (\<forall>k. rl_poll r = Some k \<longrightarrow> is_closed k s \<longrightarrow> rl_results q = rl_results r)"
    by (intro exI [of _ p]) auto
qed

lemma gov_ok_refl: "gov_inv s \<Longrightarrow> gov_ok s s"
  by (simp add: gov_ok_def)

lemma gov_okD: "gov_ok s0 s \<Longrightarrow> gov_inv s"
  by (simp add: gov_ok_def)

lemma gov_ok_next: "gov_ok s0 s \<Longrightarrow> gov_inv t \<Longrightarrow> polls_kept s t \<Longrightarrow> resolutions_kept s t \<Longrightarrow> gov_ok s0 t"
  unfolding gov_ok_def using polls_kept_trans resolutions_kept_trans by blast

lemma find_poll_Some: "gov_inv s \<Longrightarrow> find_poll i s = Some p \<longleftrightarrow> p \<in> set (gd_polls s) \<and> ql_id p = i"
  using find_row_mem [of ql_id i "gd_polls s" p] find_row_key [of ql_id i "gd_polls s" p] find_row_distinct [of ql_id "gd_polls s" p]
  by (auto simp: gov_inv_def gov_ids_ok_def find_poll_def)

lemma find_resolution_Some: "gov_inv s \<Longrightarrow> find_resolution i s = Some r \<longleftrightarrow> r \<in> set (gd_resolutions s) \<and> rl_id r = i"
  using find_row_mem [of rl_id i "gd_resolutions s" r] find_row_key [of rl_id i "gd_resolutions s" r]
    find_row_distinct [of rl_id "gd_resolutions s" r]
  by (auto simp: gov_inv_def gov_ids_ok_def find_resolution_def)

section \<open>Changes elsewhere\<close>

text \<open>Ids are only drawn, and units stay in their condo.\<close>

definition desk_later :: "visitor_db \<Rightarrow> visitor_db \<Rightarrow> bool" where
  "desk_later d e \<longleftrightarrow> id_grow (vdb d) (vdb e) \<and>
     (\<forall>u c. map_option un_condo (find_unit u d) = Some c \<longrightarrow> map_option un_condo (find_unit u e) = Some c)"

lemma desk_later_refl [simp]: "desk_later d d"
  by (simp add: desk_later_def)

lemma desk_later_trans: "desk_later c d \<Longrightarrow> desk_later d e \<Longrightarrow> desk_later c e"
  by (auto simp: desk_later_def id_grow_def)

lemma desk_later_bump [simp]: "desk_later d (bump d)"
  by (simp add: desk_later_def id_grow_def find_unit_def bump_def new_id_def on_part_def vdb_def)

lemma desk_later_inj: "desk_later d e \<Longrightarrow> inj (uuids (vdb e)) = inj (uuids (vdb d))"
  by (simp add: desk_later_def id_grow_def)

lemma desk_later_drawn: "desk_later d e \<Longrightarrow> drawn d \<subseteq> drawn e"
  unfolding desk_later_def using drawn_grow by blast

lemma fresh_id: "inj (uuids (vdb d)) \<Longrightarrow> fresh d \<notin> drawn d \<and> fresh d \<in> drawn (bump d)"
  by (auto simp: inj_def fresh_def drawn_def)

lemma ballot_ok_cong:
  assumes "ballot_ok s v" and "desk_later (gd_desk s) (gd_desk t)"
    and "\<And>p. find_poll (vt_poll v) s = Some p \<Longrightarrow> vt_option v \<in> qo_id ` set (ql_options p) \<Longrightarrow>
      \<exists>q. find_poll (vt_poll v) t = Some q \<and> ql_condo q = ql_condo p \<and> vt_option v \<in> qo_id ` set (ql_options q)"
  shows "ballot_ok t v"
proof -
  obtain p where p: "find_poll (vt_poll v) s = Some p" "vt_option v \<in> qo_id ` set (ql_options p)"
    "unit_condo (vt_unit v) s = Some (ql_condo p)" using assms(1) unfolding ballot_ok_def by blast
  moreover obtain q where "find_poll (vt_poll v) t = Some q" "ql_condo q = ql_condo p" "vt_option v \<in> qo_id ` set (ql_options q)"
    using assms(3) [OF p(1, 2)] by blast
  ultimately show ?thesis using assms(2) unfolding ballot_ok_def by (auto simp: unit_condo_def desk_later_def)
qed

lemma resolution_ok_cong: "resolution_ok s r \<Longrightarrow> polls_kept s t \<Longrightarrow> resolution_ok t r"
  unfolding resolution_ok_def using kept_closed [of s t] by (fastforce simp: polls_kept_def)

lemma ok_elsewhere:
  assumes ok: "gov_ok s0 s" and same: "gd_polls t = gd_polls s" "gd_votes t = gd_votes s" "gd_resolutions t = gd_resolutions s"
    and px: "distinct (map proxy_key (gd_proxies t))" and d: "desk_later (gd_desk s) (gd_desk t)"
  shows "gov_ok s0 t"
proof (rule gov_ok_next [OF ok])
  have fp: "find_poll i t = find_poll i s" for i by (simp add: find_poll_def same)
  then show kept: "polls_kept s t" by (auto simp: polls_kept_def ballots_of_def same)
  show "resolutions_kept s t" by (simp add: resolutions_kept_def find_resolution_def same)
  show "gov_inv t"
    using gov_okD [OF ok] px desk_later_drawn [OF d] desk_later_inj [OF d] ballot_ok_cong [OF _ d] resolution_ok_cong [OF _ kept]
    by (auto simp: gov_inv_def gov_ids_ok_def same fp)
qed

lemma ok_desk:
  assumes "gov_ok s0 s" and "desk_later (gd_desk s) d"
  shows "gov_ok s0 (s\<lparr>gd_desk := d\<rparr>)"
  using assms(2) gov_okD [OF assms(1)] by (intro ok_elsewhere [OF assms(1)]) (simp_all add: gov_inv_def)

lemma ok_other_table:
  assumes "\<And>s. gd_polls (f s) = gd_polls s \<and> gd_votes (f s) = gd_votes s \<and> gd_resolutions (f s) = gd_resolutions s \<and>
    gd_proxies (f s) = gd_proxies s \<and> gd_desk (f s) = gd_desk s"
  shows "preserves (gov_ok s0) (modify f)"
proof (rule preserves_modify)
  fix s assume ok: "gov_ok s0 s"
  then show "gov_ok s0 (f s)" using assms [of s] gov_okD [OF ok] by (intro ok_elsewhere [OF ok]) (simp_all add: gov_inv_def)
qed

lemma wp_gov_id: "wp gov_id Q E s = Q (fresh (gd_desk s)) (s\<lparr>gd_desk := bump (gd_desk s)\<rparr>)"
  unfolding wp_on_part [of gd_desk gd_desk_update "visit_base new_id"] wp_fresh ..

lemma gov_id_ok [pres]: "preserves (gov_ok s0) gov_id"
  by (rule preservesW) (simp add: wp_gov_id ok_desk)

lemma gov_shared [pres]:
  "preserves (gov_ok s0) (gov_audit condo unit u a resource i m)" "preserves (gov_ok s0) (emit_meeting v)"
proof -
  have "desk_later d (snd (visit_audit condo unit u a resource i m d))" for d
    by (auto simp: visit_audit_def log_audit_def on_part_def modify_def bnd_def gets_def ret_def desk_later_def id_grow_def vdb_def
        find_unit_def split: prod.splits)
  then show "preserves (gov_ok s0) (gov_audit condo unit u a resource i m)"
    unfolding gov_audit_def by (intro preservesI) (simp add: on_part_def ok_desk split: prod.split, metis ok_desk snd_conv)
  show "preserves (gov_ok s0) (emit_meeting v)"
    unfolding emit_meeting_def by (rule ok_other_table) simp
qed

section \<open>Changes of polls\<close>

lemma find_poll_map:
  assumes "\<And>p. ql_id (h p) = ql_id p"
  shows "find_poll i (s\<lparr>gd_polls := map h (gd_polls s)\<rparr>) = map_option h (find_poll i s)"
proof -
  have "find_row ql_id i (map h ps) = map_option h (find_row ql_id i ps)" for ps by (induction ps) (auto simp: assms)
  then show ?thesis by (simp add: find_poll_def)
qed

lemma ok_map_polls:
  assumes ok: "gov_ok s0 s"
    and h: "\<And>p. ql_id (h p) = ql_id p" "\<And>p. ql_condo (h p) = ql_condo p" "\<And>p. ql_options (h p) = ql_options p"
    and closed: "\<And>p. p \<in> set (gd_polls s) \<Longrightarrow> ql_status p = POLL_CLOSED \<Longrightarrow> ql_status (h p) = POLL_CLOSED"
  shows "gov_ok s0 (s\<lparr>gd_polls := map h (gd_polls s)\<rparr>)" (is "gov_ok s0 ?t")
proof (rule gov_ok_next [OF ok])
  have inv: "gov_inv s" using ok by (rule gov_okD)
  have fp: "find_poll i ?t = map_option h (find_poll i s)" for i using h(1) by (rule find_poll_map)
  show kept: "polls_kept s ?t"
    using closed find_poll_Some [OF inv] by (auto simp: polls_kept_def fp h ballots_of_def)
  show "resolutions_kept s ?t" by (simp add: resolutions_kept_def find_resolution_def)
  have "gov_ids_ok ?t" using inv by (simp add: gov_inv_def gov_ids_ok_def option_ids_def h comp_def image_image)
  moreover have "ballot_ok ?t v" if v: "v \<in> set (gd_votes s)" for v
  proof (rule ballot_ok_cong [of s])
    show "ballot_ok s v" using inv v by (simp add: gov_inv_def)
  qed (simp_all add: fp h)
  ultimately show "gov_inv ?t"
    using inv resolution_ok_cong [OF _ kept] by (simp add: gov_inv_def)
qed

lemma set_poll_ok [pres]:
  assumes "\<And>p. ql_id (f p) = ql_id p" and "\<And>p. ql_condo (f p) = ql_condo p" and "\<And>p. ql_options (f p) = ql_options p"
    and "\<And>p. ql_status p = POLL_CLOSED \<Longrightarrow> ql_status (f p) = POLL_CLOSED"
  shows "preserves (gov_ok s0) (set_poll e i f)"
  unfolding set_poll_def set_row_def set_where_def
  by (rule preserves_modify, erule ok_map_polls) (simp_all add: assms)

lemma close_poll_ok [pres]: "preserves (gov_ok s0) (set_poll e i (\<lambda>p. p\<lparr>ql_status := POLL_CLOSED\<rparr>))"
  by (rule set_poll_ok) simp_all

lemma auto_close_poll_ok [pres]: "preserves (gov_ok s0) (maybe_auto_close e p)"
  unfolding maybe_auto_close_def by (intro pres) simp_all

lemma poll_sweep_ok: "preserves (gov_ok s0) (poll_sweep e lock_free)"
proof -
  have "preserves (gov_ok s0) (modify (\<lambda>s. s\<lparr>gd_polls := set_where (is_expired (ve_now e))
      (\<lambda>p. p\<lparr>ql_status := POLL_CLOSED, ql_updated := ve_now e\<rparr>) (gd_polls s)\<rparr>))"
    unfolding set_where_def by (rule preserves_modify, erule ok_map_polls) simp_all
  then show ?thesis unfolding poll_sweep_def close_expired_polls_def by (intro pres) assumption
qed

lemma reads_only_if [reads]: "(c \<Longrightarrow> reads_only m) \<Longrightarrow> reads_only (only_if c m)"
  by (simp add: only_if_def reads)

lemma gov_guards_read [reads]:
  "reads_only (assert_gov_management u condo)" "reads_only (assert_gov_access u condo)" "reads_only (validate_schedule a z)"
  "reads_only (validate_audience scope blocks)" "reads_only (get_my_votes u i)" "reads_only (compute_results_snapshot i b)"
  "reads_only (assert_in_audience p unit)" "reads_only (need_meeting i)" "reads_only (need_resolution i)"
  "reads_only (read_resolution i)"
  unfolding assert_gov_management_def assert_gov_access_def validate_schedule_def validate_audience_def get_my_votes_def
    compute_results_snapshot_def assert_in_audience_def need_meeting_def need_resolution_def read_resolution_def
  by (intro reads)+

lemma serialize_poll_reads [reads]: "reads_only (serialize_poll e p u results breakdown)"
  unfolding serialize_poll_def Let_def by (intro reads)

lemmas gov_reads_ok [pres] = gov_guards_read [THEN reads_preserves] serialize_poll_reads [THEN reads_preserves]

lemma get_poll_ok [pres]: "preserves (gov_ok s0) (get_poll e u i manage)"
  unfolding get_poll_def by (intro pres)

lemma list_polls_ok: "preserves (gov_ok s0) (list_polls e u condo manage limit offset)"
  unfolding list_polls_def Let_def by (intro pres)

text \<open>New options have ids of their own.\<close>

lemma wp_new_options:
  assumes "inj (uuids (vdb (gd_desk s)))"
    and "\<And>qs d. desk_later (gd_desk s) d \<Longrightarrow> distinct (map qo_id qs) \<Longrightarrow> qo_id ` set qs \<subseteq> drawn d - drawn (gd_desk s) \<Longrightarrow>
      Q qs (s\<lparr>gd_desk := d\<rparr>)"
  shows "wp (new_options k os) Q E s"
  using assms
proof (induction os arbitrary: k s Q)
  case Nil
  from Nil(2) [of "gd_desk s" "[]"] show ?case by (simp add: wp)
next
  case (Cons x os)
  obtain label position where x: "x = (label, position)" by (cases x)
  let ?d = "gd_desk s" and ?e = "bump (gd_desk s)"
  have e: "desk_later ?d ?e" "fresh ?d \<notin> drawn ?d" "fresh ?d \<in> drawn ?e" using fresh_id [OF Cons(2)] by simp_all
  have inj: "inj (uuids (vdb ?e))" using Cons(2) desk_later_inj [OF e(1)] by simp
  show ?case
    unfolding x new_options.simps wp_bnd wp_gov_id wp_ret
  proof (rule Cons(1), simp add: Cons(2))
    fix qs :: "poll_option list" and d assume "desk_later (gd_desk (s\<lparr>gd_desk := ?e\<rparr>)) d" and qs: "distinct (map qo_id qs)"
      and new: "qo_id ` set qs \<subseteq> drawn d - drawn (gd_desk (s\<lparr>gd_desk := ?e\<rparr>))"
    then have d: "desk_later ?e d" "desk_later ?d d" using desk_later_trans [OF e(1)] by simp_all
    let ?q = "\<lparr>qo_id = fresh ?d, qo_label = label, qo_position = (case position of None \<Rightarrow> int k | Some y \<Rightarrow> y)\<rparr>"
    have "Q (?q # qs) (s\<lparr>gd_desk := d\<rparr>)"
      using qs new e d desk_later_drawn [OF d(1)] desk_later_drawn [OF e(1)] by (intro Cons(3)) auto
    then show "Q (?q # qs) (s\<lparr>gd_desk := ?e, gd_desk := d\<rparr>)" by simp
  qed
qed

lemma ok_add_poll:
  assumes ok: "gov_ok s0 s" and d: "desk_later (gd_desk s) d"
    and p: "ql_id p \<in> drawn d - drawn (gd_desk s)" "distinct (map qo_id (ql_options p))"
      "qo_id ` set (ql_options p) \<subseteq> drawn d - drawn (gd_desk s)"
  shows "gov_ok s0 (s\<lparr>gd_desk := d, gd_polls := add_row p (gd_polls s)\<rparr>)" (is "gov_ok s0 ?t")
proof (rule gov_ok_next [OF ok])
  have inv: "gov_inv s" using ok by (rule gov_okD)
  have fp: "find_poll i s = Some q \<Longrightarrow> find_poll i ?t = Some q" for i q
    by (simp add: find_poll_def add_row_def find_row_append)
  then show kept: "polls_kept s ?t" by (auto simp: polls_kept_def ballots_of_def)
  show "resolutions_kept s ?t" by (simp add: resolutions_kept_def find_resolution_def)
  have ids: "gov_ids_ok s" using inv by (simp add: gov_inv_def)
  have new: "ql_id p \<notin> ql_id ` set (gd_polls s)" "set (option_ids (gd_polls s)) \<inter> qo_id ` set (ql_options p) = {}"
    using ids p(1, 3) by (auto simp: gov_ids_ok_def)
  let ?ps = "add_row p (gd_polls s)"
  have polls: "distinct (map ql_id ?ps)" "distinct (option_ids ?ps)" "ql_id ` set ?ps = insert (ql_id p) (ql_id ` set (gd_polls s))"
    "set (option_ids ?ps) = set (option_ids (gd_polls s)) \<union> qo_id ` set (ql_options p)"
    using ids p(2) new by (simp_all add: gov_ids_ok_def add_row_def)
  have more: "drawn (gd_desk s) \<subseteq> drawn d" "inj (uuids (vdb d))"
    using desk_later_drawn [OF d] desk_later_inj [OF d] ids by (simp_all add: gov_ids_ok_def)
  have t: "gd_polls ?t = ?ps" "gd_desk ?t = d" "gd_resolutions ?t = gd_resolutions s" by simp_all
  have "ql_id ` set (gd_polls s) \<subseteq> drawn d" "rl_id ` set (gd_resolutions s) \<subseteq> drawn d" "set (option_ids (gd_polls s)) \<subseteq> drawn d"
    using ids subset_trans [OF _ more(1)] by (simp_all add: gov_ids_ok_def)
  moreover have "distinct (map rl_id (gd_resolutions s))" using ids by (simp add: gov_ids_ok_def)
  moreover have "ql_id p \<in> drawn d" "qo_id ` set (ql_options p) \<subseteq> drawn d" using p(1, 3) by blast+
  ultimately have "gov_ids_ok ?t"
    unfolding gov_ids_ok_def t polls(3, 4) using polls(1, 2) more(2) by (simp only: insert_subset Un_subset_iff simp_thms)
  moreover have "ballot_ok ?t v" if v: "v \<in> set (gd_votes s)" for v
  proof (rule ballot_ok_cong [of s])
    show "ballot_ok s v" using inv v by (simp add: gov_inv_def)
    show "\<exists>q'. find_poll (vt_poll v) ?t = Some q' \<and> ql_condo q' = ql_condo q \<and> vt_option v \<in> qo_id ` set (ql_options q')"
      if "find_poll (vt_poll v) s = Some q" "vt_option v \<in> qo_id ` set (ql_options q)" for q
      using fp [OF that(1)] that(2) by blast
  qed (simp add: d)
  ultimately show "gov_inv ?t" using inv resolution_ok_cong [OF _ kept] by (simp add: gov_inv_def)
qed

abbreviation added_poll :: "visit_env \<Rightarrow> poll \<Rightarrow> string \<Rightarrow> poll_option list \<Rightarrow> poll" where
  "added_poll e p i qs \<equiv> p\<lparr>ql_id := i, ql_options := qs, ql_created := ve_now e, ql_updated := ve_now e\<rparr>"

lemma wp_insert_poll:
  assumes ok: "gov_ok s0 s"
    and post: "\<And>i qs d. gov_ok s0 (s\<lparr>gd_desk := d, gd_polls := add_row (added_poll e p i qs) (gd_polls s)\<rparr>) \<Longrightarrow>
      i \<notin> drawn (gd_desk s) \<Longrightarrow> Q (added_poll e p i qs) (s\<lparr>gd_desk := d, gd_polls := add_row (added_poll e p i qs) (gd_polls s)\<rparr>)"
  shows "wp (insert_poll e p os) Q E s"
  unfolding insert_poll_def wp_bnd wp_gov_id
proof (rule wp_new_options)
  let ?d = "gd_desk s" and ?e = "bump (gd_desk s)"
  have inj: "inj (uuids (vdb ?d))" using gov_okD [OF ok] by (simp add: gov_inv_def gov_ids_ok_def)
  have e: "desk_later ?d ?e" "fresh ?d \<notin> drawn ?d" "fresh ?d \<in> drawn ?e" using fresh_id [OF inj] by simp_all
  show "inj (uuids (vdb (gd_desk (s\<lparr>gd_desk := ?e\<rparr>))))" using inj desk_later_inj [OF e(1)] by simp
  fix qs :: "poll_option list" and d assume "desk_later (gd_desk (s\<lparr>gd_desk := ?e\<rparr>)) d" and qs: "distinct (map qo_id qs)"
    and new: "qo_id ` set qs \<subseteq> drawn d - drawn (gd_desk (s\<lparr>gd_desk := ?e\<rparr>))"
  then have d: "desk_later ?e d" "desk_later ?d d" using desk_later_trans [OF e(1)] by simp_all
  let ?q = "p\<lparr>ql_id := fresh ?d, ql_options := qs, ql_created := ve_now e, ql_updated := ve_now e\<rparr>"
  have "gov_ok s0 (s\<lparr>gd_desk := d, gd_polls := add_row ?q (gd_polls s)\<rparr>)"
    using qs new e desk_later_drawn [OF d(1)] desk_later_drawn [OF e(1)] by (intro ok_add_poll [OF ok d(2)]) auto
  then show "wp (let q = ?q in bnd (modify (\<lambda>s. s\<lparr>gd_polls := add_row q (gd_polls s)\<rparr>)) (\<lambda>_. ret q)) Q E (s\<lparr>gd_desk := ?e, gd_desk := d\<rparr>)"
    using post [where i = "fresh ?d" and qs = qs and d = d] e(2) by (simp add: Let_def wp)
qed

lemma insert_poll_ok [pres]: "preserves (gov_ok s0) (insert_poll e p os)"
proof (rule preservesW)
  fix s assume "gov_ok s0 s"
  then show "holds (insert_poll e p os) (gov_ok s0) s" by (rule wp_insert_poll)
qed

lemma create_poll_ok: "preserves (gov_ok s0) (create_poll e u d)"
  unfolding create_poll_def by (intro pres)

text \<open>Options are replaced, and the ballots for the old ones go.\<close>

lemma ok_new_options:
  assumes ok: "gov_ok s0 s" and p: "find_poll i s = Some p" "ql_status p \<noteq> POLL_CLOSED" and d: "desk_later (gd_desk s) d"
    and qs: "distinct (map qo_id (qs :: poll_option list))" "qo_id ` set qs \<subseteq> drawn d - drawn (gd_desk s)"
  shows "gov_ok s0 (s\<lparr>gd_votes := filter (\<lambda>v. vt_option v \<notin> qo_id ` set (ql_options p)) (gd_votes s), gd_desk := d,
    gd_polls := set_row ql_id i (\<lambda>p. p\<lparr>ql_options := qs\<rparr>) (gd_polls s)\<rparr>)" (is "gov_ok s0 ?t")
proof (rule gov_ok_next [OF ok])
  have inv: "gov_inv s" using ok by (rule gov_okD)
  then have ids: "gov_ids_ok s" by (simp add: gov_inv_def)
  have mem: "p \<in> set (gd_polls s)" "ql_id p = i" using p(1) find_poll_Some [OF inv] by simp_all
  obtain xs ys where ps: "gd_polls s = xs @ p # ys" using mem(1) by (auto simp: in_set_conv_decomp)
  have "set (option_ids (xs @ ys)) \<inter> qo_id ` set (ql_options p) = {}"
    using ids by (auto simp: gov_ids_ok_def ps)
  then have apart: "qo_id ` set (ql_options q) \<inter> qo_id ` set (ql_options p) = {}" if "q \<in> set xs \<union> set ys" for q
    using that by (auto simp: option_ids_def)
  have names: "ql_id q \<noteq> i" if "q \<in> set xs \<union> set ys" for q
    using that ids mem(2) by (auto simp: gov_ids_ok_def ps rev_image_eqI)
  have others: "q \<in> set (gd_polls s) \<Longrightarrow> ql_id q \<noteq> i \<Longrightarrow> qo_id ` set (ql_options q) \<inter> qo_id ` set (ql_options p) = {}" for q
    using apart [of q] mem(2) by (auto simp: ps)
  have fp: "find_poll k ?t = (if k = i then map_option (\<lambda>p. p\<lparr>ql_options := qs\<rparr>) (find_poll k s) else find_poll k s)" for k
    by (simp add: find_poll_def find_row_set_row)
  have keep: "ballot_ok ?t v" if v: "v \<in> set (gd_votes s)" "vt_option v \<notin> qo_id ` set (ql_options p)" for v
  proof (rule ballot_ok_cong [of s])
    show "ballot_ok s v" using inv v(1) by (simp add: gov_inv_def)
    fix q assume q: "find_poll (vt_poll v) s = Some q" "vt_option v \<in> qo_id ` set (ql_options q)"
    then have "vt_poll v \<noteq> i" using p(1) v(2) by auto
    with q show "\<exists>q'. find_poll (vt_poll v) ?t = Some q' \<and> ql_condo q' = ql_condo q \<and> vt_option v \<in> qo_id ` set (ql_options q')"
      by (simp add: fp)
  qed (simp add: d)
  have same: "ballots_of k ?t = ballots_of k s" if "k \<noteq> i" for k
  proof -
    have "vt_option v \<notin> qo_id ` set (ql_options p)" if v: "v \<in> set (gd_votes s)" "vt_poll v = k" for v
    proof -
      have "ballot_ok s v" using inv v(1) by (simp add: gov_inv_def)
      then obtain q where "find_poll k s = Some q" "vt_option v \<in> qo_id ` set (ql_options q)" using v(2) by (auto simp: ballot_ok_def)
      then show ?thesis using others [of q] find_poll_Some [OF inv, of k q] \<open>k \<noteq> i\<close> by blast
    qed
    then show ?thesis by (auto simp: ballots_of_def filter_filter intro!: filter_cong)
  qed
  show kept: "polls_kept s ?t"
    using p same by (auto simp: polls_kept_def fp)
  show "resolutions_kept s ?t" by (simp add: resolutions_kept_def find_resolution_def)
  have "set_row ql_id i (\<lambda>p. p\<lparr>ql_options := qs\<rparr>) (gd_polls s) = xs @ p\<lparr>ql_options := qs\<rparr> # ys"
    using names mem(2) by (auto simp: ps set_row_def set_where_def intro!: map_idI)
  moreover have "set (option_ids xs) \<subseteq> drawn (gd_desk s)" "set (option_ids ys) \<subseteq> drawn (gd_desk s)"
    "distinct (option_ids xs)" "distinct (option_ids ys)" "set (option_ids xs) \<inter> set (option_ids ys) = {}"
    using ids by (auto simp: gov_ids_ok_def ps)
  ultimately have "gov_ids_ok ?t"
    using ids qs desk_later_drawn [OF d] desk_later_inj [OF d] by (auto simp: gov_ids_ok_def ps)
  moreover have "distinct (map ballot_key (filter P (gd_votes s)))" for P
    using inv by (simp add: gov_inv_def List.distinct_map_filter)
  ultimately show "gov_inv ?t" using inv keep resolution_ok_cong [OF _ kept] by (simp add: gov_inv_def)
qed

lemma set_one_poll_ok:
  fixes p :: poll
  assumes ok: "gov_ok s0 s" and p: "find_poll i s = Some p"
    and f: "\<And>p. ql_id (f p) = ql_id p" "\<And>p. ql_condo (f p) = ql_condo p" "\<And>p. ql_options (f p) = ql_options p"
    and closed: "ql_status p = POLL_CLOSED \<Longrightarrow> ql_status (f p) = POLL_CLOSED"
  shows "holds (set_poll e i f) (gov_ok s0) s"
proof -
  have "ql_status (f q) = POLL_CLOSED" if "q \<in> set (gd_polls s)" "ql_id q = i" "ql_status q = POLL_CLOSED" for q
  proof -
    have "q = p" using that(1, 2) p find_poll_Some [OF gov_okD [OF ok]] by (metis option.inject)
    then show ?thesis using closed that(3) by simp
  qed
  then show ?thesis
    unfolding set_poll_def wp_modify set_row_def set_where_def
    by (intro ok_map_polls [OF ok]) (simp_all add: f)
qed

lemma wp_replace_options:
  assumes ok: "gov_ok s0 s" and p: "find_poll i s = Some p" "ql_status p \<noteq> POLL_CLOSED"
  shows "wp (replace_options i os) (\<lambda>_ t. gov_ok s0 t \<and> (\<exists>q. find_poll i t = Some q \<and> ql_status q = ql_status p)) (\<lambda>_. True) s"
proof -
  have inj: "inj (uuids (vdb (gd_desk s)))" using gov_okD [OF ok] by (simp add: gov_inv_def gov_ids_ok_def)
  show ?thesis
    unfolding replace_options_def wp_bnd wp_gets wp_modify
    by (rule wp_new_options)
      (use ok_new_options [OF ok p] p(1) inj in \<open>auto simp: find_poll_def find_row_set_row\<close>)
qed

lemma update_poll_ok: "preserves (gov_ok s0) (update_poll e u i d)"
  unfolding update_poll_def Let_def
proof (rule preservesW, rule guard_gets, rule guard_need, assumption, rule guard_reads, assumption, rule reads,
    rule guard_ensure, assumption, rule guard_ensure, assumption, rule guard_reads, assumption, intro reads,
    rule guard_reads, assumption, intro reads, rule guard_ensure, assumption, rule guard_txn, assumption)
  fix s and p :: poll
  let ?d = "if qp_status d = Some POLL_OPEN
     then d\<lparr>qp_opens := Some (Some (case given_time (qp_opens d) (ql_opens p) of None \<Rightarrow> ve_now e | Some t \<Rightarrow> t))\<rparr> else d"
  assume ok: "gov_ok s0 s" and p: "find_poll i s = Some p"
    and opts: "\<not> (effective_status (ve_now e) p \<noteq> POLL_DRAFT \<and> qp_options d \<noteq> None)"
    and shut: "\<not> (effective_status (ve_now e) p = POLL_CLOSED \<and> qp_status d \<noteq> Some POLL_CLOSED)"
  have f: "ql_id (patched_poll x q) = ql_id q" "ql_condo (patched_poll x q) = ql_condo q" "ql_options (patched_poll x q) = ql_options q" for x q
    by (simp_all add: patched_poll_def)
  have closed: "ql_status (patched_poll ?d q) = POLL_CLOSED" if "ql_status q = ql_status p" "ql_status q = POLL_CLOSED" for q
    using shut that by (simp add: effective_status_def patched_poll_def)
  have rest: "wp (bnd (set_poll e i (patched_poll ?d)) (\<lambda>_. bnd (gets (find_poll i)) (\<lambda>found. need found (NotFound ''Not Found''))))
      (\<lambda>_. gov_ok s0) (\<lambda>_. True) t" if t: "gov_ok s0 t" "find_poll i t = Some q" "ql_status q = ql_status p" for t q
    unfolding wp_bnd
    by (rule wp_mono [OF set_one_poll_ok [OF t(1, 2) f]]) (auto simp: wp closed t(3) split: option.split)
  show "wp (bnd (case qp_options d of None \<Rightarrow> ret () | Some os \<Rightarrow> only_if (effective_status (ve_now e) p = POLL_DRAFT) (replace_options i os))
      (\<lambda>_. bnd (set_poll e i (patched_poll ?d)) (\<lambda>_. bnd (gets (find_poll i)) (\<lambda>found. need found (NotFound ''Not Found'')))))
      (\<lambda>_. gov_ok s0) (\<lambda>_. True) s"
  proof (cases "qp_options d")
    case None
    then show ?thesis using rest [OF ok p] by (simp add: wp_bnd wp_ret)
  next
    case (Some os)
    then have st: "effective_status (ve_now e) p = POLL_DRAFT" "ql_status p \<noteq> POLL_CLOSED"
      using opts by (auto simp: effective_status_def split: if_splits)
    then have "(case qp_options d of None \<Rightarrow> ret () | Some os \<Rightarrow> only_if (effective_status (ve_now e) p = POLL_DRAFT) (replace_options i os)) =
        replace_options i os" by (simp add: Some only_if_def)
    then show ?thesis
      unfolding wp_bnd [of "case qp_options d of None \<Rightarrow> ret () | Some os \<Rightarrow> only_if (effective_status (ve_now e) p = POLL_DRAFT) (replace_options i os)"]
      by (elim ssubst) (rule wp_mono [OF wp_replace_options [OF ok p st(2)]], use rest in blast, simp)
  qed
qed (intro pres)+

section \<open>Ballots\<close>

lemma ok_add_ballot:
  assumes ok: "gov_ok s0 s" and p: "find_poll (vt_poll v) s = Some p" "ql_status p \<noteq> POLL_CLOSED"
    and v: "vt_option v \<in> qo_id ` set (ql_options p)" "unit_condo (vt_unit v) s = Some (ql_condo p)"
    and new: "ballot_key v \<notin> ballot_key ` set (gd_votes s)"
  shows "gov_ok s0 (s\<lparr>gd_votes := add_row v (gd_votes s)\<rparr>)" (is "gov_ok s0 ?t")
proof (rule gov_ok_next [OF ok])
  have inv: "gov_inv s" using ok by (rule gov_okD)
  have fp: "find_poll i ?t = find_poll i s" for i by (simp add: find_poll_def)
  have "ballots_of i ?t = ballots_of i s" if "i \<noteq> vt_poll v" for i using that by (simp add: ballots_of_def add_row_def)
  moreover have "i \<noteq> vt_poll v" if "find_poll i s = Some q" "ql_status q = POLL_CLOSED" for i q using p that by auto
  ultimately show kept: "polls_kept s ?t" unfolding polls_kept_def fp by blast
  show "resolutions_kept s ?t" by (simp add: resolutions_kept_def find_resolution_def)
  have "ballot_ok ?t x" if x: "x \<in> set (gd_votes s)" for x
  proof (rule ballot_ok_cong [of s])
    show "ballot_ok s x" using inv x by (simp add: gov_inv_def)
  qed (simp_all add: fp)
  moreover have "ballot_ok ?t v" using p(1) v by (simp add: ballot_ok_def fp unit_condo_def)
  ultimately show "gov_inv ?t"
    using inv new resolution_ok_cong [OF _ kept] by (auto simp: gov_inv_def gov_ids_ok_def add_row_def)
qed

lemma wp_as_conflict [wp]: "wp (as_conflict msg m) Q E = wp m Q E"
  by (auto simp: fun_eq_iff wp_def as_conflict_def split: prod.split sum.split http_error.split)

lemma insert_ballot_run:
  "insert_ballot v s = (if ballot_key v \<in> ballot_key ` set (gd_votes s)
     then (Inl (UniqueViolation ''poll_votes_pollId_unitId_key''), s) else (Inr (), s\<lparr>gd_votes := add_row v (gd_votes s)\<rparr>))"
  by (simp add: insert_ballot_def taken_key runs modify_run)

lemma record_vote_ok:
  assumes ok: "gov_ok s0 s" and p: "find_poll (ql_id p) s = Some p" "ql_status p \<noteq> POLL_CLOSED"
    and q: "q \<in> set (ql_options p)" and c: "unit_condo unit s = Some (ql_condo p)"
  shows "holds (record_vote e u p q w unit x) (gov_ok s0) s"
proof -
  let ?v = "new_ballot e u p w unit (qo_id q) x"
  have v: "vt_poll ?v = ql_id p" "vt_option ?v = qo_id q" "vt_unit ?v = unit" by (simp_all add: new_ballot_def)
  have "wp (insert_ballot ?v) (\<lambda>_. gov_ok s0) (\<lambda>_. True) s"
    using ok_add_ballot [OF ok, of ?v p] p q c by (simp add: wp_def insert_ballot_run v)
  then have "wp (bnd (insert_ballot ?v) (\<lambda>_. gov_audit (ql_condo p) (Some unit) u AUDIT_CREATE ''PollVote'' (ql_id p) (ballot_meta q ?v x)))
      (\<lambda>_. gov_ok s0) (\<lambda>_. True) s"
    unfolding wp_bnd by (rule wp_mono) (auto intro!: preserves_success pres)
  then show ?thesis
    unfolding record_vote_def Let_def wp_bnd [of "as_conflict _ _"] wp_as_conflict wp_txn
    by (rule wp_mono) (auto intro!: guard_done pres ok)
qed

lemma guard_voting:
  assumes "gov_ok s0 s" and "ql_status p = POLL_OPEN \<Longrightarrow> holds (k ()) (gov_ok s0) s"
  shows "holds (bnd (assert_voting e p) k) (gov_ok s0) s"
proof (cases "ql_status p = POLL_OPEN \<and> effective_status (ve_now e) p = POLL_CLOSED")
  case True
  have "holds (set_poll e (ql_id p) (\<lambda>p. p\<lparr>ql_status := POLL_CLOSED\<rparr>)) (gov_ok s0) s" using assms(1) by (intro guard_done pres)
  then show ?thesis
    unfolding assert_voting_def maybe_auto_close_def using True by (simp add: wp)
next
  case False
  then show ?thesis using assms unfolding assert_voting_def maybe_auto_close_def by (auto simp: wp)
qed

lemma cast_vote_ok: "preserves (gov_ok s0) (cast_vote e u i unit opt)"
  unfolding cast_vote_def
proof (rule preservesW, rule guard_ensure, assumption, rule guard_gets, rule guard_need, assumption, rule guard_voting, assumption,
    rule guard_need, assumption, rule guard_gets, rule guard_need, assumption)
  fix s p q w
  assume "gov_ok s0 s" "find_poll i s = Some p" "ql_status p = POLL_OPEN" "find_row qo_id opt (ql_options p) = Some q"
  then show "holds (bnd (assert_in_audience p unit) (\<lambda>_. record_vote e u p q w unit None)) (gov_ok s0) s"
    unfolding assert_in_audience_def
    by (auto simp: wp find_poll_Some [OF gov_okD] dest: find_row_mem intro!: record_vote_ok)
qed

lemma cast_with_ownership_ok [pres]: "preserves (gov_ok s0) (cast_vote_with_ownership e u i unit opt w x)"
  unfolding cast_vote_with_ownership_def
proof (rule preservesW, rule guard_gets, rule guard_need, assumption, rule guard_voting, assumption,
    rule guard_need, assumption, rule guard_ensure, assumption)
  fix s p q
  assume "gov_ok s0 s" "find_poll i s = Some p" "ql_status p = POLL_OPEN" "find_row qo_id opt (ql_options p) = Some q"
  then show "holds (bnd (assert_in_audience p unit) (\<lambda>_. record_vote e u p q w unit x)) (gov_ok s0) s"
    unfolding assert_in_audience_def
    by (auto simp: wp find_poll_Some [OF gov_okD] dest: find_row_mem intro!: record_vote_ok)
qed

section \<open>Meetings and resolutions\<close>

lemma set_meeting_ok [pres]: "preserves (gov_ok s0) (set_meeting i f)"
proof -
  have "preserves (gov_ok s0) (modify (\<lambda>s. s\<lparr>gd_meetings := set_row gm_id i f (gd_meetings s)\<rparr>))"
    by (rule ok_other_table) simp
  then show ?thesis unfolding set_meeting_def by (intro pres)
qed

lemma create_meeting_ok: "preserves (gov_ok s0) (create_meeting u d)"
proof -
  have "preserves (gov_ok s0) (modify (\<lambda>s. s\<lparr>gd_meetings := add_row m (gd_meetings s)\<rparr>))" for m
    by (rule ok_other_table) simp
  then show ?thesis unfolding create_meeting_def Let_def by (intro pres) assumption
qed

lemma meeting_calls_ok:
  "preserves (gov_ok s0) (update_meeting u i mp)" "preserves (gov_ok s0) (publish_notice e u i)"
  "preserves (gov_ok s0) (publish_minutes e u i body)"
  unfolding update_meeting_def publish_notice_def publish_minutes_def Let_def by (intro pres)+

lemma insert_proxy_ok [pres]: "preserves (gov_ok s0) (insert_proxy x)"
proof (rule preservesI)
  fix s assume ok: "gov_ok s0 s"
  show "gov_ok s0 (snd (insert_proxy x s))"
    using proxies.ins_distinct [of x] ok
    by (intro ok_elsewhere [OF ok]) (auto simp: insert_proxy_def runs modify_run gov_ok_def gov_inv_def preserves_def split: if_splits)
qed

lemma resolve_holder_reads [reads]: "reads_only (resolve_proxy_holder condo user contact)"
  unfolding resolve_proxy_holder_def Let_def by (intro reads)

lemma as_conflict_ok [pres]: "preserves I m \<Longrightarrow> preserves I (as_conflict msg m)"
  by (simp add: preserves_wp wp_as_conflict)

lemma submit_proxy_ok: "preserves (gov_ok s0) (submit_proxy e u i d)"
  unfolding submit_proxy_def Let_def by (intro pres resolve_holder_reads [THEN reads_preserves])

lemma serialize_resolution_ok [pres]: "preserves (gov_ok s0) (serialize_resolution e r u manage detail)"
  unfolding serialize_resolution_def Let_def by (intro pres)

lemma get_meeting_ok: "preserves (gov_ok s0) (get_meeting e u mail i)"
  unfolding get_meeting_def Let_def fetch_my_proxies_def fetch_assignments_def by (intro pres)

lemma get_results_ok: "preserves (gov_ok s0) (get_resolution_results e u i)"
  unfolding get_resolution_results_def Let_def by (intro pres)

lemma cast_resolution_ok: "preserves (gov_ok s0) (cast_resolution_vote e u mail i unit opt)"
  unfolding cast_resolution_vote_def by (intro pres)

text \<open>Changes of the table of resolutions.\<close>

text \<open>\<open>t\<close> is \<open>s\<close> after a change of the polls.\<close>

lemma ok_map_resolutions:
  assumes ok: "gov_ok s0 s" and t: "gov_ok s t" "gd_resolutions t = gd_resolutions s"
    and h: "\<And>r. rl_id (h r) = rl_id r" "\<And>r. rl_meeting (h r) = rl_meeting r"
    and poll: "\<And>r. r \<in> set (gd_resolutions s) \<Longrightarrow> rl_poll r \<noteq> None \<Longrightarrow> rl_poll (h r) = rl_poll r"
    and same: "\<And>r i. r \<in> set (gd_resolutions s) \<Longrightarrow> rl_poll r = Some i \<Longrightarrow> is_closed i s \<Longrightarrow> rl_results (h r) = rl_results r"
    and new: "\<And>r. r \<in> set (gd_resolutions s) \<Longrightarrow> resolution_ok t r \<Longrightarrow> resolution_ok t (h r)"
  shows "gov_ok s0 (t\<lparr>gd_resolutions := map h (gd_resolutions t)\<rparr>)" (is "gov_ok s0 ?u")
proof (rule gov_ok_next [OF ok])
  have inv: "gov_inv s" "gov_inv t" using ok t(1) by (simp_all add: gov_ok_def)
  have fp: "find_poll i ?u = find_poll i t" for i by (simp add: find_poll_def)
  have kept: "polls_kept t ?u" by (simp add: polls_kept_def fp ballots_of_def)
  then show "polls_kept s ?u" using t(1) polls_kept_trans by (auto simp: gov_ok_def)
  have fr: "find_resolution i ?u = map_option h (find_resolution i s)" for i
  proof -
    have "find_row rl_id i (map h rs) = map_option h (find_row rl_id i rs)" for rs by (induction rs) (auto simp: h)
    then show ?thesis by (simp add: find_resolution_def t(2))
  qed
  show "resolutions_kept s ?u"
    unfolding resolutions_kept_def fr using poll same find_resolution_Some [OF inv(1)] by (auto simp: h)
  have "gov_ids_ok ?u" using inv(2) by (simp add: gov_inv_def gov_ids_ok_def h comp_def image_image)
  moreover have "ballot_ok ?u v" if "ballot_ok t v" for v using that by (simp add: ballot_ok_def fp unit_condo_def)
  ultimately show "gov_inv ?u" using inv(2) new resolution_ok_cong [OF _ kept] by (auto simp: gov_inv_def t(2))
qed

lemma set_resolution_ok:
  fixes r :: resolution
  assumes ok: "gov_ok s0 s" and t: "gov_ok s t" "gd_resolutions t = gd_resolutions s" and r: "find_resolution i s = Some r"
    and f: "\<And>r. rl_id (f r) = rl_id r" "\<And>r. rl_meeting (f r) = rl_meeting r"
    and poll: "rl_poll r \<noteq> None \<Longrightarrow> rl_poll (f r) = rl_poll r"
    and same: "\<And>k. rl_poll r = Some k \<Longrightarrow> is_closed k s \<Longrightarrow> rl_results (f r) = rl_results r"
    and new: "resolution_ok t r \<Longrightarrow> resolution_ok t (f r)"
  shows "gov_ok s0 (t\<lparr>gd_resolutions := set_row rl_id i f (gd_resolutions t)\<rparr>)"
proof -
  have eq: "q = r" if "q \<in> set (gd_resolutions s)" "rl_id q = i" for q
    using that r find_resolution_Some [OF gov_okD [OF ok]] by (metis option.inject)
  show ?thesis
    unfolding set_row_def set_where_def
  proof (rule ok_map_resolutions [OF ok t])
    fix q assume q: "q \<in> set (gd_resolutions s)"
    show "rl_poll (if rl_id q = i then f q else q) = rl_poll q" if "rl_poll q \<noteq> None"
      using that poll eq [OF q] by (cases "rl_id q = i") auto
    show "rl_results (if rl_id q = i then f q else q) = rl_results q" if "rl_poll q = Some k" "is_closed k s" for k
      using that same eq [OF q] by (cases "rl_id q = i") auto
    show "resolution_ok t (if rl_id q = i then f q else q)" if "resolution_ok t q"
      using that new eq [OF q] by (cases "rl_id q = i") auto
  qed (simp_all add: f)
qed

lemma add_resolution_ok: "preserves (gov_ok s0) (add_resolution e u i title desc position)"
  unfolding add_resolution_def Let_def
proof (rule preservesW, rule guard_reads, assumption, intro reads, rule guard_reads, assumption, intro reads, rule guard_ensure, assumption)
  fix s :: gov_db
  let ?d = "gd_desk s"
  let ?R = "\<lambda>k. \<lparr>rl_id = k, rl_meeting = i, rl_title = trim title, rl_desc = trim (given_or desc []), rl_poll = None, rl_opens = None,
       rl_closes = None, rl_eligible = None, rl_results = None, rl_position = given_or position 0\<rparr>"
  let ?r = "?R (fresh ?d)"
  let ?t = "s\<lparr>gd_desk := bump ?d, gd_resolutions := add_row ?r (gd_resolutions s)\<rparr>"
  assume ok: "gov_ok s0 s"
  have inv: "gov_inv s" using ok by (rule gov_okD)
  then have id: "fresh ?d \<notin> drawn ?d" "fresh ?d \<in> drawn (bump ?d)" using fresh_id [of ?d] by (simp_all add: gov_inv_def gov_ids_ok_def)
  have fp: "find_poll i ?t = find_poll i s" for i by (simp add: find_poll_def)
  have kept: "polls_kept s ?t" by (simp add: polls_kept_def fp ballots_of_def)
  have "resolutions_kept s ?t"
    by (auto simp: resolutions_kept_def find_resolution_def add_row_def find_row_append split: option.split)
  moreover have "gov_ids_ok ?t"
    using inv id desk_later_drawn [OF desk_later_bump, of ?d] desk_later_inj [OF desk_later_bump, of ?d]
    by (auto simp: gov_inv_def gov_ids_ok_def add_row_def)
  moreover have "ballot_ok ?t v" if "ballot_ok s v" for v
    by (rule ballot_ok_cong [OF that]) (simp_all add: fp)
  moreover have "resolution_ok ?t ?r" by (simp add: resolution_ok_def)
  ultimately have "gov_ok s0 ?t"
    using inv resolution_ok_cong [OF _ kept] by (intro gov_ok_next [OF ok _ kept]) (auto simp: gov_inv_def add_row_def)
  then show "holds (bnd gov_id (\<lambda>k. bnd (modify (\<lambda>s. s\<lparr>gd_resolutions := add_row (?R k) (gd_resolutions s)\<rparr>))
      (\<lambda>_. serialize_resolution e (?R k) u True False))) (gov_ok s0) s"
    unfolding wp_bnd wp_gov_id wp_modify by (intro guard_done pres) simp
qed

lemma need_resolution_run:
  "bnd (need_resolution i) k s = (case find_resolution i s of None \<Rightarrow> (Inl (NotFound ''Not Found''), s)
     | Some r \<Rightarrow> (case find_meeting (rl_meeting r) s of None \<Rightarrow> (Inl (ServerError ''Inconsistent query result''), s) | Some m \<Rightarrow> k (r, m) s))"
  by (simp add: need_resolution_def runs split: option.split)

lemma guard_resolution:
  assumes "I s" and "\<And>r m. find_resolution i s = Some r \<Longrightarrow> find_meeting (rl_meeting r) s = Some m \<Longrightarrow> holds (k (r, m)) I s"
  shows "holds (bnd (need_resolution i) k) I s"
  using assms unfolding wp_def need_resolution_run by (auto split: option.split)

lemma update_resolution_ok: "preserves (gov_ok s0) (update_resolution e u i title desc position)"
  unfolding update_resolution_def
proof (rule preservesW, rule guard_resolution, assumption, unfold prod.case, rule guard_reads, assumption, intro reads, rule guard_gets,
    rule guard_ensure, assumption)
  fix s and r :: resolution
  let ?f = "\<lambda>r. r\<lparr>rl_title := given_or (map_option trim title) (rl_title r), rl_desc := given_or (map_option trim desc) (rl_desc r),
    rl_position := given_or position (rl_position r)\<rparr>"
  assume ok: "gov_ok s0 s" "find_resolution i s = Some r"
  then have "gov_ok s0 (s\<lparr>gd_resolutions := set_row rl_id i ?f (gd_resolutions s)\<rparr>)"
    by (intro set_resolution_ok [OF ok(1) gov_ok_refl [OF gov_okD [OF ok(1)]] refl ok(2)]) (simp_all add: resolution_ok_def)
  then show "holds (bnd (set_resolution i ?f) (\<lambda>_. bnd (read_resolution i) (\<lambda>r'. serialize_resolution e r' u True False))) (gov_ok s0) s"
    unfolding set_resolution_def wp_bnd [of "modify _"] wp_modify by (intro guard_done pres)
qed

lemma open_voting_ok: "preserves (gov_ok s0) (open_resolution_voting e u i a z)"
  unfolding open_resolution_voting_def Let_def
proof (rule preservesW, rule guard_resolution, assumption, unfold prod.case, rule guard_reads, assumption, intro reads,
    rule guard_ensure, assumption, rule guard_ensure, assumption, rule guard_ensure, assumption, rule guard_gets, rule guard_txn, assumption)
  fix s and r :: resolution and m :: meeting
  assume ok: "gov_ok s0 s" and r: "find_resolution i s = Some r" and none: "rl_poll r = None"
  let ?a = "given_or a (ve_now e)" and ?el = "eligibility_snapshot e (gm_condo m) s"
  have id: "rl_id r = i" using r find_resolution_Some [OF gov_okD [OF ok]] by simp
  show "wp (open_voting_tx e u r m ?a z ?el) (\<lambda>_. gov_ok s0) (\<lambda>_. True) s"
    unfolding open_voting_tx_def wp_bnd [of "insert_poll _ _ _"]
  proof (rule wp_insert_poll [OF gov_ok_refl [OF gov_okD [OF ok]]])
    fix k qs d
    let ?p = "added_poll e \<lparr>ql_id = [], ql_condo = gm_condo m, ql_title = rl_title r, ql_desc = rl_desc r, ql_status = POLL_OPEN,
       ql_opens = Some ?a, ql_closes = z, ql_author = user_id u, ql_scope = ALL_OWNERS, ql_blocks = [], ql_options = [],
       ql_created = 0, ql_updated = 0\<rparr> k qs"
    let ?t = "s\<lparr>gd_desk := d, gd_polls := add_row ?p (gd_polls s)\<rparr>"
    let ?f = "\<lambda>r. r\<lparr>rl_poll := Some (ql_id ?p), rl_opens := Some ?a, rl_closes := z, rl_eligible := Some ?el\<rparr>"
    assume t: "gov_ok s ?t"
    have "?p \<in> set (gd_polls ?t)" by (simp add: add_row_def)
    then have "find_poll k ?t = Some ?p" using find_poll_Some [OF gov_okD [OF t], of k ?p] by simp
    then have "gov_ok s0 (?t\<lparr>gd_resolutions := set_row rl_id i ?f (gd_resolutions ?t)\<rparr>)"
      using none by (intro set_resolution_ok [OF ok t _ r]) (simp_all add: resolution_ok_def)
    then show "wp (bnd (set_resolution (rl_id r) ?f) (\<lambda>_. bnd (read_resolution (rl_id r)) (\<lambda>r'.
        bnd (only_if (gm_status m = NOTICE_PUBLISHED) (bnd (set_meeting (gm_id m) (\<lambda>m. m\<lparr>gm_status := IN_PROGRESS\<rparr>)) (\<lambda>_. ret ())))
          (\<lambda>_. ret r')))) (\<lambda>_. gov_ok s0) (\<lambda>_. True) ?t"
      unfolding set_resolution_def wp_bnd [of "modify _"] wp_modify id by (intro preserves_success pres)
  qed
qed (intro pres)+

lemma close_voting_ok: "preserves (gov_ok s0) (close_resolution_voting e u i)"
  unfolding close_resolution_voting_def
proof (rule preservesW, rule guard_resolution, assumption, unfold prod.case, rule guard_reads, assumption, intro reads, rule guard_gets,
    rule guard_need, assumption, rule guard_ensure, assumption, rule guard_reads, assumption, intro reads, rule guard_gets,
    rule guard_txn, assumption)
  fix s and r :: resolution and m :: meeting and p :: poll and res
  let ?q = "quorum_for_poll e (gm_condo m) (ql_id p) (gm_quorum m) s"
  let ?h = "\<lambda>q. if ql_id q = ql_id p then q\<lparr>ql_status := POLL_CLOSED, ql_updated := ve_now e\<rparr> else q"
  let ?t = "s\<lparr>gd_polls := map ?h (gd_polls s)\<rparr>"
  let ?f = "\<lambda>x. x\<lparr>rl_results := Some (res, ?q), rl_closes := Some (given_or (rl_closes r) (ve_now e))\<rparr>"
  assume ok: "gov_ok s0 s" and r: "find_resolution i s = Some r" and p: "poll_of r s = Some p" and still: "ql_status p \<noteq> POLL_CLOSED"
  have inv: "gov_inv s" using ok by (rule gov_okD)
  have id: "rl_id r = i" using r find_resolution_Some [OF inv] by simp
  have pp: "rl_poll r = Some (ql_id p)" "find_poll (ql_id p) s = Some p"
    using p find_poll_Some [OF inv] by (auto simp: poll_of_def split: option.splits)
  have t: "gov_ok s ?t" by (rule ok_map_polls [OF gov_ok_refl [OF inv]]) simp_all
  have "find_poll (ql_id p) ?t = Some (?h p)" using find_poll_map [of ?h "ql_id p" s] pp(2) by simp
  then have closed: "is_closed (ql_id p) ?t" "find_poll (ql_id p) ?t \<noteq> None" by (simp_all add: is_closed_def)
  have "gov_ok s0 (?t\<lparr>gd_resolutions := set_row rl_id i ?f (gd_resolutions ?t)\<rparr>)"
  proof (rule set_resolution_ok [OF ok t _ r])
    show "rl_results (?f r) = rl_results r" if "rl_poll r = Some k" "is_closed k s" for k
      using that pp still by (simp add: is_closed_def)
    show "resolution_ok ?t (?f r)" using closed pp(1) by (simp add: resolution_ok_def)
  qed simp_all
  then show "wp (close_voting_tx e u r m p (res, ?q)) (\<lambda>_. gov_ok s0) (\<lambda>_. True) s"
    unfolding close_voting_tx_def set_poll_def set_resolution_def wp_bnd [of "modify _"] wp_modify id
    by (intro preserves_success pres) (simp add: set_row_def set_where_def)
qed (intro pres)+

end
