(* ===== verification/Meeting_Properties.thy ===== *)
theory Meeting_Properties
  imports Meeting_Reach Form_Properties
begin

text \<open>
  Polls and meetings as one system: a step for each call that writes, with the changes other services
  make to owners and units in between, and what holds of ballots, results and quorums in every state
  it reaches.
\<close>

section \<open>The system\<close>

inductive gov_step :: "gov_db \<Rightarrow> gov_db \<Rightarrow> bool" where
  gov_elsewhere: "desk_later (gd_desk s) d \<Longrightarrow> gov_step s (s\<lparr>gd_desk := d, gd_block := b, gd_roles := rs\<rparr>)"
| gov_list_polls: "list_polls e u condo manage limit offset s = (l, t) \<Longrightarrow> gov_step s t"
| gov_get_poll: "get_poll e u i manage' s = (v, t) \<Longrightarrow> gov_step s t"
| gov_create_poll: "create_poll e u qi s = (v, t) \<Longrightarrow> gov_step s t"
| gov_update_poll: "update_poll e u i pp s = (v, t) \<Longrightarrow> gov_step s t"
| gov_cast: "cast_vote e u i unit opt s = (vs, t) \<Longrightarrow> gov_step s t"
| gov_sweep: "poll_sweep e lock_free s = (n, t) \<Longrightarrow> gov_step s t"
| gov_get_meeting: "get_meeting e u mail i s = (w, t) \<Longrightarrow> gov_step s t"
| gov_create_meeting: "create_meeting u mi s = (m, t) \<Longrightarrow> gov_step s t"
| gov_update_meeting: "update_meeting u i mp s = (m, t) \<Longrightarrow> gov_step s t"
| gov_notice: "publish_notice e u i s = (m, t) \<Longrightarrow> gov_step s t"
| gov_minutes: "publish_minutes e u i body s = (m, t) \<Longrightarrow> gov_step s t"
| gov_proxy: "submit_proxy e u i px s = (x, t) \<Longrightarrow> gov_step s t"
| gov_add: "add_resolution e u i title desc position s = (r, t) \<Longrightarrow> gov_step s t"
| gov_update: "update_resolution e u i title' desc position s = (r, t) \<Longrightarrow> gov_step s t"
| gov_open: "open_resolution_voting e u i a z s = (r, t) \<Longrightarrow> gov_step s t"
| gov_close: "close_resolution_voting e u i s = (r, t) \<Longrightarrow> gov_step s t"
| gov_results: "get_resolution_results e u i s = (y, t) \<Longrightarrow> gov_step s t"
| gov_vote: "cast_resolution_vote e u mail i unit opt s = (vs, t) \<Longrightarrow> gov_step s t"

lemma ok_outside:
  assumes "gov_ok s0 s" and "desk_later (gd_desk s) d"
  shows "gov_ok s0 (s\<lparr>gd_desk := d, gd_block := b, gd_roles := rs\<rparr>)"
  using assms(2) gov_okD [OF assms(1)] by (intro ok_elsewhere [OF assms(1)]) (simp_all add: gov_inv_def)

lemma gov_step_ok: "gov_step s t \<Longrightarrow> gov_ok s0 s \<Longrightarrow> gov_ok s0 t"
  by (erule gov_step.cases)
    (auto intro: ok_outside preservesD [OF list_polls_ok] preservesD [OF get_poll_ok] preservesD [OF create_poll_ok]
      preservesD [OF update_poll_ok] preservesD [OF cast_vote_ok] preservesD [OF poll_sweep_ok] preservesD [OF get_meeting_ok]
      preservesD [OF create_meeting_ok] preservesD [OF meeting_calls_ok(1)] preservesD [OF meeting_calls_ok(2)]
      preservesD [OF meeting_calls_ok(3)] preservesD [OF submit_proxy_ok] preservesD [OF add_resolution_ok]
      preservesD [OF update_resolution_ok] preservesD [OF open_voting_ok] preservesD [OF close_voting_ok]
      preservesD [OF get_results_ok] preservesD [OF cast_resolution_ok])

lemma gov_steps_ok: "gov_step\<^sup>*\<^sup>* s t \<Longrightarrow> gov_ok s0 s \<Longrightarrow> gov_ok s0 t"
  by (induction rule: rtranclp_induct) (blast intro: gov_step_ok)+

definition gov_start :: "gov_db \<Rightarrow> bool" where
  "gov_start s \<longleftrightarrow> inj (uuids (vdb (gd_desk s))) \<and> gd_polls s = [] \<and> gd_votes s = [] \<and> gd_proxies s = [] \<and> gd_resolutions s = []"

lemma gov_start_inv: "gov_start s \<Longrightarrow> gov_inv s"
  by (simp add: gov_start_def gov_inv_def gov_ids_ok_def)

lemma gov_reached: "gov_start s0 \<Longrightarrow> gov_step\<^sup>*\<^sup>* s0 s \<Longrightarrow> gov_inv s"
  using gov_steps_ok gov_ok_refl [OF gov_start_inv] gov_okD by blast

section \<open>A concrete meeting\<close>

definition sample_owner :: auth_user where
  "sample_owner = \<lparr>user_id = ''o'', user_roles = [\<lparr>role = UNIT_OWNER, role_condo = Some ''c'', role_unit = Some ''u''\<rparr>]\<rparr>"

definition sample_assembly :: gov_db where
  "sample_assembly = \<lparr>gd_desk = sample_desk\<lparr>vd_owners := [\<lparr>ow_id = ''w'', ow_unit = ''u'', ow_user = ''o'', ow_share = 10,
     ow_active = True, ow_primary = True, ow_start = 0, ow_end = None\<rparr>]\<rparr>, gd_block = (\<lambda>_. ''b''), gd_roles = [(''o'', ''c'')], gd_polls = [], gd_votes = [], gd_meetings = [],
     gd_proxies = [], gd_resolutions = [], gd_events = []\<rparr>"

definition sample_called :: gov_db where
  "sample_called = snd (create_meeting sample_manager \<lparr>mi_condo = ''c'', mi_kind = AGM, mi_title = ''AGM'', mi_scheduled = 0,
     mi_notice = Some ''All owners'', mi_quorum = None\<rparr> sample_assembly)"

definition sample_noticed :: gov_db where
  "sample_noticed = snd (publish_notice sample_visit_env sample_manager ''id0'' sample_called)"

definition sample_moved :: gov_db where
  "sample_moved = snd (add_resolution sample_visit_env sample_manager ''id0'' ''Paint'' None None sample_noticed)"

definition sample_voting :: gov_db where
  "sample_voting = snd (open_resolution_voting sample_visit_env sample_manager ''id1'' None (Some 2000000) sample_moved)"

definition sample_cast :: gov_db where
  "sample_cast = snd (cast_resolution_vote sample_visit_env sample_owner None ''id1'' ''u'' ''id3'' sample_voting)"

definition sample_proxied :: gov_db where
  "sample_proxied = snd (submit_proxy sample_visit_env sample_owner ''id0'' \<lparr>pi_unit = ''u'', pi_name = ''Ann'', pi_contact = Some ''ann@x'',
     pi_holder = None\<rparr> sample_voting)"

definition late_env :: visit_env where
  "late_env = sample_visit_env\<lparr>ve_svc := \<lparr>now = 3000000, this_year = 2024\<rparr>\<rparr>"

definition sample_swept :: gov_db where
  "sample_swept = snd (poll_sweep late_env True sample_cast)"

lemma sample_assembly_start: "gov_start sample_assembly"
  using sample_desk_start by (simp add: gov_start_def sample_assembly_def visit_start_def vdb_def)

lemma sample_gov_steps:
  "gov_step\<^sup>*\<^sup>* sample_assembly sample_voting" "gov_step sample_voting sample_cast" "gov_step sample_voting sample_proxied"
  "gov_step sample_cast sample_swept"
proof -
  have "gov_step sample_assembly sample_called" "gov_step sample_called sample_noticed" "gov_step sample_noticed sample_moved"
    "gov_step sample_moved sample_voting"
    unfolding sample_called_def sample_noticed_def sample_moved_def sample_voting_def
    by (rule gov_create_meeting gov_notice gov_add gov_open, rule prod.collapse [symmetric])+
  then show "gov_step\<^sup>*\<^sup>* sample_assembly sample_voting" by (meson rtranclp.rtrancl_into_rtrancl rtranclp.rtrancl_refl)
  show "gov_step sample_voting sample_cast" "gov_step sample_voting sample_proxied" "gov_step sample_cast sample_swept"
    unfolding sample_cast_def sample_proxied_def sample_swept_def
    by (rule gov_vote gov_proxy gov_sweep, rule prod.collapse [symmetric])+
qed

lemma sample_gov_reach:
  "gov_step\<^sup>*\<^sup>* sample_assembly sample_cast" "gov_step\<^sup>*\<^sup>* sample_assembly sample_proxied" "gov_step\<^sup>*\<^sup>* sample_assembly sample_swept"
  using sample_gov_steps by (meson rtranclp.rtrancl_into_rtrancl)+

definition sample_view :: "gov_db \<Rightarrow> _" where
  "sample_view s = (map (\<lambda>r. (rl_id r, rl_meeting r, rl_poll r)) (gd_resolutions s), map (\<lambda>m. (gm_id m, gm_status m)) (gd_meetings s),
     map (\<lambda>p. (ql_id p, ql_condo p, ql_status p, ql_opens p, ql_closes p, ql_scope p, map qo_id (ql_options p))) (gd_polls s),
     map (\<lambda>v. (vt_poll v, vt_unit v, vt_option v, vt_weight v, vt_proxy v)) (gd_votes s),
     map (\<lambda>x. (px_meeting x, px_unit x, px_owner x)) (gd_proxies s),
     map (\<lambda>w. (ow_user w, ow_unit w, ow_share w, ow_active w, ow_end w)) (vd_owners (gd_desk s)), unit_condo ''u'' s)"

lemma sample_cast_view: "sample_view sample_cast =
    ([(''id1'', ''id0'', Some ''id2'')], [(''id0'', IN_PROGRESS)],
     [(''id2'', ''c'', POLL_OPEN, Some 1000000, Some 2000000, ALL_OWNERS, [''id3'', ''id4'', ''id5''])],
     [(''id2'', ''u'', ''id3'', 10, False)], [], [(''o'', ''u'', 10, True, None)], Some ''c'')"
  by code_simp

lemma sample_proxied_view: "sample_view sample_proxied =
    ([(''id1'', ''id0'', Some ''id2'')], [(''id0'', IN_PROGRESS)],
     [(''id2'', ''c'', POLL_OPEN, Some 1000000, Some 2000000, ALL_OWNERS, [''id3'', ''id4'', ''id5''])],
     [], [(''id0'', ''u'', ''o'')], [(''o'', ''u'', 10, True, None)], Some ''c'')"
  by code_simp

lemma sample_people:
  "is_gov_management sample_manager ''c''" "\<not> can_vote sample_manager" "can_vote sample_owner" "some_role (grants_member ''c'') sample_owner"
  by code_simp+

lemma sample_cast_rows:
  obtains p v w where "gd_polls sample_cast = [p]" "find_poll ''id2'' sample_cast = Some p" "ql_id p = ''id2''" "ql_condo p = ''c''"
    "ql_status p = POLL_OPEN" "ql_closes p = Some 2000000" "gd_votes sample_cast = [v]" "vt_poll v = ''id2''" "vt_unit v = ''u''" "vt_weight v = 10"
    "vd_owners (gd_desk sample_cast) = [w]" "ow_unit w = ''u''" "ow_share w = 10" "ow_active w" "ow_end w = None"
    "unit_condo ''u'' sample_cast = Some ''c''"
proof -
  from sample_cast_view obtain p v w where "gd_polls sample_cast = [p]" "ql_id p = ''id2''" "ql_condo p = ''c''" "ql_status p = POLL_OPEN"
    "ql_closes p = Some 2000000" "gd_votes sample_cast = [v]" "vt_poll v = ''id2''" "vt_unit v = ''u''" "vt_weight v = 10"
    "vd_owners (gd_desk sample_cast) = [w]" "ow_unit w = ''u''" "ow_share w = 10" "ow_active w" "ow_end w = None"
    "unit_condo ''u'' sample_cast = Some ''c''"
    unfolding sample_view_def prod.inject map_eq_Cons_conv by auto
  with that show thesis by (simp add: find_poll_def)
qed

lemma sweep_run:
  "poll_sweep e True s = (Inr (count_where (is_expired (ve_now e)) (gd_polls s)),
     s\<lparr>gd_polls := map (\<lambda>q. if is_expired (ve_now e) q then q\<lparr>ql_status := POLL_CLOSED, ql_updated := ve_now e\<rparr> else q) (gd_polls s)\<rparr>)"
  by (simp add: poll_sweep_def close_expired_polls_def runs act_simps set_where_def)

section \<open>Results\<close>

lemma tally_add_sum:
  "sum_list (map (fst \<circ> snd) (tally_add k w m)) = sum_list (map (fst \<circ> snd) m) + 1"
  "sum_list (map (snd \<circ> snd) (tally_add k w m)) = sum_list (map (snd \<circ> snd) m) + w"
  by (induction k w m rule: tally_add.induct) auto

lemma tally_add_get:
  "map_of (tally_add k w m) j = (if j = k then (case map_of m k of None \<Rightarrow> Some (1, w) | Some (n, x) \<Rightarrow> Some (n + 1, x + w)) else map_of m j)"
  by (induction k w m rule: tally_add.induct) (auto split: option.split)

definition chosen :: "string \<Rightarrow> ballot list \<Rightarrow> ballot list" where
  "chosen j vs = filter (\<lambda>v. vt_option v = j) vs"

lemma tally_fold:
  "map_of m j = Some (n, x) \<Longrightarrow> map_of (fold (\<lambda>v. tally_add (vt_option v) (vt_weight v)) vs m) j =
     Some (n + length (chosen j vs), x + sum_list (map vt_weight (chosen j vs)))"
  by (induction vs arbitrary: m n x) (auto simp: chosen_def tally_add_get split: option.splits)

lemma tally_get: "q \<in> set os \<Longrightarrow> map_of (tally os vs) (qo_id q) =
    Some (length (chosen (qo_id q) vs), sum_list (map vt_weight (chosen (qo_id q) vs)))"
proof -
  assume "q \<in> set os"
  then have "map_of (map (\<lambda>q. (qo_id q, 0, 0)) os) (qo_id q) = Some (0 :: nat, 0 :: rat)" by (induction os) auto
  then show ?thesis using tally_fold [of _ "qo_id q" 0 0 vs] by (simp add: tally_def)
qed

text \<open>Ballots sorted by option.\<close>

lemma sum_pick:
  fixes c :: "'a :: comm_monoid_add"
  assumes "distinct ks" and "a \<in> set ks"
  shows "(\<Sum>k\<leftarrow>ks. if k = a then c else 0) = c"
proof -
  have none: "a \<notin> set ks \<Longrightarrow> (\<Sum>k\<leftarrow>ks. if k = a then c else 0) = 0" for ks by (induction ks) auto
  from assms show ?thesis by (induction ks) (auto simp: none)
qed

lemma sum_by_option:
  fixes f :: "ballot \<Rightarrow> 'a :: comm_monoid_add"
  assumes "distinct ks" and "\<And>v. v \<in> set vs \<Longrightarrow> vt_option v \<in> set ks"
  shows "(\<Sum>k\<leftarrow>ks. sum_list (map f (chosen k vs))) = sum_list (map f vs)"
  using assms(2)
proof (induction vs)
  case (Cons v vs)
  have "(\<Sum>k\<leftarrow>ks. sum_list (map f (chosen k (v # vs)))) = (\<Sum>k\<leftarrow>ks. (if k = vt_option v then f v else 0) + sum_list (map f (chosen k vs)))"
    by (rule arg_cong [of _ _ sum_list], rule map_cong) (auto simp: chosen_def)
  also have "\<dots> = (\<Sum>k\<leftarrow>ks. if k = vt_option v then f v else 0) + (\<Sum>k\<leftarrow>ks. sum_list (map f (chosen k vs)))"
    by (rule sum_list_addf)
  also have "(\<Sum>k\<leftarrow>ks. if k = vt_option v then f v else 0) = f v"
    using Cons(2) by (intro sum_pick assms(1)) simp
  finally show ?case using Cons by simp
qed (simp add: chosen_def)

text \<open>
  C35. The results of a poll account for every ballot: in every state of the two services, the votes of
  a poll are as many as the units that voted, each option is credited with exactly the ballots cast for
  it and their shares, and the counts and shares of the options add up to those of the poll.
\<close>

theorem poll_results_add_up:
  assumes "gov_start s0" and "gov_step\<^sup>*\<^sup>* s0 s" and "find_poll i s = Some p"
  shows "let r = compute_results i (sorted_options p) b s; vs = filter (\<lambda>v. vt_poll v = i) (gd_votes s) in
    qr_votes r = card (vt_unit ` set vs) \<and> qr_weight r = sum_list (map vt_weight vs) \<and>
    map (\<lambda>(k, n, x, _). (k, n, x)) (qr_options r) = map (\<lambda>k. (k, length (filter (\<lambda>v. vt_option v = k) vs),
      sum_list (map vt_weight (filter (\<lambda>v. vt_option v = k) vs)))) (map qo_id (sorted_options p)) \<and>
    sum_list (map (\<lambda>(k, n, x, _). n) (qr_options r)) = qr_votes r \<and>
    sum_list (map (\<lambda>(k, n, x, _). x) (qr_options r)) = qr_weight r"
proof -
  have inv: "gov_inv s" using assms(1, 2) by (rule gov_reached)
  define vs where "vs = filter (\<lambda>v. vt_poll v = i) (gd_votes s)"
  define r where "r = compute_results i (sorted_options p) b s"
  have p: "p \<in> set (gd_polls s)" using assms(3) find_poll_Some [OF inv] by simp
  have "distinct (map ballot_key vs)" using inv by (simp add: vs_def gov_inv_def List.distinct_map_filter)
  then have "distinct (map vt_unit vs)" by (auto simp: vs_def distinct_map ballot_key_def inj_on_def)
  then have units: "card (vt_unit ` set vs) = length vs" using distinct_card [of "map vt_unit vs"] by simp
  have "distinct (map qo_id (ql_options p))"
    using inv p by (auto simp: gov_inv_def gov_ids_ok_def option_ids_def distinct_concat_iff in_set_conv_decomp)
  then have ks: "distinct (map qo_id (sorted_options p))" unfolding sorted_options_def by (simp add: distinct_map)
  have opt: "vt_option v \<in> set (map qo_id (sorted_options p))" if "v \<in> set vs" for v
    using inv that assms(3) by (auto simp: gov_inv_def ballot_ok_def vs_def sorted_options_def)
  have line: "option_line (tally (sorted_options p) vs) n x q = (qo_id q, length (chosen (qo_id q) vs),
      sum_list (map vt_weight (chosen (qo_id q) vs)), tenth_percent (of_nat (length (chosen (qo_id q) vs))) (of_nat n),
      tenth_percent (sum_list (map vt_weight (chosen (qo_id q) vs))) x)" if "q \<in> set (sorted_options p)" for n x q
    using tally_get [OF that] by (simp add: option_line_def)
  have r: "qr_votes r = length vs" "qr_weight r = sum_list (map vt_weight vs)"
    "map (\<lambda>(k, n, x, _). (k, n, x)) (qr_options r) =
      map (\<lambda>k. (k, length (chosen k vs), sum_list (map vt_weight (chosen k vs)))) (map qo_id (sorted_options p))"
    by (simp_all add: r_def compute_results_def Let_def vs_def [symmetric] line cong: map_cong)
  have "map (\<lambda>(k, n, x, _). n) (qr_options r) = map (fst \<circ> snd) (map (\<lambda>(k, n, x, _). (k, n, x)) (qr_options r))"
    "map (\<lambda>(k, n, x, _). x) (qr_options r) = map (snd \<circ> snd) (map (\<lambda>(k, n, x, _). (k, n, x)) (qr_options r))"
    by (simp_all add: split_def)
  moreover have "(\<Sum>k\<leftarrow>map qo_id (sorted_options p). length (chosen k vs)) = length vs"
    using sum_by_option [OF ks opt, of vs "\<lambda>_. 1 :: nat"] by (simp add: sum_list_triv)
  moreover have "(\<Sum>k\<leftarrow>map qo_id (sorted_options p). sum_list (map vt_weight (chosen k vs))) = sum_list (map vt_weight vs)"
    using sum_by_option [OF ks opt, of vs vt_weight] by simp
  ultimately show ?thesis
    unfolding vs_def [symmetric] r_def [symmetric] Let_def r(3) using r(1, 2) units by (simp add: chosen_def comp_def)
qed

theorem poll_results_add_up_witness:
  "\<exists>p. find_poll ''id2'' sample_cast = Some p \<and> qr_votes (compute_results ''id2'' (sorted_options p) True sample_cast) = 1"
proof -
  obtain p v where p: "find_poll ''id2'' sample_cast = Some p" and v: "gd_votes sample_cast = [v]" "vt_poll v = ''id2''"
    by (rule sample_cast_rows)
  with poll_results_add_up [OF sample_assembly_start sample_gov_reach(1) p, of True] show ?thesis by (simp add: Let_def)
qed

text \<open>
  C36. What a closed poll decided stands: whatever calls of the two services follow, the poll stays
  closed and its ballots and its results, option by option, are the same.
\<close>

theorem closed_poll_final:
  assumes "gov_start s0" and "gov_step\<^sup>*\<^sup>* s0 s" and "find_poll i s = Some p" and "ql_status p = POLL_CLOSED" and "gov_step\<^sup>*\<^sup>* s t"
  shows "\<exists>q. find_poll i t = Some q \<and> ql_status q = POLL_CLOSED \<and> ql_condo q = ql_condo p \<and>
    filter (\<lambda>v. vt_poll v = i) (gd_votes t) = filter (\<lambda>v. vt_poll v = i) (gd_votes s) \<and>
    compute_results i (sorted_options q) b t = compute_results i (sorted_options p) b s"
proof -
  have "gov_ok s t" by (rule gov_steps_ok [OF assms(5) gov_ok_refl [OF gov_reached [OF assms(1, 2)]]])
  then obtain q where "find_poll i t = Some q" "ql_condo q = ql_condo p" "ql_status q = POLL_CLOSED" "ql_options q = ql_options p"
    "ballots_of i t = ballots_of i s"
    using assms(3, 4) unfolding gov_ok_def polls_kept_def by blast
  then show ?thesis by (intro exI [of _ q]) (simp add: compute_results_def sorted_options_def ballots_of_def)
qed

theorem closed_poll_final_witness:
  "\<exists>p t. find_poll ''id2'' sample_swept = Some p \<and> gov_step sample_swept t \<and>
     filter (\<lambda>v. vt_poll v = ''id2'') (gd_votes t) = filter (\<lambda>v. vt_poll v = ''id2'') (gd_votes sample_swept) \<and>
     t = snd (cast_vote late_env sample_owner ''id2'' ''u'' ''id3'' sample_swept)"
proof -
  obtain q where "gd_polls sample_cast = [q]" "ql_id q = ''id2''" "ql_status q = POLL_OPEN" "ql_closes q = Some 2000000"
    by (rule sample_cast_rows)
  then obtain p where p: "find_poll ''id2'' sample_swept = Some p" "ql_status p = POLL_CLOSED"
    by (simp add: sample_swept_def sweep_run find_poll_def is_expired_def late_env_def)
  have "gov_step sample_swept (snd (cast_vote late_env sample_owner ''id2'' ''u'' ''id3'' sample_swept))"
    by (rule gov_cast, rule prod.collapse [symmetric])
  with closed_poll_final [OF sample_assembly_start sample_gov_reach(3) p r_into_rtranclp] p(1) show ?thesis by blast
qed

section \<open>Quorum\<close>

lemma share_add_keys: "fst ` set (share_add k x m) = (if x > 0 \<or> k \<in> fst ` set m then insert k (fst ` set m) else fst ` set m)"
  by (induction k x m rule: share_add.induct) auto

lemma share_add_distinct: "distinct (map fst m) \<Longrightarrow> distinct (map fst (share_add k x m))"
  by (induction k x m rule: share_add.induct) (auto simp: share_add_keys split: if_splits)

lemma share_add_get: "map_of (share_add k x m) j =
    (if j = k then (case map_of m k of None \<Rightarrow> if x > 0 then Some x else None | Some y \<Rightarrow> Some (max x y)) else map_of m j)"
  by (induction k x m rule: share_add.induct) (auto simp: max_def split: option.split)

definition unit_shares :: "string \<Rightarrow> ownership list \<Rightarrow> rat set" where
  "unit_shares k ws = {ow_share w | w. w \<in> set ws \<and> ow_unit w = k \<and> ow_share w > 0}"

lemma unit_shares_finite [simp]: "finite (unit_shares k ws)"
  unfolding unit_shares_def by (rule finite_subset [of _ "ow_share ` set ws"]) auto

lemma unit_shares_snoc: "unit_shares k (ws @ [w]) =
    (if ow_unit w = k \<and> ow_share w > 0 then insert (ow_share w) (unit_shares k ws) else unit_shares k ws)"
  by (auto simp: unit_shares_def)

lemma shares_by_unit_get: "map_of (shares_by_unit ws) k = (if unit_shares k ws = {} then None else Some (Max (unit_shares k ws)))"
proof (induction ws rule: rev_induct)
  case (snoc w ws)
  have pos: "Max (unit_shares k ws) > 0" if "unit_shares k ws \<noteq> {}"
    using Max_in [OF unit_shares_finite that] by (auto simp: unit_shares_def)
  have "map_of (shares_by_unit (ws @ [w])) k = map_of (share_add (ow_unit w) (ow_share w) (shares_by_unit ws)) k"
    by (simp add: shares_by_unit_def)
  then have step: "map_of (shares_by_unit (ws @ [w])) k =
      (if k = ow_unit w then (case map_of (shares_by_unit ws) k of None \<Rightarrow> if ow_share w > 0 then Some (ow_share w) else None
         | Some y \<Rightarrow> Some (max (ow_share w) y)) else map_of (shares_by_unit ws) k)"
    by (simp add: share_add_get)
  show ?case
  proof (cases "unit_shares k ws = {}")
    case True
    then show ?thesis unfolding step snoc unit_shares_snoc by (cases "k = ow_unit w") simp_all
  next
    case False
    then have "Max (insert (ow_share w) (unit_shares k ws)) = max (ow_share w) (Max (unit_shares k ws))"
      by (intro Max_insert) simp_all
    then show ?thesis unfolding step snoc unit_shares_snoc using False pos [OF False] by (cases "k = ow_unit w") (auto simp: max_def)
  qed
qed (simp add: shares_by_unit_def unit_shares_def)

lemma shares_by_unit_distinct: "distinct (map fst (shares_by_unit ws))"
  by (induction ws rule: rev_induct) (simp_all add: shares_by_unit_def share_add_distinct)

lemma sum_of_map: "distinct (map fst m) \<Longrightarrow> sum_list (map snd m) = (\<Sum>k \<in> fst ` set m. the (map_of m k))"
proof (induction m)
  case (Cons x m)
  obtain k v where x: "x = (k, v)" by (cases x)
  have "(\<Sum>j \<in> fst ` set m. the (map_of (x # m) j)) = (\<Sum>j \<in> fst ` set m. the (map_of m j))"
    using Cons(2) by (intro sum.cong) (auto simp: x)
  then show ?case using Cons by (simp add: x)
qed simp

text \<open>
  C37. The quorum counts units, not owners: over the ownerships that are active in the condo, the units
  of the quorum are those with a positive share, each with the largest share among its owners, and
  their sum is the share of the meeting; in every state of the services the units cast are the different
  units with a ballot in the poll, and the quorum is met exactly when their share, in thousandths of a
  percent of the total, reaches the required one.
\<close>

theorem quorum_counts_units:
  assumes "gov_start s0" and "gov_step\<^sup>*\<^sup>* s0 s"
    and "ws = filter (\<lambda>w. ownership_at (ve_now e) w \<and> unit_condo (ow_unit w) s = Some condo) (vd_owners (gd_desk s))"
    and "us = {ow_unit w | w. w \<in> set ws \<and> ow_share w > 0}"
    and "whole = (\<Sum>u \<in> us. Max {ow_share w | w. w \<in> set ws \<and> ow_unit w = u \<and> ow_share w > 0})"
    and "cast = sum_list (map vt_weight (filter (\<lambda>v. vt_poll v = i) (gd_votes s)))" and "round3 whole > 0"
  shows "qm_units (quorum_for_poll e condo i q s) = card us \<and> qm_share (quorum_for_poll e condo i q s) = round3 whole \<and>
    qm_cast_units (quorum_for_poll e condo i q s) = card (vt_unit ` set (filter (\<lambda>v. vt_poll v = i) (gd_votes s))) \<and>
    (qm_met (quorum_for_poll e condo i q s) \<longleftrightarrow> q \<le> of_int (js_round (cast / round3 whole * 100000)) / 1000 + 1 / 1000000000)"
proof -
  have inv: "gov_inv s" using assms(1, 2) by (rule gov_reached)
  let ?m = "shares_by_unit ws" and ?vs = "filter (\<lambda>v. vt_poll v = i) (gd_votes s)"
  have us: "fst ` set ?m = us"
  proof -
    have keys: "k \<in> fst ` set ?m \<longleftrightarrow> unit_shares k ws \<noteq> {}" for k
      using shares_by_unit_get [of ws k] by (metis map_of_eq_None_iff option.distinct(1))
    show ?thesis unfolding set_eq_iff keys by (auto simp: assms(4) unit_shares_def)
  qed
  have "card us = length ?m" unfolding us [symmetric] using shares_by_unit_distinct [of ws] by (metis distinct_card length_map list.set_map)
  moreover have "sum_list (map snd ?m) = (\<Sum>k \<in> us. the (map_of ?m k))" unfolding sum_of_map [OF shares_by_unit_distinct] us ..
  moreover have "(\<Sum>k \<in> us. the (map_of ?m k)) = whole"
    unfolding assms(5) by (rule sum.cong [OF refl]) (auto simp: shares_by_unit_get assms(4) unit_shares_def)
  moreover have "card (vt_unit ` set ?vs) = length ?vs"
  proof -
    have "distinct (map ballot_key ?vs)" using inv by (simp add: gov_inv_def List.distinct_map_filter)
    then have "distinct (map vt_unit ?vs)" by (auto simp: distinct_map ballot_key_def inj_on_def)
    then show ?thesis using distinct_card [of "map vt_unit ?vs"] by simp
  qed
  ultimately show ?thesis
    using assms(7) unfolding quorum_for_poll_def quorum_baseline_def active_ownerships_def assms(3) [symmetric]
    by (simp add: with_cast_def quorum_of_shares_def Let_def assms(6))
qed

theorem quorum_counts_units_witness:
  "qm_units (quorum_for_poll sample_visit_env ''c'' ''id2'' 50 sample_cast) = 1 \<and> qm_met (quorum_for_poll sample_visit_env ''c'' ''id2'' 50 sample_cast)"
proof -
  define ws where "ws = filter (\<lambda>w. ownership_at (ve_now sample_visit_env) w \<and> unit_condo (ow_unit w) sample_cast = Some ''c'') (vd_owners (gd_desk sample_cast))"
  obtain v w where row: "gd_votes sample_cast = [v]" "vt_poll v = ''id2''" "vt_weight v = 10" "vd_owners (gd_desk sample_cast) = [w]"
    "ow_unit w = ''u''" "ow_share w = 10" "ow_active w" "ow_end w = None" "unit_condo ''u'' sample_cast = Some ''c''"
    by (rule sample_cast_rows)
  have "ws = [w]" using row by (simp add: ws_def ownership_at_def)
  then have us: "{ow_unit w | w. w \<in> set ws \<and> ow_share w > 0} = {''u''}"
    and m: "{ow_share w | w. w \<in> set ws \<and> ow_unit w = ''u'' \<and> ow_share w > 0} = {10}"
    using row by auto
  have v: "sum_list (map vt_weight (filter (\<lambda>v. vt_poll v = ''id2'') (gd_votes sample_cast))) = 10" using row by simp
  have r: "round3 10 = 10" "js_round 100000 = 100000" by code_simp+
  show ?thesis
    using quorum_counts_units [OF sample_assembly_start sample_gov_reach(1) ws_def refl refl refl, of "''id2''" 50]
    by (simp add: us m v r)
qed

section \<open>Where the meetings go wrong\<close>

text \<open>
  C39. A resolution whose poll has expired can no longer be concluded: once the sweep has closed the
  poll, closing the vote is refused for good, whoever asks, so that the resolution never gets the
  results and the quorum that are stored when its vote is closed.
\<close>

theorem expired_vote_never_concluded:
  assumes "gov_start s0" and "gov_step\<^sup>*\<^sup>* s0 s" and "find_resolution j s = Some r" and "rl_poll r = Some i"
    and "find_poll i s = Some p" and "ql_status p = POLL_OPEN" and "ql_closes p = Some c" and "c \<le> ve_now e"
    and "poll_sweep e True s = (n, s')" and "gov_step\<^sup>*\<^sup>* s' t"
  shows "(\<exists>q. find_resolution j t = Some q \<and> rl_poll q = Some i \<and> rl_results q = None) \<and>
    (\<forall>e' u. \<exists>err. close_resolution_voting e' u j t = (Inl err, t))"
proof -
  have inv: "gov_inv s" using assms(1, 2) by (rule gov_reached)
  have "resolution_ok s r" using inv assms(3) find_resolution_Some [OF inv, of j r] by (simp add: gov_inv_def)
  then have none: "rl_results r = None" using assms(4-6) unfolding resolution_ok_def is_closed_def by fastforce
  let ?h = "\<lambda>q. if is_expired (ve_now e) q then q\<lparr>ql_status := POLL_CLOSED, ql_updated := ve_now e\<rparr> else q"
  have s': "s' = s\<lparr>gd_polls := map ?h (gd_polls s)\<rparr>" using assms(9) by (simp add: sweep_run)
  have "find_poll i s' = Some (?h p)" using find_poll_map [of ?h i s] assms(5) by (simp add: s')
  then have closed: "is_closed i s'" using assms(6-8) by (simp add: is_closed_def is_expired_def)
  have r': "find_resolution j s' = Some r" using assms(3) by (simp add: s' find_resolution_def)
  have "gov_ok s s'" using preservesD [OF poll_sweep_ok gov_ok_refl [OF inv] assms(9)] .
  then have "gov_ok s' t" by (intro gov_steps_ok [OF assms(10)] gov_ok_refl gov_okD)
  then obtain q where q: "find_resolution j t = Some q" "rl_poll q = Some i" "rl_results q = None" and t: "is_closed i t"
    using r' assms(4) none closed kept_closed [of s' t i] unfolding gov_ok_def resolutions_kept_def by force
  then have "\<exists>err. close_resolution_voting e' u j t = (Inl err, t)" for e' u
    by (auto simp: close_resolution_voting_def need_resolution_run assert_gov_management_def poll_of_def is_closed_def runs split: option.split)
  with q show ?thesis by blast
qed

theorem expired_vote_never_concluded_witness:
  "\<exists>r. find_resolution ''id1'' sample_swept = Some r \<and> rl_results r = None \<and>
     (\<exists>err. close_resolution_voting late_env sample_manager ''id1'' sample_swept = (Inl err, sample_swept))"
proof -
  obtain r where "find_resolution ''id1'' sample_cast = Some r" "rl_poll r = Some ''id2''"
    using sample_cast_view by (auto simp: sample_view_def map_eq_Cons_conv find_resolution_def)
  moreover obtain p where "find_poll ''id2'' sample_cast = Some p" "ql_status p = POLL_OPEN" "ql_closes p = Some 2000000"
    by (rule sample_cast_rows)
  ultimately have "find_resolution ''id1'' sample_cast = Some r" "rl_poll r = Some ''id2''" "find_poll ''id2'' sample_cast = Some p"
    "ql_status p = POLL_OPEN" "ql_closes p = Some 2000000" by blast+
  note row = this
  have sweep: "poll_sweep late_env True sample_cast = (fst (poll_sweep late_env True sample_cast), sample_swept)" by (simp add: sample_swept_def)
  have late: "2000000 \<le> ve_now late_env" by (simp add: late_env_def)
  from expired_vote_never_concluded [OF sample_assembly_start sample_gov_reach(1) row late sweep rtranclp.rtrancl_refl] show ?thesis by blast
qed

lemma wp_never: "wp m (\<lambda>_ _. False) E s \<Longrightarrow> \<exists>err t. m s = (Inl err, t) \<and> E t"
  by (cases "m s"; cases "fst (m s)") (auto simp: wp_def)

lemma wp_assert_voting:
  assumes "ql_status p = POLL_OPEN \<Longrightarrow> Q () s" and "\<And>t. gd_votes t = gd_votes s \<Longrightarrow> E t"
  shows "wp (assert_voting e p) Q E s"
  using assms by (auto simp: assert_voting_def maybe_auto_close_def set_poll_def wp)

lemma find_row_member: "find_row key k t = Some x \<Longrightarrow> x \<in> set t \<and> key x = k"
  using find_row_mem find_row_key by metis

text \<open>A unit with a ballot in the poll gets no second one, through whichever service it comes.\<close>

lemma record_vote_taken:
  assumes "(ql_id p, unit) \<in> ballot_key ` set (gd_votes s)"
  shows "record_vote e u p q w unit x s = (Inl (Conflict ''This unit has already voted in this poll''), s)"
  using assms by (simp add: record_vote_def Let_def bnd_def as_conflict_def txn_def insert_ballot_run new_ballot_def ballot_key_def)

lemma second_ballot_refused:
  assumes "(i, unit) \<in> ballot_key ` set (gd_votes s)"
  shows "wp (cast_vote_with_ownership e u i unit opt w x) (\<lambda>_ _. False) (\<lambda>t. gd_votes t = gd_votes s) s"
proof -
  have "wp (assert_voting e p) (\<lambda>_. wp (bnd (need (find_row qo_id opt (ql_options p)) (BadRequest ''Invalid poll option'')) (\<lambda>q.
     bnd (ensure (ow_unit w = unit) (BadRequest ''Ownership does not match the selected unit'')) (\<lambda>_.
     bnd (assert_in_audience p unit) (\<lambda>_. record_vote e u p q w unit x)))) (\<lambda>_ _. False) (\<lambda>t. gd_votes t = gd_votes s))
     (\<lambda>t. gd_votes t = gd_votes s) s" if "find_poll i s = Some p" for p
  proof (rule wp_assert_voting)
    have "ql_id p = i" using find_row_member that unfolding find_poll_def by metis
    then show "wp (bnd (need (find_row qo_id opt (ql_options p)) (BadRequest ''Invalid poll option'')) (\<lambda>q.
       bnd (ensure (ow_unit w = unit) (BadRequest ''Ownership does not match the selected unit'')) (\<lambda>_.
       bnd (assert_in_audience p unit) (\<lambda>_. record_vote e u p q w unit x)))) (\<lambda>_ _. False) (\<lambda>t. gd_votes t = gd_votes s) s"
      using record_vote_taken [of p unit s] assms
      by (auto simp: wp assert_in_audience_def wp_def [of "record_vote _ _ _ _ _ _ _"] split: option.split)
  qed simp
  then show ?thesis unfolding cast_vote_with_ownership_def by (auto simp: wp split: option.split)
qed

lemma wp_need_resolution:
  "wp (need_resolution i) Q E s = (case find_resolution i s of None \<Rightarrow> E s
     | Some r \<Rightarrow> (case find_meeting (rl_meeting r) s of None \<Rightarrow> E s | Some m \<Rightarrow> Q (r, m) s))"
  by (simp add: need_resolution_def wp split: option.split)

text \<open>
  C38. A proxy does not bind its owner: where the meeting refuses the vote of an owner who has submitted
  a proxy for the unit, the same owner votes through the poll of the resolution itself, with the
  full share, and from then on nobody votes for that unit, the proxy holder least of all.
\<close>

theorem proxy_does_not_bind:
  assumes "find_resolution j s = Some r" and "find_meeting (rl_meeting r) s = Some m" and "rl_poll r = Some i"
    and "find_poll i s = Some p" and "ql_status p = POLL_OPEN" and "gm_status m = NOTICE_PUBLISHED \<or> gm_status m = IN_PROGRESS"
    and "find (\<lambda>x. px_meeting x = rl_meeting r \<and> px_unit x = unit) (gd_proxies s) = Some x" and "px_owner x = user_id u"
    and "can_vote u" and "some_role (grants_member (ql_condo p)) u"
    and "case ql_opens p of None \<Rightarrow> True | Some t \<Rightarrow> t \<le> ve_now e" and "case ql_closes p of None \<Rightarrow> True | Some t \<Rightarrow> ve_now e < t"
    and "find_row qo_id opt (ql_options p) = Some q" and "find_ownership (ve_now e) (user_id u) unit s = Some w"
    and "unit_condo unit s = Some (ql_condo p)" and "unit_matches_audience p (gd_block s unit)"
    and "(i, unit) \<notin> ballot_key ` set (gd_votes s)"
  shows "(\<exists>msg. cast_resolution_vote e u mail j unit opt s = (Inl (Conflict msg), s)) \<and>
    (\<exists>vs t. cast_vote e u i unit opt s = (Inr vs, t) \<and>
      (\<exists>v \<in> set (gd_votes t). vt_poll v = i \<and> vt_unit v = unit \<and> vt_user v = user_id u \<and> vt_weight v = ow_share w \<and> \<not> vt_proxy v) \<and>
      (\<forall>e' h mail' opt'. \<exists>err t'. cast_resolution_vote e' h mail' j unit opt' t = (Inl err, t') \<and> gd_votes t' = gd_votes t))"
proof -
  have id: "ql_id p = i" using find_row_member assms(4) unfolding find_poll_def by metis
  have refused: "\<exists>msg. cast_resolution_vote e u mail j unit opt s = (Inl (Conflict msg), s)"
    using assms(1-8) by (auto simp: cast_resolution_vote_def need_resolution_run poll_of_def runs)
  let ?v = "new_ballot e u p w unit (qo_id q) None"
  let ?s = "s\<lparr>gd_votes := add_row ?v (gd_votes s)\<rparr>"
  have v: "vt_poll ?v = i" "vt_unit ?v = unit" "vt_user ?v = user_id u" "vt_weight ?v = ow_share w" "\<not> vt_proxy ?v"
    by (simp_all add: new_ballot_def id)
  obtain t where audit: "gov_audit (ql_condo p) (Some unit) u AUDIT_CREATE ''PollVote'' (ql_id p) (ballot_meta q ?v None) ?s = (Inr (), t)"
    and t: "gd_votes t = gd_votes ?s" "gd_polls t = gd_polls s" "gd_resolutions t = gd_resolutions s" "gd_meetings t = gd_meetings s"
    by (auto simp: gov_audit_def visit_audit_def log_audit_def on_part_def modify_def bnd_def gets_def ret_def split: prod.splits)
  have ins: "insert_ballot ?v s = (Inr (), ?s)" using assms(17) by (simp add: insert_ballot_run ballot_key_def v)
  have "find_poll i t = Some p" using assms(4) t(2) by (simp add: find_poll_def)
  then have "\<exists>vs. get_my_votes u i t = (Inr vs, t)" using assms(10) by (simp add: get_my_votes_def assert_gov_access_def runs gets_run)
  moreover have "assert_voting e p s = (Inr (), s)"
    using assms(5, 11, 12) by (auto simp: assert_voting_def maybe_auto_close_def effective_status_def runs ensure_True split: option.splits)
  moreover have "assert_in_audience p unit s = (Inr (), s)" using assms(15, 16) by (simp add: assert_in_audience_def runs ensure_True)
  moreover have "record_vote e u p q w unit None s = get_my_votes u i t"
    using ins audit by (simp add: record_vote_def Let_def bnd_def as_conflict_def txn_def id)
  ultimately obtain vs where cast: "cast_vote e u i unit opt s = (Inr vs, t)"
    using assms(4, 9, 13, 14)
    by (auto simp: cast_vote_def runs bnd_def [of "assert_voting _ _"] bnd_def [of "assert_in_audience _ _"])
  have taken: "(ql_id p, unit) \<in> ballot_key ` set (gd_votes t)" by (simp add: t(1) add_row_def ballot_key_def v id)
  have "wp (cast_resolution_vote e' h mail' j unit opt') (\<lambda>_ _. False) (\<lambda>t'. gd_votes t' = gd_votes t) t" for e' h mail' opt'
    unfolding cast_resolution_vote_def
    using assms(1-4) t(2-4) id by (auto simp: wp wp_need_resolution find_resolution_def find_meeting_def poll_of_def find_poll_def
        intro!: second_ballot_refused taken split: option.split)
  then have "\<exists>err t'. cast_resolution_vote e' h mail' j unit opt' t = (Inl err, t') \<and> gd_votes t' = gd_votes t" for e' h mail' opt'
    by (rule wp_never)
  moreover have "?v \<in> set (gd_votes t)" by (simp add: t(1) add_row_def)
  ultimately show ?thesis using refused cast v by blast
qed

theorem proxy_does_not_bind_witness:
  "\<exists>vs t. cast_vote sample_visit_env sample_owner ''id2'' ''u'' ''id3'' sample_proxied = (Inr vs, t) \<and>
     (\<forall>h mail. \<exists>err t'. cast_resolution_vote sample_visit_env h mail ''id1'' ''u'' ''id3'' t = (Inl err, t'))"
proof -
  from sample_proxied_view obtain r m p x w where rows: "gd_resolutions sample_proxied = [r]" "gd_meetings sample_proxied = [m]"
      "gd_polls sample_proxied = [p]" "gd_proxies sample_proxied = [x]" "vd_owners (gd_desk sample_proxied) = [w]"
    and r: "rl_id r = ''id1''" "rl_meeting r = ''id0''" "rl_poll r = Some ''id2''" and m: "gm_id m = ''id0''" "gm_status m = IN_PROGRESS"
    and p: "ql_id p = ''id2''" "ql_condo p = ''c''" "ql_status p = POLL_OPEN" "ql_opens p = Some 1000000" "ql_closes p = Some 2000000"
      "ql_scope p = ALL_OWNERS" "map qo_id (ql_options p) = [''id3'', ''id4'', ''id5'']"
    and x: "px_meeting x = ''id0''" "px_unit x = ''u''" "px_owner x = ''o''"
    and w: "ow_user w = ''o''" "ow_unit w = ''u''" "ow_active w" "ow_end w = None"
    and rest: "unit_condo ''u'' sample_proxied = Some ''c''" "gd_votes sample_proxied = []"
    unfolding sample_view_def prod.inject map_eq_Cons_conv by auto
  have row: "find_resolution ''id1'' sample_proxied = Some r" "find_meeting (rl_meeting r) sample_proxied = Some m" "rl_poll r = Some ''id2''"
    "find_poll ''id2'' sample_proxied = Some p" "find (\<lambda>x. px_meeting x = rl_meeting r \<and> px_unit x = ''u'') (gd_proxies sample_proxied) = Some x"
    "find_ownership (ve_now sample_visit_env) (user_id sample_owner) ''u'' sample_proxied = Some w"
    using rows r m p x w by (simp_all add: find_resolution_def find_meeting_def find_poll_def find_ownership_def ownership_at_def sample_owner_def)
  obtain q where q: "find_row qo_id ''id3'' (ql_options p) = Some q" using p(7) by (auto simp: map_eq_Cons_conv)
  have "px_owner x = user_id sample_owner" "(''id2'', ''u'') \<notin> ballot_key ` set (gd_votes sample_proxied)" "unit_matches_audience p b"
    "case ql_opens p of None \<Rightarrow> True | Some t \<Rightarrow> t \<le> ve_now sample_visit_env"
    "case ql_closes p of None \<Rightarrow> True | Some t \<Rightarrow> ve_now sample_visit_env < t"
    "some_role (grants_member (ql_condo p)) sample_owner" "unit_condo ''u'' sample_proxied = Some (ql_condo p)" for b
    using x p rest sample_people by (simp_all add: sample_owner_def sample_visit_env_def unit_matches_audience_def)
  note more = this
  from proxy_does_not_bind [where mail = None, OF row(1-4) p(3) disjI2 [OF m(2)] row(5) more(1) sample_people(3) more(6, 4, 5) q row(6) more(7, 3, 2)]
  show ?thesis by blast
qed

text \<open>Back to a draft.\<close>

definition status_patch :: "poll_status \<Rightarrow> poll_patch" where
  "status_patch st = \<lparr>qp_title = None, qp_desc = None, qp_opens = None, qp_closes = None, qp_scope = None, qp_blocks = None,
     qp_status = Some st, qp_options = None\<rparr>"

definition options_patch :: "option_input list \<Rightarrow> poll_patch" where
  "options_patch os = \<lparr>qp_title = None, qp_desc = None, qp_opens = None, qp_closes = None, qp_scope = None, qp_blocks = None,
     qp_status = None, qp_options = Some os\<rparr>"

lemma patch_simps [simp]:
  "qp_title (status_patch st) = None" "qp_desc (status_patch st) = None" "qp_opens (status_patch st) = None" "qp_closes (status_patch st) = None"
  "qp_scope (status_patch st) = None" "qp_blocks (status_patch st) = None" "qp_status (status_patch st) = Some st"
  "qp_options (status_patch st) = None"
  by (simp_all add: status_patch_def)

lemma wp_serialize:
  assumes "find_poll (ql_id p) s = Some q" and "\<not> can_vote u \<or> some_role (grants_member (ql_condo q)) u"
  shows "wp (serialize_poll e p u a b) (\<lambda>_ t. t = s) E s"
  using assms by (simp add: serialize_poll_def Let_def wp get_my_votes_def assert_gov_access_def)

lemma txn_returns: "m s = (Inr x, t) \<Longrightarrow> bnd (txn m) k s = k x t"
  by (simp add: bnd_def txn_def)

lemma drafted_again:
  assumes "find_poll i s = Some p" and "effective_status (ve_now e) p = POLL_OPEN" and "is_gov_management u (ql_condo p)"
    and "\<not> can_vote u \<or> some_role (grants_member (ql_condo p)) u"
  shows "\<exists>v. update_poll e u i (status_patch POLL_DRAFT) s =
    (Inr v, s\<lparr>gd_polls := set_row ql_id i (\<lambda>p. (patched_poll (status_patch POLL_DRAFT) p)\<lparr>ql_updated := ve_now e\<rparr>) (gd_polls s)\<rparr>)"
proof -
  let ?s = "s\<lparr>gd_polls := set_row ql_id i (\<lambda>p. (patched_poll (status_patch POLL_DRAFT) p)\<lparr>ql_updated := ve_now e\<rparr>) (gd_polls s)\<rparr>"
  let ?p = "(patched_poll (status_patch POLL_DRAFT) p)\<lparr>ql_updated := ve_now e\<rparr>"
  have id: "ql_id p = i" using find_row_member assms(1) unfolding find_poll_def by metis
  have found: "find_poll i ?s = Some ?p"
    using assms(1) by (simp add: find_poll_def find_row_set_row patched_poll_def)
  have view: "wp (serialize_poll e ?p u a b) (\<lambda>_ t. t = ?s) (\<lambda>_. False) ?s" for a b
    by (rule wp_serialize [of _ _ ?p]) (use found assms(4) id in \<open>simp_all add: patched_poll_def\<close>)
  have guards: "update_poll e u i (status_patch POLL_DRAFT) s =
      bnd (txn (bnd (ret ()) (\<lambda>_. bnd (set_poll e i (patched_poll (status_patch POLL_DRAFT))) (\<lambda>_. bnd (gets (find_poll i)) (\<lambda>found. need found (NotFound ''Not Found''))))))
        (\<lambda>p'. serialize_poll e p' u (effective_status (ve_now e) p' \<noteq> POLL_DRAFT) (effective_status (ve_now e) p' = POLL_CLOSED)) s"
    using assms(1-3) by (simp add: update_poll_def Let_def runs assert_gov_management_def only_if_def)
  have "bnd (ret ()) (\<lambda>_. bnd (set_poll e i (patched_poll (status_patch POLL_DRAFT))) (\<lambda>_. bnd (gets (find_poll i))
      (\<lambda>found. need found (NotFound ''Not Found'')))) s = (Inr ?p, ?s)"
    using found by (simp add: set_poll_def bnd_ret bnd_modify bnd_gets need_Some)
  moreover have "\<exists>v. serialize_poll e ?p u a b ?s = (Inr v, ?s)" for a b using wp_total [OF view [of a b]] by auto
  ultimately show ?thesis unfolding guards by (simp add: txn_returns)
qed

lemma new_options_return: "\<exists>qs t. new_options k os s = (Inr qs, t) \<and> gd_votes t = gd_votes s \<and> gd_polls t = gd_polls s"
proof (induction os arbitrary: k s)
  case (Cons x os)
  obtain label position where x: "x = (label, position)" by (cases x)
  have "gov_id s = (Inr (fresh (gd_desk s)), s\<lparr>gd_desk := bump (gd_desk s)\<rparr>)"
    by (simp add: on_part_def bump_def fresh_def vdb_def new_id_def)
  with Cons [of "Suc k" "s\<lparr>gd_desk := bump (gd_desk s)\<rparr>"] show ?case by (auto simp: x bnd_Inr ret_run)
qed (simp add: ret_run)

lemma options_patch_simps [simp]:
  "qp_title (options_patch os) = None" "qp_desc (options_patch os) = None" "qp_opens (options_patch os) = None" "qp_closes (options_patch os) = None"
  "qp_scope (options_patch os) = None" "qp_blocks (options_patch os) = None" "qp_status (options_patch os) = None"
  "qp_options (options_patch os) = Some os"
  by (simp_all add: options_patch_def)

lemma options_replaced:
  assumes "find_poll i s = Some p" and "ql_status p = POLL_DRAFT" and "is_gov_management u (ql_condo p)"
    and "\<not> can_vote u \<or> some_role (grants_member (ql_condo p)) u"
  shows "\<exists>v t. update_poll e u i (options_patch os) s = (Inr v, t) \<and>
    gd_votes t = filter (\<lambda>v. vt_option v \<notin> qo_id ` set (ql_options p)) (gd_votes s)"
proof -
  let ?vs = "filter (\<lambda>v. vt_option v \<notin> qo_id ` set (ql_options p)) (gd_votes s)"
  have id: "ql_id p = i" using find_row_member assms(1) unfolding find_poll_def by metis
  have st: "effective_status (ve_now e) p = POLL_DRAFT" using assms(2) by (simp add: effective_status_def)
  obtain qs t where new: "new_options 0 (trim_options os) (s\<lparr>gd_votes := ?vs\<rparr>) = (Inr qs, t)" "gd_votes t = ?vs" "gd_polls t = gd_polls s"
    using new_options_return [of 0 "trim_options os" "s\<lparr>gd_votes := ?vs\<rparr>"] by auto
  let ?f = "\<lambda>p. (patched_poll (options_patch os) p)\<lparr>ql_updated := ve_now e\<rparr>"
  let ?t = "t\<lparr>gd_polls := set_row ql_id i ?f (set_row ql_id i (\<lambda>p. p\<lparr>ql_options := qs\<rparr>) (gd_polls s))\<rparr>"
  let ?p = "?f (p\<lparr>ql_options := qs\<rparr>)"
  have found: "find_poll i ?t = Some ?p" using assms(1) by (simp add: find_poll_def find_row_set_row patched_poll_def)
  have guards: "update_poll e u i (options_patch os) s =
      bnd (txn (bnd (replace_options i os) (\<lambda>_. bnd (set_poll e i (patched_poll (options_patch os)))
        (\<lambda>_. bnd (gets (find_poll i)) (\<lambda>found. need found (NotFound ''Not Found''))))))
        (\<lambda>p'. serialize_poll e p' u (effective_status (ve_now e) p' \<noteq> POLL_DRAFT) (effective_status (ve_now e) p' = POLL_CLOSED)) s"
    using assms(1, 3) st by (simp add: update_poll_def Let_def runs assert_gov_management_def only_if_def)
  have "replace_options i os s = (Inr (), t\<lparr>gd_polls := set_row ql_id i (\<lambda>p. p\<lparr>ql_options := qs\<rparr>) (gd_polls t)\<rparr>)"
    using new(1) assms(1) by (simp add: replace_options_def bnd_gets bnd_modify bnd_Inr modify_run)
  then have "bnd (replace_options i os) (\<lambda>_. bnd (set_poll e i (patched_poll (options_patch os)))
      (\<lambda>_. bnd (gets (find_poll i)) (\<lambda>found. need found (NotFound ''Not Found'')))) s = (Inr ?p, ?t)"
    using found by (simp add: bnd_Inr new(3) set_poll_def bnd_modify bnd_gets need_Some)
  moreover have "\<exists>v. serialize_poll e ?p u a b ?t = (Inr v, ?t)" for a b
  proof -
    have "wp (serialize_poll e ?p u a b) (\<lambda>_ t. t = ?t) (\<lambda>_. False) ?t"
      by (rule wp_serialize [of _ _ ?p]) (use found assms(4) id in \<open>simp_all add: patched_poll_def\<close>)
    from wp_total [OF this] show ?thesis by auto
  qed
  ultimately have "\<exists>v. update_poll e u i (options_patch os) s = (Inr v, ?t)" unfolding guards by (simp add: txn_returns)
  then show ?thesis using new(2) by auto
qed

text \<open>
  C40. Ballots are not immutable: in every state of the services, management can put an open poll back to
  draft and then give it new options, whatever votes it has; both calls succeed and no ballot of the
  poll is left.
\<close>

theorem redrafted_poll_loses_ballots:
  assumes "gov_start s0" and "gov_step\<^sup>*\<^sup>* s0 s" and "find_poll i s = Some p" and "effective_status (ve_now e) p = POLL_OPEN"
    and "is_gov_management u (ql_condo p)" and "\<not> can_vote u \<or> some_role (grants_member (ql_condo p)) u"
  shows "\<exists>v t w t'. update_poll e u i (status_patch POLL_DRAFT) s = (Inr v, t) \<and> gd_votes t = gd_votes s \<and>
    update_poll e u i (options_patch os) t = (Inr w, t') \<and> filter (\<lambda>v. vt_poll v = i) (gd_votes t') = []"
proof -
  let ?f = "\<lambda>p. (patched_poll (status_patch POLL_DRAFT) p)\<lparr>ql_updated := ve_now e\<rparr>"
  let ?t = "s\<lparr>gd_polls := set_row ql_id i ?f (gd_polls s)\<rparr>"
  obtain v where v: "update_poll e u i (status_patch POLL_DRAFT) s = (Inr v, ?t)"
    using drafted_again [OF assms(3-6)] by blast
  have p: "find_poll i ?t = Some (?f p)" "ql_status (?f p) = POLL_DRAFT" "ql_condo (?f p) = ql_condo p" "ql_options (?f p) = ql_options p"
    using assms(3) by (simp_all add: find_poll_def find_row_set_row patched_poll_def)
  obtain w t' where w: "update_poll e u i (options_patch os) ?t = (Inr w, t')"
    "gd_votes t' = filter (\<lambda>v. vt_option v \<notin> qo_id ` set (ql_options p)) (gd_votes s)"
    using options_replaced [OF p(1, 2), of u e os] assms(5, 6) p(3, 4) by auto
  have "vt_option x \<in> qo_id ` set (ql_options p)" if "x \<in> set (gd_votes s)" "vt_poll x = i" for x
    using gov_reached [OF assms(1, 2)] that assms(3) by (auto simp: gov_inv_def ballot_ok_def)
  then have "filter (\<lambda>v. vt_poll v = i) (gd_votes t') = []" by (auto simp: w(2) filter_empty_conv)
  with v w(1) show ?thesis by (intro exI conjI) auto
qed

theorem redrafted_poll_loses_ballots_witness:
  "length (filter (\<lambda>v. vt_poll v = ''id2'') (gd_votes sample_cast)) = 1 \<and>
   (\<exists>v t w t'. update_poll sample_visit_env sample_manager ''id2'' (status_patch POLL_DRAFT) sample_cast = (Inr v, t) \<and>
     update_poll sample_visit_env sample_manager ''id2'' (options_patch [(''Yes'', None)]) t = (Inr w, t') \<and>
     filter (\<lambda>v. vt_poll v = ''id2'') (gd_votes t') = [])"
proof -
  obtain p v where p: "find_poll ''id2'' sample_cast = Some p" "ql_condo p = ''c''" "ql_status p = POLL_OPEN" "ql_closes p = Some 2000000"
    and v: "gd_votes sample_cast = [v]" "vt_poll v = ''id2''" by (rule sample_cast_rows)
  then have "find_poll ''id2'' sample_cast = Some p" "effective_status (ve_now sample_visit_env) p = POLL_OPEN"
    "is_gov_management sample_manager (ql_condo p)" "\<not> can_vote sample_manager \<or> some_role (grants_member (ql_condo p)) sample_manager"
    using sample_people by (simp_all add: effective_status_def sample_visit_env_def)
  then have "\<exists>v t w t'. update_poll sample_visit_env sample_manager ''id2'' (status_patch POLL_DRAFT) sample_cast = (Inr v, t) \<and>
      gd_votes t = gd_votes sample_cast \<and>
      update_poll sample_visit_env sample_manager ''id2'' (options_patch [(''Yes'', None)]) t = (Inr w, t') \<and>
      filter (\<lambda>v. vt_poll v = ''id2'') (gd_votes t') = []"
    by (rule redrafted_poll_loses_ballots [OF sample_assembly_start sample_gov_reach(1)])
  moreover have "length (filter (\<lambda>v. vt_poll v = ''id2'') (gd_votes sample_cast)) = 1"
    using v by simp
  ultimately show ?thesis by blast
qed

end
