(* ===== verification/Spec2Isabelle.thy ===== *)
theory Spec2Isabelle
  imports Booking_Money Callbacks Form_Properties Meeting_Properties Visitor_Liveness
begin

text \<open>
  SmartResidence is a condominium management platform: a NestJS API over PostgreSQL (apps/api),
  a web client (apps/web), a mobile client (apps/mobile) and shared packages. This development
  models the parts of the API that keep its money and its rules: the ledger and the billing
  service, the general ledger, deposits, arrears restrictions, facility bookings, visitors, forms, polls and meetings, as methods on
  an explicit database.

  How methods are modelled. A service method is an action of \<open>Prelude\<close>: a function from the state
  to the thrown \<open>http_error\<close> or the returned value, and the state it leaves. \<open>bnd\<close> is await and
  sequence, \<open>ensure\<close> and \<open>need\<close> are the guards that throw, \<open>txn\<close> is \<open>prisma.$transaction\<close> (an exception
  rolls the writes back), \<open>try_log\<close> is a catch that only logs. A table is a list of rows in insertion
  order. Money and decimals are rationals: the columns' rounding to two decimals
  (\<open>Decimal(14,2)\<close>) and the rounding of binary floating point are not modelled, \<open>Math.round\<close> where
  the code calls it is (theory \<open>Money\<close>). Times are milliseconds since the epoch. Methods run one
  after the other; an interleaving is modelled where a property is about it, as the order of the
  reads and transactions of two calls.

  Theories, bottom up:
  \<^item> \<open>Prelude\<close>: actions, preservation rules (\<open>pres\<close>), weakest preconditions (\<open>wp\<close>), runs (\<open>runs\<close>),
    tables of rows with keys. \<open>Text\<close>, \<open>Money\<close>: trimming, decimal text, rounding. \<open>Auth\<close>: users, roles and
    the gates of the services (common/types/request-context.ts, shared-types/src/roles.ts), with
    the locale \<open>role_gate\<close> that every gate of the model interprets.
  \<^item> \<open>Billing_Db\<close>: the rows of prisma/schema.prisma and the database the billing services share.
    The locale \<open>row_store\<close> of \<open>Prelude\<close> and its interpretations give the laws of reading after writing.
  \<^item> \<open>Fee_Schedule\<close>, \<open>Ledger\<close>, \<open>Ledger_Reports\<close>: billing/fee-schedule.service.ts and
    billing/ledger.service.ts, the operational ledger with its idempotency keys, allocation of a
    payment over funds, and the reports drawn from it.
  \<^item> \<open>Gl\<close>: accounting/ (chart of accounts, balanced journals, postings).
  \<^item> \<open>Receipts\<close>, \<open>Gateways\<close>: billing/receipt.service.ts, receipt-template.ts and
    gateway-connection.service.ts.
  \<^item> \<open>Billing\<close>, \<open>Payments\<close>: billing/billing.service.ts, its invoices, settlement, prepayment credit,
    gateway callbacks, polling, manual payments, reviews, due sweep and recurring issue.
    \<open>Settlement\<close>, \<open>Billing_Invariants\<close>, \<open>Billing_Side\<close>, \<open>Billing_Steps\<close>, \<open>Billing_Properties\<close> and \<open>Callbacks\<close>
    hold their lemmas: what a settlement does, the invariant of invoices, payments and credit, the
    step relation whose steps are the calls of the service, and the properties of the reachable
    states.
  \<^item> \<open>Deposits\<close>, \<open>Deposit_Invariants\<close>, \<open>Deposit_Properties\<close>: billing/deposit.service.ts.
  \<^item> \<open>Access_Restriction\<close>, \<open>Access_Properties\<close>: access-restriction/.
  \<^item> \<open>Facility\<close>, \<open>Booking\<close>, \<open>Booking_Properties\<close>, \<open>Booking_Money\<close>: facility/. A booking settles its fee and
    deposit with the billing and deposit services inside its own transaction (\<open>on_part\<close> lifts a
    method on part of the state), so its properties rest on those of the services.
  \<^item> \<open>Calendar\<close>, \<open>Day_Bounds\<close>: dates of the proleptic Gregorian calendar and the binary search for the
    midnights of a condo's day (visitor/condo-timezone.ts).
  \<^item> \<open>Visitor_Rules\<close>, \<open>Visitor_Passes\<close>: settings, holidays and overnight rules of visits, phone numbers,
    access codes and QR payloads (visitor/visitor-settings.ts, holidays.ts, overnight-rules.ts,
    access-code.ts, shared-types/src/phone.ts).
  \<^item> \<open>Visitor_Db\<close>, \<open>Visitor_Gate\<close>, \<open>Visitor\<close>, \<open>Walk_In\<close>, \<open>Visitor_Desk\<close>, \<open>Recurring_Passes\<close>: the rows and the
    methods of visitor/visitor.service.ts, visitor-auto-close.service.ts, recurring-pass.service.ts and
    visitor-blacklist.service.ts. Visitors share the state of the billing and restriction services;
    the codes of visitors, recurring passes and form permits share one alphabet at the gate.
  \<^item> \<open>Visitor_Machine\<close>: the abstract desk (status machine and map of visits), the shape of a row, the
    invariant; \<open>Visitor_Changes\<close>, \<open>Visitor_Calls\<close>, \<open>Visitor_Reach\<close>: what each change of a table and each
    call does to them; \<open>Visitor_Properties\<close>, \<open>Visitor_Liveness\<close>: the step relation of the calls and
    the properties of its reachable states.
  \<^item> \<open>Forms\<close>, \<open>Form_Desk\<close>, \<open>Form_Reach\<close>, \<open>Form_Properties\<close>: forms/forms.service.ts and
    shared-types/src/forms.ts: templates, the checks of fields and answers, submissions and their
    review, and permits, whose codes are drawn from those of the visitor services. The step relation
    of \<open>Form_Properties\<close> runs the forms and the visitor services on one state.
  \<^item> \<open>Polls\<close>, \<open>Meetings\<close>, \<open>Meeting_Reach\<close>, \<open>Meeting_Properties\<close>: polls/polls.service.ts, its sweep
    and governance/governance.service.ts. The locale \<open>unique_index\<close> is what both services rely on for
    one ballot and one proxy for each unit. The step relation has every call of the two services that
    writes, and lets other services change owners and units, as long as a unit stays in its condo.
  Parameters. Answers of payment gateways, signature checks and decrypted credentials; the source
  of fresh ids (\<open>uuids\<close>, assumed injective where a property needs it); the decimal text of a number
  in an idempotency key (\<open>num_text\<close>, assumed injective); the runtime's URL parser; the host's time
  zone as a fixed offset; the text of a date in a locale; the clock.

  Bounds. No definition runs on fuel. The loops of the code are recursions on lists; those over a
  running number (the slots of a day, the chunks of a recurring issue) are functions with a
  termination proof, and where the code would not end for a value that its input check refuses,
  the definition says so.

  Not modelled: the controllers, DTO validation (their bounds are hypotheses where a property
  needs them), PDF, CSV and XML rendering, queues, sockets and notifications, encryption, storage,
  the clients, and the services that PROJECT.json lists as not modelled. Of the modelled services:
  the role a user acts in, in an audit row, labels and names that a view only shows, the copy of the
  results in the audit row of a closed vote, and dates that are not dates (times are integers).
\<close>

section \<open>The ledger\<close>

text \<open>
  C10. A payment is allocated exactly: its ledger entries lower what the unit owes by the amount,
  and raise the cash of the condo's funds by the amount in all, whatever the rounding of shares.
\<close>

theorem payment_allocation_exact:
  assumes "record_payment_allocation e i p amount d actor s = (r, t)"
    and "find_row inv_id i (invoices s) = Some iv"
    and "no_keys (''payment:'' @ p @ '':'') s"
    and "whole_sen amount"
  shows "unit_balance (inv_unit iv) t = unit_balance (inv_unit iv) s - amount \<and>
    (\<Sum>f \<leftarrow> all_funds. fund_cash (inv_condo iv) f t) =
      (\<Sum>f \<leftarrow> all_funds. fund_cash (inv_condo iv) f s) + amount"
proof -
  have "(\<Sum>f \<leftarrow> all_funds. sum_where (\<lambda>q. fst q = f) snd qs) = sum_list (map snd qs)"
    for qs :: "(ledger_fund \<times> rat) list"
  proof (induction qs)
    case (Cons q qs)
    then show ?case by (cases "fst q") (simp_all add: all_funds_def)
  qed (simp add: all_funds_def)
  note this [of "written_shares amount (inv_lines iv)"] written_shares_sum [OF assms(4), of "inv_lines iv"]
  then show ?thesis
    using record_payment_allocation_effect [OF assms]
    by (simp add: all_funds_def)
qed

theorem payment_allocation_exact_witness:
  "unit_balance ''u'' (snd (record_payment_allocation sample_env ''i'' ''p'' 40 None None
     (empty_db\<lparr>invoices := [sample_invoice ''i'' ISSUED 100 0 0]\<rparr>))) = - 40"
proof -
  let ?s = "empty_db\<lparr>invoices := [sample_invoice ''i'' ISSUED 100 0 0]\<rparr>"
  obtain r t where run: "record_payment_allocation sample_env ''i'' ''p'' 40 None None ?s = (r, t)"
    by (cases "record_payment_allocation sample_env ''i'' ''p'' 40 None None ?s")
  have "find_row inv_id ''i'' (invoices ?s) = Some (sample_invoice ''i'' ISSUED 100 0 0)"
    by (simp add: sample_invoice_def)
  from payment_allocation_exact [OF run this] run show ?thesis
    by (simp add: no_keys_def unit_balance_def ledger_sum_def) (simp add: sample_invoice_def)
qed

text \<open>
  C11. Voiding an invoice through \<open>reverseInvoiceCharges\<close> does not cancel its charges on the
  unit's statement: the reversal is an ADJUSTMENT of the negated amount and the statement
  subtracts it as a payment, so the unit is shown to owe the charges a second time, and the
  funds' cash drops although the charges never raised it.
\<close>

theorem void_doubles_statement:
  assumes "reverse_invoice_charges e iv actor reason s = (r, t)"
    and "no_keys (''invoice:'' @ ir_id iv @ '':void:'') s"
    and "distinct (map le_id (ledger s))"
  shows "unit_balance (ir_unit iv) t =
      unit_balance (ir_unit iv) s + sum_list (map le_amount (charges_of (ir_id iv) s)) \<and>
    fund_cash (ir_condo iv) f t =
      fund_cash (ir_condo iv) f s - sum_where (\<lambda>l. le_fund l = f) le_amount (charges_of (ir_id iv) s)"
  using reverse_invoice_charges_effect [OF assms] by simp

theorem void_doubles_statement_witness:
  "unit_balance ''u'' (snd (reverse_invoice_charges sample_env sample_ref None None
     (empty_db\<lparr>ledger := [sample_entry ''e1'' CHARGE 100 ''invoice:i:charge:0'' 10]\<rparr>))) = 200"
proof -
  let ?s = "empty_db\<lparr>ledger := [sample_entry ''e1'' CHARGE 100 ''invoice:i:charge:0'' 10]\<rparr>"
  obtain r t where run: "reverse_invoice_charges sample_env sample_ref None None ?s = (r, t)"
    by (cases "reverse_invoice_charges sample_env sample_ref None None ?s")
  have "no_keys (''invoice:'' @ ir_id sample_ref @ '':void:'') ?s"
    by (simp add: no_keys_def sample_entry_def sample_ref_def starts_with_def)
  from void_doubles_statement [OF run this] run show ?thesis
    by (simp add: charges_of_def sample_ref_def unit_balance_def ledger_sum_def)
       (simp add: sample_entry_def unit_weight_def)
qed

section \<open>Accounting\<close>

text \<open>
  C14. Double entry: every posting (invoice, payment, deposit, vendor bill, manual journal) leaves
  journals that each have at least two lines and equal debits and credits, to the sen, whether
  the posting succeeds or fails.
\<close>

theorem journals_stay_balanced:
  assumes "journals_balanced s"
  shows "journals_balanced (snd (post_entry p s)) \<and>
    journals_balanced (snd (post_manual u condo d x ls k s)) \<and>
    journals_balanced (snd (post_invoice_charges e i condo n at' cls a s)) \<and>
    journals_balanced (snd (post_payment e i condo n fas at' a s)) \<and>
    journals_balanced (snd (post_ledger_entry e at' le s)) \<and>
    journals_balanced (snd (post_vendor_bill_approved i condo n d m f y a s)) \<and>
    journals_balanced (snd (post_vendor_bill_paid i condo n d m f a s))"
  using assms
  by (intro conjI; intro preserves_snd [of journals_balanced] postings_balanced
      post_entry_balanced post_manual_balanced post_ledger_entry_balanced)

theorem journals_stay_balanced_witness:
  "journals_balanced (snd (post_vendor_bill_paid ''b'' ''c'' ''VB-1'' 5 120 MAINTENANCE None empty_db))"
proof -
  have "journals_balanced empty_db" by (simp add: journals_balanced_def)
  from journals_stay_balanced [OF this] show ?thesis by blast
qed

text \<open>
  Posting under an idempotency key happens once: posting the same entry again returns the
  journal of the first time and changes nothing.
\<close>

theorem posting_idempotent:
  assumes "post_entry p s = (Inr j, t)" and "truthy (po_key p)"
  shows "post_entry p t = (Inr j, t)"
  using assms by (rule post_entry_once)

theorem posting_idempotent_witness:
  "\<exists>p s j t. truthy (po_key p) \<and> post_entry p s = (Inr j, t) \<and> post_entry p t = (Inr j, t) \<and>
     je_lines j = po_lines p"
proof -
  let ?acc = "\<lparr>ga_id = ''a'', ga_condo = ''c'', ga_code = ''1000'', ga_name = [], ga_type = ASSET,
    ga_fund = MAINTENANCE, ga_parent = None, ga_active = True\<rparr>"
  let ?s = "empty_db\<lparr>gl_accounts := [?acc]\<rparr>"
  let ?p = "\<lparr>po_condo = ''c'', po_date = 0, po_desc = [], po_source = MANUAL_SOURCE, po_source_id = None,
    po_by = None, po_key = Some ''k'', po_lines = pair_lines ?acc ?acc 10 MAINTENANCE None\<rparr>"
  have "ensure_seeded ''c'' ?s = (Inr (), ?s)"
    by (rule seeded_run) (simp add: count_where_def)
  moreover have "normalized (po_lines ?p) = po_lines ?p" by (simp add: normalized_def pair_lines_def)
  moreover have "journal_balanced (po_lines ?p)"
    by (simp add: journal_balanced_def debits_def credits_def pair_lines_def)
  ultimately obtain j t where run: "post_entry ?p ?s = (Inr j, t)" and j: "je_lines j = po_lines ?p"
    by (auto simp: post_entry_def bnd_def gets_def find_journal_def ensure_def ret_def modify_def
        new_id_def Let_def pair_lines_def)
  have key: "truthy (po_key ?p)" by (simp add: truthy_def)
  from posting_idempotent [OF run key] run j key show ?thesis by blast
qed

end
